(* ===== verification/Driver_Prelude.thy ===== *)
theory Driver_Prelude
  imports Main "HOL-Library.Word" "HOL-Library.Multiset"
begin

text \<open>
  Shared vocabulary of the driver model: machine integers, error codes, the kernel and the
  hardware as seen by the drivers, and the generic lemmas the component theories use.

  The drivers run against code and hardware that is not part of the repository: device
  registers reached through \<^verbatim>\<open>readq\<close> and \<^verbatim>\<open>writeq\<close>, and functions of the Linux kernel.
  Both are an environment the model is parametric in. A \<open>world\<close> holds that environment and
  the trace of everything the driver has done to it, newest event first. What a register read
  or a kernel call returns is a function of the whole trace so far, so an environment may keep
  any state of its own; the driver only observes its answers.
\<close>

unbundle bit_operations_syntax

named_theorems world_defs \<open>definitions of the primitive operations on the world\<close>
named_theorems runs_intros \<open>an operation only appends to the trace\<close>

type_synonym u8 = "8 word"
type_synonym u16 = "16 word"
type_synonym u32 = "32 word"
type_synonym u64 = "64 word"

subsection \<open>Error codes\<close>

text \<open>
  The kernel's convention of returning a negative error number becomes the left side of a sum.
  \<open>EOTHER\<close> stands for the codes that called kernel functions return and the drivers only pass
  on.
\<close>

datatype errno =
  EPERM | ENOENT | EIO | ENOMEM | EFAULT | EBUSY | EEXIST | ENODEV | EINVAL | ETIMEDOUT
| EOTHER nat

type_synonym 'a res = "errno + 'a"

subsection \<open>The kernel and the hardware\<close>

text \<open>The kernel functions whose calls the model records, by the name the source uses.\<close>

datatype kfun =
  Kzalloc | Kcalloc | Kmalloc | Kasprintf | Vzalloc | Kfree | Vfree | Devm_kfree
| Memdup_user | Eventfd_ctx_fdget | Eventfd_ctx_put | Request_irq | Free_irq
| Get_user_pages_fast | Put_page | Dma_map_page | Dma_unmap_page
| Copy_from_user | Copy_to_user | Access_ok | Remap_pfn_range
| Alloc_chrdev_region | Unregister_chrdev_region
| Sysfs_create | Sysfs_remove | Cdev_add | Cdev_del
| Platform_device_alloc | Platform_device_add | Platform_device_del | Platform_device_put
| Get_device | Put_device | Idr_alloc | Idr_remove | Pci_ioremap_bar | Pci_iounmap
| Pci_enable_sriov | Pci_disable_sriov | Device_register | Device_unregister
| Kernel_fpu_begin | Kernel_fpu_end | Mutex_trylock | Mutex_unlock | Try_module_get | Module_put
| Class_find_device | Ida_simple_get | Ida_simple_remove | Device_add | Request_firmware
| Release_firmware | Platform_device_unregister | Device_create | Device_initialize
| Device_find_child
| Kfn string                     \<comment> \<open>any other kernel function, by its name\<close>

datatype event =
  RdQ u64 u64                      \<comment> \<open>\<open>readq\<close> of an address and the value it returned\<close>
| WrQ u64 u64                      \<comment> \<open>\<open>writeq\<close> to an address of a value\<close>
| RdL u64 u32
| WrL u64 u32
| RdB u64 u8
| WrB u64 u8
| Wr512 u64 "u8 list"            \<comment> \<open>one store of 64 bytes\<close>
| Udelay nat
| Call kfun "int list" "int list res"

record world =
  w_readq :: "event list \<Rightarrow> u64 \<Rightarrow> u64"
  w_readl :: "event list \<Rightarrow> u64 \<Rightarrow> u32"
  w_readb :: "event list \<Rightarrow> u64 \<Rightarrow> u8"
  w_kcall :: "event list \<Rightarrow> kfun \<Rightarrow> int list \<Rightarrow> int list res"
  w_trace :: "event list"

definition emit :: "event \<Rightarrow> world \<Rightarrow> world" where [world_defs]:
  "emit e w = w\<lparr>w_trace := e # w_trace w\<rparr>"

definition readq :: "u64 \<Rightarrow> world \<Rightarrow> u64 \<times> world" where [world_defs]:
  "readq a w = (let v = w_readq w (w_trace w) a in (v, emit (RdQ a v) w))"

definition writeq :: "u64 \<Rightarrow> u64 \<Rightarrow> world \<Rightarrow> world" where [world_defs]:
  "writeq v a w = emit (WrQ a v) w"

definition readl :: "u64 \<Rightarrow> world \<Rightarrow> u32 \<times> world" where [world_defs]:
  "readl a w = (let v = w_readl w (w_trace w) a in (v, emit (RdL a v) w))"

definition writel :: "u32 \<Rightarrow> u64 \<Rightarrow> world \<Rightarrow> world" where [world_defs]:
  "writel v a w = emit (WrL a v) w"

definition readb :: "u64 \<Rightarrow> world \<Rightarrow> u8 \<times> world" where [world_defs]:
  "readb a w = (let v = w_readb w (w_trace w) a in (v, emit (RdB a v) w))"

definition writeb :: "u8 \<Rightarrow> u64 \<Rightarrow> world \<Rightarrow> world" where [world_defs]:
  "writeb v a w = emit (WrB a v) w"

definition udelay :: "nat \<Rightarrow> world \<Rightarrow> world" where [world_defs]:
  "udelay n w = emit (Udelay n) w"

definition kcall :: "kfun \<Rightarrow> int list \<Rightarrow> world \<Rightarrow> int list res \<times> world" where [world_defs]:
  "kcall f xs w = (let r = w_kcall w (w_trace w) f xs in (r, emit (Call f xs r) w))"

text \<open>A kernel function that returns nothing.\<close>

definition kvoid :: "kfun \<Rightarrow> int list \<Rightarrow> world \<Rightarrow> world" where [world_defs]:
  "kvoid f xs w = emit (Call f xs (Inr [])) w"

text \<open>A kernel function of which only success or failure is used.\<close>

definition kstatus :: "kfun \<Rightarrow> int list \<Rightarrow> world \<Rightarrow> unit res \<times> world" where [world_defs]:
  "kstatus f xs w =
     (case kcall f xs w of (Inl e, w') \<Rightarrow> (Inl e, w') | (Inr _, w') \<Rightarrow> (Inr (), w'))"

text \<open>A kernel function that returns a pointer or a number.\<close>

definition ret_val :: "int list \<Rightarrow> int" where
  "ret_val vs = (case vs of [] \<Rightarrow> 0 | v # _ \<Rightarrow> v)"

definition kvalue :: "kfun \<Rightarrow> int list \<Rightarrow> world \<Rightarrow> int res \<times> world" where [world_defs]:
  "kvalue f xs w =
     (case kcall f xs w of (Inl e, w') \<Rightarrow> (Inl e, w') | (Inr vs, w') \<Rightarrow> (Inr (ret_val vs), w'))"

text \<open>What goes back to user space is recorded as the arguments of \<^verbatim>\<open>copy_to_user\<close>.\<close>

definition copy_to_user :: "int list \<Rightarrow> world \<Rightarrow> unit res \<times> world" where
  "copy_to_user vs w =
     (case kstatus Copy_to_user vs w of (Inl _, w1) \<Rightarrow> (Inl EFAULT, w1) | (Inr _, w1) \<Rightarrow> (Inr (), w1))"

subsection \<open>Traces\<close>

text \<open>
  \<open>runs w w'\<close>: the same environment, and a trace that extends the old one. Every operation of
  the drivers satisfies it.
\<close>

definition runs :: "world \<Rightarrow> world \<Rightarrow> bool" where
  "runs w w' \<longleftrightarrow> (\<exists>es. w' = w\<lparr>w_trace := es @ w_trace w\<rparr>)"

lemma runs_refl [runs_intros, simp]: "runs w w"
  by (auto simp: runs_def intro: exI [where x = "[]"])

lemma runs_trans [trans]: "runs w w' \<Longrightarrow> runs w' w'' \<Longrightarrow> runs w w''"
  unfolding runs_def by (metis append.assoc world.simps(5) world.surjective world.update_convs(5))

lemma runs_emit [runs_intros, simp]: "runs w (emit e w)"
  by (auto simp: runs_def emit_def intro: exI [where x = "[e]"])

lemma runs_readq [runs_intros, simp]: "runs w (snd (readq a w))"
  by (simp add: readq_def Let_def)

lemma runs_writeq [runs_intros, simp]: "runs w (writeq v a w)"
  by (simp add: writeq_def)

lemma runs_udelay [runs_intros, simp]: "runs w (udelay n w)"
  by (simp add: udelay_def)

lemma runs_kcall [runs_intros, simp]: "runs w (snd (kcall f xs w))"
  by (simp add: kcall_def Let_def)

lemma runs_kvoid [runs_intros, simp]: "runs w (kvoid f xs w)"
  by (simp add: kvoid_def)

lemma runs_kstatus [runs_intros, simp]: "runs w (snd (kstatus f xs w))"
  by (simp add: kstatus_def kcall_def Let_def split: sum.split)

lemma runs_kvalue [runs_intros, simp]: "runs w (snd (kvalue f xs w))"
  by (simp add: kvalue_def kcall_def Let_def split: sum.split)

lemma runs_after:
  "runs w w1 \<Longrightarrow> runs w (snd (readq a w1))" "runs w w1 \<Longrightarrow> runs w (writeq v a w1)"
  "runs w w1 \<Longrightarrow> runs w (udelay n w1)" "runs w w1 \<Longrightarrow> runs w (snd (kcall f xs w1))"
  "runs w w1 \<Longrightarrow> runs w (kvoid f xs w1)" "runs w w1 \<Longrightarrow> runs w (snd (kstatus f xs w1))"
  "runs w w1 \<Longrightarrow> runs w (snd (kvalue f xs w1))"
  by (rule runs_trans, assumption, simp)+

lemma emit_sel [simp]:
  "w_readq (emit e w) = w_readq w" "w_readl (emit e w) = w_readl w"
  "w_readb (emit e w) = w_readb w"
  "w_kcall (emit e w) = w_kcall w" "w_trace (emit e w) = e # w_trace w"
  by (simp_all add: emit_def)

lemma emit_inject: "emit e w = emit e' w \<longleftrightarrow> e = e'"
  by (metis emit_sel(5) list.inject)

text \<open>What was done between two worlds, in the order it was done.\<close>

definition events_between :: "world \<Rightarrow> world \<Rightarrow> event list" where
  "events_between w w' = rev (take (length (w_trace w') - length (w_trace w)) (w_trace w'))"

fun writes_of :: "event list \<Rightarrow> (u64 \<times> u64) list" where
  "writes_of [] = []"
| "writes_of (WrQ a v # es) = (a, v) # writes_of es"
| "writes_of (RdQ a v # es) = writes_of es"
| "writes_of (RdL a l # es) = writes_of es"
| "writes_of (WrL a l # es) = writes_of es"
| "writes_of (RdB a b # es) = writes_of es"
| "writes_of (WrB a b # es) = writes_of es"
| "writes_of (Wr512 a bs # es) = writes_of es"
| "writes_of (Udelay n # es) = writes_of es"
| "writes_of (Call f xs r # es) = writes_of es"

lemma writes_of_append [simp]: "writes_of (xs @ ys) = writes_of xs @ writes_of ys"
  by (induction xs rule: writes_of.induct) auto

lemma events_between_trace:
  "w_trace w' = es @ w_trace w \<Longrightarrow> events_between w w' = rev es"
  by (simp add: events_between_def)

text \<open>The environment stays and exactly these register writes were made, in this order.\<close>

definition wrote :: "world \<Rightarrow> world \<Rightarrow> (u64 \<times> u64) list \<Rightarrow> bool" where
  "wrote w w' ws \<longleftrightarrow> (\<exists>es. w' = w\<lparr>w_trace := es @ w_trace w\<rparr> \<and> writes_of (rev es) = ws)"

lemma wrote_refl [simp]: "wrote w w []"
  by (auto simp: wrote_def intro: exI [where x = "[]"])

lemma wrote_trans:
  assumes "wrote w w' ws" and "wrote w' w'' ws'"
  shows "wrote w w'' (ws @ ws')"
proof -
  obtain es es' where "w' = w\<lparr>w_trace := es @ w_trace w\<rparr>" "writes_of (rev es) = ws"
    "w'' = w'\<lparr>w_trace := es' @ w_trace w'\<rparr>" "writes_of (rev es') = ws'"
    using assms by (auto simp: wrote_def)
  then show ?thesis
    unfolding wrote_def by (intro exI [of _ "es' @ es"]) simp
qed

lemma wrote_emit: "wrote w (emit e w) (writes_of [e])"
  by (auto simp: wrote_def emit_def intro: exI [where x = "[e]"])

lemma wrote_readq: "readq a w = (v, w') \<Longrightarrow> wrote w w' []"
  using wrote_emit [of w "RdQ a v"] by (auto simp: readq_def Let_def)

lemma wrote_writeq: "wrote w (writeq v a w) [(a, v)]"
  using wrote_emit [of w "WrQ a v"] by (simp add: writeq_def)

lemma wrote_udelay: "wrote w (udelay n w) []"
  using wrote_emit [of w "Udelay n"] by (simp add: udelay_def)

lemma wrote_kvoid: "wrote w (kvoid f xs w) []"
  using wrote_emit [of w "Call f xs (Inr [])"] by (simp add: kvoid_def)

lemma wrote_kcall: "kcall f xs w = (r, w') \<Longrightarrow> wrote w w' []"
  using wrote_emit [of w "Call f xs r"] by (auto simp: kcall_def Let_def)

lemma wrote_kstatus: "kstatus f xs w = (r, w') \<Longrightarrow> wrote w w' []"
  by (auto simp: kstatus_def split: prod.splits sum.splits dest!: wrote_kcall)

lemma wrote_kvalue: "kvalue f xs w = (r, w') \<Longrightarrow> wrote w w' []"
  by (auto simp: kvalue_def split: prod.splits sum.splits dest!: wrote_kcall)

lemma wrote_events: "wrote w w' ws \<Longrightarrow> writes_of (events_between w w') = ws"
  by (auto simp: wrote_def events_between_def)

lemma wrote_env: "wrote w w' ws \<Longrightarrow> w_readq w' = w_readq w \<and> w_kcall w' = w_kcall w"
  by (auto simp: wrote_def)

lemma writes_of_rev: "writes_of (rev es) = rev (writes_of es)"
  by (induction es rule: writes_of.induct) auto

text \<open>The last value written to a register, if any.\<close>

fun last_write :: "event list \<Rightarrow> u64 \<Rightarrow> u64 option" where
  "last_write [] a = None"
| "last_write (e # es) a =
     (case e of WrQ b v \<Rightarrow> if a = b then Some v else last_write es a | _ \<Rightarrow> last_write es a)"

lemma last_write_other [simp]:
  "last_write (RdQ b v # es) a = last_write es a"
  "last_write (Udelay n # es) a = last_write es a"
  "last_write (Call f xs r # es) a = last_write es a"
  "last_write (Wr512 b bs # es) a = last_write es a"
  by simp_all

subsection \<open>Kernel resources\<close>

text \<open>
  What a driver takes from the kernel and has to give back. \<open>acquired\<close> and \<open>released\<close> read the
  resources off a recorded call; \<open>balance\<close> of a trace is, per resource, how often it was taken
  minus how often it was given back.
\<close>

datatype resource =
  RIrq "int list"          \<comment> \<open>an interrupt line with the argument it was requested for\<close>
| REventfd int             \<comment> \<open>a reference to an eventfd context\<close>
| RMem int                 \<comment> \<open>a block of kernel memory\<close>
| RPage int                \<comment> \<open>a pinned user page, by its page frame number\<close>
| RDma int                 \<comment> \<open>a DMA mapping, by its bus address\<close>
| RChrdev int              \<comment> \<open>a range of character device numbers\<close>
| RDevice int              \<comment> \<open>a reference to a device\<close>
| RId int int              \<comment> \<open>an id of an allocator (by type) of ids\<close>
| RIomap int               \<comment> \<open>a mapping of a PCI BAR, by its address\<close>
| RModule                  \<comment> \<open>a reference to a module\<close>
| RNamed string            \<comment> \<open>anything else, by the function that takes it\<close>

text \<open>The pairs of other functions that take and give back one thing.\<close>

definition named_pairs :: "(string \<times> string) list" where
  "named_pairs =
     [(''pci_disable_device'', ''pci_enable_device''),
      (''pci_release_regions'', ''pci_request_regions''),
      (''pci_free_irq_vectors'', ''pci_alloc_irq_vectors''),
      (''sg_free_table'', ''sg_alloc_table_from_pages''),
      (''mutex_unlock'', ''mutex_trylock'')]"

fun acquired :: "event \<Rightarrow> resource multiset" where
  "acquired (Call f xs (Inr vs)) =
     (case f of
        Request_irq \<Rightarrow> {#RIrq xs#}
      | Eventfd_ctx_fdget \<Rightarrow> {#REventfd (ret_val vs)#}
      | Kasprintf \<Rightarrow> {#RMem (ret_val vs)#}
      | Kzalloc \<Rightarrow> {#RMem (ret_val vs)#}
      | Kcalloc \<Rightarrow> {#RMem (ret_val vs)#}
      | Kmalloc \<Rightarrow> {#RMem (ret_val vs)#}
      | Vzalloc \<Rightarrow> {#RMem (ret_val vs)#}
      | Memdup_user \<Rightarrow> {#RMem (ret_val vs)#}
      | Get_user_pages_fast \<Rightarrow> mset (map RPage vs)
      | Dma_map_page \<Rightarrow> {#RDma (ret_val vs)#}
      | Alloc_chrdev_region \<Rightarrow> {#RChrdev (ret_val vs)#}
      | Get_device \<Rightarrow> {#RDevice (ret_val xs)#}
      | Class_find_device \<Rightarrow> {#RDevice (ret_val vs)#}
      | Device_find_child \<Rightarrow> {#RDevice (ret_val vs)#}
      | Platform_device_alloc \<Rightarrow> {#RDevice (ret_val vs)#}
      | Device_create \<Rightarrow> {#RDevice (ret_val vs)#}
      | Idr_alloc \<Rightarrow> {#RId (ret_val xs) (ret_val vs)#}
      | Ida_simple_get \<Rightarrow> {#RId (-1) (ret_val vs)#}
      | Pci_ioremap_bar \<Rightarrow> {#RIomap (ret_val vs)#}
      | Try_module_get \<Rightarrow> {#RModule#}
      | Device_add \<Rightarrow> {#RDevice (ret_val xs)#}
      | Device_initialize \<Rightarrow> {#RDevice (ret_val xs)#}
      | Request_firmware \<Rightarrow> {#RNamed ''request_firmware''#}
      | Kfn f \<Rightarrow> (if f \<in> snd ` set named_pairs then {#RNamed f#} else {#})
      | _ \<Rightarrow> {#})"
| "acquired e = {#}"

fun released :: "event \<Rightarrow> resource multiset" where
  "released (Call f xs r) =
     (case f of
        Free_irq \<Rightarrow> {#RIrq xs#}
      | Eventfd_ctx_put \<Rightarrow> {#REventfd (ret_val xs)#}
      | Kfree \<Rightarrow> {#RMem (ret_val xs)#}
      | Devm_kfree \<Rightarrow> {#RMem (ret_val xs)#}
      | Vfree \<Rightarrow> {#RMem (ret_val xs)#}
      | Put_page \<Rightarrow> {#RPage (ret_val xs)#}
      | Dma_unmap_page \<Rightarrow> {#RDma (ret_val xs)#}
      | Unregister_chrdev_region \<Rightarrow> {#RChrdev (ret_val xs)#}
      | Put_device \<Rightarrow> {#RDevice (ret_val xs)#}
      | Platform_device_put \<Rightarrow> {#RDevice (ret_val xs)#}
      | Platform_device_unregister \<Rightarrow> {#RDevice (ret_val xs)#}
      | Device_unregister \<Rightarrow> {#RDevice (ret_val xs)#}
      | Idr_remove \<Rightarrow> {#RId (ret_val xs) (ret_val (tl xs))#}
      | Ida_simple_remove \<Rightarrow> {#RId (-1) (ret_val xs)#}
      | Pci_iounmap \<Rightarrow> {#RIomap (ret_val xs)#}
      | Module_put \<Rightarrow> {#RModule#}
      | Release_firmware \<Rightarrow> {#RNamed ''request_firmware''#}
      | Kfn f \<Rightarrow> (case map_of named_pairs f of None \<Rightarrow> {#} | Some g \<Rightarrow> {#RNamed g#})
      | _ \<Rightarrow> {#})"
| "released e = {#}"

definition balance :: "event list \<Rightarrow> resource \<Rightarrow> int" where
  "balance es r =
     (\<Sum>e\<leftarrow>es. int (count (acquired e) r) - int (count (released e) r))"

lemma balance_Nil [simp]: "balance [] r = 0"
  by (simp add: balance_def)

lemma balance_Cons [simp]:
  "balance (e # es) r =
     int (count (acquired e) r) - int (count (released e) r) + balance es r"
  by (simp add: balance_def)

lemma balance_append [simp]: "balance (es @ fs) r = balance es r + balance fs r"
  by (simp add: balance_def)

text \<open>Register accesses and delays only: no kernel call, so the balance stays.\<close>

fun is_call :: "event \<Rightarrow> bool" where
  "is_call (Call f xs r) = True"
| "is_call e = False"

definition mmio_only :: "world \<Rightarrow> world \<Rightarrow> bool" where
  "mmio_only w w' \<longleftrightarrow> w_kcall w' = w_kcall w \<and>
     (\<exists>es. w_trace w' = es @ w_trace w \<and> (\<forall>e \<in> set es. \<not> is_call e))"

lemma mmio_only_refl [simp]: "mmio_only w w"
  by (simp add: mmio_only_def)

lemma mmio_only_trans [trans]: "mmio_only w w' \<Longrightarrow> mmio_only w' w'' \<Longrightarrow> mmio_only w w''"
  unfolding mmio_only_def by (metis append.assoc Un_iff set_append)

lemma mmio_only_emit: "\<not> is_call e \<Longrightarrow> mmio_only w (emit e w)"
  by (auto simp: mmio_only_def intro: exI [where x = "[e]"])

lemma mmio_only_readq: "readq a w = (v, w') \<Longrightarrow> mmio_only w w'"
  by (auto simp: readq_def Let_def intro: mmio_only_emit)

lemma mmio_only_writeq: "mmio_only w (writeq v a w)"
  by (auto simp: writeq_def intro: mmio_only_emit)

lemma mmio_only_udelay: "mmio_only w (udelay n w)"
  by (auto simp: udelay_def intro: mmio_only_emit)

lemma balance_no_call: "\<forall>e \<in> set es. \<not> is_call e \<Longrightarrow> balance es q = 0"
proof (induction es)
  case (Cons e es)
  then show ?case by (cases e) auto
qed simp

lemma mmio_only_balance: "mmio_only w w' \<Longrightarrow> balance (w_trace w') q = balance (w_trace w) q"
  by (auto simp: mmio_only_def balance_no_call)

text \<open>
  A register file: the answer of hardware whose registers read back what was last written. It
  is used to state what a plain register does and to build witnesses.
\<close>

fun reg_file :: "(u64 \<Rightarrow> u64) \<Rightarrow> event list \<Rightarrow> u64 \<Rightarrow> u64" where
  "reg_file init [] a = init a"
| "reg_file init (e # es) a =
     (case e of WrQ b v \<Rightarrow> if a = b then v else reg_file init es a | _ \<Rightarrow> reg_file init es a)"

text \<open>A world whose 64-bit registers are a register file and whose kernel calls all succeed.\<close>

definition quiet_world :: "(u64 \<Rightarrow> u64) \<Rightarrow> world" where
  "quiet_world init =
     \<lparr>w_readq = reg_file init, w_readl = (\<lambda>_ _. 0), w_readb = (\<lambda>_ _. 0),
      w_kcall = (\<lambda>_ _ _. Inr []), w_trace = []\<rparr>"

subsection \<open>Generic lemmas\<close>

lemma word_and_mask_small:
  fixes x :: "'a::len word"
  assumes "unat x < 2 ^ n"
  shows "x AND mask n = x"
  using assms
  by (metis take_bit_eq_mask take_bit_nat_eq_self_iff unsigned_take_bit_eq
      unsigned_word_eqI)

lemma unat_u64_less: "unat (x :: u64) < 2 ^ 64"
  by (rule order.strict_trans2 [OF unsigned_less]) simp

lemma unat_u32_less: "unat (x :: u32) < 2 ^ 32"
  by (rule order.strict_trans2 [OF unsigned_less]) simp

text \<open>A sum of 64-bit numbers that does not wrap, and one that does.\<close>

lemma unat_add64: "unat (x :: u64) + unat y < 2 ^ 64 \<Longrightarrow> unat (x + y) = unat x + unat y"
  by (simp add: unat_word_ariths)

lemma unat_add64_wrap:
  "\<not> unat (x :: u64) + unat y < 2 ^ 64 \<Longrightarrow> unat (x + y) = unat x + unat y - 2 ^ 64"
  using unat_u64_less [of x] unat_u64_less [of y]
  by (simp add: unat_word_ariths le_mod_geq)

lemma list_all_nth: "list_all P xs \<Longrightarrow> i < length xs \<Longrightarrow> P (xs ! i)"
  by (simp add: list_all_length)

lemma sum_list_map_update:
  fixes g :: "'a \<Rightarrow> int"
  shows "i < length xs \<Longrightarrow>
    (\<Sum>x\<leftarrow>xs[i := y]. g x) = (\<Sum>x\<leftarrow>xs. g x) - g (xs ! i) + g y"
  by (induction xs arbitrary: i) (auto split: nat.split)

lemma length_filter_sum: "int (length (filter P xs)) = (\<Sum>x\<leftarrow>xs. of_bool (P x))"
  by (induction xs) auto

lemma length_filter_update:
  "i < length xs \<Longrightarrow> int (length (filter P (xs[i := d]))) =
     int (length (filter P xs)) + of_bool (P d) - of_bool (P (xs ! i))"
  by (simp add: length_filter_sum sum_list_map_update)

end
