(* ===== verification/Feature_Regs.thy ===== *)
theory Feature_Regs
  imports Driver_Prelude
begin

text \<open>
  The register map of \<^verbatim>\<open>include/intel/feature-dev.h\<close>. Every 64-bit register of the header is
  a union of \<open>u64 csr\<close> and a byte-packed struct of bit-fields; it is modelled as the list of its
  members, lowest bits first, and the two accesses the drivers make (\<open>x = reg.member\<close> and
  \<open>reg.member = x\<close>) are \<open>get_field\<close> and \<open>set_field\<close>. Every register block is the list of its
  members with their sizes in bytes, from which \<open>offset_of\<close> and \<open>sizeof_regs\<close> follow.

  The lemmas give the bit-level meaning of the two accesses, the laws between them, and that
  every layout of the header fills its 64 bits exactly with every whole member on a byte
  boundary, so that packing leaves no gap and the positions computed here are the real ones.
\<close>

subsection \<open>Bit-fields\<close>

text \<open>\<open>Bits n k\<close> is a bit-field of \<open>k\<close> bits, \<open>Whole n k\<close> an ordinary member of \<open>k\<close> bits.\<close>

datatype member = Bits (member_name: string) (member_width: nat)
  | Whole (member_name: string) (member_width: nat)

type_synonym layout = "member list"
type_synonym regset = "(string \<times> nat) list"

definition layout_width :: "layout \<Rightarrow> nat" where
  "layout_width l = sum_list (map member_width l)"

fun field_pos :: "layout \<Rightarrow> string \<Rightarrow> (nat \<times> nat) option" where
  "field_pos [] n = None"
| "field_pos (m # l) n =
     (if member_name m = n then Some (0, member_width m)
      else map_option (\<lambda>(pos, k). (member_width m + pos, k)) (field_pos l n))"

definition get_field :: "layout \<Rightarrow> string \<Rightarrow> u64 \<Rightarrow> u64" where
  "get_field l n csr =
     (case field_pos l n of None \<Rightarrow> 0 | Some (pos, k) \<Rightarrow> take_bit k (drop_bit pos csr))"

definition set_field :: "layout \<Rightarrow> string \<Rightarrow> u64 \<Rightarrow> u64 \<Rightarrow> u64" where
  "set_field l n v csr =
     (case field_pos l n of None \<Rightarrow> csr
      | Some (pos, k) \<Rightarrow>
          (csr AND NOT (push_bit pos (mask k))) OR push_bit pos (take_bit k v))"

text \<open>The layout rule: names are unique, whole members start on a byte, 64 bits in all.\<close>

fun byte_aligned :: "nat \<Rightarrow> layout \<Rightarrow> bool" where
  "byte_aligned pos [] = True"
| "byte_aligned pos (Bits n k # l) = byte_aligned (pos + k) l"
| "byte_aligned pos (Whole n k # l) = (8 dvd pos \<and> byte_aligned (pos + k) l)"

definition wf_layout :: "layout \<Rightarrow> bool" where
  "wf_layout l \<longleftrightarrow>
     distinct (map member_name l) \<and> byte_aligned 0 l \<and> layout_width l = 64"

definition sizeof_csr :: "layout \<Rightarrow> nat" where
  "sizeof_csr l = layout_width l div 8"

subsection \<open>Register blocks\<close>

definition sizeof_regs :: "regset \<Rightarrow> nat" where
  "sizeof_regs r = sum_list (map snd r)"

fun offset_of :: "regset \<Rightarrow> string \<Rightarrow> nat" where
  "offset_of [] n = 0"
| "offset_of ((m, k) # r) n = (if m = n then 0 else k + offset_of r n)"

text \<open>The address of a member of the block at \<open>base\<close>: \<open>&base->member\<close>.\<close>

definition reg_addr :: "regset \<Rightarrow> string \<Rightarrow> u64 \<Rightarrow> u64" where
  "reg_addr r n base = base + of_nat (offset_of r n)"

subsection \<open>The bit-level meaning of the accesses\<close>

lemma bit_get_field:
  "field_pos l n = Some (pos, k) \<Longrightarrow> bit (get_field l n csr) i \<longleftrightarrow> i < k \<and> bit csr (pos + i)"
  by (auto simp: get_field_def bit_simps ac_simps)

lemma bit_set_field:
  assumes "field_pos l n = Some (pos, k)" and "i < 64"
  shows "bit (set_field l n v csr) i \<longleftrightarrow>
    (if pos \<le> i \<and> i < pos + k then bit v (i - pos) else bit csr i)"
  using assms by (auto simp: set_field_def bit_simps)

lemma field_pos_width:
  "field_pos l n = Some (pos, k) \<Longrightarrow> pos + k \<le> layout_width l"
  by (induction l arbitrary: pos) (fastforce simp: layout_width_def split: if_splits)+

lemma field_pos_disjoint:
  assumes "n \<noteq> m" and "field_pos l n = Some (p, k)" and "field_pos l m = Some (q, j)"
  shows "p + k \<le> q \<or> q + j \<le> p"
  using assms
proof (induction l arbitrary: p q)
  case Nil
  then show ?case by simp
next
  case (Cons a l)
  then show ?case by (fastforce split: if_splits)
qed

lemma get_set_field_same:
  assumes "field_pos l n = Some (pos, k)" and "pos + k \<le> 64"
  shows "get_field l n (set_field l n v csr) = take_bit k v"
proof (rule bit_word_eqI)
  fix i
  assume "i < LENGTH(64)"
  with assms show "bit (get_field l n (set_field l n v csr)) i = bit (take_bit k v) i"
    by (auto simp: bit_get_field bit_set_field bit_simps)
qed

lemma get_set_field_other:
  assumes "n \<noteq> m" and "layout_width l \<le> 64"
  shows "get_field l n (set_field l m v csr) = get_field l n csr"
proof (cases "field_pos l n")
  case None
  then show ?thesis by (simp add: get_field_def)
next
  case (Some pk)
  then obtain p k where n: "field_pos l n = Some (p, k)" by (cases pk) simp
  show ?thesis
  proof (cases "field_pos l m")
    case None
    then show ?thesis by (simp add: set_field_def)
  next
    case (Some qj)
    then obtain q j where m: "field_pos l m = Some (q, j)" by (cases qj) simp
    have disj: "p + k \<le> q \<or> q + j \<le> p"
      using field_pos_disjoint [OF assms(1) n m] .
    have "p + k \<le> 64"
      using field_pos_width [OF n] assms(2) by simp
    show ?thesis
    proof (rule bit_word_eqI)
      fix i
      assume "i < LENGTH(64)"
      show "bit (get_field l n (set_field l m v csr)) i = bit (get_field l n csr) i"
        using disj \<open>p + k \<le> 64\<close> by (auto simp: bit_get_field [OF n] bit_set_field [OF m])
    qed
  qed
qed

lemma set_field_outside:
  assumes "field_pos l n = Some (pos, k)" and "i < 64" and "\<not> (pos \<le> i \<and> i < pos + k)"
  shows "bit (set_field l n v csr) i = bit csr i"
  using assms by (auto simp: bit_set_field)

lemma wf_layout_width: "wf_layout l \<Longrightarrow> layout_width l = 64"
  by (simp add: wf_layout_def)

text \<open>A one-bit member is 0 or 1.\<close>

lemma get_field_bit:
  assumes "field_pos l n = Some (pos, Suc 0)"
  shows "get_field l n csr = (if bit csr pos then 1 else 0)"
  by (rule bit_word_eqI) (auto simp: bit_get_field [OF assms] bit_simps)

subsection \<open>Sizes used by the layouts\<close>

definition MAX_FPGA_PORT_NUM :: nat where
  "MAX_FPGA_PORT_NUM = 4"

definition MAX_PORT_UMSG_NUM :: nat where
  "MAX_PORT_UMSG_NUM = 32"

subsection \<open>The registers and register blocks of the header, in its order\<close>

definition feature_header :: layout where
  "feature_header =
    [Bits ''id'' 12, Bits ''revision'' 4, Bits ''next_header_offset'' 24, Bits ''eol'' 1,
     Bits ''reserved'' 19, Bits ''type'' 4]"

definition feature_afu_header_csr :: layout where
  "feature_afu_header_csr =
    [Bits ''next_afu'' 24, Bits ''reserved'' 40]"

definition feature_afu_header :: regset where
  "feature_afu_header =
    [(''guid'', 16), (''csr'', sizeof_csr feature_afu_header_csr)]"

definition feature_fiu_header_csr :: layout where
  "feature_fiu_header_csr =
    [Bits ''next_afu'' 24, Bits ''reserved'' 40]"

definition feature_fiu_header :: regset where
  "feature_fiu_header =
    [(''guid'', 16), (''csr'', sizeof_csr feature_fiu_header_csr)]"

definition feature_fme_capability :: layout where
  "feature_fme_capability =
    [Whole ''fabric_verid'' 8, Bits ''socket_id'' 1, Bits ''rsvd1'' 3, Bits ''pci0_link_avile'' 1,
     Bits ''pci1_link_avile'' 1, Bits ''qpi_link_avile'' 1, Bits ''rsvd2'' 1,
     Bits ''iommu_support'' 1, Bits ''num_ports'' 3, Bits ''sf_fab_ctl'' 1, Bits ''rsvd3'' 3,
     Bits ''address_width_bits'' 6, Bits ''rsvd4'' 2, Bits ''cache_size'' 12,
     Bits ''cache_assoc'' 4, Bits ''rsvd5'' 15, Bits ''lock_bit'' 1]"

definition feature_fme_port :: layout where
  "feature_fme_port =
    [Bits ''port_offset'' 24, Whole ''reserved1'' 8, Bits ''port_bar'' 3, Bits ''reserved2'' 20,
     Bits ''afu_access_control'' 1, Bits ''reserved3'' 4, Bits ''port_implemented'' 1,
     Bits ''reserved4'' 3]"

definition feature_fme_fab_status :: layout where
  "feature_fme_fab_status =
    [Bits ''upilink_status'' 4, Bits ''rsvd1'' 4, Bits ''pci0link_status'' 1, Bits ''rsvd2'' 3,
     Bits ''pci1link_status'' 1, Bits ''rsvd3'' 51]"

definition feature_fme_genprotrange2_base :: layout where
  "feature_fme_genprotrange2_base =
    [Whole ''rsvd1'' 16, Bits ''protected_base_addrss'' 4, Bits ''rsvd2'' 44]"

definition feature_fme_genprotrange2_limit :: layout where
  "feature_fme_genprotrange2_limit =
    [Whole ''rsvd1'' 16, Bits ''protected_limit_addrss'' 4, Bits ''rsvd2'' 11, Bits ''enable'' 1,
     Whole ''rsvd3'' 32]"

definition feature_fme_dxe_lock :: layout where
  "feature_fme_dxe_lock =
    [Bits ''dxe_early_lock'' 1, Bits ''dxe_late_lock'' 1, Bits ''rsvd'' 62]"

definition feature_fme_bitstream_id :: layout where
  "feature_fme_bitstream_id =
    [Bits ''gitrepo_hash'' 32, Bits ''hssi_id'' 4, Bits ''rsvd1'' 12, Bits ''bs_verpatch'' 4,
     Bits ''bs_verminor'' 4, Bits ''bs_vermajor'' 4, Bits ''bs_verdebug'' 4]"

definition feature_fme_bitstream_md :: layout where
  "feature_fme_bitstream_md =
    [Bits ''synth_seed'' 4, Bits ''synth_day'' 8, Bits ''synth_month'' 8, Bits ''synth_year'' 8,
     Bits ''rsvd'' 36]"

definition feature_fme_iommu_ctrl :: layout where
  "feature_fme_iommu_ctrl =
    [Bits ''prefetch_disableC0'' 1, Bits ''prefetch_disableC1'' 1, Bits ''prefetch_wrdisable'' 1,
     Bits ''rsvd1'' 1, Bits ''counter_sel'' 2, Bits ''rsvd2'' 26, Whole ''capecap_defeature'' 32]"

definition feature_fme_iommu_stat :: layout where
  "feature_fme_iommu_stat =
    [Bits ''translation_enable'' 1, Bits ''drain_req_inprog'' 1, Bits ''inv_state'' 3,
     Bits ''respbuffer_stateC0'' 3, Bits ''respbuffer_stateC1'' 3, Bits ''last_reqID'' 4,
     Bits ''last_respID'' 4, Bits ''last_respstatus'' 3, Bits ''transbuf_notEmptyC0'' 1,
     Bits ''transbuf_notEmptyC1'' 1, Bits ''reqFIFO_notemptyC0'' 1,
     Bits ''reqFIFO_notemptyC1'' 1, Bits ''respFIFO_notemptyC0'' 1,
     Bits ''respFIFO_notemptyC1'' 1, Bits ''respFIFO_overflowC0'' 1,
     Bits ''respFIFO_overflowC1'' 1, Bits ''tranbuf_overflowC0'' 1,
     Bits ''tranbuf_overflowC1'' 1, Bits ''reqFIFO_overflow'' 1, Bits ''memrd_inprog'' 1,
     Bits ''memwr_inprog'' 1, Bits ''rsvd1'' 1, Bits ''dbg_counters'' 16, Bits ''rsvd2'' 12]"

definition feature_fme_pcie0_ctrl :: layout where
  "feature_fme_pcie0_ctrl =
    [Bits ''vtd_bar_lock'' 1, Bits ''rsvd1'' 3, Bits ''rciep'' 1, Bits ''rsvd2'' 59]"

definition feature_fme_llpr_smrr_base :: layout where
  "feature_fme_llpr_smrr_base =
    [Bits ''rsvd1'' 12, Bits ''base'' 20, Bits ''rsvd2'' 32]"

definition feature_fme_llpr_smrr_mask :: layout where
  "feature_fme_llpr_smrr_mask =
    [Bits ''rsvd1'' 11, Bits ''valid'' 1, Bits ''phys_mask'' 20, Bits ''rsvd2'' 32]"

definition feature_fme_llpr_smrr2_base :: layout where
  "feature_fme_llpr_smrr2_base =
    [Bits ''rsvd1'' 12, Bits ''base'' 20, Bits ''rsvd2'' 32]"

definition feature_fme_llpr_smrr2_mask :: layout where
  "feature_fme_llpr_smrr2_mask =
    [Bits ''rsvd1'' 11, Bits ''valid'' 1, Bits ''phys_mask'' 20, Bits ''rsvd2'' 32]"

definition feature_fme_llpr_meseg_base :: layout where
  "feature_fme_llpr_meseg_base =
    [Bits ''me_base'' 27, Bits ''rsvd'' 37]"

definition feature_fme_llpr_meseg_limit :: layout where
  "feature_fme_llpr_meseg_limit =
    [Bits ''me_limit'' 27, Bits ''rsvd1'' 4, Bits ''enable'' 1, Bits ''rsvd2'' 32]"

definition feature_fme_header :: regset where
  "feature_fme_header =
    [(''header'', sizeof_csr feature_header), (''afu_header'', sizeof_regs feature_afu_header),
     (''reserved'', 8), (''scratchpad'', 8), (''capability'', sizeof_csr feature_fme_capability),
     (''port'', MAX_FPGA_PORT_NUM * sizeof_csr feature_fme_port),
     (''fab_status'', sizeof_csr feature_fme_fab_status),
     (''bitstream_id'', sizeof_csr feature_fme_bitstream_id),
     (''bitstream_md'', sizeof_csr feature_fme_bitstream_md),
     (''genprotrange2_base'', sizeof_csr feature_fme_genprotrange2_base),
     (''genprotrange2_limit'', sizeof_csr feature_fme_genprotrange2_limit),
     (''dxe_lock'', sizeof_csr feature_fme_dxe_lock),
     (''iommu_ctrl'', sizeof_csr feature_fme_iommu_ctrl),
     (''iommu_stat'', sizeof_csr feature_fme_iommu_stat),
     (''pcie0_control'', sizeof_csr feature_fme_pcie0_ctrl),
     (''smrr_base'', sizeof_csr feature_fme_llpr_smrr_base),
     (''smrr_mask'', sizeof_csr feature_fme_llpr_smrr_mask),
     (''smrr2_base'', sizeof_csr feature_fme_llpr_smrr2_base),
     (''smrr2_mask'', sizeof_csr feature_fme_llpr_smrr2_mask),
     (''meseg_base'', sizeof_csr feature_fme_llpr_meseg_base),
     (''meseg_limit'', sizeof_csr feature_fme_llpr_meseg_limit)]"

definition feature_port_capability :: layout where
  "feature_port_capability =
    [Bits ''port_number'' 2, Bits ''rsvd1'' 6, Whole ''mmio_size'' 16, Whole ''rsvd2'' 8,
     Bits ''sp_intr_num'' 4, Bits ''rsvd3'' 28]"

definition feature_port_control :: layout where
  "feature_port_control =
    [Bits ''port_sftrst'' 1, Bits ''rsvd1'' 1, Bits ''latency_tolerance'' 1, Bits ''rsvd2'' 1,
     Bits ''port_sftrst_ack'' 1, Bits ''rsvd3'' 59]"

definition feature_port_status :: layout where
  "feature_port_status =
    [Bits ''port_freeze'' 1, Bits ''rsvd1'' 7, Bits ''power_state'' 4, Bits ''ap1_event'' 1,
     Bits ''ap2_event'' 1, Bits ''rsvd2'' 50]"

definition feature_port_header :: regset where
  "feature_port_header =
    [(''header'', sizeof_csr feature_header), (''afu_header'', sizeof_regs feature_afu_header),
     (''port_mailbox'', 8), (''scratchpad'', 8),
     (''capability'', sizeof_csr feature_port_capability),
     (''control'', sizeof_csr feature_port_control),
     (''status'', sizeof_csr feature_port_status), (''rsvd2'', 8), (''user_clk_freq_cmd0'', 8),
     (''user_clk_freq_cmd1'', 8), (''user_clk_freq_sts0'', 8), (''user_clk_freq_sts1'', 8)]"

definition feature_fme_tmp_threshold :: layout where
  "feature_fme_tmp_threshold =
    [Bits ''tmp_thshold1'' 7, Bits ''tmp_thshold1_enable'' 1, Bits ''tmp_thshold2'' 7,
     Bits ''tmp_thshold2_enable'' 1, Bits ''pro_hot_setpoint'' 7, Bits ''rsvd4'' 1,
     Bits ''therm_trip_thshold'' 7, Bits ''rsvd3'' 1, Bits ''thshold1_status'' 1,
     Bits ''thshold2_status'' 1, Bits ''rsvd5'' 1, Bits ''therm_trip_thshold_status'' 1,
     Bits ''rsvd6'' 4, Bits ''valmodeforce'' 1, Bits ''valmodetherm'' 1, Bits ''rsvd2'' 2,
     Bits ''thshold_policy'' 1, Bits ''rsvd'' 19]"

definition feature_fme_temp_rdsensor_fmt1 :: layout where
  "feature_fme_temp_rdsensor_fmt1 =
    [Bits ''fpga_temp'' 7, Bits ''rsvd0'' 1, Whole ''tmp_reading_seq_num'' 16,
     Bits ''tmp_reading_valid'' 1, Bits ''rsvd1'' 7, Bits ''dbg_mode'' 10, Bits ''rsvd2'' 22]"

definition feature_fme_temp_rdsensor_fmt2 :: regset where
  "feature_fme_temp_rdsensor_fmt2 =
    [(''rsvd'', 8)]"

definition feature_fme_thermal :: regset where
  "feature_fme_thermal =
    [(''header'', sizeof_csr feature_header),
     (''threshold'', sizeof_csr feature_fme_tmp_threshold),
     (''rdsensor_fm1'', sizeof_csr feature_fme_temp_rdsensor_fmt1),
     (''rdsensor_fm2'', sizeof_regs feature_fme_temp_rdsensor_fmt2)]"

definition feature_fme_pm_status :: layout where
  "feature_fme_pm_status =
    [Bits ''pwr_consumed'' 18, Bits ''fpga_latency_report'' 1, Bits ''rsvd'' 45]"

definition feature_fme_pm_ap_threshold :: layout where
  "feature_fme_pm_ap_threshold =
    [Bits ''threshold1'' 7, Bits ''rsvd1'' 1, Bits ''threshold2'' 7, Bits ''rsvd2'' 1,
     Bits ''threshold1_status'' 1, Bits ''threshold2_status'' 1, Bits ''rsvd3'' 46]"

definition feature_fme_pm_xeon_limit :: layout where
  "feature_fme_pm_xeon_limit =
    [Bits ''pwr_limit'' 15, Bits ''enable'' 1, Bits ''clamping'' 1, Bits ''time'' 7,
     Bits ''rsvd'' 40]"

definition feature_fme_pm_fpga_limit :: layout where
  "feature_fme_pm_fpga_limit =
    [Bits ''pwr_limit'' 15, Bits ''enable'' 1, Bits ''clamping'' 1, Bits ''time'' 7,
     Bits ''rsvd'' 40]"

definition feature_fme_power :: regset where
  "feature_fme_power =
    [(''header'', sizeof_csr feature_header), (''status'', sizeof_csr feature_fme_pm_status),
     (''threshold'', sizeof_csr feature_fme_pm_ap_threshold),
     (''xeon_limit'', sizeof_csr feature_fme_pm_xeon_limit),
     (''fpga_limit'', sizeof_csr feature_fme_pm_fpga_limit)]"

definition feature_fme_ifpmon_ch_ctl :: layout where
  "feature_fme_ifpmon_ch_ctl =
    [Bits ''reset_counters'' 1, Bits ''rsvd1'' 7, Bits ''freeze'' 1, Bits ''rsvd2'' 7,
     Bits ''cache_event'' 4, Bits ''cci_chsel'' 1, Bits ''rsvd3'' 43]"

definition feature_fme_ifpmon_ch_ctr :: layout where
  "feature_fme_ifpmon_ch_ctr =
    [Bits ''cache_counter'' 48, Bits ''rsvd'' 12, Bits ''event_code'' 4]"

definition feature_fme_ifpmon_fab_ctl :: layout where
  "feature_fme_ifpmon_fab_ctl =
    [Bits ''reset_counters'' 1, Bits ''rsvd'' 7, Bits ''freeze'' 1, Bits ''rsvd1'' 7,
     Bits ''fab_evtcode'' 4, Bits ''port_id'' 2, Bits ''rsvd2'' 1, Bits ''port_filter'' 1,
     Bits ''rsvd3'' 40]"

definition feature_fme_ifpmon_fab_ctr :: layout where
  "feature_fme_ifpmon_fab_ctr =
    [Bits ''fab_cnt'' 60, Bits ''event_code'' 4]"

definition feature_fme_ifpmon_clk_ctr :: regset where
  "feature_fme_ifpmon_clk_ctr =
    [(''afu_interf_clock'', 8)]"

definition feature_fme_ifpmon_vtd_ctl :: layout where
  "feature_fme_ifpmon_vtd_ctl =
    [Bits ''reset_counters'' 1, Bits ''rsvd'' 7, Bits ''freeze'' 1, Bits ''rsvd1'' 7,
     Bits ''vtd_evtcode'' 4, Bits ''rsvd2'' 44]"

definition feature_fme_ifpmon_vtd_ctr :: layout where
  "feature_fme_ifpmon_vtd_ctr =
    [Bits ''vtd_counter'' 48, Bits ''rsvd'' 12, Bits ''event_code'' 4]"

definition feature_fme_ifpmon_vtd_sip_ctl :: layout where
  "feature_fme_ifpmon_vtd_sip_ctl =
    [Bits ''reset_counters'' 1, Bits ''rsvd'' 7, Bits ''freeze'' 1, Bits ''rsvd1'' 7,
     Bits ''vtd_evtcode'' 4, Bits ''rsvd2'' 44]"

definition feature_fme_ifpmon_vtd_sip_ctr :: layout where
  "feature_fme_ifpmon_vtd_sip_ctr =
    [Bits ''vtd_counter'' 48, Bits ''rsvd'' 12, Bits ''event_code'' 4]"

definition feature_fme_iperf :: regset where
  "feature_fme_iperf =
    [(''header'', sizeof_csr feature_header), (''ch_ctl'', sizeof_csr feature_fme_ifpmon_ch_ctl),
     (''ch_ctr0'', sizeof_csr feature_fme_ifpmon_ch_ctr),
     (''ch_ctr1'', sizeof_csr feature_fme_ifpmon_ch_ctr),
     (''fab_ctl'', sizeof_csr feature_fme_ifpmon_fab_ctl),
     (''fab_ctr'', sizeof_csr feature_fme_ifpmon_fab_ctr),
     (''clk'', sizeof_regs feature_fme_ifpmon_clk_ctr),
     (''vtd_ctl'', sizeof_csr feature_fme_ifpmon_vtd_ctl),
     (''vtd_ctr'', sizeof_csr feature_fme_ifpmon_vtd_ctr),
     (''vtd_sip_ctl'', sizeof_csr feature_fme_ifpmon_vtd_sip_ctl),
     (''vtd_sip_ctr'', sizeof_csr feature_fme_ifpmon_vtd_sip_ctr)]"

definition feature_fme_dfpmon_fab_ctl :: layout where
  "feature_fme_dfpmon_fab_ctl =
    [Bits ''reset_counters'' 1, Bits ''rsvd'' 7, Bits ''freeze'' 1, Bits ''rsvd1'' 7,
     Bits ''fab_evtcode'' 4, Bits ''port_id'' 2, Bits ''rsvd2'' 1, Bits ''port_filter'' 1,
     Bits ''rsvd3'' 40]"

definition feature_fme_dfpmon_fab_ctr :: layout where
  "feature_fme_dfpmon_fab_ctr =
    [Bits ''fab_cnt'' 60, Bits ''event_code'' 4]"

definition feature_fme_dfpmon_clk_ctr :: regset where
  "feature_fme_dfpmon_clk_ctr =
    [(''afu_interf_clock'', 8)]"

definition feature_fme_dperf :: regset where
  "feature_fme_dperf =
    [(''header'', sizeof_csr feature_header), (''rsvd'', 3 * 8),
     (''fab_ctl'', sizeof_csr feature_fme_dfpmon_fab_ctl),
     (''fab_ctr'', sizeof_csr feature_fme_dfpmon_fab_ctr),
     (''clk'', sizeof_regs feature_fme_dfpmon_clk_ctr)]"

definition feature_fme_error0 :: layout where
  "feature_fme_error0 =
    [Bits ''fabric_err'' 1, Bits ''fabfifo_overflow'' 1, Bits ''kticdc_parity_err'' 2,
     Bits ''iommu_parity_err'' 1, Bits ''afu_acc_mode_err'' 1, Bits ''mbp_err'' 1,
     Bits ''pcie0cdc_parity_err'' 5, Bits ''pcie1cdc_parity_err'' 5,
     Bits ''cvlcdc_parity_err'' 3, Bits ''rsvd'' 44]"

definition feature_fme_pcie0_error :: layout where
  "feature_fme_pcie0_error =
    [Bits ''formattype_err'' 1, Bits ''MWAddr_err'' 1, Bits ''MWAddrLength_err'' 1,
     Bits ''MRAddr_err'' 1, Bits ''MRAddrLength_err'' 1, Bits ''cpl_tag_err'' 1,
     Bits ''cpl_status_err'' 1, Bits ''cpl_timeout_err'' 1, Bits ''cci_parity_err'' 1,
     Bits ''rxpoison_tlp_err'' 1, Bits ''rsvd'' 52, Bits ''vfnumb_err'' 1,
     Bits ''funct_type_err'' 1]"

definition feature_fme_pcie1_error :: layout where
  "feature_fme_pcie1_error =
    [Bits ''formattype_err'' 1, Bits ''MWAddr_err'' 1, Bits ''MWAddrLength_err'' 1,
     Bits ''MRAddr_err'' 1, Bits ''MRAddrLength_err'' 1, Bits ''cpl_tag_err'' 1,
     Bits ''cpl_status_err'' 1, Bits ''cpl_timeout_err'' 1, Bits ''cci_parity_err'' 1,
     Bits ''rxpoison_tlp_err'' 1, Bits ''rsvd'' 54]"

definition feature_fme_first_error :: layout where
  "feature_fme_first_error =
    [Bits ''err_reg_status'' 60, Bits ''errReg_id'' 4]"

definition feature_fme_next_error :: layout where
  "feature_fme_next_error =
    [Bits ''err_reg_status'' 60, Bits ''errReg_id'' 4]"

definition feature_fme_ras_nonfaterror :: layout where
  "feature_fme_ras_nonfaterror =
    [Bits ''temp_thresh_ap1'' 1, Bits ''temp_thresh_ap2'' 1, Bits ''pcie_error'' 1,
     Bits ''portfatal_error'' 1, Bits ''proc_hot'' 1, Bits ''afu_acc_mode_err'' 1,
     Bits ''injected_nonfata_err'' 1, Bits ''rsvd1'' 2, Bits ''temp_thresh_AP6'' 1,
     Bits ''power_thresh_AP1'' 1, Bits ''power_thresh_AP2'' 1, Bits ''mbp_err'' 1,
     Bits ''rsvd2'' 51]"

definition feature_fme_ras_catfaterror :: layout where
  "feature_fme_ras_catfaterror =
    [Bits ''ktilink_fatal_err'' 1, Bits ''tagcch_fatal_err'' 1, Bits ''cci_fatal_err'' 1,
     Bits ''ktiprpto_fatal_err'' 1, Bits ''dram_fatal_err'' 1, Bits ''iommu_fatal_err'' 1,
     Bits ''fabric_fatal_err'' 1, Bits ''pcie_poison_err'' 1, Bits ''inject_fata_err'' 1,
     Bits ''crc_catast_err'' 1, Bits ''therm_catast_err'' 1, Bits ''injected_catast_err'' 1,
     Bits ''rsvd'' 52]"

definition feature_fme_ras_error_inj :: layout where
  "feature_fme_ras_error_inj =
    [Bits ''catast_error'' 1, Bits ''fatal_error'' 1, Bits ''nonfatal_error'' 1, Bits ''rsvd'' 61]"

definition feature_fme_error_capability :: layout where
  "feature_fme_error_capability =
    [Bits ''support_intr'' 1, Bits ''intr_vector_num'' 12, Bits ''rsvd'' 51]"

definition feature_fme_err :: regset where
  "feature_fme_err =
    [(''header'', sizeof_csr feature_header), (''fme_err_mask'', sizeof_csr feature_fme_error0),
     (''fme_err'', sizeof_csr feature_fme_error0),
     (''pcie0_err_mask'', sizeof_csr feature_fme_pcie0_error),
     (''pcie0_err'', sizeof_csr feature_fme_pcie0_error),
     (''pcie1_err_mask'', sizeof_csr feature_fme_pcie1_error),
     (''pcie1_err'', sizeof_csr feature_fme_pcie1_error),
     (''fme_first_err'', sizeof_csr feature_fme_first_error),
     (''fme_next_err'', sizeof_csr feature_fme_next_error),
     (''ras_nonfat_mask'', sizeof_csr feature_fme_ras_nonfaterror),
     (''ras_nonfaterr'', sizeof_csr feature_fme_ras_nonfaterror),
     (''ras_catfat_mask'', sizeof_csr feature_fme_ras_catfaterror),
     (''ras_catfaterr'', sizeof_csr feature_fme_ras_catfaterror),
     (''ras_error_inj'', sizeof_csr feature_fme_ras_error_inj),
     (''fme_err_capability'', sizeof_csr feature_fme_error_capability)]"

definition feature_fme_pr_ctl :: layout where
  "feature_fme_pr_ctl =
    [Bits ''pr_reset'' 1, Bits ''rsvd3'' 3, Bits ''pr_reset_ack'' 1, Bits ''rsvd4'' 3,
     Bits ''pr_regionid'' 2, Bits ''rsvd1'' 2, Bits ''pr_start_req'' 1,
     Bits ''pr_push_complete'' 1, Bits ''pr_kind'' 1, Bits ''rsvd'' 17, Whole ''config_data'' 32]"

definition feature_fme_pr_status :: layout where
  "feature_fme_pr_status =
    [Bits ''pr_credit'' 9, Bits ''rsvd2'' 7, Bits ''pr_status'' 1, Bits ''rsvd'' 3,
     Bits ''pr_contoller_status'' 3, Bits ''rsvd1'' 1, Bits ''pr_host_status'' 4,
     Bits ''rsvd3'' 4, Whole ''security_bstatus'' 32]"

definition feature_fme_pr_data :: layout where
  "feature_fme_pr_data =
    [Whole ''pr_data_raw'' 32, Whole ''rsvd'' 32]"

definition feature_fme_pr_key :: regset where
  "feature_fme_pr_key =
    [(''key'', 8)]"

definition feature_fme_pr :: regset where
  "feature_fme_pr =
    [(''header'', sizeof_csr feature_header),
     (''ccip_fme_pr_control'', sizeof_csr feature_fme_pr_ctl),
     (''ccip_fme_pr_status'', sizeof_csr feature_fme_pr_status),
     (''ccip_fme_pr_data'', sizeof_csr feature_fme_pr_data), (''ccip_fme_pr_err'', 8),
     (''rsvd1'', 3 * 8), (''fme_pr_data1'', 8), (''fme_pr_data2'', 8), (''fme_pr_data3'', 8),
     (''fme_pr_data4'', 8), (''fme_pr_data5'', 8), (''fme_pr_data6'', 8), (''fme_pr_data7'', 8),
     (''fme_pr_data8'', 8), (''rsvd2'', 5 * 8), (''fme_pr_intfc_id_l'', 8),
     (''fme_pr_intfc_id_h'', 8)]"

definition feature_fme_hssi_eth_ctrl :: layout where
  "feature_fme_hssi_eth_ctrl =
    [Bits ''data'' 32, Bits ''address'' 16, Bits ''cmd'' 16]"

definition feature_fme_hssi_eth_stat :: layout where
  "feature_fme_hssi_eth_stat =
    [Bits ''data'' 32, Bits ''acknowledge'' 1, Bits ''spare'' 1, Bits ''rsvd'' 30]"

definition feature_fme_hssi :: regset where
  "feature_fme_hssi =
    [(''header'', sizeof_csr feature_header),
     (''hssi_control'', sizeof_csr feature_fme_hssi_eth_ctrl),
     (''hssi_status'', sizeof_csr feature_fme_hssi_eth_stat)]"

definition feature_port_err_key :: layout where
  "feature_port_err_key =
    [Bits ''tx_ch0_overflow'' 1, Bits ''tx_ch0_invaldreq'' 1, Bits ''tx_ch0_cl_len3'' 1,
     Bits ''tx_ch0_cl_len2'' 1, Bits ''tx_ch0_cl_len4'' 1, Bits ''rsvd1'' 4,
     Bits ''mmio_rd_whilerst'' 1, Bits ''mmio_wr_whilerst'' 1, Bits ''rsvd2'' 5,
     Bits ''tx_ch1_overflow'' 1, Bits ''tx_ch1_invaldreq'' 1, Bits ''tx_ch1_cl_len3'' 1,
     Bits ''tx_ch1_cl_len2'' 1, Bits ''tx_ch1_cl_len4'' 1, Bits ''tx_ch1_insuff_data'' 1,
     Bits ''tx_ch1_data_overrun'' 1, Bits ''tx_ch1_incorr_addr'' 1, Bits ''tx_ch1_nzsop'' 1,
     Bits ''tx_ch1_illegal_vcsel'' 1, Bits ''rsvd3'' 6, Bits ''mmioread_timeout'' 1,
     Bits ''tx_ch2_fifo_overflow'' 1, Bits ''unexp_mmio_resp'' 1, Bits ''rsvd4'' 5,
     Bits ''tx_req_counter_overflow'' 1, Bits ''llpr_smrr_err'' 1, Bits ''llpr_smrr2_err'' 1,
     Bits ''llpr_mesg_err'' 1, Bits ''genprot_range_err'' 1, Bits ''legrange_low_err'' 1,
     Bits ''legrange_high_err'' 1, Bits ''vgmem_range_err'' 1, Bits ''page_fault_err'' 1,
     Bits ''pmr_err'' 1, Bits ''ap6_event'' 1, Bits ''vfflr_access_err'' 1, Bits ''rsvd5'' 12]"

definition feature_port_first_err_key :: layout where
  "feature_port_first_err_key =
    [Bits ''tx_ch0_overflow'' 1, Bits ''tx_ch0_invaldreq'' 1, Bits ''tx_ch0_cl_len3'' 1,
     Bits ''tx_ch0_cl_len2'' 1, Bits ''tx_ch0_cl_len4'' 1, Bits ''rsvd1'' 4,
     Bits ''mmio_rd_whilerst'' 1, Bits ''mmio_wr_whilerst'' 1, Bits ''rsvd2'' 5,
     Bits ''tx_ch1_overflow'' 1, Bits ''tx_ch1_invaldreq'' 1, Bits ''tx_ch1_cl_len3'' 1,
     Bits ''tx_ch1_cl_len2'' 1, Bits ''tx_ch1_cl_len4'' 1, Bits ''tx_ch1_insuff_data'' 1,
     Bits ''tx_ch1_data_overrun'' 1, Bits ''tx_ch1_incorr_addr'' 1, Bits ''tx_ch1_nzsop'' 1,
     Bits ''tx_ch1_illegal_vcsel'' 1, Bits ''rsvd3'' 6, Bits ''mmioread_timeout'' 1,
     Bits ''tx_ch2_fifo_overflow'' 1, Bits ''rsvd4'' 6, Bits ''tx_req_counter_overflow'' 1,
     Bits ''rsvd5'' 23]"

definition feature_port_malformed_req0 :: regset where
  "feature_port_malformed_req0 =
    [(''header_lsb'', 8)]"

definition feature_port_malformed_req1 :: regset where
  "feature_port_malformed_req1 =
    [(''header_msb'', 8)]"

definition feature_port_debug :: regset where
  "feature_port_debug =
    [(''port_debug'', 8)]"

definition feature_port_err_capability :: layout where
  "feature_port_err_capability =
    [Bits ''support_intr'' 1, Bits ''intr_vector_num'' 12, Bits ''rsvd'' 51]"

definition feature_port_error :: regset where
  "feature_port_error =
    [(''header'', sizeof_csr feature_header), (''error_mask'', sizeof_csr feature_port_err_key),
     (''port_error'', sizeof_csr feature_port_err_key),
     (''port_first_error'', sizeof_csr feature_port_first_err_key),
     (''malreq0'', sizeof_regs feature_port_malformed_req0),
     (''malreq1'', sizeof_regs feature_port_malformed_req1),
     (''port_debug'', sizeof_regs feature_port_debug),
     (''error_capability'', sizeof_csr feature_port_err_capability)]"

definition feature_port_umsg_cap :: layout where
  "feature_port_umsg_cap =
    [Whole ''umsg_allocated'' 8, Bits ''umsg_enable'' 1, Bits ''umsg_init_complete'' 1,
     Bits ''umsg_trans_error'' 1, Bits ''rsvd'' 53]"

definition feature_port_umsg_baseaddr :: layout where
  "feature_port_umsg_baseaddr =
    [Bits ''base_addr'' 48, Whole ''rsvd'' 16]"

definition feature_port_umsg_mode :: layout where
  "feature_port_umsg_mode =
    [Whole ''umsg_hint_enable'' 32, Whole ''rsvd'' 32]"

definition feature_port_umsg :: regset where
  "feature_port_umsg =
    [(''header'', sizeof_csr feature_header), (''capability'', sizeof_csr feature_port_umsg_cap),
     (''baseaddr'', sizeof_csr feature_port_umsg_baseaddr),
     (''mode'', sizeof_csr feature_port_umsg_mode)]"

definition feature_port_uint_cap :: layout where
  "feature_port_uint_cap =
    [Bits ''intr_num'' 12, Bits ''first_vec_num'' 12, Bits ''rsvd'' 40]"

definition feature_port_uint :: regset where
  "feature_port_uint =
    [(''header'', sizeof_csr feature_header), (''capability'', sizeof_csr feature_port_uint_cap)]"

definition feature_port_stp_status :: layout where
  "feature_port_stp_status =
    [Bits ''sld_ep_timeout'' 1, Bits ''rstp_disabled'' 1, Bits ''unsupported_read'' 1,
     Bits ''mmio_timeout'' 1, Bits ''txfifo_count'' 4, Bits ''rxfifo_count'' 4,
     Bits ''txfifo_overflow'' 1, Bits ''txfifo_underflow'' 1, Bits ''rxfifo_overflow'' 1,
     Bits ''rxfifo_underflow'' 1, Whole ''write_requests'' 16, Whole ''read_requests'' 16,
     Whole ''read_responses'' 16]"

definition feature_port_stp :: regset where
  "feature_port_stp =
    [(''header'', sizeof_csr feature_header), (''stp_status'', sizeof_csr feature_port_stp_status)]"

subsection \<open>All register layouts\<close>

definition all_layouts :: "layout list" where
  "all_layouts =
    [feature_header, feature_afu_header_csr, feature_fiu_header_csr, feature_fme_capability,
     feature_fme_port, feature_fme_fab_status, feature_fme_genprotrange2_base,
     feature_fme_genprotrange2_limit, feature_fme_dxe_lock, feature_fme_bitstream_id,
     feature_fme_bitstream_md, feature_fme_iommu_ctrl, feature_fme_iommu_stat,
     feature_fme_pcie0_ctrl, feature_fme_llpr_smrr_base, feature_fme_llpr_smrr_mask,
     feature_fme_llpr_smrr2_base, feature_fme_llpr_smrr2_mask, feature_fme_llpr_meseg_base,
     feature_fme_llpr_meseg_limit, feature_port_capability, feature_port_control,
     feature_port_status, feature_fme_tmp_threshold, feature_fme_temp_rdsensor_fmt1,
     feature_fme_pm_status, feature_fme_pm_ap_threshold, feature_fme_pm_xeon_limit,
     feature_fme_pm_fpga_limit, feature_fme_ifpmon_ch_ctl, feature_fme_ifpmon_ch_ctr,
     feature_fme_ifpmon_fab_ctl, feature_fme_ifpmon_fab_ctr, feature_fme_ifpmon_vtd_ctl,
     feature_fme_ifpmon_vtd_ctr, feature_fme_ifpmon_vtd_sip_ctl,
     feature_fme_ifpmon_vtd_sip_ctr, feature_fme_dfpmon_fab_ctl, feature_fme_dfpmon_fab_ctr,
     feature_fme_error0, feature_fme_pcie0_error, feature_fme_pcie1_error,
     feature_fme_first_error, feature_fme_next_error, feature_fme_ras_nonfaterror,
     feature_fme_ras_catfaterror, feature_fme_ras_error_inj, feature_fme_error_capability,
     feature_fme_pr_ctl, feature_fme_pr_status, feature_fme_pr_data,
     feature_fme_hssi_eth_ctrl, feature_fme_hssi_eth_stat, feature_port_err_key,
     feature_port_first_err_key, feature_port_err_capability, feature_port_umsg_cap,
     feature_port_umsg_baseaddr, feature_port_umsg_mode, feature_port_uint_cap,
     feature_port_stp_status]"

lemmas layout_defs =
  feature_header_def feature_afu_header_csr_def feature_fiu_header_csr_def
  feature_fme_capability_def feature_fme_port_def feature_fme_fab_status_def
  feature_fme_genprotrange2_base_def feature_fme_genprotrange2_limit_def
  feature_fme_dxe_lock_def feature_fme_bitstream_id_def feature_fme_bitstream_md_def
  feature_fme_iommu_ctrl_def feature_fme_iommu_stat_def feature_fme_pcie0_ctrl_def
  feature_fme_llpr_smrr_base_def feature_fme_llpr_smrr_mask_def
  feature_fme_llpr_smrr2_base_def feature_fme_llpr_smrr2_mask_def
  feature_fme_llpr_meseg_base_def feature_fme_llpr_meseg_limit_def
  feature_port_capability_def feature_port_control_def feature_port_status_def
  feature_fme_tmp_threshold_def feature_fme_temp_rdsensor_fmt1_def
  feature_fme_pm_status_def feature_fme_pm_ap_threshold_def feature_fme_pm_xeon_limit_def
  feature_fme_pm_fpga_limit_def feature_fme_ifpmon_ch_ctl_def feature_fme_ifpmon_ch_ctr_def
  feature_fme_ifpmon_fab_ctl_def feature_fme_ifpmon_fab_ctr_def
  feature_fme_ifpmon_vtd_ctl_def feature_fme_ifpmon_vtd_ctr_def
  feature_fme_ifpmon_vtd_sip_ctl_def feature_fme_ifpmon_vtd_sip_ctr_def
  feature_fme_dfpmon_fab_ctl_def feature_fme_dfpmon_fab_ctr_def feature_fme_error0_def
  feature_fme_pcie0_error_def feature_fme_pcie1_error_def feature_fme_first_error_def
  feature_fme_next_error_def feature_fme_ras_nonfaterror_def
  feature_fme_ras_catfaterror_def feature_fme_ras_error_inj_def
  feature_fme_error_capability_def feature_fme_pr_ctl_def feature_fme_pr_status_def
  feature_fme_pr_data_def feature_fme_hssi_eth_ctrl_def feature_fme_hssi_eth_stat_def
  feature_port_err_key_def feature_port_first_err_key_def feature_port_err_capability_def
  feature_port_umsg_cap_def feature_port_umsg_baseaddr_def feature_port_umsg_mode_def
  feature_port_uint_cap_def feature_port_stp_status_def

text \<open>
  Every register layout of the header is well formed: its member names are distinct, its members
  fill exactly 64 bits, and each member that is not a bit-field starts on a byte boundary, so the packed
  struct has no padding.
\<close>

lemma layouts_wf: "list_all wf_layout all_layouts"
  by (simp add: all_layouts_def layout_defs wf_layout_def layout_width_def)

lemma layouts_width: "l \<in> set all_layouts \<Longrightarrow> layout_width l = 64"
  using layouts_wf by (auto simp: list_all_iff wf_layout_def)

text \<open>
  Writing one member of a register changes the bits of that member and no other: it reads
  back as the value cut to its width, every other member reads as before, and every bit outside
  it is the old one.
\<close>

lemma set_field_laws:
  assumes "l \<in> set all_layouts" and "field_pos l n = Some (pos, k)"
  shows "get_field l n (set_field l n v csr) = take_bit k v \<and>
    (\<forall>m. m \<noteq> n \<longrightarrow> get_field l m (set_field l n v csr) = get_field l m csr) \<and>
    (\<forall>i. i < 64 \<and> \<not> (pos \<le> i \<and> i < pos + k) \<longrightarrow>
       bit (set_field l n v csr) i = bit csr i)"
  using layouts_width [OF assms(1)] field_pos_width [OF assms(2)] assms(2)
  by (auto simp: get_set_field_same get_set_field_other set_field_outside)

lemma set_field_laws_example:
  "get_field feature_port_control ''port_sftrst''
     (set_field feature_port_control ''port_sftrst'' 1 0x10) = take_bit 1 1 \<and>
   get_field feature_port_control ''port_sftrst_ack''
     (set_field feature_port_control ''port_sftrst'' 1 0x10) =
   get_field feature_port_control ''port_sftrst_ack'' 0x10"
proof -
  have l: "feature_port_control \<in> set all_layouts"
    by (simp add: all_layouts_def)
  have p: "field_pos feature_port_control ''port_sftrst'' = Some (0, 1)"
    by (simp add: feature_port_control_def)
  note laws = set_field_laws [OF l p]
  show ?thesis
    by (intro conjI laws [THEN conjunct1] laws [THEN conjunct2, THEN conjunct1, rule_format])
      simp
qed

end
