(* ===== verification/Feature_Dev.thy ===== *)
theory Feature_Dev
  imports Feature_Regs
begin

text \<open>
  The feature device framework: the data of \<^verbatim>\<open>include/intel/feature-dev.h\<close> that the FME and
  the port drivers share, the exclusive and shared use of a device file, the initialisation of
  the sub-features by \<^verbatim>\<open>fpga_dev_feature_init\<close> and the character device numbers of
  \<^verbatim>\<open>drivers/fpga/intel/feature-dev.c\<close>.

  A feature device is its \<open>feature_platform_data\<close>; the type parameter is the type of the
  private data (\<^verbatim>\<open>void *private\<close>), the AFU or the FME state. A \<^verbatim>\<open>struct feature *\<close> is the
  index of the feature in \<open>pd_features\<close>. A \<^verbatim>\<open>struct feature_ops *\<close> is the name of the variable
  it points to; the table of operations is an argument of the functions that call through it.
  The list node, the mutex, the character device and the back pointer of the C struct carry no
  data of their own and are left out: a function that takes \<^verbatim>\<open>pdata->lock\<close> for its whole body
  is one atomic step here.
\<close>

subsection \<open>Data\<close>

text \<open>
  \<open>ctx_trigger\<close> and \<open>ctx_name\<close> are the pointers of the C struct; the name is only live while
  a trigger is set.
\<close>

record feature_irq_ctx =
  ctx_trigger :: "int option"
  ctx_name :: int
  ctx_irq :: int

record feature =
  f_name :: "string option"
  f_resource_index :: int
  f_ioaddr :: u64
  f_ctx :: "feature_irq_ctx list"
  f_ctx_num :: int
  f_ops :: "string option"

record 'p feature_platform_data =
  pd_excl_open :: int
  pd_open_count :: int
  pd_disable_count :: u32
  pd_private :: "'p option"
  pd_num :: nat
  pd_features :: "feature list"

text \<open>The zero-filled feature that \<^verbatim>\<open>kzalloc\<close> leaves.\<close>

definition zero_feature :: feature where
  "zero_feature =
     \<lparr>f_name = None, f_resource_index = 0, f_ioaddr = 0, f_ctx = [], f_ctx_num = 0, f_ops = None\<rparr>"

definition FME_FEATURE_ID_HEADER :: nat where [simp]: "FME_FEATURE_ID_HEADER = 0"
definition FME_FEATURE_ID_THERMAL_MGMT :: nat where [simp]: "FME_FEATURE_ID_THERMAL_MGMT = 1"
definition FME_FEATURE_ID_POWER_MGMT :: nat where [simp]: "FME_FEATURE_ID_POWER_MGMT = 2"
definition FME_FEATURE_ID_GLOBAL_IPERF :: nat where [simp]: "FME_FEATURE_ID_GLOBAL_IPERF = 3"
definition FME_FEATURE_ID_GLOBAL_ERR :: nat where [simp]: "FME_FEATURE_ID_GLOBAL_ERR = 4"
definition FME_FEATURE_ID_PR_MGMT :: nat where [simp]: "FME_FEATURE_ID_PR_MGMT = 5"
definition FME_FEATURE_ID_HSSI_ETH :: nat where [simp]: "FME_FEATURE_ID_HSSI_ETH = 6"
definition FME_FEATURE_ID_GLOBAL_DPERF :: nat where [simp]: "FME_FEATURE_ID_GLOBAL_DPERF = 7"
definition FME_FEATURE_ID_QSPI_FLASH :: nat where [simp]: "FME_FEATURE_ID_QSPI_FLASH = 8"
definition FME_FEATURE_ID_MAX :: nat where "FME_FEATURE_ID_MAX = 9"

definition PORT_FEATURE_ID_HEADER :: nat where [simp]: "PORT_FEATURE_ID_HEADER = 0"
definition PORT_FEATURE_ID_ERROR :: nat where [simp]: "PORT_FEATURE_ID_ERROR = 1"
definition PORT_FEATURE_ID_UMSG :: nat where [simp]: "PORT_FEATURE_ID_UMSG = 2"
definition PORT_FEATURE_ID_UINT :: nat where [simp]: "PORT_FEATURE_ID_UINT = 3"
definition PORT_FEATURE_ID_STP :: nat where [simp]: "PORT_FEATURE_ID_STP = 4"
definition PORT_FEATURE_ID_UAFU :: nat where [simp]: "PORT_FEATURE_ID_UAFU = 5"
definition PORT_FEATURE_ID_MAX :: nat where "PORT_FEATURE_ID_MAX = 6"

definition fme_feature_num :: nat where
  "fme_feature_num = FME_FEATURE_ID_MAX"

definition port_feature_num :: nat where
  "port_feature_num = PORT_FEATURE_ID_MAX"

definition FPGA_FEATURE_DEV_FME :: string where
  "FPGA_FEATURE_DEV_FME = ''intel-fpga-fme''"

definition FPGA_FEATURE_DEV_PORT :: string where
  "FPGA_FEATURE_DEV_PORT = ''intel-fpga-port''"

text \<open>
  Recording a feature that was found during enumeration. The \<^verbatim>\<open>ops\<close> pointer is not touched. An
  index beyond \<^verbatim>\<open>pdata->num\<close> is a C error (the code only warns); the callers pass the fixed
  indices of the enumerations.
\<close>

definition feature_platform_data_add ::
  "'p feature_platform_data \<Rightarrow> nat \<Rightarrow> string \<Rightarrow> int \<Rightarrow> u64 \<Rightarrow> feature_irq_ctx list \<Rightarrow> int \<Rightarrow>
   'p feature_platform_data" where
  "feature_platform_data_add pd index name resource_index ioaddr ctx ctx_num =
     pd\<lparr>pd_features := (pd_features pd)[index := (pd_features pd ! index)
       \<lparr>f_name := Some name, f_resource_index := resource_index, f_ioaddr := ioaddr,
        f_ctx := ctx, f_ctx_num := ctx_num\<rparr>]\<rparr>"

definition feature_platform_data_alloc_and_init ::
  "nat \<Rightarrow> world \<Rightarrow> 'p feature_platform_data option \<times> world" where
  "feature_platform_data_alloc_and_init num w =
     (case kvalue Kzalloc [int num] w of
        (Inl _, w1) \<Rightarrow> (None, w1)
      | (Inr _, w1) \<Rightarrow>
          (Some \<lparr>pd_excl_open = 0, pd_open_count = 0, pd_disable_count = 0, pd_private = None,
                 pd_num = num, pd_features = replicate num zero_feature\<rparr>, w1))"

definition get_feature_ioaddr_by_index :: "'p feature_platform_data \<Rightarrow> nat \<Rightarrow> u64" where
  "get_feature_ioaddr_by_index pd index = f_ioaddr (pd_features pd ! index)"

definition is_feature_present :: "'p feature_platform_data \<Rightarrow> nat \<Rightarrow> bool" where
  "is_feature_present pd index \<longleftrightarrow> get_feature_ioaddr_by_index pd index \<noteq> 0"

definition fpga_pdata_set_private ::
  "'p feature_platform_data \<Rightarrow> 'p option \<Rightarrow> 'p feature_platform_data" where
  "fpga_pdata_set_private pd priv = pd\<lparr>pd_private := priv\<rparr>"

definition fpga_pdata_get_private :: "'p feature_platform_data \<Rightarrow> 'p option" where
  "fpga_pdata_get_private pd = pd_private pd"

subsection \<open>Exclusive and shared use of a device\<close>

definition feature_dev_use_excl_begin ::
  "'p feature_platform_data \<Rightarrow> unit res \<times> 'p feature_platform_data" where
  "feature_dev_use_excl_begin pd =
     (if pd_open_count pd \<noteq> 0 then (Inl EBUSY, pd)
      else (Inr (), pd\<lparr>pd_excl_open := 1, pd_open_count := pd_open_count pd + 1\<rparr>))"

definition feature_dev_use_begin ::
  "'p feature_platform_data \<Rightarrow> unit res \<times> 'p feature_platform_data" where
  "feature_dev_use_begin pd =
     (if pd_excl_open pd \<noteq> 0 then (Inl EBUSY, pd)
      else (Inr (), pd\<lparr>pd_open_count := pd_open_count pd + 1\<rparr>))"

definition feature_dev_use_end :: "'p feature_platform_data \<Rightarrow> 'p feature_platform_data" where
  "feature_dev_use_end pd =
     pd\<lparr>pd_excl_open := 0, pd_open_count := pd_open_count pd - 1\<rparr>"

text \<open>
  The contract of the three operations, as the file operations of the two drivers and the
  release of ports rely on it. \<open>users s\<close> is the number of users the state counts and
  \<open>exclusive s\<close> whether it is reserved for one.
\<close>

locale device_use =
  fixes excl_begin :: "'s \<Rightarrow> unit res \<times> 's"
    and share_begin :: "'s \<Rightarrow> unit res \<times> 's"
    and use_end :: "'s \<Rightarrow> 's"
    and users :: "'s \<Rightarrow> int"
    and exclusive :: "'s \<Rightarrow> bool"
  assumes excl_begin_ok: "excl_begin s = (Inr (), s') \<Longrightarrow>
      users s = 0 \<and> users s' = 1 \<and> exclusive s'"
    and excl_begin_err: "excl_begin s = (Inl e, s') \<Longrightarrow> s' = s \<and> users s \<noteq> 0"
    and share_begin_ok: "share_begin s = (Inr (), s') \<Longrightarrow>
      \<not> exclusive s \<and> users s' = users s + 1 \<and> \<not> exclusive s'"
    and share_begin_err: "share_begin s = (Inl e, s') \<Longrightarrow> s' = s \<and> exclusive s"
    and use_end_users: "users (use_end s) = users s - 1"
    and use_end_exclusive: "\<not> exclusive (use_end s)"
begin

text \<open>
  The users of a device as a list of flags, one per open file (\<open>True\<close>: opened with
  \<^verbatim>\<open>O_EXCL\<close>), together with the state of the device. A file is closed once.
\<close>

inductive use_step :: "bool list \<times> 's \<Rightarrow> bool list \<times> 's \<Rightarrow> bool" where
  open_excl: "excl_begin s = (Inr (), s') \<Longrightarrow> use_step (fs, s) (True # fs, s')"
| open_share: "share_begin s = (Inr (), s') \<Longrightarrow> use_step (fs, s) (False # fs, s')"
| refused_excl: "excl_begin s = (Inl e, s') \<Longrightarrow> use_step (fs, s) (fs, s')"
| refused_share: "share_begin s = (Inl e, s') \<Longrightarrow> use_step (fs, s) (fs, s')"
| close: "use_step (fs @ f # gs, s) (fs @ gs, use_end s)"

definition use_inv :: "bool list \<times> 's \<Rightarrow> bool" where
  "use_inv c \<longleftrightarrow> users (snd c) = int (length (fst c)) \<and>
     (if exclusive (snd c) then fst c = [True] else True \<notin> set (fst c))"

lemma use_step_inv: "use_step c c' \<Longrightarrow> use_inv c \<Longrightarrow> use_inv c'"
proof (induction rule: use_step.induct)
  case (open_excl s s' fs)
  then show ?case using excl_begin_ok [of s s'] by (auto simp: use_inv_def)
next
  case (open_share s s' fs)
  then show ?case using share_begin_ok [of s s'] by (auto simp: use_inv_def)
next
  case (refused_excl s e s' fs)
  then show ?case using excl_begin_err [of s e s'] by (auto simp: use_inv_def)
next
  case (refused_share s e s' fs)
  then show ?case using share_begin_err [of s e s'] by (auto simp: use_inv_def)
next
  case (close fs f gs s)
  then show ?case
    by (cases "exclusive s")
      (auto simp: use_inv_def use_end_users use_end_exclusive append_eq_Cons_conv)
qed

lemma use_steps_inv: "use_step\<^sup>*\<^sup>* c c' \<Longrightarrow> use_inv c \<Longrightarrow> use_inv c'"
  by (induction rule: rtranclp_induct) (auto intro: use_step_inv)

lemma use_inv_exclusive: "use_inv (fs, s) \<Longrightarrow> True \<in> set fs \<Longrightarrow> fs = [True]"
  by (auto simp: use_inv_def split: if_splits)

end

interpretation feature_use: device_use
  "feature_dev_use_excl_begin :: 'p feature_platform_data \<Rightarrow> _"
  feature_dev_use_begin feature_dev_use_end
  pd_open_count "\<lambda>pd. pd_excl_open pd \<noteq> 0"
  by unfold_locales
    (auto simp: feature_dev_use_excl_begin_def feature_dev_use_begin_def
      feature_dev_use_end_def split: if_splits)

text \<open>
  C25. Over any sequence of exclusive opens, shared opens, refused opens and closes of a device,
  starting with none open: the open count is the number of open files, and a file that was
  opened exclusively is the only open file.
\<close>

theorem open_files_inv:
  assumes "feature_use.use_step\<^sup>*\<^sup>* ([], pd) (fs, pd')"
    and "pd_open_count pd = 0" and "pd_excl_open pd = 0"
  shows "pd_open_count pd' = int (length fs) \<and> (True \<in> set fs \<longrightarrow> fs = [True])"
proof -
  have "feature_use.use_inv ([], pd)"
    using assms by (simp add: feature_use.use_inv_def)
  then have inv: "feature_use.use_inv (fs, pd')"
    by (rule feature_use.use_steps_inv [OF assms(1)])
  then show ?thesis
    using feature_use.use_inv_exclusive by (auto simp: feature_use.use_inv_def)
qed

text \<open>A feature device with nothing in it, for the witnesses.\<close>

definition empty_pdata :: "'p feature_platform_data" where
  "empty_pdata =
     \<lparr>pd_excl_open = 0, pd_open_count = 0, pd_disable_count = 0, pd_private = None,
      pd_num = 0, pd_features = []\<rparr>"

theorem open_files_inv_witness:
  "pd_open_count (snd (feature_dev_use_excl_begin (empty_pdata :: unit feature_platform_data))) =
     int (length [True]) \<and>
   feature_dev_use_begin (snd (feature_dev_use_excl_begin empty_pdata)) =
     (Inl EBUSY, snd (feature_dev_use_excl_begin (empty_pdata :: unit feature_platform_data)))"
proof -
  let ?pd = "empty_pdata :: unit feature_platform_data"
  have st: "feature_use.use_step\<^sup>*\<^sup>* ([], ?pd) ([True], snd (feature_dev_use_excl_begin ?pd))"
    by (rule r_into_rtranclp, rule feature_use.open_excl)
      (simp add: feature_dev_use_excl_begin_def empty_pdata_def)
  from open_files_inv [OF st] show ?thesis
    by (simp add: empty_pdata_def feature_dev_use_begin_def feature_dev_use_excl_begin_def)
qed

subsection \<open>Initialisation of the sub-features\<close>

text \<open>
  The operations of a sub-feature. The second argument is the index of the feature; \<open>'c\<close> is the
  type of an ioctl request. \<open>init\<close> and \<open>uinit\<close> are always there, \<open>ioctl\<close> and \<open>test\<close> may be
  NULL.
\<close>

type_synonym 'p feature_call =
  "nat \<Rightarrow> 'p feature_platform_data \<Rightarrow> world \<Rightarrow> unit res \<times> 'p feature_platform_data \<times> world"

record ('p, 'c) feature_ops =
  op_init :: "'p feature_call"
  op_uinit :: "nat \<Rightarrow> 'p feature_platform_data \<Rightarrow> world \<Rightarrow> 'p feature_platform_data \<times> world"
  op_ioctl :: "('c \<Rightarrow> 'p feature_call) option"
  op_test :: "'p feature_call option"

text \<open>\<^verbatim>\<open>struct feature_driver\<close>: the feature's name and the name of its operations.\<close>

type_synonym feature_driver = "string \<times> string"

definition set_feature_ops ::
  "nat \<Rightarrow> string option \<Rightarrow> 'p feature_platform_data \<Rightarrow> 'p feature_platform_data" where
  "set_feature_ops i ops pd =
     pd\<lparr>pd_features := (pd_features pd)[i := (pd_features pd ! i)\<lparr>f_ops := ops\<rparr>]\<rparr>"

fun uinit_features ::
  "(string \<Rightarrow> ('p, 'c) feature_ops) \<Rightarrow> nat list \<Rightarrow> 'p feature_platform_data \<Rightarrow> world \<Rightarrow>
   'p feature_platform_data \<times> world" where
  "uinit_features tab [] pd w = (pd, w)"
| "uinit_features tab (i # is) pd w =
     (case f_ops (pd_features pd ! i) of
        None \<Rightarrow> uinit_features tab is pd w
      | Some ops \<Rightarrow>
          (case op_uinit (tab ops) i pd w of
             (pd1, w1) \<Rightarrow> uinit_features tab is (set_feature_ops i None pd1) w1))"

definition fpga_dev_feature_uinit ::
  "(string \<Rightarrow> ('p, 'c) feature_ops) \<Rightarrow> 'p feature_platform_data \<Rightarrow> world \<Rightarrow>
   'p feature_platform_data \<times> world" where
  "fpga_dev_feature_uinit tab pd w = uinit_features tab [0..<pd_num pd] pd w"

definition feature_instance_init ::
  "(string \<Rightarrow> ('p, 'c) feature_ops) \<Rightarrow> string \<Rightarrow> 'p feature_call" where
  "feature_instance_init tab ops i pd w =
     (case (case op_test (tab ops) of None \<Rightarrow> (Inr (), pd, w) | Some test \<Rightarrow> test i pd w) of
        (Inl e, pd1, w1) \<Rightarrow> (Inl e, pd1, w1)
      | (Inr _, pd1, w1) \<Rightarrow>
          (case op_init (tab ops) i pd1 w1 of
             (Inl e, pd2, w2) \<Rightarrow> (Inl e, pd2, w2)
           | (Inr _, pd2, w2) \<Rightarrow> (Inr (), set_feature_ops i (Some ops) pd2, w2)))"

text \<open>The inner loop: one driver against the features, stopping at the first error.\<close>

fun init_features ::
  "(string \<Rightarrow> ('p, 'c) feature_ops) \<Rightarrow> feature_driver \<Rightarrow> nat list \<Rightarrow>
   'p feature_platform_data \<Rightarrow> world \<Rightarrow> unit res \<times> 'p feature_platform_data \<times> world" where
  "init_features tab drv [] pd w = (Inr (), pd, w)"
| "init_features tab drv (i # is) pd w =
     (case f_name (pd_features pd ! i) of
        None \<Rightarrow> init_features tab drv is pd w
      | Some name \<Rightarrow>
          if fst drv = name then
            (case feature_instance_init tab (snd drv) i pd w of
               (Inl e, pd1, w1) \<Rightarrow> (Inl e, pd1, w1)
             | (Inr _, pd1, w1) \<Rightarrow> init_features tab drv is pd1 w1)
          else init_features tab drv is pd w)"

text \<open>The outer loop over the drivers; the array ends with the entry that has no operations.\<close>

fun init_drivers ::
  "(string \<Rightarrow> ('p, 'c) feature_ops) \<Rightarrow> feature_driver list \<Rightarrow>
   'p feature_platform_data \<Rightarrow> world \<Rightarrow> unit res \<times> 'p feature_platform_data \<times> world" where
  "init_drivers tab [] pd w = (Inr (), pd, w)"
| "init_drivers tab (drv # drvs) pd w =
     (case init_features tab drv [0..<pd_num pd] pd w of
        (Inl e, pd1, w1) \<Rightarrow> (Inl e, pd1, w1)
      | (Inr _, pd1, w1) \<Rightarrow> init_drivers tab drvs pd1 w1)"

definition fpga_dev_feature_init ::
  "(string \<Rightarrow> ('p, 'c) feature_ops) \<Rightarrow> feature_driver list \<Rightarrow>
   'p feature_platform_data \<Rightarrow> world \<Rightarrow> unit res \<times> 'p feature_platform_data \<times> world" where
  "fpga_dev_feature_init tab drvs pd w =
     (case init_drivers tab drvs pd w of
        (Inr _, pd1, w1) \<Rightarrow> (Inr (), pd1, w1)
      | (Inl e, pd1, w1) \<Rightarrow>
          (case fpga_dev_feature_uinit tab pd1 w1 of (pd2, w2) \<Rightarrow> (Inl e, pd2, w2)))"

text \<open>
  What the framework needs of the operations of a driver: they leave the table of features
  (its length, the names and the recorded operations) alone.
\<close>

definition same_table :: "'p feature_platform_data \<Rightarrow> 'p feature_platform_data \<Rightarrow> bool" where
  "same_table pd pd' \<longleftrightarrow> pd_num pd' = pd_num pd \<and>
     map f_name (pd_features pd') = map f_name (pd_features pd) \<and>
     map f_ops (pd_features pd') = map f_ops (pd_features pd)"

lemma same_table_refl [simp]: "same_table pd pd"
  by (simp add: same_table_def)

lemma same_table_trans [trans]:
  "same_table pd pd' \<Longrightarrow> same_table pd' pd'' \<Longrightarrow> same_table pd pd''"
  by (simp add: same_table_def)

lemma same_table_length: "same_table pd pd' \<Longrightarrow> length (pd_features pd') = length (pd_features pd)"
  unfolding same_table_def by (metis length_map)

lemma same_table_nth:
  assumes "same_table pd pd'" and "i < length (pd_features pd)"
  shows "f_name (pd_features pd' ! i) = f_name (pd_features pd ! i) \<and>
    f_ops (pd_features pd' ! i) = f_ops (pd_features pd ! i)"
  using assms unfolding same_table_def by (metis length_map nth_map)

text \<open>The names and the operations as functions of the index, which the loops change.\<close>

definition name_of :: "'p feature_platform_data \<Rightarrow> nat \<Rightarrow> string option" where
  "name_of pd i = f_name (pd_features pd ! i)"

definition ops_of :: "'p feature_platform_data \<Rightarrow> nat \<Rightarrow> string option" where
  "ops_of pd i = f_ops (pd_features pd ! i)"

text \<open>The table keeps its shape: as many features, the same names.\<close>

definition same_names :: "'p feature_platform_data \<Rightarrow> 'p feature_platform_data \<Rightarrow> bool" where
  "same_names pd pd' \<longleftrightarrow> pd_num pd' = pd_num pd \<and>
     length (pd_features pd') = length (pd_features pd) \<and>
     (\<forall>i < length (pd_features pd). name_of pd' i = name_of pd i)"

lemma same_names_refl [simp]: "same_names pd pd"
  by (simp add: same_names_def)

lemma same_names_trans [trans]:
  "same_names pd pd' \<Longrightarrow> same_names pd' pd'' \<Longrightarrow> same_names pd pd''"
  by (simp add: same_names_def)

lemma same_table_names: "same_table pd pd' \<Longrightarrow> same_names pd pd'"
  using same_table_length [of pd pd'] same_table_nth [of pd pd']
  by (auto simp: same_names_def name_of_def same_table_def)

lemma same_names_set_ops [simp]: "same_names pd (set_feature_ops i ops pd)"
  by (cases "i < length (pd_features pd)")
    (auto simp: same_names_def name_of_def set_feature_ops_def nth_list_update)

lemma ops_of_set_ops:
  "i < length (pd_features pd) \<Longrightarrow>
   ops_of (set_feature_ops i ops pd) j = (if j = i then ops else ops_of pd j)"
  by (auto simp: ops_of_def set_feature_ops_def nth_list_update)

lemma same_table_ops: "same_table pd pd' \<Longrightarrow> i < length (pd_features pd) \<Longrightarrow> ops_of pd' i = ops_of pd i"
  using same_table_nth by (auto simp: ops_of_def)

locale feature_ops_frame =
  fixes tab :: "string \<Rightarrow> ('p, 'c) feature_ops"
  assumes init_frame: "op_init (tab ops) i pd w = (r, pd', w') \<Longrightarrow> same_table pd pd'"
    and uinit_frame: "op_uinit (tab ops) i pd w = (pd', w') \<Longrightarrow> same_table pd pd'"
    and test_frame: "op_test (tab ops) = Some t \<Longrightarrow> t i pd w = (r, pd', w') \<Longrightarrow> same_table pd pd'"
begin

lemma uinit_features_frame:
  "uinit_features tab is pd w = (pd', w') \<Longrightarrow> set is \<subseteq> {..<length (pd_features pd)} \<Longrightarrow>
   same_names pd pd' \<and>
   (\<forall>j < length (pd_features pd). ops_of pd' j = (if j \<in> set is then None else ops_of pd j))"
proof (induction "is" arbitrary: pd w)
  case Nil
  then show ?case by simp
next
  case (Cons i "is")
  show ?case
  proof (cases "ops_of pd i")
    case None
    with Cons show ?thesis by (fastforce simp: ops_of_def)
  next
    case (Some ops)
    obtain pd1 w1 where u: "op_uinit (tab ops) i pd w = (pd1, w1)" by (metis surj_pair)
    have t: "same_table pd pd1" by (rule uinit_frame [OF u])
    have len: "length (pd_features pd1) = length (pd_features pd)"
      by (rule same_table_length [OF t])
    let ?pd2 = "set_feature_ops i None pd1"
    have rest: "uinit_features tab is ?pd2 w1 = (pd', w')"
      using Cons.prems(1) Some u by (simp add: ops_of_def)
    have len2: "length (pd_features ?pd2) = length (pd_features pd)"
      using len by (simp add: set_feature_ops_def)
    have IH: "same_names ?pd2 pd' \<and> (\<forall>j < length (pd_features ?pd2).
        ops_of pd' j = (if j \<in> set is then None else ops_of ?pd2 j))"
      by (rule Cons.IH [OF rest]) (use Cons.prems(2) len2 in auto)
    have names: "same_names pd ?pd2"
      using same_table_names [OF t] same_names_set_ops same_names_trans by blast
    have ops2: "ops_of ?pd2 j = (if j = i then None else ops_of pd j)"
      if "j < length (pd_features pd)" for j
      using that Cons.prems(2) len same_table_nth [OF t that]
      by (simp add: ops_of_set_ops) (simp add: ops_of_def)
    show ?thesis
      using IH names ops2 len2 same_names_trans [OF names] by auto
  qed
qed

lemma feature_uinit_all:
  assumes "fpga_dev_feature_uinit tab pd w = (pd', w')" and "pd_num pd = length (pd_features pd)"
  shows "same_names pd pd' \<and> (\<forall>j < pd_num pd. ops_of pd' j = None)"
proof -
  have sub: "set [0..<pd_num pd] \<subseteq> {..<length (pd_features pd)}"
    using assms by auto
  show ?thesis
    using uinit_features_frame [OF _ sub] assms by (auto simp: fpga_dev_feature_uinit_def)
qed

lemma instance_init_frame:
  assumes "feature_instance_init tab ops i pd w = (r, pd', w')"
    and "i < length (pd_features pd)"
  shows "same_names pd pd' \<and> (\<forall>j < length (pd_features pd). ops_of pd' j =
      (if r = Inr () \<and> j = i then Some ops else ops_of pd j))"
proof -
  obtain r1 pd1 w1 where t: "(case op_test (tab ops) of None \<Rightarrow> (Inr (), pd, w)
      | Some test \<Rightarrow> test i pd w) = (r1, pd1, w1)"
    by (metis surj_pair)
  have t1: "same_table pd pd1"
    using t test_frame by (auto split: option.splits)
  note len1 = same_table_length [OF t1]
  show ?thesis
  proof (cases r1)
    case (Inl e)
    with assms t t1 show ?thesis
      by (auto simp: feature_instance_init_def same_table_names same_table_ops)
  next
    case (Inr u)
    obtain r2 pd2 w2 where i2: "op_init (tab ops) i pd1 w1 = (r2, pd2, w2)"
      by (metis surj_pair)
    have t2: "same_table pd pd2"
      using same_table_trans [OF t1 init_frame [OF i2]] .
    note len2 = same_table_length [OF t2]
    have res: "(r, pd', w') = (case r2 of Inl e \<Rightarrow> (Inl e, pd2, w2)
        | Inr _ \<Rightarrow> (Inr (), set_feature_ops i (Some ops) pd2, w2))"
      using assms(1) t Inr i2 by (cases r2) (auto simp: feature_instance_init_def)
    show ?thesis
    proof (cases r2)
      case (Inl e)
      with res t2 show ?thesis by (auto simp: same_table_names same_table_ops)
    next
      case (Inr v)
      with res t2 len2 assms(2) same_names_trans [OF same_table_names [OF t2] same_names_set_ops]
      show ?thesis by (auto simp: ops_of_set_ops same_table_ops)
    qed
  qed
qed

lemma init_features_frame:
  "init_features tab drv is pd w = (r, pd', w') \<Longrightarrow> set is \<subseteq> {..<length (pd_features pd)} \<Longrightarrow>
   same_names pd pd' \<and> (\<forall>j < length (pd_features pd).
     (ops_of pd' j = ops_of pd j \<or>
        name_of pd j = Some (fst drv) \<and> ops_of pd' j = Some (snd drv)) \<and>
     (r = Inr () \<and> j \<in> set is \<and> name_of pd j = Some (fst drv) \<longrightarrow>
        ops_of pd' j = Some (snd drv)))"
proof (induction "is" arbitrary: pd w)
  case Nil
  then show ?case by simp
next
  case (Cons i "is")
  show ?case
  proof (cases "name_of pd i = Some (fst drv)")
    case False
    then have "init_features tab drv is pd w = (r, pd', w')"
      using Cons.prems(1) by (auto simp: name_of_def split: option.splits if_splits)
    from Cons.IH [OF this] Cons.prems(2) False show ?thesis by auto
  next
    case True
    obtain r1 pd1 w1 where s: "feature_instance_init tab (snd drv) i pd w = (r1, pd1, w1)"
      by (metis surj_pair)
    have f: "same_names pd pd1 \<and> (\<forall>j < length (pd_features pd). ops_of pd1 j =
        (if r1 = Inr () \<and> j = i then Some (snd drv) else ops_of pd j))"
      by (rule instance_init_frame [OF s]) (use Cons.prems(2) in auto)
    show ?thesis
    proof (cases r1)
      case (Inl e)
      then have "r = Inl e" "pd' = pd1"
        using Cons.prems(1) True s by (auto simp: name_of_def)
      with f Inl show ?thesis by auto
    next
      case (Inr u)
      then have rest: "init_features tab drv is pd1 w1 = (r, pd', w')"
        using Cons.prems(1) True s by (auto simp: name_of_def)
      have len: "length (pd_features pd1) = length (pd_features pd)"
        using f by (simp add: same_names_def)
      have IH: "same_names pd1 pd' \<and> (\<forall>j < length (pd_features pd1).
        (ops_of pd' j = ops_of pd1 j \<or>
           name_of pd1 j = Some (fst drv) \<and> ops_of pd' j = Some (snd drv)) \<and>
        (r = Inr () \<and> j \<in> set is \<and> name_of pd1 j = Some (fst drv) \<longrightarrow>
           ops_of pd' j = Some (snd drv)))"
        by (rule Cons.IH [OF rest]) (use Cons.prems(2) len in auto)
      have nm: "name_of pd1 j = name_of pd j" if "j < length (pd_features pd)" for j
        using f that by (simp add: same_names_def)
      show ?thesis
        using IH f len nm True Inr same_names_trans [of pd pd1 pd'] by (auto split: if_splits)
    qed
  qed
qed

text \<open>
  What the loop over the drivers leaves: a feature whose operations changed has those of the
  driver with its name, and after success every feature with a driver has them.
\<close>

lemma init_drivers_frame:
  "init_drivers tab drvs pd w = (r, pd', w') \<Longrightarrow> pd_num pd = length (pd_features pd) \<Longrightarrow>
   distinct (map fst drvs) \<Longrightarrow>
   same_names pd pd' \<and> (\<forall>j < pd_num pd.
     (ops_of pd' j = ops_of pd j \<or>
        (\<exists>drv \<in> set drvs. name_of pd j = Some (fst drv) \<and> ops_of pd' j = Some (snd drv))) \<and>
     (r = Inr () \<longrightarrow> (\<forall>drv \<in> set drvs. name_of pd j = Some (fst drv) \<longrightarrow>
        ops_of pd' j = Some (snd drv))))"
proof (induction drvs arbitrary: pd w)
  case Nil
  then show ?case by simp
next
  case (Cons drv drvs)
  obtain r1 pd1 w1 where s: "init_features tab drv [0..<pd_num pd] pd w = (r1, pd1, w1)"
    by (metis surj_pair)
  have f: "same_names pd pd1 \<and> (\<forall>j < length (pd_features pd).
     (ops_of pd1 j = ops_of pd j \<or>
        name_of pd j = Some (fst drv) \<and> ops_of pd1 j = Some (snd drv)) \<and>
     (r1 = Inr () \<and> j \<in> set [0..<pd_num pd] \<and> name_of pd j = Some (fst drv) \<longrightarrow>
        ops_of pd1 j = Some (snd drv)))"
    by (rule init_features_frame [OF s]) (use Cons.prems(2) in auto)
  show ?case
  proof (cases r1)
    case (Inl e)
    then have "r = Inl e" "pd' = pd1" using Cons.prems(1) s by auto
    with f Inl Cons.prems(2) show ?thesis by auto
  next
    case (Inr u)
    then have rest: "init_drivers tab drvs pd1 w1 = (r, pd', w')"
      using Cons.prems(1) s by auto
    have num: "pd_num pd1 = pd_num pd" "pd_num pd1 = length (pd_features pd1)"
      and nm: "\<And>j. j < pd_num pd \<Longrightarrow> name_of pd1 j = name_of pd j"
      using f Cons.prems(2) by (auto simp: same_names_def)
    have IH: "same_names pd1 pd' \<and> (\<forall>j < pd_num pd1.
     (ops_of pd' j = ops_of pd1 j \<or>
        (\<exists>drv \<in> set drvs. name_of pd1 j = Some (fst drv) \<and> ops_of pd' j = Some (snd drv))) \<and>
     (r = Inr () \<longrightarrow> (\<forall>drv \<in> set drvs. name_of pd1 j = Some (fst drv) \<longrightarrow>
        ops_of pd' j = Some (snd drv))))"
      by (rule Cons.IH [OF rest num(2)]) (use Cons.prems(3) in auto)
    have ops1: "ops_of pd1 j = ops_of pd j \<or>
        name_of pd j = Some (fst drv) \<and> ops_of pd1 j = Some (snd drv)"
      and ops1': "name_of pd j = Some (fst drv) \<Longrightarrow> ops_of pd1 j = Some (snd drv)"
      if "j < pd_num pd" for j
      using f Inr that Cons.prems(2) by auto
    have fresh: "fst d \<noteq> fst drv" if "d \<in> set drvs" for d
      using imageI [OF that, of fst] Cons.prems(3) by (metis distinct.simps(2) list.set_map list.simps(9))
    have "ops_of pd' j = ops_of pd j \<or> (\<exists>d \<in> set (drv # drvs).
        name_of pd j = Some (fst d) \<and> ops_of pd' j = Some (snd d))" if "j < pd_num pd" for j
    proof -
      have "ops_of pd' j = ops_of pd1 j \<or> (\<exists>d \<in> set drvs.
          name_of pd j = Some (fst d) \<and> ops_of pd' j = Some (snd d))"
        using IH that num(1) nm [OF that] by metis
      with ops1 [OF that] show ?thesis by (metis list.set_intros)
    qed
    moreover have "r = Inr () \<longrightarrow> (\<forall>d \<in> set (drv # drvs). name_of pd j = Some (fst d) \<longrightarrow>
        ops_of pd' j = Some (snd d))" if j: "j < pd_num pd" for j
    proof (intro impI ballI)
      fix d assume ok: "r = Inr ()" and d: "d \<in> set (drv # drvs)"
        and nd: "name_of pd j = Some (fst d)"
      show "ops_of pd' j = Some (snd d)"
      proof (cases "d \<in> set drvs")
        case True
        with IH ok nd nm [OF j] j num(1) show ?thesis by auto
      next
        case False
        with d have "d = drv" by simp
        with ops1' [OF j] nd IH nm [OF j] j num(1) fresh show ?thesis by fastforce
      qed
    qed
    ultimately show ?thesis
      using IH f same_names_trans [of pd pd1 pd'] by auto
  qed
qed

text \<open>
  The contract of \<^verbatim>\<open>fpga_dev_feature_init\<close>: the names stay; after an error no feature has
  operations; after success a feature has the operations of the driver with its name, and a
  feature with no driver has what it had before.
\<close>

lemma feature_init_contract:
  assumes "fpga_dev_feature_init tab drvs pd w = (r, pd', w')"
    and "pd_num pd = length (pd_features pd)" and "distinct (map fst drvs)"
  shows "same_names pd pd' \<and> (\<forall>j < pd_num pd.
    case r of Inl _ \<Rightarrow> ops_of pd' j = None
    | Inr _ \<Rightarrow> ops_of pd' j =
        (case name_of pd j of None \<Rightarrow> ops_of pd j
         | Some n \<Rightarrow> (case map_of drvs n of None \<Rightarrow> ops_of pd j | Some ops \<Rightarrow> Some ops)))"
proof -
  obtain r1 pd1 w1 where s: "init_drivers tab drvs pd w = (r1, pd1, w1)"
    by (metis surj_pair)
  note f = init_drivers_frame [OF s assms(2,3)]
  show ?thesis
  proof (cases r1)
    case (Inl e)
    obtain pd2 w2 where u: "fpga_dev_feature_uinit tab pd1 w1 = (pd2, w2)"
      by (metis surj_pair)
    have "pd_num pd1 = length (pd_features pd1)" "pd_num pd1 = pd_num pd"
      using f assms(2) by (auto simp: same_names_def)
    then have "same_names pd1 pd2 \<and> (\<forall>j < pd_num pd. ops_of pd2 j = None)"
      using feature_uinit_all [OF u] by simp
    moreover have "r = Inl e" "pd' = pd2"
      using assms(1) s Inl u by (auto simp: fpga_dev_feature_init_def)
    ultimately show ?thesis
      using f same_names_trans [of pd pd1 pd2] by auto
  next
    case (Inr v)
    then have r: "r = Inr ()" "pd' = pd1"
      using assms(1) s by (auto simp: fpga_dev_feature_init_def)
    have "ops_of pd' j = (case name_of pd j of None \<Rightarrow> ops_of pd j
         | Some n \<Rightarrow> (case map_of drvs n of None \<Rightarrow> ops_of pd j | Some ops \<Rightarrow> Some ops))"
      if "j < pd_num pd" for j
    proof (cases "\<exists>d \<in> set drvs. name_of pd j = Some (fst d)")
      case True
      then obtain d where d: "d \<in> set drvs" "name_of pd j = Some (fst d)" by auto
      then have "map_of drvs (fst d) = Some (snd d)"
        using assms(3) by (metis map_of_eq_Some_iff prod.collapse)
      with d f r that Inr show ?thesis by auto
    next
      case False
      then have "map_of drvs n = None" if "name_of pd j = Some n" for n
        using that by (fastforce simp: map_of_eq_None_iff)
      with False f r that show ?thesis by (fastforce split: option.splits)
    qed
    with f r show ?thesis by auto
  qed
qed

end

subsection \<open>Character device numbers\<close>

text \<open>
  The table \<^verbatim>\<open>fpga_chrdevs\<close> is indexed by \<^verbatim>\<open>enum fpga_devt_type\<close>; an entry is the name and the
  device number, a 32-bit number whose upper 12 bits are the major number
  (\<^verbatim>\<open>MAJOR\<close>, \<^verbatim>\<open>MKDEV\<close> of the kernel).
\<close>

datatype fpga_devt_type = FPGA_DEVT_FME | FPGA_DEVT_PORT

definition FPGA_DEVT_MAX :: nat where "FPGA_DEVT_MAX = 2"

fun devt_index :: "fpga_devt_type \<Rightarrow> nat" where
  "devt_index FPGA_DEVT_FME = 0"
| "devt_index FPGA_DEVT_PORT = 1"

type_synonym fpga_chardev_info = "string \<times> u32"

definition fpga_chrdevs :: "fpga_chardev_info list" where
  "fpga_chrdevs = [(FPGA_FEATURE_DEV_FME, 0), (FPGA_FEATURE_DEV_PORT, 0)]"

definition MKDEV :: "u32 \<Rightarrow> u32 \<Rightarrow> u32" where
  "MKDEV ma mi = push_bit 20 ma OR mi"

definition MAJOR :: "u32 \<Rightarrow> u32" where
  "MAJOR dev = drop_bit 20 dev"

fun uinit_chrdevs :: "fpga_chardev_info list \<Rightarrow> world \<Rightarrow> fpga_chardev_info list \<times> world" where
  "uinit_chrdevs [] w = ([], w)"
| "uinit_chrdevs (c # cs) w =
     (if MAJOR (snd c) \<noteq> 0 then
        (case uinit_chrdevs cs (kvoid Unregister_chrdev_region [uint (snd c)] w) of
           (cs', w') \<Rightarrow> ((fst c, MKDEV 0 0) # cs', w'))
      else (case uinit_chrdevs cs w of (cs', w') \<Rightarrow> (c # cs', w')))"

definition fpga_chardev_uinit ::
  "fpga_chardev_info list \<Rightarrow> world \<Rightarrow> fpga_chardev_info list \<times> world" where
  "fpga_chardev_uinit = uinit_chrdevs"

text \<open>The loop of \<^verbatim>\<open>fpga_chardev_init\<close>: the entries before the failing one are set.\<close>

fun alloc_chrdevs ::
  "fpga_chardev_info list \<Rightarrow> world \<Rightarrow> unit res \<times> fpga_chardev_info list \<times> world" where
  "alloc_chrdevs [] w = (Inr (), [], w)"
| "alloc_chrdevs (c # cs) w =
     (case kvalue Alloc_chrdev_region [] w of
        (Inl e, w1) \<Rightarrow> (Inl e, c # cs, w1)
      | (Inr devt, w1) \<Rightarrow>
          (case alloc_chrdevs cs w1 of
             (r, cs', w') \<Rightarrow> (r, (fst c, word_of_int devt) # cs', w')))"

definition fpga_chardev_init ::
  "fpga_chardev_info list \<Rightarrow> world \<Rightarrow> unit res \<times> fpga_chardev_info list \<times> world" where
  "fpga_chardev_init cs w =
     (case alloc_chrdevs cs w of
        (Inr _, cs1, w1) \<Rightarrow> (Inr (), cs1, w1)
      | (Inl e, cs1, w1) \<Rightarrow>
          (case fpga_chardev_uinit cs1 w1 of (cs2, w2) \<Rightarrow> (Inl e, cs2, w2)))"

definition fpga_get_devt :: "fpga_chardev_info list \<Rightarrow> fpga_devt_type \<Rightarrow> u32 \<Rightarrow> u32" where
  "fpga_get_devt cs type minor = MKDEV (MAJOR (snd (cs ! devt_index type))) minor"

definition fpga_register_dev_ops :: "u32 \<Rightarrow> world \<Rightarrow> unit res \<times> world" where
  "fpga_register_dev_ops devt w = kstatus Cdev_add [uint devt, 1] w"

definition fpga_unregister_dev_ops :: "u32 \<Rightarrow> world \<Rightarrow> world" where
  "fpga_unregister_dev_ops devt w = kvoid Cdev_del [uint devt] w"

text \<open>What the kernel promises of \<^verbatim>\<open>alloc_chrdev_region\<close>: a device number with a major number.\<close>

definition valid_devts :: "world \<Rightarrow> bool" where
  "valid_devts w \<longleftrightarrow> (\<forall>tr v. w_kcall w tr Alloc_chrdev_region [] = Inr v \<longrightarrow>
     2 ^ 20 \<le> ret_val v \<and> ret_val v < 2 ^ 32)"

lemma MAJOR_of_int:
  assumes "2 ^ 20 \<le> v" and "v < 2 ^ 32"
  shows "MAJOR (word_of_int v) \<noteq> 0 \<and> uint (word_of_int v :: u32) = v"
proof -
  have u: "uint (word_of_int v :: u32) = v"
    using assms by (simp add: uint_word_of_int_eq take_bit_int_eq_self)
  have "uint (MAJOR (word_of_int v)) = v div 2 ^ 20"
    by (simp add: MAJOR_def drop_bit_eq_div uint_div u)
  moreover have "v div 2 ^ 20 > 0"
    using assms by (simp add: pos_imp_zdiv_pos_iff)
  ultimately show ?thesis using u by (metis less_irrefl unsigned_0)
qed

text \<open>
  When the allocation of the character device numbers fails, whichever of the two it is, the
  table is back in its initial state and every range that had been allocated is unregistered.
\<close>

lemma chardev_init_error:
  assumes "fpga_chardev_init fpga_chrdevs w = (Inl e, cs, w')" and "valid_devts w"
  shows "cs = fpga_chrdevs \<and> balance (w_trace w') r = balance (w_trace w) r"
proof -
  have kernel: "MAJOR (word_of_int (ret_val v)) \<noteq> 0 \<and>
      uint (word_of_int (ret_val v) :: u32) = ret_val v"
    if "w_kcall w tr Alloc_chrdev_region [] = Inr v" for tr v
    by (rule MAJOR_of_int) (use assms(2) that in \<open>auto simp: valid_devts_def\<close>)
  have zero: "MAJOR 0 = 0" "MKDEV 0 0 = 0"
    by (simp_all add: MAJOR_def MKDEV_def)
  show ?thesis
    using assms(1) kernel
    by (auto simp: fpga_chardev_init_def fpga_chardev_uinit_def fpga_chrdevs_def kvalue_def
        kcall_def kvoid_def Let_def zero ret_val_def split: sum.splits prod.splits if_splits)
qed

text \<open>A kernel that has one range of device numbers to give.\<close>

definition one_devt_world :: world where
  "one_devt_world = (quiet_world (\<lambda>_. 0))
     \<lparr>w_kcall := (\<lambda>tr f xs. if tr = [] then Inr [2 ^ 28] else Inl EBUSY)\<rparr>"

lemma chardev_init_error_example:
  "fst (snd (fpga_chardev_init fpga_chrdevs one_devt_world)) = fpga_chrdevs \<and>
   balance (w_trace (snd (snd (fpga_chardev_init fpga_chrdevs one_devt_world))))
     (RChrdev (2 ^ 28)) = 0"
proof -
  have "fst (fpga_chardev_init fpga_chrdevs one_devt_world) = Inl EBUSY"
    by (simp add: fpga_chardev_init_def fpga_chrdevs_def one_devt_world_def quiet_world_def
        kvalue_def kcall_def Let_def fpga_chardev_uinit_def ret_val_def MAJOR_def kvoid_def split: prod.split)
  moreover have "valid_devts one_devt_world"
    by (auto simp: valid_devts_def one_devt_world_def ret_val_def split: if_splits)
  moreover obtain r cs w' where
    run: "fpga_chardev_init fpga_chrdevs one_devt_world = (r, cs, w')"
    by (metis surj_pair)
  ultimately have "cs = fpga_chrdevs \<and>
      balance (w_trace w') (RChrdev (2 ^ 28)) = balance (w_trace one_devt_world) (RChrdev (2 ^ 28))"
    using chardev_init_error by simp
  with run show ?thesis
    by (simp add: one_devt_world_def quiet_world_def)
qed

end
