(* ===== verification/Port_Reset.thy ===== *)
theory Port_Reset
  imports Feature_Dev
begin

text \<open>
  The reset of a port: the polling macro \<^verbatim>\<open>fpga_wait_register_field\<close> and the nested
  enable/disable of \<^verbatim>\<open>drivers/fpga/intel/feature-dev.c\<close> and \<^verbatim>\<open>include/intel/feature-dev.h\<close>.
  The functions with two leading underscores carry the prefix \<open>raw_\<close>; the locked variants take
  \<^verbatim>\<open>pdata->lock\<close> around them and are the same atomic step.
\<close>

subsection \<open>Polling a register field\<close>

text \<open>
  The macro's loop with its counter \<open>wait\<close>. Every use has a positive interval; with an interval
  of 0 the C loop would not advance, which the guard excludes so that the recursion is total.
\<close>

function wait_field_loop ::
  "layout \<Rightarrow> string \<Rightarrow> u64 \<Rightarrow> u64 \<Rightarrow> nat \<Rightarrow> nat \<Rightarrow> nat \<Rightarrow> world \<Rightarrow> unit res \<times> world" where
  "wait_field_loop l n expect addr timeout invl wait w =
     (if wait \<le> timeout \<and> 0 < invl then
        (case readq addr w of (v, w1) \<Rightarrow>
           if get_field l n expect = get_field l n v then (Inr (), w1)
           else wait_field_loop l n expect addr timeout invl (wait + invl) (udelay invl w1))
      else (Inl ETIMEDOUT, w))"
  by pat_completeness auto

termination
  by (relation "measure (\<lambda>(l, n, expect, addr, timeout, invl, wait, w). Suc timeout - wait)") auto

declare wait_field_loop.simps [simp del]

definition fpga_wait_register_field ::
  "layout \<Rightarrow> string \<Rightarrow> u64 \<Rightarrow> u64 \<Rightarrow> nat \<Rightarrow> nat \<Rightarrow> world \<Rightarrow> unit res \<times> world" where
  "fpga_wait_register_field l n expect addr timeout invl w =
     wait_field_loop l n expect addr timeout invl 0 w"

lemma mmio_only_wait:
  "wait_field_loop l n expect addr timeout invl wait w = (r, w') \<Longrightarrow> mmio_only w w'"
proof (induction l n expect addr timeout invl wait w rule: wait_field_loop.induct)
  case (1 l n expect addr timeout invl wait w)
  obtain v w1 where rd: "readq addr w = (v, w1)" by (metis surj_pair)
  note m = mmio_only_readq [OF rd]
  show ?case
  proof (cases "wait \<le> timeout \<and> 0 < invl \<and> get_field l n expect \<noteq> get_field l n v")
    case True
    then have "mmio_only (udelay invl w1) w'"
      using 1(1) [OF _ rd [symmetric]] 1(2) rd
      by (simp add: wait_field_loop.simps [of l n expect addr timeout invl wait])
    with m show ?thesis using mmio_only_udelay mmio_only_trans by blast
  next
    case False
    with m 1(2) rd show ?thesis
      by (auto simp: wait_field_loop.simps [of l n expect addr timeout invl wait] split: if_splits)
  qed
qed

lemma mmio_only_wait_register:
  "fpga_wait_register_field l n expect addr timeout invl w = (r, w') \<Longrightarrow> mmio_only w w'"
  by (simp add: fpga_wait_register_field_def mmio_only_wait)

text \<open>What a poll that saw the values \<open>vs\<close> without a match did.\<close>

definition poll_events :: "u64 \<Rightarrow> nat \<Rightarrow> u64 list \<Rightarrow> event list" where
  "poll_events addr invl vs = concat (map (\<lambda>v. [RdQ addr v, Udelay invl]) vs)"

lemma poll_events_simps [simp]:
  "poll_events addr invl [] = []"
  "poll_events addr invl (v # vs) = RdQ addr v # Udelay invl # poll_events addr invl vs"
  by (simp_all add: poll_events_def)

lemma writes_of_poll [simp]: "writes_of (poll_events addr invl vs) = []"
  by (induction vs) auto

text \<open>
  The values a poll saw: \<open>vs\<close> without a match, and after success one more that matches.
  \<open>poll_result\<close> says what follows of them, \<open>todo\<close> reads being left at most.
\<close>

definition poll_result ::
  "layout \<Rightarrow> string \<Rightarrow> u64 \<Rightarrow> u64 \<Rightarrow> nat \<Rightarrow> nat \<Rightarrow> world \<Rightarrow> unit res \<Rightarrow> world \<Rightarrow> bool" where
  "poll_result l n expect addr invl todo w r w' \<longleftrightarrow>
     (\<exists>vs. list_all (\<lambda>v. get_field l n v \<noteq> get_field l n expect) vs \<and>
        (r = Inl ETIMEDOUT \<and> length vs = todo \<and>
           w' = w\<lparr>w_trace := rev (poll_events addr invl vs) @ w_trace w\<rparr> \<or>
         (\<exists>v. r = Inr () \<and> length vs < todo \<and> get_field l n v = get_field l n expect \<and>
           w' = w\<lparr>w_trace := RdQ addr v # rev (poll_events addr invl vs) @ w_trace w\<rparr>)))"

lemma poll_result_step:
  assumes "poll_result l n expect addr invl todo (udelay invl (snd (readq addr w))) r w'"
    and "get_field l n (fst (readq addr w)) \<noteq> get_field l n expect"
  shows "poll_result l n expect addr invl (Suc todo) w r w'"
proof -
  define v where "v = fst (readq addr w)"
  have w1: "udelay invl (snd (readq addr w)) = w\<lparr>w_trace := Udelay invl # RdQ addr v # w_trace w\<rparr>"
    by (simp add: world_defs v_def Let_def)
  from assms(1) obtain vs where vs: "list_all (\<lambda>v. get_field l n v \<noteq> get_field l n expect) vs"
    and res: "r = Inl ETIMEDOUT \<and> length vs = todo \<and>
        w' = w\<lparr>w_trace := rev (poll_events addr invl (v # vs)) @ w_trace w\<rparr> \<or>
      (\<exists>u. r = Inr () \<and> length vs < todo \<and> get_field l n u = get_field l n expect \<and>
        w' = w\<lparr>w_trace := RdQ addr u # rev (poll_events addr invl (v # vs)) @ w_trace w\<rparr>)"
    unfolding poll_result_def w1 by auto
  then show ?thesis
    unfolding poll_result_def using assms(2)
    by (intro exI [where x = "v # vs"]) (auto simp: v_def)
qed

lemma wait_field_loop_result:
  "0 < invl \<Longrightarrow> wait \<le> timeout + invl \<Longrightarrow>
   wait_field_loop l n expect addr timeout invl wait w = (r, w') \<Longrightarrow>
   poll_result l n expect addr invl ((timeout + invl - wait) div invl) w r w'"
proof (induction l n expect addr timeout invl wait w rule: wait_field_loop.induct)
  case (1 l n expect addr timeout invl wait w)
  obtain v w1 where rd: "readq addr w = (v, w1)" by (metis surj_pair)
  show ?case
  proof (cases "wait \<le> timeout")
    case False
    with 1(2-4) have "r = Inl ETIMEDOUT \<and> w' = w" "timeout + invl - wait < invl"
      by (auto simp: wait_field_loop.simps [of l n expect addr timeout invl wait])
    then show ?thesis
      by (auto simp: poll_result_def intro: exI [where x = "[]"])
  next
    case True
    then have todo: "(timeout + invl - wait) div invl =
        Suc ((timeout + invl - (wait + invl)) div invl)"
      using 1(2) by (metis Suc_eq_plus1 add.commute add_diff_cancel_right div_add_self1
          less_numeral_extra(3) Nat.add_diff_assoc)
    show ?thesis
    proof (cases "get_field l n expect = get_field l n v")
      case True
      with \<open>wait \<le> timeout\<close> 1(2,4) rd have "r = Inr () \<and> w' = w1"
        by (auto simp: wait_field_loop.simps [of l n expect addr timeout invl wait])
      moreover have "w1 = w\<lparr>w_trace := RdQ addr v # w_trace w\<rparr>"
        using rd by (auto simp: world_defs Let_def)
      ultimately show ?thesis
        using True todo by (auto simp: poll_result_def intro!: exI [where x = "[]"])
    next
      case False
      have "wait_field_loop l n expect addr timeout invl (wait + invl) (udelay invl w1) = (r, w')"
        using False \<open>wait \<le> timeout\<close> 1(2,4) rd
        by (simp add: wait_field_loop.simps [of l n expect addr timeout invl wait])
      then have "poll_result l n expect addr invl ((timeout + invl - (wait + invl)) div invl)
          (udelay invl w1) r w'"
        using 1(1) [OF conjI [OF \<open>wait \<le> timeout\<close> 1(2)] rd [symmetric] False 1(2)]
          \<open>wait \<le> timeout\<close> by simp
      then show ?thesis
        unfolding todo using False rd by (intro poll_result_step) auto
    qed
  qed
qed

lemma wait_register_result:
  "0 < invl \<Longrightarrow> fpga_wait_register_field l n expect addr timeout invl w = (r, w') \<Longrightarrow>
   poll_result l n expect addr invl (timeout div invl + 1) w r w'"
  using wait_field_loop_result [of invl 0 timeout l n expect addr w r w']
  by (simp add: fpga_wait_register_field_def div_add_self2)

text \<open>
  C24. Polling a field with a positive interval reads the register at most \<open>timeout div invl + 1\<close>
  times and does nothing else but wait between the reads: it succeeds with the first value
  whose field is the expected one, and it times out only after that many reads none of which
  matched.
\<close>

theorem wait_register_field_spec:
  assumes "0 < invl"
    and "fpga_wait_register_field l n expect addr timeout invl w = (r, w')"
  shows "\<exists>vs. list_all (\<lambda>v. get_field l n v \<noteq> get_field l n expect) vs \<and>
    (r = Inl ETIMEDOUT \<and> length vs = timeout div invl + 1 \<and>
       events_between w w' = poll_events addr invl vs \<or>
     (\<exists>v. r = Inr () \<and> length vs \<le> timeout div invl \<and>
       get_field l n v = get_field l n expect \<and>
       events_between w w' = poll_events addr invl vs @ [RdQ addr v]))"
  using wait_register_result [OF assms] unfolding poll_result_def
  by (auto simp: events_between_def less_Suc_eq_le)

theorem wait_register_field_spec_witness:
  "fst (fpga_wait_register_field feature_port_control ''port_sftrst_ack'' 0x10 0 3 2
     (quiet_world (\<lambda>_. 0))) = Inl ETIMEDOUT \<and>
   events_between (quiet_world (\<lambda>_. 0)) (snd (fpga_wait_register_field feature_port_control
     ''port_sftrst_ack'' 0x10 0 3 2 (quiet_world (\<lambda>_. 0)))) =
     [RdQ 0 0, Udelay 2, RdQ 0 0, Udelay 2] \<and>
   (\<exists>vs. length vs = (2::nat) \<and> poll_events 0 2 vs = [RdQ 0 0, Udelay 2, RdQ 0 0, Udelay 2])"
proof -
  let ?w = "quiet_world (\<lambda>_. 0)"
  obtain r w' where run: "fpga_wait_register_field feature_port_control ''port_sftrst_ack''
      0x10 0 3 2 ?w = (r, w')" by (metis surj_pair)
  have ev: "r = Inl ETIMEDOUT \<and> events_between ?w w' = [RdQ 0 0, Udelay 2, RdQ 0 0, Udelay 2]"
    using run by (auto simp: fpga_wait_register_field_def wait_field_loop.simps
        feature_port_control_def get_field_def quiet_world_def world_defs events_between_def)
  obtain vs where "length vs = Suc (Suc 0)" "events_between ?w w' = poll_events 0 2 vs"
    using wait_register_field_spec [OF _ run] ev by auto
  then show ?thesis
    by (intro conjI exI [where x = vs]) (use ev run in simp_all)
qed


subsection \<open>Enabling, disabling and resetting a port\<close>

definition port_hdr_reg :: "'p feature_platform_data \<Rightarrow> string \<Rightarrow> u64" where
  "port_hdr_reg pd reg =
     reg_addr feature_port_header reg (get_feature_ioaddr_by_index pd PORT_FEATURE_ID_HEADER)"

definition fpga_port_id :: "'p feature_platform_data \<Rightarrow> world \<Rightarrow> u64 \<times> world" where
  "fpga_port_id pd w =
     (case readq (port_hdr_reg pd ''capability'') w of
        (csr, w1) \<Rightarrow> (get_field feature_port_capability ''port_number'' csr, w1))"

definition fpga_port_check_id :: "'p feature_platform_data \<Rightarrow> int \<Rightarrow> world \<Rightarrow> bool \<times> world" where
  "fpga_port_check_id pd pport_id w =
     (case fpga_port_id pd w of (port, w1) \<Rightarrow> (uint port = pport_id, w1))"

definition raw_fpga_port_enable ::
  "'p feature_platform_data \<Rightarrow> world \<Rightarrow> 'p feature_platform_data \<times> world" where
  "raw_fpga_port_enable pd w =
     (let pd1 = pd\<lparr>pd_disable_count := pd_disable_count pd - 1\<rparr> in
      if pd_disable_count pd1 \<noteq> 0 then (pd1, w)
      else
        (case readq (port_hdr_reg pd1 ''control'') w of
           (csr, w1) \<Rightarrow>
             (pd1, writeq (set_field feature_port_control ''port_sftrst'' 0 csr)
                     (port_hdr_reg pd1 ''control'') w1)))"

definition RST_POLL_INVL :: nat where "RST_POLL_INVL = 10"
definition RST_POLL_TIMEOUT :: nat where "RST_POLL_TIMEOUT = 1000"

text \<open>
  The functions go through the header feature of the port. A port device is added with its header only;
  the one call on a device whose header may not be there yet, where the C follows a null pointer, is that
  of the enumeration, and there the model has a fault of its own (\<open>enable_port_uafu\<close> in \<open>Pcie_Enum\<close>).
\<close>

definition raw_fpga_port_disable ::
  "'p feature_platform_data \<Rightarrow> world \<Rightarrow> unit res \<times> 'p feature_platform_data \<times> world" where
  "raw_fpga_port_disable pd w =
     (let pd1 = pd\<lparr>pd_disable_count := pd_disable_count pd + 1\<rparr> in
      if pd_disable_count pd \<noteq> 0 then (Inr (), pd1, w)
      else
        (case readq (port_hdr_reg pd1 ''control'') w of
           (csr, w1) \<Rightarrow>
             let control = set_field feature_port_control ''port_sftrst'' 1 csr;
                 w2 = writeq control (port_hdr_reg pd1 ''control'') w1;
                 control1 = set_field feature_port_control ''port_sftrst_ack'' 1 control
             in (case fpga_wait_register_field feature_port_control ''port_sftrst_ack'' control1
                        (port_hdr_reg pd1 ''control'') RST_POLL_TIMEOUT RST_POLL_INVL w2 of
                   (Inl _, w3) \<Rightarrow> (Inl ETIMEDOUT, pd1, w3)
                 | (Inr _, w3) \<Rightarrow> (Inr (), pd1, w3))))"

definition raw_fpga_port_reset ::
  "'p feature_platform_data \<Rightarrow> world \<Rightarrow> unit res \<times> 'p feature_platform_data \<times> world" where
  "raw_fpga_port_reset pd w =
     (case raw_fpga_port_disable pd w of
        (Inl e, pd1, w1) \<Rightarrow> (Inl e, pd1, w1)
      | (Inr _, pd1, w1) \<Rightarrow>
          (case raw_fpga_port_enable pd1 w1 of (pd2, w2) \<Rightarrow> (Inr (), pd2, w2)))"

definition fpga_port_enable ::
  "'p feature_platform_data \<Rightarrow> world \<Rightarrow> 'p feature_platform_data \<times> world" where
  "fpga_port_enable pd w = raw_fpga_port_enable pd w"

definition fpga_port_disable ::
  "'p feature_platform_data \<Rightarrow> world \<Rightarrow> unit res \<times> 'p feature_platform_data \<times> world" where
  "fpga_port_disable pd w = raw_fpga_port_disable pd w"

definition fpga_port_reset ::
  "'p feature_platform_data \<Rightarrow> world \<Rightarrow> unit res \<times> 'p feature_platform_data \<times> world" where
  "fpga_port_reset pd w = raw_fpga_port_reset pd w"

lemmas port_reset_defs =
  raw_fpga_port_enable_def raw_fpga_port_disable_def raw_fpga_port_reset_def
  fpga_port_enable_def fpga_port_disable_def fpga_port_reset_def


lemma mmio_only_disable:
  "raw_fpga_port_disable pd w = (r, pd', w') \<Longrightarrow> mmio_only w w'"
  by (auto simp: raw_fpga_port_disable_def Let_def split: if_splits prod.splits sum.splits
      dest!: mmio_only_readq mmio_only_wait_register
      intro: mmio_only_trans mmio_only_trans [OF mmio_only_trans [OF _ mmio_only_writeq]])

lemma mmio_only_enable:
  "raw_fpga_port_enable pd w = (pd', w') \<Longrightarrow> mmio_only w w'"
  by (auto simp: raw_fpga_port_enable_def Let_def split: if_splits prod.splits
      dest!: mmio_only_readq intro: mmio_only_trans mmio_only_writeq)

lemma mmio_only_reset:
  "raw_fpga_port_reset pd w = (r, pd', w') \<Longrightarrow> mmio_only w w'"
  by (auto simp: raw_fpga_port_reset_def split: prod.splits sum.splits
      dest!: mmio_only_disable mmio_only_enable intro: mmio_only_trans)

subsection \<open>What the three operations do\<close>

lemma sftrst_pos: "field_pos feature_port_control ''port_sftrst'' = Some (0, 1)"
  by (simp add: feature_port_control_def)

lemma sftrst_ack_pos: "field_pos feature_port_control ''port_sftrst_ack'' = Some (4, 1)"
  by (simp add: feature_port_control_def)

lemma bit_set_sftrst:
  "i < 64 \<Longrightarrow> bit (set_field feature_port_control ''port_sftrst'' v csr) i \<longleftrightarrow>
    (if i = 0 then bit v 0 else bit csr i)"
  by (auto simp: bit_set_field [OF sftrst_pos])

lemma sftrst_ack_expected:
  "get_field feature_port_control ''port_sftrst_ack'' v =
     get_field feature_port_control ''port_sftrst_ack''
       (set_field feature_port_control ''port_sftrst_ack'' 1 csr) \<longleftrightarrow> bit v 4"
  using get_field_bit [of feature_port_control "''port_sftrst_ack''" 4]
  by (simp add: sftrst_ack_pos bit_set_field [OF sftrst_ack_pos])

lemma port_hdr_reg_count [simp]:
  "port_hdr_reg (pd\<lparr>pd_disable_count := n\<rparr>) reg = port_hdr_reg pd reg"
  by (simp add: port_hdr_reg_def get_feature_ioaddr_by_index_def)

text \<open>The polling after the reset bit was set, read at the acknowledge bit.\<close>

definition ack_poll :: "u64 \<Rightarrow> unit res \<Rightarrow> event list \<Rightarrow> bool" where
  "ack_poll addr r es \<longleftrightarrow>
     (\<exists>vs. list_all (\<lambda>v. \<not> bit v 4) vs \<and>
        (r = Inl ETIMEDOUT \<and> length vs = RST_POLL_TIMEOUT div RST_POLL_INVL + 1 \<and>
           es = poll_events addr RST_POLL_INVL vs \<or>
         (\<exists>v. r = Inr () \<and> length vs \<le> RST_POLL_TIMEOUT div RST_POLL_INVL \<and> bit v 4 \<and>
           es = poll_events addr RST_POLL_INVL vs @ [RdQ addr v])))"

lemma ack_poll_writes: "ack_poll addr r es \<Longrightarrow> writes_of es = []"
  by (auto simp: ack_poll_def)

lemma disable_first:
  assumes "raw_fpga_port_disable pd w = (r, pd', w')" and "pd_disable_count pd = 0"
  shows "\<exists>csr poll. pd' = pd\<lparr>pd_disable_count := 1\<rparr> \<and>
    ack_poll (port_hdr_reg pd ''control'') r poll \<and>
    w' = w\<lparr>w_trace := rev poll @
      WrQ (port_hdr_reg pd ''control'') (set_field feature_port_control ''port_sftrst'' 1 csr) #
      RdQ (port_hdr_reg pd ''control'') csr # w_trace w\<rparr>"
proof -
  define a where "a = port_hdr_reg pd ''control''"
  define csr where "csr = w_readq w (w_trace w) a"
  define control where "control = set_field feature_port_control ''port_sftrst'' 1 csr"
  define w2 where "w2 = w\<lparr>w_trace := WrQ a control # RdQ a csr # w_trace w\<rparr>"
  obtain r1 w3 where wait: "fpga_wait_register_field feature_port_control ''port_sftrst_ack''
      (set_field feature_port_control ''port_sftrst_ack'' 1 control) a
      RST_POLL_TIMEOUT RST_POLL_INVL w2 = (r1, w3)"
    by (metis surj_pair)
  have pos: "0 < RST_POLL_INVL" by (simp add: RST_POLL_INVL_def)
  note res = wait_register_result [OF pos wait]
  have out: "pd' = pd\<lparr>pd_disable_count := 1\<rparr> \<and> w' = w3 \<and> (case r1 of Inl e \<Rightarrow> r = Inl ETIMEDOUT | Inr _ \<Rightarrow> r = Inr ())"
    using assms wait unfolding raw_fpga_port_disable_def
    by (auto simp: world_defs Let_def a_def [symmetric] csr_def [symmetric]
        control_def [symmetric] w2_def [symmetric] split: sum.splits)
  have "\<exists>poll. ack_poll a r poll \<and> w' = w\<lparr>w_trace := rev poll @ WrQ a control # RdQ a csr # w_trace w\<rparr>"
    using res out unfolding poll_result_def sftrst_ack_expected ack_poll_def w2_def
    by (fastforce simp: less_Suc_eq_le)
  with out show ?thesis
    unfolding a_def [symmetric] control_def by blast
qed

lemma disable_nested:
  assumes "pd_disable_count pd \<noteq> 0"
  shows "raw_fpga_port_disable pd w = (Inr (), pd\<lparr>pd_disable_count := pd_disable_count pd + 1\<rparr>, w)"
  using assms by (simp add: raw_fpga_port_disable_def Let_def)

lemma enable_nested:
  assumes "pd_disable_count pd \<noteq> 1"
  shows "raw_fpga_port_enable pd w = (pd\<lparr>pd_disable_count := pd_disable_count pd - 1\<rparr>, w)"
  using assms by (simp add: raw_fpga_port_enable_def Let_def)

lemma enable_last:
  assumes "pd_disable_count pd = 1"
  shows "\<exists>csr. raw_fpga_port_enable pd w = (pd\<lparr>pd_disable_count := 0\<rparr>, w\<lparr>w_trace :=
    WrQ (port_hdr_reg pd ''control'') (set_field feature_port_control ''port_sftrst'' 0 csr) #
    RdQ (port_hdr_reg pd ''control'') csr # w_trace w\<rparr>)"
  using assms by (auto simp: raw_fpga_port_enable_def Let_def world_defs)

text \<open>
  C29. The outermost disable reads the control register, writes it back with the reset bit set
  and every other bit as read, and then only polls: it succeeds exactly when a poll saw the
  acknowledge bit, and after a timeout no poll did. In both cases the count is 1 afterwards.
\<close>

theorem port_disable_outermost:
  assumes "fpga_port_disable pd w = (r, pd', w')" and "pd_disable_count pd = 0"
  shows "\<exists>csr csr' poll. pd' = pd\<lparr>pd_disable_count := 1\<rparr> \<and>
    events_between w w' = [RdQ (port_hdr_reg pd ''control'') csr,
      WrQ (port_hdr_reg pd ''control'') csr'] @ poll \<and>
    bit csr' 0 \<and> (\<forall>i \<in> {1..<64}. bit csr' i = bit csr i) \<and>
    ack_poll (port_hdr_reg pd ''control'') r poll"
proof -
  obtain csr poll where d: "pd' = pd\<lparr>pd_disable_count := 1\<rparr>"
    "ack_poll (port_hdr_reg pd ''control'') r poll"
    "w' = w\<lparr>w_trace := rev poll @
      WrQ (port_hdr_reg pd ''control'') (set_field feature_port_control ''port_sftrst'' 1 csr) #
      RdQ (port_hdr_reg pd ''control'') csr # w_trace w\<rparr>"
    using disable_first [of pd w r pd' w'] assms unfolding fpga_port_disable_def by blast
  show ?thesis
    by (intro exI [where x = csr] exI [where x = poll]
        exI [where x = "set_field feature_port_control ''port_sftrst'' 1 csr"])
      (use d in \<open>auto simp: events_between_def bit_set_sftrst\<close>)
qed

text \<open>A port whose header is at address 0, in a world where the hardware acknowledges.\<close>

definition one_port :: "unit feature_platform_data" where
  "one_port =
     \<lparr>pd_excl_open = 0, pd_open_count = 0, pd_disable_count = 0, pd_private = None,
      pd_num = 6, pd_features = replicate 6 zero_feature\<rparr>"

lemma one_port_control [simp]: "port_hdr_reg one_port ''control'' = 0x38"
  by (simp add: port_hdr_reg_def one_port_def get_feature_ioaddr_by_index_def zero_feature_def
      reg_addr_def feature_port_header_def sizeof_csr_def layout_width_def layout_defs
      feature_afu_header_def sizeof_regs_def)

theorem port_disable_outermost_witness:
  "\<exists>csr csr' poll. events_between (quiet_world (\<lambda>_. 0x14))
      (snd (snd (fpga_port_disable one_port (quiet_world (\<lambda>_. 0x14))))) =
      [RdQ 0x38 csr, WrQ 0x38 csr'] @ poll \<and>
    bit csr' 0 \<and> (\<forall>i \<in> {1..<64}. bit csr' i = bit csr i) \<and>
    ack_poll 0x38 (fst (fpga_port_disable one_port (quiet_world (\<lambda>_. 0x14)))) poll"
proof -
  obtain r pd' w' where run: "fpga_port_disable one_port (quiet_world (\<lambda>_. 0x14)) = (r, pd', w')"
    by (metis surj_pair)
  have c: "pd_disable_count one_port = 0" by (simp add: one_port_def)
  show ?thesis
    using port_disable_outermost [OF run c] run by auto
qed


subsection \<open>The control register over time\<close>

text \<open>
  Steps of the reset state machine of one port: a disable, with any outcome of the hardware, an
  enable of a disabled port (the source asks for the pairing), a reset, and anything else that
  leaves the count and the control register alone. The count is a 32-bit number; a disable at
  its maximum would wrap it to 0.
\<close>

inductive port_step ::
  "'p feature_platform_data \<times> world \<Rightarrow> 'p feature_platform_data \<times> world \<Rightarrow> bool" where
  disable: "pd_disable_count pd \<noteq> - 1 \<Longrightarrow>
    fpga_port_disable pd w = (r, pd', w') \<Longrightarrow> port_step (pd, w) (pd', w')"
| enable: "pd_disable_count pd \<noteq> 0 \<Longrightarrow>
    fpga_port_enable pd w = (pd', w') \<Longrightarrow> port_step (pd, w) (pd', w')"
| reset: "pd_disable_count pd \<noteq> - 1 \<Longrightarrow>
    fpga_port_reset pd w = (r, pd', w') \<Longrightarrow> port_step (pd, w) (pd', w')"
| other: "w_trace w' = es @ w_trace w \<Longrightarrow>
    port_hdr_reg pd ''control'' \<notin> fst ` set (writes_of es) \<Longrightarrow> port_step (pd, w) (pd, w')"

definition in_reset :: "'p feature_platform_data \<Rightarrow> world \<Rightarrow> bool" where
  "in_reset pd w \<longleftrightarrow> (case last_write (w_trace w) (port_hdr_reg pd ''control'') of
     None \<Rightarrow> False | Some v \<Rightarrow> bit v 0)"

definition port_inv :: "u64 \<Rightarrow> 'p feature_platform_data \<times> world \<Rightarrow> bool" where
  "port_inv a c \<longleftrightarrow> port_hdr_reg (fst c) ''control'' = a \<and>
     (in_reset (fst c) (snd c) \<longleftrightarrow> pd_disable_count (fst c) \<noteq> 0)"

lemma last_write_append:
  "a \<notin> fst ` set (writes_of es) \<Longrightarrow> last_write (es @ fs) a = last_write fs a"
  by (induction es rule: writes_of.induct) (auto split: event.split)

lemma disable_inv:
  assumes "raw_fpga_port_disable pd w = (r, pd', w')" and "pd_disable_count pd \<noteq> - 1"
    and "port_inv a (pd, w)"
  shows "port_inv a (pd', w') \<and> pd_disable_count pd' = pd_disable_count pd + 1 \<and>
    pd_disable_count pd' \<noteq> 0"
proof (cases "pd_disable_count pd = 0")
  case True
  obtain csr poll where d: "pd' = pd\<lparr>pd_disable_count := 1\<rparr>"
    "ack_poll (port_hdr_reg pd ''control'') r poll"
    "w' = w\<lparr>w_trace := rev poll @
      WrQ (port_hdr_reg pd ''control'') (set_field feature_port_control ''port_sftrst'' 1 csr) #
      RdQ (port_hdr_reg pd ''control'') csr # w_trace w\<rparr>"
    using disable_first [OF assms(1) True] by blast
  have "writes_of (rev poll) = []"
    using ack_poll_writes [OF d(2)] by (simp add: writes_of_rev)
  then show ?thesis
    using d(1,3) assms(3) True
    by (simp add: port_inv_def in_reset_def last_write_append bit_set_sftrst)
next
  case False
  have "pd_disable_count pd + 1 \<noteq> 0"
    using assms(2) by (simp add: eq_neg_iff_add_eq_0)
  with False disable_nested [OF False, of w] assms(1,3) show ?thesis
    by (auto simp: port_inv_def in_reset_def)
qed

lemma enable_inv:
  assumes "raw_fpga_port_enable pd w = (pd', w')" and "pd_disable_count pd \<noteq> 0"
    and "port_inv a (pd, w)"
  shows "port_inv a (pd', w')"
proof (cases "pd_disable_count pd = 1")
  case True
  obtain csr where "raw_fpga_port_enable pd w = (pd\<lparr>pd_disable_count := 0\<rparr>, w\<lparr>w_trace :=
    WrQ (port_hdr_reg pd ''control'') (set_field feature_port_control ''port_sftrst'' 0 csr) #
    RdQ (port_hdr_reg pd ''control'') csr # w_trace w\<rparr>)"
    using enable_last [OF True] by blast
  with assms(1,3) show ?thesis
    by (auto simp: port_inv_def in_reset_def bit_set_sftrst)
next
  case False
  with enable_nested [OF False, of w] assms show ?thesis
    by (auto simp: port_inv_def in_reset_def)
qed

lemma port_step_inv: "port_step c c' \<Longrightarrow> port_inv a c \<Longrightarrow> port_inv a c'"
proof (induction rule: port_step.induct)
  case (disable pd w r pd' w')
  then show ?case using disable_inv [of pd w r pd' w' a] by (simp add: fpga_port_disable_def)
next
  case (enable pd w pd' w')
  then show ?case using enable_inv [of pd w pd' w' a] by (simp add: fpga_port_enable_def)
next
  case (reset pd w r pd' w')
  obtain r1 pd1 w1 where d: "raw_fpga_port_disable pd w = (r1, pd1, w1)" by (metis surj_pair)
  note inv = disable_inv [OF d reset.hyps(1) reset.prems]
  show ?case
    using reset.hyps(2) d inv enable_inv [of pd1 w1 pd' w' a]
    by (auto simp: fpga_port_reset_def raw_fpga_port_reset_def split: sum.splits prod.splits)
next
  case (other w' es w pd)
  then show ?case by (auto simp: port_inv_def in_reset_def last_write_append)
qed

lemma port_steps_inv: "port_step\<^sup>*\<^sup>* c c' \<Longrightarrow> port_inv a c \<Longrightarrow> port_inv a c'"
  by (induction rule: rtranclp_induct) (auto intro: port_step_inv)

text \<open>
  C3. Over any sequence of disables (successful or timed out), enables, resets and accesses that
  leave the control register alone, starting from a port that is not disabled: the last value
  the drivers wrote to the control register has the reset bit set exactly when the count of
  disables is not zero.
\<close>

theorem port_reset_state:
  assumes "port_step\<^sup>*\<^sup>* (pd, w) (pd', w')" and "pd_disable_count pd = 0" and "\<not> in_reset pd w"
  shows "in_reset pd' w' \<longleftrightarrow> pd_disable_count pd' \<noteq> 0"
proof -
  have "port_inv (port_hdr_reg pd ''control'') (pd, w)"
    using assms(2,3) by (simp add: port_inv_def)
  from port_steps_inv [OF assms(1) this] show ?thesis by (simp add: port_inv_def)
qed

theorem port_reset_state_witness:
  "in_reset (fst (snd (fpga_port_disable one_port (quiet_world (\<lambda>_. 0x14)))))
     (snd (snd (fpga_port_disable one_port (quiet_world (\<lambda>_. 0x14))))) \<longleftrightarrow>
   pd_disable_count (fst (snd (fpga_port_disable one_port (quiet_world (\<lambda>_. 0x14))))) \<noteq> 0"
proof (rule port_reset_state)
  show "port_step\<^sup>*\<^sup>* (one_port, quiet_world (\<lambda>_. 0x14))
     (fst (snd (fpga_port_disable one_port (quiet_world (\<lambda>_. 0x14)))),
      snd (snd (fpga_port_disable one_port (quiet_world (\<lambda>_. 0x14)))))"
    by (rule r_into_rtranclp, rule port_step.disable) (simp_all add: one_port_def prod_eq_iff)
qed (simp_all add: one_port_def in_reset_def quiet_world_def)

text \<open>
  C30. After a disable that timed out, the next reset of the port reports success without
  touching the hardware, and the count stays at 1: the port is left in reset.
\<close>

theorem reset_after_timeout_is_skipped:
  assumes "fpga_port_disable pd w = (Inl ETIMEDOUT, pd', w')" and "pd_disable_count pd = 0"
  shows "fpga_port_reset pd' w'' = (Inr (), pd', w'') \<and> pd_disable_count pd' = 1"
proof -
  have pd': "pd' = pd\<lparr>pd_disable_count := 1\<rparr>"
    using disable_first [of pd w "Inl ETIMEDOUT" pd' w'] assms
    by (auto simp: fpga_port_disable_def)
  then have "raw_fpga_port_disable pd' w'' = (Inr (), pd\<lparr>pd_disable_count := 2\<rparr>, w'')"
    using disable_nested [of pd' w''] by simp
  moreover have "raw_fpga_port_enable (pd\<lparr>pd_disable_count := 2\<rparr>) w'' = (pd', w'')"
    using enable_nested [of "pd\<lparr>pd_disable_count := 2\<rparr>" w''] pd' by simp
  ultimately show ?thesis
    by (simp add: fpga_port_reset_def raw_fpga_port_reset_def pd')
qed

text \<open>Hardware that never answers: every register reads 0.\<close>

definition dead_world :: world where
  "dead_world = (quiet_world (\<lambda>_. 0))\<lparr>w_readq := (\<lambda>_ _. 0)\<rparr>"

lemma wait_field_loop_dead:
  "get_field l n expect \<noteq> get_field l n 0 \<Longrightarrow> w_readq w = (\<lambda>_ _. 0) \<Longrightarrow>
   fst (wait_field_loop l n expect addr timeout invl wait w) = Inl ETIMEDOUT"
proof (induction l n expect addr timeout invl wait w rule: wait_field_loop.induct)
  case (1 l n expect addr timeout invl wait w)
  have rd: "readq addr w = (0, emit (RdQ addr 0) w)"
    using 1(3) by (simp add: readq_def Let_def)
  show ?case
    using 1(1) [OF _ rd [symmetric] 1(2) 1(2)] 1(2,3)
    by (simp add: wait_field_loop.simps [of l n expect addr timeout invl wait] rd udelay_def)
qed

lemma disable_dead:
  assumes "pd_disable_count pd = 0" and "w_readq w = (\<lambda>_ _. 0)"
  shows "fst (fpga_port_disable pd w) = Inl ETIMEDOUT"
proof -
  let ?a = "port_hdr_reg pd ''control''"
  let ?c = "set_field feature_port_control ''port_sftrst'' 1 0"
  let ?c1 = "set_field feature_port_control ''port_sftrst_ack'' 1 ?c"
  have rd: "readq ?a w = (0, emit (RdQ ?a 0) w)"
    using assms(2) by (simp add: readq_def Let_def)
  obtain r1 w1 where wait: "fpga_wait_register_field feature_port_control ''port_sftrst_ack'' ?c1
      ?a RST_POLL_TIMEOUT RST_POLL_INVL (writeq ?c ?a (emit (RdQ ?a 0) w)) = (r1, w1)"
    by (metis surj_pair)
  have "get_field feature_port_control ''port_sftrst_ack'' ?c1 \<noteq>
      get_field feature_port_control ''port_sftrst_ack'' 0"
  proof
    assume "get_field feature_port_control ''port_sftrst_ack'' ?c1 =
      get_field feature_port_control ''port_sftrst_ack'' 0"
    from sftrst_ack_expected [THEN iffD1, OF this [symmetric]] show False by simp
  qed
  then have "r1 = Inl ETIMEDOUT"
    using wait_field_loop_dead [of feature_port_control "''port_sftrst_ack''" ?c1] wait assms(2)
    unfolding fpga_wait_register_field_def by (metis emit_sel(1) fst_conv writeq_def)
  then show ?thesis
    using assms(1) rd wait by (simp add: fpga_port_disable_def raw_fpga_port_disable_def Let_def)
qed

theorem reset_after_timeout_is_skipped_witness:
  "fpga_port_reset (fst (snd (fpga_port_disable one_port dead_world))) dead_world =
     (Inr (), fst (snd (fpga_port_disable one_port dead_world)), dead_world)"
proof -
  obtain r pd' w' where run: "fpga_port_disable one_port dead_world = (r, pd', w')"
    by (metis surj_pair)
  have "fst (fpga_port_disable one_port dead_world) = Inl ETIMEDOUT"
    by (rule disable_dead) (simp_all add: one_port_def dead_world_def)
  with run have "fpga_port_disable one_port dead_world = (Inl ETIMEDOUT, pd', w')" by simp
  from reset_after_timeout_is_skipped [OF this] run show ?thesis by (simp add: one_port_def)
qed

end
