(* ===== verification/Msix.thy ===== *)
theory Msix
  imports Feature_Dev
begin

text \<open>
  The binding of interrupt vectors of a feature to eventfds:
  \<^verbatim>\<open>fpga_set_vector_signal\<close> and \<^verbatim>\<open>fpga_msix_set_block\<close> of
  \<^verbatim>\<open>drivers/fpga/intel/feature-dev.c\<close>.

  A bound vector holds three kernel resources: the interrupt line, a reference to the eventfd
  and the memory of its name. The lemmas show that every run, failed ones included, keeps the
  account: what was taken and not given back is what the vectors hold.
\<close>

definition set_ctx :: "nat \<Rightarrow> feature_irq_ctx \<Rightarrow> feature \<Rightarrow> feature" where
  "set_ctx i c f = f\<lparr>f_ctx := (f_ctx f)[i := c]\<rparr>"

text \<open>What an interrupt does: it signals the eventfd that its vector is bound to.\<close>

definition fpga_msix_handler :: "int \<Rightarrow> int \<Rightarrow> world \<Rightarrow> world" where
  "fpga_msix_handler irq trigger w = kvoid (Kfn ''eventfd_signal'') [trigger, 1] w"

text \<open>The two halves of the C function: giving back an old binding, making a new one.\<close>

definition release_vector :: "feature_irq_ctx \<Rightarrow> world \<Rightarrow> feature_irq_ctx \<times> world" where
  "release_vector c w =
     (case ctx_trigger c of
        None \<Rightarrow> (c, w)
      | Some t \<Rightarrow>
          (c\<lparr>ctx_trigger := None\<rparr>,
           kvoid Eventfd_ctx_put [t]
             (kvoid Kfree [ctx_name c] (kvoid Free_irq [ctx_irq c, t] w))))"

definition bind_vector ::
  "int \<Rightarrow> int \<Rightarrow> feature_irq_ctx \<Rightarrow> world \<Rightarrow> unit res \<times> feature_irq_ctx \<times> world" where
  "bind_vector vector fd c w =
     (case kvalue Kasprintf [vector] w of
        (Inl _, w1) \<Rightarrow> (Inl ENOMEM, c\<lparr>ctx_name := 0\<rparr>, w1)
      | (Inr name, w1) \<Rightarrow>
          (case kvalue Eventfd_ctx_fdget [fd] w1 of
             (Inl e, w2) \<Rightarrow> (Inl e, c\<lparr>ctx_name := name\<rparr>, kvoid Kfree [name] w2)
           | (Inr trigger, w2) \<Rightarrow>
               (case kstatus Request_irq [ctx_irq c, trigger] w2 of
                  (Inl e, w3) \<Rightarrow>
                    (Inl e, c\<lparr>ctx_name := name\<rparr>,
                     kvoid Eventfd_ctx_put [trigger] (kvoid Kfree [name] w3))
                | (Inr _, w3) \<Rightarrow>
                    (Inr (), c\<lparr>ctx_name := name, ctx_trigger := Some trigger\<rparr>, w3))))"

definition fpga_set_vector_signal ::
  "feature \<Rightarrow> int \<Rightarrow> int \<Rightarrow> world \<Rightarrow> unit res \<times> feature \<times> world" where
  "fpga_set_vector_signal f vector fd w =
     (if vector < 0 \<or> f_ctx_num f \<le> vector then (Inl EINVAL, f, w)
      else
        (case release_vector (f_ctx f ! nat vector) w of
           (c1, w1) \<Rightarrow>
             if fd < 0 then (Inr (), set_ctx (nat vector) c1 f, w1)
             else
               (case bind_vector vector fd c1 w1 of
                  (r, c2, w2) \<Rightarrow> (r, set_ctx (nat vector) c2 f, w2))))"

text \<open>
  The two loops of \<^verbatim>\<open>fpga_msix_set_block\<close>; the first argument is the number of rounds left. The
  first loop stops at an error and also returns the \<open>j\<close> it ended with, which has already been
  advanced past the failing vector.
\<close>

definition fd_at :: "int list option \<Rightarrow> nat \<Rightarrow> int" where
  "fd_at fds i = (case fds of None \<Rightarrow> -1 | Some l \<Rightarrow> l ! i)"

fun set_vectors ::
  "nat \<Rightarrow> feature \<Rightarrow> int list option \<Rightarrow> nat \<Rightarrow> int \<Rightarrow> world \<Rightarrow> unit res \<times> feature \<times> int \<times> world"
where
  "set_vectors 0 f fds i j w = (Inr (), f, j, w)"
| "set_vectors (Suc n) f fds i j w =
     (case fpga_set_vector_signal f j (fd_at fds i) w of
        (Inl e, f1, w1) \<Rightarrow> (Inl e, f1, j + 1, w1)
      | (Inr _, f1, w1) \<Rightarrow> set_vectors n f1 fds (i + 1) (j + 1) w1)"

fun clear_vectors :: "nat \<Rightarrow> feature \<Rightarrow> int \<Rightarrow> world \<Rightarrow> feature \<times> world" where
  "clear_vectors 0 f j w = (f, w)"
| "clear_vectors (Suc n) f j w =
     (case fpga_set_vector_signal f j (-1) w of
        (_, f1, w1) \<Rightarrow> clear_vectors n f1 (j - 1) w1)"

text \<open>
  \<open>start\<close> and \<open>cnt\<close> (\<^verbatim>\<open>count\<close>) are 32-bit unsigned numbers, and so is their sum; \<^verbatim>\<open>ctx_num\<close> is converted
  to one for the comparison.
\<close>

definition fpga_msix_set_block ::
  "feature \<Rightarrow> u32 \<Rightarrow> u32 \<Rightarrow> int list option \<Rightarrow> world \<Rightarrow> unit res \<times> feature \<times> world" where
  "fpga_msix_set_block f start cnt fds w =
     (if word_of_int (f_ctx_num f) \<le> start \<or> word_of_int (f_ctx_num f) < start + cnt
      then (Inl EINVAL, f, w)
      else
        (case set_vectors (unat cnt) f fds 0 (sint start) w of
           (Inr _, f1, j, w1) \<Rightarrow> (Inr (), f1, w1)
         | (Inl e, f1, j, w1) \<Rightarrow>
             (case clear_vectors (nat (j - sint start)) f1 (j - 1) w1 of
                (f2, w2) \<Rightarrow> (Inl e, f2, w2))))"

text \<open>\<^verbatim>\<open>fpga_msix_set_block\<close> on a feature of the device, which it changes in place.\<close>

definition msix_set_block_at ::
  "nat \<Rightarrow> u32 \<Rightarrow> u32 \<Rightarrow> int list option \<Rightarrow> 'p feature_platform_data \<Rightarrow> world \<Rightarrow>
   unit res \<times> 'p feature_platform_data \<times> world" where
  "msix_set_block_at i start cnt fds pd w =
     (case fpga_msix_set_block (pd_features pd ! i) start cnt fds w of
        (r, f, w1) \<Rightarrow> (r, pd\<lparr>pd_features := (pd_features pd)[i := f]\<rparr>, w1))"

subsection \<open>The account of resources\<close>

definition ctx_holds :: "resource \<Rightarrow> feature_irq_ctx \<Rightarrow> int" where
  "ctx_holds r c =
     (case ctx_trigger c of
        None \<Rightarrow> 0
      | Some t \<Rightarrow> of_bool (r = RIrq [ctx_irq c, t]) + of_bool (r = REventfd t) +
                  of_bool (r = RMem (ctx_name c)))"

definition feature_holds :: "resource \<Rightarrow> feature \<Rightarrow> int" where
  "feature_holds r f = (\<Sum>c\<leftarrow>f_ctx f. ctx_holds r c)"

definition wf_feature :: "feature \<Rightarrow> bool" where
  "wf_feature f \<longleftrightarrow> f_ctx_num f = int (length (f_ctx f))"

text \<open>What is taken and not accounted for by the vectors of \<open>f\<close>.\<close>

definition unheld :: "resource \<Rightarrow> feature \<Rightarrow> world \<Rightarrow> int" where
  "unheld r f w = balance (w_trace w) r - feature_holds r f"

lemma holds_set_ctx:
  "i < length (f_ctx f) \<Longrightarrow>
   feature_holds r (set_ctx i c f) = feature_holds r f - ctx_holds r (f_ctx f ! i) + ctx_holds r c"
  by (simp add: feature_holds_def set_ctx_def sum_list_map_update)

lemma set_ctx_sel [simp]:
  "f_ctx_num (set_ctx i c f) = f_ctx_num f" "f_ctx (set_ctx i c f) = (f_ctx f)[i := c]"
  "wf_feature (set_ctx i c f) = wf_feature f"
  by (simp_all add: set_ctx_def wf_feature_def)

text \<open>What one call does to its vector: which one is written and with what.\<close>

definition signal_result :: "int \<Rightarrow> unit res \<Rightarrow> feature_irq_ctx \<Rightarrow> feature_irq_ctx \<Rightarrow> bool" where
  "signal_result fd r c c' \<longleftrightarrow> ctx_irq c' = ctx_irq c \<and>
     (ctx_trigger c' \<noteq> None \<longleftrightarrow> r = Inr () \<and> 0 \<le> fd)"

lemma release_vector_spec:
  "release_vector c w = (c', w') \<Longrightarrow> ctx_irq c' = ctx_irq c \<and> ctx_trigger c' = None \<and>
    balance (w_trace w') q = balance (w_trace w) q - ctx_holds q c"
  by (auto simp: release_vector_def kvoid_def ctx_holds_def ret_val_def split: option.splits)

lemma bind_vector_spec:
  assumes "bind_vector v fd c w = (r, c', w')" and "ctx_trigger c = None"
  shows "ctx_irq c' = ctx_irq c \<and> (ctx_trigger c' \<noteq> None \<longleftrightarrow> r = Inr ()) \<and>
    balance (w_trace w') q = balance (w_trace w) q + ctx_holds q c'"
proof -
  obtain r1 w1 where k1: "kvalue Kasprintf [v] w = (r1, w1)" by (metis surj_pair)
  obtain r2 w2 where k2: "kvalue Eventfd_ctx_fdget [fd] w1 = (r2, w2)" by (metis surj_pair)
  obtain r3 w3 where k3: "kstatus Request_irq [ctx_irq c, projr r2] w2 = (r3, w3)"
    by (metis surj_pair)
  have b1: "balance (w_trace w1) q = balance (w_trace w) q +
      (case r1 of Inl _ \<Rightarrow> 0 | Inr n \<Rightarrow> of_bool (q = RMem n))"
    using k1 by (auto simp: kvalue_def kcall_def Let_def split: sum.splits)
  have b2: "balance (w_trace w2) q = balance (w_trace w1) q +
      (case r2 of Inl _ \<Rightarrow> 0 | Inr n \<Rightarrow> of_bool (q = REventfd n))"
    using k2 by (auto simp: kvalue_def kcall_def Let_def split: sum.splits)
  have b3: "balance (w_trace w3) q = balance (w_trace w2) q +
      (case r3 of Inl _ \<Rightarrow> 0 | Inr n \<Rightarrow> of_bool (q = RIrq [ctx_irq c, projr r2]))"
    using k3 by (auto simp: kstatus_def kcall_def Let_def split: sum.splits)
  show ?thesis
  proof (cases r1)
    case (Inl e)
    with assms k1 b1 show ?thesis
      by (auto simp: bind_vector_def ctx_holds_def)
  next
    case r1: (Inr n)
    show ?thesis
    proof (cases r2)
      case (Inl e)
      with assms k1 k2 b1 b2 r1 show ?thesis
        by (auto simp: bind_vector_def ctx_holds_def kvoid_def ret_val_def)
    next
      case r2: (Inr t)
      show ?thesis
        using assms k1 k2 k3 b1 b2 b3 r1 r2
        by (cases r3) (auto simp: bind_vector_def ctx_holds_def kvoid_def ret_val_def)
    qed
  qed
qed

lemma set_vector_signal_spec:
  assumes "fpga_set_vector_signal f v fd w = (r, f', w')" and "wf_feature f"
    and "0 \<le> v" and "v < int (length (f_ctx f))"
  shows "\<exists>c. f' = set_ctx (nat v) c f \<and> signal_result fd r (f_ctx f ! nat v) c \<and>
    (\<forall>q. unheld q f' w' = unheld q f w)"
proof -
  have v: "nat v < length (f_ctx f)" "\<not> (v < 0 \<or> f_ctx_num f \<le> v)"
    using assms(2-4) by (auto simp: wf_feature_def)
  obtain c1 w1 where rel: "release_vector (f_ctx f ! nat v) w = (c1, w1)" by (metis surj_pair)
  note rel' = release_vector_spec [OF rel]
  show ?thesis
  proof (cases "fd < 0")
    case True
    then have "r = Inr ()" "f' = set_ctx (nat v) c1 f" "w' = w1"
      using assms(1) v rel by (auto simp: fpga_set_vector_signal_def)
    with rel' True v show ?thesis
      by (auto simp: signal_result_def unheld_def holds_set_ctx ctx_holds_def)
  next
    case False
    obtain r2 c2 w2 where bind: "bind_vector v fd c1 w1 = (r2, c2, w2)" by (metis surj_pair)
    have "ctx_trigger c1 = None" using rel' by simp
    note bind' = bind_vector_spec [OF bind this]
    have "r = r2" "f' = set_ctx (nat v) c2 f" "w' = w2"
      using assms(1) v rel bind False by (auto simp: fpga_set_vector_signal_def)
    with rel' bind' False v show ?thesis
      by (auto simp: signal_result_def unheld_def holds_set_ctx)
  qed
qed

subsection \<open>Whole blocks\<close>

definition same_but_ctx :: "feature \<Rightarrow> feature \<Rightarrow> bool" where
  "same_but_ctx f f' \<longleftrightarrow> f_name f' = f_name f \<and> f_resource_index f' = f_resource_index f \<and>
     f_ioaddr f' = f_ioaddr f \<and> f_ctx_num f' = f_ctx_num f \<and> f_ops f' = f_ops f"

text \<open>
  \<open>block_frame lo hi f f'\<close>: the vectors from \<open>lo\<close> up to \<open>hi\<close> may have been rebound, everything
  else of the feature is as before.
\<close>

definition block_frame :: "nat \<Rightarrow> nat \<Rightarrow> feature \<Rightarrow> feature \<Rightarrow> bool" where
  "block_frame lo hi f f' \<longleftrightarrow> same_but_ctx f f' \<and> length (f_ctx f') = length (f_ctx f) \<and>
     (\<forall>k < length (f_ctx f). ctx_irq (f_ctx f' ! k) = ctx_irq (f_ctx f ! k) \<and>
        (lo \<le> k \<and> k < hi \<or> f_ctx f' ! k = f_ctx f ! k))"

lemma block_frame_refl [simp]: "block_frame lo hi f f"
  by (simp add: block_frame_def same_but_ctx_def)

lemma block_frame_trans:
  assumes "block_frame a b f f'" and "block_frame c d f' f''"
  shows "block_frame (min a c) (max b d) f f''"
  unfolding block_frame_def
proof (intro conjI allI impI)
  show "same_but_ctx f f''" "length (f_ctx f'') = length (f_ctx f)"
    using assms by (auto simp: block_frame_def same_but_ctx_def)
  fix k assume "k < length (f_ctx f)"
  then have k: "ctx_irq (f_ctx f' ! k) = ctx_irq (f_ctx f ! k)"
    "a \<le> k \<and> k < b \<or> f_ctx f' ! k = f_ctx f ! k"
    "ctx_irq (f_ctx f'' ! k) = ctx_irq (f_ctx f' ! k)"
    "c \<le> k \<and> k < d \<or> f_ctx f'' ! k = f_ctx f' ! k"
    using assms by (auto simp: block_frame_def)
  then show "ctx_irq (f_ctx f'' ! k) = ctx_irq (f_ctx f ! k)" by simp
  show "min a c \<le> k \<and> k < max b d \<or> f_ctx f'' ! k = f_ctx f ! k"
    using k(2,4) by (auto simp: min_def max_def)
qed

lemma block_frame_mono: "block_frame a b f f' \<Longrightarrow> c \<le> a \<Longrightarrow> b \<le> d \<Longrightarrow> block_frame c d f f'"
  unfolding block_frame_def by (meson le_trans order_less_le_trans)

lemma block_frame_wf: "block_frame a b f f' \<Longrightarrow> wf_feature f' = wf_feature f"
  by (auto simp: block_frame_def same_but_ctx_def wf_feature_def)

lemma block_frame_length: "block_frame a b f f' \<Longrightarrow> length (f_ctx f') = length (f_ctx f)"
  by (simp add: block_frame_def)

lemma block_frame_nth:
  "block_frame a b f f' \<Longrightarrow> k < length (f_ctx f) \<Longrightarrow> \<not> (a \<le> k \<and> k < b) \<Longrightarrow>
   f_ctx f' ! k = f_ctx f ! k"
  by (auto simp: block_frame_def)

lemma block_frame_set_ctx:
  assumes "ctx_irq c = ctx_irq (f_ctx f ! k)"
  shows "block_frame k (Suc k) f (set_ctx k c f)"
  unfolding block_frame_def
proof (intro conjI allI impI)
  fix i assume "i < length (f_ctx f)"
  then show "ctx_irq (f_ctx (set_ctx k c f) ! i) = ctx_irq (f_ctx f ! i)"
    "k \<le> i \<and> i < Suc k \<or> f_ctx (set_ctx k c f) ! i = f_ctx f ! i"
    using assms by (cases "i = k"; auto)+
qed (simp_all add: same_but_ctx_def set_ctx_def)

lemma vector_step:
  assumes "fpga_set_vector_signal f (int v) fd w = (r, f', w')" and "wf_feature f"
  shows "block_frame v (Suc v) f f' \<and> (\<forall>q. unheld q f' w' = unheld q f w) \<and>
    (v < length (f_ctx f) \<longrightarrow> (ctx_trigger (f_ctx f' ! v) \<noteq> None \<longleftrightarrow> r = Inr () \<and> 0 \<le> fd)) \<and>
    (length (f_ctx f) \<le> v \<longrightarrow> r = Inl EINVAL)"
proof (cases "v < length (f_ctx f)")
  case True
  then obtain c where c: "f' = set_ctx v c f" "signal_result fd r (f_ctx f ! v) c"
    "\<forall>q. unheld q f' w' = unheld q f w"
    using set_vector_signal_spec [OF assms] by auto
  with True show ?thesis
    using block_frame_set_ctx [of c f v] by (auto simp: signal_result_def)
next
  case False
  with assms show ?thesis
    by (auto simp: fpga_set_vector_signal_def wf_feature_def)
qed

lemma set_vectors_spec:
  "set_vectors n f fds i (int j) w = (r, f', j', w') \<Longrightarrow> wf_feature f \<Longrightarrow>
   \<exists>m. j' = int (j + m) \<and> m \<le> n \<and> block_frame j (j + m) f f' \<and>
     (\<forall>q. unheld q f' w' = unheld q f w) \<and>
     (case r of Inl _ \<Rightarrow> 0 < m
      | Inr _ \<Rightarrow> m = n \<and> (n = 0 \<or> j + n \<le> length (f_ctx f)) \<and>
          (\<forall>k < n. ctx_trigger (f_ctx f' ! (j + k)) \<noteq> None \<longleftrightarrow> 0 \<le> fd_at fds (i + k)))"
proof (induction n arbitrary: f i j w)
  case 0
  then show ?case by auto
next
  case (Suc n)
  obtain r1 f1 w1 where s: "fpga_set_vector_signal f (int j) (fd_at fds i) w = (r1, f1, w1)"
    by (metis surj_pair)
  note step = vector_step [OF s Suc.prems(2)]
  show ?case
  proof (cases r1)
    case (Inl e)
    with Suc.prems(1) s have "r = Inl e" "f' = f1" "j' = int (j + 1)" "w' = w1" by auto
    with step show ?thesis by (intro exI [where x = 1]) auto
  next
    case (Inr u)
    have rest: "set_vectors n f1 fds (i + 1) (int (j + 1)) w1 = (r, f', j', w')"
      using Suc.prems(1) s Inr by (simp add: add.commute)
    have wf1: "wf_feature f1" using step Suc.prems(2) block_frame_wf by blast
    have inb: "j < length (f_ctx f)" using step Inr by (metis linorder_not_less sum.distinct(1))
    have len1: "length (f_ctx f1) = length (f_ctx f)" using step block_frame_length by blast
    from Suc.IH [OF rest wf1] obtain m where m: "j' = int (j + 1 + m)" "m \<le> n"
      "block_frame (j + 1) (j + 1 + m) f1 f'" "\<forall>q. unheld q f' w' = unheld q f1 w1"
      and res: "case r of Inl _ \<Rightarrow> 0 < m
        | Inr _ \<Rightarrow> m = n \<and> (n = 0 \<or> j + 1 + n \<le> length (f_ctx f1)) \<and>
            (\<forall>k < n. ctx_trigger (f_ctx f' ! (j + 1 + k)) \<noteq> None \<longleftrightarrow> 0 \<le> fd_at fds (i + 1 + k))"
      by blast
    have "block_frame j (j + 1 + m) f f'"
      using block_frame_trans [OF conjunct1 [OF step] m(3)] by (auto elim: block_frame_mono)
    moreover have "f_ctx f' ! j = f_ctx f1 ! j"
      using block_frame_nth [OF m(3)] inb len1 by simp
    then have "ctx_trigger (f_ctx f' ! j) \<noteq> None \<longleftrightarrow> 0 \<le> fd_at fds i"
      using step inb Inr by simp
    ultimately show ?thesis
      using m res step inb len1
      by (intro exI [where x = "Suc m"])
        (auto split: sum.splits simp: less_Suc_eq_0_disj)
  qed
qed

lemma clear_vectors_spec:
  "clear_vectors n f (int j + int n - 1) w = (f', w') \<Longrightarrow> wf_feature f \<Longrightarrow>
   block_frame j (j + n) f f' \<and> (\<forall>q. unheld q f' w' = unheld q f w) \<and>
   (\<forall>k < length (f_ctx f). j \<le> k \<and> k < j + n \<longrightarrow> ctx_trigger (f_ctx f' ! k) = None)"
proof (induction n arbitrary: f w)
  case 0
  then show ?case by auto
next
  case (Suc n)
  obtain r1 f1 w1 where s: "fpga_set_vector_signal f (int (j + n)) (-1) w = (r1, f1, w1)"
    by (metis surj_pair)
  note step = vector_step [OF s Suc.prems(2)]
  have rest: "clear_vectors n f1 (int j + int n - 1) w1 = (f', w')"
    using Suc.prems(1) s by simp
  have wf1: "wf_feature f1" using step Suc.prems(2) block_frame_wf by blast
  have len1: "length (f_ctx f1) = length (f_ctx f)" using step block_frame_length by blast
  note IH = Suc.IH [OF rest wf1]
  have "block_frame j (j + Suc n) f f'"
    using block_frame_trans [OF conjunct1 [OF step] conjunct1 [OF IH]]
    by (auto elim: block_frame_mono)
  moreover have "ctx_trigger (f_ctx f' ! k) = None"
    if k: "k < length (f_ctx f)" "j \<le> k" "k < j + Suc n" for k
  proof (cases "k = j + n")
    case True
    then have "f_ctx f' ! k = f_ctx f1 ! k"
      using block_frame_nth [OF conjunct1 [OF IH]] k(1) len1 by simp
    with True step k(1) show ?thesis by simp
  next
    case False
    with k IH len1 show ?thesis by simp
  qed
  ultimately show ?case using IH step by auto
qed

text \<open>Unbinding does not fail.\<close>

lemma unbind_vector_ok:
  "wf_feature f \<Longrightarrow> v < length (f_ctx f) \<Longrightarrow>
   fst (fpga_set_vector_signal f (int v) (- 1) w) = Inr ()"
  by (simp add: fpga_set_vector_signal_def wf_feature_def split: prod.split)

lemma unbind_vectors_ok:
  "wf_feature f \<Longrightarrow> j + n \<le> length (f_ctx f) \<Longrightarrow>
   fst (set_vectors n f None i (int j) w) = Inr ()"
proof (induction n arbitrary: f i j w)
  case (Suc n)
  obtain r1 f1 w1 where s: "fpga_set_vector_signal f (int j) (- 1) w = (r1, f1, w1)"
    by (metis surj_pair)
  have "r1 = Inr ()" using unbind_vector_ok [of f j w] Suc.prems s by simp
  moreover have "wf_feature f1" "length (f_ctx f1) = length (f_ctx f)"
    using vector_step [OF s Suc.prems(1)] Suc.prems(1) block_frame_wf block_frame_length by blast+
  ultimately show ?case
    using Suc.IH [of f1 "j + 1" "i + 1" w1] Suc.prems s
    by (simp add: fd_at_def add.commute)
qed simp

text \<open>The number of vectors fits the C \<^verbatim>\<open>int\<close> that holds it.\<close>

definition small_feature :: "feature \<Rightarrow> bool" where
  "small_feature f \<longleftrightarrow> wf_feature f \<and> length (f_ctx f) < 2 ^ 31"

lemma start_int:
  assumes "small_feature f" and "\<not> word_of_int (f_ctx_num f) \<le> (start :: u32)"
  shows "sint start = int (unat start) \<and> unat start < length (f_ctx f)"
proof -
  have "unat (word_of_int (f_ctx_num f) :: u32) = length (f_ctx f)"
    using assms(1) by (simp add: small_feature_def wf_feature_def unsigned_of_nat take_bit_nat_eq_self)
  then have lt: "unat start < length (f_ctx f)"
    using assms(2) unfolding word_le_nat_alt by linarith
  then have "unat start < 2 ^ 31"
    using assms(1) by (simp add: small_feature_def)
  then have "int (unat start) < int (2 ^ 31)"
    by (rule of_nat_less_iff [THEN iffD2])
  then have "uint start < 2 ^ 31" by simp
  then have "sint start = uint start"
    unfolding sint_uint by (intro signed_take_bit_int_eq_self) (auto intro: order_trans [OF _ uint_ge_0])
  then show ?thesis using lt by simp
qed

lemma msix_set_block_spec:
  assumes "fpga_msix_set_block f start cnt fds w = (r, f', w')" and "small_feature f"
  shows "(\<forall>q. unheld q f' w' = unheld q f w) \<and>
    (case r of
       Inl e \<Rightarrow> (f' = f \<and> w' = w) \<or>
         (\<exists>m > unat start. m \<le> unat start + unat cnt \<and> block_frame (unat start) m f f' \<and>
            (\<forall>k < length (f_ctx f). unat start \<le> k \<and> k < m \<longrightarrow> ctx_trigger (f_ctx f' ! k) = None))
     | Inr _ \<Rightarrow> unat start + unat cnt \<le> length (f_ctx f) \<and>
         block_frame (unat start) (unat start + unat cnt) f f' \<and>
         (\<forall>k < unat cnt. ctx_trigger (f_ctx f' ! (unat start + k)) \<noteq> None \<longleftrightarrow> 0 \<le> fd_at fds k))"
proof (cases "word_of_int (f_ctx_num f) \<le> start \<or> word_of_int (f_ctx_num f) < start + cnt")
  case True
  with assms(1) show ?thesis by (auto simp: fpga_msix_set_block_def)
next
  case False
  then have st: "sint start = int (unat start)" "unat start < length (f_ctx f)"
    using start_int [OF assms(2)] by auto
  obtain r1 f1 j1 w1 where s: "set_vectors (unat cnt) f fds 0 (int (unat start)) w = (r1, f1, j1, w1)"
    by (metis surj_pair)
  have wf: "wf_feature f" using assms(2) by (simp add: small_feature_def)
  from set_vectors_spec [OF s wf] obtain m where m: "j1 = int (unat start + m)" "m \<le> unat cnt"
      "block_frame (unat start) (unat start + m) f f1" "\<forall>q. unheld q f1 w1 = unheld q f w"
    and res: "case r1 of Inl _ \<Rightarrow> 0 < m
      | Inr _ \<Rightarrow> m = unat cnt \<and> (unat cnt = 0 \<or> unat start + unat cnt \<le> length (f_ctx f)) \<and>
          (\<forall>k < unat cnt. ctx_trigger (f_ctx f1 ! (unat start + k)) \<noteq> None \<longleftrightarrow> 0 \<le> fd_at fds (0 + k))"
    by blast
  show ?thesis
  proof (cases r1)
    case (Inr u)
    then have "r = Inr ()" "f' = f1" "w' = w1"
      using assms(1) False s st by (auto simp: fpga_msix_set_block_def)
    with m res st Inr show ?thesis by auto
  next
    case (Inl e)
    obtain f2 w2 where c: "clear_vectors m f1 (int (unat start) + int m - 1) w1 = (f2, w2)"
      by (metis surj_pair)
    have "r = Inl e" "f' = f2" "w' = w2"
      using assms(1) False s st Inl c m(1) by (auto simp: fpga_msix_set_block_def)
    moreover note cl = clear_vectors_spec [OF c] m(3) [THEN block_frame_wf] wf
    moreover have "block_frame (unat start) (unat start + m) f f2"
      using block_frame_trans [OF m(3)] cl by fastforce
    ultimately show ?thesis
      using m res Inl block_frame_length [OF m(3)]
      by (auto intro!: exI [where x = "unat start + m"])
  qed
qed

text \<open>Unbinding all vectors of a feature, as the last close of a device does.\<close>

lemma ctx_num_word:
  assumes "small_feature f"
  shows "unat (word_of_int (f_ctx_num f) :: u32) = length (f_ctx f)"
  using assms by (simp add: small_feature_def wf_feature_def unsigned_of_nat take_bit_nat_eq_self)

lemma msix_unbind_all:
  assumes "fpga_msix_set_block f 0 (word_of_int (f_ctx_num f)) None w = (r, f', w')"
    and "small_feature f"
  shows "(\<forall>c \<in> set (f_ctx f'). ctx_trigger c = None) \<and> f_ctx_num f' = f_ctx_num f \<and>
    length (f_ctx f') = length (f_ctx f) \<and>
    balance (w_trace w') q = balance (w_trace w) q - feature_holds q f"
proof -
  let ?n = "word_of_int (f_ctx_num f) :: u32"
  note n = ctx_num_word [OF assms(2)]
  have wf: "wf_feature f" using assms(2) by (simp add: small_feature_def)
  have unbound: "feature_holds q g = 0" if "\<forall>c \<in> set (f_ctx g). ctx_trigger c = None" for g
  proof -
    have "(\<Sum>c\<leftarrow>cs. ctx_holds q c) = 0" if "\<forall>c \<in> set cs. ctx_trigger c = None" for cs
      using that by (induction cs) (auto simp: ctx_holds_def)
    with that show ?thesis by (simp add: feature_holds_def)
  qed
  show ?thesis
  proof (cases "f_ctx f = []")
    case True
    then have "?n = 0" using n by (simp add: unat_eq_0)
    then have "f' = f" "w' = w" using assms(1) by (simp_all add: fpga_msix_set_block_def)
    with True show ?thesis by (simp add: feature_holds_def)
  next
    case False
    have "r = Inr ()"
    proof -
      have "?n \<noteq> 0" using n False by (auto simp: unat_eq_0 [symmetric])
      moreover have "fst (set_vectors (unat ?n) f None 0 0 w) = Inr ()"
        using unbind_vectors_ok [OF wf, of 0 "unat ?n" 0 w] n by simp
      ultimately show ?thesis
        using assms(1) by (auto simp: fpga_msix_set_block_def split: prod.splits sum.splits)
    qed
    with msix_set_block_spec [OF assms] n
    have fr: "block_frame 0 (length (f_ctx f)) f f'"
      and tr: "\<forall>k < length (f_ctx f). ctx_trigger (f_ctx f' ! k) = None"
      and un: "unheld q f' w' = unheld q f w"
      by (auto simp: fd_at_def)
    have len: "length (f_ctx f') = length (f_ctx f)" using block_frame_length [OF fr] .
    then have all: "\<forall>c \<in> set (f_ctx f'). ctx_trigger c = None"
      using tr by (metis in_set_conv_nth)
    moreover have "f_ctx_num f' = f_ctx_num f"
      using fr by (simp add: block_frame_def same_but_ctx_def)
    ultimately show ?thesis
      using len un unbound [OF all] by (simp add: unheld_def)
  qed
qed

text \<open>
  C21. Binding or unbinding a block of interrupt vectors, whatever the kernel calls in it answer
  and wherever it fails, keeps the account of resources: the interrupt lines, eventfd
  references and names taken and not given back are exactly those the vectors hold.
\<close>

theorem msix_set_block_no_leak:
  assumes "fpga_msix_set_block f start cnt fds w = (r, f', w')" and "small_feature f"
  shows "balance (w_trace w') q - feature_holds q f' = balance (w_trace w) q - feature_holds q f"
  using msix_set_block_spec [OF assms] by (simp add: unheld_def)

text \<open>
  C31. A successful \<^verbatim>\<open>fpga_msix_set_block\<close> binds exactly the vectors of its block whose eventfd is
  not negative and leaves every other vector alone; a failed one either did nothing, or has
  unbound an initial part of the block and left every other vector alone. The interrupt numbers
  never change.
\<close>

theorem msix_set_block_effect:
  assumes "fpga_msix_set_block f start cnt fds w = (r, f', w')" and "small_feature f"
  shows "case r of
      Inl e \<Rightarrow> (f' = f \<and> w' = w) \<or>
        (\<exists>m > unat start. m \<le> unat start + unat cnt \<and> block_frame (unat start) m f f' \<and>
           (\<forall>k < length (f_ctx f). unat start \<le> k \<and> k < m \<longrightarrow> ctx_trigger (f_ctx f' ! k) = None))
    | Inr _ \<Rightarrow> unat start + unat cnt \<le> length (f_ctx f) \<and>
        block_frame (unat start) (unat start + unat cnt) f f' \<and>
        (\<forall>k < unat cnt. ctx_trigger (f_ctx f' ! (unat start + k)) \<noteq> None \<longleftrightarrow> 0 \<le> fd_at fds k)"
  using msix_set_block_spec [OF assms] by (rule conjunct2)

text \<open>A feature with two unbound vectors, in a kernel that refuses the second interrupt line.\<close>

definition two_vectors :: feature where
  "two_vectors = zero_feature
     \<lparr>f_ctx := [\<lparr>ctx_trigger = None, ctx_name = 0, ctx_irq = 40\<rparr>,
                \<lparr>ctx_trigger = None, ctx_name = 0, ctx_irq = 41\<rparr>], f_ctx_num := 2\<rparr>"

definition one_irq_world :: world where
  "one_irq_world = (quiet_world (\<lambda>_. 0))
     \<lparr>w_kcall := (\<lambda>tr f xs. if f = Request_irq \<and> hd xs = 41 then Inl EBUSY
                          else Inr [int (length tr)])\<rparr>"

lemma two_vectors_small: "small_feature two_vectors"
  by (simp add: small_feature_def wf_feature_def two_vectors_def)

lemma set_vectors_numeral:
  "set_vectors (numeral k) f fds i j w =
     (case fpga_set_vector_signal f j (fd_at fds i) w of
        (Inl e, f1, w1) \<Rightarrow> (Inl e, f1, j + 1, w1)
      | (Inr _, f1, w1) \<Rightarrow> set_vectors (pred_numeral k) f1 fds (i + 1) (j + 1) w1)"
  by (simp add: numeral_eq_Suc)

lemma clear_vectors_numeral:
  "clear_vectors (numeral k) f j w =
     (case fpga_set_vector_signal f j (-1) w of
        (_, f1, w1) \<Rightarrow> clear_vectors (pred_numeral k) f1 (j - 1) w1)"
  by (simp add: numeral_eq_Suc)

lemma two_vectors_run:
  "fst (fpga_msix_set_block two_vectors 0 2 (Some [7, 8]) one_irq_world) = Inl EBUSY"
  by (simp add: fpga_msix_set_block_def two_vectors_def one_irq_world_def quiet_world_def
      set_vectors_numeral clear_vectors_numeral fd_at_def fpga_set_vector_signal_def release_vector_def bind_vector_def
      set_ctx_def kvalue_def kstatus_def kcall_def kvoid_def Let_def ret_val_def)

theorem msix_set_block_no_leak_witness:
  "balance (w_trace (snd (snd (fpga_msix_set_block two_vectors 0 2 (Some [7, 8]) one_irq_world))))
     (REventfd 1) -
   feature_holds (REventfd 1)
     (fst (snd (fpga_msix_set_block two_vectors 0 2 (Some [7, 8]) one_irq_world))) = 0"
proof -
  obtain r f' w' where
    run: "fpga_msix_set_block two_vectors 0 2 (Some [7, 8]) one_irq_world = (r, f', w')"
    by (metis surj_pair)
  have "balance (w_trace one_irq_world) (REventfd 1) - feature_holds (REventfd 1) two_vectors = 0"
    by (simp add: one_irq_world_def quiet_world_def feature_holds_def two_vectors_def ctx_holds_def)
  with msix_set_block_no_leak [OF run two_vectors_small, of "REventfd 1"] run show ?thesis by simp
qed

theorem msix_set_block_effect_witness:
  "ctx_trigger (f_ctx (fst (snd (fpga_msix_set_block two_vectors 0 2 (Some [7, 8])
     one_irq_world))) ! 0) = None"
proof -
  obtain r f' w' where
    run: "fpga_msix_set_block two_vectors 0 2 (Some [7, 8]) one_irq_world = (r, f', w')"
    by (metis surj_pair)
  have "r = Inl EBUSY" using two_vectors_run run by simp
  with msix_set_block_effect [OF run two_vectors_small] run show ?thesis
    by (auto simp: two_vectors_def)
qed

end
