(* ===== verification/Afu_Region.thy ===== *)
theory Afu_Region
  imports Port_Reset Msix "HOL-Library.Tree"
begin

text \<open>
  The state of an accelerator (\<^verbatim>\<open>struct fpga_afu\<close> of \<^verbatim>\<open>include/intel/afu.h\<close>) and its MMIO regions
  (\<^verbatim>\<open>drivers/fpga/intel/region.c\<close>): user space maps the pages behind an offset of the port's
  device file, and the region list says which offsets belong to which physical pages.

  \<open>reg_self\<close> and \<open>afu_self\<close> are the addresses of the structures themselves. The linked list is a list with its head first. A \<^verbatim>\<open>struct fpga_afu_region *\<close> returned through
  \<^verbatim>\<open>pregion\<close> is the copy of the region. The red-black tree of DMA regions is a binary tree; see
  \<open>Dma_Region\<close>.
\<close>

definition PAGE_SHIFT :: nat where "PAGE_SHIFT = 12"
definition PAGE_SIZE :: u64 where "PAGE_SIZE = 0x1000"

definition PAGE_ALIGN :: "u64 \<Rightarrow> u64" where
  "PAGE_ALIGN a = (a + (PAGE_SIZE - 1)) AND NOT (PAGE_SIZE - 1)"

definition PAGE_ALIGNED :: "u64 \<Rightarrow> bool" where
  "PAGE_ALIGNED a \<longleftrightarrow> a AND (PAGE_SIZE - 1) = 0"

record fpga_afu_region =
  reg_self :: int
  reg_index :: u32
  reg_flags :: u32
  reg_size :: u64
  reg_offset :: u64
  reg_phys :: u64

text \<open>
  \<open>dr_self\<close> is the address of the structure itself and \<open>dr_pages\<close> the array of pages, if there
  is one, with its own address; a page is its page frame number, \<open>None\<close> a NULL entry.
\<close>

record fpga_afu_dma_region =
  dr_self :: int
  dr_user_addr :: u64
  dr_length :: u64
  dr_iova :: u64
  dr_pages :: "(int \<times> int option list) option"
  dr_in_use :: bool

record fpga_afu =
  afu_self :: int
  afu_region_cur_offset :: u64
  afu_capability :: u32
  afu_num_regions :: int
  afu_num_umsgs :: u8
  afu_num_uafu_irqs :: u8
  afu_regions :: "fpga_afu_region list"
  afu_dma_regions :: "fpga_afu_dma_region tree"

type_synonym afu_pdata = "fpga_afu feature_platform_data"

text \<open>The AFU state \<^verbatim>\<open>kzalloc\<close> leaves before it is filled in.\<close>

definition zero_afu :: fpga_afu where
  "zero_afu =
     \<lparr>afu_self = 0, afu_region_cur_offset = 0, afu_capability = 0, afu_num_regions = 0, afu_num_umsgs = 0,
      afu_num_uafu_irqs = 0, afu_regions = [], afu_dma_regions = Leaf\<rparr>"

text \<open>The private data, which the port driver sets before any operation runs.\<close>

definition the_afu :: "afu_pdata \<Rightarrow> fpga_afu" where
  "the_afu pd = (case fpga_pdata_get_private pd of None \<Rightarrow> zero_afu | Some afu \<Rightarrow> afu)"

definition set_afu :: "fpga_afu \<Rightarrow> afu_pdata \<Rightarrow> afu_pdata" where
  "set_afu afu pd = fpga_pdata_set_private pd (Some afu)"

lemma the_set_afu [simp]: "the_afu (set_afu afu pd) = afu"
  by (simp add: the_afu_def set_afu_def fpga_pdata_get_private_def fpga_pdata_set_private_def)

subsection \<open>Operations\<close>

definition afu_region_init :: "afu_pdata \<Rightarrow> afu_pdata" where
  "afu_region_init pd = set_afu ((the_afu pd)\<lparr>afu_regions := []\<rparr>) pd"

fun find_region_index :: "fpga_afu_region list \<Rightarrow> u32 \<Rightarrow> fpga_afu_region option" where
  "find_region_index [] i = None"
| "find_region_index (r # rs) i = (if reg_index r = i then Some r else find_region_index rs i)"

definition get_region_by_index :: "fpga_afu \<Rightarrow> u32 \<Rightarrow> fpga_afu_region option" where
  "get_region_by_index afu region_index = find_region_index (afu_regions afu) region_index"

definition afu_region_add ::
  "afu_pdata \<Rightarrow> u32 \<Rightarrow> u64 \<Rightarrow> u64 \<Rightarrow> u32 \<Rightarrow> world \<Rightarrow> unit res \<times> afu_pdata \<times> world" where
  "afu_region_add pd region_index region_size phys flags w =
     (case kvalue Kzalloc [] w of
        (Inl _, w1) \<Rightarrow> (Inl ENOMEM, pd, w1)
      | (Inr ptr, w1) \<Rightarrow>
          (let afu = the_afu pd in
           if get_region_by_index afu region_index \<noteq> None
           then (Inl EEXIST, pd, kvoid Devm_kfree [ptr] w1)
           else
             (let region = \<lparr>reg_self = ptr, reg_index = region_index, reg_flags = flags, reg_size = region_size,
                            reg_offset = afu_region_cur_offset afu, reg_phys = phys\<rparr>
              in (Inr (),
                  set_afu (afu\<lparr>afu_regions := region # afu_regions afu,
                    afu_region_cur_offset := afu_region_cur_offset afu + PAGE_ALIGN region_size,
                    afu_num_regions := afu_num_regions afu + 1\<rparr>) pd, w1))))"

definition afu_region_destroy :: "afu_pdata \<Rightarrow> world \<Rightarrow> afu_pdata \<times> world" where
  "afu_region_destroy pd w =
     (set_afu ((the_afu pd)\<lparr>afu_regions := []\<rparr>) pd,
      fold (\<lambda>r. kvoid Devm_kfree [reg_self r]) (afu_regions (the_afu pd)) w)"

definition afu_get_region_by_index :: "afu_pdata \<Rightarrow> u32 \<Rightarrow> fpga_afu_region res" where
  "afu_get_region_by_index pd region_index =
     (case get_region_by_index (the_afu pd) region_index of
        None \<Rightarrow> Inl EINVAL
      | Some r \<Rightarrow> Inr r)"

fun find_region_offset :: "fpga_afu_region list \<Rightarrow> u64 \<Rightarrow> u64 \<Rightarrow> fpga_afu_region option" where
  "find_region_offset [] offset sz = None"
| "find_region_offset (r # rs) offset sz =
     (if reg_offset r \<le> offset \<and> offset + sz \<le> reg_offset r + reg_size r then Some r
      else find_region_offset rs offset sz)"

definition afu_get_region_by_offset :: "afu_pdata \<Rightarrow> u64 \<Rightarrow> u64 \<Rightarrow> fpga_afu_region res" where
  "afu_get_region_by_offset pd offset sz =
     (case find_region_offset (afu_regions (the_afu pd)) offset sz of
        None \<Rightarrow> Inl EINVAL
      | Some r \<Rightarrow> Inr r)"

subsection \<open>The layout of the regions\<close>

lemma unat_PAGE_SIZE [simp]: "unat PAGE_SIZE = 4096"
  by (simp add: PAGE_SIZE_def)

lemma page_mask: "PAGE_SIZE - 1 = mask 12"
  by (simp add: PAGE_SIZE_def mask_eq_exp_minus_1)

lemma PAGE_ALIGNED_dvd: "PAGE_ALIGNED a \<longleftrightarrow> 4096 dvd unat a"
proof -
  have "unat (take_bit 12 a) = unat a mod 4096"
    by (simp add: take_bit_eq_mod unat_mod_distrib)
  then show ?thesis
    unfolding PAGE_ALIGNED_def page_mask take_bit_eq_mask [symmetric]
    by (metis dvd_eq_mod_eq_0 unat_eq_0)
qed

definition page_ceil :: "nat \<Rightarrow> nat" where
  "page_ceil n = (n + 4095) div 4096 * 4096"

lemma page_ceil_eq: "page_ceil n = n + 4095 - (n + 4095) mod 4096"
  by (simp add: page_ceil_def minus_mod_eq_div_mult)

lemma page_ceil_ge: "n \<le> page_ceil n"
proof -
  have "(n + 4095) mod 4096 < 4096" by simp
  then show ?thesis unfolding page_ceil_eq by linarith
qed

lemma page_ceil_le: "page_ceil n \<le> n + 4095"
  unfolding page_ceil_eq by simp

lemma page_ceil_dvd [simp]: "4096 dvd page_ceil n"
  by (simp add: page_ceil_def)

lemma and_not_mask_word:
  fixes a :: "'a::len word"
  shows "a AND NOT (mask n) = push_bit n (drop_bit n a)"
  by (rule bit_word_eqI) (auto simp: bit_simps)

lemma unat_PAGE_ALIGN:
  assumes "unat a + 4095 < 2 ^ 64"
  shows "unat (PAGE_ALIGN a) = page_ceil (unat a)"
proof -
  let ?b = "a + (PAGE_SIZE - 1)"
  have s: "unat ?b = unat a + 4095"
    using assms by (simp add: PAGE_SIZE_def unat_word_ariths)
  have "unat (drop_bit 12 ?b) = (unat a + 4095) div 4096"
    unfolding unat_drop_bit_eq s by (simp add: drop_bit_eq_div)
  then have "unat (push_bit 12 (drop_bit 12 ?b)) = (unat a + 4095) div 4096 * 4096 mod 2 ^ 64"
    by (simp only: unsigned_push_bit_eq) (simp add: push_bit_eq_mult take_bit_eq_mod)
  moreover have "(unat a + 4095) div 4096 * 4096 < 2 ^ 64"
    using assms by (meson div_times_less_eq_dividend order.strict_trans1)
  ultimately show ?thesis
    unfolding PAGE_ALIGN_def page_mask and_not_mask_word page_ceil_def by simp
qed

text \<open>
  The regions from the head of the list on, below the offset \<open>cur\<close>: each one takes the whole
  pages just below the one added after it, down to offset 0.
\<close>

fun regions_layout :: "fpga_afu_region list \<Rightarrow> nat \<Rightarrow> bool" where
  "regions_layout [] cur \<longleftrightarrow> cur = 0"
| "regions_layout (r # rs) cur \<longleftrightarrow>
     cur = unat (reg_offset r) + page_ceil (unat (reg_size r)) \<and>
     regions_layout rs (unat (reg_offset r))"

definition region_inv :: "fpga_afu \<Rightarrow> bool" where
  "region_inv afu \<longleftrightarrow> regions_layout (afu_regions afu) (unat (afu_region_cur_offset afu)) \<and>
     distinct (map reg_index (afu_regions afu)) \<and>
     afu_num_regions afu = int (length (afu_regions afu))"

lemma find_region_index_Some:
  "find_region_index rs i = Some r \<Longrightarrow> r \<in> set rs \<and> reg_index r = i"
  by (induction rs) (auto split: if_splits)

lemma find_region_index_None: "find_region_index rs i = None \<longleftrightarrow> i \<notin> reg_index ` set rs"
  by (induction rs) auto

lemma regions_layout_bound:
  "regions_layout rs cur \<Longrightarrow> r \<in> set rs \<Longrightarrow>
   unat (reg_offset r) + page_ceil (unat (reg_size r)) \<le> cur"
  by (induction rs cur rule: regions_layout.induct) (auto intro: order_trans trans_le_add1)

lemma regions_layout_cur_dvd: "regions_layout rs cur \<Longrightarrow> 4096 dvd cur"
  by (induction rs cur rule: regions_layout.induct) auto

lemma regions_layout_dvd:
  "regions_layout rs cur \<Longrightarrow> r \<in> set rs \<Longrightarrow> 4096 dvd unat (reg_offset r)"
  by (induction rs cur rule: regions_layout.induct) (auto dest: regions_layout_cur_dvd)

lemma region_add_inv:
  assumes "afu_region_add pd i sz phys flags w = (r, pd', w')" and "region_inv (the_afu pd)"
    and "unat (afu_region_cur_offset (the_afu pd)) + unat sz + 4095 < 2 ^ 64"
  shows "region_inv (the_afu pd')"
proof -
  have al: "unat (PAGE_ALIGN sz) = page_ceil (unat sz)"
    by (rule unat_PAGE_ALIGN) (use assms(3) in simp)
  have "page_ceil (unat sz) \<le> unat sz + 4095" by (rule page_ceil_le)
  then have cur: "unat (afu_region_cur_offset (the_afu pd) + PAGE_ALIGN sz) =
      unat (afu_region_cur_offset (the_afu pd)) + page_ceil (unat sz)"
    using assms(3) by (simp add: unat_word_ariths al)
  show ?thesis
    using assms(1,2) cur
    by (auto simp: afu_region_add_def region_inv_def Let_def get_region_by_index_def
        find_region_index_None split: sum.splits prod.splits if_splits)
qed

lemma find_region_offset_Some:
  "find_region_offset rs offset sz = Some r \<Longrightarrow> r \<in> set rs \<and>
   reg_offset r \<le> offset \<and> offset + sz \<le> reg_offset r + reg_size r"
  by (induction rs) (auto split: if_splits)

lemma find_region_offset_None:
  "find_region_offset rs offset sz = None \<longleftrightarrow>
   (\<forall>r \<in> set rs. \<not> (reg_offset r \<le> offset \<and> offset + sz \<le> reg_offset r + reg_size r))"
  by (induction rs) auto

text \<open>\<open>region_covers\<close>: the byte range lies in the region, in unbounded arithmetic.\<close>

definition region_covers :: "fpga_afu_region \<Rightarrow> u64 \<Rightarrow> u64 \<Rightarrow> bool" where
  "region_covers r offset sz \<longleftrightarrow> unat (reg_offset r) \<le> unat offset \<and>
     unat offset + unat sz \<le> unat (reg_offset r) + unat (reg_size r)"

lemma region_check_covers:
  assumes "regions_layout rs (unat (cur :: u64))" and "r \<in> set rs"
    and "unat offset + unat sz < 2 ^ 64"
  shows "reg_offset r \<le> offset \<and> offset + sz \<le> reg_offset r + reg_size r \<longleftrightarrow>
    region_covers r offset sz"
proof -
  have "unat (reg_offset r) + unat (reg_size r) \<le> unat cur"
    using regions_layout_bound [OF assms(1,2)] page_ceil_ge [of "unat (reg_size r)"] by linarith
  then have "unat (reg_offset r) + unat (reg_size r) < 2 ^ 64"
    using unat_u64_less [of cur] by linarith
  then have "unat (reg_offset r + reg_size r) = unat (reg_offset r) + unat (reg_size r)"
    by (rule unat_add64)
  moreover have "unat (offset + sz) = unat offset + unat sz"
    using assms(3) by (rule unat_add64)
  ultimately show ?thesis by (simp add: region_covers_def word_le_nat_alt)
qed

lemma regions_disjoint:
  "regions_layout rs cur \<Longrightarrow> r \<in> set rs \<Longrightarrow> q \<in> set rs \<Longrightarrow> r \<noteq> q \<Longrightarrow>
   unat (reg_offset r) + page_ceil (unat (reg_size r)) \<le> unat (reg_offset q) \<or>
   unat (reg_offset q) + page_ceil (unat (reg_size q)) \<le> unat (reg_offset r)"
  by (induction rs cur rule: regions_layout.induct) (auto dest: regions_layout_bound)

text \<open>
  C32. Adding a region keeps the layout, as long as its size fits below the end of the 64-bit
  offset space: the regions tile the offsets from 0 in whole pages in the order they were added,
  their indices are distinct and counted. A failed add changes nothing.
\<close>

theorem region_add_keeps_layout:
  assumes "afu_region_add pd i sz phys flags w = (r, pd', w')" and "region_inv (the_afu pd)"
    and "unat (afu_region_cur_offset (the_afu pd)) + unat sz + 4095 < 2 ^ 64"
  shows "region_inv (the_afu pd') \<and> (r \<noteq> Inr () \<longrightarrow> pd' = pd) \<and>
    (r = Inr () \<longrightarrow> (\<exists>q. afu_regions (the_afu pd') = q # afu_regions (the_afu pd) \<and>
       reg_index q = i \<and> reg_phys q = phys \<and> reg_size q = sz \<and>
       reg_offset q = afu_region_cur_offset (the_afu pd)))"
  using region_add_inv [OF assms] assms(1)
  by (auto simp: afu_region_add_def Let_def split: sum.splits prod.splits if_splits)

lemma region_lookup:
  assumes "region_inv (the_afu pd)" and "unat offset + unat sz < 2 ^ 64" and "sz \<noteq> 0"
  shows "afu_get_region_by_offset pd offset sz = Inr r \<longleftrightarrow>
    r \<in> set (afu_regions (the_afu pd)) \<and> region_covers r offset sz"
proof -
  let ?rs = "afu_regions (the_afu pd)"
  have lay: "regions_layout ?rs (unat (afu_region_cur_offset (the_afu pd)))"
    using assms(1) by (simp add: region_inv_def)
  note check = region_check_covers [OF lay _ assms(2)]
  have uniq: "q = r" if "q \<in> set ?rs" "r \<in> set ?rs" "region_covers q offset sz"
    "region_covers r offset sz" for q r
  proof (rule ccontr)
    assume "q \<noteq> r"
    have "0 < unat sz" using assms(3) by (simp add: unat_gt_0)
    then show False
      using regions_disjoint [OF lay that(1,2) \<open>q \<noteq> r\<close>] that(3,4)
        page_ceil_ge [of "unat (reg_size q)"] page_ceil_ge [of "unat (reg_size r)"]
      unfolding region_covers_def by linarith
  qed
  show ?thesis
    unfolding afu_get_region_by_offset_def
    using check uniq find_region_offset_Some [of ?rs offset sz]
      find_region_offset_None [of ?rs offset sz]
    by (auto split: option.splits)
qed

text \<open>
  C33. The lookup by offset returns exactly the region that contains the whole byte range,
  provided the range is not empty and does not wrap around the 64-bit offset space; there is at
  most one such region.
\<close>

theorem region_lookup_exact:
  assumes "region_inv (the_afu pd)" and "unat offset + unat sz < 2 ^ 64" and "sz \<noteq> 0"
  shows "afu_get_region_by_offset pd offset sz = Inr r \<longleftrightarrow>
    r \<in> set (afu_regions (the_afu pd)) \<and> region_covers r offset sz"
  by (rule region_lookup [OF assms])

text \<open>An AFU with no region, and the one after a region of 256 KiB was added.\<close>

definition afu_dev :: afu_pdata where
  "afu_dev = set_afu zero_afu empty_pdata"

definition afu_dev_region :: afu_pdata where
  "afu_dev_region = fst (snd (afu_region_add afu_dev 0 0x40000 0xF0000000 0 (quiet_world (\<lambda>_. 0))))"

lemma region_inv_zero [simp]: "region_inv zero_afu"
  by (simp add: region_inv_def zero_afu_def)

theorem region_add_keeps_layout_witness: "region_inv (the_afu afu_dev_region)"
proof -
  obtain r pd' w' where
    run: "afu_region_add afu_dev 0 0x40000 0xF0000000 0 (quiet_world (\<lambda>_. 0)) = (r, pd', w')"
    by (metis surj_pair)
  from region_add_keeps_layout [OF run] run show ?thesis
    by (simp add: afu_dev_region_def afu_dev_def) (simp add: zero_afu_def)
qed

lemma afu_dev_region_inv: "region_inv (the_afu afu_dev_region)"
proof -
  obtain r pd' w' where
    run: "afu_region_add afu_dev 0 0x40000 0xF0000000 0 (quiet_world (\<lambda>_. 0)) = (r, pd', w')"
    by (metis surj_pair)
  from region_add_inv [OF run] run show ?thesis
    by (simp add: afu_dev_region_def afu_dev_def) (simp add: zero_afu_def)
qed

lemma afu_dev_region_eq:
  "afu_regions (the_afu afu_dev_region) =
     [\<lparr>reg_self = 0, reg_index = 0, reg_flags = 0, reg_size = 0x40000, reg_offset = 0,
       reg_phys = 0xF0000000\<rparr>]"
  by (simp add: afu_dev_region_def afu_region_add_def afu_dev_def kvalue_def kcall_def ret_val_def
      quiet_world_def zero_afu_def Let_def get_region_by_index_def)

theorem region_lookup_exact_witness:
  "afu_get_region_by_offset afu_dev_region 0x1000 0x2000 =
     Inr \<lparr>reg_self = 0, reg_index = 0, reg_flags = 0, reg_size = 0x40000, reg_offset = 0,
          reg_phys = 0xF0000000\<rparr>"
  by (subst region_lookup_exact [OF afu_dev_region_inv])
    (simp_all add: afu_dev_region_eq region_covers_def)

end
