(* ===== verification/Dma_Region.thy ===== *)
theory Dma_Region
  imports Afu_Region
begin

text \<open>
  DMA regions of an accelerator (\<^verbatim>\<open>drivers/fpga/intel/dma-region.c\<close>): pinning a range of user
  memory, mapping it for DMA, and the search tree of the mapped ranges by bus address.

  The tree is the kernel's red-black tree. Its search and the place where a new node is linked
  are code of this driver and are modelled; the rebalancing (\<^verbatim>\<open>rb_insert_color\<close>) and the removal
  of a node (\<^verbatim>\<open>rb_erase\<close>) are kernel functions and are the parameter \<open>rb\<close>, of which the
  documented effect is the hypothesis \<open>rbtree_laws\<close>: they keep the in-order sequence, except for
  the removed node. A \<^verbatim>\<open>struct fpga_afu_dma_region *\<close> is the region as it is in the tree, where
  the bus addresses are distinct.
\<close>

subsection \<open>The kernel's side\<close>

record rbtree_ops =
  rb_insert_color :: "fpga_afu_dma_region tree \<Rightarrow> fpga_afu_dma_region tree"
  rb_erase :: "fpga_afu_dma_region \<Rightarrow> fpga_afu_dma_region tree \<Rightarrow> fpga_afu_dma_region tree"

definition rbtree_laws :: "rbtree_ops \<Rightarrow> bool" where
  "rbtree_laws rb \<longleftrightarrow> (\<forall>t. inorder (rb_insert_color rb t) = inorder t) \<and>
     (\<forall>t xs r ys. inorder t = xs @ r # ys \<and> r \<notin> set xs \<and> r \<notin> set ys \<longrightarrow>
        inorder (rb_erase rb r t) = xs @ ys)"

text \<open>
  What the driver reads of \<^verbatim>\<open>current\<close>: the number of locked pages of its address space
  (\<^verbatim>\<open>mm->locked_vm\<close>, \<open>None\<close> when it has no \<^verbatim>\<open>mm\<close>), its \<^verbatim>\<open>RLIMIT_MEMLOCK\<close> and whether it has
  \<^verbatim>\<open>CAP_IPC_LOCK\<close>.
\<close>

record task =
  tk_locked_vm :: "u64 option"
  tk_memlock :: u64
  tk_ipc_lock :: bool

subsection \<open>Pinning\<close>

fun put_pages :: "int option list \<Rightarrow> world \<Rightarrow> world" where
  "put_pages [] w = w"
| "put_pages (None # ps) w = put_pages ps w"
| "put_pages (Some p # ps) w = put_pages ps (kvoid Put_page [p] w)"

text \<open>\<open>npages\<close> is an \<^verbatim>\<open>int\<close>; a negative one puts no page.\<close>

definition put_all_pages :: "int option list \<Rightarrow> int \<Rightarrow> world \<Rightarrow> world" where
  "put_all_pages pages npages w = put_pages (take (nat npages) pages) w"

definition afu_dma_region_init :: "afu_pdata \<Rightarrow> afu_pdata" where
  "afu_dma_region_init pd = set_afu ((the_afu pd)\<lparr>afu_dma_regions := Leaf\<rparr>) pd"

definition afu_dma_adjust_locked_vm :: "u64 \<Rightarrow> bool \<Rightarrow> task \<Rightarrow> unit res \<times> task" where
  "afu_dma_adjust_locked_vm npages incr tk =
     (case tk_locked_vm tk of
        None \<Rightarrow> (Inr (), tk)
      | Some locked_vm \<Rightarrow>
          if incr then
            (let locked = locked_vm + npages; lock_limit = drop_bit PAGE_SHIFT (tk_memlock tk) in
             if lock_limit < locked \<and> \<not> tk_ipc_lock tk then (Inl ENOMEM, tk)
             else (Inr (), tk\<lparr>tk_locked_vm := Some (locked_vm + npages)\<rparr>))
          else
            (let n = (if locked_vm < npages then locked_vm else npages) in
             (Inr (), tk\<lparr>tk_locked_vm := Some (locked_vm - n)\<rparr>)))"

text \<open>
  \<^verbatim>\<open>get_user_pages_fast\<close> takes the number of pages as an \<^verbatim>\<open>int\<close> and answers with the pages it
  pinned, which may be fewer; the entries behind them stay NULL. In the two error branches the
  labels of the source are kept as they are: a failed call goes to \<^verbatim>\<open>err_put_pages\<close> with the
  negative result as the number of pages, a short one goes to \<^verbatim>\<open>err\<close>.
\<close>

definition afu_dma_pin_pages ::
  "fpga_afu_dma_region \<Rightarrow> task \<Rightarrow> world \<Rightarrow> unit res \<times> fpga_afu_dma_region \<times> task \<times> world" where
  "afu_dma_pin_pages region tk w =
     (let npages = drop_bit PAGE_SHIFT (dr_length region) in
      case afu_dma_adjust_locked_vm npages True tk of
        (Inl e, tk1) \<Rightarrow> (Inl e, region, tk1, w)
      | (Inr _, tk1) \<Rightarrow>
          (case kvalue Kcalloc [uint npages] w of
             (Inl _, w1) \<Rightarrow>
               (Inl ENOMEM, region\<lparr>dr_pages := None\<rparr>,
                snd (afu_dma_adjust_locked_vm npages False tk1), w1)
           | (Inr arr, w1) \<Rightarrow>
               (case kcall Get_user_pages_fast
                       [uint (dr_user_addr region), sint (ucast npages :: u32)] w1 of
                  (Inl e, w2) \<Rightarrow>
                    (Inl e, region\<lparr>dr_pages := Some (arr, [])\<rparr>,
                     snd (afu_dma_adjust_locked_vm npages False tk1),
                     kvoid Kfree [arr] (put_all_pages [] (- 1) w2))
                | (Inr vs, w2) \<Rightarrow>
                    if int (length vs) \<noteq> uint npages then
                      (Inl EFAULT, region\<lparr>dr_pages := Some (arr, map Some vs)\<rparr>,
                       snd (afu_dma_adjust_locked_vm npages False tk1), kvoid Kfree [arr] w2)
                    else (Inr (), region\<lparr>dr_pages := Some (arr, map Some vs)\<rparr>, tk1, w2))))"

definition afu_dma_unpin_pages ::
  "fpga_afu_dma_region \<Rightarrow> task \<Rightarrow> world \<Rightarrow> task \<times> world" where
  "afu_dma_unpin_pages region tk w =
     (let npages = drop_bit PAGE_SHIFT (dr_length region) in
      case dr_pages region of
        None \<Rightarrow> (snd (afu_dma_adjust_locked_vm npages False tk), w)
      | Some (arr, pages) \<Rightarrow>
          (snd (afu_dma_adjust_locked_vm npages False tk),
           kvoid Kfree [arr] (put_all_pages pages (sint (ucast npages :: u32)) w)))"

fun pages_continuous :: "int option list \<Rightarrow> bool" where
  "pages_continuous (p # q # ps) \<longleftrightarrow>
     (case (p, q) of (Some i, Some j) \<Rightarrow> i + 1 = j | _ \<Rightarrow> False) \<and> pages_continuous (q # ps)"
| "pages_continuous ps \<longleftrightarrow> True"

definition afu_dma_check_continuous_pages :: "fpga_afu_dma_region \<Rightarrow> bool" where
  "afu_dma_check_continuous_pages region =
     (let npages = sint (ucast (drop_bit PAGE_SHIFT (dr_length region)) :: u32) in
      case dr_pages region of
        None \<Rightarrow> True
      | Some (_, pages) \<Rightarrow> pages_continuous (take (nat npages) pages))"

subsection \<open>The tree\<close>

definition dma_region_check_iova :: "fpga_afu_dma_region \<Rightarrow> u64 \<Rightarrow> u64 \<Rightarrow> bool" where
  "dma_region_check_iova region iova sz \<longleftrightarrow>
     (if sz = 0 \<and> dr_iova region \<noteq> iova then False
      else dr_iova region \<le> iova \<and> iova + sz \<le> dr_length region + dr_iova region)"

text \<open>The descent of \<^verbatim>\<open>afu_dma_region_add\<close>, ending with \<^verbatim>\<open>rb_link_node\<close>.\<close>

fun dma_region_link ::
  "fpga_afu_dma_region \<Rightarrow> fpga_afu_dma_region tree \<Rightarrow> fpga_afu_dma_region tree option" where
  "dma_region_link region Leaf = Some (Node Leaf region Leaf)"
| "dma_region_link region (Node l this r) =
     (if dma_region_check_iova this (dr_iova region) (dr_length region) then None
      else if dr_iova region < dr_iova this then
        map_option (\<lambda>l'. Node l' this r) (dma_region_link region l)
      else if dr_iova this < dr_iova region then
        map_option (\<lambda>r'. Node l this r') (dma_region_link region r)
      else None)"

definition afu_dma_region_add ::
  "rbtree_ops \<Rightarrow> afu_pdata \<Rightarrow> fpga_afu_dma_region \<Rightarrow> unit res \<times> afu_pdata" where
  "afu_dma_region_add rb pd region =
     (let afu = the_afu pd in
      case dma_region_link region (afu_dma_regions afu) of
        None \<Rightarrow> (Inl EEXIST, pd)
      | Some t \<Rightarrow> (Inr (), set_afu (afu\<lparr>afu_dma_regions := rb_insert_color rb t\<rparr>) pd))"

definition afu_dma_region_remove ::
  "rbtree_ops \<Rightarrow> afu_pdata \<Rightarrow> fpga_afu_dma_region \<Rightarrow> afu_pdata" where
  "afu_dma_region_remove rb pd region =
     (let afu = the_afu pd in
      set_afu (afu\<lparr>afu_dma_regions := rb_erase rb region (afu_dma_regions afu)\<rparr>) pd)"

fun dma_region_search ::
  "fpga_afu_dma_region tree \<Rightarrow> u64 \<Rightarrow> u64 \<Rightarrow> fpga_afu_dma_region option" where
  "dma_region_search Leaf iova sz = None"
| "dma_region_search (Node l region r) iova sz =
     (if dma_region_check_iova region iova sz then Some region
      else if iova < dr_iova region then dma_region_search l iova sz
      else if dr_iova region < iova then dma_region_search r iova sz
      else None)"

definition afu_dma_region_find ::
  "afu_pdata \<Rightarrow> u64 \<Rightarrow> u64 \<Rightarrow> fpga_afu_dma_region option" where
  "afu_dma_region_find pd iova sz = dma_region_search (afu_dma_regions (the_afu pd)) iova sz"

definition afu_dma_region_find_iova :: "afu_pdata \<Rightarrow> u64 \<Rightarrow> fpga_afu_dma_region option" where
  "afu_dma_region_find_iova pd iova = afu_dma_region_find pd iova 0"

text \<open>
  The loop of \<^verbatim>\<open>afu_dma_region_destroy\<close> over the nodes in order. It takes the successor of the
  first node after erasing it; \<^verbatim>\<open>rb_erase\<close> leaves the links of the erased node in place, and the
  first node has no left child, so they still lead to its successor.
\<close>

fun destroy_dma_regions ::
  "rbtree_ops \<Rightarrow> fpga_afu_dma_region list \<Rightarrow> afu_pdata \<Rightarrow> task \<Rightarrow> world \<Rightarrow> afu_pdata \<times> task \<times> world"
where
  "destroy_dma_regions rb [] pd tk w = (pd, tk, w)"
| "destroy_dma_regions rb (region # rs) pd tk w =
     (let pd1 = afu_dma_region_remove rb pd region;
          w1 = (if dr_iova region \<noteq> 0
                then kvoid Dma_unmap_page [uint (dr_iova region), uint (dr_length region)] w
                else w);
          (tk1, w2) = (if dr_pages region \<noteq> None then afu_dma_unpin_pages region tk w1
                       else (tk, w1))
      in destroy_dma_regions rb rs pd1 tk1 (kvoid Kfree [dr_self region] w2))"

definition afu_dma_region_destroy ::
  "rbtree_ops \<Rightarrow> afu_pdata \<Rightarrow> task \<Rightarrow> world \<Rightarrow> afu_pdata \<times> task \<times> world" where
  "afu_dma_region_destroy rb pd tk w =
     destroy_dma_regions rb (inorder (afu_dma_regions (the_afu pd))) pd tk w"

subsection \<open>Mapping and unmapping\<close>

text \<open>
  \<^verbatim>\<open>dma_map_page\<close> and the test of its result by \<^verbatim>\<open>dma_mapping_error\<close> are one kernel call here.
\<close>

text \<open>The part of the function from the test of the pinned pages on.\<close>

definition dma_map_pinned ::
  "rbtree_ops \<Rightarrow> afu_pdata \<Rightarrow> fpga_afu_dma_region \<Rightarrow> task \<Rightarrow> world \<Rightarrow>
   u64 res \<times> afu_pdata \<times> task \<times> world" where
  "dma_map_pinned rb pd region tk w =
     (if \<not> afu_dma_check_continuous_pages region then
        (case afu_dma_unpin_pages region tk w of
           (tk1, w1) \<Rightarrow> (Inl EINVAL, pd, tk1, kvoid Kfree [dr_self region] w1))
      else
        (case kvalue Dma_map_page [uint (dr_length region)] w of
           (Inl _, w1) \<Rightarrow>
             (case afu_dma_unpin_pages region tk w1 of
                (tk1, w2) \<Rightarrow> (Inl EFAULT, pd, tk1, kvoid Kfree [dr_self region] w2))
         | (Inr addr, w1) \<Rightarrow>
             (let region1 = region\<lparr>dr_iova := word_of_int addr\<rparr> in
              case afu_dma_region_add rb pd region1 of
                (Inl e, pd1) \<Rightarrow>
                  (case afu_dma_unpin_pages region1 tk
                          (kvoid Dma_unmap_page [uint (dr_iova region1), uint (dr_length region1)] w1) of
                     (tk1, w2) \<Rightarrow> (Inl e, pd1, tk1, kvoid Kfree [dr_self region1] w2))
              | (Inr _, pd1) \<Rightarrow> (Inr (dr_iova region1), pd1, tk, w1))))"

definition afu_dma_map_region ::
  "rbtree_ops \<Rightarrow> afu_pdata \<Rightarrow> u64 \<Rightarrow> u64 \<Rightarrow> task \<Rightarrow> world \<Rightarrow> u64 res \<times> afu_pdata \<times> task \<times> world" where
  "afu_dma_map_region rb pd user_addr len tk w =
     (if \<not> PAGE_ALIGNED user_addr \<or> \<not> PAGE_ALIGNED len \<or> len = 0 then (Inl EINVAL, pd, tk, w)
      else if user_addr + len < user_addr then (Inl EINVAL, pd, tk, w)
      else
        (case kstatus Access_ok [uint user_addr, uint len] w of
           (Inl _, w1) \<Rightarrow> (Inl EINVAL, pd, tk, w1)
         | (Inr _, w1) \<Rightarrow>
        (case kvalue Kzalloc [] w1 of
           (Inl _, w2) \<Rightarrow> (Inl ENOMEM, pd, tk, w2)
         | (Inr self, w2) \<Rightarrow>
        (case afu_dma_pin_pages \<lparr>dr_self = self, dr_user_addr = user_addr, dr_length = len,
                dr_iova = 0, dr_pages = None, dr_in_use = False\<rparr> tk w2 of
           (Inl e, _, tk1, w3) \<Rightarrow> (Inl e, pd, tk1, kvoid Kfree [self] w3)
         | (Inr _, region, tk1, w3) \<Rightarrow> dma_map_pinned rb pd region tk1 w3))))"

definition afu_dma_unmap_region ::
  "rbtree_ops \<Rightarrow> afu_pdata \<Rightarrow> u64 \<Rightarrow> task \<Rightarrow> world \<Rightarrow> unit res \<times> afu_pdata \<times> task \<times> world" where
  "afu_dma_unmap_region rb pd iova tk w =
     (case afu_dma_region_find_iova pd iova of
        None \<Rightarrow> (Inl EINVAL, pd, tk, w)
      | Some region \<Rightarrow>
          if dr_in_use region then (Inl EBUSY, pd, tk, w)
          else
            (let pd1 = afu_dma_region_remove rb pd region;
                 w1 = kvoid Dma_unmap_page [uint (dr_iova region), uint (dr_length region)] w;
                 (tk1, w2) = afu_dma_unpin_pages region tk w1
             in (Inr (), pd1, tk1, kvoid Kfree [dr_self region] w2)))"

subsection \<open>The tree as a set of disjoint ranges\<close>

definition dma_end :: "fpga_afu_dma_region \<Rightarrow> nat" where
  "dma_end r = unat (dr_iova r) + unat (dr_length r)"

text \<open>A range that is not empty and does not wrap around the bus addresses.\<close>

definition dma_range_ok :: "fpga_afu_dma_region \<Rightarrow> bool" where
  "dma_range_ok r \<longleftrightarrow> dr_length r \<noteq> 0 \<and> dma_end r < 2 ^ 64"

definition dma_before :: "fpga_afu_dma_region \<Rightarrow> fpga_afu_dma_region \<Rightarrow> bool" where
  "dma_before r s \<longleftrightarrow> dma_end r \<le> unat (dr_iova s)"

definition dma_disjoint :: "fpga_afu_dma_region \<Rightarrow> fpga_afu_dma_region \<Rightarrow> bool" where
  "dma_disjoint r s \<longleftrightarrow> dma_before r s \<or> dma_before s r"

definition dma_inv :: "fpga_afu_dma_region tree \<Rightarrow> bool" where
  "dma_inv t \<longleftrightarrow> (\<forall>r \<in> set (inorder t). dma_range_ok r) \<and> sorted_wrt dma_before (inorder t)"

text \<open>What the driver looks for: the region that starts there, or that contains the range.\<close>

definition dma_covers :: "fpga_afu_dma_region \<Rightarrow> u64 \<Rightarrow> u64 \<Rightarrow> bool" where
  "dma_covers r iova sz \<longleftrightarrow>
     (if sz = 0 then dr_iova r = iova
      else unat (dr_iova r) \<le> unat iova \<and> unat iova + unat sz \<le> dma_end r)"

lemma check_iova_covers:
  assumes "dma_range_ok r" and "unat iova + unat sz < 2 ^ 64"
  shows "dma_region_check_iova r iova sz \<longleftrightarrow> dma_covers r iova sz"
proof -
  have "unat (dr_length r + dr_iova r) = dma_end r"
    using assms(1) by (simp add: dma_range_ok_def dma_end_def unat_add64 add.commute)
  then show ?thesis
    using assms(2)
    by (auto simp: dma_region_check_iova_def dma_covers_def word_le_nat_alt unat_add64 dma_end_def)
qed

lemma covers_start:
  assumes "dma_range_ok r" and "dma_covers r iova sz"
  shows "unat (dr_iova r) \<le> unat iova \<and> unat iova < dma_end r"
proof (cases "sz = 0")
  case True
  then show ?thesis
    using assms unfolding dma_covers_def dma_range_ok_def dma_end_def
    by (simp add: unat_gt_0)
next
  case False
  then have "0 < unat sz" by (simp add: unat_gt_0)
  with False assms show ?thesis unfolding dma_covers_def by auto
qed

lemma before_not_covers:
  assumes "dma_before r s" and "dma_range_ok r" and "dma_range_ok s"
  shows "\<not> (dma_covers r iova sz \<and> dma_covers s iova sz)"
  using covers_start [OF assms(2)] covers_start [OF assms(3)] assms(1)
  unfolding dma_before_def by (meson leD le_trans)

lemma dma_inv_Node:
  "dma_inv (Node l x r) \<longleftrightarrow> dma_inv l \<and> dma_inv r \<and> dma_range_ok x \<and>
     (\<forall>y \<in> set (inorder l). dma_before y x) \<and> (\<forall>z \<in> set (inorder r). dma_before x z) \<and>
     (\<forall>y \<in> set (inorder l). \<forall>z \<in> set (inorder r). dma_before y z)"
  unfolding dma_inv_def by (auto simp: sorted_wrt_append)

lemma dma_inv_Leaf [simp]: "dma_inv Leaf"
  by (simp add: dma_inv_def)

lemma dma_inv_range: "dma_inv t \<Longrightarrow> r \<in> set (inorder t) \<Longrightarrow> dma_range_ok r"
  by (simp add: dma_inv_def)

lemma search_covers:
  assumes "unat iova + unat sz < 2 ^ 64"
  shows "dma_inv t \<Longrightarrow> dma_region_search t iova sz = Some r \<longleftrightarrow>
    r \<in> set (inorder t) \<and> dma_covers r iova sz"
proof (induction t)
  case Leaf
  then show ?case by simp
next
  case (Node tl x tr)
  have inv: "dma_inv tl" "dma_inv tr" "dma_range_ok x"
    and bl: "\<And>y. y \<in> set (inorder tl) \<Longrightarrow> dma_before y x"
    and br: "\<And>z. z \<in> set (inorder tr) \<Longrightarrow> dma_before x z"
    using Node.prems by (auto simp: dma_inv_Node)
  have cx: "dma_region_check_iova x iova sz \<longleftrightarrow> dma_covers x iova sz"
    by (rule check_iova_covers [OF inv(3) assms])
  have rl: "dma_range_ok y" if "y \<in> set (inorder tl)" for y using dma_inv_range [OF inv(1) that] .
  have rr: "dma_range_ok y" if "y \<in> set (inorder tr)" for y using dma_inv_range [OF inv(2) that] .
  have left: "unat iova < unat (dr_iova x)"
    if "y \<in> set (inorder tl)" "dma_covers y iova sz" for y
    using covers_start [OF rl that(2)] bl that(1) unfolding dma_before_def by fastforce
  have right: "unat (dr_iova x) < unat iova"
    if "y \<in> set (inorder tr)" "dma_covers y iova sz" for y
  proof -
    have "dma_end x \<le> unat iova"
      using covers_start [OF rr that(2)] br that(1) unfolding dma_before_def by fastforce
    moreover have "unat (dr_iova x) < dma_end x"
      using inv(3) by (simp add: dma_range_ok_def dma_end_def unat_gt_0)
    ultimately show ?thesis by simp
  qed
  show ?case
  proof (cases "dma_covers x iova sz")
    case True
    have "\<not> dma_covers y iova sz" if "y \<in> set (inorder tl)" for y
      using before_not_covers [OF bl [OF that] rl [OF that] inv(3)] True by blast
    moreover have "\<not> dma_covers y iova sz" if "y \<in> set (inorder tr)" for y
      using before_not_covers [OF br [OF that] inv(3) rr [OF that]] True by blast
    ultimately show ?thesis using True cx by auto
  next
    case False
    then show ?thesis
      using cx Node.IH(1) [OF inv(1)] Node.IH(2) [OF inv(2)] left right
      by (auto simp: word_less_nat_alt) (metis less_asym)+
  qed
qed

text \<open>Linking a new node: at its place in the order, and always when it is disjoint.\<close>

lemma link_inorder:
  "dma_region_link x t = Some t' \<Longrightarrow> sorted_wrt (\<lambda>r s. dr_iova r < dr_iova s) (inorder t) \<Longrightarrow>
   \<exists>xs ys. inorder t = xs @ ys \<and> inorder t' = xs @ x # ys \<and>
     (\<forall>a \<in> set xs. dr_iova a < dr_iova x) \<and> (\<forall>b \<in> set ys. dr_iova x < dr_iova b)"
proof (induction t arbitrary: t')
  case Leaf
  then show ?case by auto
next
  case (Node tl y tr)
  have srt: "sorted_wrt (\<lambda>r s. dr_iova r < dr_iova s) (inorder tl)"
    "sorted_wrt (\<lambda>r s. dr_iova r < dr_iova s) (inorder tr)"
    "\<forall>a \<in> set (inorder tl). dr_iova a < dr_iova y" "\<forall>b \<in> set (inorder tr). dr_iova y < dr_iova b"
    using Node.prems(2) by (auto simp: sorted_wrt_append)
  consider (left) l' where "dr_iova x < dr_iova y" "dma_region_link x tl = Some l'" "t' = Node l' y tr"
    | (right) r' where "dr_iova y < dr_iova x" "dma_region_link x tr = Some r'" "t' = Node tl y r'"
    using Node.prems(1) by (auto split: if_splits)
  then show ?case
  proof cases
    case left
    obtain xs ys where i: "inorder tl = xs @ ys" "inorder l' = xs @ x # ys"
      "\<forall>a \<in> set xs. dr_iova a < dr_iova x" "\<forall>b \<in> set ys. dr_iova x < dr_iova b"
      using Node.IH(1) [OF left(2) srt(1)] by blast
    show ?thesis
      by (rule exI [of _ xs], rule exI [of _ "ys @ y # inorder tr"])
        (use i left srt(4) in \<open>auto intro: less_trans\<close>)
  next
    case right
    obtain xs ys where i: "inorder tr = xs @ ys" "inorder r' = xs @ x # ys"
      "\<forall>a \<in> set xs. dr_iova a < dr_iova x" "\<forall>b \<in> set ys. dr_iova x < dr_iova b"
      using Node.IH(2) [OF right(2) srt(2)] by blast
    show ?thesis
      by (rule exI [of _ "inorder tl @ y # xs"], rule exI [of _ ys])
        (use i right srt(3) in \<open>auto intro: less_trans\<close>)
  qed
qed

lemma dma_before_less: "dma_before r s \<Longrightarrow> dma_range_ok r \<Longrightarrow> dr_iova r < dr_iova s"
  unfolding dma_before_def dma_range_ok_def dma_end_def word_less_nat_alt
  by (metis add.commute less_add_same_cancel2 order_less_le_trans unat_gt_0)

lemma dma_inv_sorted:
  "dma_inv t \<Longrightarrow> sorted_wrt (\<lambda>r s. dr_iova r < dr_iova s) (inorder t)"
  unfolding dma_inv_def
  by (rule sorted_wrt_mono_rel [of _ dma_before]) (blast intro: dma_before_less)+

lemma disjoint_not_covers:
  "dma_disjoint r s \<Longrightarrow> dma_range_ok r \<Longrightarrow> dma_range_ok s \<Longrightarrow>
   \<not> dma_covers r (dr_iova s) (dr_length s)"
  using covers_start [of r "dr_iova s" "dr_length s"] dma_before_less [of s r]
  by (auto simp: dma_disjoint_def dma_before_def word_less_nat_alt)

lemma disjoint_neq: "dma_disjoint r s \<Longrightarrow> dma_range_ok r \<Longrightarrow> dma_range_ok s \<Longrightarrow> dr_iova r \<noteq> dr_iova s"
  using dma_before_less [of r s] dma_before_less [of s r] by (auto simp: dma_disjoint_def)

lemma link_disjoint:
  assumes "dma_range_ok x"
  shows "dma_inv t \<Longrightarrow> \<forall>y \<in> set (inorder t). dma_disjoint x y \<Longrightarrow> dma_region_link x t \<noteq> None"
proof (induction t)
  case Leaf
  then show ?case by simp
next
  case (Node tl y tr)
  have y: "dma_range_ok y" "dma_disjoint x y"
    using Node.prems by (auto simp: dma_inv_Node)
  then have "dma_disjoint y x" by (auto simp: dma_disjoint_def)
  then have "\<not> dma_covers y (dr_iova x) (dr_length x)"
    using disjoint_not_covers y(1) assms by blast
  then have "\<not> dma_region_check_iova y (dr_iova x) (dr_length x)"
    using check_iova_covers [OF y(1)] assms by (simp add: dma_range_ok_def dma_end_def)
  moreover have "dr_iova x \<noteq> dr_iova y" using disjoint_neq y assms by blast
  ultimately show ?case
    using Node by (auto simp: dma_inv_Node)
qed

text \<open>The descent of the search is the descent of the insertion.\<close>

lemma link_found:
  "dma_region_search t (dr_iova x) (dr_length x) \<noteq> None \<Longrightarrow> dma_region_link x t = None"
  by (induction t) (auto split: if_splits)

lemma link_inv:
  assumes "dma_region_link x t = Some t'" and "dma_inv t" and "dma_range_ok x"
    and "\<forall>y \<in> set (inorder t). dma_disjoint x y"
  shows "dma_inv t' \<and> set (inorder t') = insert x (set (inorder t))"
proof -
  obtain xs ys where i: "inorder t = xs @ ys" "inorder t' = xs @ x # ys"
      "\<forall>a \<in> set xs. dr_iova a < dr_iova x" "\<forall>b \<in> set ys. dr_iova x < dr_iova b"
    using link_inorder [OF assms(1) dma_inv_sorted [OF assms(2)]] by blast
  have ok: "\<forall>a \<in> set (xs @ ys). dma_range_ok a"
    using assms(2) i(1) by (auto simp: dma_inv_def)
  have bx: "dma_before a x" if "a \<in> set xs" for a
  proof -
    have "dma_disjoint x a" "dr_iova a < dr_iova x" using that i assms(4) by auto
    then show ?thesis
      using dma_before_less [of x a] assms(3) by (auto simp: dma_disjoint_def dest: less_asym)
  qed
  have xb: "dma_before x b" if "b \<in> set ys" for b
  proof -
    have "dma_disjoint x b" "dr_iova x < dr_iova b" using that i assms(4) by auto
    then show ?thesis
      using dma_before_less [of b x] ok that by (auto simp: dma_disjoint_def dest: less_asym)
  qed
  have "sorted_wrt dma_before (xs @ ys)"
    using assms(2) i(1) by (simp add: dma_inv_def)
  then have "sorted_wrt dma_before (xs @ x # ys)"
    using bx xb by (auto simp: sorted_wrt_append)
  then show ?thesis
    using ok assms(3) i by (auto simp: dma_inv_def)
qed

subsection \<open>Find, add and remove\<close>

definition dma_regions_of :: "afu_pdata \<Rightarrow> fpga_afu_dma_region set" where
  "dma_regions_of pd = set (inorder (afu_dma_regions (the_afu pd)))"

definition afu_dma_inv :: "afu_pdata \<Rightarrow> bool" where
  "afu_dma_inv pd \<longleftrightarrow> dma_inv (afu_dma_regions (the_afu pd))"

lemma rb_color_inorder: "rbtree_laws rb \<Longrightarrow> inorder (rb_insert_color rb t) = inorder t"
  by (simp add: rbtree_laws_def)

lemma rb_color_set: "rbtree_laws rb \<Longrightarrow> set_tree (rb_insert_color rb t) = set_tree t"
  by (metis rb_color_inorder set_inorder)

lemma dma_inv_inorder: "inorder t = inorder t' \<Longrightarrow> dma_inv t = dma_inv t'"
  by (simp add: dma_inv_def)

lemma dma_inv_distinct:
  assumes "dma_inv t"
  shows "distinct (inorder t)"
proof -
  have "sorted_wrt (<) (map dr_iova (inorder t))"
    using dma_inv_sorted [OF assms] by (simp add: sorted_wrt_map)
  then have "distinct (map dr_iova (inorder t))"
    by (simp add: strict_sorted_iff)
  then show ?thesis by (rule distinct_map [THEN iffD1, THEN conjunct1])
qed

lemma rb_erase_inorder:
  assumes "rbtree_laws rb" and "dma_inv t" and "r \<in> set (inorder t)"
  shows "\<exists>xs ys. inorder t = xs @ r # ys \<and> inorder (rb_erase rb r t) = xs @ ys \<and>
    r \<notin> set xs \<and> r \<notin> set ys"
proof -
  obtain xs ys where "inorder t = xs @ r # ys" using assms(3) by (meson split_list)
  moreover from this have "r \<notin> set xs" "r \<notin> set ys"
    using dma_inv_distinct [OF assms(2)] by auto
  ultimately show ?thesis using assms(1) unfolding rbtree_laws_def by blast
qed

lemma dma_erase:
  assumes "rbtree_laws rb" and "dma_inv t" and "r \<in> set (inorder t)"
  shows "dma_inv (rb_erase rb r t) \<and> set (inorder (rb_erase rb r t)) = set (inorder t) - {r}"
proof -
  obtain xs ys where e: "inorder t = xs @ r # ys" "inorder (rb_erase rb r t) = xs @ ys"
    "r \<notin> set xs" "r \<notin> set ys"
    using rb_erase_inorder [OF assms] by blast
  then show ?thesis
    using assms(2) by (auto simp: dma_inv_def sorted_wrt_append)
qed

lemma dma_add_spec:
  assumes "rbtree_laws rb" and "afu_dma_inv pd" and "dma_range_ok x"
    and "\<forall>y \<in> dma_regions_of pd. dma_disjoint x y"
  shows "\<exists>pd'. afu_dma_region_add rb pd x = (Inr (), pd') \<and> afu_dma_inv pd' \<and>
    dma_regions_of pd' = insert x (dma_regions_of pd)"
proof -
  let ?t = "afu_dma_regions (the_afu pd)"
  obtain t' where t': "dma_region_link x ?t = Some t'"
    using link_disjoint [OF assms(3)] assms(2,4) unfolding afu_dma_inv_def dma_regions_of_def by blast
  have "dma_inv t' \<and> set (inorder t') = insert x (set (inorder ?t))"
    using link_inv [OF t'] assms(2-4) unfolding afu_dma_inv_def dma_regions_of_def by blast
  then show ?thesis
    using t' rb_color_set [OF assms(1), of t'] rb_color_inorder [OF assms(1), of t'] dma_inv_inorder [of t' "rb_insert_color rb t'"]
    by (simp add: afu_dma_region_add_def Let_def afu_dma_inv_def dma_regions_of_def)
qed

lemma dma_find_spec:
  assumes "afu_dma_inv pd" and "unat iova + unat sz < 2 ^ 64"
  shows "afu_dma_region_find pd iova sz = Some r \<longleftrightarrow>
    r \<in> dma_regions_of pd \<and> dma_covers r iova sz"
  using search_covers [OF assms(2)] assms(1)
  by (simp add: afu_dma_region_find_def afu_dma_inv_def dma_regions_of_def)

text \<open>
  C16. As long as the regions in the tree are disjoint, \<^verbatim>\<open>afu_dma_region_find\<close> returns exactly what
  its comment says: with size 0 the region that starts at the bus address, otherwise the region
  that contains the whole range.
\<close>

theorem dma_region_find_exact:
  assumes "afu_dma_inv pd" and "unat iova + unat sz < 2 ^ 64"
  shows "afu_dma_region_find pd iova sz = Some r \<longleftrightarrow>
    r \<in> dma_regions_of pd \<and>
    (if sz = 0 then dr_iova r = iova
     else unat (dr_iova r) \<le> unat iova \<and>
       unat iova + unat sz \<le> unat (dr_iova r) + unat (dr_length r))"
  using dma_find_spec [OF assms] by (simp add: dma_covers_def dma_end_def)

text \<open>
  C34. A region disjoint from those in the tree is always added, and a region inside one of them
  is refused with \<^verbatim>\<open>-EEXIST\<close> and changes nothing; after an accepted add the tree holds one region
  more and its regions are still disjoint and in order.
\<close>

theorem dma_region_add_spec:
  assumes "rbtree_laws rb" and "afu_dma_inv pd" and "dma_range_ok x"
    and "\<forall>y \<in> dma_regions_of pd. dma_disjoint x y \<or> dma_covers y (dr_iova x) (dr_length x)"
  shows "if \<exists>y \<in> dma_regions_of pd. dma_covers y (dr_iova x) (dr_length x)
    then afu_dma_region_add rb pd x = (Inl EEXIST, pd)
    else \<exists>pd'. afu_dma_region_add rb pd x = (Inr (), pd') \<and> afu_dma_inv pd' \<and>
      dma_regions_of pd' = insert x (dma_regions_of pd)"
proof (cases "\<exists>y \<in> dma_regions_of pd. dma_covers y (dr_iova x) (dr_length x)")
  case True
  then obtain y where "afu_dma_region_find pd (dr_iova x) (dr_length x) = Some y"
    using dma_find_spec [OF assms(2), of "dr_iova x" "dr_length x"] assms(3)
    unfolding dma_range_ok_def dma_end_def by blast
  then have "dma_region_link x (afu_dma_regions (the_afu pd)) = None"
    by (intro link_found) (simp add: afu_dma_region_find_def)
  with True show ?thesis by (simp add: afu_dma_region_add_def Let_def)
next
  case False
  then have "\<forall>y \<in> dma_regions_of pd. dma_disjoint x y" using assms(4) by blast
  with False dma_add_spec [OF assms(1-3)] show ?thesis by simp
qed

subsection \<open>The account of resources\<close>

text \<open>
  A mapped region holds its own memory, the memory of its array of pages, the pages and the DMA
  mapping. \<open>pages_hold\<close> is the part that pinning takes.
\<close>

definition pages_hold :: "resource \<Rightarrow> fpga_afu_dma_region \<Rightarrow> int" where
  "pages_hold q r =
     (case dr_pages r of
        None \<Rightarrow> 0
      | Some (arr, ps) \<Rightarrow> of_bool (q = RMem arr) +
          (\<Sum>p\<leftarrow>ps. case p of None \<Rightarrow> 0 | Some i \<Rightarrow> of_bool (q = RPage i)))"

definition dma_hold :: "resource \<Rightarrow> fpga_afu_dma_region \<Rightarrow> int" where
  "dma_hold q r = of_bool (q = RMem (dr_self r)) + of_bool (q = RDma (uint (dr_iova r))) + pages_hold q r"

definition regions_hold :: "resource \<Rightarrow> afu_pdata \<Rightarrow> int" where
  "regions_hold q pd = (\<Sum>r\<leftarrow>inorder (afu_dma_regions (the_afu pd)). dma_hold q r)"

text \<open>The number of pages of a region, where it is the \<^verbatim>\<open>int\<close> the kernel functions take.\<close>

definition npages_of :: "u64 \<Rightarrow> nat" where
  "npages_of len = unat len div 4096"

definition small_len :: "u64 \<Rightarrow> bool" where
  "small_len len \<longleftrightarrow> unat len < 2 ^ 43"

lemma npages_word:
  "unat (drop_bit PAGE_SHIFT len) = npages_of len"
  unfolding unat_drop_bit_eq by (simp add: PAGE_SHIFT_def npages_of_def drop_bit_eq_div)

lemma npages_int:
  assumes "small_len len"
  shows "sint (ucast (drop_bit PAGE_SHIFT len) :: u32) = int (npages_of len)"
    and "uint (drop_bit PAGE_SHIFT len) = int (npages_of len)"
proof -
  have lt: "npages_of len < 2 ^ 31"
    using assms unfolding small_len_def npages_of_def by (simp add: less_mult_imp_div_less)
  show u: "uint (drop_bit PAGE_SHIFT len) = int (npages_of len)"
    by (metis npages_word uint_nat)
  have "uint (ucast (drop_bit PAGE_SHIFT len) :: u32) = int (npages_of len)"
    using lt by (simp only: unsigned_ucast_eq u) (simp add: take_bit_int_eq_self)
  moreover have "signed_take_bit 31 (int (npages_of len)) = int (npages_of len)"
    using lt by (intro signed_take_bit_int_eq_self) simp_all
  ultimately show "sint (ucast (drop_bit PAGE_SHIFT len) :: u32) = int (npages_of len)"
    by (simp add: sint_uint)
qed

text \<open>
  \<^verbatim>\<open>get_user_pages_fast\<close> may pin fewer pages than asked for. The driver then fails without putting
  them, so that the pages of such a call stay pinned: \<open>short_pins\<close> counts them in a trace.
\<close>

definition short_pin :: "event \<Rightarrow> resource \<Rightarrow> int" where
  "short_pin e q =
     (case e of
        Call f xs (Inr vs) \<Rightarrow>
          if f = Get_user_pages_fast \<and> int (length vs) \<noteq> xs ! 1 then (\<Sum>i\<leftarrow>vs. of_bool (q = RPage i)) else 0
      | _ \<Rightarrow> 0)"

definition short_pins :: "event list \<Rightarrow> resource \<Rightarrow> int" where
  "short_pins tr q = (\<Sum>e\<leftarrow>tr. short_pin e q)"

lemma short_pins_simps [simp]:
  "short_pins [] q = 0"
  "short_pins (e # tr) q = short_pin e q + short_pins tr q"
  "f \<noteq> Get_user_pages_fast \<Longrightarrow> short_pin (Call f xs r) q = 0"
  "short_pin (Call f xs (Inl err)) q = 0"
  by (simp_all add: short_pins_def short_pin_def split: sum.split)

text \<open>A bus address is a 64-bit number.\<close>

definition dma_addrs :: "world \<Rightarrow> bool" where
  "dma_addrs w \<longleftrightarrow> (\<forall>tr xs v. w_kcall w tr Dma_map_page xs = Inr v \<longrightarrow>
     0 \<le> ret_val v \<and> ret_val v < 2 ^ 64)"

definition pinned :: "fpga_afu_dma_region \<Rightarrow> bool" where
  "pinned r \<longleftrightarrow> small_len (dr_length r) \<and>
     (\<exists>arr vs. dr_pages r = Some (arr, map Some vs) \<and> length vs = npages_of (dr_length r))"

lemma put_pages_spec:
  "w_kcall (put_pages ps w) = w_kcall w \<and>
   balance (w_trace (put_pages ps w)) q = balance (w_trace w) q -
     (\<Sum>p\<leftarrow>ps. case p of None \<Rightarrow> 0 | Some i \<Rightarrow> of_bool (q = RPage i)) \<and>
   short_pins (w_trace (put_pages ps w)) q = short_pins (w_trace w) q"
  by (induction ps w rule: put_pages.induct) (auto simp: kvoid_def ret_val_def)

lemma unpin_spec:
  assumes "afu_dma_unpin_pages r tk w = (tk', w')" and "pinned r"
  shows "w_kcall w' = w_kcall w \<and>
    balance (w_trace w') q = balance (w_trace w) q - pages_hold q r \<and>
    short_pins (w_trace w') q = short_pins (w_trace w) q"
proof -
  obtain arr vs where p: "dr_pages r = Some (arr, map Some vs)" "length vs = npages_of (dr_length r)"
    and sm: "small_len (dr_length r)"
    using assms(2) by (auto simp: pinned_def)
  have w': "w' = kvoid Kfree [arr] (put_pages (map Some vs) w)"
    using assms(1) p npages_int(1) [OF sm]
    by (simp add: afu_dma_unpin_pages_def put_all_pages_def Let_def)
  show ?thesis
    using put_pages_spec [of "map Some vs" w q] p
    by (auto simp: w' kvoid_def ret_val_def pages_hold_def)
qed

lemma kvalue_balance:
  assumes "kvalue f xs w = (r, w')"
  shows "w_kcall w' = w_kcall w \<and> (\<exists>a. w' = emit (Call f xs a) w \<and>
    (case r of Inl e \<Rightarrow> a = Inl e | Inr v \<Rightarrow> \<exists>vs. a = Inr vs \<and> v = ret_val vs \<and>
       w_kcall w (w_trace w) f xs = a))"
  using assms by (auto simp: kvalue_def kcall_def Let_def split: sum.splits)

lemma count_RPage:
  "int (count (image_mset RPage (mset vs)) q) = (\<Sum>i\<leftarrow>vs. of_bool (q = RPage i))"
  by (induction vs) auto

lemma pin_spec:
  assumes "afu_dma_pin_pages r tk w = (res, r', tk', w')" and "dr_pages r = None"
    and "small_len (dr_length r)"
  shows "w_kcall w' = w_kcall w \<and>
    (case res of
       Inl e \<Rightarrow> balance (w_trace w') q - short_pins (w_trace w') q =
         balance (w_trace w) q - short_pins (w_trace w) q
     | Inr _ \<Rightarrow> r' = r\<lparr>dr_pages := dr_pages r'\<rparr> \<and> pinned r' \<and>
         balance (w_trace w') q = balance (w_trace w) q + pages_hold q r' \<and>
         short_pins (w_trace w') q = short_pins (w_trace w) q)"
proof -
  let ?n = "drop_bit PAGE_SHIFT (dr_length r)"
  note n = npages_int [OF assms(3)]
  obtain r1 tk1 where adj: "afu_dma_adjust_locked_vm ?n True tk = (r1, tk1)" by (metis surj_pair)
  show ?thesis
  proof (cases r1)
    case (Inl e)
    with adj assms(1) show ?thesis by (auto simp: afu_dma_pin_pages_def)
  next
    case r1: (Inr u)
    obtain r2 w1 where k: "kvalue Kcalloc [uint ?n] w = (r2, w1)" by (metis surj_pair)
    show ?thesis
    proof (cases r2)
      case (Inl e)
      with adj r1 k assms(1,2) kvalue_balance [OF k] show ?thesis
        by (auto simp: afu_dma_pin_pages_def Let_def pages_hold_def)
    next
      case r2: (Inr arr)
      obtain r3 w2 where g: "kcall Get_user_pages_fast [uint (dr_user_addr r), int (npages_of (dr_length r))] w1 = (r3, w2)"
        by (metis surj_pair)
      let ?m = "int (npages_of (dr_length r))"
      have w1: "w_kcall w1 = w_kcall w" "short_pins (w_trace w1) q = short_pins (w_trace w) q"
        "balance (w_trace w1) q = balance (w_trace w) q + of_bool (q = RMem arr)"
        using kvalue_balance [OF k] r2 by auto
      have w2: "w_kcall w2 = w_kcall w1" "balance (w_trace w2) q = balance (w_trace w1) q +
          (case r3 of Inl _ \<Rightarrow> 0 | Inr vs \<Rightarrow> int (count (mset (map RPage vs)) q))"
        "short_pins (w_trace w2) q = short_pins (w_trace w1) q +
          (case r3 of Inl _ \<Rightarrow> 0 | Inr vs \<Rightarrow>
             if int (length vs) \<noteq> ?m then int (count (mset (map RPage vs)) q) else 0)"
        using g by (auto simp: kcall_def Let_def short_pin_def count_RPage comp_def split: sum.splits)
      show ?thesis
      proof (cases r3)
        case (Inl e)
        with adj r1 k r2 g assms(1) n w1 w2 show ?thesis
          by (auto simp: afu_dma_pin_pages_def Let_def put_all_pages_def kvoid_def ret_val_def)
      next
        case r3: (Inr vs)
        with adj r1 k r2 g assms(1,3) n w1 w2 show ?thesis
          by (cases "int (length vs) = ?m")
            (auto simp: afu_dma_pin_pages_def Let_def pinned_def pages_hold_def comp_def
              count_RPage kvoid_def ret_val_def)
      qed
    qed
  qed
qed

lemma link_mset:
  "dma_region_link x t = Some t' \<Longrightarrow> mset (inorder t') = add_mset x (mset (inorder t))"
  by (induction t arbitrary: t') (auto split: if_splits)

lemma add_hold:
  assumes "rbtree_laws rb" and "afu_dma_region_add rb pd x = (r, pd')"
  shows "regions_hold q pd' = regions_hold q pd + (if r = Inr () then dma_hold q x else 0)
    \<and> (r \<noteq> Inr () \<longrightarrow> pd' = pd)
    \<and> dma_regions_of pd' \<subseteq> insert x (dma_regions_of pd)"
proof (cases "dma_region_link x (afu_dma_regions (the_afu pd))")
  case None
  with assms(2) show ?thesis by (auto simp: afu_dma_region_add_def Let_def)
next
  case (Some t)
  have m: "mset (inorder t) = add_mset x (mset (inorder (afu_dma_regions (the_afu pd))))"
    by (rule link_mset [OF Some])
  have sum: "(\<Sum>r\<leftarrow>xs. dma_hold q r) = (\<Sum>r\<in>#mset xs. dma_hold q r)" for xs
    by (metis mset_map sum_mset_sum_list)
  have "set_mset (mset (inorder t)) = insert x (set_mset (mset (inorder (afu_dma_regions (the_afu pd)))))"
    unfolding m by simp
  then have "set_tree t = insert x (set_tree (afu_dma_regions (the_afu pd)))" by simp
  moreover have "r = Inr ()" "pd' = set_afu ((the_afu pd)\<lparr>afu_dma_regions := rb_insert_color rb t\<rparr>) pd"
    using assms(2) Some by (simp_all add: afu_dma_region_add_def Let_def)
  ultimately show ?thesis
    using rb_color_inorder [OF assms(1), of t] rb_color_set [OF assms(1), of t] m
    by (simp add: regions_hold_def dma_regions_of_def sum)
qed

lemma kvoid_kcall [simp]: "w_kcall (kvoid f xs w) = w_kcall w"
  by (simp add: kvoid_def)

lemma kvoid_balance:
  "balance (w_trace (kvoid f xs w)) q = balance (w_trace w) q +
     int (count (acquired (Call f xs (Inr []))) q) - int (count (released (Call f xs (Inr []))) q)"
  by (simp add: kvoid_def)

lemma kvoid_short_pins [simp]:
  "f \<noteq> Get_user_pages_fast \<Longrightarrow> short_pins (w_trace (kvoid f xs w)) q = short_pins (w_trace w) q"
  by (simp add: kvoid_def)

text \<open>The account of one whole call to map a region.\<close>

definition regions_pinned :: "afu_pdata \<Rightarrow> bool" where
  "regions_pinned pd \<longleftrightarrow> (\<forall>r \<in> dma_regions_of pd. pinned r)"

lemma map_pinned_account:
  assumes "dma_map_pinned rb pd reg tk w = (r, pd', tk', w')"
    and "rbtree_laws rb" and "pinned reg" and "dma_addrs w"
  shows "balance (w_trace w') q - regions_hold q pd' = balance (w_trace w) q - regions_hold q pd
      - of_bool (q = RMem (dr_self reg)) - pages_hold q reg
    \<and> short_pins (w_trace w') q = short_pins (w_trace w) q \<and> ((\<exists>e. r = Inl e) \<longrightarrow> pd' = pd) \<and> (regions_pinned pd \<longrightarrow> regions_pinned pd')"
proof (cases "afu_dma_check_continuous_pages reg")
  case False
  obtain tk1 w1 where u: "afu_dma_unpin_pages reg tk w = (tk1, w1)" by (metis surj_pair)
  with False assms(1) unpin_spec [OF u assms(3), of q] show ?thesis
    by (auto simp: dma_map_pinned_def kvoid_balance ret_val_def)
next
  case True
  obtain r1 w1 where k: "kvalue Dma_map_page [uint (dr_length reg)] w = (r1, w1)"
    by (metis surj_pair)
  note b = kvalue_balance [OF k]
  show ?thesis
  proof (cases r1)
    case (Inl e)
    obtain tk1 w2 where u: "afu_dma_unpin_pages reg tk w1 = (tk1, w2)" by (metis surj_pair)
    with Inl True assms(1) k b unpin_spec [OF u assms(3), of q] show ?thesis
      by (auto simp: dma_map_pinned_def kvoid_balance ret_val_def)
  next
    case (Inr addr)
    let ?reg = "reg\<lparr>dr_iova := word_of_int addr\<rparr>"
    have "0 \<le> addr \<and> addr < 2 ^ 64"
      using b Inr assms(4) unfolding dma_addrs_def by auto
    then have addr: "uint (word_of_int addr :: u64) = addr"
      by (simp add: uint_word_of_int_eq take_bit_int_eq_self)
    have ok: "pinned ?reg" "pages_hold q ?reg = pages_hold q reg"
      "dma_hold q ?reg = of_bool (q = RMem (dr_self reg)) + of_bool (q = RDma addr) + pages_hold q reg"
      using assms(3) addr by (auto simp: pinned_def pages_hold_def dma_hold_def)
    have w1: "balance (w_trace w1) q = balance (w_trace w) q + of_bool (q = RDma addr)"
      "short_pins (w_trace w1) q = short_pins (w_trace w) q"
      using b Inr by auto
    obtain r2 pd1 where a: "afu_dma_region_add rb pd ?reg = (r2, pd1)" by (metis surj_pair)
    note add = add_hold [OF assms(2) a, of q]
    have pn: "regions_pinned pd \<longrightarrow> regions_pinned pd1"
      using add ok(1) by (auto simp: regions_pinned_def)
    show ?thesis
    proof (cases r2)
      case (Inr u)
      with \<open>r1 = Inr addr\<close> True assms(1) k a have "r = Inr (word_of_int addr)" "pd' = pd1" "w' = w1"
        by (auto simp: dma_map_pinned_def Let_def)
      with add ok w1 pn Inr show ?thesis by auto
    next
      case (Inl e)
      obtain tk1 w2 where u: "afu_dma_unpin_pages ?reg tk
          (kvoid Dma_unmap_page [uint (dr_iova ?reg), uint (dr_length ?reg)] w1) = (tk1, w2)"
        by (metis surj_pair)
      with \<open>r1 = Inr addr\<close> Inl True assms(1) k a
      have "r = Inl e" "pd' = pd1" "w' = kvoid Kfree [dr_self reg] w2"
        by (auto simp: dma_map_pinned_def Let_def)
      with add ok w1 pn Inl unpin_spec [OF u ok(1), of q] addr show ?thesis
        by (auto simp: kvoid_balance ret_val_def)
    qed
  qed
qed

text \<open>The account of one whole call to map a region.\<close>

lemma map_account:
  assumes "afu_dma_map_region rb pd ua len tk w = (r, pd', tk', w')"
    and "rbtree_laws rb" and "dma_addrs w" and "small_len len"
  shows "balance (w_trace w') q - short_pins (w_trace w') q - regions_hold q pd' =
      balance (w_trace w) q - short_pins (w_trace w) q - regions_hold q pd
    \<and> ((\<exists>e. r = Inl e) \<longrightarrow> pd' = pd) \<and> (regions_pinned pd \<longrightarrow> regions_pinned pd')"
proof (cases "\<not> PAGE_ALIGNED ua \<or> \<not> PAGE_ALIGNED len \<or> len = 0 \<or> ua + len < ua")
  case True
  with assms(1) show ?thesis by (auto simp: afu_dma_map_region_def split: if_splits)
next
  case args: False
  obtain r1 w1 where k1: "kstatus Access_ok [uint ua, uint len] w = (r1, w1)" by (metis surj_pair)
  have b1: "w_kcall w1 = w_kcall w" "balance (w_trace w1) q = balance (w_trace w) q"
    "short_pins (w_trace w1) q = short_pins (w_trace w) q"
    using k1 by (auto simp: kstatus_def kcall_def Let_def split: sum.splits)
  obtain r2 w2 where k2: "kvalue Kzalloc [] w1 = (r2, w2)" by (metis surj_pair)
  note b2 = kvalue_balance [OF k2]
  show ?thesis
  proof (cases "(\<exists>e. r1 = Inl e) \<or> (\<exists>e. r2 = Inl e)")
    case True
    with args assms(1) k1 k2 b1 b2 show ?thesis
      by (cases r1; cases r2) (auto simp: afu_dma_map_region_def)
  next
    case False
    then obtain self where r1: "r1 = Inr ()" and r2: "r2 = Inr self"
      by (cases r1; cases r2) auto
    define r0 where "r0 = \<lparr>dr_self = self, dr_user_addr = ua, dr_length = len, dr_iova = 0,
      dr_pages = None, dr_in_use = False\<rparr>"
    obtain r3 reg tk1 w3 where p: "afu_dma_pin_pages r0 tk w2 = (r3, reg, tk1, w3)"
      by (metis surj_pair)
    have b2': "w_kcall w2 = w_kcall w"
      "balance (w_trace w2) q = balance (w_trace w) q + of_bool (q = RMem self)"
      "short_pins (w_trace w2) q = short_pins (w_trace w) q"
      using b1 b2 r2 by auto
    have pre: "dr_pages r0 = None" "small_len (dr_length r0)"
      using assms(4) by (simp_all add: r0_def)
    note pin = pin_spec [OF p pre, of q]
    have run: "afu_dma_map_region rb pd ua len tk w = (case r3 of
        Inl e \<Rightarrow> (Inl e, pd, tk1, kvoid Kfree [self] w3) | Inr _ \<Rightarrow> dma_map_pinned rb pd reg tk1 w3)"
      using args k1 k2 r1 r2 p by (auto simp: afu_dma_map_region_def r0_def split: sum.split)
    show ?thesis
    proof (cases r3)
      case (Inl e)
      with run assms(1) pin b2' show ?thesis by (auto simp: kvoid_balance ret_val_def)
    next
      case (Inr u)
      then have reg: "reg = r0\<lparr>dr_pages := dr_pages reg\<rparr>" "pinned reg"
        "balance (w_trace w3) q = balance (w_trace w2) q + pages_hold q reg"
        "short_pins (w_trace w3) q = short_pins (w_trace w2) q"
        using pin by auto
      have self: "dr_self reg = self" by (subst reg(1)) (simp add: r0_def)
      have "dma_addrs w3" using assms(3) pin b2' by (simp add: dma_addrs_def)
      from map_pinned_account [OF _ assms(2) reg(2) this, of pd tk1 r pd' tk' w' q]
      show ?thesis using run Inr assms(1) reg(3,4) b2' self by auto
    qed
  qed
qed

lemma npages_uint: "uint (drop_bit PAGE_SHIFT len) = int (npages_of len)"
  by (metis npages_word uint_nat)

lemma dma_find_iova:
  assumes "afu_dma_inv pd"
  shows "afu_dma_region_find_iova pd iova = Some r \<longleftrightarrow> r \<in> dma_regions_of pd \<and> dr_iova r = iova"
  using dma_find_spec [OF assms, of iova 0 r] unat_u64_less [of iova]
  by (simp add: afu_dma_region_find_iova_def dma_covers_def)

lemma remove_spec:
  assumes "rbtree_laws rb" and "afu_dma_inv pd" and "r \<in> dma_regions_of pd"
  shows "afu_dma_inv (afu_dma_region_remove rb pd r) \<and>
    dma_regions_of (afu_dma_region_remove rb pd r) = dma_regions_of pd - {r} \<and>
    regions_hold q (afu_dma_region_remove rb pd r) = regions_hold q pd - dma_hold q r"
proof -
  let ?t = "afu_dma_regions (the_afu pd)"
  have pre: "dma_inv ?t" "r \<in> set (inorder ?t)"
    using assms(2,3) by (simp_all add: afu_dma_inv_def dma_regions_of_def)
  obtain xs ys where e: "inorder ?t = xs @ r # ys" "inorder (rb_erase rb r ?t) = xs @ ys"
    using rb_erase_inorder [OF assms(1) pre] by blast
  have "regions_hold q (afu_dma_region_remove rb pd r) = regions_hold q pd - dma_hold q r"
    using e by (simp add: regions_hold_def afu_dma_region_remove_def Let_def)
  moreover have "afu_dma_inv (afu_dma_region_remove rb pd r) \<and>
      set (inorder (rb_erase rb r ?t)) = set (inorder ?t) - {r}"
    using dma_erase [OF assms(1) pre] by (simp add: afu_dma_inv_def afu_dma_region_remove_def Let_def)
  ultimately show ?thesis
    by (simp add: dma_regions_of_def afu_dma_region_remove_def Let_def)
qed

lemma unmap_spec:
  assumes "afu_dma_unmap_region rb pd iova tk w = (r, pd', tk', w')"
    and "rbtree_laws rb" and "afu_dma_inv pd" and "regions_pinned pd"
  shows "case r of
      Inr _ \<Rightarrow> (\<exists>q \<in> dma_regions_of pd. dr_iova q = iova \<and> \<not> dr_in_use q \<and>
          dma_regions_of pd' = dma_regions_of pd - {q} \<and> afu_dma_inv pd' \<and>
          (\<forall>s. balance (w_trace w') s = balance (w_trace w) s - dma_hold s q) \<and>
          (\<forall>s. regions_hold s pd' = regions_hold s pd - dma_hold s q))
    | Inl e \<Rightarrow> pd' = pd \<and> w' = w \<and> tk' = tk \<and>
        (e = EINVAL \<and> (\<forall>q \<in> dma_regions_of pd. dr_iova q \<noteq> iova) \<or>
         e = EBUSY \<and> (\<exists>q \<in> dma_regions_of pd. dr_iova q = iova \<and> dr_in_use q))"
proof (cases "afu_dma_region_find_iova pd iova")
  case None
  then have "\<forall>q \<in> dma_regions_of pd. dr_iova q \<noteq> iova"
    using dma_find_iova [OF assms(3)] by (metis option.distinct(1))
  with None assms(1) show ?thesis by (auto simp: afu_dma_unmap_region_def)
next
  case (Some q)
  then have q: "q \<in> dma_regions_of pd" "dr_iova q = iova"
    using dma_find_iova [OF assms(3)] by auto
  show ?thesis
  proof (cases "dr_in_use q")
    case True
    with Some q assms(1) show ?thesis by (auto simp: afu_dma_unmap_region_def)
  next
    case False
    let ?w1 = "kvoid Dma_unmap_page [uint (dr_iova q), uint (dr_length q)] w"
    obtain tk1 w2 where u: "afu_dma_unpin_pages q tk ?w1 = (tk1, w2)" by (metis surj_pair)
    have res: "r = Inr ()" "pd' = afu_dma_region_remove rb pd q" "w' = kvoid Kfree [dr_self q] w2"
      using Some False assms(1) u by (auto simp: afu_dma_unmap_region_def Let_def)
    have "pinned q" using q(1) assms(4) by (simp add: regions_pinned_def)
    then have "balance (w_trace w') s = balance (w_trace w) s - dma_hold s q" for s
      using unpin_spec [OF u, of s] by (auto simp: res(3) kvoid_balance ret_val_def dma_hold_def)
    with remove_spec [OF assms(2,3) q(1)] q False res show ?thesis by auto
  qed
qed

text \<open>The region at bus address 0, of which there is one at most.\<close>

definition mapped_at_0 :: "afu_pdata \<Rightarrow> bool" where
  "mapped_at_0 pd \<longleftrightarrow> (\<exists>r \<in> dma_regions_of pd. dr_iova r = 0)"

lemma destroy_account:
  "destroy_dma_regions rb rs pd tk w = (pd', tk', w') \<Longrightarrow> rbtree_laws rb \<Longrightarrow> afu_dma_inv pd \<Longrightarrow>
   regions_pinned pd \<Longrightarrow> inorder (afu_dma_regions (the_afu pd)) = rs \<Longrightarrow>
   balance (w_trace w') q = balance (w_trace w) q - regions_hold q pd +
     of_bool (q = RDma 0 \<and> mapped_at_0 pd) \<and> dma_regions_of pd' = {}"
proof (induction rs arbitrary: pd tk w)
  case Nil
  then show ?case by (auto simp: regions_hold_def dma_regions_of_def mapped_at_0_def simp flip: set_inorder)
next
  case (Cons r rs)
  let ?w1 = "if dr_iova r \<noteq> 0 then kvoid Dma_unmap_page [uint (dr_iova r), uint (dr_length r)] w else w"
  let ?pd1 = "afu_dma_region_remove rb pd r"
  have r: "r \<in> dma_regions_of pd" using Cons.prems(5) by (metis dma_regions_of_def list.set_intros(1))
  then have pin: "pinned r" using Cons.prems(4) by (simp add: regions_pinned_def)
  then have pages: "dr_pages r \<noteq> None" by (auto simp: pinned_def)
  obtain tk1 w2 where u: "afu_dma_unpin_pages r tk ?w1 = (tk1, w2)" by (metis surj_pair)
  have rest: "destroy_dma_regions rb rs ?pd1 tk1 (kvoid Kfree [dr_self r] w2) = (pd', tk', w')"
    using Cons.prems(1) u pages by (simp add: Let_def)
  note rem = remove_spec [OF Cons.prems(2,3) r]
  have "inorder (afu_dma_regions (the_afu ?pd1)) = rs"
  proof -
    have "dma_inv (afu_dma_regions (the_afu pd))" using Cons.prems(3) by (simp add: afu_dma_inv_def)
    then obtain xs ys where "r # rs = xs @ r # ys" "r \<notin> set xs"
        "inorder (rb_erase rb r (afu_dma_regions (the_afu pd))) = xs @ ys"
      using rb_erase_inorder [OF Cons.prems(2), of "afu_dma_regions (the_afu pd)" r] r Cons.prems(5)
      unfolding dma_regions_of_def by metis
    then show ?thesis
      by (cases xs) (auto simp: afu_dma_region_remove_def Let_def)
  qed
  moreover have "regions_pinned ?pd1"
    using Cons.prems(4) rem by (auto simp: regions_pinned_def)
  ultimately have IH: "balance (w_trace w') q = balance (w_trace (kvoid Kfree [dr_self r] w2)) q -
      regions_hold q ?pd1 + of_bool (q = RDma 0 \<and> mapped_at_0 ?pd1) \<and> dma_regions_of pd' = {}"
    using Cons.IH [OF rest Cons.prems(2)] rem by simp
  have one: "dr_iova s \<noteq> 0" if "dr_iova r = 0" "s \<in> dma_regions_of ?pd1" for s
  proof -
    have "sorted_wrt dma_before (r # rs)" "dma_range_ok r"
      using Cons.prems(3,5) r by (auto simp: afu_dma_inv_def dma_inv_def dma_regions_of_def)
    moreover have "s \<in> set rs"
      using that(2) rem Cons.prems(5) by (auto simp: dma_regions_of_def simp flip: set_inorder)
    ultimately have "dma_end r \<le> unat (dr_iova s)" "dr_length r \<noteq> 0" by (auto simp: dma_before_def dma_range_ok_def)
    then have "0 < unat (dr_length r)" "unat (dr_length r) \<le> unat (dr_iova s)"
      by (simp_all add: unat_gt_0 dma_end_def)
    then show ?thesis by auto
  qed
  have at_0: "mapped_at_0 pd \<longleftrightarrow> dr_iova r = 0 \<or> mapped_at_0 ?pd1"
    using r rem by (auto simp: mapped_at_0_def)
  have "balance (w_trace (kvoid Kfree [dr_self r] w2)) q = balance (w_trace w) q - dma_hold q r +
      of_bool (q = RDma 0 \<and> dr_iova r = 0)"
    using unpin_spec [OF u pin, of q] by (auto simp: kvoid_balance ret_val_def dma_hold_def)
  moreover have "regions_hold q ?pd1 = regions_hold q pd - dma_hold q r" using rem by blast
  moreover have "\<not> (dr_iova r = 0 \<and> mapped_at_0 ?pd1)" using one by (auto simp: mapped_at_0_def)
  ultimately show ?case using IH at_0 by (cases "dr_iova r = 0") simp_all
qed

subsection \<open>The properties\<close>

text \<open>
  C15. Mapping a DMA region of less than 8 TB, whatever fails in it, keeps the account of resources:
  the pages, the DMA mapping and the memory taken and not given back are exactly those the regions in
  the tree hold, but for one path. When the kernel pins another number of pages than asked for, the
  pages that it pinned in that call, and nothing else, are lost. A failed call leaves the regions as
  they were.
\<close>

theorem dma_map_no_leak:
  assumes "afu_dma_map_region rb pd ua len tk w = (r, pd', tk', w')"
    and "rbtree_laws rb" and "dma_addrs w" and "unat len < 2 ^ 43"
  shows "balance (w_trace w') q - regions_hold q pd' = balance (w_trace w) q - regions_hold q pd
      + (short_pins (w_trace w') q - short_pins (w_trace w) q)
    \<and> ((\<exists>e. r = Inl e) \<longrightarrow> pd' = pd)"
  using map_account [OF assms(1-3), of q] assms(4) by (simp add: small_len_def)

text \<open>
  C35. Unmapping finds the region that starts at the bus address: it is refused while the region
  is in use and with \<^verbatim>\<open>-EINVAL\<close> when there is none, changing nothing; otherwise that region and
  no other leaves the tree and everything it held is given back.
\<close>

theorem dma_unmap_exact:
  assumes "afu_dma_unmap_region rb pd iova tk w = (r, pd', tk', w')"
    and "rbtree_laws rb" and "afu_dma_inv pd" and "regions_pinned pd"
  shows "case r of
      Inr _ \<Rightarrow> (\<exists>q \<in> dma_regions_of pd. dr_iova q = iova \<and> \<not> dr_in_use q \<and>
          dma_regions_of pd' = dma_regions_of pd - {q} \<and> afu_dma_inv pd' \<and>
          (\<forall>s. balance (w_trace w') s = balance (w_trace w) s - dma_hold s q) \<and>
          (\<forall>s. regions_hold s pd' = regions_hold s pd - dma_hold s q))
    | Inl e \<Rightarrow> pd' = pd \<and> w' = w \<and> tk' = tk \<and>
        (e = EINVAL \<and> (\<forall>q \<in> dma_regions_of pd. dr_iova q \<noteq> iova) \<or>
         e = EBUSY \<and> (\<exists>q \<in> dma_regions_of pd. dr_iova q = iova \<and> dr_in_use q))"
  using unmap_spec [OF assms] .

text \<open>
  C36. Destroying the regions of an accelerator, in order and pinned as mapping leaves them, empties
  the tree and gives back everything the regions held, except for one thing: the mapping of a region at bus address 0, which is a valid
  address to the kernel but not to the driver, stays.
\<close>

theorem dma_destroy_releases_all:
  assumes "afu_dma_region_destroy rb pd tk w = (pd', tk', w')"
    and "rbtree_laws rb" and "afu_dma_inv pd" and "regions_pinned pd"
  shows "balance (w_trace w') q = balance (w_trace w) q - regions_hold q pd +
      of_bool (q = RDma 0 \<and> (\<exists>r \<in> dma_regions_of pd. dr_iova r = 0)) \<and>
    dma_regions_of pd' = {}"
  using destroy_account [of rb _ pd tk w pd' tk' w' q] assms
  unfolding afu_dma_region_destroy_def mapped_at_0_def by simp

text \<open>
  When the kernel pins fewer pages than asked for, pinning fails with \<^verbatim>\<open>-EFAULT\<close> but puts none
  of the pages that were pinned: the label for that case skips the call that would.
\<close>

lemma short_pin_leaks:
  assumes "afu_dma_pin_pages r tk w = (res, r', tk', w')"
    and "\<forall>tr ua n. w_kcall w tr Get_user_pages_fast [ua, n] = Inr vs"
    and "length vs < npages_of (dr_length r)"
    and "\<forall>tr n. w_kcall w tr Kcalloc [n] = Inr [arr]"
    and "tk_locked_vm tk = None"
  shows "res = Inl EFAULT \<and>
    balance (w_trace w') (RPage p) = balance (w_trace w) (RPage p) + int (count (mset vs) p)"
proof -
  have "count (image_mset RPage (mset vs)) (RPage p) = count (mset vs) p"
    by (induction vs) auto
  with assms npages_uint [of "dr_length r"] show ?thesis
    by (auto simp: afu_dma_pin_pages_def afu_dma_adjust_locked_vm_def Let_def kvalue_def kcall_def
        kvoid_def)
qed

subsection \<open>Witnesses\<close>

text \<open>A kernel with plain search trees, in which every call succeeds.\<close>

fun bst_join :: "'a tree \<Rightarrow> 'a tree \<Rightarrow> 'a tree" where
  "bst_join Leaf t = t"
| "bst_join (Node l x r) t = Node l x (bst_join r t)"

fun bst_erase :: "'a \<Rightarrow> 'a tree \<Rightarrow> 'a tree" where
  "bst_erase r Leaf = Leaf"
| "bst_erase r (Node t x u) =
     (if x = r then bst_join (bst_erase r t) (bst_erase r u)
      else Node (bst_erase r t) x (bst_erase r u))"

definition bst_ops :: rbtree_ops where
  "bst_ops = \<lparr>rb_insert_color = (\<lambda>t. t), rb_erase = bst_erase\<rparr>"

lemma bst_join_inorder: "inorder (bst_join t u) = inorder t @ inorder u"
  by (induction t) auto

lemma bst_erase_inorder: "inorder (bst_erase r t) = filter (\<lambda>x. x \<noteq> r) (inorder t)"
  by (induction t) (auto simp: bst_join_inorder)

lemma filter_neq: "r \<notin> set xs \<Longrightarrow> filter (\<lambda>x. x \<noteq> r) xs = xs"
  by (induction xs) auto

lemma bst_laws: "rbtree_laws bst_ops"
  by (auto simp: rbtree_laws_def bst_ops_def bst_erase_inorder filter_neq)

definition dma_world :: world where
  "dma_world = (quiet_world (\<lambda>_. 0))
     \<lparr>w_kcall := (\<lambda>tr f xs.
        if f = Get_user_pages_fast then
          (if xs ! 1 < 0 then Inl EFAULT else Inr (map int [100..<100 + nat (xs ! 1)]))
        else if f = Dma_map_page then Inr [0x10000] else Inr [int (length tr) + 1])\<rparr>"

definition free_task :: task where
  "free_task = \<lparr>tk_locked_vm = None, tk_memlock = 0, tk_ipc_lock = False\<rparr>"

lemma dma_world_kernel: "dma_addrs dma_world"
  by (auto simp: dma_addrs_def dma_world_def ret_val_def split: if_splits)

definition one_region :: fpga_afu_dma_region where
  "one_region = \<lparr>dr_self = 2, dr_user_addr = 0x7000, dr_length = 0x1000, dr_iova = 0x10000,
     dr_pages = Some (3, [Some 100]), dr_in_use = False\<rparr>"

definition afu_dev_dma :: afu_pdata where
  "afu_dev_dma = set_afu (zero_afu\<lparr>afu_dma_regions := Node Leaf one_region Leaf\<rparr>) empty_pdata"

lemma afu_dev_dma_regions [simp]: "dma_regions_of afu_dev_dma = {one_region}"
  by (simp add: dma_regions_of_def afu_dev_dma_def)

lemma afu_dev_dma_inv [simp]: "afu_dma_inv afu_dev_dma" "regions_pinned afu_dev_dma"
  by (auto simp: afu_dma_inv_def dma_inv_def afu_dev_dma_def one_region_def dma_range_ok_def
      dma_end_def regions_pinned_def dma_regions_of_def pinned_def small_len_def npages_of_def
      intro!: exI [where x = "[100]"])

theorem dma_region_find_exact_witness:
  "afu_dma_region_find afu_dev_dma 0x10800 0x100 = Some one_region"
  by (subst dma_region_find_exact) (simp_all, simp add: one_region_def)

theorem dma_region_add_spec_witness:
  "\<exists>pd'. afu_dma_region_add bst_ops afu_dev_dma (one_region\<lparr>dr_iova := 0x20000\<rparr>) = (Inr (), pd') \<and>
     dma_regions_of pd' = {one_region\<lparr>dr_iova := 0x20000\<rparr>, one_region}"
  using dma_region_add_spec [OF bst_laws, of afu_dev_dma "one_region\<lparr>dr_iova := 0x20000\<rparr>"]
  by (simp add: dma_range_ok_def dma_end_def one_region_def dma_disjoint_def dma_before_def
      dma_covers_def) blast

text \<open>Mapping two pages of which the kernel pins one: page 100 is lost.\<close>

definition short_world :: world where
  "short_world = dma_world\<lparr>w_kcall := (\<lambda>tr f xs. Inr [100])\<rparr>"

theorem dma_map_no_leak_witness:
  "case afu_dma_map_region bst_ops afu_dev 0x7000 0x2000 free_task short_world of
     (r, pd', tk', w') \<Rightarrow> r = Inl EFAULT \<and> pd' = afu_dev \<and> balance (w_trace w') (RPage 100) = 1"
proof -
  obtain r pd' tk' w' where
    run: "afu_dma_map_region bst_ops afu_dev 0x7000 0x2000 free_task short_world = (r, pd', tk', w')"
    by (metis surj_pair)
  then have res: "r = Inl EFAULT" "short_pins (w_trace w') (RPage 100) = 1"
    by (auto simp: afu_dma_map_region_def afu_dma_pin_pages_def afu_dma_adjust_locked_vm_def free_task_def
        short_world_def dma_world_def quiet_world_def kstatus_def kvalue_def kcall_def kvoid_def Let_def ret_val_def
        PAGE_ALIGNED_def PAGE_SIZE_def PAGE_SHIFT_def short_pin_def split: prod.splits)
  have "dma_addrs short_world" by (simp add: dma_addrs_def short_world_def ret_val_def)
  note leak = dma_map_no_leak [OF run bst_laws this, of "RPage 100"]
  then have "pd' = afu_dev" using res(1) by simp
  moreover have "regions_hold (RPage 100) afu_dev = 0" by (simp add: regions_hold_def afu_dev_def zero_afu_def)
  moreover have "w_trace short_world = []" by (simp add: short_world_def dma_world_def quiet_world_def)
  ultimately show ?thesis using leak res unfolding run by auto
qed

theorem dma_unmap_exact_witness:
  "dma_regions_of (fst (snd (afu_dma_unmap_region bst_ops afu_dev_dma 0x10000 free_task dma_world))) = {}"
proof -
  obtain r pd' tk' w' where
    run: "afu_dma_unmap_region bst_ops afu_dev_dma 0x10000 free_task dma_world = (r, pd', tk', w')"
    by (metis surj_pair)
  from dma_unmap_exact [OF run bst_laws] run show ?thesis
    by (cases r) (auto simp: one_region_def)
qed

theorem dma_destroy_releases_all_witness:
  "balance (w_trace (snd (snd (afu_dma_region_destroy bst_ops afu_dev_dma free_task dma_world))))
     (RPage 100) = -1"
proof -
  obtain pd' tk' w' where
    run: "afu_dma_region_destroy bst_ops afu_dev_dma free_task dma_world = (pd', tk', w')"
    by (metis surj_pair)
  have "regions_hold (RPage 100) afu_dev_dma = 1"
    by (simp add: regions_hold_def afu_dev_dma_def dma_hold_def pages_hold_def one_region_def)
  with dma_destroy_releases_all [OF run bst_laws, of "RPage 100"] run show ?thesis
    by (simp add: dma_world_def quiet_world_def)
qed

lemma short_pin_leaks_example:
  "balance (w_trace (snd (snd (snd (afu_dma_pin_pages
      (one_region\<lparr>dr_length := 0x2000, dr_pages := None\<rparr>) free_task
      (dma_world\<lparr>w_kcall := (\<lambda>tr f xs. Inr [100])\<rparr>)))))) (RPage 100) = 1"
proof -
  let ?r = "one_region\<lparr>dr_length := 0x2000, dr_pages := None\<rparr>"
  let ?w = "dma_world\<lparr>w_kcall := (\<lambda>tr f xs. Inr [100])\<rparr>"
  obtain res r' tk' w' where
    run: "afu_dma_pin_pages ?r free_task ?w = (res, r', tk', w')"
    by (metis surj_pair)
  from short_pin_leaks [OF run, of "[100]" 100 100] run show ?thesis
    by (simp add: npages_of_def free_task_def dma_world_def quiet_world_def)
qed

end
