(* ===== verification/Afu_Umsg.thy ===== *)
theory Afu_Umsg
  imports Dma_Region
begin

text \<open>
  The UMsg engine of a port (\<^verbatim>\<open>drivers/fpga/intel/afu.c\<close>): user messages are written to a page
  aligned buffer inside a DMA region, whose bus address the driver programs into the hardware.
  A region that holds the buffer is marked in use, so that it cannot be unmapped.

  Setting the mark through the pointer returned by \<^verbatim>\<open>afu_dma_region_find\<close> changes that region in
  the tree. The structures of the ioctls come from \<^verbatim>\<open>include/uapi/linux/intel-fpga.h\<close>; what
  \<^verbatim>\<open>copy_from_user\<close> makes of the user's pointer is the argument, \<open>None\<close> if it fails.
\<close>

definition umsg_reg :: "afu_pdata \<Rightarrow> string \<Rightarrow> u64" where
  "umsg_reg pd reg =
     reg_addr feature_port_umsg reg (get_feature_ioaddr_by_index pd PORT_FEATURE_ID_UMSG)"

definition port_umsg_get_num :: "afu_pdata \<Rightarrow> world \<Rightarrow> u8 \<times> world" where
  "port_umsg_get_num pd w =
     (case readq (umsg_reg pd ''capability'') w of
        (csr, w1) \<Rightarrow> (ucast (get_field feature_port_umsg_cap ''umsg_allocated'' csr), w1))"

definition UMSG_EN_POLL_INVL :: nat where "UMSG_EN_POLL_INVL = 10"
definition UMSG_EN_POLL_TIMEOUT :: nat where "UMSG_EN_POLL_TIMEOUT = 1000"

definition port_umsg_enable :: "afu_pdata \<Rightarrow> bool \<Rightarrow> world \<Rightarrow> unit res \<times> world" where
  "port_umsg_enable pd en w =
     (case readq (umsg_reg pd ''capability'') w of
        (csr, w1) \<Rightarrow>
          let enabled = (get_field feature_port_umsg_cap ''umsg_enable'' csr \<noteq> 0) in
          if en \<and> enabled \<or> \<not> (en \<or> enabled) then (Inr (), w1)
          else
            (let csr1 = set_field feature_port_umsg_cap ''umsg_enable'' (of_bool en) csr;
                 w2 = writeq csr1 (umsg_reg pd ''capability'') w1;
                 csr2 = set_field feature_port_umsg_cap ''umsg_init_complete'' (of_bool en) csr1
             in (case fpga_wait_register_field feature_port_umsg_cap ''umsg_init_complete'' csr2
                        (umsg_reg pd ''capability'') UMSG_EN_POLL_TIMEOUT UMSG_EN_POLL_INVL w2 of
                   (Inl _, w3) \<Rightarrow> (Inl ETIMEDOUT, w3)
                 | (Inr _, w3) \<Rightarrow> (Inr (), w3))))"

definition port_umsg_is_enabled :: "afu_pdata \<Rightarrow> world \<Rightarrow> bool \<times> world" where
  "port_umsg_is_enabled pd w =
     (case readq (umsg_reg pd ''capability'') w of
        (csr, w1) \<Rightarrow> (get_field feature_port_umsg_cap ''umsg_enable'' csr \<noteq> 0, w1))"

definition port_umsg_set_mode :: "afu_pdata \<Rightarrow> u32 \<Rightarrow> world \<Rightarrow> world" where
  "port_umsg_set_mode pd mode w =
     (case readq (umsg_reg pd ''mode'') w of
        (csr, w1) \<Rightarrow>
          writeq (set_field feature_port_umsg_mode ''umsg_hint_enable'' (ucast mode) csr)
            (umsg_reg pd ''mode'') w1)"

definition port_umsg_get_addr :: "afu_pdata \<Rightarrow> world \<Rightarrow> u64 \<times> world" where
  "port_umsg_get_addr pd w =
     (case readq (umsg_reg pd ''baseaddr'') w of
        (csr, w1) \<Rightarrow> (get_field feature_port_umsg_baseaddr ''base_addr'' csr, w1))"

definition port_umsg_set_addr :: "afu_pdata \<Rightarrow> u64 \<Rightarrow> world \<Rightarrow> world" where
  "port_umsg_set_addr pd iova w =
     (case readq (umsg_reg pd ''baseaddr'') w of
        (csr, w1) \<Rightarrow>
          writeq (set_field feature_port_umsg_baseaddr ''base_addr'' iova csr)
            (umsg_reg pd ''baseaddr'') w1)"

definition afu_port_umsg_enable :: "afu_pdata \<Rightarrow> bool \<Rightarrow> world \<Rightarrow> unit res \<times> world" where
  "afu_port_umsg_enable pd en w =
     (if en then
        (case port_umsg_get_addr pd w of
           (a, w1) \<Rightarrow> if a = 0 then (Inl EIO, w1) else port_umsg_enable pd en w1)
      else port_umsg_enable pd en w)"

text \<open>\<open>dma_region->in_use = b\<close> for the region the search returned.\<close>

definition mark_in_use :: "bool \<Rightarrow> fpga_afu_dma_region \<Rightarrow> afu_pdata \<Rightarrow> afu_pdata" where
  "mark_in_use b region pd =
     (let afu = the_afu pd in
      set_afu (afu\<lparr>afu_dma_regions :=
        map_tree (\<lambda>r. if r = region then r\<lparr>dr_in_use := b\<rparr> else r) (afu_dma_regions afu)\<rparr>) pd)"

definition afu_port_umsg_set_addr ::
  "afu_pdata \<Rightarrow> u64 \<Rightarrow> world \<Rightarrow> unit res \<times> afu_pdata \<times> world" where
  "afu_port_umsg_set_addr pd iova w =
     (let sz = ucast (afu_num_umsgs (the_afu pd)) * PAGE_SIZE in
      case port_umsg_is_enabled pd w of
        (True, w1) \<Rightarrow> (Inl EIO, pd, w1)
      | (False, w1) \<Rightarrow>
          if iova \<noteq> 0 then
            (if \<not> PAGE_ALIGNED iova then (Inl EINVAL, pd, w1)
             else if iova + sz < iova then (Inl EINVAL, pd, w1)
             else
               (case afu_dma_region_find pd iova sz of
                  None \<Rightarrow> (Inl EINVAL, pd, w1)
                | Some region \<Rightarrow>
                    (Inr (), mark_in_use True region pd, port_umsg_set_addr pd iova w1)))
          else
            (case port_umsg_get_addr pd w1 of
               (cur, w2) \<Rightarrow>
                 if cur = 0 then (Inr (), pd, w2)
                 else if cur + sz < cur then (Inl EINVAL, pd, w2)
                 else
                   (case afu_dma_region_find pd cur sz of
                      None \<Rightarrow> (Inl ENODEV, pd, w2)
                    | Some region \<Rightarrow>
                        (Inr (), mark_in_use False region pd, port_umsg_set_addr pd 0 w2))))"

text \<open>
  The shift of a 32-bit number by 32 or more is not defined in C; on x86 the count is taken
  modulo 32, which is what the model does.
\<close>

definition shift_right_u32 :: "u32 \<Rightarrow> nat \<Rightarrow> u32" where
  "shift_right_u32 v n = drop_bit (n mod 32) v"

definition afu_port_umsg_set_mode :: "afu_pdata \<Rightarrow> u32 \<Rightarrow> world \<Rightarrow> unit res \<times> world" where
  "afu_port_umsg_set_mode pd mode w =
     (if shift_right_u32 mode (unat (afu_num_umsgs (the_afu pd))) \<noteq> 0 then (Inl EINVAL, w)
      else (Inr (), port_umsg_set_mode pd mode w))"

definition afu_port_umsg_halt :: "afu_pdata \<Rightarrow> world \<Rightarrow> afu_pdata \<times> world" where
  "afu_port_umsg_halt pd w =
     (if is_feature_present pd PORT_FEATURE_ID_UMSG then
        (case afu_port_umsg_enable pd False w of
           (_, w1) \<Rightarrow>
             (case afu_port_umsg_set_addr pd 0 w1 of
                (_, pd2, w2) \<Rightarrow> (pd2, snd (afu_port_umsg_set_mode pd2 0 w2))))
      else (pd, w))"

subsection \<open>The ioctls\<close>

record fpga_port_umsg_cfg =
  ucfg_argsz :: u32
  ucfg_flags :: u32
  ucfg_hint_bitmap :: u32

record fpga_port_umsg_base_addr =
  ubase_argsz :: u32
  ubase_flags :: u32
  ubase_iova :: u64

definition afu_umsg_ioctl_enable :: "afu_pdata \<Rightarrow> bool \<Rightarrow> u64 \<Rightarrow> world \<Rightarrow> unit res \<times> world" where
  "afu_umsg_ioctl_enable pd en arg w =
     (if arg \<noteq> 0 then (Inl EINVAL, w) else afu_port_umsg_enable pd en w)"

text \<open>The minimal sizes are those of the structures up to the last member the code names.\<close>

definition afu_umsg_ioctl_set_mode ::
  "afu_pdata \<Rightarrow> fpga_port_umsg_cfg option \<Rightarrow> world \<Rightarrow> unit res \<times> world" where
  "afu_umsg_ioctl_set_mode pd arg w =
     (case arg of
        None \<Rightarrow> (Inl EFAULT, w)
      | Some uconfig \<Rightarrow>
          if ucfg_argsz uconfig < 12 \<or> ucfg_flags uconfig \<noteq> 0 then (Inl EINVAL, w)
          else afu_port_umsg_set_mode pd (ucfg_hint_bitmap uconfig) w)"

definition afu_umsg_ioctl_set_base_addr ::
  "afu_pdata \<Rightarrow> fpga_port_umsg_base_addr option \<Rightarrow> world \<Rightarrow> unit res \<times> afu_pdata \<times> world" where
  "afu_umsg_ioctl_set_base_addr pd arg w =
     (case arg of
        None \<Rightarrow> (Inl EFAULT, pd, w)
      | Some baseaddr \<Rightarrow>
          if ubase_argsz baseaddr < 16 \<or> ubase_flags baseaddr \<noteq> 0 then (Inl EINVAL, pd, w)
          else afu_port_umsg_set_addr pd (ubase_iova baseaddr) w)"

subsection \<open>Marking a region\<close>

lemma map_tree_inorder: "inorder (map_tree f t) = map f (inorder t)"
  by (induction t) auto

lemma mark_keeps_range [simp]:
  "dr_iova (r\<lparr>dr_in_use := b\<rparr>) = dr_iova r" "dma_end (r\<lparr>dr_in_use := b\<rparr>) = dma_end r"
  "dma_range_ok (r\<lparr>dr_in_use := b\<rparr>) = dma_range_ok r"
  by (simp_all add: dma_end_def dma_range_ok_def)

lemma mark_regions:
  assumes "region \<in> dma_regions_of pd"
  shows "dma_regions_of (mark_in_use b region pd) =
    insert (region\<lparr>dr_in_use := b\<rparr>) (dma_regions_of pd - {region})"
  using assms
  by (auto simp: dma_regions_of_def mark_in_use_def Let_def map_tree_inorder simp flip: set_inorder)

lemma mark_inv:
  assumes "afu_dma_inv pd"
  shows "afu_dma_inv (mark_in_use b region pd)"
proof -
  let ?f = "\<lambda>r. if r = region then r\<lparr>dr_in_use := b\<rparr> else r"
  have f: "dr_iova (?f r) = dr_iova r" "dma_end (?f r) = dma_end r"
    "dma_range_ok (?f r) = dma_range_ok r" for r
    by auto
  have "inorder (afu_dma_regions (the_afu (mark_in_use b region pd))) =
      map ?f (inorder (afu_dma_regions (the_afu pd)))"
    by (simp add: mark_in_use_def Let_def map_tree_inorder)
  then show ?thesis
    using assms unfolding afu_dma_inv_def dma_inv_def dma_before_def
    by (auto simp: sorted_wrt_map f simp flip: set_inorder)
qed

lemma mark_reg [simp]: "umsg_reg (mark_in_use b region pd) reg = umsg_reg pd reg"
  by (simp add: umsg_reg_def mark_in_use_def Let_def set_afu_def fpga_pdata_set_private_def
      get_feature_ioaddr_by_index_def)

lemma set_addr_ok:
  assumes "afu_port_umsg_set_addr pd iova w = (Inr (), pd', w')" and "iova \<noteq> 0"
  shows "\<exists>region csr w1. PAGE_ALIGNED iova \<and>
    \<not> iova + ucast (afu_num_umsgs (the_afu pd)) * PAGE_SIZE < iova \<and>
    afu_dma_region_find pd iova (ucast (afu_num_umsgs (the_afu pd)) * PAGE_SIZE) = Some region \<and>
    pd' = mark_in_use True region pd \<and>
    w' = writeq (set_field feature_port_umsg_baseaddr ''base_addr'' iova csr)
           (umsg_reg pd ''baseaddr'') w1"
  using assms unfolding afu_port_umsg_set_addr_def port_umsg_set_addr_def
  by (auto simp: Let_def split: prod.splits bool.splits if_splits option.splits)

lemma no_wrap64: "\<not> (a :: u64) + b < a \<Longrightarrow> unat a + unat b < 2 ^ 64"
  using unat_add64_wrap [of a b] unat_u64_less [of b]
  by (cases "unat a + unat b < 2 ^ 64") (simp_all add: word_less_nat_alt)

text \<open>Halting the engine only accesses registers and may clear one mark.\<close>

lemma mmio_only_umsg:
  "afu_port_umsg_enable pd en w = (r, w') \<Longrightarrow> mmio_only w w'"
  by (auto simp: afu_port_umsg_enable_def port_umsg_enable_def port_umsg_get_addr_def Let_def
      split: if_splits prod.splits sum.splits
      dest!: mmio_only_readq mmio_only_wait_register
      intro: mmio_only_trans mmio_only_trans [OF mmio_only_trans [OF _ mmio_only_writeq]])

lemma mmio_only_umsg_set_addr: "mmio_only w (port_umsg_set_addr pd iova w)"
  unfolding port_umsg_set_addr_def
  by (auto split: prod.splits dest!: mmio_only_readq intro: mmio_only_trans mmio_only_writeq)

lemma mmio_only_umsg_set_mode: "mmio_only w (snd (afu_port_umsg_set_mode pd mode w))"
  by (auto simp: afu_port_umsg_set_mode_def port_umsg_set_mode_def split: prod.splits
      dest!: mmio_only_readq intro: mmio_only_trans mmio_only_writeq)

lemma umsg_set_addr_zero:
  "afu_port_umsg_set_addr pd 0 w = (r, pd', w') \<Longrightarrow>
   mmio_only w w' \<and> (pd' = pd \<or> (\<exists>region. pd' = mark_in_use False region pd))"
  by (auto simp: afu_port_umsg_set_addr_def port_umsg_is_enabled_def port_umsg_get_addr_def Let_def
      split: prod.splits bool.splits if_splits option.splits
      dest!: mmio_only_readq intro: mmio_only_trans mmio_only_trans [OF _ mmio_only_umsg_set_addr])

lemma umsg_halt_spec:
  assumes "afu_port_umsg_halt pd w = (pd', w')"
  shows "mmio_only w w' \<and> (pd' = pd \<or> (\<exists>region. pd' = mark_in_use False region pd))"
proof (cases "is_feature_present pd PORT_FEATURE_ID_UMSG")
  case True
  obtain r1 w1 where e: "afu_port_umsg_enable pd False w = (r1, w1)" by (metis surj_pair)
  obtain r2 pd2 w2 where a: "afu_port_umsg_set_addr pd 0 w1 = (r2, pd2, w2)" by (metis surj_pair)
  have "pd' = pd2" "w' = snd (afu_port_umsg_set_mode pd2 0 w2)"
    using assms True e a by (auto simp: afu_port_umsg_halt_def)
  with mmio_only_umsg [OF e] umsg_set_addr_zero [OF a] mmio_only_umsg_set_mode [of w2 pd2 0]
  show ?thesis using mmio_only_trans by blast
next
  case False
  with assms show ?thesis by (simp add: afu_port_umsg_halt_def)
qed

lemma mark_hold:
  "regions_hold q (mark_in_use b region pd) = regions_hold q pd"
proof -
  have "dma_hold q (if r = region then r\<lparr>dr_in_use := b\<rparr> else r) = dma_hold q r" for r
    by (simp add: dma_hold_def pages_hold_def)
  then show ?thesis
    by (simp add: regions_hold_def mark_in_use_def Let_def map_tree_inorder comp_def)
qed

lemma mark_shape:
  assumes "r' \<in> dma_regions_of (mark_in_use b region pd)"
  shows "\<exists>r \<in> dma_regions_of pd. r' = r \<or> r' = r\<lparr>dr_in_use := b\<rparr>"
  using assms
  by (auto simp: dma_regions_of_def mark_in_use_def Let_def map_tree_inorder
      simp flip: set_inorder split: if_splits)

lemma mark_features [simp]:
  "pd_features (mark_in_use b region pd) = pd_features pd"
  "pd_open_count (mark_in_use b region pd) = pd_open_count pd"
  by (simp_all add: mark_in_use_def Let_def set_afu_def fpga_pdata_set_private_def)

lemma pinned_mark [simp]: "pinned (r\<lparr>dr_in_use := b\<rparr>) = pinned r"
  by (simp add: pinned_def)

lemma mark_at_0: "mapped_at_0 (mark_in_use b region pd) = mapped_at_0 pd"
proof -
  have "dma_regions_of (mark_in_use b region pd) =
      (\<lambda>r. if r = region then r\<lparr>dr_in_use := b\<rparr> else r) ` dma_regions_of pd"
    by (simp add: dma_regions_of_def mark_in_use_def Let_def map_tree_inorder flip: set_inorder)
  then show ?thesis
    unfolding mapped_at_0_def by (simp only: bex_simps if_distrib [of dr_iova]) auto
qed

lemma umsg_halt_keeps:
  assumes "afu_port_umsg_halt pd w = (pd', w')" and "afu_dma_inv pd" and "regions_pinned pd"
  shows "mmio_only w w' \<and> afu_dma_inv pd' \<and> regions_pinned pd' \<and> pd_features pd' = pd_features pd \<and>
    mapped_at_0 pd' = mapped_at_0 pd \<and> (\<forall>q. regions_hold q pd' = regions_hold q pd)"
  using umsg_halt_spec [OF assms(1)] assms(2-3) mark_inv mark_hold mark_at_0
  by (auto simp: regions_pinned_def dest!: mark_shape)

text \<open>
  C28. After the base address of the UMsg engine was set successfully, it lies with the whole
  message area inside one mapped DMA region, this region and no other has been marked, the
  hardware register holds the address, and an attempt to unmap the region is refused.
\<close>

theorem umsg_base_is_protected:
  assumes "afu_port_umsg_set_addr pd iova w = (Inr (), pd', w')" and "iova \<noteq> 0"
    and "afu_dma_inv pd"
  shows "\<exists>region \<in> dma_regions_of pd.
    dma_covers region iova (ucast (afu_num_umsgs (the_afu pd)) * PAGE_SIZE) \<and>
    dma_regions_of pd' = insert (region\<lparr>dr_in_use := True\<rparr>) (dma_regions_of pd - {region}) \<and>
    (\<exists>csr. last_write (w_trace w') (umsg_reg pd' ''baseaddr'') = Some csr \<and>
       get_field feature_port_umsg_baseaddr ''base_addr'' csr = take_bit 48 iova) \<and>
    (\<forall>rb tk. afu_dma_unmap_region rb pd' (dr_iova region) tk w' = (Inl EBUSY, pd', tk, w'))"
proof -
  let ?sz = "ucast (afu_num_umsgs (the_afu pd)) * PAGE_SIZE"
  obtain region csr w1 where s: "\<not> iova + ?sz < iova" "afu_dma_region_find pd iova ?sz = Some region"
    "pd' = mark_in_use True region pd"
    "w' = writeq (set_field feature_port_umsg_baseaddr ''base_addr'' iova csr)
           (umsg_reg pd ''baseaddr'') w1"
    using set_addr_ok [OF assms(1,2)] by blast
  have f: "region \<in> dma_regions_of pd" "dma_covers region iova ?sz"
    using dma_find_spec [OF assms(3) no_wrap64 [OF s(1)]] s(2) by auto
  have marked: "dma_regions_of pd' = insert (region\<lparr>dr_in_use := True\<rparr>) (dma_regions_of pd - {region})"
    using mark_regions [OF f(1)] s(3) by simp
  have inv: "afu_dma_inv pd'" using mark_inv assms(3) s(3) by simp
  have "afu_dma_region_find_iova pd' (dr_iova region) = Some (region\<lparr>dr_in_use := True\<rparr>)"
    using dma_find_iova [OF inv] marked by simp
  then have "afu_dma_unmap_region rb pd' (dr_iova region) tk w' = (Inl EBUSY, pd', tk, w')" for rb tk
    by (simp add: afu_dma_unmap_region_def)
  moreover have pos: "field_pos feature_port_umsg_baseaddr ''base_addr'' = Some (0, 48)"
    by (simp add: feature_port_umsg_baseaddr_def)
  have "get_field feature_port_umsg_baseaddr ''base_addr''
      (set_field feature_port_umsg_baseaddr ''base_addr'' iova csr) = take_bit 48 iova"
    by (rule get_set_field_same [OF pos]) simp
  moreover have "last_write (w_trace w') (umsg_reg pd' ''baseaddr'') =
      Some (set_field feature_port_umsg_baseaddr ''base_addr'' iova csr)"
    using s(3,4) by (simp add: writeq_def)
  ultimately show ?thesis using f marked by blast
qed

text \<open>
  Setting a new base address never clears a mark: a region that is in use and does not
  contain the new area stays in use, although the hardware no longer points into it.
\<close>

lemma umsg_move_keeps_old_mark:
  assumes "afu_port_umsg_set_addr pd iova w = (Inr (), pd', w')" and "iova \<noteq> 0"
    and "afu_dma_inv pd" and "old \<in> dma_regions_of pd" and "dr_in_use old"
    and "\<not> dma_covers old iova (ucast (afu_num_umsgs (the_afu pd)) * PAGE_SIZE)"
  shows "old \<in> dma_regions_of pd' \<and>
    (\<forall>rb tk. afu_dma_unmap_region rb pd' (dr_iova old) tk w' = (Inl EBUSY, pd', tk, w'))"
proof -
  let ?sz = "ucast (afu_num_umsgs (the_afu pd)) * PAGE_SIZE"
  obtain region where s: "\<not> iova + ?sz < iova" "afu_dma_region_find pd iova ?sz = Some region"
    "pd' = mark_in_use True region pd"
    using set_addr_ok [OF assms(1,2)] by blast
  have f: "region \<in> dma_regions_of pd" "dma_covers region iova ?sz"
    using dma_find_spec [OF assms(3) no_wrap64 [OF s(1)]] s(2) by auto
  then have old: "old \<in> dma_regions_of pd'"
    using assms(4,6) mark_regions [OF f(1), of True] s(3) by auto
  have "afu_dma_inv pd'" using mark_inv assms(3) s(3) by simp
  then have "afu_dma_region_find_iova pd' (dr_iova old) = Some old"
    using dma_find_iova old by blast
  with old assms(5) show ?thesis by (simp add: afu_dma_unmap_region_def)
qed

text \<open>
  With fewer than 32 UMsgs a hint bitmap is accepted exactly when it names existing UMsgs
  only. With 32, the maximum the hardware may have, only the empty bitmap is accepted.
\<close>

lemma umsg_hint_bitmap_check:
  "(unat (afu_num_umsgs (the_afu pd)) < 32 \<longrightarrow>
     (fst (afu_port_umsg_set_mode pd mode w) = Inr () \<longleftrightarrow>
      unat mode < 2 ^ unat (afu_num_umsgs (the_afu pd)))) \<and>
   (unat (afu_num_umsgs (the_afu pd)) = 32 \<longrightarrow>
     (fst (afu_port_umsg_set_mode pd mode w) = Inr () \<longleftrightarrow> mode = 0))"
proof -
  have "drop_bit n mode = 0 \<longleftrightarrow> unat mode < 2 ^ n" for n
  proof -
    have "drop_bit n mode = 0 \<longleftrightarrow> unat (drop_bit n mode) = 0" by (simp add: unat_eq_0)
    also have "\<dots> \<longleftrightarrow> unat mode div 2 ^ n = 0" unfolding unat_drop_bit_eq by (simp add: drop_bit_eq_div)
    finally show ?thesis by (simp add: div_eq_0_iff)
  qed
  then show ?thesis
    by (auto simp: afu_port_umsg_set_mode_def shift_right_u32_def)
qed

subsection \<open>Witnesses\<close>

text \<open>A port with one UMsg and two mapped DMA regions, the second of them in use.\<close>

definition umsg_dev :: afu_pdata where
  "umsg_dev = set_afu (zero_afu\<lparr>afu_num_umsgs := 1, afu_dma_regions :=
     Node Leaf one_region (Node Leaf (one_region\<lparr>dr_iova := 0x20000, dr_in_use := True\<rparr>) Leaf)\<rparr>)
     (empty_pdata\<lparr>pd_num := 6, pd_features := replicate 6 zero_feature\<rparr>)"

lemma umsg_dev_inv: "afu_dma_inv umsg_dev"
  by (simp add: afu_dma_inv_def dma_inv_def umsg_dev_def one_region_def dma_range_ok_def
      dma_end_def dma_before_def)

lemma umsg_dev_regions:
  "dma_regions_of umsg_dev = {one_region, one_region\<lparr>dr_iova := 0x20000, dr_in_use := True\<rparr>}"
  by (simp add: dma_regions_of_def umsg_dev_def)

lemma umsg_dev_size: "ucast (afu_num_umsgs (the_afu umsg_dev)) * PAGE_SIZE = 0x1000"
  by (simp add: umsg_dev_def PAGE_SIZE_def)

lemma umsg_dev_set_addr:
  "fst (afu_port_umsg_set_addr umsg_dev 0x10000 (quiet_world (\<lambda>_. 0))) = Inr ()"
  by (simp add: afu_port_umsg_set_addr_def port_umsg_is_enabled_def umsg_dev_def Let_def
      world_defs quiet_world_def get_field_def feature_port_umsg_cap_def PAGE_ALIGNED_def
      PAGE_SIZE_def afu_dma_region_find_def dma_region_check_iova_def one_region_def)

theorem umsg_base_is_protected_witness:
  "afu_dma_unmap_region bst_ops
     (fst (snd (afu_port_umsg_set_addr umsg_dev 0x10000 (quiet_world (\<lambda>_. 0))))) 0x10000 free_task
     (snd (snd (afu_port_umsg_set_addr umsg_dev 0x10000 (quiet_world (\<lambda>_. 0))))) =
   (Inl EBUSY, fst (snd (afu_port_umsg_set_addr umsg_dev 0x10000 (quiet_world (\<lambda>_. 0)))), free_task,
     snd (snd (afu_port_umsg_set_addr umsg_dev 0x10000 (quiet_world (\<lambda>_. 0)))))"
proof -
  obtain pd' w' where
    run: "afu_port_umsg_set_addr umsg_dev 0x10000 (quiet_world (\<lambda>_. 0)) = (Inr (), pd', w')"
    using umsg_dev_set_addr by (metis prod.collapse)
  obtain region where "region \<in> dma_regions_of umsg_dev"
    "dma_covers region 0x10000 (ucast (afu_num_umsgs (the_afu umsg_dev)) * PAGE_SIZE)"
    "\<forall>rb tk. afu_dma_unmap_region rb pd' (dr_iova region) tk w' = (Inl EBUSY, pd', tk, w')"
    using umsg_base_is_protected [OF run _ umsg_dev_inv] by auto
  moreover from this have "region = one_region"
    by (auto simp: umsg_dev_regions umsg_dev_size dma_covers_def one_region_def)
  ultimately show ?thesis using run by (simp add: one_region_def)
qed

lemma umsg_move_keeps_old_mark_example:
  "afu_dma_unmap_region bst_ops
     (fst (snd (afu_port_umsg_set_addr umsg_dev 0x10000 (quiet_world (\<lambda>_. 0))))) 0x20000 free_task
     (snd (snd (afu_port_umsg_set_addr umsg_dev 0x10000 (quiet_world (\<lambda>_. 0))))) =
   (Inl EBUSY, fst (snd (afu_port_umsg_set_addr umsg_dev 0x10000 (quiet_world (\<lambda>_. 0)))), free_task,
     snd (snd (afu_port_umsg_set_addr umsg_dev 0x10000 (quiet_world (\<lambda>_. 0)))))"
proof -
  obtain pd' w' where
    run: "afu_port_umsg_set_addr umsg_dev 0x10000 (quiet_world (\<lambda>_. 0)) = (Inr (), pd', w')"
    using umsg_dev_set_addr by (metis prod.collapse)
  let ?old = "one_region\<lparr>dr_iova := 0x20000, dr_in_use := True\<rparr>"
  have "\<not> dma_covers ?old 0x10000 (ucast (afu_num_umsgs (the_afu umsg_dev)) * PAGE_SIZE)"
    by (simp add: dma_covers_def umsg_dev_def PAGE_SIZE_def one_region_def)
  from umsg_move_keeps_old_mark [OF run _ umsg_dev_inv _ _ this] run show ?thesis
    by (simp add: umsg_dev_regions)
qed

lemma umsg_hint_bitmap_check_example:
  "fst (afu_port_umsg_set_mode (set_afu (zero_afu\<lparr>afu_num_umsgs := 8\<rparr>) empty_pdata) 0xFF (quiet_world (\<lambda>_. 0))) = Inr () \<and>
   fst (afu_port_umsg_set_mode (set_afu (zero_afu\<lparr>afu_num_umsgs := 32\<rparr>) empty_pdata) 0xFF (quiet_world (\<lambda>_. 0))) \<noteq> Inr ()"
  using umsg_hint_bitmap_check [of "set_afu (zero_afu\<lparr>afu_num_umsgs := 8\<rparr>) empty_pdata" "0xFF" "quiet_world (\<lambda>_. 0)"]
    umsg_hint_bitmap_check [of "set_afu (zero_afu\<lparr>afu_num_umsgs := 32\<rparr>) empty_pdata" "0xFF" "quiet_world (\<lambda>_. 0)"]
  by simp

end
