(* ===== verification/Afu_Error.thy ===== *)
theory Afu_Error
  imports Afu_Region
begin

text \<open>
  Port errors (\<^verbatim>\<open>drivers/fpga/intel/afu-error.c\<close>): masking, showing and clearing them and binding
  the error interrupt; and the self tests of \<^verbatim>\<open>drivers/fpga/intel/afu-check.c\<close>, which read the
  registers of a sub-feature and only log a value that is not the default.

  A sysfs attribute is modelled by the number it prints and by the number the kernel's parser
  makes of what was written to it.
\<close>

subsection \<open>Constants of the headers\<close>

definition PORT_ERR_MASK :: u64 where "PORT_ERR_MASK = 0xfff0703ff001f"
definition PORT_POWER_STATE_AP6 :: u64 where "PORT_POWER_STATE_AP6 = 6"
definition FPGA_PORT_CAP_ERR_IRQ :: u32 where "FPGA_PORT_CAP_ERR_IRQ = 1"
definition FPGA_PORT_CAP_UAFU_IRQ :: u32 where "FPGA_PORT_CAP_UAFU_IRQ = 2"

definition port_err_reg :: "'p feature_platform_data \<Rightarrow> string \<Rightarrow> u64" where
  "port_err_reg pd reg =
     reg_addr feature_port_error reg (get_feature_ioaddr_by_index pd PORT_FEATURE_ID_ERROR)"

subsection \<open>Operations\<close>

definition port_err_mask :: "'p feature_platform_data \<Rightarrow> bool \<Rightarrow> world \<Rightarrow> world" where
  "port_err_mask pd mask_all w =
     writeq (if mask_all then PORT_ERR_MASK else 0) (port_err_reg pd ''error_mask'') w"

text \<open>The part of \<^verbatim>\<open>port_err_clear\<close> between disabling and enabling the port.\<close>

definition clear_matching ::
  "'p feature_platform_data \<Rightarrow> u64 \<Rightarrow> world \<Rightarrow> unit res \<times> world" where
  "clear_matching pd err w =
     (case readq (port_err_reg pd ''port_error'') w of
        (csr, w1) \<Rightarrow>
          if csr = err then
            (case readq (port_err_reg pd ''port_first_error'')
                    (writeq csr (port_err_reg pd ''port_error'') w1) of
               (first, w2) \<Rightarrow> (Inr (), writeq first (port_err_reg pd ''port_first_error'') w2))
          else (Inl EBUSY, w1))"

definition port_err_clear ::
  "'p feature_platform_data \<Rightarrow> u64 \<Rightarrow> world \<Rightarrow> unit res \<times> 'p feature_platform_data \<times> world" where
  "port_err_clear pd err w =
     (case readq (port_hdr_reg pd ''status'') w of
        (status, w1) \<Rightarrow>
          if get_field feature_port_status ''power_state'' status = PORT_POWER_STATE_AP6
          then (Inl EBUSY, pd, w1)
          else
            (case raw_fpga_port_disable pd w1 of
               (Inl e, pd1, w2) \<Rightarrow> (Inl e, pd1, w2)
             | (Inr _, pd1, w2) \<Rightarrow>
                 (case clear_matching pd1 err (port_err_mask pd1 True w2) of
                    (r, w3) \<Rightarrow>
                      (case raw_fpga_port_enable pd1 (port_err_mask pd1 False w3) of
                         (pd2, w4) \<Rightarrow> (r, pd2, w4)))))"

definition port_err_revision_show :: "'p feature_platform_data \<Rightarrow> world \<Rightarrow> u64 \<times> world" where
  "port_err_revision_show pd w =
     (case readq (port_err_reg pd ''header'') w of
        (csr, w1) \<Rightarrow> (get_field feature_header ''revision'' csr, w1))"

definition port_errors_show :: "'p feature_platform_data \<Rightarrow> world \<Rightarrow> u64 \<times> world" where
  "port_errors_show pd w = readq (port_err_reg pd ''port_error'') w"

definition port_first_error_show :: "'p feature_platform_data \<Rightarrow> world \<Rightarrow> u64 \<times> world" where
  "port_first_error_show pd w = readq (port_err_reg pd ''port_first_error'') w"

text \<open>The two halves of the malformed request, in the order they are printed.\<close>

definition first_malformed_req_show :: "'p feature_platform_data \<Rightarrow> world \<Rightarrow> (u64 \<times> u64) \<times> world" where
  "first_malformed_req_show pd w =
     (case readq (port_err_reg pd ''malreq0'') w of
        (lsb, w1) \<Rightarrow>
          (case readq (port_err_reg pd ''malreq1'') w1 of
             (msb, w2) \<Rightarrow> ((msb, lsb), w2)))"

definition port_clear_store ::
  "'p feature_platform_data \<Rightarrow> u64 res \<Rightarrow> world \<Rightarrow> unit res \<times> 'p feature_platform_data \<times> world" where
  "port_clear_store pd parsed w =
     (case parsed of Inl _ \<Rightarrow> (Inl EINVAL, pd, w) | Inr err \<Rightarrow> port_err_clear pd err w)"

definition add_capability :: "u32 \<Rightarrow> afu_pdata \<Rightarrow> afu_pdata" where
  "add_capability c pd = set_afu ((the_afu pd)\<lparr>afu_capability := afu_capability (the_afu pd) OR c\<rparr>) pd"

definition port_err_init :: "nat \<Rightarrow> afu_pdata \<Rightarrow> world \<Rightarrow> unit res \<times> afu_pdata \<times> world" where
  "port_err_init i pd w =
     (let w1 = port_err_mask pd False w;
          pd1 = (if f_ctx_num (pd_features pd ! i) \<noteq> 0 then add_capability FPGA_PORT_CAP_ERR_IRQ pd
                 else pd)
      in case kstatus Sysfs_create [] w1 of (r, w2) \<Rightarrow> (r, pd1, w2))"

definition port_err_uinit :: "nat \<Rightarrow> afu_pdata \<Rightarrow> world \<Rightarrow> afu_pdata \<times> world" where
  "port_err_uinit i pd w = (pd, kvoid Sysfs_remove [] w)"

record fpga_port_err_irq_set =
  eirq_argsz :: u32
  eirq_flags :: u32
  eirq_evtfd :: int

definition port_err_set_irq ::
  "nat \<Rightarrow> fpga_port_err_irq_set option \<Rightarrow> afu_pdata \<Rightarrow> world \<Rightarrow> unit res \<times> afu_pdata \<times> world" where
  "port_err_set_irq i arg pd w =
     (case arg of
        None \<Rightarrow> (Inl EFAULT, pd, w)
      | Some hdr \<Rightarrow>
          if eirq_argsz hdr < 12 \<or> eirq_flags hdr \<noteq> 0 then (Inl EINVAL, pd, w)
          else if afu_capability (the_afu pd) AND FPGA_PORT_CAP_ERR_IRQ = 0
          then (Inl ENODEV, pd, w)
          else msix_set_block_at i 0 1 (Some [eirq_evtfd hdr]) pd w)"

subsection \<open>Self tests\<close>

text \<open>A register whose value is not the expected one is reported, with both values.\<close>

definition port_check_reg :: "u64 \<Rightarrow> u64 \<Rightarrow> world \<Rightarrow> world" where
  "port_check_reg addr dflt w =
     (case readq addr w of
        (v, w1) \<Rightarrow>
          if v \<noteq> dflt then kvoid (Kfn ''dev_dbg'') [uint v, uint dflt] w1 else w1)"

text \<open>
  The expected values: the registers of a block that its test reads, in the order of the calls,
  which is that of the initialisers.
\<close>

definition hdr_dflt :: "(string \<times> u64) list" where
  "hdr_dflt =
     [(''port_mailbox'', 0), (''scratchpad'', 0), (''capability'', 0x0000000100010000),
      (''control'', 4), (''status'', 0), (''rsvd2'', 0), (''user_clk_freq_cmd0'', 0),
      (''user_clk_freq_cmd1'', 0), (''user_clk_freq_sts0'', 0), (''user_clk_freq_sts1'', 0)]"

definition err_dflt :: "(string \<times> u64) list" where
  "err_dflt =
     [(''error_mask'', 0), (''port_error'', 0), (''port_first_error'', 0), (''malreq0'', 0),
      (''malreq1'', 0), (''port_debug'', 0)]"

definition umsg_dflt :: "(string \<times> u64) list" where
  "umsg_dflt = [(''capability'', 8), (''baseaddr'', 0), (''mode'', 0)]"

definition stp_dflt :: "(string \<times> u64) list" where
  "stp_dflt = [(''stp_status'', 0)]"

definition check_regs :: "regset \<Rightarrow> (string \<times> u64) list \<Rightarrow> u64 \<Rightarrow> world \<Rightarrow> world" where
  "check_regs regs dflts base w =
     fold (\<lambda>(n, dflt). port_check_reg (reg_addr regs n base) dflt) dflts w"

definition port_hdr_test :: "nat \<Rightarrow> afu_pdata \<Rightarrow> world \<Rightarrow> unit res \<times> afu_pdata \<times> world" where
  "port_hdr_test i pd w =
     (Inr (), pd, check_regs feature_port_header hdr_dflt (f_ioaddr (pd_features pd ! i)) w)"

definition port_err_test :: "nat \<Rightarrow> afu_pdata \<Rightarrow> world \<Rightarrow> unit res \<times> afu_pdata \<times> world" where
  "port_err_test i pd w =
     (Inr (), pd, check_regs feature_port_error err_dflt (f_ioaddr (pd_features pd ! i)) w)"

definition port_umsg_test :: "nat \<Rightarrow> afu_pdata \<Rightarrow> world \<Rightarrow> unit res \<times> afu_pdata \<times> world" where
  "port_umsg_test i pd w =
     (Inr (), pd, check_regs feature_port_umsg umsg_dflt (f_ioaddr (pd_features pd ! i)) w)"

definition port_stp_test :: "nat \<Rightarrow> afu_pdata \<Rightarrow> world \<Rightarrow> unit res \<times> afu_pdata \<times> world" where
  "port_stp_test i pd w =
     (Inr (), pd, check_regs feature_port_stp stp_dflt (f_ioaddr (pd_features pd ! i)) w)"

subsection \<open>Clearing errors\<close>

lemma port_err_reg_count [simp]:
  "port_err_reg (pd\<lparr>pd_disable_count := n\<rparr>) reg = port_err_reg pd reg"
  by (simp add: port_err_reg_def get_feature_ioaddr_by_index_def)

lemma clear_matching_trace:
  "\<exists>csr first. clear_matching pd err w =
     (if csr = err then
        (Inr (), w\<lparr>w_trace := [WrQ (port_err_reg pd ''port_first_error'') first,
          RdQ (port_err_reg pd ''port_first_error'') first,
          WrQ (port_err_reg pd ''port_error'') err, RdQ (port_err_reg pd ''port_error'') err]
          @ w_trace w\<rparr>)
      else (Inl EBUSY, w\<lparr>w_trace := RdQ (port_err_reg pd ''port_error'') csr # w_trace w\<rparr>))"
  by (rule exI [of _ "w_readq w (w_trace w) (port_err_reg pd ''port_error'')"])
    (auto simp: clear_matching_def world_defs Let_def)

text \<open>
  What \<^verbatim>\<open>port_err_clear\<close> writes, starting from a running port. In the AP6 power state nothing.
  After a timeout of the reset only the reset bit. Otherwise the port is put into reset, all
  errors of the mask are masked, then the error and the first error registers are written back
  if and only if the errors read are those the caller named, the mask is cleared, and last the
  port is taken out of reset; the result tells which of the two it was.
\<close>

lemma port_err_clear_writes:
  assumes "port_err_clear pd err w = (r, pd', w')" and "pd_disable_count pd = 0"
  shows "\<exists>c1 c0 first. bit c1 0 \<and> \<not> bit c0 0 \<and>
    (r = Inl EBUSY \<and> pd' = pd \<and> writes_of (events_between w w') = [] \<or>
     r = Inl ETIMEDOUT \<and> pd_disable_count pd' = 1 \<and>
       writes_of (events_between w w') = [(port_hdr_reg pd ''control'', c1)] \<or>
     r = Inr () \<and> pd' = pd \<and> writes_of (events_between w w') =
       [(port_hdr_reg pd ''control'', c1), (port_err_reg pd ''error_mask'', PORT_ERR_MASK),
        (port_err_reg pd ''port_error'', err), (port_err_reg pd ''port_first_error'', first),
        (port_err_reg pd ''error_mask'', 0), (port_hdr_reg pd ''control'', c0)] \<or>
     r = Inl EBUSY \<and> pd' = pd \<and> writes_of (events_between w w') =
       [(port_hdr_reg pd ''control'', c1), (port_err_reg pd ''error_mask'', PORT_ERR_MASK),
        (port_err_reg pd ''error_mask'', 0), (port_hdr_reg pd ''control'', c0)])"
proof -
  let ?A = "port_hdr_reg pd ''control''" and ?M = "port_err_reg pd ''error_mask''"
  let ?E = "port_err_reg pd ''port_error''" and ?F = "port_err_reg pd ''port_first_error''"
  obtain st w1 where rd: "readq (port_hdr_reg pd ''status'') w = (st, w1)" by (metis surj_pair)
  then have w1: "w1 = w\<lparr>w_trace := RdQ (port_hdr_reg pd ''status'') st # w_trace w\<rparr>"
    by (auto simp: world_defs Let_def)
  have b1: "bit (set_field feature_port_control ''port_sftrst'' 1 v) 0"
    and b0: "\<not> bit (set_field feature_port_control ''port_sftrst'' 0 v) 0" for v
    by (simp_all add: bit_set_sftrst)
  show ?thesis
  proof (cases "get_field feature_port_status ''power_state'' st = PORT_POWER_STATE_AP6")
    case True
    with assms rd have "r = Inl EBUSY" "pd' = pd" "w' = w1" by (auto simp: port_err_clear_def)
    with w1 b1 b0 show ?thesis by (auto simp: events_between_def)
  next
    case False
    obtain r1 pd1 w2 where d: "raw_fpga_port_disable pd w1 = (r1, pd1, w2)" by (metis surj_pair)
    obtain csr poll where dis: "pd1 = pd\<lparr>pd_disable_count := 1\<rparr>" "ack_poll ?A r1 poll"
      "w2 = w1\<lparr>w_trace := rev poll @
        WrQ ?A (set_field feature_port_control ''port_sftrst'' 1 csr) # RdQ ?A csr # w_trace w1\<rparr>"
      using disable_first [OF d assms(2)] by blast
    note nowr = ack_poll_writes [OF dis(2)]
    show ?thesis
    proof (cases r1)
      case (Inl e)
      with dis(2) have "e = ETIMEDOUT" by (auto simp: ack_poll_def)
      moreover from assms rd False d Inl have "r = Inl e" "pd' = pd1" "w' = w2"
        by (auto simp: port_err_clear_def)
      ultimately show ?thesis
        using dis w1 nowr b1 b0 by (auto simp: events_between_def intro!: exI)
    next
      case (Inr u)
      define w3 where "w3 = port_err_mask pd1 True w2"
      obtain r2 w4 where c: "clear_matching pd1 err w3 = (r2, w4)" by (metis surj_pair)
      obtain v first where cl: "(r2, w4) = (if v = err then
        (Inr (), w3\<lparr>w_trace := [WrQ ?F first, RdQ ?F first, WrQ ?E err, RdQ ?E err] @ w_trace w3\<rparr>)
        else (Inl EBUSY, w3\<lparr>w_trace := RdQ ?E v # w_trace w3\<rparr>))"
        using clear_matching_trace [of pd1 err w3, unfolded c, unfolded dis(1) port_err_reg_count]
        by blast
      have "pd_disable_count pd1 = 1" using dis(1) by simp
      then obtain csr2 where en: "raw_fpga_port_enable pd1 (port_err_mask pd1 False w4) =
          (pd1\<lparr>pd_disable_count := 0\<rparr>, (port_err_mask pd1 False w4)\<lparr>w_trace :=
            WrQ ?A (set_field feature_port_control ''port_sftrst'' 0 csr2) # RdQ ?A csr2 #
            w_trace (port_err_mask pd1 False w4)\<rparr>)"
        using enable_last [of pd1 "port_err_mask pd1 False w4"] dis(1) by auto
      have pd: "pd1\<lparr>pd_disable_count := 0\<rparr> = pd" using dis(1) assms(2) by simp
      have "(r, pd', w') = (r2, raw_fpga_port_enable pd1 (port_err_mask pd1 False w4))"
        using assms(1) rd False d Inr c [unfolded w3_def] by (simp add: port_err_clear_def)
      then have res: "r = r2" "pd' = pd" "w_trace w' =
          WrQ ?A (set_field feature_port_control ''port_sftrst'' 0 csr2) # RdQ ?A csr2 #
          WrQ ?M 0 # w_trace w4"
        using en pd dis(1) by (simp_all add: port_err_mask_def writeq_def)
      have w3: "w_trace w3 = WrQ ?M PORT_ERR_MASK # rev poll @
          WrQ ?A (set_field feature_port_control ''port_sftrst'' 1 csr) # RdQ ?A csr #
          RdQ (port_hdr_reg pd ''status'') st # w_trace w"
        using dis w1 by (simp add: w3_def port_err_mask_def writeq_def)
      let ?c1 = "set_field feature_port_control ''port_sftrst'' 1 csr"
      let ?c0 = "set_field feature_port_control ''port_sftrst'' 0 csr2"
      define mid where "mid = (if v = err then [WrQ ?F first, RdQ ?F first, WrQ ?E err, RdQ ?E err]
        else [RdQ ?E v])"
      have "w_trace w4 = mid @ w_trace w3" "r2 = (if v = err then Inr () else Inl EBUSY)"
        using cl by (auto simp: mid_def split: if_splits)
      then have "w_trace w' = ([WrQ ?A ?c0, RdQ ?A csr2, WrQ ?M 0] @ mid @ [WrQ ?M PORT_ERR_MASK] @
          rev poll @ [WrQ ?A ?c1, RdQ ?A csr, RdQ (port_hdr_reg pd ''status'') st]) @ w_trace w"
        using res(3) w3 by simp
      from events_between_trace [OF this] have "writes_of (events_between w w') =
          [(?A, ?c1), (?M, PORT_ERR_MASK)] @ writes_of (rev mid) @ [(?M, 0), (?A, ?c0)]"
        using nowr by simp
      note facts = this res(1,2) \<open>r2 = _\<close> b1 [of csr] b0 [of csr2]
      show ?thesis
        by (rule exI [of _ ?c1], rule exI [of _ ?c0], rule exI [of _ first])
          (use facts in \<open>auto simp: mid_def\<close>)
    qed
  qed
qed

text \<open>
  The mask that port errors are masked with covers every error bit of the register except
  the two for MMIO accesses while the port is in reset, the state the port is kept in meanwhile.
\<close>

lemma port_err_mask_gap:
  "\<forall>m \<in> set feature_port_err_key. member_name m \<notin> {''rsvd1'', ''rsvd2'', ''rsvd3'', ''rsvd4'', ''rsvd5''} \<longrightarrow>
     (get_field feature_port_err_key (member_name m) PORT_ERR_MASK = 0 \<longleftrightarrow>
      member_name m \<in> {''mmio_rd_whilerst'', ''mmio_wr_whilerst''})"
  by (simp add: feature_port_err_key_def get_field_def PORT_ERR_MASK_def)

lemma port_err_clear_writes_example:
  "\<exists>c1 c0 first. bit c1 0 \<and> \<not> bit c0 0 \<and>
    writes_of (events_between (quiet_world (\<lambda>_. 0x14))
      (snd (snd (port_err_clear one_port 0x14 (quiet_world (\<lambda>_. 0x14)))))) \<in>
      {[], [(0x38, c1)],
       [(0x38, c1), (port_err_reg one_port ''error_mask'', PORT_ERR_MASK),
        (port_err_reg one_port ''port_error'', 0x14), (port_err_reg one_port ''port_first_error'', first),
        (port_err_reg one_port ''error_mask'', 0), (0x38, c0)],
       [(0x38, c1), (port_err_reg one_port ''error_mask'', PORT_ERR_MASK),
        (port_err_reg one_port ''error_mask'', 0), (0x38, c0)]}"
proof -
  obtain r pd' w' where run: "port_err_clear one_port 0x14 (quiet_world (\<lambda>_. 0x14)) = (r, pd', w')"
    by (metis surj_pair)
  have "pd_disable_count one_port = 0" by (simp add: one_port_def)
  from port_err_clear_writes [OF run this] run show ?thesis by fastforce
qed

end
