(* ===== verification/Afu.thy ===== *)
theory Afu
  imports Afu_Umsg Afu_Error
begin

text \<open>
  The port driver (\<^verbatim>\<open>drivers/fpga/intel/afu.c\<close>): the sub-features of a port with their sysfs
  attributes, the table of their operations, and the file operations of the port's device.

  A show function returns the number it prints; a store function gets what the kernel's number
  parser made of the input. \<^verbatim>\<open>pdev->resource[i]\<close> is the argument \<open>rsrc\<close>, a start address and a
  size per index. An ioctl command carries what \<^verbatim>\<open>copy_from_user\<close> made of its pointer.
\<close>

subsection \<open>Sysfs attributes of the port header\<close>

definition port_revision_show :: "afu_pdata \<Rightarrow> world \<Rightarrow> u64 \<times> world" where
  "port_revision_show pd w =
     (case readq (port_hdr_reg pd ''header'') w of
        (csr, w1) \<Rightarrow> (get_field feature_header ''revision'' csr, w1))"

definition port_id_show :: "afu_pdata \<Rightarrow> world \<Rightarrow> u64 \<times> world" where
  "port_id_show pd w = fpga_port_id pd w"

definition ltr_show :: "afu_pdata \<Rightarrow> world \<Rightarrow> u64 \<times> world" where
  "ltr_show pd w =
     (case readq (port_hdr_reg pd ''control'') w of
        (csr, w1) \<Rightarrow> (get_field feature_port_control ''latency_tolerance'' csr, w1))"

definition ap1_event_show :: "afu_pdata \<Rightarrow> world \<Rightarrow> u64 \<times> world" where
  "ap1_event_show pd w =
     (case readq (port_hdr_reg pd ''status'') w of
        (csr, w1) \<Rightarrow> (get_field feature_port_status ''ap1_event'' csr, w1))"

definition ap1_event_store :: "afu_pdata \<Rightarrow> u8 res \<Rightarrow> world \<Rightarrow> unit res \<times> world" where
  "ap1_event_store pd parsed w =
     (case parsed of
        Inl e \<Rightarrow> (Inl e, w)
      | Inr ap1_event \<Rightarrow>
          if ap1_event \<noteq> 1 then (Inl EINVAL, w)
          else
            (case readq (port_hdr_reg pd ''status'') w of
               (csr, w1) \<Rightarrow>
                 (Inr (), writeq (set_field feature_port_status ''ap1_event'' (ucast ap1_event) csr)
                   (port_hdr_reg pd ''status'') w1)))"

definition ap2_event_show :: "afu_pdata \<Rightarrow> world \<Rightarrow> u64 \<times> world" where
  "ap2_event_show pd w =
     (case readq (port_hdr_reg pd ''status'') w of
        (csr, w1) \<Rightarrow> (get_field feature_port_status ''ap2_event'' csr, w1))"

definition ap2_event_store :: "afu_pdata \<Rightarrow> u8 res \<Rightarrow> world \<Rightarrow> unit res \<times> world" where
  "ap2_event_store pd parsed w =
     (case parsed of
        Inl e \<Rightarrow> (Inl e, w)
      | Inr ap2_event \<Rightarrow>
          if ap2_event \<noteq> 1 then (Inl EINVAL, w)
          else
            (case readq (port_hdr_reg pd ''status'') w of
               (csr, w1) \<Rightarrow>
                 (Inr (), writeq (set_field feature_port_status ''ap2_event'' (ucast ap2_event) csr)
                   (port_hdr_reg pd ''status'') w1)))"

definition power_state_show :: "afu_pdata \<Rightarrow> world \<Rightarrow> u64 \<times> world" where
  "power_state_show pd w =
     (case readq (port_hdr_reg pd ''status'') w of
        (csr, w1) \<Rightarrow> (get_field feature_port_status ''power_state'' csr, w1))"

definition userclk_freqcmd_show :: "afu_pdata \<Rightarrow> world \<Rightarrow> u64 \<times> world" where
  "userclk_freqcmd_show pd w = readq (port_hdr_reg pd ''user_clk_freq_cmd0'') w"

definition userclk_freqcmd_store :: "afu_pdata \<Rightarrow> u64 res \<Rightarrow> world \<Rightarrow> unit res \<times> world" where
  "userclk_freqcmd_store pd parsed w =
     (case parsed of
        Inl e \<Rightarrow> (Inl e, w)
      | Inr v \<Rightarrow> (Inr (), writeq v (port_hdr_reg pd ''user_clk_freq_cmd0'') w))"

definition userclk_freqcntrcmd_show :: "afu_pdata \<Rightarrow> world \<Rightarrow> u64 \<times> world" where
  "userclk_freqcntrcmd_show pd w = readq (port_hdr_reg pd ''user_clk_freq_cmd1'') w"

definition userclk_freqcntrcmd_store :: "afu_pdata \<Rightarrow> u64 res \<Rightarrow> world \<Rightarrow> unit res \<times> world" where
  "userclk_freqcntrcmd_store pd parsed w =
     (case parsed of
        Inl e \<Rightarrow> (Inl e, w)
      | Inr v \<Rightarrow> (Inr (), writeq v (port_hdr_reg pd ''user_clk_freq_cmd1'') w))"

definition userclk_freqsts_show :: "afu_pdata \<Rightarrow> world \<Rightarrow> u64 \<times> world" where
  "userclk_freqsts_show pd w = readq (port_hdr_reg pd ''user_clk_freq_sts0'') w"

definition userclk_freqcntrsts_show :: "afu_pdata \<Rightarrow> world \<Rightarrow> u64 \<times> world" where
  "userclk_freqcntrsts_show pd w = readq (port_hdr_reg pd ''user_clk_freq_sts1'') w"

subsection \<open>The structures of the ioctls\<close>

record fpga_port_region_info =
  rinfo_argsz :: u32
  rinfo_index :: u32
  rinfo_padding :: u32

record fpga_port_dma_map =
  dmap_argsz :: u32
  dmap_flags :: u32
  dmap_user_addr :: u64
  dmap_length :: u64

record fpga_port_dma_unmap =
  dunmap_argsz :: u32
  dunmap_flags :: u32
  dunmap_iova :: u64

record fpga_port_uafu_irq_set =
  uirq_argsz :: u32
  uirq_flags :: u32
  uirq_start :: u32
  uirq_count :: u32
  uirq_evtfd :: "int list"

datatype port_cmd =
  FPGA_GET_API_VERSION
| FPGA_CHECK_EXTENSION
| FPGA_PORT_GET_INFO "u32 option"             \<comment> \<open>the user's \<^verbatim>\<open>argsz\<close>\<close>
| FPGA_PORT_GET_REGION_INFO "fpga_port_region_info option"
| FPGA_PORT_DMA_MAP "fpga_port_dma_map option"
| FPGA_PORT_DMA_UNMAP "fpga_port_dma_unmap option"
| FPGA_PORT_RESET u64
| FPGA_PORT_UMSG_ENABLE u64
| FPGA_PORT_UMSG_DISABLE u64
| FPGA_PORT_UMSG_SET_MODE "fpga_port_umsg_cfg option"
| FPGA_PORT_UMSG_SET_BASE_ADDR "fpga_port_umsg_base_addr option"
| FPGA_PORT_ERR_SET_IRQ "fpga_port_err_irq_set option"
| FPGA_PORT_UAFU_SET_IRQ "fpga_port_uafu_irq_set option"
| FPGA_PORT_OTHER

subsection \<open>The sub-features\<close>

definition port_hdr_init :: "nat \<Rightarrow> afu_pdata \<Rightarrow> world \<Rightarrow> unit res \<times> afu_pdata \<times> world" where
  "port_hdr_init i pd w =
     (case fpga_port_reset pd w of
        (_, pd1, w1) \<Rightarrow> (case kstatus Sysfs_create [] w1 of (r, w2) \<Rightarrow> (r, pd1, w2)))"

definition port_hdr_uinit :: "nat \<Rightarrow> afu_pdata \<Rightarrow> world \<Rightarrow> afu_pdata \<times> world" where
  "port_hdr_uinit i pd w = (pd, kvoid Sysfs_remove [] w)"

definition port_hdr_ioctl ::
  "port_cmd \<Rightarrow> nat \<Rightarrow> afu_pdata \<Rightarrow> world \<Rightarrow> unit res \<times> afu_pdata \<times> world" where
  "port_hdr_ioctl cmd i pd w =
     (case cmd of
        FPGA_PORT_RESET arg \<Rightarrow> if arg = 0 then fpga_port_reset pd w else (Inl EINVAL, pd, w)
      | _ \<Rightarrow> (Inl ENODEV, pd, w))"

definition afu_id_show :: "afu_pdata \<Rightarrow> world \<Rightarrow> (u64 \<times> u64) res \<times> world" where
  "afu_id_show pd w =
     (let base = get_feature_ioaddr_by_index pd PORT_FEATURE_ID_UAFU;
          guid = reg_addr feature_port_header ''afu_header'' base in
      if pd_disable_count pd \<noteq> 0 then (Inl EBUSY, w)
      else
        (case readq guid w of
           (guidl, w1) \<Rightarrow> (case readq (guid + 8) w1 of (guidh, w2) \<Rightarrow> (Inr (guidh, guidl), w2))))"

definition FPGA_REGION_READ :: u32 where "FPGA_REGION_READ = 1"
definition FPGA_REGION_WRITE :: u32 where "FPGA_REGION_WRITE = 2"
definition FPGA_REGION_MMAP :: u32 where "FPGA_REGION_MMAP = 4"
definition FPGA_PORT_INDEX_UAFU :: u32 where "FPGA_PORT_INDEX_UAFU = 0"
definition FPGA_PORT_INDEX_STP :: u32 where "FPGA_PORT_INDEX_STP = 1"

definition port_afu_init ::
  "(int \<Rightarrow> u64 \<times> u64) \<Rightarrow> nat \<Rightarrow> afu_pdata \<Rightarrow> world \<Rightarrow> unit res \<times> afu_pdata \<times> world" where
  "port_afu_init rsrc i pd w =
     (case rsrc (f_resource_index (pd_features pd ! i)) of
        (start, sz) \<Rightarrow>
          (case afu_region_add pd FPGA_PORT_INDEX_UAFU sz start
                  (FPGA_REGION_READ OR FPGA_REGION_WRITE OR FPGA_REGION_MMAP) w of
             (Inl e, pd1, w1) \<Rightarrow> (Inl e, pd1, w1)
           | (Inr _, pd1, w1) \<Rightarrow> (case kstatus Sysfs_create [] w1 of (r, w2) \<Rightarrow> (r, pd1, w2))))"

definition port_afu_uinit :: "nat \<Rightarrow> afu_pdata \<Rightarrow> world \<Rightarrow> afu_pdata \<times> world" where
  "port_afu_uinit i pd w = (pd, kvoid Sysfs_remove [] w)"

text \<open>The array of eventfds is copied by \<^verbatim>\<open>memdup_user\<close>, which may fail.\<close>

definition port_afu_set_irq ::
  "nat \<Rightarrow> fpga_port_uafu_irq_set option \<Rightarrow> afu_pdata \<Rightarrow> world \<Rightarrow> unit res \<times> afu_pdata \<times> world" where
  "port_afu_set_irq i arg pd w =
     (case arg of
        None \<Rightarrow> (Inl EFAULT, pd, w)
      | Some hdr \<Rightarrow>
          if uirq_argsz hdr < 16 \<or> uirq_flags hdr \<noteq> 0 then (Inl EINVAL, pd, w)
          else if word_of_int (f_ctx_num (pd_features pd ! i)) < uirq_start hdr + uirq_count hdr \<or>
            uirq_start hdr + uirq_count hdr < uirq_start hdr \<or> uirq_count hdr = 0
          then (Inl EINVAL, pd, w)
          else
            (case kvalue Memdup_user [uint (uirq_count hdr) * 4] w of
               (Inl e, w1) \<Rightarrow> (Inl e, pd, w1)
             | (Inr ptr, w1) \<Rightarrow>
                 if afu_capability (the_afu pd) AND FPGA_PORT_CAP_UAFU_IRQ = 0
                 then (Inl ENODEV, pd, kvoid Kfree [ptr] w1)
                 else
                   (case msix_set_block_at i (uirq_start hdr) (uirq_count hdr)
                           (Some (uirq_evtfd hdr)) pd w1 of
                      (r, pd1, w2) \<Rightarrow> (r, pd1, kvoid Kfree [ptr] w2))))"

definition port_umsg_init :: "nat \<Rightarrow> afu_pdata \<Rightarrow> world \<Rightarrow> unit res \<times> afu_pdata \<times> world" where
  "port_umsg_init i pd w =
     (case port_umsg_get_num pd w of
        (n, w1) \<Rightarrow> (Inr (), set_afu ((the_afu pd)\<lparr>afu_num_umsgs := n\<rparr>) pd, w1))"

definition port_umsg_uinit :: "nat \<Rightarrow> afu_pdata \<Rightarrow> world \<Rightarrow> afu_pdata \<times> world" where
  "port_umsg_uinit i pd w = (pd, w)"

definition port_umsg_ioctl ::
  "port_cmd \<Rightarrow> nat \<Rightarrow> afu_pdata \<Rightarrow> world \<Rightarrow> unit res \<times> afu_pdata \<times> world" where
  "port_umsg_ioctl cmd i pd w =
     (case cmd of
        FPGA_PORT_UMSG_ENABLE arg \<Rightarrow>
          (case afu_umsg_ioctl_enable pd True arg w of (r, w1) \<Rightarrow> (r, pd, w1))
      | FPGA_PORT_UMSG_DISABLE arg \<Rightarrow>
          (case afu_umsg_ioctl_enable pd False arg w of (r, w1) \<Rightarrow> (r, pd, w1))
      | FPGA_PORT_UMSG_SET_MODE arg \<Rightarrow>
          (case afu_umsg_ioctl_set_mode pd arg w of (r, w1) \<Rightarrow> (r, pd, w1))
      | FPGA_PORT_UMSG_SET_BASE_ADDR arg \<Rightarrow> afu_umsg_ioctl_set_base_addr pd arg w
      | _ \<Rightarrow> (Inl ENODEV, pd, w))"

definition port_stp_init ::
  "(int \<Rightarrow> u64 \<times> u64) \<Rightarrow> nat \<Rightarrow> afu_pdata \<Rightarrow> world \<Rightarrow> unit res \<times> afu_pdata \<times> world" where
  "port_stp_init rsrc i pd w =
     (case rsrc (f_resource_index (pd_features pd ! i)) of
        (start, sz) \<Rightarrow>
          afu_region_add pd FPGA_PORT_INDEX_STP sz start
            (FPGA_REGION_READ OR FPGA_REGION_WRITE OR FPGA_REGION_MMAP) w)"

definition port_stp_uinit :: "nat \<Rightarrow> afu_pdata \<Rightarrow> world \<Rightarrow> afu_pdata \<times> world" where
  "port_stp_uinit i pd w = (pd, w)"

definition port_uint_init :: "nat \<Rightarrow> afu_pdata \<Rightarrow> world \<Rightarrow> unit res \<times> afu_pdata \<times> world" where
  "port_uint_init i pd w =
     (let n = f_ctx_num (pd_features pd ! i) in
      if n \<noteq> 0 then
        (Inr (), set_afu ((the_afu pd)
           \<lparr>afu_capability := afu_capability (the_afu pd) OR FPGA_PORT_CAP_UAFU_IRQ,
            afu_num_uafu_irqs := word_of_int n\<rparr>) pd, w)
      else (Inr (), pd, w))"

definition port_uint_uinit :: "nat \<Rightarrow> afu_pdata \<Rightarrow> world \<Rightarrow> afu_pdata \<times> world" where
  "port_uint_uinit i pd w = (pd, w)"

definition port_uint_ioctl ::
  "port_cmd \<Rightarrow> nat \<Rightarrow> afu_pdata \<Rightarrow> world \<Rightarrow> unit res \<times> afu_pdata \<times> world" where
  "port_uint_ioctl cmd i pd w =
     (case cmd of
        FPGA_PORT_UAFU_SET_IRQ arg \<Rightarrow> port_afu_set_irq i arg pd w
      | _ \<Rightarrow> (Inl ENODEV, pd, w))"

definition port_err_ioctl ::
  "port_cmd \<Rightarrow> nat \<Rightarrow> afu_pdata \<Rightarrow> world \<Rightarrow> unit res \<times> afu_pdata \<times> world" where
  "port_err_ioctl cmd i pd w =
     (case cmd of
        FPGA_PORT_ERR_SET_IRQ arg \<Rightarrow> port_err_set_irq i arg pd w
      | _ \<Rightarrow> (Inl ENODEV, pd, w))"

subsection \<open>The tables\<close>

type_synonym afu_ops = "(fpga_afu, port_cmd) feature_ops"

definition port_hdr_ops :: afu_ops where
  "port_hdr_ops = \<lparr>op_init = port_hdr_init, op_uinit = port_hdr_uinit,
     op_ioctl = Some port_hdr_ioctl, op_test = Some port_hdr_test\<rparr>"

definition port_afu_ops :: "(int \<Rightarrow> u64 \<times> u64) \<Rightarrow> afu_ops" where
  "port_afu_ops rsrc = \<lparr>op_init = port_afu_init rsrc, op_uinit = port_afu_uinit,
     op_ioctl = None, op_test = None\<rparr>"

definition port_err_ops :: afu_ops where
  "port_err_ops = \<lparr>op_init = port_err_init, op_uinit = port_err_uinit,
     op_ioctl = Some port_err_ioctl, op_test = Some port_err_test\<rparr>"

definition port_umsg_ops :: afu_ops where
  "port_umsg_ops = \<lparr>op_init = port_umsg_init, op_uinit = port_umsg_uinit,
     op_ioctl = Some port_umsg_ioctl, op_test = Some port_umsg_test\<rparr>"

definition port_stp_ops :: "(int \<Rightarrow> u64 \<times> u64) \<Rightarrow> afu_ops" where
  "port_stp_ops rsrc = \<lparr>op_init = port_stp_init rsrc, op_uinit = port_stp_uinit,
     op_ioctl = None, op_test = Some port_stp_test\<rparr>"

definition port_uint_ops :: afu_ops where
  "port_uint_ops = \<lparr>op_init = port_uint_init, op_uinit = port_uint_uinit,
     op_ioctl = Some port_uint_ioctl, op_test = None\<rparr>"

text \<open>The variables the drivers' \<^verbatim>\<open>ops\<close> pointers point to, by name.\<close>

definition port_ops :: "(int \<Rightarrow> u64 \<times> u64) \<Rightarrow> string \<Rightarrow> afu_ops" where
  "port_ops rsrc n =
     (if n = ''port_hdr_ops'' then port_hdr_ops
      else if n = ''port_afu_ops'' then port_afu_ops rsrc
      else if n = ''port_err_ops'' then port_err_ops
      else if n = ''port_umsg_ops'' then port_umsg_ops
      else if n = ''port_uint_ops'' then port_uint_ops
      else port_stp_ops rsrc)"

definition port_feature_drvs :: "feature_driver list" where
  "port_feature_drvs =
     [(''port_hdr'', ''port_hdr_ops''), (''port_uafu'', ''port_afu_ops''),
      (''port_err'', ''port_err_ops''), (''port_umsg'', ''port_umsg_ops''),
      (''port_uint'', ''port_uint_ops''), (''port_stp'', ''port_stp_ops'')]"

subsection \<open>The file operations\<close>

text \<open>The argument is whether the file is opened with \<^verbatim>\<open>O_EXCL\<close>.\<close>

definition afu_open :: "bool \<Rightarrow> afu_pdata \<Rightarrow> unit res \<times> afu_pdata" where
  "afu_open excl pd = (if excl then feature_dev_use_excl_begin pd else feature_dev_use_begin pd)"

text \<open>Everything the last close does; \<open>pd\<close> is the state after \<^verbatim>\<open>__feature_dev_use_end\<close>.\<close>

definition afu_last_close ::
  "rbtree_ops \<Rightarrow> afu_pdata \<Rightarrow> task \<Rightarrow> world \<Rightarrow> afu_pdata \<times> task \<times> world" where
  "afu_last_close rb pd tk w =
     (case msix_set_block_at PORT_FEATURE_ID_ERROR 0
             (word_of_int (f_ctx_num (pd_features pd ! PORT_FEATURE_ID_ERROR))) None pd w of
        (_, pd1, w1) \<Rightarrow>
      (case msix_set_block_at PORT_FEATURE_ID_UINT 0
             (word_of_int (f_ctx_num (pd_features pd1 ! PORT_FEATURE_ID_UINT))) None pd1 w1 of
        (_, pd2, w2) \<Rightarrow>
      (case afu_port_umsg_halt pd2 w2 of
        (pd3, w3) \<Rightarrow>
      (case raw_fpga_port_reset pd3 w3 of
        (_, pd4, w4) \<Rightarrow> afu_dma_region_destroy rb pd4 tk w4))))"

definition afu_release ::
  "rbtree_ops \<Rightarrow> afu_pdata \<Rightarrow> task \<Rightarrow> world \<Rightarrow> afu_pdata \<times> task \<times> world" where
  "afu_release rb pd tk w =
     (let pd1 = feature_dev_use_end pd in
      if pd_open_count pd1 = 0 then afu_last_close rb pd1 tk w else (pd1, tk, w))"

definition afu_ioctl_check_extension :: "unit res" where
  "afu_ioctl_check_extension = Inr ()"

definition afu_ioctl_get_info :: "u32 option \<Rightarrow> afu_pdata \<Rightarrow> world \<Rightarrow> unit res \<times> world" where
  "afu_ioctl_get_info arg pd w =
     (case arg of
        None \<Rightarrow> (Inl EFAULT, w)
      | Some argsz \<Rightarrow>
          if argsz < 24 then (Inl EINVAL, w)
          else
            (let afu = the_afu pd in
             copy_to_user [uint argsz, 0, uint (afu_capability afu), afu_num_regions afu,
               uint (afu_num_umsgs afu), uint (afu_num_uafu_irqs afu)] w))"

definition afu_ioctl_get_region_info ::
  "fpga_port_region_info option \<Rightarrow> afu_pdata \<Rightarrow> world \<Rightarrow> unit res \<times> world" where
  "afu_ioctl_get_region_info arg pd w =
     (case arg of
        None \<Rightarrow> (Inl EFAULT, w)
      | Some rinfo \<Rightarrow>
          if rinfo_argsz rinfo < 32 \<or> rinfo_padding rinfo \<noteq> 0 then (Inl EINVAL, w)
          else
            (case afu_get_region_by_index pd (rinfo_index rinfo) of
               Inl e \<Rightarrow> (Inl e, w)
             | Inr region \<Rightarrow>
                 copy_to_user [uint (rinfo_argsz rinfo), uint (reg_flags region),
                   uint (rinfo_index rinfo), 0, uint (reg_size region), uint (reg_offset region)] w))"

definition afu_ioctl_dma_map ::
  "rbtree_ops \<Rightarrow> fpga_port_dma_map option \<Rightarrow> afu_pdata \<Rightarrow> task \<Rightarrow> world \<Rightarrow>
   unit res \<times> afu_pdata \<times> task \<times> world" where
  "afu_ioctl_dma_map rb arg pd tk w =
     (case arg of
        None \<Rightarrow> (Inl EFAULT, pd, tk, w)
      | Some m \<Rightarrow>
          if dmap_argsz m < 32 \<or> dmap_flags m \<noteq> 0 then (Inl EINVAL, pd, tk, w)
          else
            (case afu_dma_map_region rb pd (dmap_user_addr m) (dmap_length m) tk w of
               (Inl e, pd1, tk1, w1) \<Rightarrow> (Inl e, pd1, tk1, w1)
             | (Inr iova, pd1, tk1, w1) \<Rightarrow>
                 (case copy_to_user [uint (dmap_argsz m), 0, uint (dmap_user_addr m),
                          uint (dmap_length m), uint iova] w1 of
                    (Inl e, w2) \<Rightarrow>
                      (case afu_dma_unmap_region rb pd1 iova tk1 w2 of
                         (_, pd2, tk2, w3) \<Rightarrow> (Inl e, pd2, tk2, w3))
                  | (Inr _, w2) \<Rightarrow> (Inr (), pd1, tk1, w2))))"

definition afu_ioctl_dma_unmap ::
  "rbtree_ops \<Rightarrow> fpga_port_dma_unmap option \<Rightarrow> afu_pdata \<Rightarrow> task \<Rightarrow> world \<Rightarrow>
   unit res \<times> afu_pdata \<times> task \<times> world" where
  "afu_ioctl_dma_unmap rb arg pd tk w =
     (case arg of
        None \<Rightarrow> (Inl EFAULT, pd, tk, w)
      | Some u \<Rightarrow>
          if dunmap_argsz u < 16 \<or> dunmap_flags u \<noteq> 0 then (Inl EINVAL, pd, tk, w)
          else afu_dma_unmap_region rb pd (dunmap_iova u) tk w)"

text \<open>The loop over the sub-features: the first that does not answer \<^verbatim>\<open>-ENODEV\<close> decides.\<close>

fun dispatch_ioctl ::
  "(string \<Rightarrow> ('p, 'c) feature_ops) \<Rightarrow> 'c \<Rightarrow> nat list \<Rightarrow> 'p feature_platform_data \<Rightarrow> world \<Rightarrow>
   unit res \<times> 'p feature_platform_data \<times> world" where
  "dispatch_ioctl tab cmd [] pd w = (Inl EINVAL, pd, w)"
| "dispatch_ioctl tab cmd (i # is) pd w =
     (case f_ops (pd_features pd ! i) of
        None \<Rightarrow> dispatch_ioctl tab cmd is pd w
      | Some ops \<Rightarrow>
          (case op_ioctl (tab ops) of
             None \<Rightarrow> dispatch_ioctl tab cmd is pd w
           | Some ioctl \<Rightarrow>
               (case ioctl cmd i pd w of
                  (r, pd1, w1) \<Rightarrow>
                    if r = Inl ENODEV then dispatch_ioctl tab cmd is pd1 w1 else (r, pd1, w1))))"

text \<open>\<^verbatim>\<open>FPGA_API_VERSION\<close> is 0, the value of success.\<close>

definition afu_ioctl ::
  "rbtree_ops \<Rightarrow> (int \<Rightarrow> u64 \<times> u64) \<Rightarrow> port_cmd \<Rightarrow> afu_pdata \<Rightarrow> task \<Rightarrow> world \<Rightarrow>
   unit res \<times> afu_pdata \<times> task \<times> world" where
  "afu_ioctl rb rsrc cmd pd tk w =
     (case cmd of
        FPGA_GET_API_VERSION \<Rightarrow> (Inr (), pd, tk, w)
      | FPGA_CHECK_EXTENSION \<Rightarrow> (afu_ioctl_check_extension, pd, tk, w)
      | FPGA_PORT_GET_INFO arg \<Rightarrow> (case afu_ioctl_get_info arg pd w of (r, w1) \<Rightarrow> (r, pd, tk, w1))
      | FPGA_PORT_GET_REGION_INFO arg \<Rightarrow>
          (case afu_ioctl_get_region_info arg pd w of (r, w1) \<Rightarrow> (r, pd, tk, w1))
      | FPGA_PORT_DMA_MAP arg \<Rightarrow> afu_ioctl_dma_map rb arg pd tk w
      | FPGA_PORT_DMA_UNMAP arg \<Rightarrow> afu_ioctl_dma_unmap rb arg pd tk w
      | _ \<Rightarrow>
          (case dispatch_ioctl (port_ops rsrc) cmd [0..<pd_num pd] pd w of
             (r, pd1, w1) \<Rightarrow> (r, pd1, tk, w1)))"

record vm_area =
  vm_start :: u64
  vm_end :: u64
  vm_pgoff :: u64
  vm_shared :: bool
  vm_read :: bool
  vm_write :: bool

definition afu_mmap :: "vm_area \<Rightarrow> afu_pdata \<Rightarrow> world \<Rightarrow> unit res \<times> world" where
  "afu_mmap vma pd w =
     (let sz = vm_end vma - vm_start vma; offset = push_bit PAGE_SHIFT (vm_pgoff vma) in
      if \<not> vm_shared vma \<and> vm_write vma then (Inl EINVAL, w)
      else
        (case afu_get_region_by_offset pd offset sz of
           Inl e \<Rightarrow> (Inl e, w)
         | Inr region \<Rightarrow>
             if reg_flags region AND FPGA_REGION_MMAP = 0 then (Inl EINVAL, w)
             else if vm_read vma \<and> reg_flags region AND FPGA_REGION_READ = 0 then (Inl EPERM, w)
             else if vm_write vma \<and> reg_flags region AND FPGA_REGION_WRITE = 0 then (Inl EPERM, w)
             else
               kstatus Remap_pfn_range [uint (vm_start vma),
                 uint (drop_bit PAGE_SHIFT (reg_phys region + (offset - reg_offset region))),
                 uint sz] w))"

subsection \<open>Probe and remove\<close>

definition afu_dev_init :: "afu_pdata \<Rightarrow> world \<Rightarrow> unit res \<times> afu_pdata \<times> world" where
  "afu_dev_init pd w =
     (case kvalue Kzalloc [] w of
        (Inl _, w1) \<Rightarrow> (Inl ENOMEM, pd, w1)
      | (Inr self, w1) \<Rightarrow>
          (Inr (), afu_dma_region_init (afu_region_init
             (fpga_pdata_set_private pd (Some (zero_afu\<lparr>afu_self := self\<rparr>)))), w1))"

definition afu_dev_destroy ::
  "rbtree_ops \<Rightarrow> afu_pdata \<Rightarrow> task \<Rightarrow> world \<Rightarrow> afu_pdata \<times> task \<times> world" where
  "afu_dev_destroy rb pd tk w =
     (case afu_region_destroy pd w of
        (pd1, w1) \<Rightarrow>
          (case afu_dma_region_destroy rb pd1 tk w1 of
             (pd2, tk2, w2) \<Rightarrow>
               (fpga_pdata_set_private pd2 None, tk2, kvoid Devm_kfree [afu_self (the_afu pd)] w2)))"

definition afu_probe ::
  "rbtree_ops \<Rightarrow> (int \<Rightarrow> u64 \<times> u64) \<Rightarrow> u32 \<Rightarrow> afu_pdata \<Rightarrow> task \<Rightarrow> world \<Rightarrow>
   unit res \<times> afu_pdata \<times> task \<times> world" where
  "afu_probe rb rsrc devt pd tk w =
     (case afu_dev_init pd w of
        (Inl e, pd1, w1) \<Rightarrow> (Inl e, pd1, tk, w1)
      | (Inr _, pd1, w1) \<Rightarrow>
          (case fpga_dev_feature_init (port_ops rsrc) port_feature_drvs pd1 w1 of
             (Inl e, pd2, w2) \<Rightarrow>
               (case afu_dev_destroy rb pd2 tk w2 of (pd3, tk3, w3) \<Rightarrow> (Inl e, pd3, tk3, w3))
           | (Inr _, pd2, w2) \<Rightarrow>
               (case fpga_register_dev_ops devt w2 of
                  (Inl e, w3) \<Rightarrow>
                    (case fpga_dev_feature_uinit (port_ops rsrc) pd2 w3 of
                       (pd3, w4) \<Rightarrow>
                         (case afu_dev_destroy rb pd3 tk w4 of
                            (pd4, tk4, w5) \<Rightarrow> (Inl e, pd4, tk4, w5)))
                | (Inr _, w3) \<Rightarrow> (Inr (), pd2, tk, w3))))"

definition afu_remove ::
  "rbtree_ops \<Rightarrow> (int \<Rightarrow> u64 \<times> u64) \<Rightarrow> u32 \<Rightarrow> afu_pdata \<Rightarrow> task \<Rightarrow> world \<Rightarrow>
   afu_pdata \<times> task \<times> world" where
  "afu_remove rb rsrc devt pd tk w =
     (case fpga_dev_feature_uinit (port_ops rsrc) pd w of
        (pd1, w1) \<Rightarrow> afu_dev_destroy rb pd1 tk (fpga_unregister_dev_ops devt w1))"

subsection \<open>The contract of the sub-features\<close>

lemma same_table_set_afu [simp]: "same_table pd (set_afu afu pd)"
  by (simp add: same_table_def set_afu_def fpga_pdata_set_private_def)

lemma disable_count_only:
  "raw_fpga_port_disable pd w = (r, pd', w') \<Longrightarrow> pd' = pd\<lparr>pd_disable_count := pd_disable_count pd + 1\<rparr>"
  "raw_fpga_port_enable pd w = (pd', w') \<Longrightarrow> pd' = pd\<lparr>pd_disable_count := pd_disable_count pd - 1\<rparr>"
  by (auto simp: raw_fpga_port_disable_def raw_fpga_port_enable_def Let_def
      split: if_splits prod.splits sum.splits)

lemma reset_count_only:
  "raw_fpga_port_reset pd w = (r, pd', w') \<Longrightarrow> \<exists>n. pd' = pd\<lparr>pd_disable_count := n\<rparr>"
  by (auto simp: raw_fpga_port_reset_def dest!: disable_count_only split: sum.splits prod.splits
      intro: exI [where x = "pd_disable_count pd"])

lemma same_table_count [simp]: "same_table pd (pd\<lparr>pd_disable_count := n\<rparr>)"
  by (simp add: same_table_def)

lemma region_add_table: "afu_region_add pd i sz ph fl w = (r, pd', w') \<Longrightarrow> same_table pd pd'"
  by (auto simp: afu_region_add_def Let_def split: sum.splits prod.splits if_splits)

lemma port_init_table:
  "op_init (port_ops rsrc ops) i pd w = (r, pd', w') \<Longrightarrow> same_table pd pd'"
  by (auto simp: port_ops_def port_hdr_ops_def port_afu_ops_def port_err_ops_def port_umsg_ops_def
      port_uint_ops_def port_stp_ops_def port_hdr_init_def port_afu_init_def port_err_init_def
      port_umsg_init_def port_uint_init_def port_stp_init_def fpga_port_reset_def
      add_capability_def Let_def
      dest!: reset_count_only region_add_table split: if_splits prod.splits sum.splits)

lemma port_uinit_table:
  "op_uinit (port_ops rsrc ops) i pd w = (pd', w') \<Longrightarrow> same_table pd pd'"
  by (auto simp: port_ops_def port_hdr_ops_def port_afu_ops_def port_err_ops_def port_umsg_ops_def
      port_uint_ops_def port_stp_ops_def port_hdr_uinit_def port_afu_uinit_def port_err_uinit_def
      port_umsg_uinit_def port_uint_uinit_def port_stp_uinit_def split: if_splits)

lemma port_test_table:
  "op_test (port_ops rsrc ops) = Some t \<Longrightarrow> t i pd w = (r, pd', w') \<Longrightarrow> same_table pd pd'"
  by (auto simp: port_ops_def port_hdr_ops_def port_afu_ops_def port_err_ops_def port_umsg_ops_def
      port_uint_ops_def port_stp_ops_def port_hdr_test_def port_err_test_def port_umsg_test_def
      port_stp_test_def split: if_splits)

interpretation port_features: feature_ops_frame "port_ops rsrc" for rsrc
  by unfold_locales (blast intro: port_init_table port_uinit_table port_test_table)+

lemma destroy_table:
  "destroy_dma_regions rb rs pd tk w = (pd', tk', w') \<Longrightarrow> same_table pd pd'"
proof (induction rs arbitrary: pd tk w)
  case (Cons r rs)
  have "same_table pd (afu_dma_region_remove rb pd r)"
    by (simp add: afu_dma_region_remove_def Let_def)
  with Cons show ?case
    by (fastforce simp: Let_def split: prod.splits intro: same_table_trans)
qed simp

lemma same_table_private [simp]: "same_table pd (fpga_pdata_set_private pd p)"
  by (simp add: same_table_def fpga_pdata_set_private_def)

lemma dev_destroy_table:
  "afu_dev_destroy rb pd tk w = (pd', tk', w') \<Longrightarrow> same_table pd pd' \<and> pd_private pd' = None"
  by (auto simp: afu_dev_destroy_def afu_region_destroy_def afu_dma_region_destroy_def
      fpga_pdata_set_private_def same_table_def set_afu_def dest!: destroy_table split: prod.splits)

lemma dev_init_table:
  "afu_dev_init pd w = (r, pd', w') \<Longrightarrow> same_table pd pd' \<and> (r \<noteq> Inr () \<longrightarrow> pd' = pd)"
  by (auto simp: afu_dev_init_def afu_dma_region_init_def afu_region_init_def same_table_def
      set_afu_def fpga_pdata_set_private_def split: sum.splits prod.splits)

text \<open>The sub-features of a port after its data has been initialised, and after the way back.\<close>

lemma port_features_ops:
  assumes i: "afu_dev_init pd w = (r0, pd1, w1)"
    and f: "fpga_dev_feature_init (port_ops rsrc) port_feature_drvs pd1 w1 = (r, pd2, w2)"
    and num: "pd_num pd = length (pd_features pd)" and fresh: "\<forall>j < pd_num pd. ops_of pd j = None"
  shows "pd_num pd2 = pd_num pd" "pd_num pd2 = length (pd_features pd2)"
    "\<forall>j < pd_num pd. ops_of pd2 j =
       (case r of Inl _ \<Rightarrow> None | Inr _ \<Rightarrow> Option.bind (name_of pd j) (map_of port_feature_drvs))"
proof -
  have pd1: "pd_num pd1 = pd_num pd" "pd_num pd1 = length (pd_features pd1)"
    and o1: "\<And>j. j < pd_num pd \<Longrightarrow> ops_of pd1 j = None \<and> name_of pd1 j = name_of pd j"
    using dev_init_table [OF i] num fresh same_table_length [of pd pd1] same_table_ops [of pd pd1]
      same_table_names [of pd pd1] by (auto simp: same_table_def same_names_def)
  have dr: "distinct (map fst port_feature_drvs)" by (simp add: port_feature_drvs_def)
  note c = port_features.feature_init_contract [OF f pd1(2) dr]
  then show "pd_num pd2 = pd_num pd" "pd_num pd2 = length (pd_features pd2)"
    using pd1 by (auto simp: same_names_def)
  show "\<forall>j < pd_num pd. ops_of pd2 j =
       (case r of Inl _ \<Rightarrow> None | Inr _ \<Rightarrow> Option.bind (name_of pd j) (map_of port_feature_drvs))"
    using c pd1(1) o1 by (cases r) (auto split: option.splits)
qed

lemma port_undo_ops:
  assumes u: "fpga_dev_feature_uinit (port_ops rsrc) pd w = (pd1, w1)"
    and d: "afu_dev_destroy rb pd1 tk w1 = (pd2, tk2, w2)" and num: "pd_num pd = length (pd_features pd)"
  shows "\<forall>j < pd_num pd. ops_of pd2 j = None"
proof -
  note un = port_features.feature_uinit_all [OF u num]
  moreover have "length (pd_features pd1) = pd_num pd" using un num by (simp add: same_names_def)
  ultimately show ?thesis using same_table_ops [OF conjunct1 [OF dev_destroy_table [OF d]]] by simp
qed

text \<open>
  C27. Probing a port either fails with no sub-feature initialised, or succeeds with every
  sub-feature that was enumerated under a name of the driver table bound to the operations the
  table gives for it, and no other.
\<close>

theorem afu_probe_all_or_nothing:
  assumes "afu_probe rb rsrc devt pd tk w = (r, pd', tk', w')"
    and "pd_num pd = length (pd_features pd)" and "\<forall>j < pd_num pd. ops_of pd j = None"
  shows "\<forall>j < pd_num pd. ops_of pd' j =
    (case r of Inl _ \<Rightarrow> None
     | Inr _ \<Rightarrow> Option.bind (name_of pd j) (map_of port_feature_drvs))"
proof -
  obtain r1 pd1 w1 where i: "afu_dev_init pd w = (r1, pd1, w1)" by (metis surj_pair)
  obtain r2 pd2 w2 where f: "fpga_dev_feature_init (port_ops rsrc) port_feature_drvs pd1 w1 =
      (r2, pd2, w2)" by (metis surj_pair)
  note ops = port_features_ops [OF i f assms(2,3)]
  show ?thesis
  proof (cases r1)
    case (Inl e)
    with assms(1) i dev_init_table [OF i] have "r = Inl e" "pd' = pd" by (auto simp: afu_probe_def)
    with assms(3) show ?thesis by simp
  next
    case r1: (Inr u)
    show ?thesis
    proof (cases r2)
      case (Inl e)
      obtain pd3 tk3 w3 where d: "afu_dev_destroy rb pd2 tk w2 = (pd3, tk3, w3)" by (metis surj_pair)
      have "r = Inl e" "pd' = pd3" using assms(1) i r1 f Inl d by (auto simp: afu_probe_def)
      with ops Inl same_table_ops [OF conjunct1 [OF dev_destroy_table [OF d]]] show ?thesis by simp
    next
      case r2: (Inr v)
      obtain r3 w3 where g: "fpga_register_dev_ops devt w2 = (r3, w3)" by (metis surj_pair)
      show ?thesis
      proof (cases r3)
        case (Inl e)
        obtain pd3 w4 where u: "fpga_dev_feature_uinit (port_ops rsrc) pd2 w3 = (pd3, w4)"
          by (metis surj_pair)
        obtain pd4 tk4 w5 where d: "afu_dev_destroy rb pd3 tk w4 = (pd4, tk4, w5)"
          by (metis surj_pair)
        have "r = Inl e" "pd' = pd4"
          using assms(1) i r1 f r2 g Inl u d by (auto simp: afu_probe_def)
        with port_undo_ops [OF u d ops(2)] ops(1) show ?thesis by simp
      next
        case (Inr v')
        then have "r = Inr ()" "pd' = pd2"
          using assms(1) i r1 f r2 g by (auto simp: afu_probe_def)
        with ops(3) r2 show ?thesis by simp
      qed
    qed
  qed
qed

text \<open>A port with the six sub-features enumerated, none of them initialised.\<close>

definition enumerated_port :: afu_pdata where
  "enumerated_port = empty_pdata
     \<lparr>pd_num := 6, pd_features := map (\<lambda>n. zero_feature\<lparr>f_name := Some n\<rparr>)
        [''port_hdr'', ''port_err'', ''port_umsg'', ''port_uint'', ''port_stp'', ''port_uafu'']\<rparr>"

theorem afu_probe_all_or_nothing_witness:
  "map (ops_of (fst (snd (afu_probe bst_ops (\<lambda>_. (0, 0x1000)) 0 enumerated_port free_task
      (quiet_world (\<lambda>_. 0x14)))))) [0..<6] =
    map (\<lambda>j. case fst (afu_probe bst_ops (\<lambda>_. (0, 0x1000)) 0 enumerated_port free_task
      (quiet_world (\<lambda>_. 0x14))) of
       Inl _ \<Rightarrow> None
     | Inr _ \<Rightarrow> Option.bind (name_of enumerated_port j) (map_of port_feature_drvs)) [0..<6]"
proof -
  obtain r pd' tk' w' where run: "afu_probe bst_ops (\<lambda>_. (0, 0x1000)) 0 enumerated_port free_task
      (quiet_world (\<lambda>_. 0x14)) = (r, pd', tk', w')" by (metis surj_pair)
  have pre: "pd_num enumerated_port = length (pd_features enumerated_port)"
    "\<forall>j < pd_num enumerated_port. ops_of enumerated_port j = None"
    by (simp_all add: enumerated_port_def ops_of_def zero_feature_def empty_pdata_def
        less_Suc_eq numeral_eq_Suc)
  have num: "pd_num enumerated_port = 6" by (simp add: enumerated_port_def)
  show ?thesis
    using afu_probe_all_or_nothing [OF run pre] unfolding run num by (simp only: map_eq_conv set_upt fst_conv snd_conv) simp
qed

subsection \<open>Mapping the regions\<close>

lemma mmap_success:
  assumes "afu_mmap vma pd w = (Inr (), w')"
  shows "\<exists>region. afu_get_region_by_offset pd (push_bit PAGE_SHIFT (vm_pgoff vma))
      (vm_end vma - vm_start vma) = Inr region \<and>
    reg_flags region AND FPGA_REGION_MMAP \<noteq> 0 \<and>
    (vm_read vma \<longrightarrow> reg_flags region AND FPGA_REGION_READ \<noteq> 0) \<and>
    (vm_write vma \<longrightarrow> vm_shared vma \<and> reg_flags region AND FPGA_REGION_WRITE \<noteq> 0) \<and>
    (\<exists>vs. w' = emit (Call Remap_pfn_range [uint (vm_start vma), uint (drop_bit PAGE_SHIFT
       (reg_phys region + (push_bit PAGE_SHIFT (vm_pgoff vma) - reg_offset region))),
       uint (vm_end vma - vm_start vma)] (Inr vs)) w)"
  using assms
  by (auto simp: afu_mmap_def Let_def kstatus_def kcall_def split: sum.splits if_splits)

text \<open>An address and its offset in the page.\<close>

lemma page_base_eq: "push_bit PAGE_SHIFT (drop_bit PAGE_SHIFT x) = x - take_bit PAGE_SHIFT (x :: u64)"
  using bits_ident [of PAGE_SHIFT x] by (simp add: algebra_simps)

lemma page_base_add:
  fixes x y :: u64
  assumes "take_bit PAGE_SHIFT y = 0"
  shows "push_bit PAGE_SHIFT (drop_bit PAGE_SHIFT (x + y)) = push_bit PAGE_SHIFT (drop_bit PAGE_SHIFT x) + y"
proof -
  have "unat y mod 4096 = 0"
    using arg_cong [OF assms, of unat] unfolding unsigned_take_bit_eq take_bit_nat_def by (simp add: PAGE_SHIFT_def)
  then have "(unat x + unat y) mod 4096 = unat x mod 4096"
    by (simp add: mod_0_imp_dvd mod_add_right_eq [symmetric, of "unat x"])
  then have "unat (take_bit PAGE_SHIFT (x + y)) = unat (take_bit PAGE_SHIFT x)"
    unfolding unsigned_take_bit_eq take_bit_nat_def by (simp add: PAGE_SHIFT_def unat_word_ariths mod_mod_cancel)
  then show ?thesis by (simp add: page_base_eq word_unat_eq_iff [symmetric])
qed

text \<open>
  C22. A successful mapping of a non-empty range of the port's file that does not wrap around the
  64-bit offsets maps physical pages of one region of the port, with the access the region allows: the
  mapped range starts \<open>k\<close> bytes, a multiple of the page size, after the start of the page that holds the
  physical address of the region, and is no longer than what the region has after its first \<open>k\<close> bytes.
  So it lies in the region when the physical address of the region is that of a page and the region does
  not wrap around; the driver, which gets the address from the port's header, checks neither.
\<close>

theorem mmap_stays_in_region:
  assumes "afu_mmap vma pd w = (Inr (), w')" and "region_inv (the_afu pd)"
    and "unat (push_bit PAGE_SHIFT (vm_pgoff vma)) + unat (vm_end vma - vm_start vma) < 2 ^ 64"
    and "vm_end vma \<noteq> vm_start vma"
  shows "\<exists>r \<in> set (afu_regions (the_afu pd)). \<exists>pfn k vs.
    w' = emit (Call Remap_pfn_range
      [uint (vm_start vma), int pfn, uint (vm_end vma - vm_start vma)] (Inr vs)) w \<and>
    push_bit PAGE_SHIFT (of_nat pfn) = push_bit PAGE_SHIFT (drop_bit PAGE_SHIFT (reg_phys r)) + of_nat k \<and>
    4096 dvd k \<and> k + unat (vm_end vma - vm_start vma) \<le> unat (reg_size r) \<and>
    unat (reg_offset r) + k = unat (push_bit PAGE_SHIFT (vm_pgoff vma)) \<and>
    (PAGE_ALIGNED (reg_phys r) \<and> unat (reg_phys r) + unat (reg_size r) < 2 ^ 64 \<longrightarrow>
      unat (reg_phys r) \<le> pfn * 4096 \<and>
      pfn * 4096 + unat (vm_end vma - vm_start vma) \<le> unat (reg_phys r) + unat (reg_size r)) \<and>
    (vm_read vma \<longrightarrow> reg_flags r AND FPGA_REGION_READ \<noteq> 0) \<and>
    (vm_write vma \<longrightarrow> vm_shared vma \<and> reg_flags r AND FPGA_REGION_WRITE \<noteq> 0)"
proof -
  let ?off = "push_bit PAGE_SHIFT (vm_pgoff vma)" and ?sz = "vm_end vma - vm_start vma"
  obtain r vs where s: "afu_get_region_by_offset pd ?off ?sz = Inr r"
    "vm_read vma \<longrightarrow> reg_flags r AND FPGA_REGION_READ \<noteq> 0"
    "vm_write vma \<longrightarrow> vm_shared vma \<and> reg_flags r AND FPGA_REGION_WRITE \<noteq> 0"
    "w' = emit (Call Remap_pfn_range [uint (vm_start vma), uint (drop_bit PAGE_SHIFT
       (reg_phys r + (?off - reg_offset r))), uint ?sz] (Inr vs)) w"
    using mmap_success [OF assms(1)] by blast
  define k where "k = unat ?off - unat (reg_offset r)"
  define pfn where "pfn = unat (drop_bit PAGE_SHIFT (reg_phys r + (?off - reg_offset r)))"
  have r: "r \<in> set (afu_regions (the_afu pd))" "region_covers r ?off ?sz"
    using region_lookup [OF assms(2,3), of r] s(1) assms(4) by simp_all
  have k: "unat (?off - reg_offset r) = k" "unat (reg_offset r) + k = unat ?off"
    using r(2) by (simp_all add: k_def region_covers_def unat_sub word_le_nat_alt)
  then have kw: "?off - reg_offset r = of_nat k" by (metis of_nat_unat ucast_id)
  have "4096 dvd unat ?off"
    unfolding PAGE_SHIFT_def unsigned_push_bit_eq
    by (simp add: push_bit_eq_mult take_bit_eq_mod dvd_mod)
  then have dvd: "4096 dvd k"
    using assms(2) r regions_layout_dvd by (auto simp: region_inv_def k_def)
  then obtain m where "k = 4096 * m" by (elim dvdE)
  then have "(of_nat k :: u64) = push_bit PAGE_SHIFT (of_nat m)" by (simp add: PAGE_SHIFT_def push_bit_eq_mult)
  then have low: "take_bit PAGE_SHIFT (of_nat k :: u64) = 0" by (simp add: take_bit_push_bit)
  have base: "push_bit PAGE_SHIFT (of_nat pfn) = push_bit PAGE_SHIFT (drop_bit PAGE_SHIFT (reg_phys r)) + of_nat k"
    unfolding pfn_def kw of_nat_unat by (simp add: page_base_add [OF low])
  have inside: "unat (reg_phys r) \<le> pfn * 4096 \<and> pfn * 4096 + unat ?sz \<le> unat (reg_phys r) + unat (reg_size r)"
    if al: "PAGE_ALIGNED (reg_phys r)" "unat (reg_phys r) + unat (reg_size r) < 2 ^ 64"
  proof -
    have phys: "unat (reg_phys r + (?off - reg_offset r)) = unat (reg_phys r) + k"
      using al(2) r(2) k(1) by (intro trans [OF unat_add64]) (auto simp: region_covers_def k_def)
    have "4096 dvd unat (reg_phys r) + k"
      using al(1) dvd by (simp add: PAGE_ALIGNED_dvd)
    then have "pfn * 4096 = unat (reg_phys r) + k"
      unfolding pfn_def unat_drop_bit_eq phys by (simp add: PAGE_SHIFT_def drop_bit_eq_div)
    then show ?thesis using r(2) by (auto simp: region_covers_def k_def)
  qed
  have fits: "k + unat ?sz \<le> unat (reg_size r)"
    using r(2) by (auto simp: region_covers_def k_def)
  show ?thesis
    by (rule bexI [OF _ r(1)], rule exI [of _ pfn], rule exI [of _ k], rule exI [of _ vs])
      (use s base dvd fits k(2) inside in \<open>simp add: pfn_def\<close>)
qed

text \<open>A mapping of two pages from offset \<open>0x1000\<close> of a port with one region.\<close>

definition two_pages :: vm_area where
  "two_pages = \<lparr>vm_start = 0x7000, vm_end = 0x9000, vm_pgoff = 1, vm_shared = True,
     vm_read = True, vm_write = True\<rparr>"

definition afu_dev_mmap :: afu_pdata where
  "afu_dev_mmap = fst (snd (afu_region_add afu_dev 0 0x40000 0xF0000000 7 (quiet_world (\<lambda>_. 0))))"

lemma afu_dev_mmap_regions:
  "afu_regions (the_afu afu_dev_mmap) =
     [\<lparr>reg_self = 0, reg_index = 0, reg_flags = 7, reg_size = 0x40000, reg_offset = 0,
       reg_phys = 0xF0000000\<rparr>]"
  by (simp add: afu_dev_mmap_def afu_region_add_def afu_dev_def kvalue_def kcall_def ret_val_def
      quiet_world_def zero_afu_def Let_def get_region_by_index_def)

lemma afu_dev_mmap_inv: "region_inv (the_afu afu_dev_mmap)"
proof -
  obtain r pd' w' where
    run: "afu_region_add afu_dev 0 0x40000 0xF0000000 7 (quiet_world (\<lambda>_. 0)) = (r, pd', w')"
    by (metis surj_pair)
  from region_add_inv [OF run] run show ?thesis
    by (simp add: afu_dev_mmap_def afu_dev_def) (simp add: zero_afu_def)
qed

lemma afu_dev_mmap_run:
  "afu_mmap two_pages afu_dev_mmap (quiet_world (\<lambda>_. 0)) = (Inr (), emit (Call Remap_pfn_range
     [0x7000, 0xF0001, 0x2000] (Inr [])) (quiet_world (\<lambda>_. 0)))"
  by (simp add: afu_mmap_def two_pages_def afu_get_region_by_offset_def afu_dev_mmap_regions
      FPGA_REGION_MMAP_def FPGA_REGION_READ_def FPGA_REGION_WRITE_def kstatus_def kcall_def
      Let_def quiet_world_def PAGE_SHIFT_def)

theorem mmap_stays_in_region_witness:
  "\<exists>r \<in> set (afu_regions (the_afu afu_dev_mmap)). \<exists>pfn vs.
    Call Remap_pfn_range [0x7000, 0xF0001, 0x2000] (Inr []) =
      Call Remap_pfn_range [0x7000, int pfn, 0x2000] (Inr vs) \<and>
    unat (reg_phys r) \<le> pfn * 4096 \<and>
    pfn * 4096 + 0x2000 \<le> unat (reg_phys r) + unat (reg_size r)"
proof -
  have "unat (push_bit PAGE_SHIFT (vm_pgoff two_pages)) + unat (vm_end two_pages - vm_start two_pages)
      < 2 ^ 64" "vm_end two_pages \<noteq> vm_start two_pages"
    by (simp_all add: two_pages_def PAGE_SHIFT_def)
  moreover have "\<forall>r \<in> set (afu_regions (the_afu afu_dev_mmap)). PAGE_ALIGNED (reg_phys r) \<and>
      unat (reg_phys r) + unat (reg_size r) < 2 ^ 64"
    by (simp add: afu_dev_mmap_regions PAGE_ALIGNED_def PAGE_SIZE_def)
  ultimately show ?thesis
    using mmap_stays_in_region [OF afu_dev_mmap_run afu_dev_mmap_inv]
    by (fastforce simp: two_pages_def emit_inject)
qed

text \<open>
  A mapping whose offset is the last page of the 64-bit offset space and whose size is two
  pages passes the check of every port with a region of at least a page, although no region
  contains it: the driver maps physical pages that start outside the region it found.
\<close>

lemma mmap_wrapped_range_accepted:
  assumes "region_inv (the_afu pd)" and "q \<in> set (afu_regions (the_afu pd))"
    and "0x1000 \<le> reg_size q"
    and "\<forall>r \<in> set (afu_regions (the_afu pd)). reg_flags r = 7"
    and "vm_pgoff vma = mask 52" and "vm_end vma - vm_start vma = 0x2000" and "vm_shared vma"
  shows "\<exists>r \<in> set (afu_regions (the_afu pd)). \<not> region_covers r (- 0x1000) 0x2000 \<and>
    afu_mmap vma pd w = kstatus Remap_pfn_range [uint (vm_start vma),
      uint (drop_bit PAGE_SHIFT (reg_phys r + (- 0x1000 - reg_offset r))), 0x2000] w"
proof -
  have lay: "regions_layout (afu_regions (the_afu pd)) (unat (afu_region_cur_offset (the_afu pd)))"
    using assms(1) by (simp add: region_inv_def)
  have bnd: "unat (reg_offset r) + unat (reg_size r) < 2 ^ 64"
    if "r \<in> set (afu_regions (the_afu pd))" for r
    using regions_layout_bound [OF lay that] page_ceil_ge [of "unat (reg_size r)"]
      unat_u64_less [of "afu_region_cur_offset (the_afu pd)"] by linarith
  have big: "4096 \<le> unat (reg_size q)"
    using assms(3) by (simp add: word_le_nat_alt)
  have off: "push_bit PAGE_SHIFT (vm_pgoff vma) = (- 0x1000 :: u64)"
    using assms(5) by (simp add: PAGE_SHIFT_def mask_eq_exp_minus_1)
  have m: "unat (- 0x1000 :: u64) = 2 ^ 64 - 4096" by simp
  have "reg_offset q \<le> - 0x1000" unfolding word_le_nat_alt m using bnd [OF assms(2)] big by linarith
  moreover have "- 0x1000 + 0x2000 \<le> reg_offset q + reg_size q"
    using unat_add64 [OF bnd [OF assms(2)]] big by (simp add: word_le_nat_alt)
  ultimately have "find_region_offset (afu_regions (the_afu pd)) (- 0x1000) 0x2000 \<noteq> None"
    using find_region_offset_None [of "afu_regions (the_afu pd)" "- 0x1000" "0x2000"] assms(2) by blast
  then obtain r where r: "find_region_offset (afu_regions (the_afu pd)) (- 0x1000) 0x2000 = Some r"
    by blast
  then have mem: "r \<in> set (afu_regions (the_afu pd))" using find_region_offset_Some by blast
  have "\<not> region_covers r (- 0x1000) 0x2000"
    using bnd [OF mem] by (simp add: region_covers_def)
  moreover have "reg_flags r = 7" using assms(4) mem by blast
  then have "afu_mmap vma pd w = kstatus Remap_pfn_range [uint (vm_start vma),
      uint (drop_bit PAGE_SHIFT (reg_phys r + (- 0x1000 - reg_offset r))), 0x2000] w"
    using r assms(6,7) off by (simp add: afu_mmap_def Let_def afu_get_region_by_offset_def
        FPGA_REGION_MMAP_def FPGA_REGION_READ_def FPGA_REGION_WRITE_def)
  ultimately show ?thesis using mem by blast
qed

lemma mmap_wrapped_range_accepted_example:
  "afu_mmap (two_pages\<lparr>vm_pgoff := mask 52\<rparr>) afu_dev_mmap (quiet_world (\<lambda>_. 0)) =
     kstatus Remap_pfn_range [0x7000, 0xEFFFF, 0x2000] (quiet_world (\<lambda>_. 0))"
proof -
  obtain r where "r \<in> set (afu_regions (the_afu afu_dev_mmap))"
    "afu_mmap (two_pages\<lparr>vm_pgoff := mask 52\<rparr>) afu_dev_mmap (quiet_world (\<lambda>_. 0)) =
      kstatus Remap_pfn_range [uint (vm_start two_pages),
      uint (drop_bit PAGE_SHIFT (reg_phys r + (- 0x1000 - reg_offset r))), 0x2000] (quiet_world (\<lambda>_. 0))"
    using mmap_wrapped_range_accepted [OF afu_dev_mmap_inv, of _ "two_pages\<lparr>vm_pgoff := mask 52\<rparr>"]
    by (auto simp: afu_dev_mmap_regions two_pages_def)
  then show ?thesis
    by (simp add: afu_dev_mmap_regions two_pages_def PAGE_SHIFT_def)
qed

end
