(* ===== verification/Afu_File.thy ===== *)
theory Afu_File
  imports Afu
begin

text \<open>
  What the port's device file promises: the last close gives back everything the open file was
  used for, and a request reaches the sub-feature it is meant for.
\<close>

subsection \<open>The last close\<close>

lemma the_afu_frame [simp]:
  "the_afu (pd\<lparr>pd_features := fs\<rparr>) = the_afu pd"
  "the_afu (pd\<lparr>pd_disable_count := n\<rparr>) = the_afu pd"
  "the_afu (pd\<lparr>pd_excl_open := x, pd_open_count := y\<rparr>) = the_afu pd"
  "the_afu (pd\<lparr>pd_open_count := y, pd_num := m\<rparr>) = the_afu pd"
  by (simp_all add: the_afu_def fpga_pdata_get_private_def)

lemma pdata_frame [simp]:
  "dma_regions_of (pd\<lparr>pd_features := fs\<rparr>) = dma_regions_of pd"
  "afu_dma_inv (pd\<lparr>pd_features := fs\<rparr>) = afu_dma_inv pd"
  "regions_pinned (pd\<lparr>pd_features := fs\<rparr>) = regions_pinned pd"
  "regions_hold q (pd\<lparr>pd_features := fs\<rparr>) = regions_hold q pd"
  "mapped_at_0 (pd\<lparr>pd_features := fs\<rparr>) = mapped_at_0 pd"
  "mapped_at_0 (pd\<lparr>pd_disable_count := n\<rparr>) = mapped_at_0 pd"
  "mapped_at_0 (feature_dev_use_end pd) = mapped_at_0 pd"
  "dma_regions_of (pd\<lparr>pd_disable_count := n\<rparr>) = dma_regions_of pd"
  "afu_dma_inv (pd\<lparr>pd_disable_count := n\<rparr>) = afu_dma_inv pd"
  "regions_pinned (pd\<lparr>pd_disable_count := n\<rparr>) = regions_pinned pd"
  "regions_hold q (pd\<lparr>pd_disable_count := n\<rparr>) = regions_hold q pd"
  "dma_regions_of (feature_dev_use_end pd) = dma_regions_of pd"
  "afu_dma_inv (feature_dev_use_end pd) = afu_dma_inv pd"
  "regions_pinned (feature_dev_use_end pd) = regions_pinned pd"
  "regions_hold q (feature_dev_use_end pd) = regions_hold q pd"
  "pd_features (feature_dev_use_end pd) = pd_features pd"
  by (simp_all add: dma_regions_of_def afu_dma_inv_def regions_pinned_def regions_hold_def
      mapped_at_0_def feature_dev_use_end_def)

lemma destroy_features:
  "destroy_dma_regions rb rs pd tk w = (pd', tk', w') \<Longrightarrow> pd_features pd' = pd_features pd"
proof (induction rs arbitrary: pd tk w)
  case (Cons r rs)
  have "pd_features (afu_dma_region_remove rb pd r) = pd_features pd"
    by (simp add: afu_dma_region_remove_def Let_def set_afu_def fpga_pdata_set_private_def)
  with Cons show ?case by (auto simp: Let_def split: prod.splits)
qed simp

definition all_unbound :: "feature \<Rightarrow> bool" where
  "all_unbound f \<longleftrightarrow> (\<forall>c \<in> set (f_ctx f). ctx_trigger c = None)"

text \<open>Unbinding every vector of one sub-feature of the device.\<close>

lemma unbind_at:
  assumes "msix_set_block_at i 0 (word_of_int (f_ctx_num (pd_features pd ! i))) None pd w = (r, pd', w')"
    and "small_feature (pd_features pd ! i)" and "i < length (pd_features pd)"
  shows "\<exists>f. pd' = pd\<lparr>pd_features := (pd_features pd)[i := f]\<rparr> \<and> all_unbound f \<and>
    (\<forall>q. balance (w_trace w') q = balance (w_trace w) q - feature_holds q (pd_features pd ! i))"
proof -
  obtain r1 f w1 where s: "fpga_msix_set_block (pd_features pd ! i) 0
      (word_of_int (f_ctx_num (pd_features pd ! i))) None w = (r1, f, w1)" by (metis surj_pair)
  then have "pd' = pd\<lparr>pd_features := (pd_features pd)[i := f]\<rparr>" "w' = w1"
    using assms(1) by (simp_all add: msix_set_block_at_def)
  with msix_unbind_all [OF s assms(2)] show ?thesis unfolding all_unbound_def by blast
qed

lemma last_close_spec:
  assumes run: "afu_last_close rb pd tk w = (pd', tk', w')"
    and rb: "rbtree_laws rb" and inv: "afu_dma_inv pd" "regions_pinned pd"
    and fs: "PORT_FEATURE_ID_UINT < length (pd_features pd)"
    "small_feature (pd_features pd ! PORT_FEATURE_ID_ERROR)"
    "small_feature (pd_features pd ! PORT_FEATURE_ID_UINT)"
  shows "dma_regions_of pd' = {} \<and> all_unbound (pd_features pd' ! PORT_FEATURE_ID_ERROR) \<and>
    all_unbound (pd_features pd' ! PORT_FEATURE_ID_UINT) \<and>
    balance (w_trace w') q = balance (w_trace w) q - regions_hold q pd + of_bool (q = RDma 0 \<and> mapped_at_0 pd)
      - feature_holds q (pd_features pd ! PORT_FEATURE_ID_ERROR)
      - feature_holds q (pd_features pd ! PORT_FEATURE_ID_UINT)"
proof -
  obtain r1 pd1 w1 where s1: "msix_set_block_at PORT_FEATURE_ID_ERROR 0
    (word_of_int (f_ctx_num (pd_features pd ! PORT_FEATURE_ID_ERROR))) None pd w = (r1, pd1, w1)"
    by (metis surj_pair)
  obtain f where f: "pd1 = pd\<lparr>pd_features := (pd_features pd)[PORT_FEATURE_ID_ERROR := f]\<rparr>"
    "all_unbound f" "\<And>q. balance (w_trace w1) q =
       balance (w_trace w) q - feature_holds q (pd_features pd ! PORT_FEATURE_ID_ERROR)"
    using unbind_at [OF s1 fs(2)] fs(1) by auto
  obtain r2 pd2 w2 where s2: "msix_set_block_at PORT_FEATURE_ID_UINT 0
    (word_of_int (f_ctx_num (pd_features pd1 ! PORT_FEATURE_ID_UINT))) None pd1 w1 = (r2, pd2, w2)"
    by (metis surj_pair)
  have uint: "pd_features pd1 ! PORT_FEATURE_ID_UINT = pd_features pd ! PORT_FEATURE_ID_UINT"
    by (simp add: f(1))
  obtain g where g: "pd2 = pd1\<lparr>pd_features := (pd_features pd1)[PORT_FEATURE_ID_UINT := g]\<rparr>"
    "all_unbound g" "\<And>q. balance (w_trace w2) q =
       balance (w_trace w1) q - feature_holds q (pd_features pd ! PORT_FEATURE_ID_UINT)"
    using unbind_at [OF s2] fs uint f(1) by auto
  have pd2: "afu_dma_inv pd2" "regions_pinned pd2" "mapped_at_0 pd2 = mapped_at_0 pd"
    using inv f(1) g(1) by simp_all
  obtain pd3 w3 where s3: "afu_port_umsg_halt pd2 w2 = (pd3, w3)" by (metis surj_pair)
  note h = umsg_halt_keeps [OF s3 pd2(1,2)]
  obtain r4 pd4 w4 where s4: "raw_fpga_port_reset pd3 w3 = (r4, pd4, w4)" by (metis surj_pair)
  obtain n where n: "pd4 = pd3\<lparr>pd_disable_count := n\<rparr>" using reset_count_only [OF s4] by blast
  have m4: "mmio_only w3 w4" using mmio_only_reset [OF s4] by simp
  have s5: "destroy_dma_regions rb (inorder (afu_dma_regions (the_afu pd4))) pd4 tk w4 = (pd', tk', w')"
    using run s1 s2 s3 s4 by (simp add: afu_last_close_def afu_dma_region_destroy_def del: One_nat_def)
  have d: "balance (w_trace w') q = balance (w_trace w4) q - regions_hold q pd4 + of_bool (q = RDma 0 \<and> mapped_at_0 pd4) \<and>
      dma_regions_of pd' = {}"
    by (rule destroy_account [OF s5 rb]) (use h n in \<open>auto simp: dma_regions_of_def\<close>)
  show ?thesis
    using d h n f g pd2(3) destroy_features [OF s5] mmio_only_balance [OF m4] mmio_only_balance [of w2 w3] fs(1) by simp
qed

text \<open>
  C9. When the last open file of a port is closed, the DMA regions are gone, no interrupt vector of
  the error and the user interrupt sub-features is bound any more, and of every kernel resource the
  port gave back exactly what the regions and the vectors held, except for the mapping of a region at
  bus address 0, which the driver takes for none. The state of the port is one that its operations
  lead to: the regions are in order and pinned, and the two sub-features have fewer than
  \<open>2 ^ 31\<close> vectors.
\<close>

theorem last_release_gives_all_back:
  assumes "afu_release rb pd tk w = (pd', tk', w')" and "pd_open_count pd = 1"
    and "rbtree_laws rb" and "afu_dma_inv pd" and "regions_pinned pd"
    and "PORT_FEATURE_ID_UINT < length (pd_features pd)"
    and "small_feature (pd_features pd ! PORT_FEATURE_ID_ERROR)"
    and "small_feature (pd_features pd ! PORT_FEATURE_ID_UINT)"
  shows "dma_regions_of pd' = {} \<and> all_unbound (pd_features pd' ! PORT_FEATURE_ID_ERROR) \<and>
    all_unbound (pd_features pd' ! PORT_FEATURE_ID_UINT) \<and>
    balance (w_trace w') q = balance (w_trace w) q - regions_hold q pd
      + of_bool (q = RDma 0 \<and> (\<exists>r \<in> dma_regions_of pd. dr_iova r = 0))
      - feature_holds q (pd_features pd ! PORT_FEATURE_ID_ERROR)
      - feature_holds q (pd_features pd ! PORT_FEATURE_ID_UINT)"
proof -
  have "afu_last_close rb (feature_dev_use_end pd) tk w = (pd', tk', w')"
    using assms(1,2) by (simp add: afu_release_def feature_dev_use_end_def)
  from last_close_spec [OF this assms(3)] assms(4-) show ?thesis
    unfolding mapped_at_0_def by (simp only: pdata_frame)
qed

text \<open>A port with one open file, one mapped region and one bound user interrupt.\<close>

definition busy_feature :: feature where
  "busy_feature = zero_feature
     \<lparr>f_ctx := [\<lparr>ctx_trigger = Some 5, ctx_name = 6, ctx_irq = 40\<rparr>], f_ctx_num := 1\<rparr>"

definition busy_port :: afu_pdata where
  "busy_port = afu_dev_dma\<lparr>pd_open_count := 1, pd_num := 4,
     pd_features := [zero_feature, zero_feature, zero_feature, busy_feature]\<rparr>"

theorem last_release_gives_all_back_witness:
  "dma_regions_of (fst (afu_release bst_ops busy_port free_task dma_world)) = {} \<and>
   balance (w_trace (snd (snd (afu_release bst_ops busy_port free_task dma_world)))) (REventfd 5) = -1"
proof -
  obtain pd' tk' w' where run: "afu_release bst_ops busy_port free_task dma_world = (pd', tk', w')"
    by (metis surj_pair)
  have frame: "dma_regions_of busy_port = {one_region}" "afu_dma_inv busy_port" "regions_pinned busy_port"
    "regions_hold q busy_port = regions_hold q afu_dev_dma" for q
    using afu_dev_dma_regions afu_dev_dma_inv
    by (simp_all add: busy_port_def dma_regions_of_def afu_dma_inv_def regions_pinned_def regions_hold_def
      del: afu_dev_dma_regions afu_dev_dma_inv)
  have hold: "regions_hold (REventfd 5) afu_dev_dma = 0"
    by (simp add: regions_hold_def afu_dev_dma_def dma_hold_def pages_hold_def one_region_def)
  have fs: "PORT_FEATURE_ID_UINT < length (pd_features busy_port)"
    "small_feature (pd_features busy_port ! PORT_FEATURE_ID_ERROR)"
    "small_feature (pd_features busy_port ! PORT_FEATURE_ID_UINT)"
    by (simp_all add: busy_port_def busy_feature_def zero_feature_def small_feature_def wf_feature_def)
  have holds: "feature_holds (REventfd 5) (pd_features busy_port ! PORT_FEATURE_ID_ERROR) = 0"
    "feature_holds (REventfd 5) (pd_features busy_port ! PORT_FEATURE_ID_UINT) = 1"
    by (simp_all add: busy_port_def busy_feature_def zero_feature_def feature_holds_def ctx_holds_def)
  have "pd_open_count busy_port = 1" by (simp add: busy_port_def)
  from last_release_gives_all_back [OF run this bst_laws frame(2,3) fs, of "REventfd 5"]
  show ?thesis
    unfolding run frame(4) hold holds by (simp add: dma_world_def quiet_world_def)
qed

subsection \<open>Requests\<close>

lemma dispatch_skip:
  "\<forall>j \<in> set is. case f_ops (pd_features pd ! j) of None \<Rightarrow> True
     | Some ops \<Rightarrow> (case op_ioctl (tab ops) of None \<Rightarrow> True
        | Some ioctl \<Rightarrow> ioctl cmd j pd w = (Inl ENODEV, pd, w)) \<Longrightarrow>
   dispatch_ioctl tab cmd (is @ js) pd w = dispatch_ioctl tab cmd js pd w"
  by (induction "is") (auto split: option.splits)

text \<open>A port whose sub-features are all bound, as after a successful probe.\<close>

definition bound_port :: "afu_pdata \<Rightarrow> bool" where
  "bound_port pd \<longleftrightarrow> pd_num pd = 6 \<and> map f_ops (take 6 (pd_features pd)) =
     map Some [''port_hdr_ops'', ''port_err_ops'', ''port_umsg_ops'', ''port_uint_ops'',
       ''port_stp_ops'', ''port_afu_ops'']"

text \<open>The sub-feature a request is meant for.\<close>

definition port_request ::
  "port_cmd \<Rightarrow> afu_pdata \<Rightarrow> world \<Rightarrow> unit res \<times> afu_pdata \<times> world" where
  "port_request cmd pd w =
     (case cmd of
        FPGA_PORT_RESET arg \<Rightarrow> port_hdr_ioctl cmd PORT_FEATURE_ID_HEADER pd w
      | FPGA_PORT_ERR_SET_IRQ arg \<Rightarrow> port_err_set_irq PORT_FEATURE_ID_ERROR arg pd w
      | FPGA_PORT_UAFU_SET_IRQ arg \<Rightarrow> port_afu_set_irq PORT_FEATURE_ID_UINT arg pd w
      | FPGA_PORT_OTHER \<Rightarrow> (Inl EINVAL, pd, w)
      | _ \<Rightarrow> port_umsg_ioctl cmd PORT_FEATURE_ID_UMSG pd w)"

definition subfeature_cmd :: "port_cmd \<Rightarrow> bool" where
  "subfeature_cmd cmd \<longleftrightarrow> (case cmd of
     FPGA_GET_API_VERSION \<Rightarrow> False | FPGA_CHECK_EXTENSION \<Rightarrow> False | FPGA_PORT_GET_INFO _ \<Rightarrow> False
   | FPGA_PORT_GET_REGION_INFO _ \<Rightarrow> False | FPGA_PORT_DMA_MAP _ \<Rightarrow> False
   | FPGA_PORT_DMA_UNMAP _ \<Rightarrow> False | _ \<Rightarrow> True)"


lemma bound_port_ops:
  assumes "bound_port pd"
  shows "pd_num pd = 6" "f_ops (pd_features pd ! 0) = Some ''port_hdr_ops''"
    "f_ops (pd_features pd ! 1) = Some ''port_err_ops''"
    "f_ops (pd_features pd ! 2) = Some ''port_umsg_ops''"
    "f_ops (pd_features pd ! 3) = Some ''port_uint_ops''"
    "f_ops (pd_features pd ! 4) = Some ''port_stp_ops''"
    "f_ops (pd_features pd ! 5) = Some ''port_afu_ops''"
proof -
  let ?ns = "[''port_hdr_ops'', ''port_err_ops'', ''port_umsg_ops'', ''port_uint_ops'',
       ''port_stp_ops'', ''port_afu_ops'']"
  have l: "map f_ops (take 6 (pd_features pd)) = map Some ?ns"
    using assms by (simp add: bound_port_def)
  then have len: "length (take 6 (pd_features pd)) = 6"
    by (auto dest!: arg_cong [where f = length])
  have nth: "f_ops (pd_features pd ! i) = map Some ?ns ! i" if "i < 6" for i
    using that len unfolding l [symmetric] by simp
  show "pd_num pd = 6" using assms by (simp add: bound_port_def)
  show "f_ops (pd_features pd ! 0) = Some ''port_hdr_ops''"
    "f_ops (pd_features pd ! 1) = Some ''port_err_ops''"
    "f_ops (pd_features pd ! 2) = Some ''port_umsg_ops''"
    "f_ops (pd_features pd ! 3) = Some ''port_uint_ops''"
    "f_ops (pd_features pd ! 4) = Some ''port_stp_ops''"
    "f_ops (pd_features pd ! 5) = Some ''port_afu_ops''"
    using nth [of 0] nth [of 1] nth [of 2] nth [of 3] nth [of 4] nth [of 5] by simp_all
qed

lemma port_ioctl_ops:
  "op_ioctl (port_ops rsrc ''port_hdr_ops'') = Some port_hdr_ioctl"
  "op_ioctl (port_ops rsrc ''port_err_ops'') = Some port_err_ioctl"
  "op_ioctl (port_ops rsrc ''port_umsg_ops'') = Some port_umsg_ioctl"
  "op_ioctl (port_ops rsrc ''port_uint_ops'') = Some port_uint_ioctl"
  "op_ioctl (port_ops rsrc ''port_stp_ops'') = None"
  "op_ioctl (port_ops rsrc ''port_afu_ops'') = None"
  by (simp_all add: port_ops_def port_hdr_ops_def port_err_ops_def port_umsg_ops_def
      port_uint_ops_def port_stp_ops_def port_afu_ops_def)

lemma upt6: "[0..<6] = [0, 1, 2, 3, 4, 5]"
  by (simp add: upt_rec)

text \<open>The requests leave the table of sub-features alone.\<close>

lemma vector_signal_static:
  "fpga_set_vector_signal f v fd w = (r, f', w') \<Longrightarrow> f_ops f' = f_ops f \<and> f_name f' = f_name f"
  by (auto simp: fpga_set_vector_signal_def set_ctx_def split: if_splits prod.splits)

lemma set_vectors_static:
  "set_vectors n f fds i j w = (r, f', j', w') \<Longrightarrow> f_ops f' = f_ops f \<and> f_name f' = f_name f"
proof (induction n arbitrary: f i j w)
  case (Suc n)
  then show ?case
    by (auto split: prod.splits sum.splits dest!: vector_signal_static)
qed simp

lemma clear_vectors_static:
  "clear_vectors n f j w = (f', w') \<Longrightarrow> f_ops f' = f_ops f \<and> f_name f' = f_name f"
proof (induction n arbitrary: f j w)
  case (Suc n)
  then show ?case
    by (auto split: prod.splits sum.splits dest!: vector_signal_static)
qed simp

lemma set_block_static:
  "fpga_msix_set_block f start cnt fds w = (r, f', w') \<Longrightarrow> f_ops f' = f_ops f \<and> f_name f' = f_name f"
  unfolding fpga_msix_set_block_def
  by (auto split: if_splits prod.splits sum.splits dest!: set_vectors_static clear_vectors_static)

lemma map_update_same: "g y = g (xs ! i) \<Longrightarrow> map g (xs[i := y]) = map g xs"
  by (metis list_update_id map_update)

lemma set_block_at_table:
  "msix_set_block_at i start cnt fds pd w = (r, pd', w') \<Longrightarrow> same_table pd pd'"
  by (auto simp: msix_set_block_at_def same_table_def split: prod.splits
      dest!: set_block_static intro!: map_update_same)

lemma bound_port_table: "same_table pd pd' \<Longrightarrow> bound_port pd \<Longrightarrow> bound_port pd'"
  by (simp add: bound_port_def same_table_def flip: take_map)

lemma request_table:
  "port_hdr_ioctl cmd i pd w = (r, pd', w') \<Longrightarrow> same_table pd pd'"
  "port_err_ioctl cmd i pd w = (r, pd', w') \<Longrightarrow> same_table pd pd'"
  "port_umsg_ioctl cmd i pd w = (r, pd', w') \<Longrightarrow> same_table pd pd'"
  "port_uint_ioctl cmd i pd w = (r, pd', w') \<Longrightarrow> same_table pd pd'"
  by (auto simp: port_hdr_ioctl_def fpga_port_reset_def port_err_ioctl_def port_err_set_irq_def
      port_umsg_ioctl_def afu_umsg_ioctl_set_base_addr_def afu_port_umsg_set_addr_def mark_in_use_def
      port_uint_ioctl_def port_afu_set_irq_def Let_def
      dest!: reset_count_only set_block_at_table
      split: port_cmd.splits option.splits prod.splits sum.splits bool.splits if_splits)

text \<open>A sub-feature answers \<^verbatim>\<open>-ENODEV\<close>, and does nothing, to a request of another one.\<close>

definition request_owner :: "port_cmd \<Rightarrow> nat option" where
  "request_owner cmd =
     (case cmd of
        FPGA_PORT_RESET _ \<Rightarrow> Some 0 | FPGA_PORT_ERR_SET_IRQ _ \<Rightarrow> Some 1
      | FPGA_PORT_UMSG_ENABLE _ \<Rightarrow> Some 2 | FPGA_PORT_UMSG_DISABLE _ \<Rightarrow> Some 2
      | FPGA_PORT_UMSG_SET_MODE _ \<Rightarrow> Some 2 | FPGA_PORT_UMSG_SET_BASE_ADDR _ \<Rightarrow> Some 2
      | FPGA_PORT_UAFU_SET_IRQ _ \<Rightarrow> Some 3 | _ \<Rightarrow> None)"

lemma not_owner:
  "request_owner cmd \<noteq> Some 0 \<Longrightarrow> port_hdr_ioctl cmd i pd w = (Inl ENODEV, pd, w)"
  "request_owner cmd \<noteq> Some 1 \<Longrightarrow> port_err_ioctl cmd i pd w = (Inl ENODEV, pd, w)"
  "request_owner cmd \<noteq> Some 2 \<Longrightarrow> port_umsg_ioctl cmd i pd w = (Inl ENODEV, pd, w)"
  "request_owner cmd \<noteq> Some 3 \<Longrightarrow> port_uint_ioctl cmd i pd w = (Inl ENODEV, pd, w)"
  by (cases cmd; simp add: request_owner_def port_hdr_ioctl_def port_err_ioctl_def
      port_umsg_ioctl_def port_uint_ioctl_def)+

lemma port_request_owner:
  "request_owner cmd = Some 0 \<Longrightarrow> port_request cmd pd w = port_hdr_ioctl cmd 0 pd w"
  "request_owner cmd = Some 1 \<Longrightarrow> port_request cmd pd w = port_err_ioctl cmd 1 pd w"
  "request_owner cmd = Some 2 \<Longrightarrow> port_request cmd pd w = port_umsg_ioctl cmd 2 pd w"
  "request_owner cmd = Some 3 \<Longrightarrow> port_request cmd pd w = port_uint_ioctl cmd 3 pd w"
  by (cases cmd; simp add: request_owner_def port_request_def port_err_ioctl_def port_uint_ioctl_def)+

lemma dispatch_others:
  assumes "bound_port pd" and "set is \<subseteq> {0, 1, 2, 3, 4, 5}"
    and "\<forall>j \<in> set is. request_owner cmd \<noteq> Some j"
  shows "dispatch_ioctl (port_ops rsrc) cmd (is @ js) pd w = dispatch_ioctl (port_ops rsrc) cmd js pd w"
proof (rule dispatch_skip, intro ballI)
  fix j assume j: "j \<in> set is"
  then have "j \<in> {0, 1, 2, 3, 4, 5}" "request_owner cmd \<noteq> Some j" using assms(2,3) by auto
  then show "case f_ops (pd_features pd ! j) of None \<Rightarrow> True
     | Some ops \<Rightarrow> (case op_ioctl (port_ops rsrc ops) of None \<Rightarrow> True
        | Some ioctl \<Rightarrow> ioctl cmd j pd w = (Inl ENODEV, pd, w))"
    using bound_port_ops [OF assms(1)] not_owner by (auto simp: port_ioctl_ops)
qed

lemma dispatch_none:
  assumes "bound_port pd" and "set is \<subseteq> {0, 1, 2, 3, 4, 5}"
    and "\<forall>j \<in> set is. request_owner cmd \<noteq> Some j"
  shows "dispatch_ioctl (port_ops rsrc) cmd is pd w = (Inl EINVAL, pd, w)"
  using dispatch_others [OF assms, of rsrc "[]"] by simp

lemma dispatch_owner:
  assumes "bound_port pd" and "is @ k # js = [0, 1, 2, 3, 4, 5]" and "request_owner cmd = Some k"
    and "f_ops (pd_features pd ! k) = Some ops" and "op_ioctl (port_ops rsrc ops) = Some ioctl"
    and "\<And>r pd' w'. ioctl cmd k pd w = (r, pd', w') \<Longrightarrow> same_table pd pd'"
  shows "dispatch_ioctl (port_ops rsrc) cmd [0..<pd_num pd] pd w =
    (case ioctl cmd k pd w of
       (r, pd1, w1) \<Rightarrow> (if r = Inl ENODEV then Inl EINVAL else r, pd1, w1))"
proof -
  obtain r pd1 w1 where run: "ioctl cmd k pd w = (r, pd1, w1)" by (metis surj_pair)
  have b1: "bound_port pd1" by (rule bound_port_table [OF assms(6) [OF run] assms(1)])
  have d: "distinct (is @ k # js)" "set (is @ k # js) = {0, 1, 2, 3, 4, 5}"
    unfolding assms(2) by auto
  have "dispatch_ioctl (port_ops rsrc) cmd [0..<pd_num pd] pd w =
      dispatch_ioctl (port_ops rsrc) cmd (is @ k # js) pd w"
    unfolding assms(2) by (simp add: bound_port_ops(1) [OF assms(1)] upt6)
  also have "\<dots> = dispatch_ioctl (port_ops rsrc) cmd (k # js) pd w"
    by (rule dispatch_others [OF assms(1)]) (use d assms(3) in auto)
  also have "\<dots> = (if r = Inl ENODEV then Inl EINVAL else r, pd1, w1)"
  proof -
    have "dispatch_ioctl (port_ops rsrc) cmd js pd1 w1 = (Inl EINVAL, pd1, w1)"
      by (rule dispatch_none [OF b1]) (use d assms(3) in auto)
    then show ?thesis by (simp add: assms(4,5) run)
  qed
  finally show ?thesis by (simp add: run)
qed

text \<open>
  C26. On a port whose sub-features are bound, a request to a sub-feature does what that sub-feature
  does with it, and nothing else; only an answer \<^verbatim>\<open>-ENODEV\<close> of the sub-feature itself is taken for
  a request nobody handles and becomes \<^verbatim>\<open>-EINVAL\<close>.
\<close>

theorem request_reaches_owner:
  assumes "bound_port pd" and "subfeature_cmd cmd"
  shows "afu_ioctl rb rsrc cmd pd tk w =
    (case port_request cmd pd w of
       (r, pd1, w1) \<Rightarrow> (if r = Inl ENODEV then Inl EINVAL else r, pd1, tk, w1))"
proof -
  note b = bound_port_ops [OF assms(1)]
  have d: "dispatch_ioctl (port_ops rsrc) cmd [0..<pd_num pd] pd w =
    (case port_request cmd pd w of
       (r, pd1, w1) \<Rightarrow> (if r = Inl ENODEV then Inl EINVAL else r, pd1, w1))"
  proof (cases "request_owner cmd")
    case None
    then show ?thesis
      using dispatch_none [OF assms(1), of "[0, 1, 2, 3, 4, 5]" cmd rsrc w] assms(2)
      by (cases cmd) (simp_all add: request_owner_def subfeature_cmd_def port_request_def b(1) upt6)
  next
    case (Some k)
    then consider "k = 0" | "k = 1" | "k = 2" | "k = 3"
      by (cases cmd) (auto simp: request_owner_def)
    then show ?thesis
    proof cases
      case 1
      show ?thesis
        unfolding port_request_owner(1) [OF Some [unfolded 1]] using b(2) Some 1
        by (intro dispatch_owner [OF assms(1), of "[]" 0]) (auto simp: port_ioctl_ops dest: request_table)
    next
      case 2
      show ?thesis
        unfolding port_request_owner(2) [OF Some [unfolded 2]] using b(3) Some 2
        by (intro dispatch_owner [OF assms(1), of "[0]" 1]) (auto simp: port_ioctl_ops dest: request_table)
    next
      case 3
      show ?thesis
        unfolding port_request_owner(3) [OF Some [unfolded 3]] using b(4) Some 3
        by (intro dispatch_owner [OF assms(1), of "[0, 1]" 2]) (auto simp: port_ioctl_ops dest: request_table)
    next
      case 4
      show ?thesis
        unfolding port_request_owner(4) [OF Some [unfolded 4]] using b(5) Some 4
        by (intro dispatch_owner [OF assms(1), of "[0, 1, 2]" 3]) (auto simp: port_ioctl_ops dest: request_table)
    qed
  qed
  then show ?thesis
    using assms(2) by (cases cmd) (auto simp: afu_ioctl_def subfeature_cmd_def split: prod.splits)
qed

text \<open>A request for error interrupts on a port that has none: the sub-feature handles it.\<close>

definition port_without_irqs :: afu_pdata where
  "port_without_irqs = set_afu zero_afu (empty_pdata\<lparr>pd_num := 6, pd_features := map (\<lambda>n. zero_feature\<lparr>f_ops := Some n\<rparr>)
     [''port_hdr_ops'', ''port_err_ops'', ''port_umsg_ops'', ''port_uint_ops'',
      ''port_stp_ops'', ''port_afu_ops'']\<rparr>)"

theorem request_reaches_owner_witness:
  "fst (port_err_set_irq 1 (Some \<lparr>eirq_argsz = 12, eirq_flags = 0, eirq_evtfd = 3\<rparr>) port_without_irqs
       (quiet_world (\<lambda>_. 0))) =
     Inl ENODEV \<and>
   fst (afu_ioctl bst_ops (\<lambda>_. (0, 0)) (FPGA_PORT_ERR_SET_IRQ (Some
     \<lparr>eirq_argsz = 12, eirq_flags = 0, eirq_evtfd = 3\<rparr>)) port_without_irqs free_task
     (quiet_world (\<lambda>_. 0))) = Inl EINVAL"
proof -
  let ?arg = "Some \<lparr>eirq_argsz = 12, eirq_flags = 0, eirq_evtfd = 3\<rparr>"
  have "bound_port port_without_irqs"
    by (simp add: bound_port_def port_without_irqs_def set_afu_def fpga_pdata_set_private_def)
  moreover have "subfeature_cmd (FPGA_PORT_ERR_SET_IRQ ?arg)" by (simp add: subfeature_cmd_def)
  moreover have e: "port_err_set_irq 1 ?arg port_without_irqs w = (Inl ENODEV, port_without_irqs, w)" for w
    by (simp add: port_err_set_irq_def port_without_irqs_def zero_afu_def)
  ultimately show ?thesis
    using request_reaches_owner [of port_without_irqs "FPGA_PORT_ERR_SET_IRQ ?arg" bst_ops
        "\<lambda>_. (0, 0)" free_task "quiet_world (\<lambda>_. 0)"]
    by (simp add: port_request_def)
qed

end
