(* ===== verification/Pcie_Ports.thy ===== *)
theory Pcie_Ports
  imports Port_Reset
begin

text \<open>
  The ports of a PCIe device (\<^verbatim>\<open>drivers/fpga/intel/pcie.c\<close>): the list of port devices, taking a
  port away from the host and giving it back (\<^verbatim>\<open>config_port\<close>), and turning the ports that were
  taken away into virtual functions (\<^verbatim>\<open>cci_pci_sriov_configure\<close>).

  A \<^verbatim>\<open>struct device *\<close> of a feature device is the number \<open>pl_self\<close>, the address of the device.
  \<^verbatim>\<open>device_is_registered\<close> is a flag that \<^verbatim>\<open>platform_device_add\<close> and \<^verbatim>\<open>platform_device_del\<close> set
  and clear. All functions take \<^verbatim>\<open>drvdata->lock\<close> for their whole body.
\<close>

subsection \<open>Data\<close>

record 'p platform_device =
  pl_self :: int
  pl_name :: string
  pl_id :: int
  pl_devt :: u32
  pl_registered :: bool
  pl_resource :: "(u64 \<times> u64) list"
  pl_pdata :: "'p feature_platform_data option"

record cci_pci_region =
  cr_self :: int
  cr_bar :: int
  cr_ioaddr :: u64

record 'p cci_drvdata =
  drv_self :: int
  drv_device_id :: int
  drv_fme_dev :: "'p platform_device option"
  drv_ports :: "'p platform_device list"
  drv_released_port_num :: int
  drv_regions :: "cci_pci_region list"

definition dev_pdata :: "'p platform_device \<Rightarrow> 'p feature_platform_data" where
  "dev_pdata d = the (pl_pdata d)"

definition set_port :: "nat \<Rightarrow> 'p platform_device \<Rightarrow> 'p cci_drvdata \<Rightarrow> 'p cci_drvdata" where
  "set_port i d drv = drv\<lparr>drv_ports := (drv_ports drv)[i := d]\<rparr>"

definition FME_AFU_ACCESS_PF :: u64 where "FME_AFU_ACCESS_PF = 0"
definition FME_AFU_ACCESS_VF :: u64 where "FME_AFU_ACCESS_VF = 1"

text \<open>The address of \<^verbatim>\<open>fme_hdr->port[port_id]\<close>.\<close>

definition fme_port_reg :: "'p feature_platform_data \<Rightarrow> int \<Rightarrow> u64" where
  "fme_port_reg fme port_id =
     reg_addr feature_fme_header ''port'' (get_feature_ioaddr_by_index fme FME_FEATURE_ID_HEADER)
       + 8 * word_of_int port_id"

subsection \<open>Looking up ports\<close>

text \<open>The loop over the list; the result is the position of the port found.\<close>

fun lookup_port :: "'p platform_device list \<Rightarrow> int \<Rightarrow> world \<Rightarrow> nat option \<times> world" where
  "lookup_port [] port_id w = (None, w)"
| "lookup_port (d # ds) port_id w =
     (case fpga_port_check_id (dev_pdata d) port_id w of
        (True, w1) \<Rightarrow> (Some 0, w1)
      | (False, w1) \<Rightarrow> (case lookup_port ds port_id w1 of (r, w2) \<Rightarrow> (map_option Suc r, w2)))"

definition cci_pci_lookup_port_by_id ::
  "'p cci_drvdata \<Rightarrow> int \<Rightarrow> world \<Rightarrow> nat option \<times> world" where
  "cci_pci_lookup_port_by_id drv port_id w = lookup_port (drv_ports drv) port_id w"

text \<open>
  \<^verbatim>\<open>get_device\<close> returns its argument, so a match always ends the loop. \<open>match\<close> gets the port's
  data.
\<close>

fun each_port ::
  "('p feature_platform_data \<Rightarrow> world \<Rightarrow> bool \<times> world) \<Rightarrow> 'p platform_device list \<Rightarrow> world \<Rightarrow>
   nat option \<times> world" where
  "each_port match [] w = (None, w)"
| "each_port match (d # ds) w =
     (case match (dev_pdata d) w of
        (True, w1) \<Rightarrow> (Some 0, kvoid Get_device [pl_self d] w1)
      | (False, w1) \<Rightarrow> (case each_port match ds w1 of (r, w2) \<Rightarrow> (map_option Suc r, w2)))"

definition fpga_for_each_port ::
  "'p cci_drvdata \<Rightarrow> ('p feature_platform_data \<Rightarrow> world \<Rightarrow> bool \<times> world) \<Rightarrow> world \<Rightarrow>
   nat option \<times> world" where
  "fpga_for_each_port drv match w = each_port match (drv_ports drv) w"

subsection \<open>Releasing and assigning a port\<close>

definition attach_port_dev ::
  "'q feature_platform_data \<Rightarrow> int \<Rightarrow> 'p cci_drvdata \<Rightarrow> world \<Rightarrow> unit res \<times> 'p cci_drvdata \<times> world"
where
  "attach_port_dev fme port_id drv w =
     (case readq (fme_port_reg fme port_id) w of
        (csr, w1) \<Rightarrow>
          if get_field feature_fme_port ''afu_access_control'' csr = FME_AFU_ACCESS_VF
          then (Inl EBUSY, drv, w1)
          else
            (case cci_pci_lookup_port_by_id drv port_id w1 of
               (None, w2) \<Rightarrow> (Inl EINVAL, drv, w2)
             | (Some i, w2) \<Rightarrow>
                 let d = drv_ports drv ! i in
                 if pl_registered d then (Inl EBUSY, drv, w2)
                 else
                   (case kstatus Platform_device_add [pl_self d] w2 of
                      (Inl e, w3) \<Rightarrow> (Inl e, drv, w3)
                    | (Inr _, w3) \<Rightarrow>
                        (Inr (),
                         (set_port i (d\<lparr>pl_registered := True,
                            pl_pdata := Some (feature_dev_use_end (dev_pdata d))\<rparr>) drv)
                           \<lparr>drv_released_port_num := drv_released_port_num drv - 1\<rparr>,
                         kvoid Get_device [pl_self d] w3))))"

definition detach_port_dev ::
  "int \<Rightarrow> 'p cci_drvdata \<Rightarrow> world \<Rightarrow> unit res \<times> 'p cci_drvdata \<times> world" where
  "detach_port_dev port_id drv w =
     (case cci_pci_lookup_port_by_id drv port_id w of
        (None, w1) \<Rightarrow> (Inl EINVAL, drv, w1)
      | (Some i, w1) \<Rightarrow>
          let d = drv_ports drv ! i in
          if \<not> pl_registered d then (Inl EBUSY, drv, w1)
          else
            (case feature_dev_use_excl_begin (dev_pdata d) of
               (Inl e, pd) \<Rightarrow> (Inl e, drv, w1)
             | (Inr _, pd) \<Rightarrow>
                 (Inr (),
                  (set_port i (d\<lparr>pl_registered := False, pl_pdata := Some pd\<rparr>) drv)
                    \<lparr>drv_released_port_num := drv_released_port_num drv + 1\<rparr>,
                  kvoid Put_device [pl_self d] (kvoid Platform_device_del [pl_self d] w1))))"

definition config_port ::
  "'q feature_platform_data \<Rightarrow> int \<Rightarrow> bool \<Rightarrow> 'p cci_drvdata \<Rightarrow> world \<Rightarrow>
   unit res \<times> 'p cci_drvdata \<times> world" where
  "config_port fme port_id release drv w =
     (if release then detach_port_dev port_id drv w else attach_port_dev fme port_id drv w)"

subsection \<open>Virtual functions\<close>

definition port_config_vf ::
  "'p feature_platform_data \<Rightarrow> int \<Rightarrow> bool \<Rightarrow> world \<Rightarrow> world" where
  "port_config_vf fme port_id is_vf w =
     (case readq (fme_port_reg fme port_id) w of
        (csr, w1) \<Rightarrow>
          writeq (set_field feature_fme_port ''afu_access_control''
              (if is_vf then FME_AFU_ACCESS_VF else FME_AFU_ACCESS_PF) csr)
            (fme_port_reg fme port_id) w1)"

text \<open>The first loop; \<open>vf_ports\<close> is the number of ports turned to virtual functions so far.\<close>

fun config_vf_ports ::
  "'p feature_platform_data \<Rightarrow> int \<Rightarrow> 'p platform_device list \<Rightarrow> int \<Rightarrow> world \<Rightarrow> world" where
  "config_vf_ports fme num_vfs [] vf_ports w = w"
| "config_vf_ports fme num_vfs (d # ds) vf_ports w =
     (case fpga_port_id (dev_pdata d) w of
        (pid, w1) \<Rightarrow>
          if pl_registered d then config_vf_ports fme num_vfs ds vf_ports w1
          else if num_vfs = 0 then
            config_vf_ports fme num_vfs ds vf_ports (port_config_vf fme (uint pid) False w1)
          else
            let w2 = port_config_vf fme (uint pid) True w1 in
            if vf_ports + 1 = num_vfs then w2
            else config_vf_ports fme num_vfs ds (vf_ports + 1) w2)"

text \<open>The second loop, after virtual functions could not be enabled.\<close>

fun restore_pf_ports ::
  "'p feature_platform_data \<Rightarrow> 'p platform_device list \<Rightarrow> world \<Rightarrow> world" where
  "restore_pf_ports fme [] w = w"
| "restore_pf_ports fme (d # ds) w =
     (case fpga_port_id (dev_pdata d) w of
        (pid, w1) \<Rightarrow>
          if pl_registered d then restore_pf_ports fme ds w1
          else restore_pf_ports fme ds (port_config_vf fme (uint pid) False w1))"

definition cci_pci_sriov_configure ::
  "int \<Rightarrow> 'p cci_drvdata \<Rightarrow> world \<Rightarrow> int res \<times> world" where
  "cci_pci_sriov_configure num_vfs drv w =
     (let fme = dev_pdata (the (drv_fme_dev drv)) in
      if drv_released_port_num drv < num_vfs then (Inl EBUSY, w)
      else
        (let w1 = (if num_vfs = 0 then kvoid Pci_disable_sriov [] w else w);
             w2 = config_vf_ports fme num_vfs (drv_ports drv) 0 w1
         in
         if num_vfs \<noteq> 0 then
           (case kstatus Pci_enable_sriov [num_vfs] w2 of
              (Inl e, w3) \<Rightarrow> (Inl e, restore_pf_ports fme (drv_ports drv) w3)
            | (Inr _, w3) \<Rightarrow> (Inr num_vfs, w3))
         else (Inr num_vfs, w2)))"

subsection \<open>Which ports are released\<close>

lemma lookup_port_index: "lookup_port ds port_id w = (Some i, w') \<Longrightarrow> i < length ds"
  by (induction ds arbitrary: i w) (auto split: prod.splits bool.splits)

definition released_ports :: "'p cci_drvdata \<Rightarrow> 'p platform_device list" where
  "released_ports drv = filter (\<lambda>d. \<not> pl_registered d) (drv_ports drv)"

text \<open>The port cannot be opened: it is used exclusively.\<close>

definition reserved :: "'p platform_device \<Rightarrow> bool" where
  "reserved d \<longleftrightarrow> pd_excl_open (dev_pdata d) \<noteq> 0 \<and> pd_open_count (dev_pdata d) = 1"

definition ports_inv :: "'p cci_drvdata \<Rightarrow> bool" where
  "ports_inv drv \<longleftrightarrow> drv_released_port_num drv = int (length (released_ports drv)) \<and>
     (\<forall>d \<in> set (released_ports drv). reserved d)"

lemma released_set_port:
  "i < length (drv_ports drv) \<Longrightarrow>
   int (length (released_ports (set_port i d drv))) = int (length (released_ports drv))
     + of_bool (\<not> pl_registered d) - of_bool (\<not> pl_registered (drv_ports drv ! i))"
  by (simp add: released_ports_def set_port_def length_filter_update)

lemma ports_inv_set:
  assumes "ports_inv drv" and "i < length (drv_ports drv)"
    and "n = drv_released_port_num drv
      + of_bool (\<not> pl_registered d) - of_bool (\<not> pl_registered (drv_ports drv ! i))"
    and "\<not> pl_registered d \<longrightarrow> reserved d"
  shows "ports_inv ((set_port i d drv)\<lparr>drv_released_port_num := n\<rparr>)"
proof -
  have "set (released_ports (set_port i d drv)) \<subseteq>
      set (released_ports drv) \<union> (if pl_registered d then {} else {d})"
    using set_update_subset_insert [of "drv_ports drv" i d]
    by (auto simp: released_ports_def set_port_def)
  moreover have "released_ports ((set_port i d drv)\<lparr>drv_released_port_num := n\<rparr>) =
      released_ports (set_port i d drv)"
    by (simp add: released_ports_def)
  ultimately show ?thesis
    using assms released_set_port [OF assms(2), of d] by (auto simp: ports_inv_def split: if_splits)
qed

text \<open>
  What can happen to the ports of a device: requests to release or assign a port (in any state of
  the hardware), configuring virtual functions, and opening and closing the file of a port that is
  registered.
\<close>

inductive port_dev_step :: "'p cci_drvdata \<Rightarrow> 'p cci_drvdata \<Rightarrow> bool" where
  config: "config_port (fme :: 'p feature_platform_data) port_id release drv w = (r, drv', w') \<Longrightarrow> port_dev_step drv drv'"
| sriov: "cci_pci_sriov_configure n drv w = (r, w') \<Longrightarrow> port_dev_step drv drv"
| open_port: "i < length (drv_ports drv) \<Longrightarrow> pl_registered (drv_ports drv ! i) \<Longrightarrow>
    feature_dev_use_begin (dev_pdata (drv_ports drv ! i)) = (r, pd) \<or>
    feature_dev_use_excl_begin (dev_pdata (drv_ports drv ! i)) = (r, pd) \<Longrightarrow>
    port_dev_step drv (set_port i ((drv_ports drv ! i)\<lparr>pl_pdata := Some pd\<rparr>) drv)"
| close_port: "i < length (drv_ports drv) \<Longrightarrow> pl_registered (drv_ports drv ! i) \<Longrightarrow>
    0 < pd_open_count (dev_pdata (drv_ports drv ! i)) \<Longrightarrow>
    port_dev_step drv (set_port i ((drv_ports drv ! i)
      \<lparr>pl_pdata := Some (feature_dev_use_end (dev_pdata (drv_ports drv ! i)))\<rparr>) drv)"

lemma attach_inv:
  assumes "attach_port_dev fme port_id drv w = (r, drv', w')" and "ports_inv drv"
  shows "ports_inv drv'"
  using assms
  by (auto simp: attach_port_dev_def cci_pci_lookup_port_by_id_def Let_def split: prod.splits
      option.splits sum.splits if_splits dest!: lookup_port_index intro!: ports_inv_set)

lemma detach_inv:
  assumes "detach_port_dev port_id drv w = (r, drv', w')" and "ports_inv drv"
  shows "ports_inv drv'"
  using assms
  by (auto simp: detach_port_dev_def cci_pci_lookup_port_by_id_def Let_def reserved_def dev_pdata_def
      feature_dev_use_excl_begin_def split: prod.splits
      option.splits sum.splits if_splits dest!: lookup_port_index intro!: ports_inv_set)

lemma same_registered_inv:
  assumes "ports_inv drv" and "i < length (drv_ports drv)" and "pl_registered (drv_ports drv ! i)"
  shows "ports_inv (set_port i ((drv_ports drv ! i)\<lparr>pl_pdata := pd\<rparr>) drv)"
proof -
  have "(set_port i d drv)\<lparr>drv_released_port_num := drv_released_port_num drv\<rparr> = set_port i d drv" for d
    by (simp add: set_port_def)
  with ports_inv_set [OF assms(1,2), of "drv_released_port_num drv" "(drv_ports drv ! i)\<lparr>pl_pdata := pd\<rparr>"]
    assms(3) show ?thesis by simp
qed

lemma port_dev_step_inv: "port_dev_step drv drv' \<Longrightarrow> ports_inv drv \<Longrightarrow> ports_inv drv'"
  by (induction rule: port_dev_step.induct)
    (auto simp: config_port_def split: if_splits intro: attach_inv detach_inv same_registered_inv)

lemma port_dev_steps_inv: "port_dev_step\<^sup>*\<^sup>* drv drv' \<Longrightarrow> ports_inv drv \<Longrightarrow> ports_inv drv'"
  by (induction rule: rtranclp_induct) (auto intro: port_dev_step_inv)

text \<open>
  C10. Whatever sequence of releasing and assigning ports, configuring virtual functions, opening and
  closing files happens to a device all of whose ports were registered, and whatever the hardware
  answers: the count of released ports is the number of ports that are not registered, and each of
  these is reserved, so that opening its file is refused.
\<close>

theorem released_ports_reserved:
  assumes "port_dev_step\<^sup>*\<^sup>* drv drv'"
    and "drv_released_port_num drv = 0" and "\<forall>d \<in> set (drv_ports drv). pl_registered d"
  shows "drv_released_port_num drv' = int (length (released_ports drv')) \<and>
    (\<forall>d \<in> set (released_ports drv').
       feature_dev_use_begin (dev_pdata d) = (Inl EBUSY, dev_pdata d) \<and>
       feature_dev_use_excl_begin (dev_pdata d) = (Inl EBUSY, dev_pdata d))"
proof -
  have "released_ports drv = []"
    using assms(3) by (simp add: released_ports_def filter_empty_conv)
  then have "ports_inv drv" using assms(2) by (simp add: ports_inv_def)
  from port_dev_steps_inv [OF assms(1) this] show ?thesis
    by (auto simp: ports_inv_def reserved_def feature_dev_use_begin_def feature_dev_use_excl_begin_def)
qed

text \<open>A device with one registered port whose number is 0.\<close>

definition one_port_drv :: "unit cci_drvdata" where
  "one_port_drv = \<lparr>drv_self = 1, drv_device_id = 0, drv_fme_dev = None,
     drv_ports = [\<lparr>pl_self = 7, pl_name = FPGA_FEATURE_DEV_PORT, pl_id = 0, pl_devt = 0, pl_registered = True,
       pl_resource = [], pl_pdata = Some (empty_pdata\<lparr>pd_features := [zero_feature]\<rparr>)\<rparr>],
     drv_released_port_num = 0, drv_regions = []\<rparr>"

theorem released_ports_reserved_witness:
  "\<exists>drv'. port_dev_step\<^sup>*\<^sup>* one_port_drv drv' \<and> length (released_ports drv') = 1 \<and>
     drv_released_port_num drv' = 1"
proof -
  obtain r drv' w' where run: "config_port (empty_pdata :: unit feature_platform_data) 0 True one_port_drv (quiet_world (\<lambda>_. 0)) =
      (r, drv', w')" by (metis surj_pair)
  then have rel: "length (released_ports drv') = 1"
    by (auto simp: config_port_def detach_port_dev_def cci_pci_lookup_port_by_id_def one_port_drv_def
        fpga_port_check_id_def fpga_port_id_def readq_def quiet_world_def get_field_def dev_pdata_def
        feature_port_capability_def feature_dev_use_excl_begin_def empty_pdata_def set_port_def
        released_ports_def Let_def split: prod.splits)
  have st: "port_dev_step\<^sup>*\<^sup>* one_port_drv drv'"
    by (rule r_into_rtranclp) (rule port_dev_step.config [OF run])
  have "drv_released_port_num one_port_drv = 0" "\<forall>d \<in> set (drv_ports one_port_drv). pl_registered d"
    by (simp_all add: one_port_drv_def)
  from released_ports_reserved [OF st this] rel st show ?thesis by auto
qed

subsection \<open>What configuring virtual functions writes\<close>

text \<open>
  The number of a port is read from its capability register, which does not change while ports are
  configured; \<open>cap\<close> is its value per port.
\<close>

definition stable_caps :: "('p platform_device \<Rightarrow> u64) \<Rightarrow> 'p platform_device list \<Rightarrow> world \<Rightarrow> bool" where
  "stable_caps cap ds w \<longleftrightarrow>
     (\<forall>d \<in> set ds. \<forall>tr. w_readq w tr (port_hdr_reg (dev_pdata d) ''capability'') = cap d)"

definition number_of :: "u64 \<Rightarrow> int" where
  "number_of csr = uint (get_field feature_port_capability ''port_number'' csr)"

text \<open>The write that gives a port to the given function, \<open>csr\<close> being what was read before.\<close>

definition access_write ::
  "'p feature_platform_data \<Rightarrow> u64 \<Rightarrow> u64 \<Rightarrow> u64 \<Rightarrow> u64 \<times> u64" where
  "access_write fme access cap csr =
     (fme_port_reg fme (number_of cap),
      set_field feature_fme_port ''afu_access_control'' access csr)"

lemma stable_caps_Cons [simp]:
  "stable_caps cap (d # ds) w \<longleftrightarrow> stable_caps cap ds w \<and>
     (\<forall>tr. w_readq w tr (port_hdr_reg (dev_pdata d) ''capability'') = cap d)"
  by (auto simp: stable_caps_def)

lemma stable_caps_wrote: "wrote w w' ws \<Longrightarrow> stable_caps cap ds w' = stable_caps cap ds w"
  by (simp add: stable_caps_def wrote_env)

lemma port_id_stable:
  assumes "fpga_port_id (dev_pdata d) w = (pid, w')"
    and "\<forall>tr. w_readq w tr (port_hdr_reg (dev_pdata d) ''capability'') = cap"
  shows "wrote w w' [] \<and> uint pid = number_of cap"
  using assms by (auto simp: fpga_port_id_def number_of_def readq_def Let_def
      intro: wrote_emit [of _ "RdQ a v" for a v, simplified])

lemma port_config_wrote:
  "\<exists>v. wrote w (port_config_vf fme i vf w) [(fme_port_reg fme i,
     set_field feature_fme_port ''afu_access_control'' (if vf then FME_AFU_ACCESS_VF else FME_AFU_ACCESS_PF) v)]"
proof -
  obtain v w1 where rd: "readq (fme_port_reg fme i) w = (v, w1)" by (metis surj_pair)
  show ?thesis
    using wrote_trans [OF wrote_readq [OF rd] wrote_writeq]
    by (auto simp: port_config_vf_def rd)
qed

lemma config_vf_wrote:
  "stable_caps cap ds w \<Longrightarrow> 0 \<le> k \<Longrightarrow> k < n \<Longrightarrow>
   \<exists>vs. length vs = length (take (nat (n - k)) (filter (\<lambda>d. \<not> pl_registered d) ds)) \<and>
     wrote w (config_vf_ports fme n ds k w)
       (map2 (\<lambda>d. access_write fme FME_AFU_ACCESS_VF (cap d))
         (take (nat (n - k)) (filter (\<lambda>d. \<not> pl_registered d) ds)) vs)"
proof (induction ds arbitrary: k w)
  case Nil
  then show ?case by simp
next
  case (Cons d ds)
  obtain pid w1 where id: "fpga_port_id (dev_pdata d) w = (pid, w1)" by (metis surj_pair)
  have p: "wrote w w1 []" "uint pid = number_of (cap d)"
    using port_id_stable [OF id] Cons.prems(1) by auto
  have st: "stable_caps cap ds w1"
    using Cons.prems(1) stable_caps_wrote [OF p(1), of cap ds] by simp
  show ?case
  proof (cases "pl_registered d")
    case True
    then show ?thesis
      using Cons.IH [OF st Cons.prems(2,3)] wrote_trans [OF p(1)] by (fastforce simp: id)
  next
    case False
    let ?w2 = "port_config_vf fme (uint pid) True w1"
    obtain v where v: "wrote w ?w2 [access_write fme FME_AFU_ACCESS_VF (cap d) v]"
      using port_config_wrote [of w1 fme "uint pid" True] wrote_trans [OF p(1)] p(2)
      by (force simp: access_write_def)
    have nat: "nat (n - k) = Suc (nat (n - (k + 1)))" using Cons.prems(2,3) by simp
    show ?thesis
    proof (cases "k + 1 = n")
      case True
      then show ?thesis
        using v False Cons.prems by (intro exI [of _ "[v]"]) (simp add: id nat)
    next
      case more: False
      have "stable_caps cap ds ?w2"
        using Cons.prems(1) stable_caps_wrote [OF v, of cap ds] by simp
      then obtain vs where vs: "length vs =
          length (take (nat (n - (k + 1))) (filter (\<lambda>d. \<not> pl_registered d) ds))"
        "wrote ?w2 (config_vf_ports fme n ds (k + 1) ?w2)
          (map2 (\<lambda>d. access_write fme FME_AFU_ACCESS_VF (cap d))
            (take (nat (n - (k + 1))) (filter (\<lambda>d. \<not> pl_registered d) ds)) vs)"
        using Cons.IH [of ?w2 "k + 1"] more Cons.prems(2,3) by auto
      show ?thesis
        using wrote_trans [OF v vs(2)] vs(1) False more Cons.prems(2,3)
        by (intro exI [of _ "v # vs"]) (simp add: id nat Let_def)
    qed
  qed
qed

lemma restore_pf_wrote:
  "stable_caps cap ds w \<Longrightarrow>
   \<exists>vs. length vs = length (filter (\<lambda>d. \<not> pl_registered d) ds) \<and>
     wrote w (restore_pf_ports fme ds w)
       (map2 (\<lambda>d. access_write fme FME_AFU_ACCESS_PF (cap d)) (filter (\<lambda>d. \<not> pl_registered d) ds) vs)"
proof (induction ds arbitrary: w)
  case Nil
  then show ?case by simp
next
  case (Cons d ds)
  obtain pid w1 where id: "fpga_port_id (dev_pdata d) w = (pid, w1)" by (metis surj_pair)
  have p: "wrote w w1 []" "uint pid = number_of (cap d)"
    using port_id_stable [OF id] Cons.prems(1) by auto
  have st: "stable_caps cap ds w1"
    using Cons.prems(1) stable_caps_wrote [OF p(1), of cap ds] by simp
  show ?case
  proof (cases "pl_registered d")
    case True
    then show ?thesis
      using Cons.IH [OF st] wrote_trans [OF p(1)] by (fastforce simp: id)
  next
    case False
    let ?w2 = "port_config_vf fme (uint pid) False w1"
    obtain v where v: "wrote w ?w2 [access_write fme FME_AFU_ACCESS_PF (cap d) v]"
      using port_config_wrote [of w1 fme "uint pid" False] wrote_trans [OF p(1)] p(2)
      by (force simp: access_write_def)
    have "stable_caps cap ds ?w2"
      using Cons.prems(1) stable_caps_wrote [OF v, of cap ds] by simp
    then obtain vs where vs: "length vs = length (filter (\<lambda>d. \<not> pl_registered d) ds)"
      "wrote ?w2 (restore_pf_ports fme ds ?w2)
        (map2 (\<lambda>d. access_write fme FME_AFU_ACCESS_PF (cap d)) (filter (\<lambda>d. \<not> pl_registered d) ds) vs)"
      using Cons.IH [of ?w2] by auto
    show ?thesis
      using wrote_trans [OF v vs(2)] vs(1) False by (intro exI [of _ "v # vs"]) (simp add: id)
  qed
qed

text \<open>
  C11. Asked for \<open>n\<close> virtual functions, the driver either refuses because fewer ports are released and
  touches nothing, or gives exactly the first \<open>n\<close> released ports to virtual functions, writing the
  access bit of each one's own register only; when the kernel then fails to enable them, every
  released port is given back to the host before the error is returned.
\<close>

theorem sriov_configures_released_ports:
  assumes "cci_pci_sriov_configure n drv w = (r, w')" and "0 < n"
    and "drv_released_port_num drv = int (length (released_ports drv))"
    and "stable_caps cap (drv_ports drv) w"
  defines "fme \<equiv> dev_pdata (the (drv_fme_dev drv))"
  shows "if length (released_ports drv) < nat n then r = Inl EBUSY \<and> w' = w
    else \<exists>vs. length vs = nat n \<and>
      (let vf = map2 (\<lambda>d. access_write fme FME_AFU_ACCESS_VF (cap d)) (take (nat n) (released_ports drv)) vs
       in r = Inr n \<and> writes_of (events_between w w') = vf \<or>
          (\<exists>e us. r = Inl e \<and> length us = length (released_ports drv) \<and> writes_of (events_between w w') =
             vf @ map2 (\<lambda>d. access_write fme FME_AFU_ACCESS_PF (cap d)) (released_ports drv) us))"
proof (cases "length (released_ports drv) < nat n")
  case True
  then show ?thesis
    using assms(1-3) by (auto simp: cci_pci_sriov_configure_def Let_def split: if_splits)
next
  case False
  then have ge: "\<not> drv_released_port_num drv < n" using assms(2,3) by simp
  let ?w1 = "config_vf_ports fme n (drv_ports drv) 0 w"
  let ?vf = "\<lambda>vs. map2 (\<lambda>d. access_write fme FME_AFU_ACCESS_VF (cap d))
    (take (nat n) (released_ports drv)) vs"
  obtain vs where vs: "length vs = nat n" "wrote w ?w1 (?vf vs)"
    using config_vf_wrote [OF assms(4), of 0 n fme] assms(2) False
    by (auto simp: released_ports_def)
  obtain r2 w2 where en: "kstatus Pci_enable_sriov [n] ?w1 = (r2, w2)" by (metis surj_pair)
  have w2: "wrote w w2 (?vf vs)" using wrote_trans [OF vs(2) wrote_kstatus [OF en]] by simp
  show ?thesis
  proof (cases r2)
    case (Inr u)
    then have "r = Inr n" "w' = w2"
      using assms(1,2) ge en by (auto simp: cci_pci_sriov_configure_def Let_def fme_def)
    with vs(1) wrote_events [OF w2] False show ?thesis by (auto simp: Let_def)
  next
    case (Inl e)
    then have r: "r = Inl e" "w' = restore_pf_ports fme (drv_ports drv) w2"
      using assms(1,2) ge en by (auto simp: cci_pci_sriov_configure_def Let_def fme_def)
    have "stable_caps cap (drv_ports drv) w2"
      using assms(4) stable_caps_wrote [OF w2, of cap "drv_ports drv"] by simp
    then obtain us where us: "length us = length (released_ports drv)"
      "wrote w2 w' (map2 (\<lambda>d. access_write fme FME_AFU_ACCESS_PF (cap d)) (released_ports drv) us)"
      using restore_pf_wrote [of cap "drv_ports drv" w2 fme] r(2) by (auto simp: released_ports_def)
    from vs(1) us(1) wrote_events [OF wrote_trans [OF w2 us(2)]] r(1) False show ?thesis
      by (auto simp: Let_def)
  qed
qed

text \<open>Two released ports, numbers 0 and 1, and a kernel that has no virtual functions.\<close>

definition two_ports_drv :: "unit cci_drvdata" where
  "two_ports_drv = one_port_drv
     \<lparr>drv_fme_dev := Some \<lparr>pl_self = 5, pl_name = FPGA_FEATURE_DEV_FME, pl_id = 0, pl_devt = 0, pl_registered = True,
        pl_resource = [], pl_pdata = Some (empty_pdata\<lparr>pd_features := [zero_feature]\<rparr>)\<rparr>,
      drv_released_port_num := 2,
      drv_ports := map (\<lambda>i. \<lparr>pl_self = i, pl_name = FPGA_FEATURE_DEV_PORT, pl_id = i, pl_devt = 0,
        pl_registered = False, pl_resource = [],
        pl_pdata = Some (empty_pdata\<lparr>pd_features := [zero_feature\<lparr>f_ioaddr := word_of_int i * 0x1000\<rparr>]\<rparr>)\<rparr>) [1, 2]\<rparr>"

definition no_sriov_world :: world where
  "no_sriov_world = \<lparr>w_readq = (\<lambda>tr a. a div 0x1000), w_readl = (\<lambda>_ _. 0), w_readb = (\<lambda>_ _. 0),
     w_kcall = (\<lambda>_ _ _. Inl ENODEV), w_trace = []\<rparr>"

theorem sriov_configures_released_ports_witness:
  "\<exists>vs us. length vs = 1 \<and> length us = 2 \<and>
     writes_of (events_between no_sriov_world (snd (cci_pci_sriov_configure 1 two_ports_drv no_sriov_world))) =
       map2 (\<lambda>d. access_write (dev_pdata (the (drv_fme_dev two_ports_drv))) FME_AFU_ACCESS_VF (word_of_int (pl_id d)))
         (take 1 (drv_ports two_ports_drv)) vs @
       map2 (\<lambda>d. access_write (dev_pdata (the (drv_fme_dev two_ports_drv))) FME_AFU_ACCESS_PF (word_of_int (pl_id d)))
         (drv_ports two_ports_drv) us"
proof -
  obtain r w' where run: "cci_pci_sriov_configure 1 two_ports_drv no_sriov_world = (r, w')"
    by (metis surj_pair)
  have rel: "released_ports two_ports_drv = drv_ports two_ports_drv"
    by (simp add: released_ports_def two_ports_drv_def)
  have len: "length (drv_ports two_ports_drv) = 2" by (simp add: two_ports_drv_def)
  have "drv_released_port_num two_ports_drv = int (length (released_ports two_ports_drv))"
    unfolding rel len by (simp add: two_ports_drv_def)
  moreover have "stable_caps (\<lambda>d. word_of_int (pl_id d)) (drv_ports two_ports_drv) no_sriov_world"
    by (simp add: two_ports_drv_def stable_caps_def no_sriov_world_def port_hdr_reg_def dev_pdata_def
        get_feature_ioaddr_by_index_def reg_addr_def feature_port_header_def zero_feature_def
        sizeof_csr_def layout_width_def layout_defs feature_afu_header_def sizeof_regs_def)
  moreover have "\<exists>e. r = Inl e"
    using run by (auto simp: cci_pci_sriov_configure_def two_ports_drv_def Let_def kstatus_def kcall_def
        config_vf_ports.simps port_config_vf_def no_sriov_world_def fpga_port_id_def readq_def writeq_def
        split: prod.splits)
  ultimately show ?thesis
    using sriov_configures_released_ports [OF run] unfolding rel run len
    by (auto simp: Let_def)
qed

end
