(* ===== verification/Uuid.thy ===== *)
theory Uuid
  imports Driver_Prelude
begin

text \<open>
  UUID strings and bytes (\<^verbatim>\<open>drivers/fpga/intel/uuid_mod.c\<close>). A C string is the list of its
  characters without the terminating zero; reading at the end gives that zero. The random bytes and
  \<^verbatim>\<open>hex_to_bin\<close> come from the kernel and are arguments; \<open>hex_to_bin_ok\<close> is what the kernel documents
  of the latter.
\<close>

type_synonym uuid = "u8 list"

definition UUID_STRING_LEN :: nat where "UUID_STRING_LEN = 36"

definition uuid_le_index :: "nat list" where
  "uuid_le_index = [3, 2, 1, 0, 5, 4, 7, 6, 8, 9, 10, 11, 12, 13, 14, 15]"

definition uuid_be_index :: "nat list" where
  "uuid_be_index = [0, 1, 2, 3, 4, 5, 6, 7, 8, 9, 10, 11, 12, 13, 14, 15]"

subsection \<open>Random UUIDs\<close>

definition generate_random_uuid :: "uuid \<Rightarrow> uuid" where
  "generate_random_uuid bytes =
     (let uuid = bytes[6 := (bytes ! 6 AND 0x0F) OR 0x40] in uuid[8 := (uuid ! 8 AND 0x3F) OR 0x80])"

definition uuid_gen_common :: "uuid \<Rightarrow> uuid" where
  "uuid_gen_common bytes = bytes[8 := (bytes ! 8 AND 0x3F) OR 0x80]"

definition uuid_le_gen :: "uuid \<Rightarrow> uuid" where
  "uuid_le_gen bytes = (let lu = uuid_gen_common bytes in lu[7 := (lu ! 7 AND 0x0F) OR 0x40])"

definition uuid_be_gen :: "uuid \<Rightarrow> uuid" where
  "uuid_be_gen bytes = (let bu = uuid_gen_common bytes in bu[6 := (bu ! 6 AND 0x0F) OR 0x40])"

subsection \<open>Parsing\<close>

definition c_char :: "string \<Rightarrow> nat \<Rightarrow> char" where
  "c_char s i = (if i < length s then s ! i else CHR 0x00)"

definition isxdigit :: "char \<Rightarrow> bool" where
  "isxdigit c \<longleftrightarrow> (let n = of_char c :: nat in 48 \<le> n \<and> n \<le> 57 \<or> 65 \<le> n \<and> n \<le> 70 \<or> 97 \<le> n \<and> n \<le> 102)"

definition uuid_is_valid :: "string \<Rightarrow> bool" where
  "uuid_is_valid uuid \<longleftrightarrow> list_all (\<lambda>i.
     if i = 8 \<or> i = 13 \<or> i = 18 \<or> i = 23 then c_char uuid i = CHR ''-''
     else isxdigit (c_char uuid i)) [0..<UUID_STRING_LEN]"

definition uuid_si :: "nat list" where
  "uuid_si = [0, 2, 4, 6, 9, 11, 14, 16, 19, 21, 24, 26, 28, 30, 32, 34]"

definition uuid_to_bin :: "(char \<Rightarrow> int) \<Rightarrow> string \<Rightarrow> nat list \<Rightarrow> uuid \<Rightarrow> unit res \<times> uuid" where
  "uuid_to_bin hex_to_bin uuid ei b =
     (if \<not> uuid_is_valid uuid then (Inl EINVAL, b)
      else
        (Inr (), fold (\<lambda>i b.
           let hi = hex_to_bin (c_char uuid (uuid_si ! i + 0));
               lo = hex_to_bin (c_char uuid (uuid_si ! i + 1))
           in b[ei ! i := word_of_int (push_bit 4 hi OR lo)]) [0..<16] b))"

definition uuid_le_to_bin :: "(char \<Rightarrow> int) \<Rightarrow> string \<Rightarrow> uuid \<Rightarrow> unit res \<times> uuid" where
  "uuid_le_to_bin hex_to_bin uuid b = uuid_to_bin hex_to_bin uuid uuid_le_index b"

definition uuid_be_to_bin :: "(char \<Rightarrow> int) \<Rightarrow> string \<Rightarrow> uuid \<Rightarrow> unit res \<times> uuid" where
  "uuid_be_to_bin hex_to_bin uuid b = uuid_to_bin hex_to_bin uuid uuid_be_index b"

subsection \<open>Printing\<close>

text \<open>The value of a hexadecimal digit, and the digit of a value, in lower case.\<close>

definition hex_val :: "char \<Rightarrow> nat" where
  "hex_val c = (let n = of_char c in if n \<le> 57 then n - 48 else if n \<le> 70 then n - 55 else n - 87)"

definition hex_to_bin_ok :: "(char \<Rightarrow> int) \<Rightarrow> bool" where
  "hex_to_bin_ok hex_to_bin \<longleftrightarrow> (\<forall>c. isxdigit c \<longrightarrow> hex_to_bin c = int (hex_val c))"

definition hex_char :: "nat \<Rightarrow> char" where
  "hex_char n = char_of (if n < 10 then 48 + n else 87 + n)"

definition hi_digit :: "u8 \<Rightarrow> char" where "hi_digit b = hex_char (unat b div 16)"
definition lo_digit :: "u8 \<Rightarrow> char" where "lo_digit b = hex_char (unat b mod 16)"

definition byte_string :: "u8 \<Rightarrow> string" where
  "byte_string b = [hi_digit b, lo_digit b]"

text \<open>The text form of 16 bytes, in the order of the text.\<close>

definition uuid_string :: "uuid \<Rightarrow> string" where
  "uuid_string b =
     concat (map byte_string (take 4 b)) @ ''-'' @ concat (map byte_string (take 2 (drop 4 b))) @ ''-'' @
     concat (map byte_string (take 2 (drop 6 b))) @ ''-'' @ concat (map byte_string (take 2 (drop 8 b))) @
     ''-'' @ concat (map byte_string (drop 10 b))"

lemma of_char_hex: "n < 16 \<Longrightarrow> of_char (hex_char n) = (if n < 10 then 48 + n else 87 + n)"
  by (simp add: hex_char_def)

lemma hex_char_digit [simp]: "n < 16 \<Longrightarrow> isxdigit (hex_char n)"
  by (simp add: isxdigit_def of_char_hex Let_def)

lemma hex_char_val [simp]: "n < 16 \<Longrightarrow> hex_val (hex_char n) = n"
  by (simp add: hex_val_def of_char_hex Let_def)

lemma unat_byte: "unat (b :: u8) < 256"
  by (rule order.strict_trans2 [OF unsigned_less]) simp

lemma nibbles [simp]: "unat (b :: u8) div 16 < 16" "unat b mod 16 < 16"
  using unat_byte [of b] by simp_all

lemma join_nibbles [simp]:
  "word_of_int (push_bit 4 (int (unat b div 16)) OR int (unat b mod 16)) = (b :: u8)"
proof -
  have "push_bit 4 (int (unat b div 16)) OR int (unat b mod 16) = int (unat b)"
  proof -
    have "push_bit 4 (drop_bit 4 (unat b)) OR take_bit 4 (unat b) = unat b"
      by (rule bit_eqI) (auto simp: bit_simps)
    then have "push_bit 4 (unat b div 16) OR (unat b mod 16) = unat b"
      by (simp only: take_bit_eq_mod drop_bit_eq_div) simp
    then show ?thesis
      by (metis of_nat_or_eq of_nat_push_bit)
  qed
  then show ?thesis by simp
qed

lemma digits_ok [simp]: "isxdigit (hi_digit b)" "isxdigit (lo_digit b)"
  "hex_val (hi_digit b) = unat b div 16" "hex_val (lo_digit b) = unat b mod 16"
  by (simp_all add: hi_digit_def lo_digit_def)

lemma length_Suc_ex: "length xs = Suc n \<longleftrightarrow> (\<exists>x ys. xs = x # ys \<and> length ys = n)"
  by (cases xs) auto

lemma sixteen_bytes:
  assumes "length b = 16"
  shows "\<exists>x0 x1 x2 x3 x4 x5 x6 x7 x8 x9 x10 x11 x12 x13 x14 x15.
    b = [x0, x1, x2, x3, x4, x5, x6, x7, x8, x9, x10, x11, x12, x13, x14, x15]"
  using assms by (auto simp: numeral_eq_Suc length_Suc_ex)

lemma upt_lists:
  "[0..<36] = [0, 1, 2, 3, 4, 5, 6, 7, 8, 9, 10, 11, 12, 13, 14, 15, 16, 17, 18, 19, 20, 21,
     22, 23, 24, 25, 26, 27, 28, 29, 30, 31, 32, 33, 34, 35]"
  "[0..<16] = [0, 1, 2, 3, 4, 5, 6, 7, 8, 9, 10, 11, 12, 13, 14, 15]"
  by (simp_all add: upt_rec)

lemma uuid_string_valid:
  assumes "length b = 16"
  shows "uuid_is_valid (uuid_string b)"
proof -
  obtain x0 x1 x2 x3 x4 x5 x6 x7 x8 x9 x10 x11 x12 x13 x14 x15 where
    b: "b = [x0, x1, x2, x3, x4, x5, x6, x7, x8, x9, x10, x11, x12, x13, x14, x15]"
    using sixteen_bytes [OF assms] by blast
  show ?thesis
    by (simp add: b uuid_is_valid_def UUID_STRING_LEN_def upt_lists uuid_string_def byte_string_def
        c_char_def)
qed

text \<open>The two digits of the \<open>i\<close>-th byte of the text.\<close>

lemma uuid_string_digits:
  assumes "length b = 16" and "i < 16"
  shows "c_char (uuid_string b) (uuid_si ! i) = hi_digit (b ! i) \<and>
    c_char (uuid_string b) (uuid_si ! i + 1) = lo_digit (b ! i)"
proof -
  obtain x0 x1 x2 x3 x4 x5 x6 x7 x8 x9 x10 x11 x12 x13 x14 x15 where
    b: "b = [x0, x1, x2, x3, x4, x5, x6, x7, x8, x9, x10, x11, x12, x13, x14, x15]"
    using sixteen_bytes [OF assms(1)] by blast
  have "\<forall>i \<in> set [0..<16]. c_char (uuid_string b) (uuid_si ! i) = hi_digit (b ! i) \<and>
    c_char (uuid_string b) (uuid_si ! i + 1) = lo_digit (b ! i)"
    unfolding upt_lists by (simp add: b uuid_si_def uuid_string_def byte_string_def c_char_def)
  then show ?thesis using assms(2) by (metis atLeastLessThan_iff le0 set_upt)
qed

text \<open>Storing a byte at every position of a permutation fills the whole array.\<close>

lemma fold_store_length: "length (fold (\<lambda>i b. b[e i := g i]) is b) = length b"
  by (induction "is" arbitrary: b) auto

lemma fold_store_other:
  "k \<notin> e ` set is \<Longrightarrow> fold (\<lambda>i b. b[e i := g i]) is b ! k = b ! k"
  by (induction "is" arbitrary: b) auto

lemma fold_store_nth:
  "inj_on e (set is) \<Longrightarrow> distinct is \<Longrightarrow> i \<in> set is \<Longrightarrow> e i < length b \<Longrightarrow>
   fold (\<lambda>i b. b[e i := g i]) is b ! e i = g i"
proof (induction "is" arbitrary: b)
  case (Cons j "is")
  show ?case
  proof (cases "i = j")
    case True
    then have "e i \<notin> e ` set is" using Cons.prems(1,2) by (auto simp: inj_on_def)
    with True Cons.prems(4) show ?thesis by (simp add: fold_store_other)
  next
    case False
    with Cons show ?thesis by (auto simp: inj_on_def)
  qed
qed simp

lemma uuid_to_bin_string:
  assumes "hex_to_bin_ok h" and "length t = 16" and "length b0 = 16"
    and "distinct ei" and "length ei = 16" and "set ei = {0..<16}"
  shows "\<exists>b. uuid_to_bin h (uuid_string t) ei b0 = (Inr (), b) \<and> length b = 16 \<and>
    (\<forall>i < 16. b ! (ei ! i) = t ! i)"
proof -
  let ?b = "fold (\<lambda>i b. b[ei ! i := t ! i]) [0..<16] b0"
  have dig: "word_of_int (push_bit 4 (h (c_char (uuid_string t) (uuid_si ! i + 0))) OR
      h (c_char (uuid_string t) (uuid_si ! i + 1))) = t ! i" if "i < 16" for i
    using uuid_string_digits [OF assms(2) that] assms(1) by (simp add: hex_to_bin_ok_def)
  have "fold (\<lambda>i b. let hi = h (c_char (uuid_string t) (uuid_si ! i + 0));
      lo = h (c_char (uuid_string t) (uuid_si ! i + 1))
      in b[ei ! i := word_of_int (push_bit 4 hi OR lo)]) [0..<16] b0 = ?b"
    by (rule fold_cong) (use dig in \<open>auto simp: Let_def simp del: add_0_right\<close>)
  then have run: "uuid_to_bin h (uuid_string t) ei b0 = (Inr (), ?b)"
    using uuid_string_valid [OF assms(2)] unfolding uuid_to_bin_def by simp
  have inj: "inj_on ((!) ei) (set [0..<16])"
    using assms(4,5) by (auto simp: inj_on_def nth_eq_iff_index_eq)
  have "?b ! (ei ! i) = t ! i" if "i < 16" for i
  proof -
    have "ei ! i < length b0"
      using assms(3,5,6) that nth_mem [of i ei] by simp
    then show ?thesis
      using fold_store_nth [OF inj, of i b0 "(!) t"] that by simp
  qed
  with run show ?thesis
    by (intro exI [of _ ?b] conjI allI impI) (simp_all only: fold_store_length assms(3))
qed

lemma uuid_both_orders:
  assumes "hex_to_bin_ok h" and "length b = 16" and "length b0 = 16"
  shows "uuid_be_to_bin h (uuid_string b) b0 = (Inr (), b) \<and>
    uuid_le_to_bin h (uuid_string (map ((!) b) uuid_le_index)) b0 = (Inr (), b)"
proof
  have set16: "{0..<16} = set [0..<16]" by simp
  obtain b1 where b1: "uuid_be_to_bin h (uuid_string b) b0 = (Inr (), b1)" "length b1 = 16"
    "\<forall>i < 16. b1 ! (uuid_be_index ! i) = b ! i"
    using uuid_to_bin_string [OF assms, of uuid_be_index] unfolding set16 upt_lists
    by (auto simp: uuid_be_to_bin_def uuid_be_index_def)
  have "b1 = b"
  proof (rule nth_equalityI)
    fix i assume "i < length b1"
    then have i: "i < 16" using b1(2) by simp
    have "uuid_be_index = [0..<16]" unfolding upt_lists by (simp add: uuid_be_index_def)
    then have "uuid_be_index ! i = i" using nth_upt [of 0 i 16] i by (simp only: add_0)
    with b1(3) i show "b1 ! i = b ! i" by metis
  qed (use b1 assms in simp)
  with b1 show "uuid_be_to_bin h (uuid_string b) b0 = (Inr (), b)" by simp
  have "length (map ((!) b) uuid_le_index) = 16" by (simp add: uuid_le_index_def)
  from uuid_to_bin_string [OF assms(1) this assms(3), of uuid_le_index] obtain b2 where
    b2: "uuid_le_to_bin h (uuid_string (map ((!) b) uuid_le_index)) b0 = (Inr (), b2)" "length b2 = 16"
    "\<forall>i < 16. b2 ! (uuid_le_index ! i) = map ((!) b) uuid_le_index ! i"
    unfolding set16 upt_lists by (auto simp: uuid_le_to_bin_def uuid_le_index_def)
  have "b2 = b"
  proof (rule nth_equalityI)
    fix i assume "i < length b2"
    then have i: "i < 16" using b2(2) by simp
    have inv: "uuid_le_index ! (uuid_le_index ! i) = i \<and> uuid_le_index ! i < 16"
    proof -
      have "\<forall>i \<in> set [0..<16]. uuid_le_index ! (uuid_le_index ! i) = i \<and> uuid_le_index ! i < 16"
        unfolding upt_lists by (simp add: uuid_le_index_def)
      then show ?thesis using i by (metis atLeastLessThan_iff le0 set_upt)
    qed
    then have "b2 ! i = map ((!) b) uuid_le_index ! (uuid_le_index ! i)" using b2(3) by metis
    also have "\<dots> = b ! i"
    proof -
      have "length uuid_le_index = 16" by (simp add: uuid_le_index_def)
      then show ?thesis using inv by (simp add: nth_map)
    qed
    finally show "b2 ! i = b ! i" .
  qed (use b2 assms in simp)
  with b2 show "uuid_le_to_bin h (uuid_string (map ((!) b) uuid_le_index)) b0 = (Inr (), b)" by simp
qed

text \<open>The bytes in the order of the text, when the first three groups are numbers in little-endian form.\<close>

definition text_order_le :: "uuid \<Rightarrow> uuid" where
  "text_order_le b = rev (take 4 b) @ rev (take 2 (drop 4 b)) @ rev (take 2 (drop 6 b)) @ drop 8 b"

lemma text_order_index:
  assumes "length b = 16"
  shows "map ((!) b) uuid_le_index = text_order_le b"
proof -
  obtain x0 x1 x2 x3 x4 x5 x6 x7 x8 x9 x10 x11 x12 x13 x14 x15 where
    b: "b = [x0, x1, x2, x3, x4, x5, x6, x7, x8, x9, x10, x11, x12, x13, x14, x15]"
    using sixteen_bytes [OF assms] by blast
  show ?thesis by (simp add: b text_order_le_def uuid_le_index_def)
qed

text \<open>
  C23. Parsing the text form of any 16 bytes succeeds and gives these bytes: in the order of the text
  for the big-endian form, and with the bytes of each of the first three groups, of 4, 2 and 2 bytes,
  reversed for the little-endian form.
\<close>

theorem uuid_roundtrip:
  assumes "hex_to_bin_ok h" and "length b = 16" and "length b0 = 16"
  shows "uuid_be_to_bin h (uuid_string b) b0 = (Inr (), b) \<and>
    uuid_le_to_bin h (uuid_string
      (rev (take 4 b) @ rev (take 2 (drop 4 b)) @ rev (take 2 (drop 6 b)) @ drop 8 b)) b0 = (Inr (), b)"
  using uuid_both_orders [OF assms] unfolding text_order_index [OF assms(2)] text_order_le_def .

theorem uuid_roundtrip_witness:
  "uuid_be_to_bin (int \<circ> hex_val) ''00010203-0405-0607-0809-0a0b0c0d0e0f'' (replicate 16 0) =
     (Inr (), [0, 1, 2, 3, 4, 5, 6, 7, 8, 9, 10, 11, 12, 13, 14, 15]) \<and>
   uuid_le_to_bin (int \<circ> hex_val) ''03020100-0504-0706-0809-0a0b0c0d0e0f'' (replicate 16 0) =
     (Inr (), [0, 1, 2, 3, 4, 5, 6, 7, 8, 9, 10, 11, 12, 13, 14, 15])"
proof -
  have "uuid_string [0, 1, 2, 3, 4, 5, 6, 7, 8, 9, 10, 11, 12, 13, 14, 15] =
      ''00010203-0405-0607-0809-0a0b0c0d0e0f''"
    by (simp add: uuid_string_def byte_string_def hi_digit_def lo_digit_def hex_char_def char_of_def) code_simp
  moreover have "uuid_string [3, 2, 1, 0, 5, 4, 7, 6, 8, 9, 10, 11, 12, 13, 14, 15] =
      ''03020100-0504-0706-0809-0a0b0c0d0e0f''"
    by (simp add: uuid_string_def byte_string_def hi_digit_def lo_digit_def hex_char_def char_of_def) code_simp
  moreover have "hex_to_bin_ok (int \<circ> hex_val)" by (simp add: hex_to_bin_ok_def)
  ultimately show ?thesis
    using uuid_roundtrip [of "int \<circ> hex_val"
        "[0, 1, 2, 3, 4, 5, 6, 7, 8, 9, 10, 11, 12, 13, 14, 15]" "replicate 16 0"] by simp
qed

end
