(* ===== verification/Pcie_Enum.thy ===== *)
theory Pcie_Enum
  imports Pcie_Ports Afu_Region Uuid
begin

text \<open>
  Enumeration of the features of a PCIe device (\<^verbatim>\<open>drivers/fpga/intel/pcie.c\<close>): walking the device
  feature lists that the hardware presents in its BARs, and creating the FME and port devices with
  the features found. \<^verbatim>\<open>drivers/fpga/intel/pcie_check.c\<close>, which compares the headers found with the
  expected ones, is the first part.

  A device feature list is a linked list in device memory: what the driver follows is what the
  hardware answers. Functions that contain such a loop are partial: \<open>None\<close> stands for a run that
  does not return. A run that follows a null pointer ends in a \<open>Fault\<close>, with the address of the port
  header whose device or header feature was not there. Reads that only serve a debug message are left
  out.
\<close>

subsection \<open>Checking headers\<close>

definition default_reg :: "u64 \<Rightarrow> u64 \<Rightarrow> u64 \<Rightarrow> u64 \<Rightarrow> u64" where
  "default_reg fid version next_offset type =
     set_field feature_header ''type'' type
       (set_field feature_header ''next_header_offset'' next_offset
         (set_field feature_header ''revision'' version (set_field feature_header ''id'' fid 0)))"

definition DFH_TYPE_PRIVATE :: u64 where "DFH_TYPE_PRIVATE = 3"
definition DFH_TYPE_FIU :: u64 where "DFH_TYPE_FIU = 4"

text \<open>The expected header of each sub-feature: its id, revision, offset of the next one and type.\<close>

definition FME_FEATURE_HEADER :: u64 where
  "FME_FEATURE_HEADER = default_reg 0 1 0x1000 DFH_TYPE_FIU"

definition FME_FEATURE_THERMAL_MGMT :: u64 where
  "FME_FEATURE_THERMAL_MGMT = default_reg 1 0 0x1000 DFH_TYPE_PRIVATE"

definition FME_FEATURE_POWER_MGMT :: u64 where
  "FME_FEATURE_POWER_MGMT = default_reg 2 1 0x1000 DFH_TYPE_PRIVATE"

definition FME_FEATURE_GLOBAL_IPERF :: u64 where
  "FME_FEATURE_GLOBAL_IPERF = default_reg 3 1 0x1000 DFH_TYPE_PRIVATE"

definition FME_FEATURE_GLOBAL_ERR :: u64 where
  "FME_FEATURE_GLOBAL_ERR = default_reg 4 1 0x1000 DFH_TYPE_PRIVATE"

definition FME_FEATURE_PR_MGMT :: u64 where
  "FME_FEATURE_PR_MGMT = default_reg 5 2 0x1000 DFH_TYPE_PRIVATE"

definition FME_FEATURE_HSSI_ETH :: u64 where
  "FME_FEATURE_HSSI_ETH = default_reg 6 0 0x1000 DFH_TYPE_PRIVATE"

definition FME_FEATURE_GLOBAL_DPERF :: u64 where
  "FME_FEATURE_GLOBAL_DPERF = default_reg 7 0 0 DFH_TYPE_PRIVATE"

definition FME_FEATURE_QSPI_FLASH :: u64 where
  "FME_FEATURE_QSPI_FLASH = default_reg 8 0 0x2000 DFH_TYPE_PRIVATE"

definition PORT_FEATURE_HEADER :: u64 where
  "PORT_FEATURE_HEADER = default_reg 1 0 0x1000 DFH_TYPE_FIU"

definition PORT_FEATURE_ERR :: u64 where
  "PORT_FEATURE_ERR = default_reg 0x10 1 0x1000 DFH_TYPE_PRIVATE"

definition PORT_FEATURE_UMSG :: u64 where
  "PORT_FEATURE_UMSG = default_reg 0x11 0 0x2000 DFH_TYPE_PRIVATE"

definition PORT_FEATURE_STP :: u64 where
  "PORT_FEATURE_STP = default_reg 0x13 1 0 DFH_TYPE_PRIVATE"

definition default_port_feature_hdr :: "u64 list" where
  "default_port_feature_hdr =
     [PORT_FEATURE_HEADER, PORT_FEATURE_ERR, PORT_FEATURE_UMSG, 0, PORT_FEATURE_STP, 0]"

definition default_fme_feature_hdr :: "u64 list" where
  "default_fme_feature_hdr =
     [FME_FEATURE_HEADER, FME_FEATURE_THERMAL_MGMT, FME_FEATURE_POWER_MGMT,
      FME_FEATURE_GLOBAL_IPERF, FME_FEATURE_GLOBAL_ERR, FME_FEATURE_PR_MGMT, FME_FEATURE_HSSI_ETH,
      FME_FEATURE_GLOBAL_DPERF, FME_FEATURE_QSPI_FLASH]"

text \<open>The result is whether the check passes, which the code only prints.\<close>

definition check_features_header :: "u64 \<Rightarrow> fpga_devt_type \<Rightarrow> nat \<Rightarrow> world \<Rightarrow> bool \<times> world" where
  "check_features_header hdr type fid w =
     (let dflt = (case type of FPGA_DEVT_FME \<Rightarrow> default_fme_feature_hdr
                  | FPGA_DEVT_PORT \<Rightarrow> default_port_feature_hdr)
      in case readq hdr w of (csr, w1) \<Rightarrow> (csr = dflt ! fid, w1))"

subsection \<open>Data\<close>

text \<open>
  What the kernel tells of the PCI device and the code only asks: the BARs, the number of interrupt
  vectors (negative on error) and their interrupt numbers, and \<^verbatim>\<open>hex_to_bin\<close>. The table of
  character device numbers is the one of \<^verbatim>\<open>feature-dev.c\<close>.
\<close>

record pci_env =
  env_resource_start :: "int \<Rightarrow> u64"
  env_resource_len :: "int \<Rightarrow> u64"
  env_msix_vec_count :: int
  env_irq_vector :: "nat \<Rightarrow> int"
  env_hex_to_bin :: "char \<Rightarrow> int"
  env_chrdevs :: "fpga_chardev_info list"

datatype fpga_id_type = PARENT_ID | FME_ID | PORT_ID | FPGA_ID_MAX

fun id_type_index :: "fpga_id_type \<Rightarrow> int" where
  "id_type_index PARENT_ID = 0"
| "id_type_index FME_ID = 1"
| "id_type_index PORT_ID = 2"
| "id_type_index FPGA_ID_MAX = 3"

record feature_info =
  fi_name :: string
  fi_resource_size :: u64
  fi_feature_index :: nat
  fi_revision_id :: int
  fi_vec_start :: u32
  fi_vec_cnt :: u32

definition finfo :: "string \<Rightarrow> u64 \<Rightarrow> nat \<Rightarrow> int \<Rightarrow> feature_info" where
  "finfo name sz index revision =
     \<lparr>fi_name = name, fi_resource_size = sz, fi_feature_index = index, fi_revision_id = revision,
      fi_vec_start = 0, fi_vec_cnt = 0\<rparr>"

definition SKIP_REVISION_CHECK :: int where "SKIP_REVISION_CHECK = 0xff"

text \<open>\<^verbatim>\<open>sizeof\<close> of a register block.\<close>

definition sizeof_block :: "regset \<Rightarrow> u64" where
  "sizeof_block r = of_nat (sizeof_regs r)"

definition ALTERA_ASMIP2_RESOURCE_SIZE :: u64 where "ALTERA_ASMIP2_RESOURCE_SIZE = 0x10"

definition PORT_FEATURE_STP_REGION_SIZE :: u64 where
  "PORT_FEATURE_STP_REGION_SIZE = PAGE_ALIGN (sizeof_block feature_port_stp)"

definition fme_features :: "feature_info list" where
  "fme_features =
     [finfo ''fme_hdr'' (sizeof_block feature_fme_header) FME_FEATURE_ID_HEADER 1,
      finfo ''fme_thermal'' (sizeof_block feature_fme_thermal) FME_FEATURE_ID_THERMAL_MGMT 0,
      finfo ''fme_power'' (sizeof_block feature_fme_power) FME_FEATURE_ID_POWER_MGMT 1,
      finfo ''fme_iperf'' (sizeof_block feature_fme_iperf) FME_FEATURE_ID_GLOBAL_IPERF 1,
      finfo ''fme_error'' (sizeof_block feature_fme_err) FME_FEATURE_ID_GLOBAL_ERR 1,
      finfo ''fme_pr'' (sizeof_block feature_fme_pr) FME_FEATURE_ID_PR_MGMT 2,
      finfo ''fme_hssi'' (sizeof_block feature_fme_hssi) FME_FEATURE_ID_HSSI_ETH 0,
      finfo ''fme_dperf'' (sizeof_block feature_fme_dperf) FME_FEATURE_ID_GLOBAL_DPERF 0,
      finfo ''fme_qspi_flash'' ALTERA_ASMIP2_RESOURCE_SIZE FME_FEATURE_ID_QSPI_FLASH 0]"

definition port_features :: "feature_info list" where
  "port_features =
     [finfo ''port_hdr'' (sizeof_block feature_port_header) PORT_FEATURE_ID_HEADER 0,
      finfo ''port_err'' (sizeof_block feature_port_error) PORT_FEATURE_ID_ERROR 1,
      finfo ''port_umsg'' (sizeof_block feature_port_umsg) PORT_FEATURE_ID_UMSG 0,
      finfo ''port_uint'' (sizeof_block feature_port_uint) PORT_FEATURE_ID_UINT 0,
      finfo ''port_stp'' PORT_FEATURE_STP_REGION_SIZE PORT_FEATURE_ID_STP 1,
      finfo ''port_uafu'' 0 PORT_FEATURE_ID_UAFU SKIP_REVISION_CHECK]"

record 'p build_feature_devs_info =
  bi_self :: int
  bi_ioaddr :: u64
  bi_ioend :: u64
  bi_current_bar :: int
  bi_pfme_hdr :: u64
  bi_parent_dev :: "int option"
  bi_feature_dev :: "'p platform_device option"

text \<open>
  The state of an enumeration: the build information, the data of the driver, and the two tables
  above, which the code also uses for what it finds out about a feature.
\<close>

record 'p enum_state =
  es_binfo :: "'p build_feature_devs_info"
  es_drv :: "'p cci_drvdata"
  es_fme_features :: "feature_info list"
  es_port_features :: "feature_info list"

type_synonym 'p enum_call = "'p enum_state \<Rightarrow> world \<Rightarrow> unit res \<times> 'p enum_state \<times> world"

definition set_binfo ::
  "('p build_feature_devs_info \<Rightarrow> 'p build_feature_devs_info) \<Rightarrow> 'p enum_state \<Rightarrow> 'p enum_state" where
  "set_binfo f st = st\<lparr>es_binfo := f (es_binfo st)\<rparr>"

definition set_fdev :: "'p platform_device option \<Rightarrow> 'p enum_state \<Rightarrow> 'p enum_state" where
  "set_fdev d st = set_binfo (\<lambda>b. b\<lparr>bi_feature_dev := d\<rparr>) st"

abbreviation fdev_of :: "'p enum_state \<Rightarrow> 'p platform_device option" where
  "fdev_of st \<equiv> bi_feature_dev (es_binfo st)"

subsection \<open>Ids and BARs\<close>

definition alloc_fpga_id :: "fpga_id_type \<Rightarrow> world \<Rightarrow> int res \<times> world" where
  "alloc_fpga_id type w = kvalue Idr_alloc [id_type_index type] w"

definition free_fpga_id :: "fpga_id_type \<Rightarrow> int \<Rightarrow> world \<Rightarrow> world" where
  "free_fpga_id type i w = kvoid Idr_remove [id_type_index type, i] w"

text \<open>0 is the null pointer.\<close>

definition cci_pci_ioremap_bar ::
  "int \<Rightarrow> 'p cci_drvdata \<Rightarrow> world \<Rightarrow> u64 \<times> 'p cci_drvdata \<times> world" where
  "cci_pci_ioremap_bar bar drv w =
     (case find (\<lambda>r. cr_bar r = bar) (drv_regions drv) of
        Some r \<Rightarrow> (cr_ioaddr r, drv, w)
      | None \<Rightarrow>
          (case kvalue Kzalloc [] w of
             (Inl _, w1) \<Rightarrow> (0, drv, w1)
           | (Inr self, w1) \<Rightarrow>
               (case kvalue Pci_ioremap_bar [bar] w1 of
                  (Inl _, w2) \<Rightarrow> (0, drv, kvoid Devm_kfree [self] w2)
                | (Inr addr, w2) \<Rightarrow>
                    (word_of_int addr,
                     drv\<lparr>drv_regions := \<lparr>cr_self = self, cr_bar = bar, cr_ioaddr = word_of_int addr\<rparr>
                       # drv_regions drv\<rparr>, w2))))"

fun release_regions :: "cci_pci_region list \<Rightarrow> world \<Rightarrow> world" where
  "release_regions [] w = w"
| "release_regions (r # rs) w =
     (let w1 = (if cr_ioaddr r \<noteq> 0 then kvoid Pci_iounmap [uint (cr_ioaddr r)] w else w)
      in release_regions rs (kvoid Devm_kfree [cr_self r] w1))"

definition cci_pci_release_regions :: "'p cci_drvdata \<Rightarrow> world \<Rightarrow> 'p cci_drvdata \<times> world" where
  "cci_pci_release_regions drv w = (drv\<lparr>drv_regions := []\<rparr>, release_regions (drv_regions drv) w)"

definition parse_start_from :: "pci_env \<Rightarrow> int \<Rightarrow> 'p enum_call" where
  "parse_start_from env bar st w =
     (case cci_pci_ioremap_bar bar (es_drv st) w of
        (addr, drv, w1) \<Rightarrow>
          let st1 = set_binfo (\<lambda>b. b\<lparr>bi_ioaddr := addr\<rparr>) (st\<lparr>es_drv := drv\<rparr>) in
          if addr = 0 then (Inl ENOMEM, st1, w1)
          else
            (Inr (), set_binfo (\<lambda>b. b\<lparr>bi_current_bar := bar,
               bi_ioend := addr + env_resource_len env bar\<rparr>) st1, w1))"

definition parse_start :: "pci_env \<Rightarrow> 'p enum_call" where
  "parse_start env = parse_start_from env 0"

definition parse_switch_to :: "pci_env \<Rightarrow> int \<Rightarrow> 'p enum_call" where
  "parse_switch_to env bar = parse_start_from env bar"

subsection \<open>Feature devices\<close>

definition feature_dev_id_type :: "'p platform_device \<Rightarrow> fpga_id_type" where
  "feature_dev_id_type d =
     (if pl_name d = FPGA_FEATURE_DEV_FME then FME_ID
      else if pl_name d = FPGA_FEATURE_DEV_PORT then PORT_ID
      else FPGA_ID_MAX)"

definition cci_pci_add_port_dev ::
  "'p platform_device \<Rightarrow> 'p cci_drvdata \<Rightarrow> world \<Rightarrow> 'p cci_drvdata \<times> world" where
  "cci_pci_add_port_dev d drv w =
     (drv\<lparr>drv_ports := d # drv_ports drv\<rparr>, kvoid Get_device [pl_self d] w)"

definition build_info_commit_dev :: "'p enum_call" where
  "build_info_commit_dev st w =
     (case fdev_of st of
        None \<Rightarrow> (Inr (), st, w)
      | Some d \<Rightarrow>
          (case kstatus Platform_device_add [pl_self d] w of
             (Inl e, w1) \<Rightarrow> (Inl e, st, w1)
           | (Inr _, w1) \<Rightarrow>
               let d1 = d\<lparr>pl_registered := True\<rparr> in
               if feature_dev_id_type d = PORT_ID then
                 (case cci_pci_add_port_dev d1 (es_drv st) w1 of
                    (drv, w2) \<Rightarrow> (Inr (), set_fdev None (st\<lparr>es_drv := drv\<rparr>), w2))
               else
                 (Inr (), set_fdev None (st\<lparr>es_drv := (es_drv st)\<lparr>drv_fme_dev := Some d1\<rparr>\<rparr>),
                  kvoid Get_device [pl_self d] w1)))"

text \<open>
  The id of a device that has none yet is \<^verbatim>\<open>-ENODEV\<close>, or the error of the allocation; any negative
  number serves, and -1 is used.
\<close>

definition build_info_create_dev ::
  "pci_env \<Rightarrow> fpga_id_type \<Rightarrow> nat \<Rightarrow> string \<Rightarrow> 'p enum_call" where
  "build_info_create_dev env type feature_nr name st w =
     (case build_info_commit_dev st w of
        (Inl e, st1, w1) \<Rightarrow> (Inl e, st1, w1)
      | (Inr _, st1, w1) \<Rightarrow>
          (case kvalue Platform_device_alloc [] w1 of
             (Inl _, w2) \<Rightarrow> (Inl ENOMEM, set_fdev None st1, w2)
           | (Inr self, w2) \<Rightarrow>
               let d = \<lparr>pl_self = self, pl_name = name, pl_id = -1, pl_devt = 0, pl_registered = False,
                        pl_resource = [], pl_pdata = None\<rparr> in
               (case alloc_fpga_id type w2 of
                  (Inl e, w3) \<Rightarrow> (Inl e, set_fdev (Some d) st1, w3)
                | (Inr fid, w3) \<Rightarrow>
                    let d1 = d\<lparr>pl_id := fid,
                      pl_devt := fpga_get_devt (env_chrdevs env)
                        (if type = PORT_ID then FPGA_DEVT_PORT else FPGA_DEVT_FME) (word_of_int fid)\<rparr> in
                    (case feature_platform_data_alloc_and_init feature_nr w3 of
                       (None, w4) \<Rightarrow> (Inl ENOMEM, set_fdev (Some d1) st1, w4)
                     | (Some pd, w4) \<Rightarrow>
                         (case kvalue Kcalloc [int feature_nr] w4 of
                            (Inl _, w5) \<Rightarrow>
                              (Inl ENOMEM, set_fdev (Some (d1\<lparr>pl_pdata := Some pd\<rparr>)) st1, w5)
                          | (Inr _, w5) \<Rightarrow>
                              (Inr (), set_fdev (Some (d1\<lparr>pl_pdata := Some pd,
                                 pl_resource := replicate feature_nr (0, 0)\<rparr>)) st1, w5))))))"

text \<open>
  Adding a feature to the device that is being built. The comparison of the vectors is one of
  unsigned numbers, to which the count of vectors is converted.
\<close>

definition irq_ctxs :: "pci_env \<Rightarrow> u32 \<Rightarrow> u32 \<Rightarrow> feature_irq_ctx list" where
  "irq_ctxs env vec_start vec_cnt =
     map (\<lambda>i. \<lparr>ctx_trigger = None, ctx_name = 0,
               ctx_irq = env_irq_vector env (unat (vec_start + of_nat i))\<rparr>) [0..<unat vec_cnt]"

definition build_info_add_sub_feature ::
  "pci_env \<Rightarrow> nat \<Rightarrow> string \<Rightarrow> u64 \<Rightarrow> u64 \<Rightarrow> u32 \<Rightarrow> u32 \<Rightarrow> 'p enum_call" where
  "build_info_add_sub_feature env feature_id feature_name resource_size start vec_start vec_cnt st w =
     (let fdev = the (fdev_of st);
          res_start = env_resource_start env (bi_current_bar (es_binfo st)) + start
            - bi_ioaddr (es_binfo st);
          fdev1 = fdev\<lparr>pl_resource := (pl_resource fdev)
            [feature_id := (res_start, res_start + resource_size - 1)]\<rparr>;
          add = (\<lambda>ctx. fdev1\<lparr>pl_pdata := Some (feature_platform_data_add (dev_pdata fdev) feature_id
            feature_name (int feature_id) start ctx (uint vec_cnt))\<rparr>)
      in if vec_cnt \<noteq> 0 then
           (if word_of_int (env_msix_vec_count env) < vec_start + vec_cnt
            then (Inl EINVAL, set_fdev (Some fdev1) st, w)
            else
              (case kvalue Kcalloc [uint vec_cnt] w of
                 (Inl _, w1) \<Rightarrow> (Inl ENOMEM, set_fdev (Some fdev1) st, w1)
               | (Inr _, w1) \<Rightarrow>
                   (Inr (), set_fdev (Some (add (irq_ctxs env vec_start vec_cnt))) st, w1)))
         else (Inr (), set_fdev (Some (add [])) st, w))"

definition create_feature_instance :: "pci_env \<Rightarrow> u64 \<Rightarrow> feature_info \<Rightarrow> 'p enum_call" where
  "create_feature_instance env start fi st w =
     (if bi_ioend (es_binfo st) - start < fi_resource_size fi then (Inl EINVAL, st, w)
      else build_info_add_sub_feature env (fi_feature_index fi) (fi_name fi) (fi_resource_size fi)
        start (fi_vec_start fi) (fi_vec_cnt fi) st w)"

subsection \<open>Parsing one feature\<close>

definition parse_feature_fme :: "pci_env \<Rightarrow> u64 \<Rightarrow> 'p enum_call" where
  "parse_feature_fme env start st w =
     (case build_info_create_dev env FME_ID fme_feature_num FPGA_FEATURE_DEV_FME st w of
        (Inl e, st1, w1) \<Rightarrow> (Inl e, st1, w1)
      | (Inr _, st1, w1) \<Rightarrow>
          if drv_fme_dev (es_drv st1) \<noteq> None then (Inl EINVAL, st1, w1)
          else create_feature_instance env start (es_fme_features st1 ! FME_FEATURE_ID_HEADER) st1 w1)"

definition parse_feature_port :: "pci_env \<Rightarrow> u64 \<Rightarrow> 'p enum_call" where
  "parse_feature_port env start st w =
     (case build_info_create_dev env PORT_ID port_feature_num FPGA_FEATURE_DEV_PORT st w of
        (Inl e, st1, w1) \<Rightarrow> (Inl e, st1, w1)
      | (Inr _, st1, w1) \<Rightarrow>
          create_feature_instance env start (es_port_features st1 ! PORT_FEATURE_ID_HEADER) st1 w1)"

definition parse_feature_irqs :: "u64 \<Rightarrow> feature_info \<Rightarrow> world \<Rightarrow> feature_info \<times> world" where
  "parse_feature_irqs start fi0 w =
     (let fi = fi0\<lparr>fi_vec_start := 0, fi_vec_cnt := 0\<rparr> in
      if fi_name fi = ''port_uint'' then
        (case readq (reg_addr feature_port_uint ''capability'' start) w of
           (csr, w1) \<Rightarrow>
             (if get_field feature_port_uint_cap ''intr_num'' csr \<noteq> 0 then
                fi\<lparr>fi_vec_start := ucast (get_field feature_port_uint_cap ''first_vec_num'' csr),
                   fi_vec_cnt := ucast (get_field feature_port_uint_cap ''intr_num'' csr)\<rparr>
              else fi, w1))
      else if fi_name fi = ''port_err'' then
        (case readq (reg_addr feature_port_error ''error_capability'' start) w of
           (csr, w1) \<Rightarrow>
             (if get_field feature_port_err_capability ''support_intr'' csr \<noteq> 0 then
                fi\<lparr>fi_vec_start := ucast (get_field feature_port_err_capability ''intr_vector_num'' csr),
                   fi_vec_cnt := 1\<rparr>
              else fi, w1))
      else if fi_name fi = ''fme_error'' then
        (case readq (reg_addr feature_fme_err ''fme_err_capability'' start) w of
           (csr, w1) \<Rightarrow>
             (if get_field feature_fme_error_capability ''support_intr'' csr \<noteq> 0 then
                fi\<lparr>fi_vec_start := ucast (get_field feature_fme_error_capability ''intr_vector_num'' csr),
                   fi_vec_cnt := 1\<rparr>
              else fi, w1))
      else (fi, w))"

definition parse_feature_fme_private :: "pci_env \<Rightarrow> u64 \<Rightarrow> 'p enum_call" where
  "parse_feature_fme_private env hdr st w =
     (case readq hdr w of
        (csr, w1) \<Rightarrow>
          let fid = unat (get_field feature_header ''id'' csr) in
          if length (es_fme_features st) \<le> fid then (Inr (), st, w1)
          else
            (case parse_feature_irqs hdr (es_fme_features st ! fid) w1 of
               (fi, w2) \<Rightarrow>
                 (case check_features_header hdr FPGA_DEVT_FME fid w2 of
                    (_, w3) \<Rightarrow>
                      create_feature_instance env hdr fi
                        (st\<lparr>es_fme_features := (es_fme_features st)[fid := fi]\<rparr>) w3)))"

definition parse_feature_port_private :: "pci_env \<Rightarrow> u64 \<Rightarrow> 'p enum_call" where
  "parse_feature_port_private env hdr st w =
     (case readq hdr w of
        (csr, w1) \<Rightarrow>
          let fid = unat (get_field feature_header ''id'' csr AND 0xf) + 1 in
          if length (es_port_features st) \<le> fid then (Inr (), st, w1)
          else
            (case parse_feature_irqs hdr (es_port_features st ! fid) w1 of
               (fi, w2) \<Rightarrow>
                 (case check_features_header hdr FPGA_DEVT_PORT fid w2 of
                    (_, w3) \<Rightarrow>
                      create_feature_instance env hdr fi
                        (st\<lparr>es_port_features := (es_port_features st)[fid := fi]\<rparr>) w3)))"

definition set_uafu_size :: "u64 \<Rightarrow> 'p enum_state \<Rightarrow> 'p enum_state" where
  "set_uafu_size sz st =
     st\<lparr>es_port_features := (es_port_features st)[PORT_FEATURE_ID_UAFU :=
       (es_port_features st ! PORT_FEATURE_ID_UAFU)\<lparr>fi_resource_size := sz\<rparr>]\<rparr>"

definition parse_feature_port_uafu :: "pci_env \<Rightarrow> u64 \<Rightarrow> 'p enum_call" where
  "parse_feature_port_uafu env hdr st w =
     (let fi = es_port_features st ! PORT_FEATURE_ID_UAFU in
      if fi_resource_size fi \<noteq> 0 then
        (case create_feature_instance env hdr fi st w of
           (r, st1, w1) \<Rightarrow> (r, set_uafu_size 0 st1, w1))
      else (Inl EINVAL, st, w))"

text \<open>How a run that ends does: with a value, or by following a null pointer.\<close>

datatype 'a outcome = Fault u64 | Done 'a

text \<open>
  The reset goes to the device that is being built, whatever became of it. The code follows a null
  pointer when there is no device, when it has no data, and when the feature of its header was not
  added, so that the address of the header is null; the latter not when the port is disabled already,
  since then the reset touches no register.
\<close>

definition enable_port_uafu :: "u64 \<Rightarrow> 'p enum_state \<Rightarrow> world \<Rightarrow> ('p enum_state \<times> world) outcome" where
  "enable_port_uafu start st w =
     (case readq (reg_addr feature_port_header ''capability'' start) w of
        (cap, w1) \<Rightarrow>
      (case readq (reg_addr feature_port_header ''control'' start) w1 of
        (_, w2) \<Rightarrow>
          let sz = push_bit 10 (get_field feature_port_capability ''mmio_size'' cap);
              st1 = set_uafu_size sz st
          in if sz = 0 then Done (st1, w2)
             else
               (case fdev_of st1 of
                  None \<Rightarrow> Fault start
                | Some d \<Rightarrow>
                    (case pl_pdata d of
                       None \<Rightarrow> Fault start
                     | Some pd \<Rightarrow>
                         if pd_disable_count pd = 0 \<and>
                           get_feature_ioaddr_by_index pd PORT_FEATURE_ID_HEADER = 0
                         then Fault start
                         else
                           (case fpga_port_reset pd w2 of
                              (_, pd1, w3) \<Rightarrow>
                                Done (set_fdev (Some (d\<lparr>pl_pdata := Some pd1\<rparr>)) st1, w3))))))"

subsection \<open>GUIDs\<close>

definition FEATURE_FME_GUID :: string where
  "FEATURE_FME_GUID = ''f9e17764-38f0-82fe-e346-524ae92aafbf''"

definition FEATURE_PORT_GUID :: string where
  "FEATURE_PORT_GUID = ''6b355b87-b06c-9642-eb42-8d139398b43a''"

text \<open>The 16 bytes of the GUID are loaded as two little-endian numbers.\<close>

definition le_bytes :: "u64 \<Rightarrow> u8 list" where
  "le_bytes v = map (\<lambda>i. ucast (drop_bit (8 * i) v)) [0..<8]"

definition read_guid :: "u64 \<Rightarrow> world \<Rightarrow> uuid \<times> world" where
  "read_guid a w =
     (case readq a w of (l, w1) \<Rightarrow> (case readq (a + 8) w1 of (h, w2) \<Rightarrow> (le_bytes l @ le_bytes h, w2)))"

definition guid_is :: "pci_env \<Rightarrow> string \<Rightarrow> u64 \<Rightarrow> world \<Rightarrow> bool \<times> world" where
  "guid_is env guid afu_hdr w =
     (case read_guid (reg_addr feature_afu_header ''guid'' afu_hdr) w of
        (g, w1) \<Rightarrow> (snd (uuid_le_to_bin (env_hex_to_bin env) guid (replicate 16 0)) = g, w1))"

definition feature_is_afu_fme :: "pci_env \<Rightarrow> u64 \<Rightarrow> world \<Rightarrow> bool \<times> world" where
  "feature_is_afu_fme env afu_hdr w = guid_is env FEATURE_FME_GUID afu_hdr w"

definition feature_is_afu_port :: "pci_env \<Rightarrow> u64 \<Rightarrow> world \<Rightarrow> bool \<times> world" where
  "feature_is_afu_port env afu_hdr w = guid_is env FEATURE_PORT_GUID afu_hdr w"

definition feature_is_UAFU :: "'p enum_state \<Rightarrow> bool" where
  "feature_is_UAFU st \<longleftrightarrow>
     (case fdev_of st of None \<Rightarrow> False | Some d \<Rightarrow> feature_dev_id_type d = PORT_ID)"

subsection \<open>Walking the lists\<close>

text \<open>An FME header at \<open>hdr\<close>, and a port header.\<close>

definition found_fme :: "pci_env \<Rightarrow> u64 \<Rightarrow> 'p enum_call" where
  "found_fme env hdr st w =
     (case parse_feature_fme env hdr st w of
        (r, st1, w1) \<Rightarrow>
          (case check_features_header hdr FPGA_DEVT_FME 0 w1 of
             (_, w2) \<Rightarrow> (r, set_binfo (\<lambda>b. b\<lparr>bi_pfme_hdr := hdr\<rparr>) st1, w2)))"

definition found_port ::
  "pci_env \<Rightarrow> u64 \<Rightarrow> 'p enum_state \<Rightarrow> world \<Rightarrow> (unit res \<times> 'p enum_state \<times> world) outcome" where
  "found_port env hdr st w =
     (case parse_feature_port env hdr st w of
        (r, st1, w1) \<Rightarrow>
          (case check_features_header hdr FPGA_DEVT_PORT 0 w1 of
             (_, w2) \<Rightarrow>
               (case enable_port_uafu hdr st1 w2 of
                  Fault a \<Rightarrow> Fault a
                | Done (st2, w3) \<Rightarrow> Done (r, st2, w3))))"

text \<open>The body of the loop over the AFU headers; \<open>csr\<close> is the header's \<^verbatim>\<open>next_afu\<close> register.\<close>

definition parse_afu ::
  "pci_env \<Rightarrow> u64 \<Rightarrow> 'p enum_state \<Rightarrow> world \<Rightarrow> (unit res \<times> 'p enum_state \<times> world) outcome" where
  "parse_afu env hdr st w =
     (case feature_is_afu_fme env (hdr + 8) w of
        (True, w1) \<Rightarrow> Done (found_fme env hdr st w1)
      | (False, w1) \<Rightarrow>
          (case feature_is_afu_port env (hdr + 8) w1 of
             (True, w2) \<Rightarrow> found_port env hdr st w2
           | (False, w2) \<Rightarrow>
               if feature_is_UAFU st then Done (parse_feature_port_uafu env hdr st w2)
               else Done (Inr (), st, w2)))"

partial_function (option) parse_afus ::
  "pci_env \<Rightarrow> u64 \<Rightarrow> u64 \<Rightarrow> 'p enum_state \<Rightarrow> world \<Rightarrow> (unit res \<times> 'p enum_state \<times> world) outcome option" where
  "parse_afus env end start st w =
     (if \<not> start < end then Some (Done (Inr (), st, w))
      else if end - start < 32 then Some (Done (Inl EINVAL, st, w))
      else
        (case readq (reg_addr feature_afu_header ''csr'' (start + 8)) w of
           (csr, w1) \<Rightarrow>
             let next_afu = get_field feature_afu_header_csr ''next_afu'' csr in
             (case parse_afu env start st w1 of
                Fault a \<Rightarrow> Some (Fault a)
              | Done (Inl e, st1, w2) \<Rightarrow> Some (Done (Inl e, st1, w2))
              | Done (Inr _, st1, w2) \<Rightarrow>
                  if next_afu = 0 then Some (Done (Inr (), st1, w2))
                  else parse_afus env end (start + next_afu) st1 w2)))"

definition parse_feature_afus ::
  "pci_env \<Rightarrow> u64 \<Rightarrow> 'p enum_state \<Rightarrow> world \<Rightarrow> (unit res \<times> 'p enum_state \<times> world) outcome option" where
  "parse_feature_afus env hdr st w = parse_afus env (bi_ioend (es_binfo st)) hdr st w"

definition FEATURE_FIU_ID_FME :: u64 where "FEATURE_FIU_ID_FME = 0"
definition FEATURE_FIU_ID_PORT :: u64 where "FEATURE_FIU_ID_PORT = 1"

definition parse_feature_fiu ::
  "pci_env \<Rightarrow> u64 \<Rightarrow> 'p enum_state \<Rightarrow> world \<Rightarrow> (unit res \<times> 'p enum_state \<times> world) outcome option" where
  "parse_feature_fiu env hdr st w =
     (case readq hdr w of
        (csr, w1) \<Rightarrow>
          let fid = get_field feature_header ''id'' csr in
          if fid = FEATURE_FIU_ID_FME then Some (Done (found_fme env hdr st w1))
          else if fid = FEATURE_FIU_ID_PORT then
            (case found_port env hdr st w1 of
               Fault a \<Rightarrow> Some (Fault a)
             | Done (Inl e, st1, w2) \<Rightarrow> Some (Done (Inl e, st1, w2))
             | Done (Inr _, st1, w2) \<Rightarrow>
                 (case readq (reg_addr feature_fiu_header ''csr'' (hdr + 8)) w2 of
                    (fiu, w3) \<Rightarrow>
                      let next_afu = get_field feature_fiu_header_csr ''next_afu'' fiu in
                      if next_afu \<noteq> 0 then parse_feature_afus env (hdr + next_afu) st1 w3
                      else Some (Done (Inr (), st1, w3))))
          else Some (Done (Inr (), st, w1)))"

definition parse_feature_private :: "pci_env \<Rightarrow> u64 \<Rightarrow> 'p enum_call" where
  "parse_feature_private env hdr st w =
     (case readq hdr w of
        (_, w1) \<Rightarrow>
          (case fdev_of st of
             None \<Rightarrow> (Inl EINVAL, st, w1)
           | Some d \<Rightarrow>
               (case feature_dev_id_type d of
                  FME_ID \<Rightarrow> parse_feature_fme_private env hdr st w1
                | PORT_ID \<Rightarrow> parse_feature_port_private env hdr st w1
                | _ \<Rightarrow> (Inr (), st, w1))))"

definition FEATURE_TYPE_AFU :: u64 where "FEATURE_TYPE_AFU = 1"
definition FEATURE_TYPE_PRIVATE :: u64 where "FEATURE_TYPE_PRIVATE = 3"
definition FEATURE_TYPE_FIU :: u64 where "FEATURE_TYPE_FIU = 4"

definition parse_feature ::
  "pci_env \<Rightarrow> u64 \<Rightarrow> 'p enum_state \<Rightarrow> world \<Rightarrow> (unit res \<times> 'p enum_state \<times> world) outcome option" where
  "parse_feature env hdr st w =
     (case readq hdr w of
        (csr, w1) \<Rightarrow>
          let type = get_field feature_header ''type'' csr in
          if type = FEATURE_TYPE_AFU then parse_feature_afus env hdr st w1
          else if type = FEATURE_TYPE_PRIVATE then Some (Done (parse_feature_private env hdr st w1))
          else if type = FEATURE_TYPE_FIU then parse_feature_fiu env hdr st w1
          else Some (Done (Inr (), st, w1)))"

text \<open>The loop of \<^verbatim>\<open>parse_feature_list\<close>; its end is fixed when the loop starts.\<close>

partial_function (option) parse_features ::
  "pci_env \<Rightarrow> u64 \<Rightarrow> u64 \<Rightarrow> 'p enum_state \<Rightarrow> world \<Rightarrow> (unit res \<times> 'p enum_state \<times> world) outcome option" where
  "parse_features env end start st w =
     (if \<not> start < end then Some (Done (Inr (), st, w))
      else if end - start < 8 then Some (Done (Inl EINVAL, st, w))
      else
        (case parse_feature env start st w of
           None \<Rightarrow> None
         | Some (Fault a) \<Rightarrow> Some (Fault a)
         | Some (Done (Inl e, st1, w1)) \<Rightarrow> Some (Done (Inl e, st1, w1))
         | Some (Done (Inr _, st1, w1)) \<Rightarrow>
             (case readq start w1 of
                (csr, w2) \<Rightarrow>
                  let next = get_field feature_header ''next_header_offset'' csr in
                  if get_field feature_header ''eol'' csr \<noteq> 0 \<or> next = 0 then Some (Done (Inr (), st1, w2))
                  else parse_features env end (start + next) st1 w2)))"

definition parse_feature_list ::
  "pci_env \<Rightarrow> u64 \<Rightarrow> 'p enum_state \<Rightarrow> world \<Rightarrow> (unit res \<times> 'p enum_state \<times> world) outcome option" where
  "parse_feature_list env start st w = parse_features env (bi_ioend (es_binfo st)) start st w"

text \<open>The do-while loop over the ports of the FME, with the ports left to look at.\<close>

fun parse_ports ::
  "pci_env \<Rightarrow> u64 \<Rightarrow> nat list \<Rightarrow> 'p enum_state \<Rightarrow> world \<Rightarrow> (unit res \<times> 'p enum_state \<times> world) outcome option" where
  "parse_ports env fme_hdr [] st w = Some (Done (Inr (), st, w))"
| "parse_ports env fme_hdr (i # is) st w =
     (case readq (reg_addr feature_fme_header ''port'' fme_hdr + 8 * of_nat i) w of
        (csr, w1) \<Rightarrow>
          if get_field feature_fme_port ''port_implemented'' csr = 0 then Some (Done (Inr (), st, w1))
          else
            (case parse_switch_to env (uint (get_field feature_fme_port ''port_bar'' csr)) st w1 of
               (Inl e, st1, w2) \<Rightarrow> Some (Done (Inl e, st1, w2))
             | (Inr _, st1, w2) \<Rightarrow>
                 (case parse_feature_list env
                         (bi_ioaddr (es_binfo st1) + get_field feature_fme_port ''port_offset'' csr) st1 w2 of
                    None \<Rightarrow> None
                  | Some (Fault a) \<Rightarrow> Some (Fault a)
                  | Some (Done (Inl e, st2, w3)) \<Rightarrow> Some (Done (Inl e, st2, w3))
                  | Some (Done (Inr _, st2, w3)) \<Rightarrow> parse_ports env fme_hdr is st2 w3)))"

definition parse_ports_from_fme ::
  "pci_env \<Rightarrow> 'p enum_state \<Rightarrow> world \<Rightarrow> (unit res \<times> 'p enum_state \<times> world) outcome option" where
  "parse_ports_from_fme env st w =
     (if bi_pfme_hdr (es_binfo st) = 0 then Some (Done (Inr (), st, w))
      else parse_ports env (bi_pfme_hdr (es_binfo st)) [0..<MAX_FPGA_PORT_NUM] st w)"

end
