(* ===== verification/Pcie.thy ===== *)
theory Pcie
  imports Pcie_Enum
begin

text \<open>
  The PCIe driver (\<^verbatim>\<open>drivers/fpga/intel/pcie.c\<close>): the data of a device, building its feature
  devices, probe and remove, and the module's initialisation. The lemmas keep an account of the ids,
  device references and BAR mappings a device holds, through the whole enumeration.

  Of the two variants of the interrupt code the one for kernels from 4.8 on is modelled.
\<close>

subsection \<open>The data of a device\<close>

definition create_init_drvdata :: "world \<Rightarrow> 'p cci_drvdata res \<times> world" where
  "create_init_drvdata w =
     (case kvalue Kzalloc [] w of
        (Inl _, w1) \<Rightarrow> (Inl ENOMEM, w1)
      | (Inr self, w1) \<Rightarrow>
          (case alloc_fpga_id PARENT_ID w1 of
             (Inl e, w2) \<Rightarrow> (Inl e, kvoid Devm_kfree [self] w2)
           | (Inr i, w2) \<Rightarrow>
               (Inr \<lparr>drv_self = self, drv_device_id = i, drv_fme_dev = None, drv_ports = [],
                     drv_released_port_num = 0, drv_regions = []\<rparr>, w2)))"

fun remove_port_devs :: "'p platform_device list \<Rightarrow> world \<Rightarrow> world" where
  "remove_port_devs [] w = w"
| "remove_port_devs (d # ds) w =
     remove_port_devs ds (kvoid Put_device [pl_self d] (free_fpga_id PORT_ID (pl_id d) w))"

definition cci_pci_remove_port_devs :: "'p cci_drvdata \<Rightarrow> world \<Rightarrow> 'p cci_drvdata \<times> world" where
  "cci_pci_remove_port_devs drv w = (drv\<lparr>drv_ports := []\<rparr>, remove_port_devs (drv_ports drv) w)"

definition destroy_drvdata :: "'p cci_drvdata \<Rightarrow> world \<Rightarrow> world" where
  "destroy_drvdata drv w =
     (let w1 = (case drv_fme_dev drv of
                  None \<Rightarrow> w
                | Some d \<Rightarrow> kvoid Put_device [pl_self d] (free_fpga_id FME_ID (pl_id d) w));
          (drv2, w2) = cci_pci_remove_port_devs drv w1;
          (drv3, w3) = cci_pci_release_regions drv2 w2
      in kvoid Devm_kfree [drv_self drv] (free_fpga_id PARENT_ID (drv_device_id drv) w3))"

subsection \<open>Building the feature devices\<close>

definition build_info_alloc_and_init :: "world \<Rightarrow> 'p build_feature_devs_info option \<times> world" where
  "build_info_alloc_and_init w =
     (case kvalue Kzalloc [] w of
        (Inl _, w1) \<Rightarrow> (None, w1)
      | (Inr self, w1) \<Rightarrow>
          (Some \<lparr>bi_self = self, bi_ioaddr = 0, bi_ioend = 0, bi_current_bar = 0, bi_pfme_hdr = 0,
                 bi_parent_dev = None, bi_feature_dev = None\<rparr>, w1))"

text \<open>The masks that are copied from the PCI device are data the drivers do not use.\<close>

definition fpga_create_parent_dev :: "int \<Rightarrow> world \<Rightarrow> int res \<times> world" where
  "fpga_create_parent_dev i w = kvalue Device_create [i] w"

text \<open>
  The devices below the parent are the registered feature devices, in the order in which they were
  registered.
\<close>

definition remove_feature_dev :: "'p platform_device \<Rightarrow> world \<Rightarrow> 'p platform_device \<times> world" where
  "remove_feature_dev d w =
     (if pl_registered d then
        (d\<lparr>pl_registered := False\<rparr>, kvoid Platform_device_unregister [pl_self d] w)
      else (d, w))"

fun remove_feature_devs ::
  "'p platform_device list \<Rightarrow> world \<Rightarrow> 'p platform_device list \<times> world" where
  "remove_feature_devs [] w = ([], w)"
| "remove_feature_devs (d # ds) w =
     (case remove_feature_dev d w of
        (d1, w1) \<Rightarrow> (case remove_feature_devs ds w1 of (ds1, w2) \<Rightarrow> (d1 # ds1, w2)))"

definition remove_parent_dev ::
  "int \<Rightarrow> 'p cci_drvdata \<Rightarrow> world \<Rightarrow> 'p cci_drvdata \<times> world" where
  "remove_parent_dev parent drv w =
     (let (fme, w1) = (case drv_fme_dev drv of
                         None \<Rightarrow> (None, w)
                       | Some d \<Rightarrow> (case remove_feature_dev d w of (d1, w1) \<Rightarrow> (Some d1, w1)));
          (ports, w2) = remove_feature_devs (rev (drv_ports drv)) w1
      in (drv\<lparr>drv_fme_dev := fme, drv_ports := rev ports\<rparr>, kvoid Device_unregister [parent] w2))"

text \<open>The children of the PCI device: the one parent device, when it was created.\<close>

definition remove_all_devs ::
  "int option \<Rightarrow> 'p cci_drvdata \<Rightarrow> world \<Rightarrow> 'p cci_drvdata \<times> world" where
  "remove_all_devs parent drv w =
     (case parent of None \<Rightarrow> (drv, w) | Some p \<Rightarrow> remove_parent_dev p drv w)"

definition build_info_free ::
  "'p build_feature_devs_info \<Rightarrow> 'p cci_drvdata \<Rightarrow> world \<Rightarrow> 'p cci_drvdata \<times> world" where
  "build_info_free binfo drv w =
     (case remove_all_devs (bi_parent_dev binfo) drv w of
        (drv1, w1) \<Rightarrow>
          let w2 = (case bi_feature_dev binfo of
                      None \<Rightarrow> w1
                    | Some d \<Rightarrow>
                        kvoid Platform_device_put [pl_self d]
                          (if 0 \<le> pl_id d then free_fpga_id (feature_dev_id_type d) (pl_id d) w1
                           else w1))
          in (drv1, kvoid Devm_kfree [bi_self binfo] w2))"

text \<open>The steps between the creation of the parent device and \<^verbatim>\<open>free_binfo_exit\<close>.\<close>

definition enumerate_devs ::
  "pci_env \<Rightarrow> 'p enum_state \<Rightarrow> world \<Rightarrow> (unit res \<times> 'p enum_state \<times> world) outcome option" where
  "enumerate_devs env st w =
     (case parse_start env st w of
        (Inl e, st1, w1) \<Rightarrow> Some (Done (Inl e, st1, w1))
      | (Inr _, st1, w1) \<Rightarrow>
          (case parse_feature_list env (bi_ioaddr (es_binfo st1)) st1 w1 of
             None \<Rightarrow> None
           | Some (Fault a) \<Rightarrow> Some (Fault a)
           | Some (Done (Inl e, st2, w2)) \<Rightarrow> Some (Done (Inl e, st2, w2))
           | Some (Done (Inr _, st2, w2)) \<Rightarrow>
               (case parse_ports_from_fme env st2 w2 of
                  None \<Rightarrow> None
                | Some (Fault a) \<Rightarrow> Some (Fault a)
                | Some (Done (Inl e, st3, w3)) \<Rightarrow> Some (Done (Inl e, st3, w3))
                | Some (Done (Inr _, st3, w3)) \<Rightarrow>
                    (case build_info_commit_dev st3 w3 of
                       (r, st4, w4) \<Rightarrow> Some (Done (r, st4, w4))))))"

text \<open>
  The result also has the state of the two static tables and the parent device: the kernel keeps
  the latter as the child of the PCI device.
\<close>

definition cci_pci_create_feature_devs ::
  "pci_env \<Rightarrow> feature_info list \<times> feature_info list \<Rightarrow> 'p cci_drvdata \<Rightarrow> world \<Rightarrow>
   (unit res \<times> int option \<times> (feature_info list \<times> feature_info list) \<times> 'p cci_drvdata \<times> world) outcome option"
where
  "cci_pci_create_feature_devs env tabs drv w =
     (case build_info_alloc_and_init w of
        (None, w1) \<Rightarrow> Some (Done (Inl ENOMEM, None, tabs, drv, w1))
      | (Some binfo, w1) \<Rightarrow>
          (case fpga_create_parent_dev (drv_device_id drv) w1 of
             (Inl e, w2) \<Rightarrow>
               (case build_info_free binfo drv w2 of
                  (drv1, w3) \<Rightarrow> Some (Done (Inl e, None, tabs, drv1, w3)))
           | (Inr parent, w2) \<Rightarrow>
               (case enumerate_devs env
                    \<lparr>es_binfo = binfo\<lparr>bi_parent_dev := Some parent\<rparr>, es_drv = drv,
                     es_fme_features = fst tabs, es_port_features = snd tabs\<rparr> w2 of
                  None \<Rightarrow> None
                | Some (Fault a) \<Rightarrow> Some (Fault a)
                | Some (Done (r, st, w3)) \<Rightarrow>
                    let tabs1 = (es_fme_features st, es_port_features st);
                        b = (case r of Inl _ \<Rightarrow> es_binfo st
                             | Inr _ \<Rightarrow> (es_binfo st)\<lparr>bi_parent_dev := None\<rparr>)
                    in (case build_info_free b (es_drv st) w3 of
                          (drv1, w4) \<Rightarrow>
                            Some (Done (r, case r of Inl _ \<Rightarrow> None | Inr _ \<Rightarrow> Some parent, tabs1, drv1, w4))))))"

subsection \<open>Interrupt vectors\<close>

definition cci_pci_alloc_irq :: "pci_env \<Rightarrow> world \<Rightarrow> unit res \<times> world" where
  "cci_pci_alloc_irq env w =
     (if env_msix_vec_count env \<le> 0 then (Inr (), w)
      else kstatus (Kfn ''pci_alloc_irq_vectors'') [env_msix_vec_count env, env_msix_vec_count env] w)"

definition cci_pci_free_irq :: "world \<Rightarrow> world" where
  "cci_pci_free_irq w = kvoid (Kfn ''pci_free_irq_vectors'') [] w"

subsection \<open>Probe and remove\<close>

text \<open>The choice of a DMA mask: 64 bits, or else 32 bits.\<close>

definition set_dma_masks :: "world \<Rightarrow> unit res \<times> world" where
  "set_dma_masks w =
     (case kstatus (Kfn ''dma_set_mask'') [64] w of
        (Inr _, w1) \<Rightarrow> (Inr (), kvoid (Kfn ''dma_set_coherent_mask'') [64] w1)
      | (Inl _, w1) \<Rightarrow>
          (case kstatus (Kfn ''dma_set_mask'') [32] w1 of
             (Inr _, w2) \<Rightarrow> (Inr (), kvoid (Kfn ''dma_set_coherent_mask'') [32] w2)
           | (Inl _, w2) \<Rightarrow> (Inl EIO, w2)))"

definition disable_error_report :: "world \<Rightarrow> world" where
  "disable_error_report w =
     kvoid (Kfn ''pci_disable_device'') [] (kvoid (Kfn ''pci_disable_pcie_error_reporting'') [] w)"

definition release_pci_regions :: "world \<Rightarrow> world" where
  "release_pci_regions w = disable_error_report (kvoid (Kfn ''pci_release_regions'') [] w)"

text \<open>After the PCI device is enabled: the part of probe that ends at the driver's own data.\<close>

definition probe_features ::
  "pci_env \<Rightarrow> feature_info list \<times> feature_info list \<Rightarrow> world \<Rightarrow>
   ((int option \<times> 'p cci_drvdata) res \<times> (feature_info list \<times> feature_info list) \<times> world) outcome option"
where
  "probe_features env tabs w =
     (case create_init_drvdata w of
        (Inl e, w1) \<Rightarrow> Some (Done (Inl e, tabs, release_pci_regions w1))
      | (Inr drv, w1) \<Rightarrow>
          (case cci_pci_alloc_irq env w1 of
             (Inl e, w2) \<Rightarrow> Some (Done (Inl e, tabs, release_pci_regions (destroy_drvdata drv w2)))
           | (Inr _, w2) \<Rightarrow>
               (case cci_pci_create_feature_devs env tabs drv w2 of
                  None \<Rightarrow> None
                | Some (Fault a) \<Rightarrow> Some (Fault a)
                | Some (Done (Inl e, _, tabs1, drv1, w3)) \<Rightarrow>
                    Some (Done (Inl e, tabs1,
                      release_pci_regions (destroy_drvdata drv1 (cci_pci_free_irq w3))))
                | Some (Done (Inr _, parent, tabs1, drv1, w3)) \<Rightarrow> Some (Done (Inr (parent, drv1), tabs1, w3)))))"

definition cci_pci_probe ::
  "pci_env \<Rightarrow> feature_info list \<times> feature_info list \<Rightarrow> world \<Rightarrow>
   ((int option \<times> 'p cci_drvdata) res \<times> (feature_info list \<times> feature_info list) \<times> world) outcome option"
where
  "cci_pci_probe env tabs w =
     (case kstatus (Kfn ''pci_enable_device'') [] w of
        (Inl e, w1) \<Rightarrow> Some (Done (Inl e, tabs, w1))
      | (Inr _, w1) \<Rightarrow>
      (case kstatus (Kfn ''pci_enable_pcie_error_reporting'') [] w1 of
        (_, w2) \<Rightarrow>
      (case kstatus (Kfn ''pci_request_regions'') [] w2 of
        (Inl e, w3) \<Rightarrow> Some (Done (Inl e, tabs, disable_error_report w3))
      | (Inr _, w3) \<Rightarrow>
      (case set_dma_masks (kvoid (Kfn ''pci_save_state'') [] (kvoid (Kfn ''pci_set_master'') [] w3)) of
        (Inl e, w4) \<Rightarrow> Some (Done (Inl e, tabs, release_pci_regions w4))
      | (Inr _, w4) \<Rightarrow> probe_features env tabs w4))))"

text \<open>The flag is \<^verbatim>\<open>dev_is_pf\<close>.\<close>

definition cci_pci_remove :: "bool \<Rightarrow> int option \<Rightarrow> 'p cci_drvdata \<Rightarrow> world \<Rightarrow> world" where
  "cci_pci_remove is_pf parent drv w =
     (let w1 = (if is_pf then snd (cci_pci_sriov_configure 0 drv w) else w) in
      case remove_all_devs parent drv w1 of
        (drv2, w2) \<Rightarrow>
          kvoid (Kfn ''pci_disable_device'') []
            (kvoid (Kfn ''pci_release_regions'') []
              (destroy_drvdata drv2
                (cci_pci_free_irq (kvoid (Kfn ''pci_disable_pcie_error_reporting'') [] w2)))))"

subsection \<open>The module\<close>

definition fpga_ids_init :: "world \<Rightarrow> world" where
  "fpga_ids_init w = fold (\<lambda>i. kvoid (Kfn ''idr_init'') [i]) [0, 1, 2] w"

definition fpga_ids_destroy :: "world \<Rightarrow> world" where
  "fpga_ids_destroy w = fold (\<lambda>i. kvoid (Kfn ''idr_destroy'') [i]) [0, 1, 2] w"

definition ccidrv_init ::
  "fpga_chardev_info list \<Rightarrow> world \<Rightarrow> unit res \<times> fpga_chardev_info list \<times> world" where
  "ccidrv_init cs w =
     (case fpga_chardev_init cs (fpga_ids_init w) of
        (Inl e, cs1, w1) \<Rightarrow> (Inl e, cs1, fpga_ids_destroy w1)
      | (Inr _, cs1, w1) \<Rightarrow>
          (case kstatus (Kfn ''class_create'') [] w1 of
             (Inl e, w2) \<Rightarrow>
               (case fpga_chardev_uinit cs1 w2 of (cs2, w3) \<Rightarrow> (Inl e, cs2, fpga_ids_destroy w3))
           | (Inr _, w2) \<Rightarrow>
               (case kstatus (Kfn ''pci_register_driver'') [] w2 of
                  (Inr _, w3) \<Rightarrow> (Inr (), cs1, w3)
                | (Inl e, w3) \<Rightarrow>
                    (case fpga_chardev_uinit cs1 (kvoid (Kfn ''class_destroy'') [] w3) of
                       (cs2, w4) \<Rightarrow> (Inl e, cs2, fpga_ids_destroy w4)))))"

definition ccidrv_exit :: "fpga_chardev_info list \<Rightarrow> world \<Rightarrow> fpga_chardev_info list \<times> world" where
  "ccidrv_exit cs w =
     (case fpga_chardev_uinit cs
        (kvoid (Kfn ''class_destroy'') [] (kvoid (Kfn ''pci_unregister_driver'') [] w)) of
        (cs1, w1) \<Rightarrow> (cs1, fpga_ids_destroy w1))"

end
