(* ===== verification/Pcie_Account.thy ===== *)
theory Pcie_Account
  imports Pcie
begin

text \<open>
  The account of a PCIe device: the ids, device references and BAR mappings that its data and a
  running enumeration hold. Every step of the enumeration keeps what was taken and is not accounted
  for, so that a probe that fails, wherever, has given everything back, and so has a remove.
\<close>

subsection \<open>What is held\<close>

definition tracked :: "resource \<Rightarrow> bool" where
  "tracked q \<longleftrightarrow> (\<exists>t i. q = RId t i) \<or> (\<exists>d. q = RDevice d) \<or> (\<exists>a. q = RIomap a) \<or>
     q = RNamed ''pci_enable_device'' \<or> q = RNamed ''pci_request_regions''"

definition dev_hold :: "fpga_id_type \<Rightarrow> resource \<Rightarrow> 'p platform_device \<Rightarrow> int" where
  "dev_hold type q d =
     of_bool (q = RId (id_type_index type) (pl_id d)) + of_bool (q = RDevice (pl_self d)) +
     (if pl_registered d then of_bool (q = RDevice (pl_self d)) else 0)"

definition drv_hold :: "resource \<Rightarrow> 'p cci_drvdata \<Rightarrow> int" where
  "drv_hold q drv =
     of_bool (q = RId (id_type_index PARENT_ID) (drv_device_id drv)) +
     (case drv_fme_dev drv of None \<Rightarrow> 0 | Some d \<Rightarrow> dev_hold FME_ID q d) +
     (\<Sum>d\<leftarrow>drv_ports drv. dev_hold PORT_ID q d) +
     (\<Sum>r\<leftarrow>drv_regions drv. of_bool (q = RIomap (uint (cr_ioaddr r))))"

definition fdev_hold :: "resource \<Rightarrow> 'p platform_device option \<Rightarrow> int" where
  "fdev_hold q fd =
     (case fd of None \<Rightarrow> 0
      | Some d \<Rightarrow> of_bool (q = RDevice (pl_self d)) +
          (if 0 \<le> pl_id d then of_bool (q = RId (id_type_index (feature_dev_id_type d)) (pl_id d)) else 0))"

text \<open>What was taken and is not accounted for.\<close>

definition net :: "resource \<Rightarrow> 'p enum_state \<Rightarrow> world \<Rightarrow> int" where
  "net q st w = balance (w_trace w) q - drv_hold q (es_drv st) - fdev_hold q (fdev_of st)"

text \<open>
  The devices of the driver's data have names and ids; the one that is being built has one of the
  two names and is not registered. \<open>building_ok\<close> holds while the enumeration goes on: the device
  being built has an id, and there is not yet another FME when it is one.
\<close>

definition drv_ok :: "'p cci_drvdata \<Rightarrow> bool" where
  "drv_ok drv \<longleftrightarrow> (\<forall>r \<in> set (drv_regions drv). cr_ioaddr r \<noteq> 0)"

definition fdev_ok :: "'p platform_device option \<Rightarrow> bool" where
  "fdev_ok fd \<longleftrightarrow> (\<forall>d. fd = Some d \<longrightarrow> \<not> pl_registered d \<and>
     feature_dev_id_type d \<in> {FME_ID, PORT_ID})"

definition building_ok :: "'p enum_state \<Rightarrow> bool" where
  "building_ok st \<longleftrightarrow> (\<forall>d. fdev_of st = Some d \<longrightarrow> 0 \<le> pl_id d \<and>
     (feature_dev_id_type d = FME_ID \<longrightarrow> drv_fme_dev (es_drv st) = None))"

definition enum_ok :: "'p enum_state \<Rightarrow> bool" where
  "enum_ok st \<longleftrightarrow> drv_ok (es_drv st) \<and> fdev_ok (fdev_of st)"

text \<open>What the code relies on of the kernel: ids are not negative and a mapped BAR is not null.\<close>

definition pci_kernel :: "world \<Rightarrow> bool" where
  "pci_kernel w \<longleftrightarrow> (\<forall>tr xs vs.
     (w_kcall w tr Idr_alloc xs = Inr vs \<longrightarrow> 0 \<le> ret_val vs) \<and>
     (w_kcall w tr Pci_ioremap_bar xs = Inr vs \<longrightarrow> 0 < ret_val vs \<and> ret_val vs < 2 ^ 64))"

subsection \<open>Steps that take and give back nothing of it\<close>

definition neutral :: "world \<Rightarrow> world \<Rightarrow> bool" where
  "neutral w w' \<longleftrightarrow> w_kcall w' = w_kcall w \<and>
     (\<forall>q. tracked q \<longrightarrow> balance (w_trace w') q = balance (w_trace w) q)"

lemma neutral_refl [simp]: "neutral w w"
  by (simp add: neutral_def)

lemma neutral_trans [trans]: "neutral w w' \<Longrightarrow> neutral w' w'' \<Longrightarrow> neutral w w''"
  by (simp add: neutral_def)

lemma neutral_mmio: "mmio_only w w' \<Longrightarrow> neutral w w'"
  by (simp add: neutral_def mmio_only_balance) (simp add: mmio_only_def)

lemma neutral_readq: "readq a w = (v, w') \<Longrightarrow> neutral w w'"
  by (rule neutral_mmio) (rule mmio_only_readq)

lemma neutral_kcall:
  assumes "kcall f xs w = (r, w')"
    and "\<And>q. tracked q \<Longrightarrow> count (acquired (Call f xs r)) q = count (released (Call f xs r)) q"
  shows "neutral w w'"
  using assms by (auto simp: kcall_def Let_def neutral_def)

lemma neutral_kvoid:
  "(\<And>q. tracked q \<Longrightarrow> count (acquired (Call f xs (Inr []))) q = count (released (Call f xs (Inr []))) q)
   \<Longrightarrow> neutral w (kvoid f xs w)"
  by (simp add: kvoid_def neutral_def)

lemma kcall_cases:
  "kstatus f xs w = (r, w') \<Longrightarrow> \<exists>r0. kcall f xs w = (r0, w') \<and> (r = Inr () \<longleftrightarrow> (\<exists>vs. r0 = Inr vs))"
  "kvalue f xs w = (s, w') \<Longrightarrow> \<exists>r0. kcall f xs w = (r0, w') \<and>
     (\<forall>v. s = Inr v \<longleftrightarrow> (\<exists>vs. r0 = Inr vs \<and> v = ret_val vs))"
  by (auto simp: kstatus_def kvalue_def split: prod.splits sum.splits)

lemma neutral_memory:
  assumes "f = Kzalloc \<or> f = Kcalloc" and "kvalue f xs w = (r, w')"
  shows "neutral w w'"
proof -
  obtain r0 where r0: "kcall f xs w = (r0, w')" using kcall_cases(2) [OF assms(2)] by auto
  show ?thesis
    by (rule neutral_kcall [OF r0]) (use assms(1) in \<open>cases r0; auto simp: tracked_def\<close>)
qed

lemma neutral_free: "neutral w (kvoid Devm_kfree xs w)"
  by (rule neutral_kvoid) (auto simp: tracked_def)

lemma neutral_pdata:
  "feature_platform_data_alloc_and_init n w = (r, w') \<Longrightarrow> neutral w w'"
  by (auto simp: feature_platform_data_alloc_and_init_def dest!: neutral_memory [rotated]
      split: prod.splits sum.splits)

lemma neutral_add: "kstatus Platform_device_add xs w = (r, w') \<Longrightarrow> neutral w w'"
proof -
  assume "kstatus Platform_device_add xs w = (r, w')"
  then obtain r0 where r0: "kcall Platform_device_add xs w = (r0, w')" using kcall_cases(1) by fastforce
  show ?thesis by (rule neutral_kcall [OF r0]) (cases r0; simp)
qed

lemma neutral_check: "check_features_header hdr t i w = (r, w') \<Longrightarrow> neutral w w'"
  by (auto simp: check_features_header_def Let_def dest: neutral_readq split: prod.splits)

lemma neutral_irqs: "parse_feature_irqs start fi w = (fi', w') \<Longrightarrow> neutral w w'"
  by (auto simp: parse_feature_irqs_def Let_def dest: neutral_readq split: prod.splits if_splits)

lemma neutral_guid: "guid_is env g a w = (r, w') \<Longrightarrow> neutral w w'"
  by (auto simp: guid_is_def read_guid_def dest!: neutral_readq intro: neutral_trans split: prod.splits)

subsection \<open>The contract of a step\<close>

text \<open>
  A step of the enumeration keeps the account and the shape of the data; when it succeeds, building
  can go on.
\<close>

definition step_ok ::
  "'p enum_state \<Rightarrow> world \<Rightarrow> unit res \<Rightarrow> 'p enum_state \<Rightarrow> world \<Rightarrow> bool" where
  "step_ok st w r st' w' \<longleftrightarrow> w_kcall w' = w_kcall w \<and>
     bi_parent_dev (es_binfo st') = bi_parent_dev (es_binfo st) \<and>
     (pci_kernel w \<and> enum_ok st \<and> building_ok st \<longrightarrow>
        enum_ok st' \<and> (r = Inr () \<longrightarrow> building_ok st') \<and>
        (\<forall>q. tracked q \<longrightarrow> net q st' w' = net q st w))"

lemma step_okI:
  assumes "w_kcall w' = w_kcall w" and "bi_parent_dev (es_binfo st') = bi_parent_dev (es_binfo st)"
    and "pci_kernel w \<Longrightarrow> enum_ok st \<Longrightarrow> building_ok st \<Longrightarrow> enum_ok st' \<and> (r = Inr () \<longrightarrow> building_ok st')"
    and "\<And>q. pci_kernel w \<Longrightarrow> enum_ok st \<Longrightarrow> building_ok st \<Longrightarrow> tracked q \<Longrightarrow> net q st' w' = net q st w"
  shows "step_ok st w r st' w'"
  using assms by (auto simp: step_ok_def)

lemma step_ok_trans:
  assumes "step_ok st w (Inr ()) st1 w1" and "step_ok st1 w1 r st2 w2"
  shows "step_ok st w r st2 w2"
  using assms by (auto simp: step_ok_def pci_kernel_def)

lemma step_ok_neutral:
  assumes "neutral w w'" shows "step_ok st w r st w'"
  using assms by (auto simp: step_ok_def neutral_def net_def)

lemma step_ok_before: "neutral w w1 \<Longrightarrow> step_ok st w1 r st2 w2 \<Longrightarrow> step_ok st w r st2 w2"
  by (rule step_ok_trans [OF step_ok_neutral])

lemma step_ok_after: "step_ok st w r st1 w1 \<Longrightarrow> neutral w1 w2 \<Longrightarrow> step_ok st w r st1 w2"
  by (auto simp: step_ok_def neutral_def net_def)

lemma step_ok_error: "step_ok st w r st1 w1 \<Longrightarrow> step_ok st w (Inl e) st1 w1"
  by (simp add: step_ok_def)

text \<open>Changes of the state that the account does not see.\<close>

definition same_account :: "'p enum_state \<Rightarrow> 'p enum_state \<Rightarrow> bool" where
  "same_account st st' \<longleftrightarrow> es_drv st' = es_drv st \<and>
     bi_parent_dev (es_binfo st') = bi_parent_dev (es_binfo st) \<and>
     (case fdev_of st of None \<Rightarrow> fdev_of st' = None
      | Some d \<Rightarrow> \<exists>d'. fdev_of st' = Some d' \<and> pl_self d' = pl_self d \<and> pl_id d' = pl_id d \<and>
          pl_name d' = pl_name d \<and> pl_registered d' = pl_registered d)"

lemma same_account_refl [simp]: "same_account st st"
  by (simp add: same_account_def split: option.split)

lemma same_account_frame:
  assumes "same_account st st'"
  shows "net q st' w = net q st w \<and> enum_ok st' = enum_ok st \<and> building_ok st' = building_ok st"
proof (cases "fdev_of st")
  case None
  with assms show ?thesis
    by (simp add: same_account_def net_def enum_ok_def fdev_ok_def building_ok_def)
next
  case (Some d)
  then obtain d' where "fdev_of st' = Some d'" "pl_self d' = pl_self d" "pl_id d' = pl_id d"
    "pl_name d' = pl_name d" "pl_registered d' = pl_registered d" "es_drv st' = es_drv st"
    using assms by (auto simp: same_account_def)
  with Some show ?thesis
    by (simp add: net_def enum_ok_def fdev_ok_def building_ok_def fdev_hold_def feature_dev_id_type_def)
qed

lemma same_account_step:
  assumes "same_account st st'" and "neutral w w'" shows "step_ok st w r st' w'"
  using same_account_frame [OF assms(1), of _ w'] assms
  by (simp add: step_ok_def neutral_def same_account_def) (simp add: net_def)

lemma same_account_tables [simp]:
  "same_account st (st\<lparr>es_fme_features := t\<rparr>)" "same_account st (st\<lparr>es_port_features := t\<rparr>)"
  "same_account st (set_uafu_size sz st)"
  "same_account st (set_binfo (\<lambda>b. b\<lparr>bi_pfme_hdr := h\<rparr>) st)"
  by (simp_all add: same_account_def set_uafu_size_def set_binfo_def split: option.split)

lemma step_ok_then:
  "step_ok st w r st1 w1 \<Longrightarrow> same_account st1 st2 \<Longrightarrow> step_ok st w r st2 w1"
  using same_account_frame [of st1 st2 _ w1] by (simp add: step_ok_def same_account_def)

lemma step_ok_from:
  "same_account st st1 \<Longrightarrow> step_ok st1 w r st2 w1 \<Longrightarrow> step_ok st w r st2 w1"
  by (rule step_ok_trans [OF same_account_step]) auto

subsection \<open>Mapping the BARs\<close>

lemma ioremap_ok:
  assumes "cci_pci_ioremap_bar bar drv w = (addr, drv', w')"
  shows "w_kcall w' = w_kcall w \<and> drv_fme_dev drv' = drv_fme_dev drv \<and>
    (pci_kernel w \<and> drv_ok drv \<longrightarrow> drv_ok drv' \<and>
      (\<forall>q. tracked q \<longrightarrow> balance (w_trace w') q - drv_hold q drv' = balance (w_trace w) q - drv_hold q drv))"
proof (cases "find (\<lambda>r. cr_bar r = bar) (drv_regions drv)")
  case (Some r)
  with assms show ?thesis by (auto simp: cci_pci_ioremap_bar_def)
next
  case None
  obtain r1 w1 where k1: "kvalue Kzalloc [] w = (r1, w1)" by (metis surj_pair)
  have n1: "neutral w w1" by (rule neutral_memory [OF _ k1]) simp
  show ?thesis
  proof (cases r1)
    case (Inl e)
    with assms None k1 n1 show ?thesis by (auto simp: cci_pci_ioremap_bar_def neutral_def)
  next
    case (Inr self)
    obtain r2 w2 where k2: "kvalue Pci_ioremap_bar [bar] w1 = (r2, w2)" by (metis surj_pair)
    obtain r0 where r0: "kcall Pci_ioremap_bar [bar] w1 = (r0, w2)"
      "\<forall>v. r2 = Inr v \<longleftrightarrow> (\<exists>vs. r0 = Inr vs \<and> v = ret_val vs)"
      using kcall_cases(2) [OF k2] by auto
    have w2: "w2 = emit (Call Pci_ioremap_bar [bar] r0) w1" "w_kcall w1 (w_trace w1) Pci_ioremap_bar [bar] = r0"
      using r0(1) by (auto simp: kcall_def Let_def)
    show ?thesis
    proof (cases r2)
      case (Inl e)
      then have "r0 \<noteq> Inr vs" for vs using r0(2) by auto
      then obtain e0 where "r0 = Inl e0" by (cases r0) auto
      then have "neutral w1 (kvoid Devm_kfree [self] w2)"
        using w2(1) neutral_free [of w2 "[self]"] by (simp add: neutral_def)
      then have "neutral w w'" "drv' = drv"
        using neutral_trans [OF n1] assms None k1 Inr k2 Inl by (auto simp: cci_pci_ioremap_bar_def)
      then show ?thesis by (simp add: neutral_def)
    next
      case (Inr v)
      then obtain vs where vs: "r0 = Inr vs" "v = ret_val vs" using r0(2) by blast
      have out: "w' = w2" "drv' = drv\<lparr>drv_regions := \<lparr>cr_self = self, cr_bar = bar,
          cr_ioaddr = word_of_int v\<rparr> # drv_regions drv\<rparr>"
        using assms None k1 \<open>r1 = Inr self\<close> k2 Inr by (auto simp: cci_pci_ioremap_bar_def)
      have bnd: "0 < v \<and> v < 2 ^ 64" if "pci_kernel w"
        using that n1 w2(2) vs by (auto simp: pci_kernel_def neutral_def)
      then have u: "uint (word_of_int v :: u64) = v" if "pci_kernel w"
        using that by (simp add: uint_word_of_int_eq take_bit_int_eq_self)
      then have "(word_of_int v :: u64) \<noteq> 0" if "pci_kernel w"
        using that bnd by (metis less_irrefl unsigned_0)
      with out n1 w2(1) u vs show ?thesis
        by (auto simp: neutral_def drv_ok_def drv_hold_def)
    qed
  qed
qed

lemma parse_start_from_ok: "parse_start_from env bar st w = (r, st', w') \<Longrightarrow> step_ok st w r st' w'"
  by (auto simp: parse_start_from_def step_ok_def enum_ok_def building_ok_def net_def set_binfo_def Let_def
      split: prod.splits if_splits dest!: ioremap_ok)

subsection \<open>Creating devices\<close>

lemma commit_ok:
  assumes "build_info_commit_dev st w = (r, st', w')"
  shows "step_ok st w r st' w' \<and> (r = Inr () \<longrightarrow> fdev_of st' = None)"
proof (cases "fdev_of st")
  case None
  with assms show ?thesis by (auto simp: build_info_commit_dev_def intro: step_ok_neutral)
next
  case (Some d)
  obtain r1 w1 where a: "kstatus Platform_device_add [pl_self d] w = (r1, w1)" by (metis surj_pair)
  note n = neutral_add [OF a]
  show ?thesis
  proof (cases r1)
    case (Inl e)
    with assms Some a n show ?thesis by (auto simp: build_info_commit_dev_def intro: step_ok_neutral)
  next
    case (Inr u)
    let ?d = "d\<lparr>pl_registered := True\<rparr>" and ?w = "kvoid Get_device [pl_self d] w1"
    define drv' where "drv' = (if feature_dev_id_type d = PORT_ID
      then (es_drv st)\<lparr>drv_ports := ?d # drv_ports (es_drv st)\<rparr>
      else (es_drv st)\<lparr>drv_fme_dev := Some ?d\<rparr>)"
    have out: "r = Inr ()" "st' = set_fdev None (st\<lparr>es_drv := drv'\<rparr>)" "w' = ?w"
      using assms Some a Inr
      by (auto simp: build_info_commit_dev_def cci_pci_add_port_dev_def drv'_def Let_def split: if_splits)
    have bal: "balance (w_trace ?w) q = balance (w_trace w) q + of_bool (q = RDevice (pl_self d))"
      if "tracked q" for q
      using n that by (simp add: neutral_def kvoid_def ret_val_def)
    have "drv_hold q drv' = drv_hold q (es_drv st) + fdev_hold q (fdev_of st) + of_bool (q = RDevice (pl_self d))"
      if "enum_ok st" "building_ok st" for q
      using that Some
      by (auto simp: drv_hold_def drv'_def dev_hold_def fdev_hold_def enum_ok_def fdev_ok_def building_ok_def
          feature_dev_id_type_def)
    with out bal n Some show ?thesis
      by (auto simp: step_ok_def net_def set_fdev_def set_binfo_def neutral_def fdev_hold_def kvoid_def
          enum_ok_def fdev_ok_def building_ok_def drv_ok_def drv'_def)
  qed
qed

text \<open>The name of a new device is that of its type.\<close>

definition dev_type_name :: "fpga_id_type \<Rightarrow> string \<Rightarrow> bool" where
  "dev_type_name type name \<longleftrightarrow> type = FME_ID \<and> name = FPGA_FEATURE_DEV_FME \<or>
     type = PORT_ID \<and> name = FPGA_FEATURE_DEV_PORT"

lemma fdev_new_ok:
  assumes "dev_type_name type (pl_name d)" and "\<not> pl_registered d" and "fdev_of st = None" and "enum_ok st"
  shows "enum_ok (set_fdev (Some d) st) \<and> feature_dev_id_type d = type \<and>
    net q (set_fdev (Some d) st) w = net q st w - of_bool (q = RDevice (pl_self d)) -
      (if 0 \<le> pl_id d then of_bool (q = RId (id_type_index type) (pl_id d)) else 0)"
  using assms
  by (auto simp: enum_ok_def fdev_ok_def set_fdev_def set_binfo_def feature_dev_id_type_def net_def
      dev_type_name_def fdev_hold_def FPGA_FEATURE_DEV_FME_def FPGA_FEATURE_DEV_PORT_def)

lemma alloc_id_ok:
  assumes "alloc_fpga_id type w = (r, w')"
  shows "w_kcall w' = w_kcall w \<and> (pci_kernel w \<longrightarrow>
    (case r of Inl _ \<Rightarrow> \<forall>q. balance (w_trace w') q = balance (w_trace w) q
     | Inr i \<Rightarrow> 0 \<le> i \<and> (\<forall>q. balance (w_trace w') q =
         balance (w_trace w) q + of_bool (q = RId (id_type_index type) i))))"
  using assms
  by (auto simp: alloc_fpga_id_def kvalue_def kcall_def Let_def pci_kernel_def ret_val_def
      split: sum.splits)

lemma alloc_dev_ok:
  assumes "kvalue Platform_device_alloc [] w = (r, w')"
  shows "w_kcall w' = w_kcall w \<and>
    (case r of Inl _ \<Rightarrow> \<forall>q. balance (w_trace w') q = balance (w_trace w) q
     | Inr d \<Rightarrow> (\<forall>q. balance (w_trace w') q = balance (w_trace w) q + of_bool (q = RDevice d)))"
  using assms by (auto simp: kvalue_def kcall_def Let_def split: sum.splits)

text \<open>
  What creating a device gives when the device before it was committed: at any point of failure the
  new device is in the account; \<open>FME_ID\<close> is only fit for going on when there is no FME yet.
\<close>

lemma create_dev_ok:
  assumes run: "build_info_create_dev env type n name st w = (r, st', w')" and "dev_type_name type name"
  shows "w_kcall w' = w_kcall w \<and> (pci_kernel w \<and> enum_ok st \<and> building_ok st \<longrightarrow>
    enum_ok st' \<and> (\<forall>q. tracked q \<longrightarrow> net q st' w' = net q st w) \<and>
    (r = Inr () \<longrightarrow> (type = FME_ID \<longrightarrow> drv_fme_dev (es_drv st') = None) \<longrightarrow> building_ok st'))"
proof -
  obtain r1 st1 w1 where c: "build_info_commit_dev st w = (r1, st1, w1)" by (metis surj_pair)
  note cm = commit_ok [OF c]
  show ?thesis
  proof (cases r1)
    case (Inl e)
    with run c cm show ?thesis by (auto simp: build_info_create_dev_def step_ok_def)
  next
    case (Inr u)
    then have k1: "w_kcall w1 = w_kcall w" and f1: "fdev_of st1 = None"
      and ok1: "pci_kernel w \<Longrightarrow> enum_ok st \<Longrightarrow> building_ok st \<Longrightarrow>
        pci_kernel w1 \<and> enum_ok st1 \<and> (\<forall>q. tracked q \<longrightarrow> net q st1 w1 = net q st w)"
      using cm by (auto simp: step_ok_def pci_kernel_def)
    obtain r2 w2 where a: "kvalue Platform_device_alloc [] w1 = (r2, w2)" by (metis surj_pair)
    note al = alloc_dev_ok [OF a]
    show ?thesis
    proof (cases r2)
      case (Inl e)
      then have "w' = w2" "st' = set_fdev None st1" "r = Inl ENOMEM"
        using run c \<open>r1 = Inr u\<close> a by (auto simp: build_info_create_dev_def)
      moreover have "set_fdev None st1 = st1" using f1 by (simp add: set_fdev_def set_binfo_def)
      ultimately show ?thesis using al Inl k1 ok1 by (auto simp: net_def)
    next
      case (Inr self)
      obtain r3 w3 where i: "alloc_fpga_id type w2 = (r3, w3)" by (metis surj_pair)
      note id = alloc_id_ok [OF i]
      have k3: "w_kcall w3 = w_kcall w" using id al k1 by simp
      let ?d = "\<lparr>pl_self = self, pl_name = name, pl_id = -1, pl_devt = 0, pl_registered = False,
                 pl_resource = [], pl_pdata = None\<rparr> :: 'a platform_device"
      show ?thesis
      proof (cases r3)
        case (Inl e)
        then have out: "w' = w3" "st' = set_fdev (Some ?d) st1" "r = Inl e"
          using run c \<open>r1 = Inr u\<close> a Inr i by (auto simp: build_info_create_dev_def)
        show ?thesis
        proof (intro conjI impI)
          show "w_kcall w' = w_kcall w" using out(1) k3 by simp
        next
          assume pre: "pci_kernel w \<and> enum_ok st \<and> building_ok st"
          then have s1: "enum_ok st1" "\<forall>q. tracked q \<longrightarrow> net q st1 w1 = net q st w" and kk: "pci_kernel w2"
            using ok1 al k1 by (auto simp: pci_kernel_def)
          have b3: "\<forall>q. balance (w_trace w3) q = balance (w_trace w1) q + of_bool (q = RDevice self)"
            using id kk Inl al \<open>r2 = Inr self\<close> by simp
          note new = fdev_new_ok [of type ?d st1 _ w', OF _ _ f1 s1(1)]
          show "enum_ok st'" using new assms(2) out(2) by simp
          show "\<forall>q. tracked q \<longrightarrow> net q st' w' = net q st w"
          proof (intro allI impI)
            fix q assume "tracked q"
            then have "net q st1 w1 = net q st w" using s1(2) by blast
            moreover have "net q st' w' = net q st1 w' - of_bool (q = RDevice self)"
              using new [of q] assms(2) out(2) by simp
            moreover have "net q st1 w' = net q st1 w1 + of_bool (q = RDevice self)"
              using b3 out(1) by (simp add: net_def)
            ultimately show "net q st' w' = net q st w" by simp
          qed
        qed (use out(3) in simp)
      next
        case (Inr fid)
        let ?d1 = "?d\<lparr>pl_id := fid, pl_devt := fpga_get_devt (env_chrdevs env)
          (if type = PORT_ID then FPGA_DEVT_PORT else FPGA_DEVT_FME) (word_of_int fid)\<rparr>"
        obtain r4 w4 where p: "feature_platform_data_alloc_and_init n w3 =
          (r4 :: 'a feature_platform_data option, w4)" by (metis surj_pair)
        obtain r5 w5 where kc: "kvalue Kcalloc [int n] w4 = (r5, w5)" by (metis surj_pair)
        have n4: "neutral w3 w4" by (rule neutral_pdata [OF p])
        have n5: "neutral w4 w5" by (rule neutral_memory [OF _ kc]) simp
        have "\<exists>pd res. st' = set_fdev (Some (?d1\<lparr>pl_pdata := pd, pl_resource := res\<rparr>)) st1 \<and> neutral w3 w'"
        proof (cases r4)
          case None
          then have "st' = set_fdev (Some ?d1) st1" "w' = w4"
            using run c \<open>r1 = Inr u\<close> a \<open>r2 = Inr self\<close> i \<open>r3 = Inr fid\<close> p
            by (auto simp: build_info_create_dev_def Let_def)
          with n4 show ?thesis by (intro exI [of _ None] exI [of _ "[]"]) simp
        next
          case (Some pd)
          show ?thesis
          proof (cases r5)
            case (Inl e)
            then have "st' = set_fdev (Some (?d1\<lparr>pl_pdata := Some pd\<rparr>)) st1" "w' = w5"
              using run c \<open>r1 = Inr u\<close> a \<open>r2 = Inr self\<close> i \<open>r3 = Inr fid\<close> p Some kc
              by (auto simp: build_info_create_dev_def Let_def)
            with neutral_trans [OF n4 n5] show ?thesis
              by (intro exI [of _ "Some pd"] exI [of _ "[]"]) simp
          next
            case (Inr u5)
            then have "st' = set_fdev (Some (?d1\<lparr>pl_pdata := Some pd, pl_resource := replicate n (0, 0)\<rparr>)) st1"
              "w' = w5"
              using run c \<open>r1 = Inr u\<close> a \<open>r2 = Inr self\<close> i \<open>r3 = Inr fid\<close> p Some kc
              by (auto simp: build_info_create_dev_def Let_def)
            with neutral_trans [OF n4 n5] show ?thesis
              by (intro exI [of _ "Some pd"] exI [of _ "replicate n (0, 0)"]) simp
          qed
        qed
        then obtain pd res where out: "st' = set_fdev (Some (?d1\<lparr>pl_pdata := pd, pl_resource := res\<rparr>)) st1"
          "neutral w3 w'" by blast
        let ?d2 = "?d1\<lparr>pl_pdata := pd, pl_resource := res\<rparr>"
        have fd: "fdev_of st' = Some ?d2" "es_drv st' = es_drv st1"
          by (simp_all add: out(1) set_fdev_def set_binfo_def)
        note new = fdev_new_ok [of type ?d2 st1 _ w', OF _ _ f1]
        show ?thesis
        proof (intro conjI impI)
          show "w_kcall w' = w_kcall w" using out(2) k3 by (simp add: neutral_def)
        next
          assume pre: "pci_kernel w \<and> enum_ok st \<and> building_ok st"
          then have s1: "enum_ok st1" "\<forall>q. tracked q \<longrightarrow> net q st1 w1 = net q st w" and kk: "pci_kernel w2"
            using ok1 al k1 by (auto simp: pci_kernel_def)
          have fid: "0 \<le> fid" "\<forall>q. balance (w_trace w3) q =
              balance (w_trace w2) q + of_bool (q = RId (id_type_index type) fid)"
            using id kk Inr by auto
          have b2: "\<forall>q. balance (w_trace w2) q = balance (w_trace w1) q + of_bool (q = RDevice self)"
            using al \<open>r2 = Inr self\<close> by simp
          have en: "enum_ok st'" and ty: "feature_dev_id_type ?d2 = type"
            and nt: "\<And>q. net q st' w' = net q st1 w' - of_bool (q = RDevice self)
              - of_bool (q = RId (id_type_index type) fid)"
            using new [OF _ _ s1(1)] assms(2) fid(1) out(1) by simp_all
          show "enum_ok st'" by (rule en)
          show "\<forall>q. tracked q \<longrightarrow> net q st' w' = net q st w"
          proof (intro allI impI)
            fix q assume q: "tracked q"
            then have "net q st1 w1 = net q st w" using s1(2) by blast
            moreover have "balance (w_trace w') q = balance (w_trace w3) q"
              using out(2) q by (simp add: neutral_def)
            then have "net q st1 w' = net q st1 w1 + of_bool (q = RDevice self)
                + of_bool (q = RId (id_type_index type) fid)"
              using b2 fid(2) by (simp add: net_def)
            ultimately show "net q st' w' = net q st w" using nt [of q] by simp
          qed
          show "building_ok st'" if "type = FME_ID \<longrightarrow> drv_fme_dev (es_drv st') = None"
            using that ty fid(1) fd(1) by (simp add: building_ok_def)
        qed
      qed
    qed
  qed
qed

subsection \<open>Parsing features\<close>

lemma add_sub_feature_ok:
  assumes "build_info_add_sub_feature env i name sz start vs vc st w = (r, st', w')"
    and "fdev_of st \<noteq> None"
  shows "same_account st st' \<and> neutral w w'"
  using assms
  by (auto simp: build_info_add_sub_feature_def Let_def same_account_def set_fdev_def set_binfo_def
      intro: neutral_memory split: prod.splits sum.splits if_splits)

lemma create_instance_ok:
  assumes "create_feature_instance env start fi st w = (r, st', w')" and "fdev_of st \<noteq> None"
  shows "same_account st st' \<and> neutral w w'"
  using assms by (auto simp: create_feature_instance_def split: if_splits dest!: add_sub_feature_ok)

lemma create_dev_parent:
  "build_info_create_dev env type n name st w = (r, st', w') \<Longrightarrow>
   bi_parent_dev (es_binfo st') = bi_parent_dev (es_binfo st)"
  by (auto simp: build_info_create_dev_def set_fdev_def set_binfo_def Let_def build_info_commit_dev_def
      cci_pci_add_port_dev_def split: prod.splits sum.splits option.splits if_splits)

lemma create_dev_fdev:
  "build_info_create_dev env type n name st w = (Inr u, st', w') \<Longrightarrow> fdev_of st' \<noteq> None"
  by (auto simp: build_info_create_dev_def set_fdev_def set_binfo_def Let_def
      split: prod.splits sum.splits option.splits outcome.splits)

lemma parse_fme_ok:
  assumes run: "parse_feature_fme env start st w = (r, st', w')"
  shows "step_ok st w r st' w'"
proof -
  obtain r1 st1 w1 where c: "build_info_create_dev env FME_ID fme_feature_num FPGA_FEATURE_DEV_FME st w =
      (r1, st1, w1)" by (metis surj_pair)
  note cr = create_dev_ok [OF c] create_dev_parent [OF c] and fd = create_dev_fdev [of env FME_ID fme_feature_num _ st w _ st1 w1]
  have ty: "dev_type_name FME_ID FPGA_FEATURE_DEV_FME" by (simp add: dev_type_name_def)
  show ?thesis
  proof (cases "\<exists>u. r1 = Inr u \<and> drv_fme_dev (es_drv st1) = None")
    case True
    then have i: "create_feature_instance env start (es_fme_features st1 ! FME_FEATURE_ID_HEADER) st1 w1 =
        (r, st', w')" and s: "step_ok st w (Inr ()) st1 w1" and f: "fdev_of st1 \<noteq> None"
      using run c cr ty fd by (auto simp: parse_feature_fme_def step_ok_def)
    have "same_account st1 st' \<and> neutral w1 w'" by (rule create_instance_ok [OF i f])
    then show ?thesis by (blast intro: step_ok_trans [OF s] same_account_step)
  next
    case False
    then have "st' = st1" "w' = w1" "r \<noteq> Inr ()"
      using run c by (auto simp: parse_feature_fme_def split: sum.splits if_splits)
    with cr ty show ?thesis by (auto simp: step_ok_def)
  qed
qed

lemma parse_port_ok:
  assumes run: "parse_feature_port env start st w = (r, st', w')"
  shows "step_ok st w r st' w'"
proof -
  obtain r1 st1 w1 where c: "build_info_create_dev env PORT_ID port_feature_num FPGA_FEATURE_DEV_PORT st w =
      (r1, st1, w1)" by (metis surj_pair)
  note cr = create_dev_ok [OF c] create_dev_parent [OF c] and fd = create_dev_fdev [of env PORT_ID port_feature_num _ st w _ st1 w1]
  have ty: "dev_type_name PORT_ID FPGA_FEATURE_DEV_PORT" by (simp add: dev_type_name_def)
  show ?thesis
  proof (cases r1)
    case (Inr u)
    then have i: "create_feature_instance env start (es_port_features st1 ! PORT_FEATURE_ID_HEADER) st1 w1 =
        (r, st', w')" and s: "step_ok st w (Inr ()) st1 w1" and f: "fdev_of st1 \<noteq> None"
      using run c cr ty fd by (auto simp: parse_feature_port_def step_ok_def)
    have "same_account st1 st' \<and> neutral w1 w'" by (rule create_instance_ok [OF i f])
    then show ?thesis by (blast intro: step_ok_trans [OF s] same_account_step)
  next
    case (Inl e)
    then have "st' = st1" "w' = w1" "r \<noteq> Inr ()"
      using run c by (auto simp: parse_feature_port_def)
    with cr ty show ?thesis by (auto simp: step_ok_def)
  qed
qed

lemma fme_private_ok:
  assumes "parse_feature_fme_private env hdr st w = (r, st', w')" and "fdev_of st \<noteq> None"
  shows "step_ok st w r st' w'"
proof -
  obtain csr w1 where rd: "readq hdr w = (csr, w1)" by (metis surj_pair)
  let ?i = "unat (get_field feature_header ''id'' csr)"
  obtain fi w2 where irq: "parse_feature_irqs hdr (es_fme_features st ! ?i) w1 = (fi, w2)" by (metis surj_pair)
  obtain c w3 where ck: "check_features_header hdr FPGA_DEVT_FME ?i w2 = (c, w3)" by (metis surj_pair)
  have n: "neutral w w3"
    using neutral_readq [OF rd] neutral_irqs [OF irq] neutral_check [OF ck] neutral_trans by blast
  show ?thesis
  proof (cases "length (es_fme_features st) \<le> ?i")
    case True
    with assms(1) rd neutral_readq [OF rd] show ?thesis
      by (auto simp: parse_feature_fme_private_def Let_def intro: step_ok_neutral)
  next
    case False
    let ?st = "st\<lparr>es_fme_features := (es_fme_features st)[?i := fi]\<rparr>"
    have "create_feature_instance env hdr fi ?st w3 = (r, st', w')"
      using assms(1) rd irq ck False by (simp add: parse_feature_fme_private_def Let_def)
    then have "same_account ?st st' \<and> neutral w3 w'"
      by (rule create_instance_ok) (use assms(2) in simp)
    then show ?thesis
      by (intro step_ok_before [OF n] step_ok_from [of st ?st] same_account_step) simp_all
  qed
qed

lemma port_private_ok:
  assumes "parse_feature_port_private env hdr st w = (r, st', w')" and "fdev_of st \<noteq> None"
  shows "step_ok st w r st' w'"
proof -
  obtain csr w1 where rd: "readq hdr w = (csr, w1)" by (metis surj_pair)
  let ?i = "unat (get_field feature_header ''id'' csr AND 0xf) + 1"
  obtain fi w2 where irq: "parse_feature_irqs hdr (es_port_features st ! ?i) w1 = (fi, w2)" by (metis surj_pair)
  obtain c w3 where ck: "check_features_header hdr FPGA_DEVT_PORT ?i w2 = (c, w3)" by (metis surj_pair)
  have n: "neutral w w3"
    using neutral_readq [OF rd] neutral_irqs [OF irq] neutral_check [OF ck] neutral_trans by blast
  show ?thesis
  proof (cases "length (es_port_features st) \<le> ?i")
    case True
    with assms(1) rd neutral_readq [OF rd] show ?thesis
      by (auto simp: parse_feature_port_private_def Let_def intro: step_ok_neutral)
  next
    case False
    let ?st = "st\<lparr>es_port_features := (es_port_features st)[?i := fi]\<rparr>"
    have "create_feature_instance env hdr fi ?st w3 = (r, st', w')"
      using assms(1) rd irq ck False by (simp add: parse_feature_port_private_def Let_def)
    then have "same_account ?st st' \<and> neutral w3 w'"
      by (rule create_instance_ok) (use assms(2) in simp)
    then show ?thesis
      by (intro step_ok_before [OF n] step_ok_from [of st ?st] same_account_step) simp_all
  qed
qed

lemma port_uafu_ok:
  assumes "parse_feature_port_uafu env hdr st w = (r, st', w')" and "fdev_of st \<noteq> None"
  shows "step_ok st w r st' w'"
proof -
  let ?fi = "es_port_features st ! PORT_FEATURE_ID_UAFU"
  obtain r1 st1 w1 where c: "create_feature_instance env hdr ?fi st w = (r1, st1, w1)" by (metis surj_pair)
  note i = create_instance_ok [OF c assms(2)]
  show ?thesis
  proof (cases "fi_resource_size ?fi = 0")
    case True
    with assms(1) show ?thesis
      by (simp add: parse_feature_port_uafu_def step_ok_neutral)
  next
    case False
    then have out: "r = r1" "st' = set_uafu_size 0 st1" "w' = w1"
      using assms(1) c by (simp_all add: parse_feature_port_uafu_def Let_def)
    have "step_ok st w r1 st1 w1" using i by (blast intro: same_account_step)
    then show ?thesis unfolding out by (rule step_ok_then) simp
  qed
qed

lemma enable_uafu_ok:
  assumes "enable_port_uafu start st w = Done (st', w')"
  shows "same_account st st' \<and> neutral w w'"
proof -
  obtain cap w1 where r1: "readq (reg_addr feature_port_header ''capability'' start) w = (cap, w1)"
    by (metis surj_pair)
  obtain ctl w2 where r2: "readq (reg_addr feature_port_header ''control'' start) w1 = (ctl, w2)"
    by (metis surj_pair)
  have n2: "neutral w w2" using neutral_readq [OF r1] neutral_readq [OF r2] neutral_trans by blast
  let ?sz = "push_bit 10 (get_field feature_port_capability ''mmio_size'' cap)"
  show ?thesis
  proof (cases "?sz = 0")
    case True
    with assms r1 r2 n2 show ?thesis by (auto simp: enable_port_uafu_def Let_def)
  next
    case False
    let ?st = "set_uafu_size ?sz st"
    obtain d pd where d: "fdev_of ?st = Some d" "pl_pdata d = Some pd"
      using assms r1 r2 False by (auto simp: enable_port_uafu_def Let_def split: option.splits outcome.splits)
    obtain r3 pd1 w3 where rs: "fpga_port_reset pd w2 = (r3, pd1, w3)" by (metis surj_pair)
    have "st' = set_fdev (Some (d\<lparr>pl_pdata := Some pd1\<rparr>)) ?st" "w' = w3"
      using assms r1 r2 False d rs by (auto simp: enable_port_uafu_def Let_def split: if_splits)
    moreover have "neutral w2 w3"
      using rs by (auto simp: fpga_port_reset_def intro!: neutral_mmio dest: mmio_only_reset)
    moreover have "fdev_of st = Some d" using d(1) by (simp add: set_uafu_size_def)
    ultimately show ?thesis
      using neutral_trans [OF n2, of w3]
      by (simp add: same_account_def set_fdev_def set_binfo_def set_uafu_size_def)
  qed
qed

subsection \<open>Walking the lists\<close>

lemma found_fme_ok:
  assumes "found_fme env hdr st w = (r, st', w')" shows "step_ok st w r st' w'"
proof -
  obtain st1 w1 where p: "parse_feature_fme env hdr st w = (r, st1, w1)"
    and out: "st' = set_binfo (\<lambda>b. b\<lparr>bi_pfme_hdr := hdr\<rparr>) st1"
      "w' = snd (check_features_header hdr FPGA_DEVT_FME 0 w1)"
    using assms by (auto simp: found_fme_def split: prod.splits)
  obtain c w2 where c: "check_features_header hdr FPGA_DEVT_FME 0 w1 = (c, w2)" by (metis surj_pair)
  have "step_ok st w r st1 w'"
    using step_ok_after [OF parse_fme_ok [OF p] neutral_check [OF c]] out(2) c by simp
  then show ?thesis unfolding out(1) by (rule step_ok_then) simp
qed

lemma found_port_ok:
  assumes "found_port env hdr st w = Done (r, st', w')" shows "step_ok st w r st' w'"
proof -
  obtain st1 w1 c w2 where p: "parse_feature_port env hdr st w = (r, st1, w1)"
    and c: "check_features_header hdr FPGA_DEVT_PORT 0 w1 = (c, w2)"
    and e: "enable_port_uafu hdr st1 w2 = Done (st', w')"
    using assms by (auto simp: found_port_def split: prod.splits option.splits outcome.splits)
  have "neutral w1 w'" using neutral_check [OF c] enable_uafu_ok [OF e] neutral_trans by blast
  from step_ok_then [OF step_ok_after [OF parse_port_ok [OF p] this]] enable_uafu_ok [OF e]
  show ?thesis by blast
qed

lemma parse_afu_ok:
  assumes "parse_afu env hdr st w = Done (r, st', w')" shows "step_ok st w r st' w'"
proof -
  obtain b1 w1 where g1: "feature_is_afu_fme env (hdr + 8) w = (b1, w1)" by (metis surj_pair)
  obtain b2 w2 where g2: "feature_is_afu_port env (hdr + 8) w1 = (b2, w2)" by (metis surj_pair)
  have n1: "neutral w w1" and n12: "neutral w1 w2"
    using g1 g2 by (auto simp: feature_is_afu_fme_def feature_is_afu_port_def dest: neutral_guid)
  note n2 = neutral_trans [OF n1 n12]
  consider "b1" | "\<not> b1" "b2" | "\<not> b1" "\<not> b2" "feature_is_UAFU st" | "\<not> b1" "\<not> b2" "\<not> feature_is_UAFU st"
    by blast
  then show ?thesis
  proof cases
    case 1
    then show ?thesis
      using assms g1 found_fme_ok [of env hdr st w1] by (auto simp: parse_afu_def intro: step_ok_before [OF n1])
  next
    case 2
    then show ?thesis
      using assms g1 g2 found_port_ok [of env hdr st w2] by (auto simp: parse_afu_def intro: step_ok_before [OF n2])
  next
    case 3
    then have "fdev_of st \<noteq> None" by (auto simp: feature_is_UAFU_def split: option.splits)
    with 3 show ?thesis
      using assms g1 g2 port_uafu_ok [of env hdr st w2] by (auto simp: parse_afu_def intro: step_ok_before [OF n2])
  next
    case 4
    then show ?thesis using assms g1 g2 n2 by (auto simp: parse_afu_def intro: step_ok_neutral)
  qed
qed

lemma parse_afus_ok:
  "parse_afus env end start st w = Some (Done (r, st', w')) \<Longrightarrow> step_ok st w r st' w'"
proof (induction env "end" start st w "Done (r, st', w')" arbitrary: r st' w' rule: parse_afus.raw_induct [rotated, consumes 1])
  case (1 parse_rest env "end" start st w)
  obtain csr w1 where rd: "readq (reg_addr feature_afu_header ''csr'' (start + 8)) w = (csr, w1)"
    by (metis surj_pair)
  note n1 = neutral_readq [OF rd]
  show ?case
  proof (cases "start < end \<and> \<not> end - start < 32")
    case False
    then show ?thesis using 1(2) by (auto split: if_splits intro: step_ok_neutral)
  next
    case True
    then obtain r2 st2 w2 where p: "parse_afu env start st w1 = Done (r2, st2, w2)"
      using 1(2) rd by (auto simp: Let_def split: option.splits outcome.splits)
    note s2 = step_ok_before [OF n1 parse_afu_ok [OF p]]
    show ?thesis
    proof (cases "r2 = Inr () \<and> get_field feature_afu_header_csr ''next_afu'' csr \<noteq> 0")
      case go: True
      then have "parse_rest env end (start + get_field feature_afu_header_csr ''next_afu'' csr) st2 w2 =
          Some (Done (r, st', w'))"
        using 1(2) rd p True by (simp add: Let_def)
      from 1(1) [OF this] s2 go show ?thesis by (auto intro: step_ok_trans)
    next
      case False
      then have "r = r2" "st' = st2" "w' = w2"
        using 1(2) rd p True by (auto simp: Let_def split: sum.splits if_splits)
      with s2 show ?thesis by simp
    qed
  qed
qed

lemma parse_fiu_ok:
  assumes "parse_feature_fiu env hdr st w = Some (Done (r, st', w'))" shows "step_ok st w r st' w'"
proof -
  obtain csr w1 where rd: "readq hdr w = (csr, w1)" by (metis surj_pair)
  note n1 = neutral_readq [OF rd]
  let ?id = "get_field feature_header ''id'' csr"
  consider "?id = FEATURE_FIU_ID_FME" | "?id \<noteq> FEATURE_FIU_ID_FME" "?id = FEATURE_FIU_ID_PORT"
    | "?id \<noteq> FEATURE_FIU_ID_FME" "?id \<noteq> FEATURE_FIU_ID_PORT" by blast
  then show ?thesis
  proof cases
    case 1
    then show ?thesis
      using assms rd found_fme_ok [of env hdr st w1]
      by (auto simp: parse_feature_fiu_def Let_def intro: step_ok_before [OF n1])
  next
    case 2
    then obtain r2 st2 w2 where p: "found_port env hdr st w1 = Done (r2, st2, w2)"
      using assms rd by (auto simp: parse_feature_fiu_def Let_def split: option.splits outcome.splits)
    note s2 = step_ok_before [OF n1 found_port_ok [OF p]]
    show ?thesis
    proof (cases r2)
      case (Inl e)
      then show ?thesis using assms rd 2 p s2 by (auto simp: parse_feature_fiu_def Let_def)
    next
      case (Inr u)
      obtain fiu w3 where rd3: "readq (reg_addr feature_fiu_header ''csr'' (hdr + 8)) w2 = (fiu, w3)"
        by (metis surj_pair)
      note n3 = neutral_readq [OF rd3]
      show ?thesis
      proof (cases "get_field feature_fiu_header_csr ''next_afu'' fiu = 0")
        case True
        then show ?thesis
          using assms rd 2 p Inr rd3 step_ok_after [OF s2 n3]
          by (auto simp: parse_feature_fiu_def Let_def)
      next
        case False
        then have "parse_feature_afus env (hdr + get_field feature_fiu_header_csr ''next_afu'' fiu) st2 w3 =
            Some (Done (r, st', w'))"
          using assms rd 2 p Inr rd3 by (auto simp: parse_feature_fiu_def Let_def)
        then have "step_ok st2 w3 r st' w'" by (simp add: parse_feature_afus_def parse_afus_ok)
        with step_ok_after [OF s2 n3] Inr show ?thesis by (auto intro: step_ok_trans)
      qed
    qed
  next
    case 3
    then show ?thesis using assms rd n1 by (auto simp: parse_feature_fiu_def Let_def intro: step_ok_neutral)
  qed
qed

lemma parse_private_ok:
  assumes "parse_feature_private env hdr st w = (r, st', w')" shows "step_ok st w r st' w'"
proof -
  obtain csr w1 where rd: "readq hdr w = (csr, w1)" by (metis surj_pair)
  note n1 = neutral_readq [OF rd]
  show ?thesis
  proof (cases "fdev_of st")
    case None
    then show ?thesis using assms rd n1 by (auto simp: parse_feature_private_def intro: step_ok_neutral)
  next
    case (Some d)
    then have f: "fdev_of st \<noteq> None" by simp
    note n = step_ok_neutral [OF n1] step_ok_before [OF n1]
    show ?thesis
      using assms rd Some fme_private_ok [OF _ f, of env hdr w1] port_private_ok [OF _ f, of env hdr w1] n
      by (auto simp: parse_feature_private_def split: fpga_id_type.splits)
  qed
qed

lemma parse_feature_ok:
  assumes "parse_feature env hdr st w = Some (Done (r, st', w'))" shows "step_ok st w r st' w'"
proof -
  obtain csr w1 where rd: "readq hdr w = (csr, w1)" by (metis surj_pair)
  note n1 = neutral_readq [OF rd]
  show ?thesis
    using assms rd parse_private_ok [of env hdr st w1] parse_fiu_ok [of env hdr st w1]
      step_ok_neutral [OF n1, of st] step_ok_before [OF n1, of st]
    by (auto simp: parse_feature_def parse_feature_afus_def Let_def split: if_splits dest!: parse_afus_ok)
qed

lemma parse_features_ok:
  "parse_features env end start st w = Some (Done (r, st', w')) \<Longrightarrow> step_ok st w r st' w'"
proof (induction env "end" start st w "Done (r, st', w')" arbitrary: r st' w' rule: parse_features.raw_induct [rotated, consumes 1])
  case (1 parse_rest env "end" start st w)
  show ?case
  proof (cases "start < end \<and> \<not> end - start < 8")
    case False
    then show ?thesis using 1(2) by (auto split: if_splits intro: step_ok_neutral)
  next
    case True
    then obtain r1 st1 w1 where p: "parse_feature env start st w = Some (Done (r1, st1, w1))"
      using 1(2) by (auto split: option.splits outcome.splits)
    note s1 = parse_feature_ok [OF p]
    obtain csr w2 where rd: "readq start w1 = (csr, w2)" by (metis surj_pair)
    note s2 = step_ok_after [OF s1 neutral_readq [OF rd]]
    let ?next = "get_field feature_header ''next_header_offset'' csr"
    show ?thesis
    proof (cases r1)
      case (Inl e)
      then show ?thesis using 1(2) p True s1 by auto
    next
      case (Inr u)
      show ?thesis
      proof (cases "get_field feature_header ''eol'' csr \<noteq> 0 \<or> ?next = 0")
        case stop: True
        then show ?thesis using 1(2) p True rd s2 Inr by (auto simp: Let_def)
      next
        case False
        then have "parse_rest env end (start + ?next) st1 w2 = Some (Done (r, st', w'))"
          using 1(2) p True rd Inr by (simp add: Let_def)
        from 1(1) [OF this] s2 Inr show ?thesis by (auto intro: step_ok_trans)
      qed
    qed
  qed
qed

lemma parse_ports_ok:
  "parse_ports env fme is st w = Some (Done (r, st', w')) \<Longrightarrow> step_ok st w r st' w'"
proof (induction "is" arbitrary: st w)
  case Nil
  then show ?case by (auto intro: step_ok_neutral)
next
  case (Cons i "is")
  obtain csr w1 where rd: "readq (reg_addr feature_fme_header ''port'' fme + 8 * of_nat i) w = (csr, w1)"
    by (metis surj_pair)
  note n1 = neutral_readq [OF rd]
  show ?case
  proof (cases "get_field feature_fme_port ''port_implemented'' csr = 0")
    case True
    then show ?thesis using Cons.prems rd n1 by (auto intro: step_ok_neutral)
  next
    case False
    obtain r2 st2 w2 where sw: "parse_switch_to env (uint (get_field feature_fme_port ''port_bar'' csr)) st w1 =
        (r2, st2, w2)" by (metis surj_pair)
    have s2: "step_ok st w r2 st2 w2"
      using step_ok_before [OF n1 parse_start_from_ok] sw by (simp add: parse_switch_to_def)
    show ?thesis
    proof (cases r2)
      case (Inl e)
      then show ?thesis using Cons.prems rd False sw s2 by auto
    next
      case (Inr u)
      then obtain r3 st3 w3 where l: "parse_feature_list env (bi_ioaddr (es_binfo st2) +
          get_field feature_fme_port ''port_offset'' csr) st2 w2 = Some (Done (r3, st3, w3))"
        using Cons.prems rd False sw by (auto split: option.splits outcome.splits)
      have "step_ok st2 w2 r3 st3 w3"
        by (rule parse_features_ok) (use l in \<open>simp add: parse_feature_list_def\<close>)
      then have s3: "step_ok st w r3 st3 w3" using s2 Inr by (auto intro: step_ok_trans)
      show ?thesis
      proof (cases r3)
        case (Inl e)
        then show ?thesis using Cons.prems rd False sw \<open>r2 = Inr u\<close> l s3 by auto
      next
        case (Inr u3)
        then have "parse_ports env fme is st3 w3 = Some (Done (r, st', w'))"
          using Cons.prems rd False sw \<open>r2 = Inr u\<close> l by auto
        from Cons.IH [OF this] s3 Inr show ?thesis by (auto intro: step_ok_trans)
      qed
    qed
  qed
qed

lemma enumerate_ok:
  assumes run: "enumerate_devs env st w = Some (Done (r, st', w'))"
  shows "step_ok st w r st' w' \<and> (r = Inr () \<longrightarrow> fdev_of st' = None)"
proof -
  obtain r1 st1 w1 where p1: "parse_start env st w = (r1, st1, w1)" by (metis surj_pair)
  have s1: "step_ok st w r1 st1 w1" by (rule parse_start_from_ok) (use p1 in \<open>simp add: parse_start_def\<close>)
  show ?thesis
  proof (cases r1)
    case (Inl e)
    then show ?thesis using run p1 s1 by (auto simp: enumerate_devs_def)
  next
    case r1: (Inr u)
    then obtain r2 st2 w2 where p2: "parse_feature_list env (bi_ioaddr (es_binfo st1)) st1 w1 = Some (Done (r2, st2, w2))"
      using run p1 by (auto simp: enumerate_devs_def split: option.splits outcome.splits)
    have "step_ok st1 w1 r2 st2 w2"
      by (rule parse_features_ok) (use p2 in \<open>simp add: parse_feature_list_def\<close>)
    then have s2: "step_ok st w r2 st2 w2" using s1 r1 by (auto intro: step_ok_trans)
    show ?thesis
    proof (cases r2)
      case (Inl e)
      then show ?thesis using run p1 r1 p2 s2 by (auto simp: enumerate_devs_def)
    next
      case r2: (Inr u)
      then obtain r3 st3 w3 where p3: "parse_ports_from_fme env st2 w2 = Some (Done (r3, st3, w3))"
        using run p1 r1 p2 by (auto simp: enumerate_devs_def split: option.splits outcome.splits)
      have "step_ok st2 w2 r3 st3 w3"
        using p3 by (auto simp: parse_ports_from_fme_def split: if_splits intro: parse_ports_ok step_ok_neutral)
      then have s3: "step_ok st w r3 st3 w3" using s2 r2 by (auto intro: step_ok_trans)
      show ?thesis
      proof (cases r3)
        case (Inl e)
        then show ?thesis using run p1 r1 p2 r2 p3 s3 by (auto simp: enumerate_devs_def)
      next
        case (Inr u3)
        obtain r4 st4 w4 where p4: "build_info_commit_dev st3 w3 = (r4, st4, w4)" by (metis surj_pair)
        then have "r = r4" "st' = st4" "w' = w4"
          using run p1 r1 p2 r2 p3 Inr by (auto simp: enumerate_devs_def)
        with commit_ok [OF p4] s3 Inr show ?thesis by (auto intro: step_ok_trans)
      qed
    qed
  qed
qed

subsection \<open>Giving everything back\<close>

lemma remove_feature_dev_ok:
  assumes "remove_feature_dev d w = (d', w')"
  shows "w_kcall w' = w_kcall w \<and> \<not> pl_registered d' \<and>
    balance (w_trace w') q - dev_hold type q d' = balance (w_trace w) q - dev_hold type q d"
proof (cases "pl_registered d")
  case True
  then have "d' = d\<lparr>pl_registered := False\<rparr>" "w' = kvoid Platform_device_unregister [pl_self d] w"
    using assms by (simp_all add: remove_feature_dev_def)
  with True show ?thesis by (simp add: dev_hold_def kvoid_def ret_val_def of_bool_def)
next
  case False
  with assms show ?thesis by (simp add: remove_feature_dev_def)
qed

lemma remove_feature_devs_ok:
  "remove_feature_devs ds w = (ds', w') \<Longrightarrow> w_kcall w' = w_kcall w \<and> (\<forall>d \<in> set ds'. \<not> pl_registered d) \<and>
    balance (w_trace w') q - (\<Sum>d\<leftarrow>ds'. dev_hold type q d) =
    balance (w_trace w) q - (\<Sum>d\<leftarrow>ds. dev_hold type q d)"
proof (induction ds arbitrary: ds' w)
  case (Cons d ds)
  obtain d1 w1 where r: "remove_feature_dev d w = (d1, w1)" by (metis surj_pair)
  obtain ds2 where r2: "remove_feature_devs ds w1 = (ds2, w')" "ds' = d1 # ds2"
    using Cons.prems r by (auto split: prod.splits)
  from Cons.IH [OF r2(1)] remove_feature_dev_ok [OF r, of q type] r2(2) show ?case by auto
qed simp

definition none_registered :: "'p cci_drvdata \<Rightarrow> bool" where
  "none_registered drv \<longleftrightarrow> (\<forall>d \<in> set (drv_ports drv). \<not> pl_registered d) \<and>
     (\<forall>d. drv_fme_dev drv = Some d \<longrightarrow> \<not> pl_registered d)"

definition parent_hold :: "resource \<Rightarrow> int option \<Rightarrow> int" where
  "parent_hold q parent = (case parent of None \<Rightarrow> 0 | Some p \<Rightarrow> of_bool (q = RDevice p))"

lemma remove_all_ok:
  assumes "remove_all_devs parent drv w = (drv', w')"
  shows "w_kcall w' = w_kcall w \<and> (parent \<noteq> None \<or> none_registered drv \<longrightarrow> none_registered drv') \<and>
    drv_regions drv' = drv_regions drv \<and>
    balance (w_trace w') q - drv_hold q drv' = balance (w_trace w) q - drv_hold q drv - parent_hold q parent"
proof (cases parent)
  case None
  with assms show ?thesis by (auto simp: remove_all_devs_def parent_hold_def)
next
  case (Some p)
  obtain fme w1 where f: "(case drv_fme_dev drv of None \<Rightarrow> (None, w)
      | Some d \<Rightarrow> (case remove_feature_dev d w of (d1, w1) \<Rightarrow> (Some d1, w1))) = (fme, w1)" by (metis surj_pair)
  obtain ps w2 where ps: "remove_feature_devs (rev (drv_ports drv)) w1 = (ps, w2)" by (metis surj_pair)
  have out: "drv' = drv\<lparr>drv_fme_dev := fme, drv_ports := rev ps\<rparr>" "w' = kvoid Device_unregister [p] w2"
    using assms Some f ps by (auto simp: remove_all_devs_def remove_parent_dev_def)
  have 1: "w_kcall w1 = w_kcall w \<and> (\<forall>d. fme = Some d \<longrightarrow> \<not> pl_registered d) \<and>
      balance (w_trace w1) q - (case fme of None \<Rightarrow> 0 | Some d \<Rightarrow> dev_hold FME_ID q d) =
      balance (w_trace w) q - (case drv_fme_dev drv of None \<Rightarrow> 0 | Some d \<Rightarrow> dev_hold FME_ID q d)"
    using f remove_feature_dev_ok [of _ w _ w1 q FME_ID]
    by (auto split: option.splits outcome.splits prod.splits)
  have sums: "(\<Sum>d\<leftarrow>rev xs. dev_hold PORT_ID q d) = (\<Sum>d\<leftarrow>xs. dev_hold PORT_ID q d)"
    for xs :: "'a platform_device list"
    by (metis rev_map sum_list_rev)
  note 2 = remove_feature_devs_ok [OF ps, of q PORT_ID]
  show ?thesis
    using out 1 2 Some sums
    by (auto simp: none_registered_def drv_hold_def parent_hold_def kvoid_def ret_val_def)
qed

lemma remove_ports_ok:
  "\<forall>d \<in> set ds. \<not> pl_registered d \<Longrightarrow>
   w_kcall (remove_port_devs ds w) = w_kcall w \<and>
   balance (w_trace (remove_port_devs ds w)) q =
     balance (w_trace w) q - (\<Sum>d\<leftarrow>ds. dev_hold PORT_ID q d)"
  by (induction ds arbitrary: w)
    (simp_all add: free_fpga_id_def kvoid_def ret_val_def dev_hold_def of_bool_def)

lemma release_regions_ok:
  assumes "\<forall>r \<in> set rs. cr_ioaddr r \<noteq> 0" and "tracked q"
  shows "w_kcall (release_regions rs w) = w_kcall w \<and> balance (w_trace (release_regions rs w)) q =
     balance (w_trace w) q - (\<Sum>r\<leftarrow>rs. of_bool (q = RIomap (uint (cr_ioaddr r))))"
  using assms(1)
proof (induction rs arbitrary: w)
  case (Cons r rs)
  have "q \<noteq> RMem m" "RMem m \<noteq> q" for m using assms(2) by (auto simp: tracked_def)
  with Cons show ?case by (simp add: kvoid_def ret_val_def of_bool_def Let_def)
qed simp

lemma destroy_ok:
  assumes "none_registered drv" and "drv_ok drv" and "tracked q"
  shows "w_kcall (destroy_drvdata drv w) = w_kcall w \<and>
    balance (w_trace (destroy_drvdata drv w)) q = balance (w_trace w) q - drv_hold q drv"
proof -
  define w1 where "w1 = (case drv_fme_dev drv of None \<Rightarrow> w
    | Some d \<Rightarrow> kvoid Put_device [pl_self d] (free_fpga_id FME_ID (pl_id d) w))"
  let ?w2 = "remove_port_devs (drv_ports drv) w1" and ?rs = "drv_regions drv"
  have mem: "q \<noteq> RMem m" "RMem m \<noteq> q" for m using assms(3) by (auto simp: tracked_def)
  have 1: "w_kcall w1 = w_kcall w" "balance (w_trace w1) q = balance (w_trace w) q -
      (case drv_fme_dev drv of None \<Rightarrow> 0 | Some d \<Rightarrow> dev_hold FME_ID q d)"
    using assms(1) unfolding w1_def none_registered_def
    by (auto simp: free_fpga_id_def kvoid_def ret_val_def dev_hold_def of_bool_def split: option.splits)
  have 2: "w_kcall ?w2 = w_kcall w1" "balance (w_trace ?w2) q = balance (w_trace w1) q -
      (\<Sum>d\<leftarrow>drv_ports drv. dev_hold PORT_ID q d)"
    using remove_ports_ok [of "drv_ports drv" w1 q] assms(1) by (auto simp: none_registered_def)
  have 3: "w_kcall (release_regions ?rs ?w2) = w_kcall ?w2" "balance (w_trace (release_regions ?rs ?w2)) q =
      balance (w_trace ?w2) q - (\<Sum>r\<leftarrow>?rs. of_bool (q = RIomap (uint (cr_ioaddr r))))"
    using release_regions_ok [OF _ assms(3), of ?rs ?w2] assms(2) by (auto simp: drv_ok_def)
  have "destroy_drvdata drv w = kvoid Devm_kfree [drv_self drv]
      (free_fpga_id PARENT_ID (drv_device_id drv) (release_regions ?rs ?w2))"
    by (simp add: destroy_drvdata_def w1_def cci_pci_remove_port_devs_def cci_pci_release_regions_def)
  then show ?thesis
    using 1 2 3 mem by (simp add: free_fpga_id_def kvoid_def ret_val_def drv_hold_def of_bool_def)
qed

lemma info_free_ok:
  assumes "build_info_free b drv w = (drv', w')" and "fdev_ok (bi_feature_dev b)" and "tracked q"
  shows "w_kcall w' = w_kcall w \<and> (bi_parent_dev b \<noteq> None \<or> none_registered drv \<longrightarrow> none_registered drv') \<and>
    drv_regions drv' = drv_regions drv \<and>
    balance (w_trace w') q - drv_hold q drv' = balance (w_trace w) q - drv_hold q drv
      - parent_hold q (bi_parent_dev b) - fdev_hold q (bi_feature_dev b)"
proof -
  obtain drv1 w1 where r: "remove_all_devs (bi_parent_dev b) drv w = (drv1, w1)" by (metis surj_pair)
  have mem: "q \<noteq> RMem m" "RMem m \<noteq> q" for m using assms(3) by (auto simp: tracked_def)
  from remove_all_ok [OF r, of q] assms(1,2) r mem show ?thesis
    by (cases "bi_feature_dev b")
      (auto simp: build_info_free_def fdev_hold_def fdev_ok_def Let_def free_fpga_id_def kvoid_def ret_val_def
        of_bool_def)
qed

subsection \<open>Probe and remove\<close>

lemma init_drvdata_ok:
  assumes "create_init_drvdata w = (r, w')"
  shows "w_kcall w' = w_kcall w \<and> (pci_kernel w \<longrightarrow>
    (case r of Inl _ \<Rightarrow> \<forall>q. tracked q \<longrightarrow> balance (w_trace w') q = balance (w_trace w) q
     | Inr drv \<Rightarrow> drv_ok drv \<and> drv_fme_dev drv = None \<and> drv_ports drv = [] \<and> drv_regions drv = [] \<and>
         (\<forall>q. tracked q \<longrightarrow> balance (w_trace w') q = balance (w_trace w) q + drv_hold q drv)))"
proof -
  obtain r1 w1 where k: "kvalue Kzalloc [] w = (r1, w1)" by (metis surj_pair)
  have n: "neutral w w1" by (rule neutral_memory [OF _ k]) simp
  obtain r2 w2 where a: "alloc_fpga_id PARENT_ID w1 = (r2, w2)" by (metis surj_pair)
  note al = alloc_id_ok [OF a]
  have pk: "pci_kernel w \<Longrightarrow> pci_kernel w1" using n by (simp add: pci_kernel_def neutral_def)
  show ?thesis
  proof (cases r1)
    case (Inl e)
    with assms k n show ?thesis by (auto simp: create_init_drvdata_def neutral_def)
  next
    case (Inr self)
    show ?thesis
    proof (cases r2)
      case (Inl e)
      have "neutral w2 (kvoid Devm_kfree [self] w2)" by (rule neutral_free)
      with assms k Inr a Inl n al pk show ?thesis
        by (auto simp: create_init_drvdata_def neutral_def)
    next
      case (Inr i)
      with assms k \<open>r1 = Inr self\<close> a n al pk show ?thesis
        by (auto simp: create_init_drvdata_def neutral_def drv_ok_def drv_hold_def)
    qed
  qed
qed

lemma create_devs_ok:
  assumes run: "cci_pci_create_feature_devs env tabs drv w = Some (Done (r, parent, tabs', drv', w'))"
    and drv: "drv_ok drv" "drv_fme_dev drv = None" "drv_ports drv = []" and "pci_kernel w"
  shows "w_kcall w' = w_kcall w \<and> drv_ok drv' \<and> ((\<exists>e. r = Inl e) \<longrightarrow> none_registered drv' \<and> parent = None) \<and>
    (r = Inr () \<longrightarrow> parent \<noteq> None) \<and>
    (\<forall>q. tracked q \<longrightarrow> balance (w_trace w') q - drv_hold q drv' - parent_hold q parent =
       balance (w_trace w) q - drv_hold q drv)"
proof -
  obtain bo w1 where b: "build_info_alloc_and_init w = (bo :: 'a build_feature_devs_info option, w1)"
    by (metis surj_pair)
  have n1: "neutral w w1"
    using b by (auto simp: build_info_alloc_and_init_def dest!: neutral_memory [rotated] split: prod.splits sum.splits)
  have nr: "none_registered drv" using drv by (simp add: none_registered_def)
  show ?thesis
  proof (cases bo)
    case None
    with run b n1 drv nr show ?thesis
      by (auto simp: cci_pci_create_feature_devs_def neutral_def parent_hold_def)
  next
    case (Some binfo)
    then have bi: "bi_parent_dev binfo = None" "bi_feature_dev binfo = None"
      using b by (auto simp: build_info_alloc_and_init_def split: prod.splits sum.splits)
    obtain r2 w2 where p: "fpga_create_parent_dev (drv_device_id drv) w1 = (r2, w2)" by (metis surj_pair)
    have pd: "w_kcall w2 = w_kcall w1" "case r2 of Inl _ \<Rightarrow> \<forall>q. balance (w_trace w2) q = balance (w_trace w1) q
        | Inr d \<Rightarrow> (\<forall>q. balance (w_trace w2) q = balance (w_trace w1) q + of_bool (q = RDevice d))"
      using p by (auto simp: fpga_create_parent_dev_def kvalue_def kcall_def Let_def split: sum.splits)
    show ?thesis
    proof (cases r2)
      case (Inl e)
      obtain drv1 w3 where f: "build_info_free binfo drv w2 = (drv1, w3)" by (metis surj_pair)
      have "r = Inl e" "parent = None" "drv' = drv1" "w' = w3"
        using run b Some p Inl f by (auto simp: cci_pci_create_feature_devs_def)
      moreover note info_free_ok [OF f]
      ultimately show ?thesis
        using pd Inl n1 bi nr drv(1)
        by (auto simp: neutral_def drv_ok_def parent_hold_def fdev_hold_def fdev_ok_def)
          (metis tracked_def)+
    next
      case (Inr par)
      let ?st = "\<lparr>es_binfo = binfo\<lparr>bi_parent_dev := Some par\<rparr>, es_drv = drv,
        es_fme_features = fst tabs, es_port_features = snd tabs\<rparr>"
      obtain r3 st w3 where en: "enumerate_devs env ?st w2 = Some (Done (r3, st, w3))"
        using run b Some p Inr by (auto simp: cci_pci_create_feature_devs_def split: option.splits outcome.splits)
      note s = enumerate_ok [OF en]
      have pre: "pci_kernel w2" "enum_ok ?st" "building_ok ?st"
        using \<open>pci_kernel w\<close> pd(1) n1 drv(1) bi
        by (auto simp: pci_kernel_def neutral_def enum_ok_def building_ok_def fdev_ok_def)
      have s3: "w_kcall w3 = w_kcall w" "enum_ok st" "\<And>q. tracked q \<Longrightarrow> net q st w3 = net q ?st w2"
        "r3 = Inr () \<Longrightarrow> fdev_of st = None"
        using s pre pd(1) n1 by (auto simp: step_ok_def neutral_def)
      define b' where "b' = (case r3 of Inl _ \<Rightarrow> es_binfo st | Inr _ \<Rightarrow> (es_binfo st)\<lparr>bi_parent_dev := None\<rparr>)"
      obtain drv1 w4 where f: "build_info_free b' (es_drv st) w3 = (drv1, w4)" by (metis surj_pair)
      have out: "r = r3" "parent = (case r3 of Inl _ \<Rightarrow> None | Inr _ \<Rightarrow> Some par)" "drv' = drv1" "w' = w4"
        using run b Some p Inr en f by (auto simp: cci_pci_create_feature_devs_def b'_def Let_def split: sum.splits)
      have fd: "fdev_ok (bi_feature_dev b')" "bi_feature_dev b' = fdev_of st"
        using s3(2) by (auto simp: b'_def enum_ok_def split: sum.splits)
      have par: "bi_parent_dev (es_binfo st) = Some par"
        using s by (simp add: step_ok_def)
      have bal: "balance (w_trace w2) q = balance (w_trace w) q + of_bool (q = RDevice par)" if "tracked q" for q
        using pd(2) Inr n1 that by (simp add: neutral_def)
      show ?thesis
      proof (intro conjI allI impI)
        show "w_kcall w' = w_kcall w"
          using info_free_ok [OF f fd(1), of "RDevice 0"] s3(1) out by (simp add: tracked_def)
        show "drv_ok drv'"
          using info_free_ok [OF f fd(1), of "RDevice 0"] s3(2) out by (simp add: tracked_def enum_ok_def drv_ok_def)
        show "none_registered drv'" if "\<exists>e. r = Inl e"
          using info_free_ok [OF f fd(1), of "RDevice 0"] out that par
          by (auto simp: tracked_def b'_def)
        show "parent = None" if "\<exists>e. r = Inl e" using out that by auto
        show "parent \<noteq> None" if "r = Inr ()" using out that by auto
        fix q assume q: "tracked q"
        have "parent_hold q (bi_parent_dev b') + parent_hold q parent = of_bool (q = RDevice par)"
          using out(2) par by (cases r3) (auto simp: b'_def parent_hold_def)
        moreover have "balance (w_trace w3) q - drv_hold q (es_drv st) - fdev_hold q (fdev_of st) =
            balance (w_trace w2) q - drv_hold q drv"
          using s3(3) [OF q] bi by (simp add: net_def fdev_hold_def)
        ultimately show "balance (w_trace w') q - drv_hold q drv' - parent_hold q parent =
            balance (w_trace w) q - drv_hold q drv"
          using info_free_ok [OF f fd(1) q] bal [OF q] out fd(2) by simp
      qed
    qed
  qed
qed

end
