(* ===== verification/Pcie_Probe.thy ===== *)
theory Pcie_Probe
  imports Pcie_Account
begin

text \<open>
  The life of a PCIe device, from probe to remove: a failed probe, and a probe followed by any
  releasing and assigning of ports and configuring of virtual functions and by remove, give back
  every id, device reference, BAR mapping and claim on the PCI device that was taken.
\<close>

subsection \<open>Probe\<close>

lemma neutral_kfn:
  assumes "kstatus (Kfn f) xs w = (r, w')"
    and "f \<notin> {''pci_enable_device'', ''pci_request_regions'', ''pci_disable_device'', ''pci_release_regions''}"
  shows "neutral w w'"
proof -
  obtain r0 where r0: "kcall (Kfn f) xs w = (r0, w')" using kcall_cases(1) [OF assms(1)] by auto
  show ?thesis
    by (rule neutral_kcall [OF r0])
      (use assms(2) in \<open>cases r0; auto simp: tracked_def named_pairs_def\<close>)
qed

lemma neutral_kfn_void:
  assumes "f \<notin> {''pci_enable_device'', ''pci_request_regions'', ''pci_disable_device'', ''pci_release_regions''}"
  shows "neutral w (kvoid (Kfn f) xs w)"
  by (rule neutral_kvoid) (use assms in \<open>auto simp: tracked_def named_pairs_def\<close>)

lemma neutral_free_irq: "neutral w (cci_pci_free_irq w)"
  by (simp add: cci_pci_free_irq_def neutral_kfn_void)

lemma neutral_alloc_irq: "cci_pci_alloc_irq env w = (r, w') \<Longrightarrow> neutral w w'"
  by (auto simp: cci_pci_alloc_irq_def split: if_splits dest: neutral_kfn)

lemma neutral_dma_masks: "set_dma_masks w = (r, w') \<Longrightarrow> neutral w w'"
  by (auto simp: set_dma_masks_def split: prod.splits sum.splits
      dest!: neutral_kfn intro: neutral_trans neutral_kfn_void)

text \<open>The claims on the PCI device of a probed device.\<close>

definition pci_hold :: "resource \<Rightarrow> int" where
  "pci_hold q = of_bool (q = RNamed ''pci_enable_device'') + of_bool (q = RNamed ''pci_request_regions'')"

lemma release_pci_ok:
  "w_kcall (release_pci_regions w) = w_kcall w \<and>
   balance (w_trace (release_pci_regions w)) q = balance (w_trace w) q - pci_hold q"
  by (simp add: release_pci_regions_def disable_error_report_def kvoid_def named_pairs_def pci_hold_def
      of_bool_def)

lemma probe_features_ok:
  assumes run: "probe_features env tabs w = Some (Done (r, tabs', w'))" and pk: "pci_kernel w"
    and q: "tracked q"
  shows "case r of
      Inl e \<Rightarrow> balance (w_trace w') q = balance (w_trace w) q - pci_hold q
    | Inr (parent, drv) \<Rightarrow> parent \<noteq> None \<and> drv_ok drv \<and>
        balance (w_trace w') q = balance (w_trace w) q + drv_hold q drv + parent_hold q parent"
proof -
  obtain r1 w1 where i: "create_init_drvdata w = (r1 :: 'a cci_drvdata res, w1)" by (metis surj_pair)
  note i_ok = init_drvdata_ok [OF i]
  show ?thesis
  proof (cases r1)
    case (Inl e)
    with run i have "r = Inl e" "w' = release_pci_regions w1" by (auto simp: probe_features_def)
    with Inl i_ok pk q release_pci_ok [of w1 q] show ?thesis by simp
  next
    case (Inr drv)
    have d: "drv_ok drv" "drv_fme_dev drv = None" "drv_ports drv = []" "w_kcall w1 = w_kcall w"
      "balance (w_trace w1) q = balance (w_trace w) q + drv_hold q drv"
      using i_ok Inr pk q by auto
    obtain r2 w2 where a: "cci_pci_alloc_irq env w1 = (r2, w2)" by (metis surj_pair)
    have n2: "w_kcall w2 = w_kcall w" "balance (w_trace w2) q = balance (w_trace w1) q"
      using neutral_alloc_irq [OF a] d(4) q by (auto simp: neutral_def)
    show ?thesis
    proof (cases r2)
      case (Inl e)
      with run i Inr a have "r = Inl e" "w' = release_pci_regions (destroy_drvdata drv w2)"
        by (auto simp: probe_features_def)
      moreover have "none_registered drv" using d by (simp add: none_registered_def)
      ultimately show ?thesis
        using destroy_ok [of drv q w2] release_pci_ok [of "destroy_drvdata drv w2" q] d n2 q by simp
    next
      case (Inr u)
      obtain r3 parent tabs1 drv1 w3 where
        c: "cci_pci_create_feature_devs env tabs drv w2 = Some (Done (r3, parent, tabs1, drv1, w3))"
        using run i \<open>r1 = Inr drv\<close> a Inr by (auto simp: probe_features_def split: option.splits outcome.splits)
      have pk2: "pci_kernel w2" using pk n2(1) by (simp add: pci_kernel_def)
      note c_ok = create_devs_ok [OF c d(1-3) pk2]
      show ?thesis
      proof (cases r3)
        case (Inl e)
        with run i \<open>r1 = Inr drv\<close> a Inr c have
          out: "r = Inl e" "w' = release_pci_regions (destroy_drvdata drv1 (cci_pci_free_irq w3))"
          by (auto simp: probe_features_def)
        have nr: "none_registered drv1" "drv_ok drv1" "parent_hold q parent = 0"
          using c_ok Inl by (auto simp: parent_hold_def)
        have "balance (w_trace w3) q - drv_hold q drv1 = balance (w_trace w2) q - drv_hold q drv"
          using c_ok q nr(3) by force
        moreover have "balance (w_trace (cci_pci_free_irq w3)) q = balance (w_trace w3) q"
          using neutral_free_irq [of w3] q by (auto simp: neutral_def)
        ultimately show ?thesis
          using destroy_ok [OF nr(1,2) q, of "cci_pci_free_irq w3"] out d(5) n2(2)
            release_pci_ok [of "destroy_drvdata drv1 (cci_pci_free_irq w3)" q] by simp
      next
        case (Inr u')
        with run i \<open>r1 = Inr drv\<close> a \<open>r2 = Inr u\<close> c have "r = Inr (parent, drv1)" "w' = w3"
          by (auto simp: probe_features_def)
        moreover have "balance (w_trace w3) q - drv_hold q drv1 - parent_hold q parent =
            balance (w_trace w2) q - drv_hold q drv" "parent \<noteq> None" "drv_ok drv1"
          using c_ok q Inr by auto
        ultimately show ?thesis using d(5) n2(2) by simp
      qed
    qed
  qed
qed

lemma kfn_taken:
  assumes "kstatus (Kfn f) xs w = (r, w')" and "f \<in> {''pci_enable_device'', ''pci_request_regions''}"
  shows "w_kcall w' = w_kcall w \<and> balance (w_trace w') q = balance (w_trace w) q +
    (if r = Inr () then of_bool (q = RNamed f) else 0)"
  using assms by (auto simp: kstatus_def kcall_def Let_def named_pairs_def split: sum.splits)

lemma probe_ok:
  assumes run: "cci_pci_probe env tabs w = Some (Done (r, tabs', w'))" and pk: "pci_kernel w" and q: "tracked q"
  shows "case r of
      Inl e \<Rightarrow> balance (w_trace w') q = balance (w_trace w) q
    | Inr (parent, drv) \<Rightarrow> parent \<noteq> None \<and> drv_ok drv \<and>
        balance (w_trace w') q = balance (w_trace w) q + pci_hold q + drv_hold q drv + parent_hold q parent"
proof -
  obtain r1 w1 where e: "kstatus (Kfn ''pci_enable_device'') [] w = (r1, w1)" by (metis surj_pair)
  note e_ok = kfn_taken [OF e, of q]
  obtain r2 w2 where p: "kstatus (Kfn ''pci_enable_pcie_error_reporting'') [] w1 = (r2, w2)"
    by (metis surj_pair)
  have p_ok: "neutral w1 w2" using p by (rule neutral_kfn) simp
  obtain r3 w3 where g: "kstatus (Kfn ''pci_request_regions'') [] w2 = (r3, w3)" by (metis surj_pair)
  note g_ok = kfn_taken [OF g, of q]
  let ?w3 = "kvoid (Kfn ''pci_save_state'') [] (kvoid (Kfn ''pci_set_master'') [] w3)"
  have s_ok: "neutral w3 ?w3" by (rule neutral_trans [OF neutral_kfn_void neutral_kfn_void]) simp_all
  obtain r4 w4 where m: "set_dma_masks ?w3 = (r4, w4)" by (metis surj_pair)
  note m_ok = neutral_dma_masks [OF m]
  show ?thesis
  proof (cases r1)
    case (Inl x)
    with run e e_ok show ?thesis by (auto simp: cci_pci_probe_def)
  next
    case (Inr u1)
    show ?thesis
    proof (cases r3)
      case (Inl x)
      with run e Inr p g have "r = Inl x" "w' = disable_error_report w3" by (auto simp: cci_pci_probe_def)
      with e_ok p_ok g_ok Inl Inr q show ?thesis
        by (simp add: neutral_def disable_error_report_def kvoid_def named_pairs_def of_bool_def)
    next
      case (Inr u3)
      have b4: "balance (w_trace w4) q = balance (w_trace w) q + pci_hold q" "pci_kernel w4"
        using e_ok p_ok g_ok s_ok m_ok \<open>r1 = Inr u1\<close> Inr q pk
        by (simp_all add: neutral_def pci_hold_def pci_kernel_def)
      show ?thesis
      proof (cases r4)
        case (Inl x)
        with run e \<open>r1 = Inr u1\<close> p g Inr m have "r = Inl x" "w' = release_pci_regions w4"
          by (auto simp: cci_pci_probe_def)
        with b4(1) release_pci_ok [of w4 q] show ?thesis by simp
      next
        case (Inr u4)
        with run e \<open>r1 = Inr u1\<close> p g \<open>r3 = Inr u3\<close> m have "probe_features env tabs w4 = Some (Done (r, tabs', w'))"
          by (auto simp: cci_pci_probe_def)
        from probe_features_ok [OF this b4(2) q] b4(1) show ?thesis
          by (auto split: sum.splits)
      qed
    qed
  qed
qed

subsection \<open>Between probe and remove\<close>

lemma neutral_port_check: "fpga_port_check_id pd i w = (b, w') \<Longrightarrow> neutral w w'"
  by (auto simp: fpga_port_check_id_def fpga_port_id_def Let_def dest: neutral_readq split: prod.splits)

lemma neutral_port_id: "fpga_port_id pd w = (b, w') \<Longrightarrow> neutral w w'"
  by (auto simp: fpga_port_id_def Let_def dest: neutral_readq split: prod.splits)

lemma neutral_lookup: "lookup_port ds i w = (r, w') \<Longrightarrow> neutral w w'"
  by (induction ds arbitrary: r w)
    (auto split: prod.splits bool.splits dest!: neutral_port_check intro: neutral_trans)

lemma drv_hold_set_port:
  "i < length (drv_ports drv) \<Longrightarrow> drv_hold q (set_port i d drv) =
     drv_hold q drv - dev_hold PORT_ID q (drv_ports drv ! i) + dev_hold PORT_ID q d"
  by (simp add: drv_hold_def set_port_def sum_list_map_update)

lemma drv_hold_count [simp]: "drv_hold q (drv\<lparr>drv_released_port_num := n\<rparr>) = drv_hold q drv"
  by (simp add: drv_hold_def)

lemma drv_ok_ports [simp]:
  "drv_ok (set_port i d drv) = drv_ok drv" "drv_ok (drv\<lparr>drv_released_port_num := n\<rparr>) = drv_ok drv"
  by (simp_all add: drv_ok_def set_port_def)

lemma attach_account:
  assumes "attach_port_dev fme i drv w = (r, drv', w')" and "tracked q"
  shows "drv_ok drv' = drv_ok drv \<and>
    balance (w_trace w') q - drv_hold q drv' = balance (w_trace w) q - drv_hold q drv"
proof -
  obtain csr w1 where rd: "readq (fme_port_reg fme i) w = (csr, w1)" by (metis surj_pair)
  obtain k w2 where lk: "lookup_port (drv_ports drv) i w1 = (k, w2)" by (metis surj_pair)
  have n: "neutral w w1" "neutral w1 w2" using neutral_readq [OF rd] neutral_lookup [OF lk] .
  show ?thesis
  proof (cases "r = Inr ()")
    case False
    then have "drv' = drv \<and> neutral w w'"
      using assms(1) rd lk n
      by (auto simp: attach_port_dev_def cci_pci_lookup_port_by_id_def Let_def
          split: if_splits option.splits prod.splits sum.splits intro: neutral_trans dest!: neutral_add)
    with assms(2) show ?thesis by (simp add: neutral_def)
  next
    case True
    then obtain j w3 where k: "k = Some j" "\<not> pl_registered (drv_ports drv ! j)"
      and add: "kstatus Platform_device_add [pl_self (drv_ports drv ! j)] w2 = (Inr (), w3)"
      and out: "drv' = (set_port j ((drv_ports drv ! j)\<lparr>pl_registered := True,
          pl_pdata := Some (feature_dev_use_end (dev_pdata (drv_ports drv ! j)))\<rparr>) drv)
          \<lparr>drv_released_port_num := drv_released_port_num drv - 1\<rparr>"
        "w' = kvoid Get_device [pl_self (drv_ports drv ! j)] w3"
      using assms(1) rd lk
      by (auto simp: attach_port_dev_def cci_pci_lookup_port_by_id_def Let_def
          split: if_splits option.splits prod.splits sum.splits)
    have j: "j < length (drv_ports drv)" using lookup_port_index lk k(1) by blast
    show ?thesis
      using out k(2) neutral_add [OF add] n assms(2) drv_hold_set_port [OF j, of q]
      by (simp add: neutral_def dev_hold_def kvoid_def ret_val_def of_bool_def)
  qed
qed

lemma detach_account:
  assumes "detach_port_dev i drv w = (r, drv', w')" and "tracked q"
  shows "drv_ok drv' = drv_ok drv \<and>
    balance (w_trace w') q - drv_hold q drv' = balance (w_trace w) q - drv_hold q drv"
proof -
  obtain k w1 where lk: "lookup_port (drv_ports drv) i w = (k, w1)" by (metis surj_pair)
  have n: "neutral w w1" using neutral_lookup [OF lk] .
  show ?thesis
  proof (cases "r = Inr ()")
    case False
    then have "drv' = drv \<and> neutral w w'"
      using assms(1) lk n
      by (auto simp: detach_port_dev_def cci_pci_lookup_port_by_id_def Let_def
          split: if_splits option.splits prod.splits sum.splits)
    with assms(2) show ?thesis by (simp add: neutral_def)
  next
    case True
    then obtain j pd where k: "k = Some j" "pl_registered (drv_ports drv ! j)"
      and out: "drv' = (set_port j ((drv_ports drv ! j)\<lparr>pl_registered := False, pl_pdata := Some pd\<rparr>) drv)
          \<lparr>drv_released_port_num := drv_released_port_num drv + 1\<rparr>"
        "w' = kvoid Put_device [pl_self (drv_ports drv ! j)]
           (kvoid Platform_device_del [pl_self (drv_ports drv ! j)] w1)"
      using assms(1) lk
      by (auto simp: detach_port_dev_def cci_pci_lookup_port_by_id_def Let_def
          split: if_splits option.splits prod.splits sum.splits)
    have j: "j < length (drv_ports drv)" using lookup_port_index lk k(1) by blast
    show ?thesis
      using out k(2) n assms(2) drv_hold_set_port [OF j, of q]
      by (simp add: neutral_def dev_hold_def kvoid_def ret_val_def of_bool_def)
  qed
qed

lemma neutral_config_vf: "neutral w (port_config_vf fme i vf w)"
  by (auto simp: port_config_vf_def split: prod.splits dest!: neutral_readq
      intro: neutral_trans neutral_mmio mmio_only_writeq)

lemma neutral_config_vfs: "neutral w (config_vf_ports fme n ds vf w)"
proof (induction ds arbitrary: n vf w)
  case (Cons d ds)
  obtain i w1 where i: "fpga_port_id (dev_pdata d) w = (i, w1)" by (metis surj_pair)
  show ?case
    using i neutral_port_id [OF i]
    by (auto simp: Let_def intro: Cons.IH neutral_trans [OF neutral_port_id [OF i]] neutral_config_vf
        neutral_trans [OF neutral_trans [OF neutral_port_id [OF i] neutral_config_vf]])
qed simp

lemma neutral_restore: "neutral w (restore_pf_ports fme ds w)"
proof (induction ds arbitrary: w)
  case (Cons d ds)
  obtain i w1 where i: "fpga_port_id (dev_pdata d) w = (i, w1)" by (metis surj_pair)
  show ?case
    using i by (auto intro: Cons.IH neutral_trans [OF neutral_port_id [OF i]]
        neutral_trans [OF neutral_trans [OF neutral_port_id [OF i] neutral_config_vf]])
qed simp

lemma neutral_sriov: "cci_pci_sriov_configure n drv w = (r, w') \<Longrightarrow> neutral w w'"
proof -
  assume run: "cci_pci_sriov_configure n drv w = (r, w')"
  have d: "neutral w (kvoid Pci_disable_sriov [] w)" for w by (rule neutral_kvoid) simp
  have e: "neutral w w1" if st: "kstatus Pci_enable_sriov xs w = (r1, w1)" for xs w r1 w1
  proof -
    obtain r0 where r0: "kcall Pci_enable_sriov xs w = (r0, w1)"
      using kcall_cases(1) [OF st] by auto
    show ?thesis by (rule neutral_kcall [OF r0]) (cases r0; simp)
  qed
  show ?thesis
    using run
    by (auto simp: cci_pci_sriov_configure_def Let_def split: if_splits prod.splits sum.splits dest!: e
        intro: neutral_trans [OF d neutral_config_vfs] neutral_trans [OF neutral_config_vfs]
          neutral_trans [OF neutral_trans [OF neutral_config_vfs] neutral_restore])
qed

text \<open>
  What can happen to the device while it is bound: requests to release or assign ports and to
  configure virtual functions, and any use of a port that touches only registers and the port's own
  data.
\<close>

inductive device_life :: "'p cci_drvdata \<Rightarrow> world \<Rightarrow> 'p cci_drvdata \<Rightarrow> world \<Rightarrow> bool" for drv w where
  bound: "device_life drv w drv w"
| config: "device_life drv w drv1 w1 \<Longrightarrow> config_port (fme :: 'p feature_platform_data) i release drv1 w1 = (r, drv2, w2) \<Longrightarrow>
    device_life drv w drv2 w2"
| sriov: "device_life drv w drv1 w1 \<Longrightarrow> cci_pci_sriov_configure n drv1 w1 = (r, w2) \<Longrightarrow>
    device_life drv w drv1 w2"
| usage: "device_life drv w drv1 w1 \<Longrightarrow> i < length (drv_ports drv1) \<Longrightarrow> mmio_only w1 w2 \<Longrightarrow>
    device_life drv w (set_port i ((drv_ports drv1 ! i)\<lparr>pl_pdata := pd\<rparr>) drv1) w2"

lemma life_account:
  assumes "device_life drv w drv' w'" and "tracked q"
  shows "drv_ok drv' = drv_ok drv \<and>
    balance (w_trace w') q - drv_hold q drv' = balance (w_trace w) q - drv_hold q drv"
  using assms(1)
proof (induction rule: device_life.induct)
  case bound
  show ?case by simp
next
  case (config drv1 w1 fme i release r drv2 w2)
  then show ?case
    using attach_account [of fme i drv1 w1 r drv2 w2 q] detach_account [of i drv1 w1 r drv2 w2 q] assms(2)
    by (auto simp: config_port_def split: if_splits)
next
  case (sriov drv1 w1 n r w2)
  with neutral_sriov [OF sriov(2)] assms(2) show ?case by (simp add: neutral_def)
next
  case (usage drv1 w1 i w2 pd)
  have "dev_hold PORT_ID q (d\<lparr>pl_pdata := pd\<rparr>) = dev_hold PORT_ID q d" for d :: "'a platform_device"
    by (simp add: dev_hold_def)
  with usage neutral_mmio [OF usage(3)] assms(2) drv_hold_set_port [OF usage(2), of q] show ?case
    by (simp add: neutral_def)
qed

subsection \<open>Remove\<close>

lemma remove_ok:
  assumes "drv_ok drv" and "parent \<noteq> None" and q: "tracked q"
  shows "balance (w_trace (cci_pci_remove is_pf parent drv w)) q =
    balance (w_trace w) q - pci_hold q - drv_hold q drv - parent_hold q parent"
proof -
  let ?w1 = "if is_pf then snd (cci_pci_sriov_configure 0 drv w) else w"
  have n1: "neutral w ?w1"
    using neutral_sriov [of 0 drv w] by (cases "cci_pci_sriov_configure 0 drv w") simp
  obtain drv2 w2 where r: "remove_all_devs parent drv ?w1 = (drv2, w2)" by (metis surj_pair)
  let ?w3 = "cci_pci_free_irq (kvoid (Kfn ''pci_disable_pcie_error_reporting'') [] w2)"
  have n3: "neutral w2 ?w3"
    by (rule neutral_trans [OF neutral_kfn_void neutral_free_irq]) simp
  have ok2: "none_registered drv2" "drv_ok drv2"
    using remove_all_ok [OF r, of q] assms(1,2) by (auto simp: drv_ok_def)
  show ?thesis
    using n1 n3 remove_all_ok [OF r, of q] destroy_ok [OF ok2 q, of ?w3] r q
    by (simp add: cci_pci_remove_def Let_def neutral_def kvoid_def named_pairs_def pci_hold_def of_bool_def)
qed

text \<open>
  C1. A probe of a PCIe device that fails, for whatever reason and after whatever part of the device
  feature lists was walked, leaves every id, device reference, BAR mapping and claim on the PCI
  device as it was. After a probe that succeeds, whatever ports are released or assigned and whatever
  virtual functions are configured then, remove gives back exactly what was taken since the start of
  the probe. The kernel is relied on not to return negative ids or null mappings as successes. A probe
  that follows a null pointer does not get to its end, and gives nothing back: \<open>Pcie_Walk\<close> says when.
\<close>

theorem probe_remove_give_all_back:
  assumes "cci_pci_probe env tabs w = Some (Done (r, tabs', w'))" and "pci_kernel w" and "tracked q"
  shows "case r of
      Inl e \<Rightarrow> balance (w_trace w') q = balance (w_trace w) q
    | Inr (parent, drv) \<Rightarrow> (\<forall>drv' w'' is_pf. device_life drv w' drv' w'' \<longrightarrow>
        balance (w_trace (cci_pci_remove is_pf parent drv' w'')) q = balance (w_trace w) q)"
proof (cases r)
  case (Inl e)
  with probe_ok [OF assms] show ?thesis by simp
next
  case (Inr pd)
  obtain parent drv where pd: "pd = (parent, drv)" by (metis surj_pair)
  show ?thesis
    using probe_ok [OF assms] Inr pd life_account [OF _ assms(3), of drv w']
      remove_ok [OF _ _ assms(3), of _ parent]
    by fastforce
qed

text \<open>A device whose first BAR has a list with one feature of an unknown type.\<close>

definition plain_env :: pci_env where
  "plain_env = \<lparr>env_resource_start = (\<lambda>_. 0x80000000), env_resource_len = (\<lambda>_. 0x1000), env_msix_vec_count = 0,
     env_irq_vector = int, env_hex_to_bin = (\<lambda>_. 0), env_chrdevs = fpga_chrdevs\<rparr>"

text \<open>Registers that read as 0 and a kernel whose calls succeed, after the given trace.\<close>

definition plain_world :: "event list \<Rightarrow> world" where
  "plain_world tr = \<lparr>w_readq = (\<lambda>_ _. 0), w_readl = (\<lambda>_ _. 0), w_readb = (\<lambda>_ _. 0),
     w_kcall = (\<lambda>_ f _. if f = Idr_alloc then Inr [3] else if f = Pci_ioremap_bar then Inr [0x1000] else Inr [5]),
     w_trace = tr\<rparr>"

lemma plain_world_run [simp]:
  "w_trace (plain_world tr) = tr"
  "readq a (plain_world tr) = (0, plain_world (RdQ a 0 # tr))"
  "kcall f xs (plain_world tr) =
     (if f = Idr_alloc then (Inr [3], plain_world (Call f xs (Inr [3]) # tr))
      else if f = Pci_ioremap_bar then (Inr [0x1000], plain_world (Call f xs (Inr [0x1000]) # tr))
      else (Inr [5], plain_world (Call f xs (Inr [5]) # tr)))"
  "kvoid f xs (plain_world tr) = plain_world (Call f xs (Inr []) # tr)"
  by (simp_all add: plain_world_def readq_def kcall_def kvoid_def emit_def Let_def)

lemma plain_status [simp]:
  "f \<noteq> Idr_alloc \<Longrightarrow> f \<noteq> Pci_ioremap_bar \<Longrightarrow>
   kstatus f xs (plain_world tr) = (Inr (), plain_world (Call f xs (Inr [5]) # tr)) \<and>
   kvalue f xs (plain_world tr) = (Inr 5, plain_world (Call f xs (Inr [5]) # tr))"
  by (simp add: kstatus_def kvalue_def ret_val_def)

lemma plain_value [simp]:
  "kvalue Idr_alloc xs (plain_world tr) = (Inr 3, plain_world (Call Idr_alloc xs (Inr [3]) # tr))"
  "kvalue Pci_ioremap_bar xs (plain_world tr) = (Inr 0x1000, plain_world (Call Pci_ioremap_bar xs (Inr [0x1000]) # tr))"
  by (simp_all add: kvalue_def ret_val_def)

lemma get_field_0 [simp]: "get_field r f 0 = 0"
  by (simp add: get_field_def split: option.split)

lemma plain_features:
  "parse_features plain_env 0x2000 0x1000 st (plain_world tr) =
     Some (Done (Inr (), st, plain_world (RdQ 0x1000 0 # RdQ 0x1000 0 # tr)))"
  by (subst parse_features.simps)
    (simp add: parse_feature_def Let_def FEATURE_TYPE_AFU_def FEATURE_TYPE_PRIVATE_def FEATURE_TYPE_FIU_def)

theorem probe_remove_give_all_back_witness:
  "\<exists>parent drv tabs' w'.
     cci_pci_probe plain_env (fme_features, port_features) (plain_world []) =
       Some (Done (Inr (parent, drv :: unit cci_drvdata), tabs', w')) \<and>
     balance (w_trace w') (RIomap 0x1000) = 1 \<and>
     balance (w_trace (cci_pci_remove True parent drv w')) (RIomap 0x1000) = 0"
proof -
  have k: "pci_kernel (plain_world [])" by (auto simp: pci_kernel_def plain_world_def ret_val_def)
  have t: "tracked (RIomap 0x1000)" by (simp add: tracked_def)
  have "case cci_pci_probe plain_env (fme_features, port_features) (plain_world []) of
      Some (Done (Inr (parent, drv :: unit cci_drvdata), tabs', w')) \<Rightarrow> balance (w_trace w') (RIomap 0x1000) = 1 | _ \<Rightarrow> False"
    by (simp add: cci_pci_probe_def probe_features_def create_init_drvdata_def cci_pci_alloc_irq_def
        cci_pci_create_feature_devs_def build_info_alloc_and_init_def fpga_create_parent_dev_def enumerate_devs_def
        parse_start_def parse_start_from_def cci_pci_ioremap_bar_def parse_feature_list_def
        parse_ports_from_fme_def build_info_commit_dev_def build_info_free_def remove_all_devs_def
        set_dma_masks_def alloc_fpga_id_def Let_def set_binfo_def ret_val_def plain_features
        plain_env_def [THEN arg_cong [where f = env_resource_len]]
        plain_env_def [THEN arg_cong [where f = env_msix_vec_count]] named_pairs_def)
  then obtain parent drv tabs' w' where
    run: "cci_pci_probe plain_env (fme_features, port_features) (plain_world []) =
      Some (Done (Inr (parent, drv :: unit cci_drvdata), tabs', w'))" and
    b: "balance (w_trace w') (RIomap 0x1000) = 1"
    by (auto split: option.splits outcome.splits prod.splits sum.splits)
  show ?thesis
    using probe_remove_give_all_back [OF run k t] run b device_life.bound by auto
qed

end
