(* ===== verification/Pcie_Walk.thy ===== *)
theory Pcie_Walk
  imports Pcie_Probe
begin

text \<open>
  How the enumeration of a PCIe device ends. The lists it walks are in device memory, where every link
  is a 24-bit offset forward; so a walk ends when the end of the mapping is not within \<open>2 ^ 24\<close> of the
  end of the address space, whatever the hardware answers and whichever calls of the kernel fail. It
  may end by following a null pointer: the reset of a port that was not created.
\<close>

subsection \<open>What the walk relies on\<close>

definition far_from_end :: "u64 \<Rightarrow> bool" where
  "far_from_end a \<longleftrightarrow> unat a + 2 ^ 24 \<le> 2 ^ 64"

text \<open>The mappings of BARs that the kernel may make: where they start and where they end.\<close>

definition bar_maps :: "pci_env \<Rightarrow> world \<Rightarrow> (u64 \<times> u64) set" where
  "bar_maps env w =
     {(a, e). \<exists>tr bar vs. w_kcall w tr Pci_ioremap_bar [bar] = Inr vs \<and> a = word_of_int (ret_val vs) \<and>
        a \<noteq> 0 \<and> e = a + env_resource_len env bar}"

text \<open>A mapping does not wrap, and does not end within 16 MB of the end of the address space.\<close>

definition maps_low :: "pci_env \<Rightarrow> world \<Rightarrow> bool" where
  "maps_low env w \<longleftrightarrow> (\<forall>(a, e) \<in> bar_maps env w. a \<le> e \<and> far_from_end e)"

definition kernel_creates :: "world \<Rightarrow> bool" where
  "kernel_creates w \<longleftrightarrow>
     (\<forall>tr xs f. f = Platform_device_alloc \<or> f = Idr_alloc \<or> f = Kzalloc \<or> f = Kcalloc \<longrightarrow>
        (\<exists>vs. w_kcall w tr f xs = Inr vs))"

text \<open>A device with its data, in which the feature of the header has an address.\<close>

definition has_header :: "'p platform_device \<Rightarrow> bool" where
  "has_header d \<longleftrightarrow> (\<exists>pd. pl_pdata d = Some pd \<and> get_feature_ioaddr_by_index pd PORT_FEATURE_ID_HEADER \<noteq> 0)"

text \<open>
  The entries of the two headers in the static tables, of which no enumeration changes what is said
  here: the index of the FME header and the whole entry of the port header.
\<close>

definition header_entries :: "feature_info list \<Rightarrow> feature_info list \<Rightarrow> bool" where
  "header_entries fme port \<longleftrightarrow> fi_feature_index (fme ! FME_FEATURE_ID_HEADER) = FME_FEATURE_ID_HEADER \<and>
     port ! PORT_FEATURE_ID_HEADER = port_features ! PORT_FEATURE_ID_HEADER"

definition start_ok :: "pci_env \<Rightarrow> 'p enum_state \<Rightarrow> world \<Rightarrow> bool" where
  "start_ok env st w \<longleftrightarrow> maps_low env w \<and> (\<forall>d. fdev_of st = Some d \<longrightarrow> has_header d) \<and>
     (\<forall>r \<in> set (drv_regions (es_drv st)). cr_ioaddr r = 0 \<or>
        (cr_ioaddr r, cr_ioaddr r + env_resource_len env (cr_bar r)) \<in> bar_maps env w) \<and>
     header_entries (es_fme_features st) (es_port_features st)"

definition walk_ok :: "pci_env \<Rightarrow> 'p enum_state \<Rightarrow> world \<Rightarrow> bool" where
  "walk_ok env st w \<longleftrightarrow> start_ok env st w \<and> (bi_ioaddr (es_binfo st), bi_ioend (es_binfo st)) \<in> bar_maps env w"

text \<open>
  Why a port header at \<open>hdr\<close> can be without its device or feature: the kernel cannot allocate, or the
  block of registers of the port does not fit between the header and the end of the mapping.
\<close>

definition fault_why :: "pci_env \<Rightarrow> world \<Rightarrow> u64 \<Rightarrow> bool" where
  "fault_why env w hdr \<longleftrightarrow> (kernel_creates w \<longrightarrow>
     (\<exists>(a, e) \<in> bar_maps env w. e - hdr < sizeof_block feature_port_header))"

text \<open>A call that keeps this when it succeeds, and one that may not return but does.\<close>

definition keeps_walk :: "pci_env \<Rightarrow> 'p enum_state \<Rightarrow> world \<Rightarrow> unit res \<times> 'p enum_state \<times> world \<Rightarrow> bool" where
  "keeps_walk env st w x \<longleftrightarrow> (walk_ok env st w \<longrightarrow> (case x of (r, st', w') \<Rightarrow>
     w_kcall w' = w_kcall w \<and> (r = Inr () \<longrightarrow> walk_ok env st' w')))"

definition ends_walk ::
  "pci_env \<Rightarrow> 'p enum_state \<Rightarrow> world \<Rightarrow> (unit res \<times> 'p enum_state \<times> world) outcome \<Rightarrow> bool" where
  "ends_walk env st w x \<longleftrightarrow> (walk_ok env st w \<longrightarrow>
     (case x of Fault hdr \<Rightarrow> fault_why env w hdr | Done y \<Rightarrow> keeps_walk env st w y))"

definition returns_walk ::
  "pci_env \<Rightarrow> 'p enum_state \<Rightarrow> world \<Rightarrow> (unit res \<times> 'p enum_state \<times> world) outcome option \<Rightarrow> bool" where
  "returns_walk env st w x \<longleftrightarrow> (walk_ok env st w \<longrightarrow> (\<exists>y. x = Some y \<and> ends_walk env st w y))"

lemma ends_walk_Done: "keeps_walk env st w x \<Longrightarrow> ends_walk env st w (Done x)"
  by (simp add: ends_walk_def)

lemma returns_walk_Some: "ends_walk env st w x \<Longrightarrow> returns_walk env st w (Some x)"
  by (simp add: returns_walk_def)

lemma returns_walkE:
  assumes "returns_walk env st w x" and "walk_ok env st w"
  obtains (fault) hdr where "x = Some (Fault hdr)" "fault_why env w hdr"
  | (finished) r st' w' where "x = Some (Done (r, st', w'))" "w_kcall w' = w_kcall w" "r = Inr () \<longrightarrow> walk_ok env st' w'"
proof -
  obtain y where y: "x = Some y" "ends_walk env st w y" using assms by (auto simp: returns_walk_def)
  show thesis
  proof (cases y)
    case (Fault hdr)
    with y assms(2) fault show thesis by (simp add: ends_walk_def)
  next
    case (Done z)
    with y assms(2) finished show thesis by (cases z) (auto simp: ends_walk_def keeps_walk_def)
  qed
qed

lemma bar_maps_world: "w_kcall w' = w_kcall w \<Longrightarrow> bar_maps env w' = bar_maps env w"
  by (simp add: bar_maps_def)

lemma start_ok_world: "w_kcall w' = w_kcall w \<Longrightarrow> start_ok env st w' = start_ok env st w"
  by (simp add: start_ok_def maps_low_def bar_maps_world [of w' w])

lemma walk_ok_world: "w_kcall w' = w_kcall w \<Longrightarrow> walk_ok env st w' = walk_ok env st w"
  by (simp add: walk_ok_def start_ok_world [of w' w] bar_maps_world [of w' w])

lemma kernel_creates_world: "w_kcall w' = w_kcall w \<Longrightarrow> kernel_creates w' = kernel_creates w"
  by (simp add: kernel_creates_def)

lemma fault_why_world: "w_kcall w' = w_kcall w \<Longrightarrow> fault_why env w' hdr = fault_why env w hdr"
  by (simp add: fault_why_def bar_maps_world [of w' w] kernel_creates_world [of w' w])

lemma walk_ok_neutral: "neutral w w' \<Longrightarrow> walk_ok env st w' = walk_ok env st w"
  by (rule walk_ok_world) (simp add: neutral_def)

lemma walk_ok_readq: "readq a w = (v, w') \<Longrightarrow> walk_ok env st w' = walk_ok env st w"
  by (rule walk_ok_neutral) (rule neutral_readq)

lemma kcall_readq: "readq a w = (v, w') \<Longrightarrow> w_kcall w' = w_kcall w"
  using neutral_readq [of a w v w'] by (simp add: neutral_def)

subsection \<open>Bounds of the links\<close>

lemma get_field_bound:
  assumes "field_pos r f = Some (p, k)" and "k \<le> 64"
  shows "unat (get_field r f v) < 2 ^ k"
  using assms by (simp add: get_field_def unsigned_take_bit_eq)

lemma next_afu_bound: "unat (get_field feature_afu_header_csr ''next_afu'' csr) < 2 ^ 24"
  by (rule get_field_bound) (simp_all add: feature_afu_header_csr_def)

lemma next_header_bound: "unat (get_field feature_header ''next_header_offset'' csr) < 2 ^ 24"
  by (rule get_field_bound) (simp_all add: feature_header_def)

lemma forward:
  assumes "start < end" and "far_from_end end" and "unat next < 2 ^ 24"
  shows "unat (start + next) = unat start + unat next"
  using assms by (intro unat_add64) (simp add: word_less_nat_alt far_from_end_def)

lemma step_measure:
  assumes "start < end" and "far_from_end end" and "unat next < 2 ^ 24" and "next \<noteq> 0"
  shows "unat end - unat (start + next) < unat end - unat start"
proof -
  have "0 < unat next" using assms(4) by (simp add: unat_gt_0)
  then show ?thesis using assms(1) forward [OF assms(1-3)] by (simp add: word_less_nat_alt)
qed

lemma step_nonzero:
  assumes "start < end" and "far_from_end end" and "unat next < 2 ^ 24" and "start \<noteq> 0"
  shows "start + next \<noteq> 0"
  using forward [OF assms(1-3)] assms(4) by (metis add_is_0 unat_eq_zero unat_0)

lemma walk_end: "walk_ok env st w \<Longrightarrow> far_from_end (bi_ioend (es_binfo st))"
  by (auto simp: walk_ok_def start_ok_def maps_low_def)

subsection \<open>Creating devices\<close>

lemma ioaddr_update:
  "f_ioaddr x \<noteq> 0 \<Longrightarrow> f_ioaddr (xs ! j) = 0 \<longrightarrow> i = j \<and> j < length xs \<Longrightarrow> f_ioaddr (xs[i := x] ! j) \<noteq> 0"
  by (cases "i = j"; cases "i < length xs") (auto simp: nth_list_update list_update_beyond)

lemma add_sub_feature_data:
  assumes "build_info_add_sub_feature env i name sz start vs vc st w = (r, st', w')" and "start \<noteq> 0"
    and "\<exists>d pd. fdev_of st = Some d \<and> pl_pdata d = Some pd \<and>
      (get_feature_ioaddr_by_index pd PORT_FEATURE_ID_HEADER = 0 \<longrightarrow>
        i = PORT_FEATURE_ID_HEADER \<and> PORT_FEATURE_ID_HEADER < length (pd_features pd))"
  shows "w_kcall w' = w_kcall w \<and> (r = Inr () \<longrightarrow> (\<exists>d. fdev_of st' = Some d \<and> has_header d) \<and>
    st' = set_fdev (fdev_of st') st) \<and> (vc = 0 \<longrightarrow> r = Inr ())"
proof -
  obtain d pd where d: "fdev_of st = Some d" "pl_pdata d = Some pd"
    "get_feature_ioaddr_by_index pd PORT_FEATURE_ID_HEADER = 0 \<longrightarrow>
      i = PORT_FEATURE_ID_HEADER \<and> PORT_FEATURE_ID_HEADER < length (pd_features pd)" using assms(3) by blast
  have "has_header (d\<lparr>pl_resource := rs, pl_pdata := Some (feature_platform_data_add pd i nm k start ctx n)\<rparr>)"
    for rs nm k ctx n
    using ioaddr_update [of "(pd_features pd ! i)\<lparr>f_name := Some nm, f_resource_index := k, f_ioaddr := start,
        f_ctx := ctx, f_ctx_num := n\<rparr>" "pd_features pd" PORT_FEATURE_ID_HEADER i] assms(2) d(3)
    by (simp add: has_header_def feature_platform_data_add_def get_feature_ioaddr_by_index_def)
  then show ?thesis
    using assms(1) d(1,2)
    by (auto simp: build_info_add_sub_feature_def Let_def set_fdev_def set_binfo_def dev_pdata_def
        kvalue_def kcall_def split: prod.splits sum.splits if_splits)
qed

lemma walk_ok_set_fdev:
  "walk_ok env st w \<Longrightarrow> has_header d \<Longrightarrow> walk_ok env (set_fdev (Some d) st) w"
  by (simp add: walk_ok_def start_ok_def set_fdev_def set_binfo_def)

lemma keeps_create_instance:
  assumes "start \<noteq> 0" and "fdev_of st \<noteq> None"
  shows "keeps_walk env st w (create_feature_instance env start fi st w)"
proof (cases "bi_ioend (es_binfo st) - start < fi_resource_size fi \<or> \<not> walk_ok env st w")
  case True
  then show ?thesis by (auto simp: keeps_walk_def create_feature_instance_def)
next
  case False
  obtain r st' w' where run: "build_info_add_sub_feature env (fi_feature_index fi) (fi_name fi) (fi_resource_size fi)
      start (fi_vec_start fi) (fi_vec_cnt fi) st w = (r, st', w')" by (metis surj_pair)
  obtain d where d: "fdev_of st = Some d" "has_header d" using False assms(2) by (auto simp: walk_ok_def start_ok_def)
  then have "w_kcall w' = w_kcall w \<and> (r = Inr () \<longrightarrow> (\<exists>d. fdev_of st' = Some d \<and> has_header d) \<and>
    st' = set_fdev (fdev_of st') st)"
    using add_sub_feature_data [OF run assms(1)] by (auto simp: has_header_def)
  moreover have "walk_ok env (set_fdev (Some d') st) w'" if "has_header d'" "w_kcall w' = w_kcall w" for d'
    using walk_ok_set_fdev [of env st w d'] walk_ok_world [OF that(2), of env "set_fdev (Some d') st"] that False by simp
  ultimately show ?thesis
    using run False by (auto simp: keeps_walk_def create_feature_instance_def)
qed

lemma commit_walk:
  assumes "build_info_commit_dev st w = (r, st', w')" and "walk_ok env st w"
  shows "walk_ok env st' w' \<and> w_kcall w' = w_kcall w \<and> ((\<exists>e. r = Inl e) \<longrightarrow> (\<exists>d. fdev_of st' = Some d \<and> has_header d))"
proof -
  have k: "w_kcall w' = w_kcall w"
    using assms(1) by (auto simp: build_info_commit_dev_def Let_def cci_pci_add_port_dev_def kstatus_def kcall_def
        kvoid_def split: option.splits prod.splits sum.splits if_splits)
  have "walk_ok env st' w"
    using assms by (auto simp: build_info_commit_dev_def walk_ok_def start_ok_def set_fdev_def set_binfo_def Let_def
        cci_pci_add_port_dev_def split: option.splits prod.splits sum.splits if_splits)
  moreover have "(\<exists>e. r = Inl e) \<longrightarrow> (\<exists>d. fdev_of st' = Some d \<and> has_header d)"
    using assms by (auto simp: build_info_commit_dev_def walk_ok_def start_ok_def Let_def cci_pci_add_port_dev_def
        split: option.splits prod.splits sum.splits if_splits)
  ultimately show ?thesis using k walk_ok_world [OF k] by blast
qed

lemma kernel_creates_value:
  "kernel_creates w \<Longrightarrow> f = Platform_device_alloc \<or> f = Idr_alloc \<or> f = Kzalloc \<or> f = Kcalloc \<Longrightarrow>
   kvalue f xs w = (r, w') \<Longrightarrow> \<exists>v. r = Inr v"
  by (auto simp: kvalue_def kcall_def Let_def kernel_creates_def split: sum.splits) (metis Inl_Inr_False)+

text \<open>
  A new device has its data and an empty table. When it cannot be created although the kernel
  allocates, the device before it is still there, since it could not be registered.
\<close>

definition fresh_dev :: "nat \<Rightarrow> 'p platform_device \<Rightarrow> bool" where
  "fresh_dev n d \<longleftrightarrow> (\<exists>pd. pl_pdata d = Some pd \<and> pd_disable_count pd = 0 \<and> length (pd_features pd) = n)"

lemma create_dev_walk:
  assumes run: "build_info_create_dev env t n name st w = (r, st', w')" and ok: "walk_ok env' st w"
  shows "w_kcall w' = w_kcall w"
    "r = Inr () \<Longrightarrow> walk_ok env' (set_fdev None st') w' \<and> (\<exists>d. fdev_of st' = Some d \<and> fresh_dev n d)"
    "kernel_creates w \<Longrightarrow> r = Inl e \<Longrightarrow> \<exists>d. fdev_of st' = Some d \<and> has_header d"
proof -
  obtain r1 st1 w1 where c: "build_info_commit_dev st w = (r1, st1, w1)" by (metis surj_pair)
  note c_ok = commit_walk [OF c ok]
  have pd_calls: "w_kcall (snd (feature_platform_data_alloc_and_init m v ::
      'a feature_platform_data option \<times> world)) = w_kcall v"
    "fst (feature_platform_data_alloc_and_init m v) = Some (pd :: 'a feature_platform_data) \<Longrightarrow>
      pd_disable_count pd = 0 \<and> length (pd_features pd) = m"
    for m v and pd :: "'a feature_platform_data"
    by (auto simp: feature_platform_data_alloc_and_init_def kvalue_def kcall_def Let_def split: sum.splits)
  have pd_made: "fst (feature_platform_data_alloc_and_init m v) \<noteq> (None :: 'a feature_platform_data option)"
    if "kernel_creates v" for m v
    using kernel_creates_value [OF that, of Kzalloc "[int m]"]
    by (cases "kvalue Kzalloc [int m] v") (auto simp: feature_platform_data_alloc_and_init_def)
  have calls: "kvalue f xs v = (x, v') \<Longrightarrow> w_kcall v' = w_kcall v" for f xs v v' and x :: "int res"
    by (auto simp: kvalue_def kcall_def Let_def split: sum.splits)
  have st1: "walk_ok env' (set_fdev None st1) w1" using c_ok by (simp add: walk_ok_def start_ok_def set_fdev_def set_binfo_def)
  have same: "set_fdev None (set_fdev d st1) = set_fdev None st1" for d by (simp add: set_fdev_def set_binfo_def)
  have fd: "fdev_of (set_fdev d st1) = d" for d by (simp add: set_fdev_def set_binfo_def)
  have all: "w_kcall w' = w_kcall w1 \<and>
     (r = Inr () \<longrightarrow> set_fdev None st' = set_fdev None st1 \<and> (\<exists>d. fdev_of st' = Some d \<and> fresh_dev n d)) \<and>
     (kernel_creates w \<longrightarrow> r = Inr ())" if r1: "r1 = Inr u" for u
  proof -
    obtain r2 w2 where a: "kvalue Platform_device_alloc [] w1 = (r2, w2)" by (metis surj_pair)
    obtain r3 w3 where i: "alloc_fpga_id t w2 = (r3, w3)" by (metis surj_pair)
    obtain p w4 where p: "feature_platform_data_alloc_and_init n w3 = (p :: 'a feature_platform_data option, w4)"
      by (metis surj_pair)
    obtain r5 w5 where z: "kvalue Kcalloc [int n] w4 = (r5, w5)" by (metis surj_pair)
    note k2 = calls [OF a] note k3 = calls [OF i [unfolded alloc_fpga_id_def]] note k5 = calls [OF z]
    have k4: "w_kcall w4 = w_kcall w3" using pd_calls(1) [of n w3] p by simp
    have kc: "kernel_creates w \<longrightarrow> (\<exists>v. r2 = Inr v) \<and> (\<exists>v. r3 = Inr v) \<and> p \<noteq> None \<and> (\<exists>v. r5 = Inr v)"
    proof (intro impI conjI)
      assume "kernel_creates w"
      then have kw: "kernel_creates w1" "kernel_creates w2" "kernel_creates w3" "kernel_creates w4"
        using c_ok k2 k3 k4 kernel_creates_world by metis+
      show "\<exists>v. r2 = Inr v" by (rule kernel_creates_value [OF kw(1) _ a]) simp
      show "\<exists>v. r3 = Inr v" by (rule kernel_creates_value [OF kw(2) _ i [unfolded alloc_fpga_id_def]]) simp
      show "p \<noteq> None" using pd_made [OF kw(3), of n] p by simp
      show "\<exists>v. r5 = Inr v" by (rule kernel_creates_value [OF kw(4) _ z]) simp
    qed
    have data: "p = Some pd \<Longrightarrow> pd_disable_count pd = 0 \<and> length (pd_features pd) = n" for pd
      using pd_calls(2) [of n w3 pd] p by simp
    show ?thesis
      using run c r1 a i p z k2 k3 k4 k5 kc data
      by (cases r2; cases r3; cases p; cases r5)
        (auto simp: build_info_create_dev_def Let_def same fd fresh_dev_def)
  qed
  show "w_kcall w' = w_kcall w"
    using all c_ok run c by (cases r1) (auto simp: build_info_create_dev_def)
  show "r = Inr () \<Longrightarrow> walk_ok env' (set_fdev None st') w' \<and> (\<exists>d. fdev_of st' = Some d \<and> fresh_dev n d)"
    using all c_ok run c st1 walk_ok_world [of w' w1 env'] by (cases r1) (auto simp: build_info_create_dev_def)
  show "kernel_creates w \<Longrightarrow> r = Inl e \<Longrightarrow> \<exists>d. fdev_of st' = Some d \<and> has_header d"
    using all c_ok run c by (cases r1) (auto simp: build_info_create_dev_def)
qed

text \<open>Adding the header to a new device, which both kinds of devices do.\<close>

lemma header_instance_walk:
  assumes run: "create_feature_instance env start fi st w = (r, st', w')" and nz: "start \<noteq> 0"
    and d: "fdev_of st = Some d" "fresh_dev n d" "0 < n" and fi: "fi_feature_index fi = PORT_FEATURE_ID_HEADER"
    and ok: "walk_ok env (set_fdev None st) w"
  shows "w_kcall w' = w_kcall w" "r = Inr () \<Longrightarrow> walk_ok env st' w'"
    "fi_vec_cnt fi = 0 \<Longrightarrow> r \<noteq> Inr () \<Longrightarrow> bi_ioend (es_binfo st) - start < fi_resource_size fi"
proof -
  have "w_kcall w' = w_kcall w \<and> (r = Inr () \<longrightarrow> walk_ok env st' w') \<and>
    (fi_vec_cnt fi = 0 \<longrightarrow> r \<noteq> Inr () \<longrightarrow> bi_ioend (es_binfo st) - start < fi_resource_size fi)"
  proof (cases "bi_ioend (es_binfo st) - start < fi_resource_size fi")
    case True
    with run show ?thesis by (auto simp: create_feature_instance_def)
  next
    case False
    then have add: "build_info_add_sub_feature env (fi_feature_index fi) (fi_name fi) (fi_resource_size fi)
      start (fi_vec_start fi) (fi_vec_cnt fi) st w = (r, st', w')" using run by (simp add: create_feature_instance_def)
    have "w_kcall w' = w_kcall w \<and> (r = Inr () \<longrightarrow> (\<exists>d. fdev_of st' = Some d \<and> has_header d) \<and>
      st' = set_fdev (fdev_of st') st) \<and> (fi_vec_cnt fi = 0 \<longrightarrow> r = Inr ())"
      using d fi by (intro add_sub_feature_data [OF add nz]) (auto simp: fresh_dev_def)
    moreover have "walk_ok env (set_fdev (Some d') st) w" if "has_header d'" for d'
      using walk_ok_set_fdev [OF ok that] by (simp add: set_fdev_def set_binfo_def)
    ultimately show ?thesis using walk_ok_world [of w' w env st'] by auto
  qed
  then show "w_kcall w' = w_kcall w" "r = Inr () \<Longrightarrow> walk_ok env st' w'"
    "fi_vec_cnt fi = 0 \<Longrightarrow> r \<noteq> Inr () \<Longrightarrow> bi_ioend (es_binfo st) - start < fi_resource_size fi" by auto
qed

subsection \<open>Parsing\<close>

lemma header_index: "FME_FEATURE_ID_HEADER = PORT_FEATURE_ID_HEADER" "0 < fme_feature_num" "0 < port_feature_num"
  "fi_feature_index (port_features ! PORT_FEATURE_ID_HEADER) = PORT_FEATURE_ID_HEADER"
  "fi_vec_cnt (port_features ! PORT_FEATURE_ID_HEADER) = 0"
  "fi_resource_size (port_features ! PORT_FEATURE_ID_HEADER) = sizeof_block feature_port_header"
  by (simp_all add: fme_feature_num_def port_feature_num_def port_features_def finfo_def FME_FEATURE_ID_MAX_def PORT_FEATURE_ID_MAX_def)

lemma parse_fme_walk:
  assumes nz: "start \<noteq> 0" shows "keeps_walk env st w (parse_feature_fme env start st w)"
proof (cases "walk_ok env st w")
  case ok: True
  obtain r1 st1 w1 where c: "build_info_create_dev env FME_ID fme_feature_num FPGA_FEATURE_DEV_FME st w =
      (r1, st1, w1)" by (metis surj_pair)
  note c_ok = create_dev_walk [OF c ok]
  show ?thesis
  proof (cases "r1 = Inr () \<and> drv_fme_dev (es_drv st1) = None")
    case False
    with c c_ok(1) show ?thesis by (auto simp: keeps_walk_def parse_feature_fme_def split: sum.splits)
  next
    case True
    then obtain d where d: "fdev_of st1 = Some d" "fresh_dev fme_feature_num d"
      and ok1: "walk_ok env (set_fdev None st1) w1" using c_ok(2) by blast
    let ?fi = "es_fme_features st1 ! FME_FEATURE_ID_HEADER"
    obtain r2 st2 w2 where run: "create_feature_instance env start ?fi st1 w1 = (r2, st2, w2)" by (metis surj_pair)
    have "fi_feature_index ?fi = PORT_FEATURE_ID_HEADER"
      using ok1 header_index(1) by (simp add: walk_ok_def start_ok_def header_entries_def set_fdev_def set_binfo_def)
    note h = header_instance_walk [OF run nz d header_index(2) this ok1]
    show ?thesis using True c c_ok(1) run h(1,2) by (simp add: keeps_walk_def parse_feature_fme_def)
  qed
qed (simp add: keeps_walk_def)

text \<open>When a port cannot be parsed there is a device with its header, or a reason for the fault.\<close>

lemma parse_port_walk:
  assumes run: "parse_feature_port env start st w = (r, st', w')" and ok: "walk_ok env st w" and nz: "start \<noteq> 0"
  shows "w_kcall w' = w_kcall w" "r = Inr () \<Longrightarrow> walk_ok env st' w'"
    "(\<exists>d. fdev_of st' = Some d \<and> has_header d) \<or> fault_why env w start"
proof -
  obtain r1 st1 w1 where c: "build_info_create_dev env PORT_ID port_feature_num FPGA_FEATURE_DEV_PORT st w =
      (r1, st1, w1)" by (metis surj_pair)
  note c_ok = create_dev_walk [OF c ok]
  have "w_kcall w' = w_kcall w \<and> (r = Inr () \<longrightarrow> walk_ok env st' w') \<and>
    ((\<exists>d. fdev_of st' = Some d \<and> has_header d) \<or> fault_why env w start)"
  proof (cases r1)
    case (Inl e)
    with run c c_ok(1,3) show ?thesis by (auto simp: parse_feature_port_def fault_why_def)
  next
    case (Inr u)
    then obtain d where d: "fdev_of st1 = Some d" "fresh_dev port_feature_num d"
      and ok1: "walk_ok env (set_fdev None st1) w1" using c_ok(2) by auto
    let ?fi = "es_port_features st1 ! PORT_FEATURE_ID_HEADER"
    have inst: "create_feature_instance env start ?fi st1 w1 = (r, st', w')"
      using run c Inr by (simp add: parse_feature_port_def)
    have fi: "?fi = port_features ! PORT_FEATURE_ID_HEADER"
      using ok1 by (simp add: walk_ok_def start_ok_def header_entries_def set_fdev_def set_binfo_def)
    note h = header_instance_walk [OF inst nz d header_index(3) _ ok1, unfolded fi header_index(4-6)]
    have map: "(bi_ioaddr (es_binfo st1), bi_ioend (es_binfo st1)) \<in> bar_maps env w"
      using ok1 bar_maps_world [OF c_ok(1), of env] by (simp add: walk_ok_def set_fdev_def set_binfo_def)
    show ?thesis
    proof (cases "r = Inr ()")
      case True
      have "fdev_of st' \<noteq> None"
        using inst True d by (auto simp: create_feature_instance_def build_info_add_sub_feature_def Let_def
            set_fdev_def set_binfo_def split: if_splits prod.splits sum.splits)
      with True h(1,2) c_ok(1) show ?thesis by (auto simp: walk_ok_def start_ok_def)
    next
      case False
      then have "fault_why env w start" using h(3) map by (auto simp: fault_why_def)
      with False h(1) c_ok(1) show ?thesis by simp
    qed
  qed
  then show "w_kcall w' = w_kcall w" "r = Inr () \<Longrightarrow> walk_ok env st' w'"
    "(\<exists>d. fdev_of st' = Some d \<and> has_header d) \<or> fault_why env w start" by auto
qed

lemma ends_walk_before:
  assumes "walk_ok env st1 w1 = walk_ok env st w" and k: "w_kcall w1 = w_kcall w"
  shows "keeps_walk env st1 w1 x \<Longrightarrow> keeps_walk env st w x"
    and "ends_walk env st1 w1 y \<Longrightarrow> ends_walk env st w y"
    and "returns_walk env st1 w1 z \<Longrightarrow> returns_walk env st w z"
  using assms fault_why_world [OF k, of env]
  by (auto simp: keeps_walk_def ends_walk_def returns_walk_def split: outcome.splits)

lemma walk_before:
  assumes "neutral w w1"
  shows "keeps_walk env st w1 x \<Longrightarrow> keeps_walk env st w x"
    and "ends_walk env st w1 y \<Longrightarrow> ends_walk env st w y"
    and "returns_walk env st w1 z \<Longrightarrow> returns_walk env st w z"
proof -
  have k: "w_kcall w1 = w_kcall w" using assms by (simp add: neutral_def)
  note before = ends_walk_before [OF walk_ok_neutral [OF assms, of env st] k]
  show "keeps_walk env st w1 x \<Longrightarrow> keeps_walk env st w x" by (rule before(1))
  show "ends_walk env st w1 y \<Longrightarrow> ends_walk env st w y" by (rule before(2))
  show "returns_walk env st w1 z \<Longrightarrow> returns_walk env st w z" by (rule before(3))
qed

lemma walk_ok_tables [simp]:
  "walk_ok env (set_uafu_size sz st) w = walk_ok env st w"
  "walk_ok env (set_binfo (\<lambda>b. b\<lparr>bi_pfme_hdr := h\<rparr>) st) w = walk_ok env st w"
  by (simp_all add: walk_ok_def start_ok_def set_uafu_size_def set_binfo_def header_entries_def)

lemma fdev_tables [simp]: "fdev_of (set_uafu_size sz st) = fdev_of st"
  by (simp add: set_uafu_size_def)

lemma keeps_walk_same: "neutral w w' \<Longrightarrow> keeps_walk env st w (r, st, w')"
  using walk_ok_neutral [of w w' env st] by (simp add: keeps_walk_def neutral_def)

lemma irqs_index: "parse_feature_irqs hdr fi w = (fi', w') \<Longrightarrow> fi_feature_index fi' = fi_feature_index fi"
  by (auto simp: parse_feature_irqs_def Let_def split: if_splits prod.splits)

lemma keeps_fme_private:
  assumes nz: "hdr \<noteq> 0" and d: "fdev_of st \<noteq> None"
  shows "keeps_walk env st w (parse_feature_fme_private env hdr st w)"
proof -
  obtain csr w1 where rd: "readq hdr w = (csr, w1)" by (metis surj_pair)
  let ?id = "unat (get_field feature_header ''id'' csr)"
  obtain fi w2 where ir: "parse_feature_irqs hdr (es_fme_features st ! ?id) w1 = (fi, w2)" by (metis surj_pair)
  obtain c w3 where ch: "check_features_header hdr FPGA_DEVT_FME ?id w2 = (c, w3)" by (metis surj_pair)
  have n: "neutral w w1" "neutral w w3"
    using neutral_readq [OF rd] neutral_irqs [OF ir] neutral_check [OF ch] neutral_trans by blast+
  let ?st = "st\<lparr>es_fme_features := (es_fme_features st)[?id := fi]\<rparr>"
  have ok: "walk_ok env ?st w3 = walk_ok env st w" if "?id < length (es_fme_features st)"
    using irqs_index [OF ir] that walk_ok_neutral [OF n(2), of env ?st]
    by (cases "?id = FME_FEATURE_ID_HEADER") (auto simp: walk_ok_def start_ok_def header_entries_def nth_list_update)
  show ?thesis
    using rd ir ch d ok n ends_walk_before(1) [OF ok _ keeps_create_instance [OF nz]] keeps_walk_same [OF n(1), of env st]
    by (auto simp: parse_feature_fme_private_def Let_def neutral_def)
qed

lemma keeps_port_private:
  assumes nz: "hdr \<noteq> 0" and d: "fdev_of st \<noteq> None"
  shows "keeps_walk env st w (parse_feature_port_private env hdr st w)"
proof -
  obtain csr w1 where rd: "readq hdr w = (csr, w1)" by (metis surj_pair)
  let ?id = "unat (get_field feature_header ''id'' csr AND 0xf) + 1"
  obtain fi w2 where ir: "parse_feature_irqs hdr (es_port_features st ! ?id) w1 = (fi, w2)" by (metis surj_pair)
  obtain c w3 where ch: "check_features_header hdr FPGA_DEVT_PORT ?id w2 = (c, w3)" by (metis surj_pair)
  have n: "neutral w w1" "neutral w w3"
    using neutral_readq [OF rd] neutral_irqs [OF ir] neutral_check [OF ch] neutral_trans by blast+
  let ?st = "st\<lparr>es_port_features := (es_port_features st)[?id := fi]\<rparr>"
  have ok: "walk_ok env ?st w3 = walk_ok env st w"
    using walk_ok_neutral [OF n(2), of env ?st] by (simp add: walk_ok_def start_ok_def header_entries_def)
  have k: "w_kcall w3 = w_kcall w" using n(2) by (simp add: neutral_def)
  have "keeps_walk env st w (create_feature_instance env hdr fi ?st w3)"
    by (rule ends_walk_before(1) [OF ok k keeps_create_instance [OF nz]]) (use d in simp)
  then show ?thesis
    using rd ir ch keeps_walk_same [OF n(1), of env st] unfolding parse_feature_port_private_def
    by (simp only: prod.case Let_def split: if_splits) simp
qed

lemma keeps_private:
  assumes "hdr \<noteq> 0" shows "keeps_walk env st w (parse_feature_private env hdr st w)"
proof -
  obtain csr w1 where rd: "readq hdr w = (csr, w1)" by (metis surj_pair)
  note n = neutral_readq [OF rd]
  show ?thesis
    using rd walk_before(1) [OF n keeps_fme_private [OF assms], of st env]
      walk_before(1) [OF n keeps_port_private [OF assms], of st env] keeps_walk_same [OF n, of env st]
    by (auto simp: parse_feature_private_def split: option.splits fpga_id_type.splits)
qed

lemma keeps_uafu:
  assumes "hdr \<noteq> 0" and "fdev_of st \<noteq> None"
  shows "keeps_walk env st w (parse_feature_port_uafu env hdr st w)"
  using keeps_create_instance [OF assms, of env w "es_port_features st ! PORT_FEATURE_ID_UAFU"]
  by (auto simp: parse_feature_port_uafu_def Let_def keeps_walk_def split: prod.splits)

lemma keeps_found_fme:
  assumes "hdr \<noteq> 0" shows "keeps_walk env st w (found_fme env hdr st w)"
proof -
  obtain r st1 w1 where p: "parse_feature_fme env hdr st w = (r, st1, w1)" by (metis surj_pair)
  obtain c w2 where ch: "check_features_header hdr FPGA_DEVT_FME 0 w1 = (c, w2)" by (metis surj_pair)
  show ?thesis
    using parse_fme_walk [OF assms, of env st w] p ch walk_ok_neutral [OF neutral_check [OF ch], of env st1]
      neutral_check [OF ch] by (simp add: found_fme_def keeps_walk_def neutral_def)
qed

text \<open>The reset of a port: a fault only when the device or its header is missing.\<close>

lemma reset_features:
  "fpga_port_reset pd w = (r, pd', w') \<Longrightarrow> pd_features pd' = pd_features pd"
  by (auto simp: fpga_port_reset_def raw_fpga_port_reset_def raw_fpga_port_disable_def raw_fpga_port_enable_def Let_def
      split: prod.splits sum.splits if_splits)

lemma enable_uafu_walk:
  "case enable_port_uafu start st w of
      Fault a \<Rightarrow> a = start \<and> \<not> (\<exists>d. fdev_of st = Some d \<and> has_header d)
    | Done (st', w') \<Rightarrow> w_kcall w' = w_kcall w \<and> (walk_ok env st w \<longrightarrow> walk_ok env st' w')"
proof -
  obtain cap w1 where r1: "readq (reg_addr feature_port_header ''capability'' start) w = (cap, w1)"
    by (metis surj_pair)
  obtain ctl w2 where r2: "readq (reg_addr feature_port_header ''control'' start) w1 = (ctl, w2)"
    by (metis surj_pair)
  have k2: "w_kcall w2 = w_kcall w" using kcall_readq [OF r1] kcall_readq [OF r2] by simp
  have k3: "w_kcall w3 = w_kcall w \<and> pd_features pd1 = pd_features pd" if "fpga_port_reset pd w2 = (r3, pd1, w3)"
    for pd pd1 r3 w3
    using that k2 reset_features [OF that] by (auto simp: fpga_port_reset_def mmio_only_def dest!: mmio_only_reset)
  have ok: "walk_ok env (set_fdev (Some (d\<lparr>pl_pdata := Some pd1\<rparr>)) (set_uafu_size sz st)) w3"
    if "walk_ok env st w" "fdev_of st = Some d" "pl_pdata d = Some pd" "pd_features pd1 = pd_features pd"
      "w_kcall w3 = w_kcall w" for d pd pd1 sz w3
  proof -
    have "has_header (d\<lparr>pl_pdata := Some pd1\<rparr>)"
      using that(1-4) by (auto simp: walk_ok_def start_ok_def has_header_def get_feature_ioaddr_by_index_def)
    with walk_ok_set_fdev [of env "set_uafu_size sz st" w] that(1) show ?thesis
      by (simp add: walk_ok_world [OF that(5)])
  qed
  show ?thesis
    using r1 r2 k2 k3 ok walk_ok_world [OF k2, of env st]
    by (auto simp: enable_port_uafu_def Let_def has_header_def split: option.splits prod.splits outcome.splits if_splits)
qed

lemma found_port_walk:
  assumes nz: "hdr \<noteq> 0" shows "ends_walk env st w (found_port env hdr st w)"
proof (cases "walk_ok env st w")
  case ok: True
  obtain r st1 w1 where p: "parse_feature_port env hdr st w = (r, st1, w1)" by (metis surj_pair)
  note p_ok = parse_port_walk [OF p ok nz]
  obtain c w2 where ch: "check_features_header hdr FPGA_DEVT_PORT 0 w1 = (c, w2)" by (metis surj_pair)
  note n = neutral_check [OF ch]
  have k: "w_kcall w2 = w_kcall w" using p_ok(1) n by (simp add: neutral_def)
  have ok2: "r = Inr () \<Longrightarrow> walk_ok env st1 w2" using p_ok(2) walk_ok_neutral [OF n, of env st1] by simp
  show ?thesis
  proof (cases "enable_port_uafu hdr st1 w2")
    case (Fault a)
    with enable_uafu_walk [of hdr st1 w2 env] p_ok(3) p ch show ?thesis
      by (auto simp: found_port_def ends_walk_def)
  next
    case (Done x)
    with enable_uafu_walk [of hdr st1 w2 env] p ch ok2 k show ?thesis
      by (cases x) (auto simp: found_port_def ends_walk_def keeps_walk_def)
  qed
qed (simp add: ends_walk_def)

subsection \<open>The lists end\<close>

lemma parse_afu_walk:
  assumes nz: "hdr \<noteq> 0" shows "ends_walk env st w (parse_afu env hdr st w)"
proof -
  obtain b1 w1 where g1: "feature_is_afu_fme env (hdr + 8) w = (b1, w1)" by (metis surj_pair)
  obtain b2 w2 where g2: "feature_is_afu_port env (hdr + 8) w1 = (b2, w2)" by (metis surj_pair)
  have n1: "neutral w w1" and n: "neutral w w2"
    using g1 g2 neutral_trans by (auto simp: feature_is_afu_fme_def feature_is_afu_port_def dest!: neutral_guid)
  have f: "feature_is_UAFU st \<Longrightarrow> fdev_of st \<noteq> None" by (auto simp: feature_is_UAFU_def split: option.splits)
  show ?thesis
    using g1 g2 f walk_before(1) [OF n1 keeps_found_fme [OF nz], THEN ends_walk_Done, of env st]
      walk_before(2) [OF n found_port_walk [OF nz], of env st]
      walk_before(1) [OF n keeps_uafu [OF nz], THEN ends_walk_Done, of st env]
      keeps_walk_same [OF n, THEN ends_walk_Done, of env st]
    by (auto simp: parse_afu_def split: bool.splits)
qed

lemma parse_afus_walk:
  assumes "far_from_end end"
  shows "start \<noteq> 0 \<Longrightarrow> returns_walk env st w (parse_afus env end start st w)"
proof (induction "unat end - unat start" arbitrary: start st w rule: less_induct)
  case less
  obtain csr w1 where rd: "readq (reg_addr feature_afu_header ''csr'' (start + 8)) w = (csr, w1)"
    by (metis surj_pair)
  note n1 = neutral_readq [OF rd]
  let ?next = "get_field feature_afu_header_csr ''next_afu'' csr"
  show ?case
  proof (cases "start < end \<and> \<not> end - start < 32 \<and> walk_ok env st w")
    case False
    then show ?thesis
      by (subst parse_afus.simps) (auto simp: returns_walk_def ends_walk_def keeps_walk_def)
  next
    case True
    then have ok: "walk_ok env st w" by simp
    show ?thesis
    proof (cases "parse_afu env start st w1")
      case (Fault a)
      with parse_afu_walk [OF less.prems, of env st w1, THEN walk_before(2) [OF n1]] ok True rd show ?thesis
        by (subst parse_afus.simps) (simp add: returns_walk_def ends_walk_def)
    next
      case (Done y)
      obtain r st1 w2 where p: "parse_afu env start st w1 = Done (r, st1, w2)" using Done by (cases y) auto
      with parse_afu_walk [OF less.prems, of env st w1, THEN walk_before(2) [OF n1]] ok
      have k: "w_kcall w2 = w_kcall w" and ok2: "r = Inr () \<Longrightarrow> walk_ok env st1 w2"
        by (auto simp: ends_walk_def keeps_walk_def)
      show ?thesis
      proof (cases "r = Inr () \<and> ?next \<noteq> 0")
        case go: True
        have "unat end - unat (start + ?next) < unat end - unat start" "start + ?next \<noteq> 0"
          using True go assms less.prems step_measure [OF _ assms next_afu_bound]
            step_nonzero [OF _ assms next_afu_bound] by auto
        from less.hyps [OF this, of st1 w2] ok2 go have "returns_walk env st w (parse_afus env end (start + ?next) st1 w2)"
          by (intro ends_walk_before(3) [OF _ k]) (simp_all add: ok)
        with go p True rd show ?thesis by (subst parse_afus.simps) (simp add: Let_def)
      next
        case False
        with p True rd k ok2 show ?thesis
          by (subst parse_afus.simps)
            (auto simp: returns_walk_def ends_walk_def keeps_walk_def Let_def split: sum.splits)
      qed
    qed
  qed
qed

lemma parse_feature_afus_walk:
  assumes "hdr \<noteq> 0" shows "returns_walk env st w (parse_feature_afus env hdr st w)"
  using parse_afus_walk [OF walk_end assms, of env st w env st w]
  by (auto simp: parse_feature_afus_def returns_walk_def)

text \<open>The links of a header that is in the mapping.\<close>

definition inside :: "u64 \<Rightarrow> bool" where
  "inside hdr \<longleftrightarrow> hdr \<noteq> 0 \<and> (\<exists>e. hdr < e \<and> far_from_end e)"

lemma inside_next: "inside hdr \<Longrightarrow> unat next < 2 ^ 24 \<Longrightarrow> hdr + next \<noteq> 0"
  using step_nonzero [of hdr _ "next"] unfolding inside_def by blast

lemma next_fiu_bound: "unat (get_field feature_fiu_header_csr ''next_afu'' csr) < 2 ^ 24"
  by (rule get_field_bound) (simp_all add: feature_fiu_header_csr_def)

lemma parse_fiu_walk:
  assumes "inside hdr" shows "returns_walk env st w (parse_feature_fiu env hdr st w)"
proof (cases "walk_ok env st w")
  case ok: True
  have nz: "hdr \<noteq> 0" using assms by (simp add: inside_def)
  obtain csr w1 where rd: "readq hdr w = (csr, w1)" by (metis surj_pair)
  note n1 = neutral_readq [OF rd]
  let ?id = "get_field feature_header ''id'' csr"
  have port: "ends_walk env st w (found_port env hdr st w1)"
    by (rule walk_before(2) [OF n1 found_port_walk [OF nz]])
  consider "?id = FEATURE_FIU_ID_FME" | "?id \<noteq> FEATURE_FIU_ID_FME" "?id = FEATURE_FIU_ID_PORT"
    | "?id \<noteq> FEATURE_FIU_ID_FME" "?id \<noteq> FEATURE_FIU_ID_PORT" by blast
  then show ?thesis
  proof cases
    case 1
    have "returns_walk env st w (Some (Done (found_fme env hdr st w1)))"
      by (intro returns_walk_Some ends_walk_Done walk_before(1) [OF n1 keeps_found_fme [OF nz]])
    with 1 rd show ?thesis by (simp add: parse_feature_fiu_def Let_def)
  next
    case 2
    show ?thesis
    proof (cases "found_port env hdr st w1")
      case (Fault a)
      with 2 port rd show ?thesis by (simp add: parse_feature_fiu_def Let_def returns_walk_def)
    next
      case (Done y)
      obtain r2 st2 w2 where p: "found_port env hdr st w1 = Done (r2, st2, w2)" using Done by (cases y) auto
      with port ok have k: "w_kcall w2 = w_kcall w" and ok2: "r2 = Inr () \<Longrightarrow> walk_ok env st2 w2"
        by (auto simp: ends_walk_def keeps_walk_def)
      obtain fiu w3 where rd3: "readq (reg_addr feature_fiu_header ''csr'' (hdr + 8)) w2 = (fiu, w3)"
        by (metis surj_pair)
      have k3: "w_kcall w3 = w_kcall w" using kcall_readq [OF rd3] k by simp
      let ?next = "get_field feature_fiu_header_csr ''next_afu'' fiu"
      show ?thesis
      proof (cases r2)
        case (Inl e)
        with 2 p rd k show ?thesis
          by (simp add: parse_feature_fiu_def Let_def returns_walk_def ends_walk_def keeps_walk_def)
      next
        case (Inr u)
        then have ok3: "walk_ok env st2 w3" using ok2 walk_ok_readq [OF rd3, of env st2] by simp
        have "returns_walk env st w (parse_feature_afus env (hdr + ?next) st2 w3)"
          by (rule ends_walk_before(3) [OF _ k3 parse_feature_afus_walk])
            (use ok ok3 inside_next [OF assms next_fiu_bound] in simp_all)
        with 2 p rd rd3 Inr ok3 k3 show ?thesis
          by (auto simp: parse_feature_fiu_def Let_def returns_walk_def ends_walk_def keeps_walk_def)
      qed
    qed
  next
    case 3
    then show ?thesis
      using rd keeps_walk_same [OF n1, of env st, THEN ends_walk_Done, THEN returns_walk_Some]
      by (simp add: parse_feature_fiu_def Let_def)
  qed
qed (simp add: returns_walk_def)

lemma parse_feature_walk:
  assumes "inside hdr" shows "returns_walk env st w (parse_feature env hdr st w)"
proof -
  have nz: "hdr \<noteq> 0" using assms by (simp add: inside_def)
  obtain csr w1 where rd: "readq hdr w = (csr, w1)" by (metis surj_pair)
  note n1 = neutral_readq [OF rd]
  show ?thesis
    using rd walk_before(3) [OF n1 parse_feature_afus_walk [OF nz, of env st]]
      walk_before(3) [OF n1 parse_fiu_walk [OF assms, of env st]]
      walk_before(1) [OF n1 keeps_private [OF nz, of env st], THEN ends_walk_Done, THEN returns_walk_Some]
      keeps_walk_same [OF n1, of env st, THEN ends_walk_Done, THEN returns_walk_Some]
    by (simp add: parse_feature_def Let_def)
qed

lemma parse_features_walk:
  assumes "far_from_end end"
  shows "start \<noteq> 0 \<Longrightarrow> returns_walk env st w (parse_features env end start st w)"
proof (induction "unat end - unat start" arbitrary: start st w rule: less_induct)
  case less
  show ?case
  proof (cases "start < end \<and> \<not> end - start < 8 \<and> walk_ok env st w")
    case False
    then show ?thesis
      by (subst parse_features.simps) (auto simp: returns_walk_def ends_walk_def keeps_walk_def)
  next
    case True
    then have ok: "walk_ok env st w" and "inside start" using less.prems assms by (auto simp: inside_def)
    from parse_feature_walk [OF this(2), of env st w] ok show ?thesis
    proof (cases rule: returns_walkE)
      case (fault a)
      with True show ?thesis by (subst parse_features.simps) (simp add: returns_walk_def ends_walk_def)
    next
      case (finished r st1 w1)
      obtain csr w2 where rd: "readq start w1 = (csr, w2)" by (metis surj_pair)
      have k: "w_kcall w2 = w_kcall w" using kcall_readq [OF rd] finished(2) by simp
      have ok2: "r = Inr () \<Longrightarrow> walk_ok env st1 w2" using finished(3) walk_ok_readq [OF rd, of env st1] by simp
      let ?next = "get_field feature_header ''next_header_offset'' csr"
      show ?thesis
      proof (cases "r = Inr () \<and> get_field feature_header ''eol'' csr = 0 \<and> ?next \<noteq> 0")
        case go: True
        have "unat end - unat (start + ?next) < unat end - unat start" "start + ?next \<noteq> 0"
          using True go assms less.prems step_measure [OF _ assms next_header_bound]
            step_nonzero [OF _ assms next_header_bound] by auto
        from less.hyps [OF this, of st1 w2] ok2 go
        have "returns_walk env st w (parse_features env end (start + ?next) st1 w2)"
          by (intro ends_walk_before(3) [OF _ k]) (simp_all add: ok)
        with go finished(1) True rd show ?thesis by (subst parse_features.simps) (simp add: Let_def)
      next
        case False
        with finished True rd k ok2 show ?thesis
          by (subst parse_features.simps)
            (auto simp: returns_walk_def ends_walk_def keeps_walk_def Let_def split: sum.splits)
      qed
    qed
  qed
qed

lemma parse_feature_list_walk:
  assumes "start \<noteq> 0" shows "returns_walk env st w (parse_feature_list env start st w)"
  using parse_features_walk [OF walk_end assms, of env st w env st w]
  by (auto simp: parse_feature_list_def returns_walk_def)

subsection \<open>The whole enumeration\<close>

lemma ioremap_walk:
  assumes "cci_pci_ioremap_bar bar drv w = (addr, drv', w')"
    and "\<forall>r \<in> set (drv_regions drv). cr_ioaddr r = 0 \<or>
      (cr_ioaddr r, cr_ioaddr r + env_resource_len env (cr_bar r)) \<in> bar_maps env w"
  shows "w_kcall w' = w_kcall w \<and>
    (\<forall>r \<in> set (drv_regions drv'). cr_ioaddr r = 0 \<or>
      (cr_ioaddr r, cr_ioaddr r + env_resource_len env (cr_bar r)) \<in> bar_maps env w) \<and>
    (addr \<noteq> 0 \<longrightarrow> (addr, addr + env_resource_len env bar) \<in> bar_maps env w)"
proof (cases "find (\<lambda>r. cr_bar r = bar) (drv_regions drv)")
  case (Some r)
  then have "r \<in> set (drv_regions drv)" "cr_bar r = bar" by (auto simp: find_Some_iff)
  with Some assms show ?thesis by (auto simp: cci_pci_ioremap_bar_def)
next
  case None
  have new: "w_kcall w tr Pci_ioremap_bar [bar] = Inr vs \<Longrightarrow> word_of_int (ret_val vs) = (0 :: u64) \<or>
      (word_of_int (ret_val vs), word_of_int (ret_val vs) + env_resource_len env bar) \<in> bar_maps env w" for tr vs
    by (auto simp: bar_maps_def)
  show ?thesis
    using assms None
    by (auto simp: cci_pci_ioremap_bar_def kvalue_def kcall_def kvoid_def Let_def
        split: prod.splits sum.splits) (use new in \<open>blast+\<close>)
qed

lemma start_from_walk:
  assumes run: "parse_start_from env bar st w = (r, st', w')" and ok: "start_ok env st w"
  shows "w_kcall w' = w_kcall w \<and> (r = Inr () \<longrightarrow> walk_ok env st' w')"
proof -
  obtain addr drv w1 where i: "cci_pci_ioremap_bar bar (es_drv st) w = (addr, drv, w1)" by (metis surj_pair)
  have i_ok: "w_kcall w1 = w_kcall w \<and>
    (\<forall>r \<in> set (drv_regions drv). cr_ioaddr r = 0 \<or>
      (cr_ioaddr r, cr_ioaddr r + env_resource_len env (cr_bar r)) \<in> bar_maps env w) \<and>
    (addr \<noteq> 0 \<longrightarrow> (addr, addr + env_resource_len env bar) \<in> bar_maps env w)"
    by (rule ioremap_walk [OF i]) (use ok in \<open>simp add: start_ok_def\<close>)
  have "w_kcall w' = w_kcall w" using run i i_ok by (auto simp: parse_start_from_def Let_def split: if_splits)
  moreover have "walk_ok env st' w" if "r = Inr ()"
    using run i i_ok ok that
    by (auto simp: parse_start_from_def Let_def start_ok_def walk_ok_def set_binfo_def split: if_splits)
  ultimately show ?thesis using walk_ok_world [of w' w env st'] by simp
qed

lemma walk_start: "walk_ok env st w \<Longrightarrow> start_ok env st w"
  by (simp add: walk_ok_def)

text \<open>A list starts after an offset into the mapping.\<close>

lemma offset_nonzero:
  assumes "walk_ok env st w" and "unat n < 2 ^ 24"
  shows "bi_ioaddr (es_binfo st) + n \<noteq> 0"
proof -
  let ?a = "bi_ioaddr (es_binfo st)" and ?e = "bi_ioend (es_binfo st)"
  have a: "?a \<noteq> 0" "?a \<le> ?e" "far_from_end ?e"
  proof -
    have m: "(?a, ?e) \<in> bar_maps env w" "maps_low env w" using assms(1) by (simp_all add: walk_ok_def start_ok_def)
    then show "?a \<le> ?e" "far_from_end ?e" by (auto simp: maps_low_def)
    show "?a \<noteq> 0" using m(1) by (auto simp: bar_maps_def)
  qed
  then have "unat (?a + n) = unat ?a + unat n"
    using assms(2) by (intro unat_add64) (simp add: word_le_nat_alt far_from_end_def)
  with a(1) show ?thesis by (metis add_is_0 unat_eq_zero unat_0)
qed

lemma port_offset_bound: "unat (get_field feature_fme_port ''port_offset'' csr) < 2 ^ 24"
  by (rule get_field_bound) (simp_all add: feature_fme_port_def)

lemma parse_ports_walk: "returns_walk env st w (parse_ports env fme is st w)"
proof (induction "is" arbitrary: st w)
  case Nil
  show ?case by (simp add: returns_walk_def ends_walk_def keeps_walk_def)
next
  case (Cons i "is")
  show ?case
  proof (cases "walk_ok env st w")
    case ok: True
    obtain csr w1 where rd: "readq (reg_addr feature_fme_header ''port'' fme + 8 * of_nat i) w = (csr, w1)"
      by (metis surj_pair)
    have ok1: "walk_ok env st w1" using ok walk_ok_readq [OF rd, of env st] by simp
    obtain r2 st2 w2 where sw: "parse_switch_to env (uint (get_field feature_fme_port ''port_bar'' csr)) st w1 =
        (r2, st2, w2)" by (metis surj_pair)
    have sw_ok: "w_kcall w2 = w_kcall w" "r2 = Inr () \<Longrightarrow> walk_ok env st2 w2"
      using start_from_walk [OF sw [unfolded parse_switch_to_def] walk_start [OF ok1]] kcall_readq [OF rd] by auto
    let ?a = "bi_ioaddr (es_binfo st2) + get_field feature_fme_port ''port_offset'' csr"
    show ?thesis
    proof (cases "get_field feature_fme_port ''port_implemented'' csr \<noteq> 0 \<and> r2 = Inr ()")
      case False
      with ok1 rd sw sw_ok kcall_readq [OF rd] show ?thesis
        by (auto simp: returns_walk_def ends_walk_def keeps_walk_def split: sum.splits)
    next
      case True
      then have ok2: "walk_ok env st2 w2" using sw_ok by simp
      have "returns_walk env st2 w2 (parse_feature_list env ?a st2 w2)"
        by (rule parse_feature_list_walk [OF offset_nonzero [OF ok2 port_offset_bound]])
      from this ok2 show ?thesis
      proof (cases rule: returns_walkE)
        case (fault a)
        with True rd sw fault_why_world [OF sw_ok(1), of env a] show ?thesis
          by (simp add: returns_walk_def ends_walk_def)
      next
        case (finished r3 st3 w3)
        have k: "w_kcall w3 = w_kcall w" using finished(2) sw_ok(1) by simp
        show ?thesis
        proof (cases r3)
          case (Inl e)
          with True rd sw finished k show ?thesis by (simp add: returns_walk_def ends_walk_def keeps_walk_def)
        next
          case (Inr u)
          have "returns_walk env st w (parse_ports env fme is st3 w3)"
            by (rule ends_walk_before(3) [OF _ k Cons.IH]) (use ok finished(3) Inr in simp)
          with True rd sw finished Inr show ?thesis by simp
        qed
      qed
    qed
  qed (simp add: returns_walk_def)
qed

lemma ports_from_fme_walk: "returns_walk env st w (parse_ports_from_fme env st w)"
  using parse_ports_walk [of env st w "bi_pfme_hdr (es_binfo st)" "[0..<MAX_FPGA_PORT_NUM]"]
  by (auto simp: parse_ports_from_fme_def returns_walk_def ends_walk_def keeps_walk_def)

text \<open>How a run that is not part of a walk ends.\<close>

definition ends_well :: "pci_env \<Rightarrow> world \<Rightarrow> 'a outcome option \<Rightarrow> bool" where
  "ends_well env w x \<longleftrightarrow> (\<exists>y. x = Some y \<and> (\<forall>hdr. y = Fault hdr \<longrightarrow> fault_why env w hdr))"

lemma enumerate_returns:
  assumes "start_ok env st w" shows "ends_well env w (enumerate_devs env st w)"
proof -
  obtain r1 st1 w1 where s: "parse_start env st w = (r1, st1, w1)" by (metis surj_pair)
  note s_ok = start_from_walk [OF s [unfolded parse_start_def] assms]
  then have k1: "w_kcall w1 = w_kcall w" by simp
  show ?thesis
  proof (cases "r1 = Inr ()")
    case False
    with s show ?thesis by (cases r1) (auto simp: enumerate_devs_def ends_well_def)
  next
    case True
    then have ok1: "walk_ok env st1 w1" using s_ok by simp
    have "bi_ioaddr (es_binfo st1) \<noteq> 0" using offset_nonzero [OF ok1, of 0] by simp
    from parse_feature_list_walk [OF this] ok1 show ?thesis
    proof (cases rule: returns_walkE)
      case (fault a)
      with s True fault_why_world [OF k1, of env a] show ?thesis by (simp add: enumerate_devs_def ends_well_def)
    next
      case l: (finished r2 st2 w2)
      have k2: "w_kcall w2 = w_kcall w" using l(2) k1 by simp
      show ?thesis
      proof (cases "r2 = Inr ()")
        case False
        with s True l show ?thesis by (cases r2) (auto simp: enumerate_devs_def ends_well_def)
      next
        case go: True
        with l have "walk_ok env st2 w2" by simp
        from ports_from_fme_walk this show ?thesis
        proof (cases rule: returns_walkE)
          case (fault a)
          with s True l go fault_why_world [OF k2, of env a] show ?thesis by (simp add: enumerate_devs_def ends_well_def)
        next
          case (finished r3 st3 w3)
          with s True l go show ?thesis
            by (cases r3; cases "build_info_commit_dev st3 w3") (auto simp: enumerate_devs_def ends_well_def)
        qed
      qed
    qed
  qed
qed

lemma create_devs_returns:
  assumes "maps_low env w" and "header_entries (fst tabs) (snd tabs)" and "drv_regions drv = []"
  shows "ends_well env w (cci_pci_create_feature_devs env tabs drv w)"
proof -
  obtain bo w1 where b: "build_info_alloc_and_init w = (bo :: 'a build_feature_devs_info option, w1)"
    by (metis surj_pair)
  show ?thesis
  proof (cases bo)
    case None
    with b show ?thesis by (simp add: cci_pci_create_feature_devs_def ends_well_def)
  next
    case (Some binfo)
    then have fd: "bi_feature_dev binfo = None" and k1: "w_kcall w1 = w_kcall w"
      using b by (auto simp: build_info_alloc_and_init_def kvalue_def kcall_def Let_def split: sum.splits)
    obtain r2 w2 where p: "fpga_create_parent_dev (drv_device_id drv) w1 = (r2, w2)" by (metis surj_pair)
    have k2: "w_kcall w2 = w_kcall w"
      using p k1 by (auto simp: fpga_create_parent_dev_def kvalue_def kcall_def Let_def split: sum.splits)
    show ?thesis
    proof (cases r2)
      case (Inl e)
      with b Some p show ?thesis by (auto simp: cci_pci_create_feature_devs_def ends_well_def split: prod.splits)
    next
      case (Inr par)
      let ?st = "\<lparr>es_binfo = binfo\<lparr>bi_parent_dev := Some par\<rparr>, es_drv = drv,
        es_fme_features = fst tabs, es_port_features = snd tabs\<rparr>"
      have "start_ok env ?st w2"
        using assms fd bar_maps_world [OF k2, of env] by (simp add: start_ok_def maps_low_def)
      from enumerate_returns [OF this] b Some p Inr fault_why_world [OF k2, of env] show ?thesis
        by (cases "enumerate_devs env ?st w2")
          (auto simp: cci_pci_create_feature_devs_def Let_def ends_well_def split: prod.splits outcome.splits)
    qed
  qed
qed

lemma probe_features_returns:
  assumes "maps_low env w" and "header_entries (fst tabs) (snd tabs)"
  shows "ends_well env w (probe_features env tabs w ::
    ((int option \<times> 'p cci_drvdata) res \<times> (feature_info list \<times> feature_info list) \<times> world) outcome option)"
proof -
  obtain r2 w2 where i: "create_init_drvdata w = (r2 :: 'p cci_drvdata res, w2)" by (metis surj_pair)
  have k2: "w_kcall w2 = w_kcall w" and reg: "\<forall>drv. r2 = Inr drv \<longrightarrow> drv_regions drv = []"
    using i by (auto simp: create_init_drvdata_def alloc_fpga_id_def kvalue_def kcall_def kvoid_def Let_def
        split: sum.splits)
  show ?thesis
  proof (cases r2)
    case (Inl e)
    with i show ?thesis by (simp add: probe_features_def ends_well_def)
  next
    case (Inr drv)
    obtain r3 w3 where a: "cci_pci_alloc_irq env w2 = (r3, w3)" by (metis surj_pair)
    have k3: "w_kcall w3 = w_kcall w" using neutral_alloc_irq [OF a] k2 by (simp add: neutral_def)
    have "maps_low env w3" using assms(1) bar_maps_world [OF k3, of env] by (simp add: maps_low_def)
    then have "ends_well env w3 (cci_pci_create_feature_devs env tabs drv w3)"
      using assms(2) reg Inr by (intro create_devs_returns) simp_all
    with i Inr a fault_why_world [OF k3, of env] show ?thesis
      by (cases "cci_pci_create_feature_devs env tabs drv w3")
        (auto simp: probe_features_def ends_well_def split: sum.splits prod.splits outcome.splits)
  qed
qed

text \<open>
  C2. Probing a PCIe device ends, whatever the registers of the device answer, in particular however
  the features in its lists are linked, and whichever calls of the kernel fail: every link is a step
  forward in the mapped BAR. This relies on the kernel to map a BAR at a range that does not wrap and
  does not end within 16 MB of the end of the address space, and on the entries of the two headers in
  the driver's static tables being as declared. The probe ends with a result, or by following a null
  pointer; the latter happens only when the kernel can fail to allocate a device, its id or its data,
  or when a port header lies closer to the end of a mapping than its own registers take.
\<close>

theorem probe_returns:
  assumes "maps_low env w" and "header_entries (fst tabs) (snd tabs)"
  shows "\<exists>y. cci_pci_probe env tabs w =
      Some (y :: ((int option \<times> 'p cci_drvdata) res \<times> (feature_info list \<times> feature_info list) \<times> world) outcome) \<and>
    (\<forall>hdr. y = Fault hdr \<longrightarrow> kernel_creates w \<longrightarrow>
      (\<exists>(a, e) \<in> bar_maps env w. e - hdr < sizeof_block feature_port_header))"
proof -
  have k: "w_kcall w' = w_kcall w1" if "kstatus f xs w1 = (r, w')" for f xs r w' w1
    using that by (auto simp: kstatus_def kcall_def Let_def split: sum.splits)
  have v: "w_kcall (kvoid f xs w1) = w_kcall w1" for f xs w1 by (simp add: kvoid_def)
  have m: "w_kcall w' = w_kcall w1" if "set_dma_masks w1 = (r, w')" for r w' w1
    using neutral_dma_masks [OF that] by (simp add: neutral_def)
  have pf: "ends_well env w (probe_features env tabs w1 ::
      ((int option \<times> 'p cci_drvdata) res \<times> (feature_info list \<times> feature_info list) \<times> world) outcome option)"
    if kw: "w_kcall w1 = w_kcall w" for w1
    using probe_features_returns [of env w1 tabs, where 'p = 'p] assms fault_why_world [OF kw, of env]
      bar_maps_world [OF kw, of env] by (auto simp: ends_well_def maps_low_def)
  have "ends_well env w (cci_pci_probe env tabs w ::
      ((int option \<times> 'p cci_drvdata) res \<times> (feature_info list \<times> feature_info list) \<times> world) outcome option)"
  proof -
    obtain r1 w1 where e: "kstatus (Kfn ''pci_enable_device'') [] w = (r1, w1)" by (metis surj_pair)
    obtain r2 w2 where p: "kstatus (Kfn ''pci_enable_pcie_error_reporting'') [] w1 = (r2, w2)"
      by (metis surj_pair)
    obtain r3 w3 where g: "kstatus (Kfn ''pci_request_regions'') [] w2 = (r3, w3)" by (metis surj_pair)
    obtain r4 w4 where d: "set_dma_masks (kvoid (Kfn ''pci_save_state'') []
        (kvoid (Kfn ''pci_set_master'') [] w3)) = (r4, w4)" by (metis surj_pair)
    have "w_kcall w4 = w_kcall w" using k [OF e] k [OF p] k [OF g] m [OF d] by (simp add: v)
    from pf [OF this] e p g d show ?thesis
      by (auto simp: cci_pci_probe_def ends_well_def split: sum.splits)
  qed
  then show ?thesis by (auto simp: ends_well_def fault_why_def)
qed

theorem probe_returns_witness:
  "(\<exists>y. cci_pci_probe plain_env (fme_features, port_features) (plain_world []) =
     Some (y :: ((int option \<times> unit cci_drvdata) res \<times> (feature_info list \<times> feature_info list) \<times> world) outcome)) \<and>
   kernel_creates (plain_world [])"
proof -
  have m: "maps_low plain_env (plain_world [])"
    by (auto simp: maps_low_def bar_maps_def plain_world_def plain_env_def far_from_end_def ret_val_def)
  have h: "header_entries (fst (fme_features, port_features)) (snd (fme_features, port_features))"
    by (simp add: header_entries_def fme_features_def finfo_def)
  have "kernel_creates (plain_world [])" by (auto simp: kernel_creates_def plain_world_def)
  then show ?thesis using probe_returns [OF m h, where 'p = unit] by blast
qed

subsection \<open>A port device that cannot be created\<close>






end
