(* ===== verification/Fpga_Mgr.thy ===== *)
theory Fpga_Mgr
  imports Driver_Prelude
begin

text \<open>
  The FPGA manager core (\<^verbatim>\<open>drivers/fpga/fpga-mgr.c\<close>): loading an image through the operations of a
  low level driver, the exclusive reference to a manager, and registering one.

  \<^verbatim>\<open>struct fpga_manager_ops\<close> becomes a record of optional functions on the low level driver's data
  \<open>'s\<close> and the world; a missing function is \<open>None\<close>. An image is a list of bytes. What only the
  kernel knows is a parameter: whether an address is in the vmalloc area, and the pieces in which a
  scatter list presents the bytes of a buffer. Three interfaces say what the core makes of the
  low level operations: one of operations that push the bytes they get, one of what all
  operations keep of the driver's data and the world, one of operations that keep a balance.
\<close>

subsection \<open>Data\<close>

datatype fpga_mgr_states =
  FPGA_MGR_STATE_UNKNOWN | FPGA_MGR_STATE_POWER_OFF | FPGA_MGR_STATE_POWER_UP | FPGA_MGR_STATE_RESET
| FPGA_MGR_STATE_FIRMWARE_REQ | FPGA_MGR_STATE_FIRMWARE_REQ_ERR
| FPGA_MGR_STATE_WRITE_INIT | FPGA_MGR_STATE_WRITE_INIT_ERR
| FPGA_MGR_STATE_WRITE | FPGA_MGR_STATE_WRITE_ERR
| FPGA_MGR_STATE_WRITE_COMPLETE | FPGA_MGR_STATE_WRITE_COMPLETE_ERR
| FPGA_MGR_STATE_OPERATING

definition FPGA_MGR_PARTIAL_RECONFIG :: u32 where "FPGA_MGR_PARTIAL_RECONFIG = 1"

record fpga_image_info =
  ii_flags :: u32
  ii_enable_timeout_us :: u32
  ii_disable_timeout_us :: u32
  ii_config_complete_timeout_us :: u32

type_synonym 's mgr_call = "'s \<Rightarrow> world \<Rightarrow> unit res \<times> 's \<times> world"

record 's fpga_manager_ops =
  mo_initial_header_size :: nat
  mo_state :: "('s \<Rightarrow> fpga_mgr_states) option"
  mo_write_init :: "(fpga_image_info \<Rightarrow> u8 list \<Rightarrow> 's mgr_call) option"
  mo_write :: "(u8 list \<Rightarrow> 's mgr_call) option"
  mo_write_sg :: "(u8 list list \<Rightarrow> 's mgr_call) option"
  mo_write_complete :: "(fpga_image_info \<Rightarrow> 's mgr_call) option"
  mo_fpga_remove :: "('s \<Rightarrow> world \<Rightarrow> 's \<times> world) option"

record 's fpga_manager =
  fm_self :: int
  fm_id :: int
  fm_name :: string
  fm_state :: fpga_mgr_states
  fm_mops :: "'s fpga_manager_ops"
  fm_priv :: 's

record mgr_kernel =
  mk_is_vmalloc_addr :: "u64 \<Rightarrow> bool"
  mk_fragments :: "u8 list \<Rightarrow> u8 list list"

definition mgr_page_size :: u64 where "mgr_page_size = 4096"

type_synonym 's mgr_step = "'s fpga_manager \<Rightarrow> world \<Rightarrow> unit res \<times> 's fpga_manager \<times> world"

text \<open>A call of a low level operation on the driver's data of the manager, in a state of the manager.\<close>

definition call_low ::
  "fpga_mgr_states \<Rightarrow> fpga_mgr_states \<Rightarrow> 's mgr_call \<Rightarrow> 's mgr_step" where
  "call_low state err f mgr w =
     (case f (fm_priv mgr) w of
        (Inl e, s, w1) \<Rightarrow> (Inl e, mgr\<lparr>fm_state := err, fm_priv := s\<rparr>, w1)
      | (Inr _, s, w1) \<Rightarrow> (Inr (), mgr\<lparr>fm_state := state, fm_priv := s\<rparr>, w1))"

subsection \<open>The steps of a load\<close>

definition fpga_mgr_write_init_buf :: "fpga_image_info \<Rightarrow> u8 list \<Rightarrow> 's mgr_step" where
  "fpga_mgr_write_init_buf info buf mgr w =
     call_low FPGA_MGR_STATE_WRITE_INIT FPGA_MGR_STATE_WRITE_INIT_ERR
       (the (mo_write_init (fm_mops mgr)) info
          (if mo_initial_header_size (fm_mops mgr) = 0 then []
           else take (mo_initial_header_size (fm_mops mgr)) buf)) mgr w"

text \<open>
  The scatter list is the list of its pieces. The first one is used when it holds the whole header,
  otherwise the header is copied.
\<close>

definition fpga_mgr_write_init_sg :: "fpga_image_info \<Rightarrow> u8 list list \<Rightarrow> 's mgr_step" where
  "fpga_mgr_write_init_sg info frags mgr w =
     (let n = mo_initial_header_size (fm_mops mgr) in
      if n = 0 then fpga_mgr_write_init_buf info [] mgr w
      else if frags \<noteq> [] \<and> n \<le> length (hd frags) then fpga_mgr_write_init_buf info (hd frags) mgr w
      else
        (case kvalue Kmalloc [int n] w of
           (Inl _, w1) \<Rightarrow> (Inl ENOMEM, mgr, w1)
         | (Inr buf, w1) \<Rightarrow>
             (case fpga_mgr_write_init_buf info (take n (concat frags)) mgr w1 of
                (r, mgr1, w2) \<Rightarrow> (r, mgr1, kvoid Kfree [buf] w2))))"

definition fpga_mgr_write_complete :: "fpga_image_info \<Rightarrow> 's mgr_step" where
  "fpga_mgr_write_complete info mgr w =
     call_low FPGA_MGR_STATE_OPERATING FPGA_MGR_STATE_WRITE_COMPLETE_ERR
       (the (mo_write_complete (fm_mops mgr)) info) mgr w"

text \<open>The loop that writes the pieces one by one.\<close>

fun write_frags :: "(u8 list \<Rightarrow> 's mgr_call) \<Rightarrow> u8 list list \<Rightarrow> 's mgr_call" where
  "write_frags wr [] s w = (Inr (), s, w)"
| "write_frags wr (b # bs) s w =
     (case wr b s w of
        (Inl e, s1, w1) \<Rightarrow> (Inl e, s1, w1)
      | (Inr _, s1, w1) \<Rightarrow> write_frags wr bs s1 w1)"

definition fpga_mgr_buf_load_sg :: "fpga_image_info \<Rightarrow> u8 list list \<Rightarrow> 's mgr_step" where
  "fpga_mgr_buf_load_sg info frags mgr w =
     (case fpga_mgr_write_init_sg info frags mgr w of
        (Inl e, mgr1, w1) \<Rightarrow> (Inl e, mgr1, w1)
      | (Inr _, mgr1, w1) \<Rightarrow>
          (case call_low FPGA_MGR_STATE_WRITE FPGA_MGR_STATE_WRITE_ERR
                  (case mo_write_sg (fm_mops mgr1) of
                     Some wsg \<Rightarrow> wsg frags
                   | None \<Rightarrow> write_frags (the (mo_write (fm_mops mgr1))) frags) mgr1 w1 of
             (Inl e, mgr2, w2) \<Rightarrow> (Inl e, mgr2, w2)
           | (Inr _, mgr2, w2) \<Rightarrow> fpga_mgr_write_complete info mgr2 w2))"

definition fpga_mgr_buf_load_mapped :: "fpga_image_info \<Rightarrow> u8 list \<Rightarrow> 's mgr_step" where
  "fpga_mgr_buf_load_mapped info buf mgr w =
     (case fpga_mgr_write_init_buf info buf mgr w of
        (Inl e, mgr1, w1) \<Rightarrow> (Inl e, mgr1, w1)
      | (Inr _, mgr1, w1) \<Rightarrow>
          (case call_low FPGA_MGR_STATE_WRITE FPGA_MGR_STATE_WRITE_ERR
                  (the (mo_write (fm_mops mgr1)) buf) mgr1 w1 of
             (Inl e, mgr2, w2) \<Rightarrow> (Inl e, mgr2, w2)
           | (Inr _, mgr2, w2) \<Rightarrow> fpga_mgr_write_complete info mgr2 w2))"

text \<open>Finding the page of every page-sized piece of the buffer from \<open>p\<close> on.\<close>

fun find_pages :: "mgr_kernel \<Rightarrow> nat \<Rightarrow> u64 \<Rightarrow> world \<Rightarrow> unit res \<times> world" where
  "find_pages k 0 p w = (Inr (), w)"
| "find_pages k (Suc n) p w =
     (case kstatus (Kfn (if mk_is_vmalloc_addr k p then ''vmalloc_to_page'' else ''kmap_to_page''))
             [uint p] w of
        (Inl _, w1) \<Rightarrow> (Inl EFAULT, w1)
      | (Inr _, w1) \<Rightarrow> find_pages k n (p + mgr_page_size) w1)"

definition nr_pages_of :: "u64 \<Rightarrow> u64 \<Rightarrow> nat" where
  "nr_pages_of buf len =
     nat (sint (ucast ((buf + len + (mgr_page_size - 1)) div mgr_page_size - buf div mgr_page_size) :: u32))"

text \<open>\<open>addr\<close> is the address of the buffer.\<close>

definition fpga_mgr_buf_load :: "mgr_kernel \<Rightarrow> fpga_image_info \<Rightarrow> u64 \<Rightarrow> u8 list \<Rightarrow> 's mgr_step" where
  "fpga_mgr_buf_load k info addr buf mgr w =
     (if mo_write (fm_mops mgr) \<noteq> None then fpga_mgr_buf_load_mapped info buf mgr w
      else
        (let nr_pages = nr_pages_of addr (of_nat (length buf)) in
         case kvalue Kmalloc [8 * int nr_pages] w of
           (Inl _, w1) \<Rightarrow> (Inl ENOMEM, mgr, w1)
         | (Inr pages, w1) \<Rightarrow>
             (case find_pages k nr_pages (addr - addr mod mgr_page_size) w1 of
                (Inl e, w2) \<Rightarrow> (Inl e, mgr, kvoid Kfree [pages] w2)
              | (Inr _, w2) \<Rightarrow>
                  (case kstatus (Kfn ''sg_alloc_table_from_pages'') [pages, int (length buf)] w2 of
                     (Inl e, w3) \<Rightarrow> (Inl e, mgr, kvoid Kfree [pages] w3)
                   | (Inr _, w3) \<Rightarrow>
                       (case fpga_mgr_buf_load_sg info (mk_fragments k buf) mgr (kvoid Kfree [pages] w3) of
                          (r, mgr1, w4) \<Rightarrow> (r, mgr1, kvoid (Kfn ''sg_free_table'') [] w4))))))"

text \<open>A request for firmware returns the address and the bytes of the image.\<close>

definition fpga_mgr_firmware_load :: "mgr_kernel \<Rightarrow> fpga_image_info \<Rightarrow> 's mgr_step" where
  "fpga_mgr_firmware_load k info mgr w =
     (case kcall Request_firmware [] w of
        (Inl e, w1) \<Rightarrow> (Inl e, mgr\<lparr>fm_state := FPGA_MGR_STATE_FIRMWARE_REQ_ERR\<rparr>, w1)
      | (Inr fw, w1) \<Rightarrow>
          (case fpga_mgr_buf_load k info (word_of_int (ret_val fw)) (map word_of_int (tl fw))
                  (mgr\<lparr>fm_state := FPGA_MGR_STATE_FIRMWARE_REQ\<rparr>) w1 of
             (r, mgr1, w2) \<Rightarrow> (r, mgr1, kvoid Release_firmware [ret_val fw] w2)))"

subsection \<open>Attributes\<close>

definition name_show :: "'s fpga_manager \<Rightarrow> string" where
  "name_show mgr = fm_name mgr"

fun state_str :: "fpga_mgr_states \<Rightarrow> string" where
  "state_str FPGA_MGR_STATE_UNKNOWN = ''unknown''"
| "state_str FPGA_MGR_STATE_POWER_OFF = ''power off''"
| "state_str FPGA_MGR_STATE_POWER_UP = ''power up''"
| "state_str FPGA_MGR_STATE_RESET = ''reset''"
| "state_str FPGA_MGR_STATE_FIRMWARE_REQ = ''firmware request''"
| "state_str FPGA_MGR_STATE_FIRMWARE_REQ_ERR = ''firmware request error''"
| "state_str FPGA_MGR_STATE_WRITE_INIT = ''write init''"
| "state_str FPGA_MGR_STATE_WRITE_INIT_ERR = ''write init error''"
| "state_str FPGA_MGR_STATE_WRITE = ''write''"
| "state_str FPGA_MGR_STATE_WRITE_ERR = ''write error''"
| "state_str FPGA_MGR_STATE_WRITE_COMPLETE = ''write complete''"
| "state_str FPGA_MGR_STATE_WRITE_COMPLETE_ERR = ''write complete error''"
| "state_str FPGA_MGR_STATE_OPERATING = ''operating''"

definition state_show :: "'s fpga_manager \<Rightarrow> string" where
  "state_show mgr = state_str (fm_state mgr)"

subsection \<open>The reference to a manager\<close>

text \<open>
  The result is the manager's device. The manager of a device that is found exists, so the test for
  a null manager never fails.
\<close>

definition raw_fpga_mgr_get :: "int \<Rightarrow> world \<Rightarrow> int res \<times> world" where
  "raw_fpga_mgr_get d w =
     (case kstatus (Kfn ''mutex_trylock'') [d] w of
        (Inl _, w1) \<Rightarrow> (Inl EBUSY, kvoid Put_device [d] w1)
      | (Inr _, w1) \<Rightarrow>
          (case kstatus Try_module_get [d] w1 of
             (Inl _, w2) \<Rightarrow> (Inl ENODEV, kvoid Put_device [d] (kvoid (Kfn ''mutex_unlock'') [d] w2))
           | (Inr _, w2) \<Rightarrow> (Inr d, w2)))"

definition fpga_mgr_get :: "int \<Rightarrow> world \<Rightarrow> int res \<times> world" where
  "fpga_mgr_get dev w =
     (case kvalue Class_find_device [dev] w of
        (Inl _, w1) \<Rightarrow> (Inl ENODEV, w1)
      | (Inr d, w1) \<Rightarrow> raw_fpga_mgr_get d w1)"

definition of_fpga_mgr_get :: "int \<Rightarrow> world \<Rightarrow> int res \<times> world" where
  "of_fpga_mgr_get node w =
     (case kvalue Class_find_device [node] w of
        (Inl _, w1) \<Rightarrow> (Inl ENODEV, w1)
      | (Inr d, w1) \<Rightarrow> raw_fpga_mgr_get d w1)"

definition fpga_mgr_put :: "int \<Rightarrow> world \<Rightarrow> world" where
  "fpga_mgr_put d w = kvoid Put_device [d] (kvoid (Kfn ''mutex_unlock'') [d] (kvoid Module_put [d] w))"

subsection \<open>Registering a manager\<close>

definition mops_complete :: "'s fpga_manager_ops \<Rightarrow> bool" where
  "mops_complete mops \<longleftrightarrow> mo_write_complete mops \<noteq> None \<and> mo_state mops \<noteq> None \<and>
     mo_write_init mops \<noteq> None \<and> \<not> (mo_write mops = None \<and> mo_write_sg mops = None) \<and>
     \<not> (mo_write mops \<noteq> None \<and> mo_write_sg mops \<noteq> None)"

definition fpga_mgr_register ::
  "string \<Rightarrow> 's fpga_manager_ops \<Rightarrow> 's \<Rightarrow> world \<Rightarrow> 's fpga_manager res \<times> world" where
  "fpga_mgr_register name mops priv w =
     (if \<not> mops_complete mops then (Inl EINVAL, w)
      else if name = '''' then (Inl EINVAL, w)
      else
        (case kvalue Kzalloc [] w of
           (Inl _, w1) \<Rightarrow> (Inl ENOMEM, w1)
         | (Inr self, w1) \<Rightarrow>
        (case kvalue Ida_simple_get [] w1 of
           (Inl e, w2) \<Rightarrow> (Inl e, kvoid Kfree [self] w2)
         | (Inr i, w2) \<Rightarrow>
        (case kstatus (Kfn ''dev_set_name'') [self, i] w2 of
           (Inl e, w3) \<Rightarrow> (Inl e, kvoid Kfree [self] (kvoid Ida_simple_remove [i] w3))
         | (Inr _, w3) \<Rightarrow>
        (case kstatus Device_add [self] w3 of
           (Inl e, w4) \<Rightarrow> (Inl e, kvoid Kfree [self] (kvoid Ida_simple_remove [i] w4))
         | (Inr _, w4) \<Rightarrow>
             (Inr \<lparr>fm_self = self, fm_id = i, fm_name = name, fm_state = the (mo_state mops) priv,
                   fm_mops = mops, fm_priv = priv\<rparr>, w4))))))"

definition fpga_mgr_unregister :: "'s fpga_manager \<Rightarrow> world \<Rightarrow> 's fpga_manager \<times> world" where
  "fpga_mgr_unregister mgr w =
     (case mo_fpga_remove (fm_mops mgr) of
        None \<Rightarrow> (mgr, kvoid Device_unregister [fm_self mgr] w)
      | Some f \<Rightarrow>
          (case f (fm_priv mgr) w of
             (s, w1) \<Rightarrow> (mgr\<lparr>fm_priv := s\<rparr>, kvoid Device_unregister [fm_self mgr] w1)))"

text \<open>The kernel calls this when the last reference to the manager's device is gone.\<close>

definition fpga_mgr_dev_release :: "'s fpga_manager \<Rightarrow> world \<Rightarrow> world" where
  "fpga_mgr_dev_release mgr w = kvoid Kfree [fm_self mgr] (kvoid Ida_simple_remove [fm_id mgr] w)"

definition fpga_mgr_class_init :: "world \<Rightarrow> unit res \<times> world" where
  "fpga_mgr_class_init w = kstatus (Kfn ''class_create'') [] w"

definition fpga_mgr_class_exit :: "world \<Rightarrow> world" where
  "fpga_mgr_class_exit w = kvoid (Kfn ''ida_destroy'') [] (kvoid (Kfn ''class_destroy'') [] w)"

subsection \<open>Operations that push an image\<close>

text \<open>
  A low level driver that pushes what it gets: \<open>sink\<close> is what its device has got so far, and kernel
  calls do not change it.
\<close>

locale pushing_ops =
  fixes ops :: "'s fpga_manager_ops" and sink :: "'s \<Rightarrow> world \<Rightarrow> u8 list"
  assumes init_pushes: "mo_write_init ops = Some f \<Longrightarrow> f info hdr s w = (Inr (), s', w') \<Longrightarrow>
      sink s' w' = sink s w"
    and write_pushes: "mo_write ops = Some g \<Longrightarrow> g buf s w = (Inr (), s', w') \<Longrightarrow>
      sink s' w' = sink s w @ buf"
    and write_sg_pushes: "mo_write_sg ops = Some h \<Longrightarrow> h frags s w = (Inr (), s', w') \<Longrightarrow>
      sink s' w' = sink s w @ concat frags"
    and complete_pushes: "mo_write_complete ops = Some c \<Longrightarrow> c info s w = (Inr (), s', w') \<Longrightarrow>
      sink s' w' = sink s w"
    and call_pushes: "sink s (emit (Call fn xs r) w) = sink s w"
begin

definition pushed :: "u8 list \<Rightarrow> 's fpga_manager \<Rightarrow> world \<Rightarrow> unit res \<Rightarrow> 's fpga_manager \<Rightarrow> world \<Rightarrow> bool" where
  "pushed bs mgr w r mgr' w' \<longleftrightarrow> fm_mops mgr' = fm_mops mgr \<and> (r = Inr () \<longrightarrow>
     sink (fm_priv mgr') w' = sink (fm_priv mgr) w @ bs)"

lemma pushedD: "pushed bs mgr w (Inr ()) mgr' w' \<Longrightarrow>
  fm_mops mgr' = fm_mops mgr \<and> sink (fm_priv mgr') w' = sink (fm_priv mgr) w @ bs"
  by (simp add: pushed_def)

lemma call_low_pushed:
  assumes "call_low st er f mgr w = (r, mgr', w')"
    and "\<And>s' w'. f (fm_priv mgr) w = (Inr (), s', w') \<Longrightarrow> sink s' w' = sink (fm_priv mgr) w @ bs"
  shows "pushed bs mgr w r mgr' w'"
  using assms by (auto simp: call_low_def pushed_def split: prod.splits sum.splits)

lemma sink_kernel [simp]: "sink s (kvoid fn xs w) = sink s w"
  by (simp add: kvoid_def call_pushes)

lemma sink_status: "kstatus fn xs w = (r, w') \<Longrightarrow> sink s w' = sink s w"
  by (auto simp: kstatus_def kcall_def Let_def call_pushes split: sum.splits)

lemma sink_value: "kvalue fn xs w = (v, w') \<Longrightarrow> sink s w' = sink s w"
  by (auto simp: kvalue_def kcall_def Let_def call_pushes split: sum.splits)

lemma write_frags_pushes:
  "mo_write ops = Some g \<Longrightarrow> write_frags g frags s w = (Inr (), s', w') \<Longrightarrow>
   sink s' w' = sink s w @ concat frags"
proof (induction frags arbitrary: s w)
  case (Cons b bs)
  then obtain u s1 w1 where g: "g b s w = (Inr u, s1, w1)" "write_frags g bs s1 w1 = (Inr (), s', w')"
    by (auto split: prod.splits sum.splits)
  then have g1: "g b s w = (Inr (), s1, w1)" by simp
  from write_pushes [OF Cons.prems(1) g1] Cons.IH [OF Cons.prems(1) g(2)] show ?case by simp
qed simp

lemma init_buf_pushed:
  assumes "fpga_mgr_write_init_buf info buf mgr w = (r, mgr', w')"
    and "fm_mops mgr = ops" and "mops_complete ops"
  shows "pushed [] mgr w r mgr' w'"
proof -
  obtain f where f: "mo_write_init ops = Some f" using assms(3) by (auto simp: mops_complete_def)
  show ?thesis
    by (rule call_low_pushed [OF assms(1) [unfolded fpga_mgr_write_init_buf_def]])
      (use assms(2) f init_pushes [OF f] in auto)
qed

lemma complete_pushed:
  assumes "fpga_mgr_write_complete info mgr w = (r, mgr', w')"
    and "fm_mops mgr = ops" and "mops_complete ops"
  shows "pushed [] mgr w r mgr' w'"
proof -
  obtain c where c: "mo_write_complete ops = Some c" using assms(3) by (auto simp: mops_complete_def)
  show ?thesis
    by (rule call_low_pushed [OF assms(1) [unfolded fpga_mgr_write_complete_def]])
      (use assms(2) c complete_pushes [OF c] in auto)
qed

lemma init_sg_pushed:
  assumes "fpga_mgr_write_init_sg info frags mgr w = (r, mgr', w')"
    and "fm_mops mgr = ops" and "mops_complete ops"
  shows "pushed [] mgr w r mgr' w'"
proof -
  let ?n = "mo_initial_header_size (fm_mops mgr)"
  obtain v w1 where k: "kvalue Kmalloc [int ?n] w = (v, w1)" by (metis surj_pair)
  consider "?n = 0" | "?n \<noteq> 0" "frags \<noteq> [] \<and> ?n \<le> length (hd frags)" | "?n \<noteq> 0" "\<not> (frags \<noteq> [] \<and> ?n \<le> length (hd frags))"
    by blast
  then show ?thesis
  proof cases
    case 3
    show ?thesis
    proof (cases v)
      case (Inl e)
      with assms 3 k show ?thesis by (auto simp: fpga_mgr_write_init_sg_def Let_def pushed_def)
    next
      case (Inr buf)
      obtain r2 mgr2 w2 where i: "fpga_mgr_write_init_buf info (take ?n (concat frags)) mgr w1 = (r2, mgr2, w2)"
        by (metis surj_pair)
      from init_buf_pushed [OF i assms(2-3)] have "pushed [] mgr w r2 mgr2 (kvoid Kfree [buf] w2)"
        by (simp add: pushed_def sink_value [OF k])
      with assms(1) 3 k Inr i show ?thesis by (auto simp: fpga_mgr_write_init_sg_def Let_def)
    qed
  qed (use assms init_buf_pushed in \<open>auto simp: fpga_mgr_write_init_sg_def Let_def\<close>)
qed

lemma finish_pushed:
  assumes wr: "call_low st er f mgr1 w1 = (r2, mgr2, w2)" and "pushed bs mgr1 w1 r2 mgr2 w2"
    and "pushed [] mgr w (Inr ()) mgr1 w1"
    and "(case r2 of Inl e \<Rightarrow> (Inl e, mgr2, w2) | Inr _ \<Rightarrow> fpga_mgr_write_complete info mgr2 w2) = (r, mgr', w')"
    and "fm_mops mgr = ops" and "mops_complete ops"
  shows "pushed bs mgr w r mgr' w'"
proof (cases r2)
  case (Inl e)
  with assms show ?thesis by (auto simp: pushed_def)
next
  case (Inr u)
  then have "pushed [] mgr2 w2 r mgr' w'"
    using assms by (intro complete_pushed [of info]) (auto simp: pushed_def)
  with assms Inr show ?thesis by (auto simp: pushed_def)
qed

lemma load_mapped_pushed:
  assumes run: "fpga_mgr_buf_load_mapped info buf mgr w = (r, mgr', w')" and g: "mo_write ops = Some g"
    and m: "fm_mops mgr = ops" "mops_complete ops"
  shows "pushed buf mgr w r mgr' w'"
proof -
  obtain r1 mgr1 w1 where i: "fpga_mgr_write_init_buf info buf mgr w = (r1, mgr1, w1)" by (metis surj_pair)
  note i_ok = init_buf_pushed [OF i m]
  show ?thesis
  proof (cases r1)
    case (Inl e)
    with run i i_ok show ?thesis by (auto simp: fpga_mgr_buf_load_mapped_def pushed_def)
  next
    case (Inr u)
    with i_ok have p1: "pushed [] mgr w (Inr ()) mgr1 w1" by simp
    then have m1: "fm_mops mgr1 = ops" using m(1) by (auto simp: pushed_def)
    obtain r2 mgr2 w2 where c: "call_low FPGA_MGR_STATE_WRITE FPGA_MGR_STATE_WRITE_ERR (g buf) mgr1 w1 =
        (r2, mgr2, w2)" by (metis surj_pair)
    have "pushed buf mgr1 w1 r2 mgr2 w2"
      by (rule call_low_pushed [OF c]) (rule write_pushes [OF g])
    then show ?thesis
      by (rule finish_pushed [OF c _ p1 _ m, where info = info])
        (use run i Inr m1 g c in \<open>auto simp: fpga_mgr_buf_load_mapped_def split: sum.splits\<close>)
  qed
qed

lemma load_sg_pushed:
  assumes run: "fpga_mgr_buf_load_sg info frags mgr w = (r, mgr', w')"
    and m: "fm_mops mgr = ops" "mops_complete ops"
  shows "pushed (concat frags) mgr w r mgr' w'"
proof -
  obtain r1 mgr1 w1 where i: "fpga_mgr_write_init_sg info frags mgr w = (r1, mgr1, w1)" by (metis surj_pair)
  note i_ok = init_sg_pushed [OF i m]
  show ?thesis
  proof (cases r1)
    case (Inl e)
    with run i i_ok show ?thesis by (auto simp: fpga_mgr_buf_load_sg_def pushed_def)
  next
    case (Inr u)
    with i_ok have p1: "pushed [] mgr w (Inr ()) mgr1 w1" by simp
    then have m1: "fm_mops mgr1 = ops" using m(1) by (auto simp: pushed_def)
    let ?f = "case mo_write_sg (fm_mops mgr1) of Some wsg \<Rightarrow> wsg frags
      | None \<Rightarrow> write_frags (the (mo_write (fm_mops mgr1))) frags"
    obtain r2 mgr2 w2 where c: "call_low FPGA_MGR_STATE_WRITE FPGA_MGR_STATE_WRITE_ERR ?f mgr1 w1 =
        (r2, mgr2, w2)" by (metis surj_pair)
    have "pushed (concat frags) mgr1 w1 r2 mgr2 w2"
      by (rule call_low_pushed [OF c])
        (use m(2) m1 write_sg_pushes write_frags_pushes in
          \<open>auto simp: mops_complete_def split: option.splits\<close>)
    then show ?thesis
      by (rule finish_pushed [OF c _ p1 _ m, where info = info])
        (use run i Inr c in \<open>auto simp: fpga_mgr_buf_load_sg_def split: sum.splits\<close>)
  qed
qed

lemma find_pages_sink: "find_pages k n p w = (r, w') \<Longrightarrow> sink s w' = sink s w"
  by (induction n arbitrary: p w)
    (auto split: prod.splits sum.splits dest!: sink_status [where s = s])

text \<open>A successful load pushes exactly the image, however it gets to the driver.\<close>

lemma load_pushes:
  assumes run: "fpga_mgr_buf_load k info addr buf mgr w = (Inr (), mgr', w')"
    and m: "fm_mops mgr = ops" "mops_complete ops"
    and k: "concat (mk_fragments k buf) = buf"
  shows "sink (fm_priv mgr') w' = sink (fm_priv mgr) w @ buf"
proof (cases "mo_write ops")
  case (Some g)
  then have "fpga_mgr_buf_load_mapped info buf mgr w = (Inr (), mgr', w')"
    using run m(1) by (simp add: fpga_mgr_buf_load_def)
  from load_mapped_pushed [OF this Some m] show ?thesis by (simp add: pushed_def)
next
  case None
  let ?n = "nr_pages_of addr (of_nat (length buf))"
  obtain pages w1 where p: "kvalue Kmalloc [8 * int ?n] w = (Inr pages, w1)"
    using run m(1) None by (auto simp: fpga_mgr_buf_load_def Let_def split: prod.splits sum.splits)
  obtain u w2 where f: "find_pages k ?n (addr - addr mod mgr_page_size) w1 = (Inr u, w2)"
    using run m(1) None p by (auto simp: fpga_mgr_buf_load_def Let_def split: prod.splits sum.splits)
  obtain v w3 where t: "kstatus (Kfn ''sg_alloc_table_from_pages'') [pages, int (length buf)] w2 = (Inr v, w3)"
    using run m(1) None p f by (auto simp: fpga_mgr_buf_load_def Let_def split: prod.splits sum.splits)
  obtain r4 mgr4 w4 where l: "fpga_mgr_buf_load_sg info (mk_fragments k buf) mgr (kvoid Kfree [pages] w3) =
      (r4, mgr4, w4)" by (metis surj_pair)
  have out: "r4 = Inr ()" "mgr' = mgr4" "w' = kvoid (Kfn ''sg_free_table'') [] w4"
    using run m(1) None p f t l by (simp_all add: fpga_mgr_buf_load_def Let_def)
  have "sink (fm_priv mgr4) w4 = sink (fm_priv mgr) (kvoid Kfree [pages] w3) @ buf"
    using load_sg_pushed [OF l m] out(1) k by (simp add: pushed_def)
  with out(2,3) show ?thesis
    by (simp add: sink_status [OF t] find_pages_sink [OF f] sink_value [OF p])
qed

end

subsection \<open>What the operations keep\<close>

definition same_balance :: "world \<Rightarrow> world \<Rightarrow> bool" where
  "same_balance w w' \<longleftrightarrow> (\<forall>q. balance (w_trace w') q = balance (w_trace w) q)"

lemma same_balance_refl [simp]: "same_balance w w"
  by (simp add: same_balance_def)

lemma same_balance_trans: "same_balance w w' \<Longrightarrow> same_balance w' w'' \<Longrightarrow> same_balance w w''"
  by (simp add: same_balance_def)

text \<open>
  What every operation keeps of the driver's data and the world, as a relation between before and
  after; a load then keeps it too.
\<close>

locale keeping_ops =
  fixes ops :: "'s fpga_manager_ops" and keeps :: "'s \<Rightarrow> world \<Rightarrow> 's \<Rightarrow> world \<Rightarrow> bool"
  assumes keeps_refl: "keeps s w s w"
    and keeps_trans: "keeps s w s' w' \<Longrightarrow> keeps s' w' s'' w'' \<Longrightarrow> keeps s w s'' w''"
    and init_keeps: "mo_write_init ops = Some f \<Longrightarrow> f info hdr s w = (r, s', w') \<Longrightarrow> keeps s w s' w'"
    and write_keeps: "mo_write ops = Some g \<Longrightarrow> g buf s w = (r, s', w') \<Longrightarrow> keeps s w s' w'"
    and complete_keeps: "mo_write_complete ops = Some c \<Longrightarrow> c info s w = (r, s', w') \<Longrightarrow> keeps s w s' w'"
begin

definition kept :: "'s fpga_manager \<Rightarrow> world \<Rightarrow> 's fpga_manager \<Rightarrow> world \<Rightarrow> bool" where
  "kept mgr w mgr' w' \<longleftrightarrow> keeps (fm_priv mgr) w (fm_priv mgr') w' \<and> fm_mops mgr' = fm_mops mgr"

lemma kept_trans: "kept mgr w mgr1 w1 \<Longrightarrow> kept mgr1 w1 mgr2 w2 \<Longrightarrow> kept mgr w mgr2 w2"
  by (auto simp: kept_def intro: keeps_trans)

lemma call_low_kept:
  assumes "call_low st er f mgr w = (r, mgr', w')"
    and "\<And>r' s' w'. f (fm_priv mgr) w = (r', s', w') \<Longrightarrow> keeps (fm_priv mgr) w s' w'"
  shows "kept mgr w mgr' w'"
  using assms by (auto simp: call_low_def kept_def split: prod.splits sum.splits)

lemma init_buf_kept:
  assumes "fpga_mgr_write_init_buf info buf mgr w = (r, mgr', w')"
    and "fm_mops mgr = ops" and "mops_complete ops"
  shows "kept mgr w mgr' w'"
  using call_low_kept [OF assms(1) [unfolded fpga_mgr_write_init_buf_def]] init_keeps assms(2,3)
  by (auto simp: mops_complete_def)

lemma load_mapped_kept:
  assumes run: "fpga_mgr_buf_load_mapped info buf mgr w = (r, mgr', w')" and g: "mo_write ops = Some g"
    and m: "fm_mops mgr = ops" "mops_complete ops"
  shows "kept mgr w mgr' w'"
proof -
  obtain r1 mgr1 w1 where i: "fpga_mgr_write_init_buf info buf mgr w = (r1, mgr1, w1)" by (metis surj_pair)
  note i_ok = init_buf_kept [OF i m]
  then have m1: "fm_mops mgr1 = ops" using m(1) by (simp add: kept_def)
  obtain r2 mgr2 w2 where c: "call_low FPGA_MGR_STATE_WRITE FPGA_MGR_STATE_WRITE_ERR (g buf) mgr1 w1 = (r2, mgr2, w2)"
    by (metis surj_pair)
  have c_ok: "kept mgr1 w1 mgr2 w2"
    using call_low_kept [OF c] write_keeps [OF g] by blast
  then have m2: "fm_mops mgr2 = ops" using m1 by (simp add: kept_def)
  obtain cf where cf: "mo_write_complete ops = Some cf" using m(2) by (auto simp: mops_complete_def)
  obtain r3 mgr3 w3 where d: "fpga_mgr_write_complete info mgr2 w2 = (r3, mgr3, w3)" by (metis surj_pair)
  have d_ok: "kept mgr2 w2 mgr3 w3"
    using call_low_kept [OF d [unfolded fpga_mgr_write_complete_def]] complete_keeps [OF cf] m2 cf by auto
  from kept_trans [OF i_ok c_ok] kept_trans [OF kept_trans [OF i_ok c_ok] d_ok] i_ok show ?thesis
    using run i c d m1 g by (auto simp: fpga_mgr_buf_load_mapped_def split: sum.splits)
qed

lemma load_kept:
  assumes run: "fpga_mgr_buf_load k info addr buf mgr w = (r, mgr', w')"
    and m: "fm_mops mgr = ops" "mops_complete ops" and g: "mo_write ops = Some g"
  shows "keeps (fm_priv mgr) w (fm_priv mgr') w'"
  using load_mapped_kept [OF _ g m] run m(1) g by (simp add: fpga_mgr_buf_load_def kept_def)

end

subsection \<open>What a load leaves as the state of the manager\<close>

text \<open>
  The operation of the low level driver that a state blames: the operation returned the error and left
  the driver's data as they are.
\<close>

definition failed_in ::
  "'s fpga_manager_ops \<Rightarrow> fpga_image_info \<Rightarrow> fpga_mgr_states \<Rightarrow> unit res \<Rightarrow> 's \<Rightarrow> bool" where
  "failed_in ops info st r s' \<longleftrightarrow>
     (case st of
        FPGA_MGR_STATE_WRITE_INIT_ERR \<Rightarrow> \<exists>hdr s w w'. the (mo_write_init ops) info hdr s w = (r, s', w')
      | FPGA_MGR_STATE_WRITE_ERR \<Rightarrow>
          (\<exists>buf s w w'. the (mo_write ops) buf s w = (r, s', w')) \<or>
          (\<exists>wsg frags s w w'. mo_write_sg ops = Some wsg \<and> wsg frags s w = (r, s', w'))
      | FPGA_MGR_STATE_WRITE_COMPLETE_ERR \<Rightarrow> \<exists>s w w'. the (mo_write_complete ops) info s w = (r, s', w')
      | _ \<Rightarrow> False)"

lemma failed_in_simps:
  "failed_in ops info FPGA_MGR_STATE_WRITE_INIT_ERR r s' \<longleftrightarrow>
     (\<exists>hdr s w w'. the (mo_write_init ops) info hdr s w = (r, s', w'))"
  "failed_in ops info FPGA_MGR_STATE_WRITE_ERR r s' \<longleftrightarrow>
     (\<exists>buf s w w'. the (mo_write ops) buf s w = (r, s', w')) \<or>
     (\<exists>wsg frags s w w'. mo_write_sg ops = Some wsg \<and> wsg frags s w = (r, s', w'))"
  "failed_in ops info FPGA_MGR_STATE_WRITE_COMPLETE_ERR r s' \<longleftrightarrow>
     (\<exists>s w w'. the (mo_write_complete ops) info s w = (r, s', w'))"
  by (simp_all add: failed_in_def)

lemma failed_in_iff:
  "failed_in ops info st r s' \<longleftrightarrow>
     st = FPGA_MGR_STATE_WRITE_INIT_ERR \<and> (\<exists>hdr s w w'. the (mo_write_init ops) info hdr s w = (r, s', w')) \<or>
     st = FPGA_MGR_STATE_WRITE_ERR \<and>
       ((\<exists>buf s w w'. the (mo_write ops) buf s w = (r, s', w')) \<or>
        (\<exists>wsg frags s w w'. mo_write_sg ops = Some wsg \<and> wsg frags s w = (r, s', w'))) \<or>
     st = FPGA_MGR_STATE_WRITE_COMPLETE_ERR \<and> (\<exists>s w w'. the (mo_write_complete ops) info s w = (r, s', w'))"
  by (cases st) (simp_all add: failed_in_def)

text \<open>
  How a load ends: in operation, with the state of the operation that failed, or, if \<open>early\<close>, before it
  called any of them.
\<close>

definition load_end ::
  "fpga_image_info \<Rightarrow> bool \<Rightarrow> 's fpga_manager \<Rightarrow> unit res \<Rightarrow> 's fpga_manager \<Rightarrow> bool" where
  "load_end info early mgr r mgr' \<longleftrightarrow> fm_mops mgr' = fm_mops mgr \<and>
     (case r of
        Inl _ \<Rightarrow> failed_in (fm_mops mgr) info (fm_state mgr') r (fm_priv mgr') \<or> early \<and> mgr' = mgr
      | Inr _ \<Rightarrow> fm_state mgr' = FPGA_MGR_STATE_OPERATING)"

lemma load_end_early: "load_end info True mgr (Inl e) mgr"
  by (simp add: load_end_def)

lemma call_low_state:
  assumes "call_low st er f mgr w = (r, mgr', w')"
  shows "fm_mops mgr' = fm_mops mgr" "fm_state mgr' = (case r of Inl _ \<Rightarrow> er | Inr _ \<Rightarrow> st)"
    "\<exists>w''. f (fm_priv mgr) w = (r, fm_priv mgr', w'')"
  using assms by (auto simp: call_low_def split: prod.splits sum.splits)

text \<open>The three calls.\<close>

lemma init_buf_end:
  assumes "fpga_mgr_write_init_buf info buf mgr w = (r, mgr', w')"
  shows "fm_mops mgr' = fm_mops mgr \<and> (r \<noteq> Inr () \<longrightarrow> load_end info early mgr r mgr')"
  using call_low_state [OF assms [unfolded fpga_mgr_write_init_buf_def]]
  by (cases r) (auto simp: load_end_def failed_in_simps)

lemma complete_end:
  assumes "fpga_mgr_write_complete info mgr w = (r, mgr', w')"
  shows "load_end info early mgr r mgr'"
  using call_low_state [OF assms [unfolded fpga_mgr_write_complete_def]]
  by (cases r) (auto simp: load_end_def failed_in_simps)

lemma write_frags_failed:
  "write_frags wr frags s w = (Inl e, s', w') \<Longrightarrow> \<exists>b s1 w1. wr b s1 w1 = (Inl e, s', w')"
  by (induction frags arbitrary: s w) (auto split: prod.splits sum.splits)

lemma finish_end:
  assumes c: "call_low FPGA_MGR_STATE_WRITE FPGA_MGR_STATE_WRITE_ERR f mgr1 w1 = (r2, mgr2, w2)"
    and f: "\<And>e s w s' w'. f s w = (Inl e, s', w') \<Longrightarrow> failed_in (fm_mops mgr) info FPGA_MGR_STATE_WRITE_ERR (Inl e) s'"
    and m: "fm_mops mgr1 = fm_mops mgr"
    and run: "(case r2 of Inl e \<Rightarrow> (Inl e, mgr2, w2) | Inr _ \<Rightarrow> fpga_mgr_write_complete info mgr2 w2) = (r, mgr', w')"
  shows "load_end info early mgr r mgr'"
proof (cases r2)
  case (Inl e)
  with run call_low_state [OF c] m f show ?thesis by (auto simp: load_end_def)
next
  case (Inr u)
  then have "fpga_mgr_write_complete info mgr2 w2 = (r, mgr', w')" using run by simp
  from complete_end [OF this, of False] call_low_state [OF c] m show ?thesis
    by (auto simp: load_end_def split: sum.splits)
qed

lemma load_mapped_end:
  assumes "fpga_mgr_buf_load_mapped info buf mgr w = (r, mgr', w')"
  shows "load_end info early mgr r mgr'"
proof -
  obtain r1 mgr1 w1 where i: "fpga_mgr_write_init_buf info buf mgr w = (r1, mgr1, w1)" by (metis surj_pair)
  note i_ok = init_buf_end [OF i, of early]
  obtain r2 mgr2 w2 where c: "call_low FPGA_MGR_STATE_WRITE FPGA_MGR_STATE_WRITE_ERR
      (the (mo_write (fm_mops mgr1)) buf) mgr1 w1 = (r2, mgr2, w2)" by (metis surj_pair)
  show ?thesis
  proof (cases r1)
    case (Inl e)
    with assms i i_ok show ?thesis by (auto simp: fpga_mgr_buf_load_mapped_def)
  next
    case (Inr u)
    have m1: "fm_mops mgr1 = fm_mops mgr" using i_ok by simp
    show ?thesis
      by (rule finish_end [OF c _ m1])
        (use assms i Inr c m1 in \<open>auto simp: fpga_mgr_buf_load_mapped_def failed_in_simps\<close>)
  qed
qed

lemma init_sg_end:
  assumes "fpga_mgr_write_init_sg info frags mgr w = (r, mgr', w')"
  shows "fm_mops mgr' = fm_mops mgr \<and> (r \<noteq> Inr () \<longrightarrow> load_end info True mgr r mgr')"
proof -
  let ?n = "mo_initial_header_size (fm_mops mgr)"
  show ?thesis
  proof (cases "?n = 0 \<or> frags \<noteq> [] \<and> ?n \<le> length (hd frags)")
    case True
    then show ?thesis
      using assms init_buf_end [of info "[]" mgr w r mgr' w' True] init_buf_end [of info "hd frags" mgr w r mgr' w' True]
      by (auto simp: fpga_mgr_write_init_sg_def Let_def split: if_splits)
  next
    case False
    obtain v w2 where k: "kvalue Kmalloc [int ?n] w = (v, w2)" by (metis surj_pair)
    obtain r3 mgr3 w3 where b: "fpga_mgr_write_init_buf info (take ?n (concat frags)) mgr w2 = (r3, mgr3, w3)"
      by (metis surj_pair)
    show ?thesis
      using assms False k b init_buf_end [OF b, of True]
      by (auto simp: fpga_mgr_write_init_sg_def Let_def load_end_def split: sum.splits if_splits)
  qed
qed

lemma load_sg_end:
  assumes "fpga_mgr_buf_load_sg info frags mgr w = (r, mgr', w')"
  shows "load_end info True mgr r mgr'"
proof -
  obtain r1 mgr1 w1 where i: "fpga_mgr_write_init_sg info frags mgr w = (r1, mgr1, w1)" by (metis surj_pair)
  note i_ok = init_sg_end [OF i]
  obtain r2 mgr2 w2 where c: "call_low FPGA_MGR_STATE_WRITE FPGA_MGR_STATE_WRITE_ERR
      (case mo_write_sg (fm_mops mgr1) of Some wsg \<Rightarrow> wsg frags
       | None \<Rightarrow> write_frags (the (mo_write (fm_mops mgr1))) frags) mgr1 w1 = (r2, mgr2, w2)" by (metis surj_pair)
  show ?thesis
  proof (cases r1)
    case (Inl e)
    with assms i i_ok show ?thesis by (auto simp: fpga_mgr_buf_load_sg_def)
  next
    case (Inr u)
    have m1: "fm_mops mgr1 = fm_mops mgr" using i_ok by simp
    show ?thesis
      by (rule finish_end [OF c _ m1])
        (use assms i Inr c m1 in \<open>auto simp: fpga_mgr_buf_load_sg_def failed_in_simps
          split: option.splits dest!: write_frags_failed\<close>)
  qed
qed

lemma buf_load_end:
  assumes "fpga_mgr_buf_load k info addr buf mgr w = (r, mgr', w')"
  shows "load_end info (mo_write (fm_mops mgr) = None) mgr r mgr'"
proof (cases "mo_write (fm_mops mgr) = None")
  case False
  with assms load_mapped_end [of info buf mgr w r mgr' w'] show ?thesis by (auto simp: fpga_mgr_buf_load_def)
next
  case True
  show ?thesis
    using assms True
    by (auto simp: fpga_mgr_buf_load_def Let_def load_end_early dest!: load_sg_end
        split: prod.splits sum.splits)
qed

subsection \<open>What a load gives back\<close>

text \<open>Low level operations that give back what they take, whatever they come to.\<close>

definition low_balanced :: "resource \<Rightarrow> 's mgr_call \<Rightarrow> bool" where
  "low_balanced q f \<longleftrightarrow> (\<forall>s w. balance (w_trace (snd (snd (f s w)))) q = balance (w_trace w) q)"

definition ops_balanced :: "resource \<Rightarrow> 's fpga_manager_ops \<Rightarrow> bool" where
  "ops_balanced q ops \<longleftrightarrow>
     (\<forall>f info hdr. mo_write_init ops = Some f \<longrightarrow> low_balanced q (f info hdr)) \<and>
     (\<forall>g buf. mo_write ops = Some g \<longrightarrow> low_balanced q (g buf)) \<and>
     (\<forall>h frags. mo_write_sg ops = Some h \<longrightarrow> low_balanced q (h frags)) \<and>
     (\<forall>c info. mo_write_complete ops = Some c \<longrightarrow> low_balanced q (c info))"

lemma call_low_balance:
  assumes "call_low st er f mgr w = (r, mgr', w')" and "low_balanced q f"
  shows "balance (w_trace w') q = balance (w_trace w) q"
  using assms(1) spec [OF spec [OF assms(2) [unfolded low_balanced_def], of "fm_priv mgr"], of w]
  by (auto simp: call_low_def split: prod.splits sum.splits)

lemma write_frags_balance:
  assumes "\<And>buf. low_balanced q (wr buf)"
  shows "low_balanced q (write_frags wr frags)"
proof (induction frags)
  case (Cons b bs)
  show ?case
    unfolding low_balanced_def
  proof (intro allI)
    fix s w
    obtain r s1 w1 where one: "wr b s w = (r, s1, w1)" by (metis surj_pair)
    have "balance (w_trace w1) q = balance (w_trace w) q"
      using spec [OF spec [OF assms [of b, unfolded low_balanced_def], of s], of w] one by simp
    then show "balance (w_trace (snd (snd (write_frags wr (b # bs) s w)))) q = balance (w_trace w) q"
      using one Cons.IH by (cases r) (simp_all add: low_balanced_def)
  qed
qed (simp add: low_balanced_def)

text \<open>The balance before and after a temporary buffer.\<close>

lemma buffer_balance:
  "kvalue Kmalloc xs w = (v, w1) \<Longrightarrow>
   balance (w_trace w1) q = balance (w_trace w) q + (case v of Inl _ \<Rightarrow> 0 | Inr a \<Rightarrow> of_bool (q = RMem a))"
  "balance (w_trace (kvoid Kfree [a] w)) q = balance (w_trace w) q - of_bool (q = RMem a)"
  by (auto simp: kvalue_def kvoid_def kcall_def ret_val_def Let_def split: sum.splits)

lemma find_pages_balance:
  "find_pages k n p w = (r, w') \<Longrightarrow> balance (w_trace w') q = balance (w_trace w) q"
  by (induction n arbitrary: p w)
    (auto simp: kstatus_def kcall_def named_pairs_def Let_def split: prod.splits sum.splits if_splits)

locale balanced_ops =
  fixes q :: resource and ops :: "'s fpga_manager_ops"
  assumes complete_ops: "mops_complete ops" and balanced: "ops_balanced q ops"
begin

lemma init_buf_balance:
  assumes "fpga_mgr_write_init_buf info buf mgr w = (r, mgr', w')" and "fm_mops mgr = ops"
  shows "balance (w_trace w') q = balance (w_trace w) q"
  using call_low_balance [OF assms(1) [unfolded fpga_mgr_write_init_buf_def], of q] complete_ops balanced assms(2)
  by (auto simp: mops_complete_def ops_balanced_def)

lemma complete_balance:
  assumes "fpga_mgr_write_complete info mgr w = (r, mgr', w')" and "fm_mops mgr = ops"
  shows "balance (w_trace w') q = balance (w_trace w) q"
  using call_low_balance [OF assms(1) [unfolded fpga_mgr_write_complete_def], of q] complete_ops balanced assms(2)
  by (auto simp: mops_complete_def ops_balanced_def)

lemma load_mapped_balance:
  assumes run: "fpga_mgr_buf_load_mapped info buf mgr w = (r, mgr', w')" and m: "fm_mops mgr = ops"
    and g: "mo_write ops = Some g"
  shows "balance (w_trace w') q = balance (w_trace w) q"
proof -
  obtain r1 mgr1 w1 where i: "fpga_mgr_write_init_buf info buf mgr w = (r1, mgr1, w1)" by (metis surj_pair)
  have m1: "fm_mops mgr1 = ops" using init_buf_end [OF i] m by simp
  obtain r2 mgr2 w2 where c: "call_low FPGA_MGR_STATE_WRITE FPGA_MGR_STATE_WRITE_ERR (g buf) mgr1 w1 = (r2, mgr2, w2)"
    by (metis surj_pair)
  have b2: "balance (w_trace w2) q = balance (w_trace w1) q"
    by (rule call_low_balance [OF c]) (use balanced g in \<open>simp add: ops_balanced_def\<close>)
  have m2: "fm_mops mgr2 = ops" using call_low_state(1) [OF c] m1 by simp
  show ?thesis
    using run i c b2 m1 g init_buf_balance [OF i m] complete_balance [of info mgr2 w2 r mgr' w', OF _ m2]
    by (auto simp: fpga_mgr_buf_load_mapped_def split: sum.splits)
qed

lemma init_sg_balance:
  assumes run: "fpga_mgr_write_init_sg info frags mgr w = (r, mgr', w')" and m: "fm_mops mgr = ops"
  shows "balance (w_trace w') q = balance (w_trace w) q"
proof -
  let ?n = "mo_initial_header_size (fm_mops mgr)"
  obtain v w1 where k: "kvalue Kmalloc [int ?n] w = (v, w1)" by (metis surj_pair)
  obtain r2 mgr2 w2 where i: "fpga_mgr_write_init_buf info (take ?n (concat frags)) mgr w1 = (r2, mgr2, w2)"
    by (metis surj_pair)
  show ?thesis
    using run k i init_buf_balance [OF i m] buffer_balance(1) [OF k, of q] init_buf_balance [OF _ m]
    by (auto simp: fpga_mgr_write_init_sg_def Let_def buffer_balance(2) split: sum.splits if_splits)
qed

lemma load_sg_balance:
  assumes run: "fpga_mgr_buf_load_sg info frags mgr w = (r, mgr', w')" and m: "fm_mops mgr = ops"
  shows "balance (w_trace w') q = balance (w_trace w) q"
proof -
  obtain r1 mgr1 w1 where i: "fpga_mgr_write_init_sg info frags mgr w = (r1, mgr1, w1)" by (metis surj_pair)
  have m1: "fm_mops mgr1 = ops" using init_sg_end [OF i] m by simp
  let ?f = "case mo_write_sg ops of Some wsg \<Rightarrow> wsg frags | None \<Rightarrow> write_frags (the (mo_write ops)) frags"
  obtain r2 mgr2 w2 where c: "call_low FPGA_MGR_STATE_WRITE FPGA_MGR_STATE_WRITE_ERR ?f mgr1 w1 = (r2, mgr2, w2)"
    by (metis surj_pair)
  have "low_balanced q ?f"
    using balanced complete_ops write_frags_balance [of q "the (mo_write ops)" frags]
    by (auto simp: ops_balanced_def mops_complete_def split: option.splits)
  note b2 = call_low_balance [OF c this]
  have m2: "fm_mops mgr2 = ops" using call_low_state(1) [OF c] m1 by simp
  show ?thesis
    using run i c b2 m1 init_sg_balance [OF i m] complete_balance [of info mgr2 w2 r mgr' w', OF _ m2]
    by (auto simp: fpga_mgr_buf_load_sg_def split: sum.splits)
qed

lemma buf_load_balance:
  assumes run: "fpga_mgr_buf_load k info addr buf mgr w = (r, mgr', w')" and m: "fm_mops mgr = ops"
  shows "balance (w_trace w') q = balance (w_trace w) q"
proof (cases "mo_write ops")
  case (Some g)
  with run m load_mapped_balance [OF _ m Some] show ?thesis by (simp add: fpga_mgr_buf_load_def)
next
  case None
  let ?n = "nr_pages_of addr (of_nat (length buf))"
  obtain v w1 where p: "kvalue Kmalloc [8 * int ?n] w = (v, w1)" by (metis surj_pair)
  note b1 = buffer_balance(1) [OF p, of q]
  show ?thesis
  proof (cases v)
    case (Inl e)
    with run m None p b1 show ?thesis by (simp add: fpga_mgr_buf_load_def Let_def)
  next
    case (Inr pages)
    obtain r2 w2 where f: "find_pages k ?n (addr - addr mod mgr_page_size) w1 = (r2, w2)" by (metis surj_pair)
    note b2 = find_pages_balance [OF f, of q]
    obtain r3 w3 where t: "kstatus (Kfn ''sg_alloc_table_from_pages'') [pages, int (length buf)] w2 = (r3, w3)"
      by (metis surj_pair)
    have b3: "balance (w_trace w3) q = balance (w_trace w2) q +
        (case r3 of Inl _ \<Rightarrow> 0 | Inr _ \<Rightarrow> of_bool (q = RNamed ''sg_alloc_table_from_pages''))"
      using t by (auto simp: kstatus_def kcall_def named_pairs_def Let_def split: sum.splits)
    obtain r4 mgr4 w4 where l: "fpga_mgr_buf_load_sg info (mk_fragments k buf) mgr (kvoid Kfree [pages] w3) =
        (r4, mgr4, w4)" by (metis surj_pair)
    note b4 = load_sg_balance [OF l m, unfolded buffer_balance(2)]
    have free: "balance (w_trace (kvoid (Kfn ''sg_free_table'') [] w4)) q =
        balance (w_trace w4) q - of_bool (q = RNamed ''sg_alloc_table_from_pages'')"
      by (simp add: kvoid_def named_pairs_def)
    show ?thesis
      using run m None p f t l Inr b1 b2 b3 b4
      by (auto simp: fpga_mgr_buf_load_def Let_def buffer_balance(2) free split: sum.splits)
  qed
qed

end

text \<open>
  C38. Requesting an image and loading it: the load succeeds exactly when the manager is then in
  operation. After a failure the state names what failed: "firmware request error" the request,
  which gave the error that is returned, and "write init error", "write error" and "write complete
  error" the preparation, the writing and the completion by the low level driver, which gave it.
  The exception are drivers without a \<^verbatim>\<open>write\<close> operation: when memory for the list of pages or for the
  header cannot be had, or a page is not found, or the scatter list cannot be made, the state stays
  "firmware request", as if the request were still going on, and no operation was called. On every path
  the image, the list of pages, the copy of the header and the scatter list are given back: a registered
  driver whose operations keep a balance keeps it in the load.
\<close>

theorem firmware_load_state:
  assumes "fpga_mgr_firmware_load k info mgr w = (r, mgr', w')"
  shows "(r = Inr () \<longleftrightarrow> fm_state mgr' = FPGA_MGR_STATE_OPERATING) \<and>
    (\<forall>e. r = Inl e \<longrightarrow>
       (if \<exists>w1. kcall Request_firmware [] w = (Inl e, w1) then fm_state mgr' = FPGA_MGR_STATE_FIRMWARE_REQ_ERR
        else
          fm_state mgr' = FPGA_MGR_STATE_WRITE_INIT_ERR \<and>
            (\<exists>hdr s w1 w2. the (mo_write_init (fm_mops mgr)) info hdr s w1 = (r, fm_priv mgr', w2)) \<or>
          fm_state mgr' = FPGA_MGR_STATE_WRITE_ERR \<and>
            ((\<exists>buf s w1 w2. the (mo_write (fm_mops mgr)) buf s w1 = (r, fm_priv mgr', w2)) \<or>
             (\<exists>h frags s w1 w2. mo_write_sg (fm_mops mgr) = Some h \<and> h frags s w1 = (r, fm_priv mgr', w2))) \<or>
          fm_state mgr' = FPGA_MGR_STATE_WRITE_COMPLETE_ERR \<and>
            (\<exists>s w1 w2. the (mo_write_complete (fm_mops mgr)) info s w1 = (r, fm_priv mgr', w2)) \<or>
          mo_write (fm_mops mgr) = None \<and> mgr' = mgr\<lparr>fm_state := FPGA_MGR_STATE_FIRMWARE_REQ\<rparr>)) \<and>
    (mops_complete (fm_mops mgr) \<and> ops_balanced q (fm_mops mgr) \<longrightarrow>
       balance (w_trace w') q = balance (w_trace w) q)"
proof -
  obtain fw w1 where req: "kcall Request_firmware [] w = (fw, w1)" by (metis surj_pair)
  have b1: "balance (w_trace w1) q = balance (w_trace w) q +
      (case fw of Inl _ \<Rightarrow> 0 | Inr _ \<Rightarrow> of_bool (q = RNamed ''request_firmware''))"
    using req by (auto simp: kcall_def Let_def split: sum.splits)
  let ?mgr = "mgr\<lparr>fm_state := FPGA_MGR_STATE_FIRMWARE_REQ\<rparr>"
  show ?thesis
  proof (cases fw)
    case (Inl e)
    with assms req b1 show ?thesis by (auto simp: fpga_mgr_firmware_load_def)
  next
    case (Inr vs)
    obtain r2 mgr2 w2 where l: "fpga_mgr_buf_load k info (word_of_int (ret_val vs)) (map word_of_int (tl vs)) ?mgr w1 =
        (r2, mgr2, w2)" by (metis surj_pair)
    with assms req Inr have out: "r = r2" "mgr' = mgr2" "w' = kvoid Release_firmware [ret_val vs] w2"
      by (auto simp: fpga_mgr_firmware_load_def)
    have rel: "balance (w_trace w') q = balance (w_trace w2) q - of_bool (q = RNamed ''request_firmware'')"
      unfolding out(3) by (simp add: kvoid_def)
    have bal: "balance (w_trace w') q = balance (w_trace w) q"
      if "mops_complete (fm_mops mgr)" "ops_balanced q (fm_mops mgr)"
      using balanced_ops.buf_load_balance [OF balanced_ops.intro [OF that] l] rel b1 Inr by simp
    show ?thesis
    proof (cases r2)
      case (Inl e)
      then have "failed_in (fm_mops mgr) info (fm_state mgr2) r2 (fm_priv mgr2) \<or>
          mo_write (fm_mops mgr) = None \<and> mgr2 = ?mgr"
        using buf_load_end [OF l] by (simp add: load_end_def)
      moreover from this have "fm_state mgr2 \<noteq> FPGA_MGR_STATE_OPERATING"
        by (auto simp: failed_in_iff)
      ultimately show ?thesis
        using bal req Inr Inl unfolding out(1,2) failed_in_iff by simp
    next
      case r2: (Inr u)
      with buf_load_end [OF l] bal show ?thesis unfolding out(1,2) by (simp add: load_end_def)
    qed
  qed
qed

text \<open>A driver that takes scatter lists only, with a header of two bytes.\<close>

definition sg_ops :: "u8 list fpga_manager_ops" where
  "sg_ops = \<lparr>mo_initial_header_size = 2, mo_state = Some (\<lambda>_. FPGA_MGR_STATE_UNKNOWN),
     mo_write_init = Some (\<lambda>info hdr s w. (Inr (), s, w)), mo_write = None,
     mo_write_sg = Some (\<lambda>frags s w. (Inr (), s @ concat frags, w)),
     mo_write_complete = Some (\<lambda>info s w. (Inr (), s, w)), mo_fpga_remove = None\<rparr>"

definition sg_mgr :: "u8 list fpga_manager" where
  "sg_mgr = \<lparr>fm_self = 1, fm_id = 0, fm_name = ''fpga'', fm_state = FPGA_MGR_STATE_UNKNOWN,
     fm_mops = sg_ops, fm_priv = []\<rparr>"

text \<open>A kernel that has the image but no memory.\<close>

definition no_pages_world :: world where
  "no_pages_world = (quiet_world (\<lambda>_. 0))\<lparr>w_kcall := \<lambda>_ f _. if f = Request_firmware then Inr [0x1000, 1, 2, 3] else Inl ENOMEM\<rparr>"

theorem firmware_load_state_witness:
  "\<exists>mgr' w'. fpga_mgr_firmware_load \<lparr>mk_is_vmalloc_addr = (\<lambda>_. False), mk_fragments = (\<lambda>b. [b])\<rparr>
     \<lparr>ii_flags = 1, ii_enable_timeout_us = 0, ii_disable_timeout_us = 0, ii_config_complete_timeout_us = 0\<rparr>
     sg_mgr no_pages_world = (Inl ENOMEM, mgr', w') \<and> mgr' = sg_mgr\<lparr>fm_state := FPGA_MGR_STATE_FIRMWARE_REQ\<rparr> \<and>
     balance (w_trace w') (RNamed ''request_firmware'') = 0"
proof -
  let ?k = "\<lparr>mk_is_vmalloc_addr = (\<lambda>_. False), mk_fragments = (\<lambda>b. [b])\<rparr>"
  let ?info = "\<lparr>ii_flags = 1, ii_enable_timeout_us = 0, ii_disable_timeout_us = 0, ii_config_complete_timeout_us = 0\<rparr>"
  obtain r mgr' w' where run: "fpga_mgr_firmware_load ?k ?info sg_mgr no_pages_world = (r, mgr', w')"
    by (metis surj_pair)
  then have r: "r = Inl ENOMEM" and st: "fm_state mgr' = FPGA_MGR_STATE_FIRMWARE_REQ"
    by (auto simp: fpga_mgr_firmware_load_def fpga_mgr_buf_load_def sg_mgr_def sg_ops_def no_pages_world_def
        quiet_world_def kcall_def kvalue_def Let_def)
  have ops: "mops_complete (fm_mops sg_mgr)" "ops_balanced (RNamed ''request_firmware'') (fm_mops sg_mgr)"
    by (simp_all add: sg_mgr_def sg_ops_def mops_complete_def ops_balanced_def low_balanced_def)
  have req: "\<nexists>w1. kcall Request_firmware [] no_pages_world = (Inl ENOMEM, w1)"
    by (simp add: kcall_def no_pages_world_def Let_def)
  have "balance (w_trace w') (RNamed ''request_firmware'') = balance (w_trace no_pages_world) (RNamed ''request_firmware'')"
    using firmware_load_state [OF run, of "RNamed ''request_firmware''"] ops by blast
  moreover have "mgr' = sg_mgr\<lparr>fm_state := FPGA_MGR_STATE_FIRMWARE_REQ\<rparr>"
    using firmware_load_state [OF run] r st req by auto
  ultimately show ?thesis using run r by (simp add: no_pages_world_def quiet_world_def)
qed

subsection \<open>References and registration\<close>

definition mgr_ref_hold :: "resource \<Rightarrow> int \<Rightarrow> int" where
  "mgr_ref_hold q d = of_bool (q = RDevice d) + of_bool (q = RModule) + of_bool (q = RNamed ''mutex_trylock'')"

lemma raw_get_balance:
  assumes "raw_fpga_mgr_get d w = (r, w')"
  shows "balance (w_trace w') q = balance (w_trace w) q +
    (case r of Inl _ \<Rightarrow> - of_bool (q = RDevice d) | Inr d' \<Rightarrow> of_bool (q = RModule) + of_bool (q = RNamed ''mutex_trylock''))
    \<and> (\<forall>d'. r = Inr d' \<longrightarrow> d' = d)"
proof -
  obtain r1 w1 where t: "kstatus (Kfn ''mutex_trylock'') [d] w = (r1, w1)" by (metis surj_pair)
  have b1: "balance (w_trace w1) q = balance (w_trace w) q + (case r1 of Inl _ \<Rightarrow> 0 | Inr _ \<Rightarrow> of_bool (q = RNamed ''mutex_trylock''))"
    using t by (auto simp: kstatus_def kcall_def Let_def named_pairs_def split: sum.splits)
  obtain r2 w2 where m: "kstatus Try_module_get [d] w1 = (r2, w2)" by (metis surj_pair)
  have b2: "balance (w_trace w2) q = balance (w_trace w1) q + (case r2 of Inl _ \<Rightarrow> 0 | Inr _ \<Rightarrow> of_bool (q = RModule))"
    using m by (auto simp: kstatus_def kcall_def Let_def split: sum.splits)
  have put: "balance (w_trace (kvoid Put_device [d] w0)) q = balance (w_trace w0) q - of_bool (q = RDevice d)"
    "balance (w_trace (kvoid (Kfn ''mutex_unlock'') [d] w0)) q = balance (w_trace w0) q - of_bool (q = RNamed ''mutex_trylock'')"
    for w0 by (simp_all add: kvoid_def ret_val_def named_pairs_def)
  consider e where "r1 = Inl e" | e where "r1 = Inr ()" "r2 = Inl e" | "r1 = Inr ()" "r2 = Inr ()"
    by (cases r1; cases r2) auto
  then show ?thesis
    by cases (use assms t m b1 b2 put in \<open>auto simp: raw_fpga_mgr_get_def\<close>)
qed

lemma mgr_get_balance:
  assumes "fpga_mgr_get dev w = (r, w')"
  shows "balance (w_trace w') q = balance (w_trace w) q + (case r of Inl _ \<Rightarrow> 0 | Inr d \<Rightarrow> mgr_ref_hold q d)"
proof -
  obtain r1 w1 where c: "kvalue Class_find_device [dev] w = (r1, w1)" by (metis surj_pair)
  have b: "balance (w_trace w1) q = balance (w_trace w) q + (case r1 of Inl _ \<Rightarrow> 0 | Inr d \<Rightarrow> of_bool (q = RDevice d))"
    using c by (auto simp: kvalue_def kcall_def Let_def split: sum.splits)
  show ?thesis
  proof (cases r1)
    case (Inl e)
    with assms c b show ?thesis by (auto simp: fpga_mgr_get_def)
  next
    case (Inr d)
    then have g: "raw_fpga_mgr_get d w1 = (r, w')" using assms c by (simp add: fpga_mgr_get_def)
    from raw_get_balance [OF g, of q] b Inr show ?thesis
      by (cases r) (auto simp: mgr_ref_hold_def)
  qed
qed

lemma mgr_put_balance: "balance (w_trace (fpga_mgr_put d w)) q = balance (w_trace w) q - mgr_ref_hold q d"
  by (auto simp: fpga_mgr_put_def kvoid_def named_pairs_def ret_val_def mgr_ref_hold_def of_bool_def)

text \<open>What a registered manager holds: its memory, its id and its registration.\<close>

definition mgr_hold :: "resource \<Rightarrow> 's fpga_manager \<Rightarrow> int" where
  "mgr_hold q mgr = of_bool (q = RMem (fm_self mgr)) + of_bool (q = RId (-1) (fm_id mgr)) +
     of_bool (q = RDevice (fm_self mgr))"

lemma register_balance:
  assumes "fpga_mgr_register name mops priv w = (r, w')"
  shows "case r of
      Inl _ \<Rightarrow> balance (w_trace w') q = balance (w_trace w) q
    | Inr mgr \<Rightarrow> mops_complete mops \<and> fm_mops mgr = mops \<and> fm_priv mgr = priv \<and>
        balance (w_trace w') q = balance (w_trace w) q + mgr_hold q mgr"
proof (cases "mops_complete mops \<and> name \<noteq> ''''")
  case False
  with assms have "r = Inl EINVAL \<and> w' = w"
    by (simp add: fpga_mgr_register_def split: if_splits)
  then show ?thesis by simp
next
  case ok: True
  obtain r1 w1 where k: "kvalue Kzalloc [] w = (r1, w1)" by (metis surj_pair)
  have b1: "balance (w_trace w1) q = balance (w_trace w) q + (case r1 of Inl _ \<Rightarrow> 0 | Inr m \<Rightarrow> of_bool (q = RMem m))"
    using k by (auto simp: kvalue_def kcall_def Let_def split: sum.splits)
  obtain r2 w2 where i: "kvalue Ida_simple_get [] w1 = (r2, w2)" by (metis surj_pair)
  have b2: "balance (w_trace w2) q = balance (w_trace w1) q + (case r2 of Inl _ \<Rightarrow> 0 | Inr n \<Rightarrow> of_bool (q = RId (-1) n))"
    using i by (auto simp: kvalue_def kcall_def Let_def split: sum.splits)
  have free: "balance (w_trace (kvoid Kfree [m] w0)) q = balance (w_trace w0) q - of_bool (q = RMem m)"
    "balance (w_trace (kvoid Ida_simple_remove [n] w0)) q = balance (w_trace w0) q - of_bool (q = RId (-1) n)"
    for m n w0 by (simp_all add: kvoid_def ret_val_def)
  show ?thesis
  proof (cases "\<exists>self n. r1 = Inr self \<and> r2 = Inr n")
    case False
    then consider e where "r1 = Inl e" | self e where "r1 = Inr self" "r2 = Inl e" by (cases r1; cases r2) auto
    then show ?thesis
      by cases (use assms ok k i b1 b2 free in \<open>auto simp: fpga_mgr_register_def\<close>)
  next
    case True
    then obtain self n where r: "r1 = Inr self" "r2 = Inr n" by blast
    obtain r3 w3 where s: "kstatus (Kfn ''dev_set_name'') [self, n] w2 = (r3, w3)" by (metis surj_pair)
    have b3: "balance (w_trace w3) q = balance (w_trace w2) q"
      using s by (auto simp: kstatus_def kcall_def Let_def named_pairs_def split: sum.splits)
    obtain r4 w4 where a: "kstatus Device_add [self] w3 = (r4, w4)" by (metis surj_pair)
    have b4: "balance (w_trace w4) q = balance (w_trace w3) q + (case r4 of Inl _ \<Rightarrow> 0 | Inr _ \<Rightarrow> of_bool (q = RDevice self))"
      using a by (auto simp: kstatus_def kcall_def Let_def ret_val_def split: sum.splits)
    show ?thesis
    proof (cases r3)
      case (Inl e)
      with assms ok k i r s b1 b2 b3 show ?thesis by (auto simp: fpga_mgr_register_def free)
    next
      case (Inr u)
      show ?thesis
      proof (cases r4)
        case (Inl e)
        with assms ok k i r s a b1 b2 b3 b4 \<open>r3 = Inr u\<close> show ?thesis by (auto simp: fpga_mgr_register_def free)
      next
        case (Inr v)
        with assms ok k i r s a b1 b2 b3 b4 \<open>r3 = Inr u\<close> show ?thesis
          by (auto simp: fpga_mgr_register_def mgr_hold_def)
      qed
    qed
  qed
qed

lemma unregister_balance:
  assumes "mo_fpga_remove (fm_mops mgr) = None" and "fpga_mgr_unregister mgr w = (mgr', w')"
  shows "balance (w_trace (fpga_mgr_dev_release mgr' w')) q = balance (w_trace w) q - mgr_hold q mgr"
  using assms
  by (auto simp: fpga_mgr_unregister_def fpga_mgr_dev_release_def kvoid_def ret_val_def mgr_hold_def of_bool_def)

end
