(* ===== verification/Fme_Data.thy ===== *)
theory Fme_Data
  imports Fpga_Mgr Msix
begin

text \<open>
  The private data of an FME (\<^verbatim>\<open>struct fpga_fme\<close> of \<^verbatim>\<open>include/intel/fme.h\<close>), which the sub-features share.

  The private data of the FPGA manager is this structure, which points to the platform data it
  belongs to; in the model the operations work on the platform data with its private data. The
  manager itself is the driver data of the FME device; its part that is not the FME's own is kept in
  \<open>fme_mgr\<close>. The device that shows the errors and the roots of the performance counters are
  addresses.
\<close>

text \<open>
  An object of the performance counters: its address, its instance (or \<open>PERF_OBJ_ROOT_ID\<close>), the
  variable its attribute groups are in, and its children, newest first.
\<close>

datatype perf_object = Perf_object (po_self: int) (po_id: int) (po_groups: "string option")
  (po_children: "perf_object list")

definition PERF_OBJ_ROOT_ID :: int where "PERF_OBJ_ROOT_ID = -1"

record fpga_fme =
  fme_self :: int
  fme_port_id :: u8
  fme_pr_err :: u64
  fme_capability :: u32
  fme_pr_bandwidth :: int
  fme_pr_avx512 :: bool
  fme_dev_err :: "int option"
  fme_iperf_dev :: "perf_object option"
  fme_dperf_dev :: "perf_object option"
  fme_mgr :: "(int \<times> int \<times> fpga_mgr_states) option"

type_synonym fme_pdata = "fpga_fme feature_platform_data"

definition zero_fme :: fpga_fme where
  "zero_fme = \<lparr>fme_self = 0, fme_port_id = 0, fme_pr_err = 0, fme_capability = 0, fme_pr_bandwidth = 0,
     fme_pr_avx512 = False, fme_dev_err = None, fme_iperf_dev = None, fme_dperf_dev = None, fme_mgr = None\<rparr>"

definition the_fme :: "fme_pdata \<Rightarrow> fpga_fme" where
  "the_fme pd = (case fpga_pdata_get_private pd of None \<Rightarrow> zero_fme | Some fme \<Rightarrow> fme)"

definition set_fme :: "fpga_fme \<Rightarrow> fme_pdata \<Rightarrow> fme_pdata" where
  "set_fme fme pd = fpga_pdata_set_private pd (Some fme)"

definition FPGA_FME_CAP_ERR_IRQ :: u32 where "FPGA_FME_CAP_ERR_IRQ = 1"

lemma the_fme_set [simp]: "the_fme (set_fme fme pd) = fme"
  by (simp add: the_fme_def set_fme_def fpga_pdata_get_private_def fpga_pdata_set_private_def)

lemma set_fme_set [simp]: "set_fme fme (set_fme fme' pd) = set_fme fme pd"
  by (simp add: set_fme_def fpga_pdata_set_private_def)

end
