(* ===== verification/Fme_Pr.thy ===== *)
theory Fme_Pr
  imports Fme_Data Pcie_Ports
begin

text \<open>
  Partial reconfiguration (\<^verbatim>\<open>drivers/fpga/intel/fme-pr.c\<close>): the low level operations that push an
  image into the hardware under a scheme of credits, and the request that disables a port, loads the
  image and enables the port again.

  The variant with AVX-512 is modelled. A null port device, which the code follows, is the result
  \<open>None\<close>.
\<close>

subsection \<open>Constants and registers\<close>

definition pr_reg :: "'p feature_platform_data \<Rightarrow> string \<Rightarrow> u64" where
  "pr_reg pd n = reg_addr feature_fme_pr n (get_feature_ioaddr_by_index pd FME_FEATURE_ID_PR_MGMT)"

definition PR_WAIT_TIMEOUT :: nat where "PR_WAIT_TIMEOUT = 8000000"
definition PR_HOST_STATUS_IDLE :: u64 where "PR_HOST_STATUS_IDLE = 0"

subsection \<open>Attributes\<close>

definition pr_revision_show :: "fme_pdata \<Rightarrow> world \<Rightarrow> u64 \<times> world" where
  "pr_revision_show pd w =
     (case readq (pr_reg pd ''header'') w of (csr, w1) \<Rightarrow> (get_field feature_header ''revision'' csr, w1))"

text \<open>The high and the low half, which the code prints one after the other.\<close>

definition interface_id_show :: "fme_pdata \<Rightarrow> world \<Rightarrow> (u64 \<times> u64) \<times> world" where
  "interface_id_show pd w =
     (case readq (pr_reg pd ''fme_pr_intfc_id_l'') w of
        (l, w1) \<Rightarrow> (case readq (pr_reg pd ''fme_pr_intfc_id_h'') w1 of (h, w2) \<Rightarrow> ((h, l), w2)))"

subsection \<open>The operations of the manager\<close>

definition pr_err_handle :: "fme_pdata \<Rightarrow> world \<Rightarrow> u64 \<times> world" where
  "pr_err_handle pd w =
     (case readq (pr_reg pd ''ccip_fme_pr_status'') w of
        (csr, w1) \<Rightarrow>
          if get_field feature_fme_pr_status ''pr_status'' csr = 0 then (0, w1)
          else
            (case readq (pr_reg pd ''ccip_fme_pr_err'') w1 of
               (err, w2) \<Rightarrow> (err, writeq err (pr_reg pd ''ccip_fme_pr_err'') w2)))"

definition fme_pr_write_init :: "fpga_image_info \<Rightarrow> u8 list \<Rightarrow> fme_pdata mgr_call" where
  "fme_pr_write_init info buf pd w =
     (if get_feature_ioaddr_by_index pd FME_FEATURE_ID_PR_MGMT = 0 then (Inl EINVAL, pd, w)
      else if ii_flags info \<noteq> FPGA_MGR_PARTIAL_RECONFIG then (Inl EINVAL, pd, w)
      else
        (case readq (pr_reg pd ''ccip_fme_pr_control'') w of
           (csr, w1) \<Rightarrow>
             let ctl = set_field feature_fme_pr_ctl ''pr_reset'' 1 csr;
                 w2 = writeq ctl (pr_reg pd ''ccip_fme_pr_control'') w1
             in (case fpga_wait_register_field feature_fme_pr_ctl ''pr_reset_ack''
                        (set_field feature_fme_pr_ctl ''pr_reset_ack'' 1 ctl)
                        (pr_reg pd ''ccip_fme_pr_control'') PR_WAIT_TIMEOUT 1 w2 of
                   (Inl _, w3) \<Rightarrow> (Inl ETIMEDOUT, pd, w3)
                 | (Inr _, w3) \<Rightarrow>
                     (case readq (pr_reg pd ''ccip_fme_pr_control'') w3 of
                        (csr1, w4) \<Rightarrow>
                          let w5 = writeq (set_field feature_fme_pr_ctl ''pr_reset'' 0 csr1)
                                     (pr_reg pd ''ccip_fme_pr_control'') w4
                          in (case fpga_wait_register_field feature_fme_pr_status ''pr_host_status''
                                     (set_field feature_fme_pr_status ''pr_host_status'' PR_HOST_STATUS_IDLE 0)
                                     (pr_reg pd ''ccip_fme_pr_status'') PR_WAIT_TIMEOUT 1 w5 of
                                (Inl _, w6) \<Rightarrow> (Inl ETIMEDOUT, pd, w6)
                              | (Inr _, w6) \<Rightarrow> (Inr (), pd, snd (pr_err_handle pd w6)))))))"

text \<open>
  The inner loop: waiting for more than one credit. The counter of tries goes on from one wait to
  the next; the result is the credit, or nothing when the tries are used up.
\<close>

function wait_credit :: "fme_pdata \<Rightarrow> nat \<Rightarrow> u64 \<Rightarrow> world \<Rightarrow> u64 option \<times> nat \<times> world" where
  "wait_credit pd delay credit w =
     (if 1 < credit then (Some credit, delay, w)
      else if PR_WAIT_TIMEOUT < delay then (None, Suc delay, w)
      else
        (case readq (pr_reg pd ''ccip_fme_pr_status'') (udelay 1 w) of
           (csr, w1) \<Rightarrow>
             wait_credit pd (Suc delay) (get_field feature_fme_pr_status ''pr_credit'' csr) w1))"
  by pat_completeness auto

termination
  by (relation "measure (\<lambda>(pd, delay, credit, w). Suc PR_WAIT_TIMEOUT - delay)") auto

declare wait_credit.simps [simp del]

definition le32 :: "u8 list \<Rightarrow> u64" where
  "le32 bs = fold (\<lambda>i v. v OR push_bit (8 * i) (ucast (bs ! i))) [0..<4] 0"

definition copy512 :: "u8 list \<Rightarrow> u64 \<Rightarrow> world \<Rightarrow> world" where
  "copy512 src dst w = emit (Wr512 dst src) w"

text \<open>Pushing the first \<open>bw\<close> bytes; no other width can be pushed.\<close>

definition push_data :: "fme_pdata \<Rightarrow> int \<Rightarrow> u8 list \<Rightarrow> world \<Rightarrow> world option" where
  "push_data pd bw buf w =
     (if bw = 4 then
        Some (writeq (set_field feature_fme_pr_data ''pr_data_raw'' (le32 (take 4 buf)) 0)
          (pr_reg pd ''ccip_fme_pr_data'') w)
      else if bw = 64 then Some (copy512 (take 64 buf) (pr_reg pd ''fme_pr_data1'') w)
      else None)"

text \<open>
  The outer loop; the byte count is the length of the buffer. The comparison with the bandwidth is
  one of unsigned numbers.
\<close>

function push_image ::
  "fme_pdata \<Rightarrow> nat \<Rightarrow> u64 \<Rightarrow> u8 list \<Rightarrow> world \<Rightarrow> unit res \<times> fme_pdata \<times> world" where
  "push_image pd delay credit buf w =
     (if buf = [] then (Inr (), pd, w)
      else
        (case wait_credit pd delay credit w of
           (None, _, w1) \<Rightarrow>
             (case pr_err_handle pd w1 of
                (err, w2) \<Rightarrow>
                  (Inl (if err \<noteq> 0 then EIO else ETIMEDOUT),
                   set_fme ((the_fme pd)\<lparr>fme_pr_err := err\<rparr>) pd, w2))
         | (Some credit1, delay1, w1) \<Rightarrow>
             let bw = fme_pr_bandwidth (the_fme pd) in
             if bw mod 2 ^ 64 \<le> int (length buf) then
               (case push_data pd bw buf w1 of
                  None \<Rightarrow> (Inl EFAULT, pd, w1)
                | Some w2 \<Rightarrow> push_image pd delay1 (credit1 - 1) (drop (nat bw) buf) w2)
             else (Inl EINVAL, pd, w1)))"
  by pat_completeness auto

termination
  by (relation "measure (\<lambda>(pd, delay, credit, buf, w). length buf)")
    (auto simp: push_data_def split: if_splits)

declare push_image.simps [simp del]

definition fme_pr_write :: "u8 list \<Rightarrow> fme_pdata mgr_call" where
  "fme_pr_write buf pd w =
     (case readq (pr_reg pd ''ccip_fme_pr_control'') w of
        (csr, w1) \<Rightarrow>
          let ctl = set_field feature_fme_pr_ctl ''pr_start_req'' 1
                (set_field feature_fme_pr_ctl ''pr_regionid'' (ucast (fme_port_id (the_fme pd))) csr);
              w2 = writeq ctl (pr_reg pd ''ccip_fme_pr_control'') w1
          in (case readq (pr_reg pd ''ccip_fme_pr_status'') w2 of
                (sts, w3) \<Rightarrow>
                  let avx = fme_pr_avx512 (the_fme pd);
                      w4 = (if avx then kvoid Kernel_fpu_begin [] w3 else w3)
                  in (case push_image pd 0 (get_field feature_fme_pr_status ''pr_credit'' sts) buf w4 of
                        (r, pd1, w5) \<Rightarrow> (r, pd1, if avx then kvoid Kernel_fpu_end [] w5 else w5))))"

definition fme_pr_write_complete :: "fpga_image_info \<Rightarrow> fme_pdata mgr_call" where
  "fme_pr_write_complete info pd w =
     (case readq (pr_reg pd ''ccip_fme_pr_control'') w of
        (csr, w1) \<Rightarrow>
          let ctl = set_field feature_fme_pr_ctl ''pr_push_complete'' 1 csr;
              w2 = writeq ctl (pr_reg pd ''ccip_fme_pr_control'') w1
          in (case fpga_wait_register_field feature_fme_pr_ctl ''pr_start_req''
                     (set_field feature_fme_pr_ctl ''pr_start_req'' 0 ctl)
                     (pr_reg pd ''ccip_fme_pr_control'') PR_WAIT_TIMEOUT 1 w2 of
                (Inl _, w3) \<Rightarrow> (Inl ETIMEDOUT, pd, w3)
              | (Inr _, w3) \<Rightarrow>
                  (case pr_err_handle pd w3 of
                     (err, w4) \<Rightarrow>
                       (if err \<noteq> 0 then Inl EIO else Inr (),
                        set_fme ((the_fme pd)\<lparr>fme_pr_err := err\<rparr>) pd, w4))))"

definition fme_pr_state :: "fme_pdata \<Rightarrow> fpga_mgr_states" where
  "fme_pr_state pd = FPGA_MGR_STATE_UNKNOWN"

definition fme_pr_ops :: "fme_pdata fpga_manager_ops" where
  "fme_pr_ops = \<lparr>mo_initial_header_size = 0, mo_state = Some fme_pr_state,
     mo_write_init = Some fme_pr_write_init, mo_write = Some fme_pr_write, mo_write_sg = None,
     mo_write_complete = Some fme_pr_write_complete, mo_fpga_remove = None\<rparr>"

subsection \<open>The request\<close>

record fpga_fme_port_pr =
  pr_argsz :: u32
  pr_flags :: u32
  pr_port_id :: u32
  pr_buffer_size :: u32
  pr_buffer_address :: u64
  pr_status :: u64

text \<open>The manager with the data of the FME, and the FME with the manager's state.\<close>

definition mgr_name :: string where "mgr_name = ''Intel FPGA Manager''"

definition the_mgr :: "fme_pdata \<Rightarrow> fme_pdata fpga_manager" where
  "the_mgr pd = (let (self, i, st) = the (fme_mgr (the_fme pd)) in
     \<lparr>fm_self = self, fm_id = i, fm_name = mgr_name, fm_state = st, fm_mops = fme_pr_ops, fm_priv = pd\<rparr>)"

definition set_mgr :: "fme_pdata fpga_manager \<Rightarrow> fme_pdata" where
  "set_mgr mgr = set_fme ((the_fme (fm_priv mgr))
     \<lparr>fme_mgr := Some (fm_self mgr, fm_id mgr, fm_state mgr)\<rparr>) (fm_priv mgr)"

text \<open>\<^verbatim>\<open>ALIGN\<close> on the 32-bit size, with a power of two.\<close>

definition align32 :: "u32 \<Rightarrow> u32 \<Rightarrow> u32" where
  "align32 x a = (x + (a - 1)) AND NOT (a - 1)"

text \<open>The image in the kernel's buffer: what was copied, followed by zeros.\<close>

definition padded :: "nat \<Rightarrow> int list \<Rightarrow> u8 list" where
  "padded n vs = take n (map word_of_int vs @ replicate n 0)"

text \<open>The part with the manager and the port: from \<^verbatim>\<open>fpga_mgr_get\<close> to \<^verbatim>\<open>fpga_mgr_put\<close>.\<close>

definition pr_load ::
  "mgr_kernel \<Rightarrow> int \<Rightarrow> u64 \<Rightarrow> u8 list \<Rightarrow> fpga_fme_port_pr \<Rightarrow> fme_pdata \<Rightarrow> 'p cci_drvdata \<Rightarrow> world \<Rightarrow>
   (unit res \<times> fpga_fme_port_pr \<times> fme_pdata \<times> 'p cci_drvdata \<times> world) option" where
  "pr_load k dev addr buf arg pd drv w =
     (case fpga_mgr_get dev w of
        (Inl e, w1) \<Rightarrow> Some (Inl e, arg, pd, drv, w1)
      | (Inr d, w1) \<Rightarrow>
          let pd1 = set_fme ((the_fme pd)\<lparr>fme_pr_err := 0, fme_port_id := ucast (pr_port_id arg)\<rparr>) pd in
          (case fpga_for_each_port drv (\<lambda>p. fpga_port_check_id p (uint (fme_port_id (the_fme pd1)))) w1 of
             (None, _) \<Rightarrow> None
           | (Some i, w2) \<Rightarrow>
               let port = drv_ports drv ! i in
               (case fpga_port_disable (dev_pdata port) w2 of
                  (_, pp1, w3) \<Rightarrow>
               (case fpga_mgr_buf_load k
                       \<lparr>ii_flags = FPGA_MGR_PARTIAL_RECONFIG, ii_enable_timeout_us = 0,
                        ii_disable_timeout_us = 0, ii_config_complete_timeout_us = 0\<rparr>
                       addr buf (the_mgr pd1) w3 of
                  (r, mgr, w4) \<Rightarrow>
               (case fpga_port_enable pp1 w4 of
                  (pp2, w5) \<Rightarrow>
                    Some (r, arg\<lparr>pr_status := fme_pr_err (the_fme (set_mgr mgr))\<rparr>, set_mgr mgr,
                      set_port i (port\<lparr>pl_pdata := Some pp2\<rparr>) drv,
                      fpga_mgr_put d (kvoid Put_device [pl_self port] w5)))))))"

text \<open>
  The rest under the lock. The result is also the structure that is copied back to the user, when
  it is.
\<close>

definition pr_locked ::
  "mgr_kernel \<Rightarrow> int \<Rightarrow> fpga_fme_port_pr \<Rightarrow> fme_pdata \<Rightarrow> 'p cci_drvdata \<Rightarrow> world \<Rightarrow>
   (unit res \<times> fpga_fme_port_pr \<times> fme_pdata \<times> 'p cci_drvdata \<times> world) option" where
  "pr_locked k dev arg pd drv w =
     (case fpga_pdata_get_private pd of
        None \<Rightarrow> Some (Inl EINVAL, arg, pd, drv, w)
      | Some fme \<Rightarrow>
          let len = align32 (pr_buffer_size arg) (word_of_int (fme_pr_bandwidth fme)) in
          (case kvalue Vzalloc [uint len] w of
             (Inl _, w1) \<Rightarrow> Some (Inl ENOMEM, arg, pd, drv, w1)
           | (Inr buf, w1) \<Rightarrow>
               (case kcall Copy_from_user [uint (pr_buffer_address arg), uint (pr_buffer_size arg)] w1 of
                  (Inl _, w2) \<Rightarrow> Some (Inl EFAULT, arg, pd, drv, kvoid Vfree [buf] w2)
                | (Inr vs, w2) \<Rightarrow>
                    (case pr_load k dev (word_of_int buf) (padded (unat len) vs) arg pd drv w2 of
                       None \<Rightarrow> None
                     | Some (r, arg1, pd1, drv1, w3) \<Rightarrow> Some (r, arg1, pd1, drv1, kvoid Vfree [buf] w3)))))"

definition fme_pr ::
  "mgr_kernel \<Rightarrow> int \<Rightarrow> fpga_fme_port_pr option \<Rightarrow> fme_pdata \<Rightarrow> 'p cci_drvdata \<Rightarrow> world \<Rightarrow>
   (unit res \<times> fpga_fme_port_pr option \<times> fme_pdata \<times> 'p cci_drvdata \<times> world) option" where
  "fme_pr k dev uarg pd drv w =
     (case uarg of
        None \<Rightarrow> Some (Inl EFAULT, None, pd, drv, w)
      | Some arg \<Rightarrow>
          if pr_argsz arg < 32 \<or> pr_flags arg \<noteq> 0 then Some (Inl EINVAL, uarg, pd, drv, w)
          else if get_feature_ioaddr_by_index pd FME_FEATURE_ID_HEADER = 0
          then Some (Inl EINVAL, uarg, pd, drv, w)
          else
            (case readq (reg_addr feature_fme_header ''capability''
                     (get_feature_ioaddr_by_index pd FME_FEATURE_ID_HEADER)) w of
               (cap, w1) \<Rightarrow>
                 if get_field feature_fme_capability ''num_ports'' cap \<le> ucast (pr_port_id arg)
                 then Some (Inl EINVAL, uarg, pd, drv, w1)
                 else
                   (case kstatus Access_ok [uint (pr_buffer_address arg), uint (pr_buffer_size arg)] w1 of
                      (Inl _, w2) \<Rightarrow> Some (Inl EFAULT, uarg, pd, drv, w2)
                    | (Inr _, w2) \<Rightarrow>
                        (case pr_locked k dev arg pd drv w2 of
                           None \<Rightarrow> None
                         | Some (r, arg1, pd1, drv1, w3) \<Rightarrow>
                             (case kstatus Copy_to_user [uint (pr_status arg1)] w3 of
                                (Inl _, w4) \<Rightarrow> Some (Inl EFAULT, uarg, pd1, drv1, w4)
                              | (Inr _, w4) \<Rightarrow> Some (r, Some arg1, pd1, drv1, w4))))))"

subsection \<open>Probe and remove of the sub-feature\<close>

definition fpga_fme_pr_probe :: "fme_pdata \<Rightarrow> world \<Rightarrow> unit res \<times> fme_pdata \<times> world" where
  "fpga_fme_pr_probe pd w =
     (case readq (pr_reg pd ''header'') w of
        (csr, w1) \<Rightarrow>
          let fme = (if get_field feature_header ''revision'' csr = 2
                     then (the_fme pd)\<lparr>fme_pr_bandwidth := 64, fme_pr_avx512 := True\<rparr>
                     else (the_fme pd)\<lparr>fme_pr_bandwidth := 4\<rparr>);
              pd1 = set_fme fme pd
          in (case fpga_mgr_register mgr_name fme_pr_ops pd1 w1 of
                (Inl e, w2) \<Rightarrow> (Inl e, pd1, w2)
              | (Inr mgr, w2) \<Rightarrow> (Inr (), set_mgr mgr, w2)))"

text \<open>The last reference to the manager is the one that unregistering it gives up.\<close>

definition fpga_fme_pr_remove :: "fme_pdata \<Rightarrow> world \<Rightarrow> fme_pdata \<times> world" where
  "fpga_fme_pr_remove pd w =
     (case fpga_mgr_unregister (the_mgr pd) w of
        (mgr, w1) \<Rightarrow> (set_fme ((the_fme pd)\<lparr>fme_mgr := None\<rparr>) pd, fpga_mgr_dev_release mgr w1))"

definition pr_mgmt_init :: "nat \<Rightarrow> fme_pdata \<Rightarrow> world \<Rightarrow> unit res \<times> fme_pdata \<times> world" where
  "pr_mgmt_init i pd w =
     (case fpga_fme_pr_probe pd w of
        (Inl e, pd1, w1) \<Rightarrow> (Inl e, pd1, w1)
      | (Inr _, pd1, w1) \<Rightarrow>
          (case kstatus Sysfs_create [] w1 of
             (Inl e, w2) \<Rightarrow> (case fpga_fme_pr_remove pd1 w2 of (pd2, w3) \<Rightarrow> (Inl e, pd2, w3))
           | (Inr _, w2) \<Rightarrow> (Inr (), pd1, w2)))"

definition pr_mgmt_uinit :: "nat \<Rightarrow> fme_pdata \<Rightarrow> world \<Rightarrow> fme_pdata \<times> world" where
  "pr_mgmt_uinit i pd w = fpga_fme_pr_remove pd (kvoid Sysfs_remove [] w)"

end
