(* ===== verification/Fme_Pr_Push.thy ===== *)
theory Fme_Pr_Push
  imports Fme_Pr
begin

text \<open>
  What a partial reconfiguration does, from the words pushed into the hardware up to the whole
  request. \<open>pr_run\<close> says of a stretch of register accesses which bytes it pushes and that it keeps
  within the credit; the operations of \<^verbatim>\<open>fme_pr_ops\<close> fill the two interfaces of the manager core,
  which then gives the load, and the load gives the request.
\<close>

subsection \<open>What the hardware gets\<close>

text \<open>
  The bytes that one event pushes: a write of the data register carries four, a wide store to the
  first of the wide data registers 64. \<open>pr_sink\<close> is everything pushed so far.
\<close>

definition unle32 :: "u64 \<Rightarrow> u8 list" where
  "unle32 v = map (\<lambda>i. ucast (drop_bit (8 * i) v)) [0..<4]"

definition pr_bytes :: "u64 \<Rightarrow> u64 \<Rightarrow> event \<Rightarrow> u8 list" where
  "pr_bytes d d512 e = (case e of
      WrQ a v \<Rightarrow> if a = d then unle32 v else []
    | Wr512 a bs \<Rightarrow> if a = d512 then bs else []
    | _ \<Rightarrow> [])"

definition pr_pushed :: "u64 \<Rightarrow> u64 \<Rightarrow> event list \<Rightarrow> u8 list" where
  "pr_pushed d d512 es = concat (map (pr_bytes d d512) es)"

definition pr_sink :: "'p feature_platform_data \<Rightarrow> world \<Rightarrow> u8 list" where
  "pr_sink pd w = pr_pushed (pr_reg pd ''ccip_fme_pr_data'') (pr_reg pd ''fme_pr_data1'') (rev (w_trace w))"

text \<open>
  The credit the driver may count on while it pushes: what the last read of the status said less
  one for every push since. \<open>credit_ok\<close>: every push is made with more than one credit left.
\<close>

definition credit_of :: "u64 \<Rightarrow> u64" where
  "credit_of csr = get_field feature_fme_pr_status ''pr_credit'' csr"

definition next_credit :: "u64 \<Rightarrow> u64 \<Rightarrow> u64 \<Rightarrow> u64 \<Rightarrow> event \<Rightarrow> u64" where
  "next_credit st d d512 c e = (case e of
      RdQ a v \<Rightarrow> if a = st then credit_of v else c
    | _ \<Rightarrow> if pr_bytes d d512 e \<noteq> [] then c - 1 else c)"

fun credit_ok :: "u64 \<Rightarrow> u64 \<Rightarrow> u64 \<Rightarrow> u64 \<Rightarrow> event list \<Rightarrow> bool" where
  "credit_ok st d d512 c [] = True"
| "credit_ok st d d512 c (e # es) =
     ((pr_bytes d d512 e \<noteq> [] \<longrightarrow> 1 < c) \<and> credit_ok st d d512 (next_credit st d d512 c e) es)"

lemma credit_ok_append [simp]:
  "credit_ok st d d512 c (xs @ ys) \<longleftrightarrow>
   credit_ok st d d512 c xs \<and> credit_ok st d d512 (foldl (next_credit st d d512) c xs) ys"
  by (induction xs arbitrary: c) auto

lemma pr_bytes_simps [simp]:
  "pr_bytes d d512 (RdQ a v) = []" "pr_bytes d d512 (Udelay n) = []" "pr_bytes d d512 (Call f xs r) = []"
  "pr_bytes d d512 (WrQ a v) = (if a = d then unle32 v else [])"
  "pr_bytes d d512 (Wr512 a bs) = (if a = d512 then bs else [])"
  by (simp_all add: pr_bytes_def)

lemma pr_pushed_simps [simp]:
  "pr_pushed d d512 [] = []"
  "pr_pushed d d512 (e # es) = pr_bytes d d512 e @ pr_pushed d d512 es"
  "pr_pushed d d512 (xs @ ys) = pr_pushed d d512 xs @ pr_pushed d d512 ys"
  by (simp_all add: pr_pushed_def)

lemma pr_sink_emit: "pr_sink pd (emit e w) =
    pr_sink pd w @ pr_bytes (pr_reg pd ''ccip_fme_pr_data'') (pr_reg pd ''fme_pr_data1'') e"
  by (simp add: pr_sink_def)

lemma unle32_not_Nil [simp]: "unle32 v \<noteq> []"
  by (simp add: unle32_def upt_rec)

lemma raw_data: "field_pos feature_fme_pr_data ''pr_data_raw'' = Some (0, 32)"
  by (simp add: feature_fme_pr_data_def)

lemma unle32_le32:
  assumes "length bs = 4"
  shows "unle32 (set_field feature_fme_pr_data ''pr_data_raw'' (le32 bs) 0) = bs"
proof -
  obtain a b c d where bs: "bs = [a, b, c, d]"
    using assms by (auto simp: numeral_eq_Suc length_Suc_conv)
  have le: "le32 bs = ucast a OR push_bit 8 (ucast b) OR push_bit 16 (ucast c) OR push_bit 24 (ucast d)"
    by (simp add: le32_def bs upt_rec numeral_eq_Suc or.assoc)
  have v: "set_field feature_fme_pr_data ''pr_data_raw'' (le32 bs) 0 = take_bit 32 (le32 bs)"
    by (simp add: set_field_def raw_data)
  have "(ucast (drop_bit (8 * i) (take_bit 32 (le32 bs))) :: u8) = bs ! i" if "i < 4" for i
  proof (rule bit_word_eqI)
    fix n assume n: "n < LENGTH(8)"
    from that consider "i = 0" | "i = 1" | "i = 2" | "i = 3" by linarith
    then show "bit (ucast (drop_bit (8 * i) (take_bit 32 (le32 bs))) :: u8) n \<longleftrightarrow> bit (bs ! i) n"
      by cases (use n in \<open>auto simp: le [unfolded bs] bs bit_simps dest: bit_imp_le_length\<close>)
  qed
  then have "unle32 (set_field feature_fme_pr_data ''pr_data_raw'' (le32 bs) 0) = map ((!) bs) [0..<4]"
    by (simp add: unle32_def v)
  also have "\<dots> = bs" using assms map_nth [of bs] by simp
  finally show ?thesis .
qed

text \<open>The registers of the block are at different addresses, and the private data does not move them.\<close>

lemma pr_reg_set_fme [simp]: "pr_reg (set_fme fme pd) n = pr_reg pd n"
  by (simp add: pr_reg_def set_fme_def fpga_pdata_set_private_def get_feature_ioaddr_by_index_def)

lemma pr_sink_set_fme [simp]: "pr_sink (set_fme fme pd) w = pr_sink pd w"
  by (simp add: pr_sink_def)

lemmas pr_offsets = pr_reg_def reg_addr_def feature_fme_pr_def sizeof_csr_def layout_width_def
  feature_header_def feature_fme_pr_ctl_def feature_fme_pr_status_def feature_fme_pr_data_def

lemma pr_regs_distinct [simp]:
  "pr_reg pd ''ccip_fme_pr_control'' \<noteq> pr_reg pd ''ccip_fme_pr_data''"
  "pr_reg pd ''ccip_fme_pr_err'' \<noteq> pr_reg pd ''ccip_fme_pr_data''"
  "pr_reg pd ''ccip_fme_pr_status'' \<noteq> pr_reg pd ''ccip_fme_pr_err''"
  by (simp_all add: pr_offsets)


subsection \<open>Pushing an image\<close>

text \<open>An event that neither takes nor gives back a resource.\<close>

definition takes_nothing :: "event \<Rightarrow> bool" where
  "takes_nothing e \<longleftrightarrow> acquired e = {#} \<and> released e = {#}"

lemma takes_nothing_simps [simp]:
  "takes_nothing (RdQ a v)" "takes_nothing (WrQ a v)" "takes_nothing (Udelay n)" "takes_nothing (Wr512 a bs)"
  "takes_nothing (Call Kernel_fpu_begin xs r)" "takes_nothing (Call Kernel_fpu_end xs r)"
  by (cases r; simp add: takes_nothing_def)+

lemma takes_nothing_balance: "\<forall>e \<in> set es. takes_nothing e \<Longrightarrow> balance es q = 0"
  by (induction es) (auto simp: takes_nothing_def)

text \<open>
  Events that take nothing and push the bytes \<open>bs\<close> within the credit: with \<open>c\<close>
  credits counted on at the start and \<open>c'\<close> at the end.
\<close>

definition pr_run :: "'p feature_platform_data \<Rightarrow> u64 \<Rightarrow> world \<Rightarrow> world \<Rightarrow> u8 list \<Rightarrow> u64 \<Rightarrow> bool" where
  "pr_run pd c w w' bs c' \<longleftrightarrow> (\<exists>es. w' = w\<lparr>w_trace := rev es @ w_trace w\<rparr> \<and> (\<forall>e \<in> set es. takes_nothing e) \<and>
     pr_pushed (pr_reg pd ''ccip_fme_pr_data'') (pr_reg pd ''fme_pr_data1'') es = bs \<and>
     credit_ok (pr_reg pd ''ccip_fme_pr_status'') (pr_reg pd ''ccip_fme_pr_data'') (pr_reg pd ''fme_pr_data1'') c es \<and>
     foldl (next_credit (pr_reg pd ''ccip_fme_pr_status'') (pr_reg pd ''ccip_fme_pr_data'') (pr_reg pd ''fme_pr_data1''))
       c es = c')"

lemma pr_run_refl [simp]: "pr_run pd c w w [] c"
  unfolding pr_run_def by (intro exI [where x = "[]"]) simp

lemma pr_run_trans:
  assumes "pr_run pd c w w1 bs c1" and "pr_run pd c1 w1 w2 bs' c2"
  shows "pr_run pd c w w2 (bs @ bs') c2"
proof -
  from assms(1) obtain es where e: "w1 = w\<lparr>w_trace := rev es @ w_trace w\<rparr>" "\<forall>e \<in> set es. takes_nothing e"
    "pr_pushed (pr_reg pd ''ccip_fme_pr_data'') (pr_reg pd ''fme_pr_data1'') es = bs"
    "credit_ok (pr_reg pd ''ccip_fme_pr_status'') (pr_reg pd ''ccip_fme_pr_data'') (pr_reg pd ''fme_pr_data1'') c es"
    "foldl (next_credit (pr_reg pd ''ccip_fme_pr_status'') (pr_reg pd ''ccip_fme_pr_data'')
       (pr_reg pd ''fme_pr_data1'')) c es = c1"
    by (auto simp: pr_run_def)
  from assms(2) obtain es' where e': "w2 = w1\<lparr>w_trace := rev es' @ w_trace w1\<rparr>" "\<forall>e \<in> set es'. takes_nothing e"
    "pr_pushed (pr_reg pd ''ccip_fme_pr_data'') (pr_reg pd ''fme_pr_data1'') es' = bs'"
    "credit_ok (pr_reg pd ''ccip_fme_pr_status'') (pr_reg pd ''ccip_fme_pr_data'') (pr_reg pd ''fme_pr_data1'') c1 es'"
    "foldl (next_credit (pr_reg pd ''ccip_fme_pr_status'') (pr_reg pd ''ccip_fme_pr_data'')
       (pr_reg pd ''fme_pr_data1'')) c1 es' = c2"
    by (auto simp: pr_run_def)
  show ?thesis
    unfolding pr_run_def by (intro exI [where x = "es @ es'"]) (use e e' in auto)
qed

lemma pr_run_emit:
  assumes "takes_nothing e"
    and "pr_bytes (pr_reg pd ''ccip_fme_pr_data'') (pr_reg pd ''fme_pr_data1'') e = bs" and "bs \<noteq> [] \<Longrightarrow> 1 < c"
    and "next_credit (pr_reg pd ''ccip_fme_pr_status'') (pr_reg pd ''ccip_fme_pr_data'') (pr_reg pd ''fme_pr_data1'') c e = c'"
  shows "pr_run pd c w (emit e w) bs c'"
  unfolding pr_run_def by (intro exI [where x = "[e]"]) (use assms in \<open>auto simp: emit_def\<close>)

lemma pr_run_udelay: "pr_run pd c w (udelay n w) [] c"
  by (auto simp: udelay_def next_credit_def intro!: pr_run_emit)

lemma pr_run_status: "readq (pr_reg pd ''ccip_fme_pr_status'') w = (v, w') \<Longrightarrow> pr_run pd c w w' [] (credit_of v)"
  by (auto simp: readq_def Let_def next_credit_def intro!: pr_run_emit)

lemma pr_run_writeq: "a \<noteq> pr_reg pd ''ccip_fme_pr_data'' \<Longrightarrow> pr_run pd c w (writeq v a w) [] c"
  by (auto simp: writeq_def next_credit_def intro!: pr_run_emit)

lemma pr_run_readq: "readq a w = (v, w') \<Longrightarrow> \<exists>c'. pr_run pd c w w' [] c'"
  by (auto simp: readq_def Let_def intro!: pr_run_emit exI)

lemma pr_run_wait:
  "wait_credit pd delay credit w = (r, delay', w') \<Longrightarrow>
   \<exists>c. pr_run pd credit w w' [] c \<and> (\<forall>c'. r = Some c' \<longrightarrow> c' = c \<and> 1 < c)"
proof (induction pd delay credit w rule: wait_credit.induct)
  case (1 pd delay credit w)
  obtain csr w1 where rd: "readq (pr_reg pd ''ccip_fme_pr_status'') (udelay 1 w) = (csr, w1)" by (metis surj_pair)
  show ?case
  proof (cases "1 < credit \<or> PR_WAIT_TIMEOUT < delay")
    case True
    with 1(2) show ?thesis
      by (auto simp: wait_credit.simps [of pd delay credit w] intro: exI [where x = credit] split: if_splits)
  next
    case False
    then have "wait_credit pd (Suc delay) (credit_of csr) w1 = (r, delay', w')"
      using 1(2) rd by (simp add: wait_credit.simps [of pd delay credit w] credit_of_def)
    then obtain c where c: "pr_run pd (credit_of csr) w1 w' [] c" "\<forall>c'. r = Some c' \<longrightarrow> c' = c \<and> 1 < c"
      using 1(1) False rd by (metis credit_of_def)
    have "pr_run pd credit w w1 ([] @ []) (credit_of csr)"
      by (rule pr_run_trans [OF pr_run_udelay pr_run_status [OF rd]])
    from pr_run_trans [OF this c(1)] c(2) show ?thesis by auto
  qed
qed

lemma pr_run_err: "pr_err_handle pd w = (err, w') \<Longrightarrow> \<exists>c'. pr_run pd c w w' [] c'"
proof -
  assume run: "pr_err_handle pd w = (err, w')"
  obtain csr w1 where st: "readq (pr_reg pd ''ccip_fme_pr_status'') w = (csr, w1)" by (metis surj_pair)
  obtain e w2 where er: "readq (pr_reg pd ''ccip_fme_pr_err'') w1 = (e, w2)" by (metis surj_pair)
  note s = pr_run_status [OF st, of c]
  obtain c2 where c2: "pr_run pd (credit_of csr) w1 w2 [] c2" using pr_run_readq [OF er] by blast
  have "pr_run pd c2 w2 (writeq e (pr_reg pd ''ccip_fme_pr_err'') w2) [] c2" by (rule pr_run_writeq) simp
  from pr_run_trans [OF pr_run_trans [OF s c2] this] s run st er show ?thesis
    by (auto simp: pr_err_handle_def split: if_splits)
qed

lemma push_data_run:
  assumes "push_data pd bw buf w = Some w'" and "1 < c" and "bw mod 2 ^ 64 \<le> int (length buf)"
  shows "pr_run pd c w w' (take (nat bw) buf) (c - 1) \<and> bw \<in> {4, 64}"
  using assms
  by (auto simp: push_data_def copy512_def writeq_def next_credit_def unle32_le32
      intro!: pr_run_emit split: if_splits)

text \<open>
  Pushing keeps within the credit, whatever happens; when it succeeds it has pushed the buffer. The
  platform data changes in the error that is recorded only.
\<close>

lemma push_image_run:
  "push_image pd delay credit buf w = (r, pd', w') \<Longrightarrow>
   (\<exists>bs c. pr_run pd credit w w' bs c \<and> (r = Inr () \<longrightarrow> bs = buf)) \<and>
   (pd' = pd \<or> (\<exists>err. pd' = set_fme ((the_fme pd)\<lparr>fme_pr_err := err\<rparr>) pd))"
proof (induction pd delay credit buf w rule: push_image.induct)
  case (1 pd delay credit buf w)
  show ?case
  proof (cases "buf = []")
    case True
    have "r = Inr () \<and> pd' = pd \<and> w' = w"
      using 1(2) True push_image.simps [of pd delay credit buf w] by simp
    with True pr_run_refl show ?thesis by blast
  next
    case ne: False
    obtain r1 delay1 w1 where wt: "wait_credit pd delay credit w = (r1, delay1, w1)" by (metis surj_pair)
    then obtain c1 where c1: "pr_run pd credit w w1 [] c1" "\<forall>c'. r1 = Some c' \<longrightarrow> c' = c1 \<and> 1 < c1"
      using pr_run_wait [OF wt] by blast
    let ?bw = "fme_pr_bandwidth (the_fme pd)"
    show ?thesis
    proof (cases r1)
      case None
      obtain err w2 where eh: "pr_err_handle pd w1 = (err, w2)" by (metis surj_pair)
      obtain c2 where "pr_run pd c1 w1 w2 [] c2" using pr_run_err [OF eh] by blast
      from pr_run_trans [OF c1(1) this] 1(2) ne wt None eh show ?thesis
        by (auto simp: push_image.simps [of pd delay credit buf w])
    next
      case (Some credit1)
      then have cr: "credit1 = c1" "1 < c1" using c1(2) by auto
      show ?thesis
      proof (cases "?bw mod 2 ^ 64 \<le> int (length buf) \<and> push_data pd ?bw buf w1 \<noteq> None")
        case False
        with 1(2) ne wt Some c1(1) show ?thesis
          by (auto simp: push_image.simps [of pd delay credit buf w] Let_def split: if_splits option.splits)
      next
        case True
        then obtain w2 where pu: "push_data pd ?bw buf w1 = Some w2" by auto
        have rest: "push_image pd delay1 (c1 - 1) (drop (nat ?bw) buf) w2 = (r, pd', w')"
          using 1(2) ne wt Some True pu cr by (simp add: push_image.simps [of pd delay credit buf w] Let_def)
        have pr: "pr_run pd c1 w1 w2 (take (nat ?bw) buf) (c1 - 1)"
          using push_data_run [OF pu cr(2)] True by blast
        from 1(1) [OF ne wt [symmetric]] Some cr True pu rest
        obtain bs c where "pr_run pd (c1 - 1) w2 w' bs c" "r = Inr () \<longrightarrow> bs = drop (nat ?bw) buf"
          "pd' = pd \<or> (\<exists>err. pd' = set_fme ((the_fme pd)\<lparr>fme_pr_err := err\<rparr>) pd)"
          by fastforce
        with pr_run_trans [OF pr_run_trans [OF c1(1) pr]] show ?thesis
          by (metis append_Nil append_take_drop_id)
      qed
    qed
  qed
qed


lemma pr_run_balance: "pr_run pd c w w' bs c' \<Longrightarrow> same_balance w w'"
  using takes_nothing_balance by (fastforce simp: pr_run_def same_balance_def)

lemma pr_run_runs: "pr_run pd c w w' bs c' \<Longrightarrow> runs w w'"
  by (auto simp: pr_run_def runs_def)

lemma pr_run_sink: "pr_run pd c w w' bs c' \<Longrightarrow> pr_sink pd w' = pr_sink pd w @ bs"
  by (auto simp: pr_run_def pr_sink_def)

lemma pr_run_credit: "pr_run pd c w w' bs c' \<Longrightarrow>
    credit_ok (pr_reg pd ''ccip_fme_pr_status'') (pr_reg pd ''ccip_fme_pr_data'') (pr_reg pd ''fme_pr_data1'') c
      (events_between w w')"
  by (auto simp: pr_run_def events_between_def)

lemma pr_run_fpu:
  "pr_run pd c w (kvoid Kernel_fpu_begin [] w) [] c" "pr_run pd c w (kvoid Kernel_fpu_end [] w) [] c"
  by (auto simp: kvoid_def next_credit_def intro!: pr_run_emit)

lemma pr_run_wait_field:
  "wait_field_loop l n expect addr timeout invl wait w = (r, w') \<Longrightarrow> \<exists>c'. pr_run pd c w w' [] c'"
proof (induction l n expect addr timeout invl wait w arbitrary: c rule: wait_field_loop.induct)
  case (1 l n expect addr timeout invl wait w)
  obtain v w1 where rd: "readq addr w = (v, w1)" by (metis surj_pair)
  obtain c1 where c1: "pr_run pd c w w1 [] c1" using pr_run_readq [OF rd] by blast
  show ?case
  proof (cases "wait \<le> timeout \<and> 0 < invl \<and> get_field l n expect \<noteq> get_field l n v")
    case True
    then obtain c2 where "pr_run pd c1 (udelay invl w1) w' [] c2"
      using 1(1) [OF _ rd [symmetric]] 1(2) rd
      by (fastforce simp: wait_field_loop.simps [of l n expect addr timeout invl wait])
    with pr_run_trans [OF c1 pr_run_trans [OF pr_run_udelay]] show ?thesis by fastforce
  next
    case False
    then have "w' = w \<or> w' = w1"
      using 1(2) rd by (auto simp: wait_field_loop.simps [of l n expect addr timeout invl wait] split: if_splits)
    with c1 pr_run_refl show ?thesis by blast
  qed
qed

text \<open>An operation that touches the registers of the block and pushes nothing.\<close>

definition pr_idle :: "'p feature_platform_data \<Rightarrow> world \<Rightarrow> world \<Rightarrow> bool" where
  "pr_idle pd w w' \<longleftrightarrow> (\<forall>c. \<exists>c'. pr_run pd c w w' [] c')"

lemma pr_idle_trans: "pr_idle pd w w1 \<Longrightarrow> pr_idle pd w1 w2 \<Longrightarrow> pr_idle pd w w2"
  unfolding pr_idle_def using pr_run_trans by fastforce

lemma pr_idle_refl [simp]: "pr_idle pd w w"
  unfolding pr_idle_def using pr_run_refl by blast

lemma pr_idle_readq: "readq a w = (v, w') \<Longrightarrow> pr_idle pd w w'"
  unfolding pr_idle_def using pr_run_readq by blast

lemma pr_idle_writeq: "a \<noteq> pr_reg pd ''ccip_fme_pr_data'' \<Longrightarrow> pr_idle pd w (writeq v a w)"
  unfolding pr_idle_def using pr_run_writeq by blast

lemma pr_idle_wait: "fpga_wait_register_field l n expect addr timeout invl w = (r, w') \<Longrightarrow> pr_idle pd w w'"
  unfolding pr_idle_def fpga_wait_register_field_def using pr_run_wait_field by blast

lemma pr_idle_err: "pr_err_handle pd w = (err, w') \<Longrightarrow> pr_idle pd w w'"
  unfolding pr_idle_def using pr_run_err by blast

lemma write_init_idle:
  assumes "fme_pr_write_init info hdr pd w = (r, pd', w')"
  shows "pr_idle pd w w' \<and> pd' = pd"
proof -
  let ?ctl = "pr_reg pd ''ccip_fme_pr_control''"
  obtain csr w1 where 1: "readq ?ctl w = (csr, w1)" by (metis surj_pair)
  let ?v = "set_field feature_fme_pr_ctl ''pr_reset'' 1 csr"
  obtain r2 w3 where 2: "fpga_wait_register_field feature_fme_pr_ctl ''pr_reset_ack''
      (set_field feature_fme_pr_ctl ''pr_reset_ack'' 1 ?v) ?ctl PR_WAIT_TIMEOUT 1 (writeq ?v ?ctl w1) = (r2, w3)"
    by (metis surj_pair)
  obtain csr1 w4 where 3: "readq ?ctl w3 = (csr1, w4)" by (metis surj_pair)
  let ?w5 = "writeq (set_field feature_fme_pr_ctl ''pr_reset'' 0 csr1) ?ctl w4"
  obtain r5 w6 where 4: "fpga_wait_register_field feature_fme_pr_status ''pr_host_status''
      (set_field feature_fme_pr_status ''pr_host_status'' PR_HOST_STATUS_IDLE 0)
      (pr_reg pd ''ccip_fme_pr_status'') PR_WAIT_TIMEOUT 1 ?w5 = (r5, w6)" by (metis surj_pair)
  obtain err w7 where 5: "pr_err_handle pd w6 = (err, w7)" by (metis surj_pair)
  have "pr_idle pd w w3"
    by (rule pr_idle_trans [OF pr_idle_trans [OF pr_idle_readq [OF 1] pr_idle_writeq] pr_idle_wait [OF 2]]) simp
  moreover have "pr_idle pd w3 w6"
    by (rule pr_idle_trans [OF pr_idle_trans [OF pr_idle_readq [OF 3] pr_idle_writeq] pr_idle_wait [OF 4]]) simp
  ultimately show ?thesis
    using assms 1 2 3 4 5 pr_idle_err [OF 5]
    by (auto simp: fme_pr_write_init_def Let_def split: if_splits sum.splits intro: pr_idle_trans)
qed

lemma write_complete_idle:
  assumes "fme_pr_write_complete info pd w = (r, pd', w')"
  shows "pr_idle pd w w' \<and> (pd' = pd \<or> (\<exists>err. pd' = set_fme ((the_fme pd)\<lparr>fme_pr_err := err\<rparr>) pd))"
proof -
  let ?ctl = "pr_reg pd ''ccip_fme_pr_control''"
  obtain csr w1 where 1: "readq ?ctl w = (csr, w1)" by (metis surj_pair)
  let ?v = "set_field feature_fme_pr_ctl ''pr_push_complete'' 1 csr"
  obtain r2 w3 where 2: "fpga_wait_register_field feature_fme_pr_ctl ''pr_start_req''
      (set_field feature_fme_pr_ctl ''pr_start_req'' 0 ?v) ?ctl PR_WAIT_TIMEOUT 1 (writeq ?v ?ctl w1) = (r2, w3)"
    by (metis surj_pair)
  obtain err w4 where 3: "pr_err_handle pd w3 = (err, w4)" by (metis surj_pair)
  have "pr_idle pd w w3"
    by (rule pr_idle_trans [OF pr_idle_trans [OF pr_idle_readq [OF 1] pr_idle_writeq] pr_idle_wait [OF 2]]) simp
  then show ?thesis
    using assms 1 2 3 pr_idle_err [OF 3]
    by (auto simp: fme_pr_write_complete_def Let_def split: sum.splits intro: pr_idle_trans)
qed

lemma write_run:
  assumes "fme_pr_write buf pd w = (r, pd', w')"
  shows "(\<exists>bs c. pr_run pd 0 w w' bs c \<and> (r = Inr () \<longrightarrow> bs = buf)) \<and>
    (pd' = pd \<or> (\<exists>err. pd' = set_fme ((the_fme pd)\<lparr>fme_pr_err := err\<rparr>) pd))"
proof -
  let ?ctl = "pr_reg pd ''ccip_fme_pr_control''" and ?fpu = "fme_pr_avx512 (the_fme pd)"
  obtain csr w1 where 1: "readq ?ctl w = (csr, w1)" by (metis surj_pair)
  define w2 where "w2 = writeq (set_field feature_fme_pr_ctl ''pr_start_req'' 1
    (set_field feature_fme_pr_ctl ''pr_regionid'' (ucast (fme_port_id (the_fme pd))) csr)) ?ctl w1"
  obtain sts w3 where 2: "readq (pr_reg pd ''ccip_fme_pr_status'') w2 = (sts, w3)" by (metis surj_pair)
  define w4 where "w4 = (if ?fpu then kvoid Kernel_fpu_begin [] w3 else w3)"
  obtain r5 pd5 w5 where 3: "push_image pd 0 (credit_of sts) buf w4 = (r5, pd5, w5)" by (metis surj_pair)
  then obtain bs c where p: "pr_run pd (credit_of sts) w4 w5 bs c" "r5 = Inr () \<longrightarrow> bs = buf"
    and pd5: "pd5 = pd \<or> (\<exists>err. pd5 = set_fme ((the_fme pd)\<lparr>fme_pr_err := err\<rparr>) pd)"
    using push_image_run [OF 3] by blast
  obtain c1 where "pr_run pd 0 w w1 [] c1" using pr_run_readq [OF 1] by blast
  moreover have "pr_run pd c1 w1 w2 [] c1" unfolding w2_def by (rule pr_run_writeq) simp
  moreover note pr_run_status [OF 2, of c1]
  moreover have "pr_run pd (credit_of sts) w3 w4 [] (credit_of sts)" by (simp add: w4_def pr_run_fpu)
  ultimately have "pr_run pd 0 w w4 ([] @ [] @ [] @ []) (credit_of sts)" by (blast intro: pr_run_trans)
  from pr_run_trans [OF this p(1)] have "pr_run pd 0 w w5 bs c" by simp
  moreover have "pr_run pd c w5 (if ?fpu then kvoid Kernel_fpu_end [] w5 else w5) [] c" by (simp add: pr_run_fpu)
  ultimately have "pr_run pd 0 w (if ?fpu then kvoid Kernel_fpu_end [] w5 else w5) bs c"
    using pr_run_trans by fastforce
  moreover have "(r, pd', w') = (r5, pd5, if ?fpu then kvoid Kernel_fpu_end [] w5 else w5)"
    using assms 1 2 3 by (simp add: fme_pr_write_def Let_def w2_def w4_def credit_of_def)
  ultimately show ?thesis using p(2) pd5 by blast
qed


text \<open>The operations of the FME are such as the manager core asks for, in both ways.\<close>

lemma fme_pr_ops_complete [simp]: "mops_complete fme_pr_ops"
  by (simp add: mops_complete_def fme_pr_ops_def)

interpretation pr_push: pushing_ops fme_pr_ops "pr_sink :: fme_pdata \<Rightarrow> world \<Rightarrow> u8 list"
proof unfold_locales
  fix f info hdr s w s' w'
  assume "mo_write_init fme_pr_ops = Some f" and "f info hdr s w = (Inr (), s', w')"
  then have "fme_pr_write_init info hdr s w = (Inr (), s', w')" by (simp add: fme_pr_ops_def)
  from write_init_idle [OF this] show "pr_sink s' w' = pr_sink s w"
    by (auto simp: pr_idle_def dest!: spec [where x = 0] pr_run_sink)
next
  fix g buf s w s' w'
  assume "mo_write fme_pr_ops = Some g" and "g buf s w = (Inr (), s', w')"
  then have "fme_pr_write buf s w = (Inr (), s', w')" by (simp add: fme_pr_ops_def)
  from write_run [OF this] show "pr_sink s' w' = pr_sink s w @ buf"
    by (auto dest!: pr_run_sink)
next
  fix c info s w s' w'
  assume "mo_write_complete fme_pr_ops = Some c" and "c info s w = (Inr (), s', w')"
  then have "fme_pr_write_complete info s w = (Inr (), s', w')" by (simp add: fme_pr_ops_def)
  from write_complete_idle [OF this] show "pr_sink s' w' = pr_sink s w"
    by (auto simp: pr_idle_def dest!: spec [where x = 0] pr_run_sink)
qed (simp_all add: fme_pr_ops_def pr_sink_emit)

text \<open>They keep the resources, and change the recorded error only.\<close>

definition pr_keeps :: "fme_pdata \<Rightarrow> world \<Rightarrow> fme_pdata \<Rightarrow> world \<Rightarrow> bool" where
  "pr_keeps pd w pd' w' \<longleftrightarrow> same_balance w w' \<and> runs w w' \<and>
     (pd' = pd \<or> (\<exists>err. pd' = set_fme ((the_fme pd)\<lparr>fme_pr_err := err\<rparr>) pd))"

lemma pr_idle_balance: "pr_idle pd w w' \<Longrightarrow> same_balance w w'"
  by (auto simp: pr_idle_def dest!: spec [where x = 0] pr_run_balance)

lemma pr_idle_runs: "pr_idle pd w w' \<Longrightarrow> runs w w'"
  by (auto simp: pr_idle_def dest!: spec [where x = 0] pr_run_runs)

interpretation pr_keep: keeping_ops fme_pr_ops pr_keeps
proof unfold_locales
  fix f info hdr s w r s' w'
  assume "mo_write_init fme_pr_ops = Some f" and "f info hdr s w = (r, s', w')"
  then have "fme_pr_write_init info hdr s w = (r, s', w')" by (simp add: fme_pr_ops_def)
  from write_init_idle [OF this] show "pr_keeps s w s' w'" by (auto simp: pr_keeps_def intro: pr_idle_balance pr_idle_runs)
next
  fix g buf s w r s' w'
  assume "mo_write fme_pr_ops = Some g" and "g buf s w = (r, s', w')"
  then have "fme_pr_write buf s w = (r, s', w')" by (simp add: fme_pr_ops_def)
  from write_run [OF this] show "pr_keeps s w s' w'" by (auto simp: pr_keeps_def intro: pr_run_balance pr_run_runs)
next
  fix c info s w r s' w'
  assume "mo_write_complete fme_pr_ops = Some c" and "c info s w = (r, s', w')"
  then have "fme_pr_write_complete info s w = (r, s', w')" by (simp add: fme_pr_ops_def)
  from write_complete_idle [OF this] show "pr_keeps s w s' w'" by (auto simp: pr_keeps_def intro: pr_idle_balance pr_idle_runs)
qed (auto simp: pr_keeps_def intro: same_balance_trans runs_trans)

interpretation pr_balanced: balanced_ops q fme_pr_ops for q
proof unfold_locales
  show "mops_complete fme_pr_ops" by (simp add: fme_pr_ops_def mops_complete_def)
  have kept: "balance (w_trace (snd (snd x))) q = balance (w_trace w) q"
    if "pr_keeps s w (fst (snd x)) (snd (snd x))" for x :: "unit res \<times> fme_pdata \<times> world" and s w
    using that by (simp add: pr_keeps_def same_balance_def)
  show "ops_balanced q fme_pr_ops"
    unfolding ops_balanced_def low_balanced_def
  proof (intro conjI allI impI)
    show "balance (w_trace (snd (snd (f info hdr s w)))) q = balance (w_trace w) q"
      if "mo_write_init fme_pr_ops = Some f" for f info hdr s w
      by (rule kept [OF pr_keep.init_keeps [OF that, of info hdr s w "fst (f info hdr s w)"]]) simp
    show "balance (w_trace (snd (snd (g buf s w)))) q = balance (w_trace w) q"
      if "mo_write fme_pr_ops = Some g" for g buf s w
      by (rule kept [OF pr_keep.write_keeps [OF that, of buf s w "fst (g buf s w)"]]) simp
    show "balance (w_trace (snd (snd (c info s w)))) q = balance (w_trace w) q"
      if "mo_write_complete fme_pr_ops = Some c" for c info s w
      by (rule kept [OF pr_keep.complete_keeps [OF that, of info s w "fst (c info s w)"]]) simp
  qed (simp add: fme_pr_ops_def)
qed

lemma pr_keeps_sink: "pr_keeps pd w pd' w' \<Longrightarrow> pr_sink pd' w'' = pr_sink pd w''"
  by (auto simp: pr_keeps_def)

text \<open>
  C20. The flow control of a reconfiguration: whatever the hardware reports, every word that
  \<^verbatim>\<open>fme_pr_write\<close> pushes is pushed while more than one credit is left of what the last read of the
  status granted, each push since then counting for one.
\<close>

theorem write_within_credit:
  assumes "fme_pr_write buf pd w = (r, pd', w')"
  shows "credit_ok (pr_reg pd ''ccip_fme_pr_status'') (pr_reg pd ''ccip_fme_pr_data'') (pr_reg pd ''fme_pr_data1'') 0
    (events_between w w')"
  using write_run [OF assms] pr_run_credit by blast

subsection \<open>The whole request\<close>

lemma disable_result: "fpga_port_disable pp w = (r, pp', w') \<Longrightarrow> pp' = pp\<lparr>pd_disable_count := pd_disable_count pp + 1\<rparr>"
  by (auto simp: port_reset_defs Let_def split: if_splits prod.splits sum.splits)

lemma enable_result: "fpga_port_enable pp w = (pp', w') \<Longrightarrow> pp' = pp\<lparr>pd_disable_count := pd_disable_count pp - 1\<rparr>"
  by (auto simp: port_reset_defs Let_def split: if_splits prod.splits)

lemma port_regs_frame [simp]: "port_hdr_reg (pp\<lparr>pd_disable_count := n\<rparr>) x = port_hdr_reg pp x"
  by (simp add: port_hdr_reg_def get_feature_ioaddr_by_index_def)

lemma disable_idle:
  assumes "fpga_port_disable pp w = (r, pp', w')"
    and "port_hdr_reg pp ''control'' \<noteq> pr_reg pd ''ccip_fme_pr_data''"
  shows "pr_idle pd w w'"
proof -
  let ?ctl = "port_hdr_reg pp ''control''"
  obtain csr w1 where 1: "readq ?ctl w = (csr, w1)" by (metis surj_pair)
  let ?v = "set_field feature_port_control ''port_sftrst'' 1 csr"
  obtain r2 w3 where 2: "fpga_wait_register_field feature_port_control ''port_sftrst_ack''
      (set_field feature_port_control ''port_sftrst_ack'' 1 ?v) ?ctl RST_POLL_TIMEOUT RST_POLL_INVL (writeq ?v ?ctl w1) =
      (r2, w3)" by (metis surj_pair)
  have "pr_idle pd w w3"
    by (rule pr_idle_trans [OF pr_idle_trans [OF pr_idle_readq [OF 1] pr_idle_writeq [OF assms(2)]] pr_idle_wait [OF 2]])
  with assms(1) 1 2 show ?thesis
    by (auto simp: port_reset_defs Let_def split: if_splits sum.splits)
qed

lemma enable_idle:
  assumes "fpga_port_enable pp w = (pp', w')"
    and "port_hdr_reg pp ''control'' \<noteq> pr_reg pd ''ccip_fme_pr_data''"
  shows "pr_idle pd w w'"
  using assms
  by (auto simp: port_reset_defs Let_def split: if_splits prod.splits
      dest!: pr_idle_readq [where pd = pd] intro: pr_idle_trans pr_idle_writeq)

lemma pr_idle_sink: "pr_idle pd w w' \<Longrightarrow> pr_sink pd w' = pr_sink pd w"
  by (auto simp: pr_idle_def dest!: spec [where x = 0] pr_run_sink)

lemma each_port_result:
  "each_port (\<lambda>p. fpga_port_check_id p n) ds w = (r, w') \<Longrightarrow>
   pr_sink pd w' = pr_sink pd w \<and> runs w w' \<and>
   (\<forall>q. balance (w_trace w') q = balance (w_trace w) q +
      (case r of None \<Rightarrow> 0 | Some i \<Rightarrow> of_bool (q = RDevice (pl_self (ds ! i))))) \<and>
   (\<forall>i. r = Some i \<longrightarrow> i < length ds)"
proof (induction ds arbitrary: r w w')
  case (Cons d ds)
  obtain m w1 where m: "fpga_port_check_id (dev_pdata d) n w = (m, w1)" by (metis surj_pair)
  have m_idle: "pr_sink pd w1 = pr_sink pd w" "runs w w1" "\<And>q. balance (w_trace w1) q = balance (w_trace w) q"
    using m by (auto simp: fpga_port_check_id_def fpga_port_id_def readq_def Let_def pr_sink_emit)
  obtain r2 w2 where r2: "each_port (\<lambda>p. fpga_port_check_id p n) ds w1 = (r2, w2)" by (metis surj_pair)
  show ?case
    using Cons.prems m r2 Cons.IH [OF r2] m_idle
    by (auto simp: ret_val_def kvoid_def pr_sink_emit split: bool.splits option.splits intro: runs_trans)
qed simp

lemma fme_pr_ops_write [simp]: "mo_write fme_pr_ops = Some fme_pr_write"
  by (simp add: fme_pr_ops_def)

lemma the_mgr_ops [simp]: "fm_mops (the_mgr pd) = fme_pr_ops" "fm_priv (the_mgr pd) = pd"
  by (simp_all add: the_mgr_def Let_def split: prod.splits)

lemma pr_sink_calls:
  "pr_sink pd (kvoid f xs w) = pr_sink pd w"
  "kstatus f xs w = (r, w') \<Longrightarrow> pr_sink pd w' = pr_sink pd w"
  "kvalue f xs w = (v, w') \<Longrightarrow> pr_sink pd w' = pr_sink pd w"
  "kcall f xs w = (vs, w') \<Longrightarrow> pr_sink pd w' = pr_sink pd w"
  "readq a w = (x, w') \<Longrightarrow> pr_sink pd w' = pr_sink pd w"
  by (auto simp: kvoid_def kstatus_def kvalue_def kcall_def readq_def Let_def pr_sink_emit split: sum.splits)

lemma mgr_get_runs: "fpga_mgr_get dev w = (r, w') \<Longrightarrow> runs w w'"
  unfolding fpga_mgr_get_def raw_fpga_mgr_get_def
  by (auto split: prod.splits sum.splits
      dest!: arg_cong [where f = snd] intro!: runs_after)

lemma mgr_get_sink: "fpga_mgr_get dev w = (r, w') \<Longrightarrow> pr_sink pd w' = pr_sink pd w"
  by (auto simp: fpga_mgr_get_def raw_fpga_mgr_get_def pr_sink_calls(1) dest!: pr_sink_calls(2,3) [where pd = pd]
      split: prod.splits sum.splits)

definition ports_apart :: "fme_pdata \<Rightarrow> 'p cci_drvdata \<Rightarrow> bool" where
  "ports_apart pd drv \<longleftrightarrow> (\<forall>p \<in> set (drv_ports drv).
     port_hdr_reg (dev_pdata p) ''control'' \<noteq> pr_reg pd ''ccip_fme_pr_data'')"

lemma pr_load_result:
  fixes pd :: fme_pdata
  assumes run: "pr_load k dev addr buf arg pd drv w = Some (r, arg', pd', drv', w')"
    and ports: "\<forall>p \<in> set (drv_ports drv). pl_pdata p \<noteq> None"
  shows "drv' = drv \<and> same_balance w w' \<and>
    (r = Inr () \<longrightarrow> ports_apart pd drv \<longrightarrow> runs w w' \<and> pr_sink pd w' = pr_sink pd w @ buf)"
proof -
  obtain g w1 where 1: "fpga_mgr_get dev w = (g, w1)" by (metis surj_pair)
  note b1 = mgr_get_balance [OF 1]
  show ?thesis
  proof (cases g)
    case (Inl e)
    with run 1 b1 show ?thesis by (auto simp: pr_load_def same_balance_def)
  next
    case (Inr d)
    let ?pd = "set_fme ((the_fme pd)\<lparr>fme_pr_err := 0, fme_port_id := ucast (pr_port_id arg)\<rparr>) pd"
    obtain f w2 where 2: "fpga_for_each_port drv (\<lambda>p. fpga_port_check_id p (uint (fme_port_id (the_fme ?pd)))) w1 = (f, w2)"
      by (metis surj_pair)
    obtain i where f: "f = Some i" using run 1 2 Inr by (cases f) (auto simp: pr_load_def Let_def)
    note e2 = each_port_result [OF 2 [unfolded fpga_for_each_port_def], of pd]
    let ?port = "drv_ports drv ! i"
    have i: "i < length (drv_ports drv)" using e2 f by simp
    then obtain pp where pp: "pl_pdata ?port = Some pp" using ports nth_mem by fastforce
    then have dp: "dev_pdata ?port = pp" by (simp add: dev_pdata_def)
    obtain r3 pp1 w3 where 3: "fpga_port_disable pp w2 = (r3, pp1, w3)" by (metis surj_pair)
    let ?info = "\<lparr>ii_flags = FPGA_MGR_PARTIAL_RECONFIG, ii_enable_timeout_us = 0,
      ii_disable_timeout_us = 0, ii_config_complete_timeout_us = 0\<rparr>"
    obtain r4 mgr w4 where 4: "fpga_mgr_buf_load k ?info addr buf (the_mgr ?pd) w3 = (r4, mgr, w4)" by (metis surj_pair)
    obtain pp2 w5 where 5: "fpga_port_enable pp1 w4 = (pp2, w5)" by (metis surj_pair)
    have out: "r = r4" "drv' = set_port i (?port\<lparr>pl_pdata := Some pp2\<rparr>) drv"
      "w' = fpga_mgr_put d (kvoid Put_device [pl_self ?port] w5)"
      using run 1 2 3 4 5 Inr f dp by (auto simp: pr_load_def Let_def)
    have pp2: "pp2 = pp" using disable_result [OF 3] enable_result [OF 5] by simp
    have drv: "drv' = drv"
      using i pp pp2 by (simp add: out(2) set_port_def list_update_id flip: pp)
    have bal: "same_balance w w'"
    proof -
      have "balance (w_trace w5) q = balance (w_trace w2) q" for q
        using mmio_only_balance [OF mmio_only_disable [OF 3 [unfolded fpga_port_disable_def]], of q]
          pr_keep.load_kept [OF 4] 
          mmio_only_balance [OF mmio_only_enable [OF 5 [unfolded fpga_port_enable_def]], of q]
        by (simp add: same_balance_def pr_keeps_def)
      then show ?thesis
        using b1 e2 Inr f
        by (auto simp: same_balance_def out(3) mgr_put_balance kvoid_def ret_val_def)
    qed
    have "runs w w' \<and> pr_sink pd w' = pr_sink pd w @ buf" if ok: "r = Inr ()" and apart: "ports_apart pd drv"
    proof -
      have ap: "port_hdr_reg pp ''control'' \<noteq> pr_reg pd ''ccip_fme_pr_data''"
        using apart i dp nth_mem by (fastforce simp: ports_apart_def)
      have "fpga_mgr_buf_load k ?info addr buf (the_mgr ?pd) w3 = (Inr (), mgr, w4)" using 4 ok out(1) by simp
      then have "fpga_mgr_buf_load_mapped ?info buf (the_mgr ?pd) w3 = (Inr (), mgr, w4)"
        by (simp add: fpga_mgr_buf_load_def)
      from pr_push.pushedD [OF pr_push.load_mapped_pushed [OF this]]
      have p4: "pr_sink (fm_priv mgr) w4 = pr_sink pd w3 @ buf" by simp
      note k4 = pr_keep.load_kept [OF 4, simplified]
      note i3 = disable_idle [OF 3 ap]
      have i5: "pr_idle pd w4 w5" by (rule enable_idle [OF 5]) (use ap disable_result [OF 3] in simp)
      have "pr_sink pd w' = pr_sink pd w5" by (simp add: out(3) fpga_mgr_put_def pr_sink_calls)
      then have "pr_sink pd w' = pr_sink pd w @ buf"
        using e2 mgr_get_sink [OF 1, of pd] p4 pr_keeps_sink [OF k4] pr_idle_sink [OF i3] pr_idle_sink [OF i5] by simp
      moreover have "runs w4 w'"
        unfolding out(3) fpga_mgr_put_def by (intro runs_after pr_idle_runs [OF i5])
      then have "runs w w'"
        using mgr_get_runs [OF 1] e2 pr_idle_runs [OF i3] k4 runs_trans unfolding pr_keeps_def by metis
      ultimately show ?thesis by blast
    qed
    with drv bal show ?thesis by blast
  qed
qed

text \<open>What \<^verbatim>\<open>pr_locked\<close> keeps, and what it pushes when it succeeds.\<close>

lemma pr_locked_result:
  fixes pd :: fme_pdata
  assumes run: "pr_locked k dev arg pd drv w = Some (r, arg', pd', drv', w')"
    and ports: "\<forall>p \<in> set (drv_ports drv). pl_pdata p \<noteq> None"
  shows "drv' = drv \<and> same_balance w w' \<and>
    (r = Inr () \<longrightarrow> ports_apart pd drv \<longrightarrow>
      (\<exists>vs. Call Copy_from_user [uint (pr_buffer_address arg), uint (pr_buffer_size arg)] (Inr vs) \<in> set (w_trace w') \<and>
        pr_sink pd w' = pr_sink pd w @
          padded (unat (align32 (pr_buffer_size arg) (word_of_int (fme_pr_bandwidth (the_fme pd))))) vs))"
proof (cases "fpga_pdata_get_private pd")
  case None
  with run show ?thesis by (auto simp: pr_locked_def)
next
  case (Some fme)
  then have fme: "the_fme pd = fme" by (simp add: the_fme_def)
  let ?len = "align32 (pr_buffer_size arg) (word_of_int (fme_pr_bandwidth fme))"
  let ?from = "[uint (pr_buffer_address arg), uint (pr_buffer_size arg)]"
  obtain v w1 where 1: "kvalue Vzalloc [uint ?len] w = (v, w1)" by (metis surj_pair)
  have b1: "balance (w_trace w1) q = balance (w_trace w) q + (case v of Inl _ \<Rightarrow> 0 | Inr b \<Rightarrow> of_bool (q = RMem b))" for q
    using 1 by (auto simp: kvalue_def kcall_def Let_def split: sum.splits)
  show ?thesis
  proof (cases v)
    case (Inl e)
    with run Some 1 b1 show ?thesis by (auto simp: pr_locked_def Let_def same_balance_def)
  next
    case (Inr buf)
    obtain c w2 where 2: "kcall Copy_from_user ?from w1 = (c, w2)" by (metis surj_pair)
    have b2: "balance (w_trace w2) q = balance (w_trace w1) q" "Call Copy_from_user ?from c \<in> set (w_trace w2)" for q
      using 2 by (cases c; auto simp: kcall_def Let_def)+
    have free: "balance (w_trace (kvoid Vfree [buf] w0)) q = balance (w_trace w0) q - of_bool (q = RMem buf)" for q w0
      by (simp add: kvoid_def ret_val_def)
    show ?thesis
    proof (cases c)
      case (Inl e)
      with run Some 1 2 b1 b2 \<open>v = Inr buf\<close> show ?thesis
        by (auto simp: pr_locked_def Let_def same_balance_def free)
    next
      case (Inr vs)
      let ?img = "padded (unat ?len) vs"
      obtain w3 where 3: "pr_load k dev (word_of_int buf) ?img arg pd drv w2 = Some (r, arg', pd', drv', w3)"
        and w': "w' = kvoid Vfree [buf] w3"
        using run Some 1 2 Inr \<open>v = Inr buf\<close> by (auto simp: pr_locked_def Let_def split: option.splits)
      note l = pr_load_result [OF 3 ports]
      have "same_balance w w'" using l b1 b2(1) \<open>v = Inr buf\<close> by (simp add: w' same_balance_def free)
      moreover have "Call Copy_from_user ?from (Inr vs) \<in> set (w_trace w') \<and> pr_sink pd w' = pr_sink pd w @ ?img"
        if "r = Inr ()" "ports_apart pd drv"
      proof -
        have "runs w2 w3" "pr_sink pd w3 = pr_sink pd w2 @ ?img" using l that by blast+
        moreover have "set (w_trace w3) \<subseteq> set (w_trace w')" by (auto simp: w' kvoid_def)
        moreover have "set (w_trace w2) \<subseteq> set (w_trace w3)" using \<open>runs w2 w3\<close> by (auto simp: runs_def)
        ultimately show ?thesis
          using b2(2) Inr by (auto simp: w' pr_sink_calls(1) pr_sink_calls(4) [OF 2] pr_sink_calls(3) [OF 1])
      qed
      ultimately show ?thesis using l fme by blast
    qed
  qed
qed

text \<open>
  C6. A reconfiguration of a port leaves nothing behind: whatever the hardware, the user and the
  kernel do, when \<^verbatim>\<open>fme_pr\<close> returns, the ports are as before, enabled as often as they were
  disabled, and every reference, lock and block of memory taken from the kernel has been given back.
\<close>

theorem fme_pr_gives_back:
  fixes pd :: fme_pdata
  assumes run: "fme_pr k dev uarg pd drv w = Some (r, uarg', pd', drv', w')"
    and ports: "\<forall>p \<in> set (drv_ports drv). pl_pdata p \<noteq> None"
  shows "drv' = drv \<and> balance (w_trace w') q = balance (w_trace w) q"
proof (cases uarg)
  case None
  with run show ?thesis by (auto simp: fme_pr_def)
next
  case (Some arg)
  obtain cap w1 where 1: "readq (reg_addr feature_fme_header ''capability''
      (get_feature_ioaddr_by_index pd FME_FEATURE_ID_HEADER)) w = (cap, w1)" by (metis surj_pair)
  obtain v w2 where 2: "kstatus Access_ok [uint (pr_buffer_address arg), uint (pr_buffer_size arg)] w1 = (v, w2)"
    by (metis surj_pair)
  have b: "balance (w_trace w1) q = balance (w_trace w) q" "balance (w_trace w2) q = balance (w_trace w1) q"
    using 1 2 by (auto simp: readq_def kstatus_def kcall_def Let_def split: sum.splits)
  show ?thesis
  proof (cases "pr_locked k dev arg pd drv w2")
    case None
    with run Some 1 2 b show ?thesis by (auto simp: fme_pr_def split: if_splits sum.splits)
  next
    case l: (Some out)
    obtain r3 arg3 pd3 drv3 w3 where out: "out = (r3, arg3, pd3, drv3, w3)" by (metis surj_pair)
    obtain c w4 where 4: "kstatus Copy_to_user [uint (pr_status arg3)] w3 = (c, w4)" by (metis surj_pair)
    have "balance (w_trace w4) q = balance (w_trace w3) q"
      using 4 by (auto simp: kstatus_def kcall_def Let_def split: sum.splits)
    with pr_locked_result [OF l [unfolded out] ports] run Some 1 2 4 b l out show ?thesis
      by (auto simp: fme_pr_def same_balance_def split: if_splits sum.splits)
  qed
qed

text \<open>
  C5. A reconfiguration that succeeds has pushed into the hardware exactly the image it copied from
  the user's buffer, in order and followed by zeros up to a multiple of the width of the port to the
  hardware, whether it pushes words or blocks. The control registers of the ports are not the data
  register of the block.
\<close>

theorem fme_pr_pushes_image:
  fixes pd :: fme_pdata
  assumes run: "fme_pr k dev (Some arg) pd drv w = Some (Inr (), uarg', pd', drv', w')"
    and ports: "\<forall>p \<in> set (drv_ports drv). pl_pdata p \<noteq> None" and apart: "ports_apart pd drv"
  shows "\<exists>vs. Call Copy_from_user [uint (pr_buffer_address arg), uint (pr_buffer_size arg)] (Inr vs) \<in> set (w_trace w') \<and>
    pr_sink pd w' = pr_sink pd w @
      padded (unat (align32 (pr_buffer_size arg) (word_of_int (fme_pr_bandwidth (the_fme pd))))) vs"
proof -
  obtain cap w1 where 1: "readq (reg_addr feature_fme_header ''capability''
      (get_feature_ioaddr_by_index pd FME_FEATURE_ID_HEADER)) w = (cap, w1)" by (metis surj_pair)
  obtain v w2 where 2: "kstatus Access_ok [uint (pr_buffer_address arg), uint (pr_buffer_size arg)] w1 = (v, w2)"
    by (metis surj_pair)
  from run 1 2 obtain arg3 pd3 drv3 w3 c w4 where l: "pr_locked k dev arg pd drv w2 = Some (Inr (), arg3, pd3, drv3, w3)"
    and 4: "kstatus Copy_to_user [uint (pr_status arg3)] w3 = (c, w')"
    by (auto simp: fme_pr_def split: if_splits sum.splits option.splits prod.splits)
  have "set (w_trace w3) \<subseteq> set (w_trace w')"
    using 4 by (auto simp: kstatus_def kcall_def Let_def split: sum.splits)
  with pr_locked_result [OF l ports] apart show ?thesis
    by (auto simp: pr_sink_calls(2) [OF 4] pr_sink_calls(2) [OF 2] pr_sink_calls(5) [OF 1])
qed

subsection \<open>An example\<close>

text \<open>An FME with its header and the reconfiguration block, and one port.\<close>

definition ex_feature :: "u64 \<Rightarrow> feature" where
  "ex_feature a = zero_feature\<lparr>f_ioaddr := a\<rparr>"

definition ex_fme :: fpga_fme where
  "ex_fme = zero_fme\<lparr>fme_pr_bandwidth := 4, fme_mgr := Some (9, 0, FPGA_MGR_STATE_UNKNOWN)\<rparr>"

definition ex_pd :: fme_pdata where
  "ex_pd = empty_pdata\<lparr>pd_private := Some ex_fme, pd_num := 6,
     pd_features := map ex_feature [0x1000, 0, 0, 0, 0, 0x5000]\<rparr>"

definition ex_port :: "unit feature_platform_data" where
  "ex_port = empty_pdata\<lparr>pd_features := [ex_feature 0x8000]\<rparr>"

definition ex_drv :: "unit cci_drvdata" where
  "ex_drv = \<lparr>drv_self = 1, drv_device_id = 0, drv_fme_dev = None,
     drv_ports = [\<lparr>pl_self = 3, pl_name = FPGA_FEATURE_DEV_PORT, pl_id = 0, pl_devt = 0, pl_registered = True,
       pl_resource = [], pl_pdata = Some ex_port\<rparr>],
     drv_released_port_num = 0, drv_regions = []\<rparr>"

text \<open>Hardware that acknowledges at once and has 16 credits, and a kernel that has what is asked for.\<close>

definition ex_regs :: "u64 \<Rightarrow> u64" where
  "ex_regs a = (if a = pr_reg ex_pd ''ccip_fme_pr_control'' then set_field feature_fme_pr_ctl ''pr_reset_ack'' 1 0
     else if a = pr_reg ex_pd ''ccip_fme_pr_status'' then set_field feature_fme_pr_status ''pr_credit'' 16 0
     else if a = reg_addr feature_fme_header ''capability'' 0x1000
     then set_field feature_fme_capability ''num_ports'' 1 0
     else if a = port_hdr_reg ex_port ''control'' then set_field feature_port_control ''port_sftrst_ack'' 1 0
     else 0)"

fun ex_kernel :: "kfun \<Rightarrow> int list res" where
  "ex_kernel Vzalloc = Inr [0x9000]"
| "ex_kernel Copy_from_user = Inr [1, 2, 3, 4, 5, 6]"
| "ex_kernel Class_find_device = Inr [9]"
| "ex_kernel f = Inr []"

definition ex_world :: world where
  "ex_world = \<lparr>w_readq = (\<lambda>_. ex_regs), w_readl = (\<lambda>_ _. 0), w_readb = (\<lambda>_ _. 0),
     w_kcall = (\<lambda>_ f _. ex_kernel f), w_trace = []\<rparr>"

definition ex_arg :: fpga_fme_port_pr where
  "ex_arg = \<lparr>pr_argsz = 32, pr_flags = 0, pr_port_id = 0, pr_buffer_size = 6, pr_buffer_address = 0x7000,
     pr_status = 0\<rparr>"

lemma ex_world_sel [simp]: "w_readq ex_world tr a = ex_regs a" "w_kcall ex_world tr f xs = ex_kernel f"
  by (simp_all add: ex_world_def)

lemma ex_addr:
  "pr_reg ex_pd ''ccip_fme_pr_control'' = 0x5008" "pr_reg ex_pd ''ccip_fme_pr_status'' = 0x5010"
  "pr_reg ex_pd ''ccip_fme_pr_data'' = 0x5018" "port_hdr_reg ex_port ''control'' = 0x8038"
  "port_hdr_reg ex_port ''capability'' = 0x8030"
  "reg_addr feature_fme_header ''capability'' 0x1000 = 0x1030"
  by (simp_all add: ex_pd_def ex_port_def ex_feature_def get_feature_ioaddr_by_index_def pr_offsets empty_pdata_def
     zero_feature_def port_hdr_reg_def
     feature_port_header_def feature_fme_header_def layout_defs sizeof_regs_def
     feature_afu_header_def)

lemma ex_regs_val:
  "ex_regs 0x5008 = set_field feature_fme_pr_ctl ''pr_reset_ack'' 1 0"
  "ex_regs 0x5010 = set_field feature_fme_pr_status ''pr_credit'' 16 0"
  "ex_regs 0x1030 = set_field feature_fme_capability ''num_ports'' 1 0"
  "ex_regs 0x8038 = set_field feature_port_control ''port_sftrst_ack'' 1 0"
  "ex_regs 0x8030 = 0"
  by (simp_all add: ex_regs_def ex_addr)


lemma ex_pos:
  "field_pos feature_fme_pr_ctl ''pr_reset_ack'' = Some (4, 1)" "field_pos feature_fme_pr_ctl ''pr_start_req'' = Some (12, 1)"
  "field_pos feature_fme_pr_status ''pr_credit'' = Some (0, 9)" "field_pos feature_fme_pr_status ''pr_host_status'' = Some (24, 4)"
  "field_pos feature_fme_pr_status ''pr_status'' = Some (16, 1)" "field_pos feature_fme_capability ''num_ports'' = Some (17, 3)"
  "field_pos feature_port_control ''port_sftrst_ack'' = Some (4, 1)"
  "field_pos feature_port_capability ''port_number'' = Some (0, 2)"
  by (simp_all add: layout_defs)

lemma ex_fields:
  "get_field feature_fme_pr_ctl ''pr_reset_ack'' (set_field feature_fme_pr_ctl ''pr_reset_ack'' 1 x) = 1"
  "get_field feature_fme_pr_ctl ''pr_start_req'' (set_field feature_fme_pr_ctl ''pr_start_req'' 0 x) = 0"
  "get_field feature_fme_pr_ctl ''pr_start_req'' (ex_regs 0x5008) = 0"
  "get_field feature_fme_pr_ctl ''pr_reset_ack'' (ex_regs 0x5008) = 1"
  "get_field feature_fme_pr_status ''pr_credit'' (ex_regs 0x5010) = 16"
  "get_field feature_fme_pr_status ''pr_host_status'' (ex_regs 0x5010) = 0"
  "get_field feature_fme_pr_status ''pr_host_status'' (set_field feature_fme_pr_status ''pr_host_status'' 0 x) = 0"
  "get_field feature_fme_pr_status ''pr_status'' (ex_regs 0x5010) = 0"
  "get_field feature_fme_capability ''num_ports'' (ex_regs 0x1030) = 1"
  "get_field feature_port_control ''port_sftrst_ack'' (ex_regs 0x8038) = 1"
  "get_field feature_port_control ''port_sftrst_ack'' (set_field feature_port_control ''port_sftrst_ack'' 1 x) = 1"
  "get_field feature_port_capability ''port_number'' (ex_regs 0x8030) = 0"
  by (simp_all add: ex_regs_val get_set_field_same ex_pos) (simp_all add: get_field_def set_field_def ex_pos)

lemma ex_wait:
  "0 < invl \<Longrightarrow> get_field l n expect = get_field l n (w_readq w (w_trace w) a) \<Longrightarrow>
   fpga_wait_register_field l n expect a t invl w = (Inr (), emit (RdQ a (w_readq w (w_trace w) a)) w)"
  by (simp add: fpga_wait_register_field_def wait_field_loop.simps [of l n expect a t invl 0] readq_def Let_def)

definition ex_k :: mgr_kernel where
  "ex_k = \<lparr>mk_is_vmalloc_addr = (\<lambda>_. True), mk_fragments = (\<lambda>b. [b])\<rparr>"

lemma ex_pd_sel:
  "get_feature_ioaddr_by_index ex_pd 5 = 0x5000" "get_feature_ioaddr_by_index ex_pd 0 = 0x1000"
  "get_feature_ioaddr_by_index (set_fme fme pd) i = get_feature_ioaddr_by_index pd i"
  "fpga_pdata_get_private ex_pd = Some ex_fme" "the_fme ex_pd = ex_fme"
  by (simp_all add: ex_pd_def ex_feature_def get_feature_ioaddr_by_index_def empty_pdata_def zero_feature_def
      the_fme_def fpga_pdata_get_private_def set_fme_def fpga_pdata_set_private_def)


lemma ex_port_enabled: "pd_disable_count ex_port = 0"
  by (simp add: ex_port_def empty_pdata_def)

definition ex_like :: "world \<Rightarrow> bool" where
  "ex_like w \<longleftrightarrow> w_readq w = (\<lambda>_. ex_regs) \<and> w_kcall w = (\<lambda>_ f _. ex_kernel f)"

lemmas ex_eval = ex_pd_sel ex_addr ex_fields Let_def readq_def ex_wait writeq_def ex_like_def

lemma ex_init: "ex_like w \<Longrightarrow> ii_flags info = FPGA_MGR_PARTIAL_RECONFIG \<Longrightarrow>
    \<exists>w'. fme_pr_write_init info hdr (set_fme fme ex_pd) w = (Inr (), set_fme fme ex_pd, w') \<and> ex_like w'"
  by (simp add: fme_pr_write_init_def ex_eval PR_HOST_STATUS_IDLE_def pr_err_handle_def)

lemma ex_write: "ex_like w \<Longrightarrow> fme_pr_bandwidth fme = 4 \<Longrightarrow> \<not> fme_pr_avx512 fme \<Longrightarrow>
    \<exists>w'. fme_pr_write [1, 2, 3, 4, 5, 6, 0, 0] (set_fme fme ex_pd) w = (Inr (), set_fme fme ex_pd, w') \<and> ex_like w'"
  by (simp add: fme_pr_write_def ex_eval push_image.simps wait_credit.simps push_data_def)

lemma ex_complete: "ex_like w \<Longrightarrow>
    \<exists>w'. fme_pr_write_complete info (set_fme fme ex_pd) w = (Inr (), set_fme (fme\<lparr>fme_pr_err := 0\<rparr>) ex_pd, w') \<and> ex_like w'"
  by (simp add: fme_pr_write_complete_def ex_eval pr_err_handle_def)

lemma ex_ops: "mo_write_init fme_pr_ops = Some fme_pr_write_init" "mo_write_complete fme_pr_ops = Some fme_pr_write_complete"
  "mo_initial_header_size fme_pr_ops = 0"
  by (simp_all add: fme_pr_ops_def)

lemma ex_load:
  assumes "ex_like w" and "ii_flags info = FPGA_MGR_PARTIAL_RECONFIG"
    and "fme_pr_bandwidth fme = 4" and "\<not> fme_pr_avx512 fme"
  shows "\<exists>mgr w'. fpga_mgr_buf_load ex_k info a [1, 2, 3, 4, 5, 6, 0, 0] (the_mgr (set_fme fme ex_pd)) w = (Inr (), mgr, w')
    \<and> ex_like w'"
proof -
  obtain w1 where 1: "\<And>hdr. fme_pr_write_init info [] (set_fme fme ex_pd) w = (Inr (), set_fme fme ex_pd, w1)" "ex_like w1"
    using ex_init [OF assms(1,2)] by blast
  obtain w2 where 2: "fme_pr_write [1, 2, 3, 4, 5, 6, 0, 0] (set_fme fme ex_pd) w1 = (Inr (), set_fme fme ex_pd, w2)" "ex_like w2"
    using ex_write [OF 1(2) assms(3,4)] by blast
  obtain w3 where 3: "fme_pr_write_complete info (set_fme fme ex_pd) w2 = (Inr (), set_fme (fme\<lparr>fme_pr_err := 0\<rparr>) ex_pd, w3)" "ex_like w3"
    using ex_complete [OF 2(2)] by blast
  obtain mgr where mgr: "the_mgr (set_fme fme ex_pd) = mgr" "fm_mops mgr = fme_pr_ops" "fm_priv mgr = set_fme fme ex_pd"
    by simp
  from 1 2 3 mgr(2,3) show ?thesis unfolding mgr(1)
    by (simp add: fpga_mgr_buf_load_def fpga_mgr_buf_load_mapped_def fpga_mgr_write_init_buf_def call_low_def
      fpga_mgr_write_complete_def ex_ops)
qed


lemma ex_pr_load:
  assumes "ex_like w"
  shows "\<exists>arg' pd' drv' w'. pr_load ex_k 7 0x9000 [1, 2, 3, 4, 5, 6, 0, 0] ex_arg ex_pd ex_drv w =
    Some (Inr (), arg', pd', drv', w') \<and> ex_like w'"
proof -
  let ?pd = "set_fme (ex_fme\<lparr>fme_pr_err := 0, fme_port_id := 0\<rparr>) ex_pd"
  have bw: "fme_pr_bandwidth (ex_fme\<lparr>fme_pr_err := 0, fme_port_id := 0\<rparr>) = 4"
    "\<not> fme_pr_avx512 (ex_fme\<lparr>fme_pr_err := 0, fme_port_id := 0\<rparr>)" by (simp_all add: ex_fme_def zero_fme_def)
  obtain w1 where 1: "fpga_mgr_get 7 w = (Inr 9, w1)" "ex_like w1"
    using assms by (simp add: fpga_mgr_get_def raw_fpga_mgr_get_def kvalue_def kstatus_def kcall_def Let_def ret_val_def ex_like_def)
  obtain w2 where 2: "fpga_for_each_port ex_drv (\<lambda>p. fpga_port_check_id p 0) w1 = (Some 0, w2)" "ex_like w2"
    using 1(2) by (simp add: fpga_for_each_port_def ex_drv_def fpga_port_check_id_def fpga_port_id_def dev_pdata_def
        ex_eval kvoid_def)
  obtain pp w3 where 3: "fpga_port_disable ex_port w2 = (Inr (), pp, w3)" "ex_like w3"
    using 2(2) by (simp add: port_reset_defs ex_eval ex_port_enabled RST_POLL_INVL_def)
  let ?info = "\<lparr>ii_flags = FPGA_MGR_PARTIAL_RECONFIG, ii_enable_timeout_us = 0,
      ii_disable_timeout_us = 0, ii_config_complete_timeout_us = 0\<rparr>"
  have "ii_flags ?info = FPGA_MGR_PARTIAL_RECONFIG" by simp
  from ex_load [OF 3(2) this bw, of "0x9000"]
  obtain mgr w4 where 4: "fpga_mgr_buf_load ex_k ?info 0x9000 [1, 2, 3, 4, 5, 6, 0, 0] (the_mgr ?pd) w3 =
      (Inr (), mgr, w4)" "ex_like w4" by blast
  obtain pp2 w5 where 5: "fpga_port_enable pp w4 = (pp2, w5)" by (metis surj_pair)
  have 6: "ex_like w5"
    using 5 4(2) by (auto simp: port_reset_defs ex_eval split: if_splits)
  from 1 2 3 4 5 6 show ?thesis
    by (simp add: pr_load_def Let_def ex_arg_def ex_pd_sel ex_drv_def dev_pdata_def fpga_mgr_put_def kvoid_def ex_like_def)
qed

lemma ex_run: "\<exists>uarg' pd' drv' w'. fme_pr ex_k 7 (Some ex_arg) ex_pd ex_drv ex_world =
    Some (Inr (), uarg', pd', drv', w')"
proof -
  let ?w = "emit (Call Copy_from_user [0x7000, 6] (Inr [1, 2, 3, 4, 5, 6])) (emit (Call Vzalloc [8] (Inr [0x9000]))
     (emit (Call Access_ok [0x7000, 6] (Inr [])) (emit (RdQ 0x1030 (ex_regs 0x1030)) ex_world)))"
  have "ex_like ?w" by (simp add: ex_like_def ex_world_def)
  from ex_pr_load [OF this] obtain arg' pd' drv' w' where l: "pr_load ex_k 7 0x9000 [1, 2, 3, 4, 5, 6, 0, 0] ex_arg ex_pd ex_drv ?w =
      Some (Inr (), arg', pd', drv', w')" "ex_like w'" by blast
  have arg: "pr_argsz ex_arg = 32" "pr_flags ex_arg = 0" "pr_port_id ex_arg = 0" "pr_buffer_size ex_arg = 6"
    "pr_buffer_address ex_arg = 0x7000" "fme_pr_bandwidth ex_fme = 4"
    by (simp_all add: ex_arg_def ex_fme_def zero_fme_def)
  have pad: "padded 8 [1, 2, 3, 4, 5, 6] = [1, 2, 3, 4, 5, 6, 0, 0]"
    by (simp add: padded_def numeral_eq_Suc)
  from l show ?thesis
    by (simp add: fme_pr_def arg ex_pd_sel readq_def Let_def ex_addr ex_fields kstatus_def kcall_def kvalue_def
      pr_locked_def align32_def pad ret_val_def ex_like_def kvoid_def)
qed


lemma ex_world_like: "ex_like ex_world"
  by (simp add: ex_like_def ex_world_def)

theorem write_within_credit_witness:
  "\<exists>pd' w'. fme_pr_write [1, 2, 3, 4, 5, 6, 0, 0] (set_fme ex_fme ex_pd) ex_world = (Inr (), pd', w') \<and>
    credit_ok 0x5010 0x5018 (pr_reg ex_pd ''fme_pr_data1'') 0 (events_between ex_world w')"
proof -
  have "fme_pr_bandwidth ex_fme = 4" "\<not> fme_pr_avx512 ex_fme" by (simp_all add: ex_fme_def zero_fme_def)
  then obtain w' where run: "fme_pr_write [1, 2, 3, 4, 5, 6, 0, 0] (set_fme ex_fme ex_pd) ex_world =
      (Inr (), set_fme ex_fme ex_pd, w')" using ex_write [OF ex_world_like] by blast
  from write_within_credit [OF run] run show ?thesis by (simp add: ex_addr)
qed

theorem fme_pr_gives_back_witness:
  "\<exists>uarg' pd' w'. fme_pr ex_k 7 (Some ex_arg) ex_pd ex_drv ex_world = Some (Inr (), uarg', pd', ex_drv, w') \<and>
    balance (w_trace w') (RMem 0x9000) = 0"
proof -
  obtain uarg' pd' drv' w' where run: "fme_pr ex_k 7 (Some ex_arg) ex_pd ex_drv ex_world =
      Some (Inr (), uarg', pd', drv', w')" using ex_run by blast
  have "\<forall>p \<in> set (drv_ports ex_drv). pl_pdata p \<noteq> None" by (simp add: ex_drv_def)
  from fme_pr_gives_back [OF run this, of "RMem 0x9000"] run show ?thesis by (simp add: ex_world_def)
qed

theorem fme_pr_pushes_image_witness:
  "\<exists>uarg' pd' drv' w'. fme_pr ex_k 7 (Some ex_arg) ex_pd ex_drv ex_world = Some (Inr (), uarg', pd', drv', w') \<and>
    length (pr_sink ex_pd w') = 8"
proof -
  obtain uarg' pd' drv' w' where run: "fme_pr ex_k 7 (Some ex_arg) ex_pd ex_drv ex_world =
      Some (Inr (), uarg', pd', drv', w')" using ex_run by blast
  have "\<forall>p \<in> set (drv_ports ex_drv). pl_pdata p \<noteq> None" "ports_apart ex_pd ex_drv"
    by (simp_all add: ex_drv_def ports_apart_def dev_pdata_def ex_addr)
  from fme_pr_pushes_image [OF run this] run show ?thesis
    by (auto simp: padded_def pr_sink_def ex_world_def ex_arg_def align32_def ex_pd_sel ex_fme_def)
qed

end
