(* ===== verification/Fme_Error.thy ===== *)
theory Fme_Error
  imports Fme_Data
begin

text \<open>
  The errors of an FME (\<^verbatim>\<open>drivers/fpga/intel/fme-error.c\<close>): the attributes that show, clear and inject
  them, and binding their interrupt. The attributes belong to a device of their own, whose memory
  its release function frees with the last reference; \<^verbatim>\<open>device_register\<close> takes the first reference
  and then adds the device.
\<close>

subsection \<open>Constants and registers\<close>

definition FME_ERROR0_MASK :: u64 where "FME_ERROR0_MASK = 0xFF"
definition FME_ERROR0_MASK_DEFAULT :: u64 where "FME_ERROR0_MASK_DEFAULT = 0x40"
definition FME_PCIE0_ERROR_MASK :: u64 where "FME_PCIE0_ERROR_MASK = 0xFF"
definition FME_PCIE1_ERROR_MASK :: u64 where "FME_PCIE1_ERROR_MASK = 0xFF"
definition FME_FIRST_ERROR_MASK :: u64 where "FME_FIRST_ERROR_MASK = push_bit 60 1 - 1"
definition FME_NEXT_ERROR_MASK :: u64 where "FME_NEXT_ERROR_MASK = push_bit 60 1 - 1"
definition FME_RAS_ERROR_INJ_MASK :: u64 where "FME_RAS_ERROR_INJ_MASK = 7"

definition fme_err_reg :: "'p feature_platform_data \<Rightarrow> string \<Rightarrow> u64" where
  "fme_err_reg pd n = reg_addr feature_fme_err n (get_feature_ioaddr_by_index pd FME_FEATURE_ID_GLOBAL_ERR)"

subsection \<open>Attributes\<close>

definition fme_errors_show :: "'p feature_platform_data \<Rightarrow> world \<Rightarrow> u64 \<times> world" where
  "fme_errors_show pd w = readq (fme_err_reg pd ''fme_err'') w"

definition fme_first_error_show :: "'p feature_platform_data \<Rightarrow> world \<Rightarrow> u64 \<times> world" where
  "fme_first_error_show pd w =
     (case readq (fme_err_reg pd ''fme_first_err'') w of
        (csr, w1) \<Rightarrow> (get_field feature_fme_first_error ''err_reg_status'' csr, w1))"

definition fme_next_error_show :: "'p feature_platform_data \<Rightarrow> world \<Rightarrow> u64 \<times> world" where
  "fme_next_error_show pd w =
     (case readq (fme_err_reg pd ''fme_next_err'') w of
        (csr, w1) \<Rightarrow> (get_field feature_fme_next_error ''err_reg_status'' csr, w1))"

text \<open>The part of \<^verbatim>\<open>clear_store\<close> between masking and unmasking.\<close>

definition fme_clear_matching ::
  "'p feature_platform_data \<Rightarrow> u64 \<Rightarrow> world \<Rightarrow> unit res \<times> world" where
  "fme_clear_matching pd val w =
     (case readq (fme_err_reg pd ''fme_err'') w of
        (csr, w1) \<Rightarrow>
          if val \<noteq> csr then (Inl EBUSY, w1)
          else
            (case readq (fme_err_reg pd ''fme_first_err'') w1 of
               (first, w2) \<Rightarrow>
                 (case readq (fme_err_reg pd ''fme_next_err'') w2 of
                    (next, w3) \<Rightarrow>
                      (Inr (),
                       writeq (next AND FME_NEXT_ERROR_MASK) (fme_err_reg pd ''fme_next_err'')
                         (writeq (first AND FME_FIRST_ERROR_MASK) (fme_err_reg pd ''fme_first_err'')
                           (writeq (csr AND FME_ERROR0_MASK) (fme_err_reg pd ''fme_err'') w3))))))"

definition fme_clear_store :: "'p feature_platform_data \<Rightarrow> u64 res \<Rightarrow> world \<Rightarrow> unit res \<times> world" where
  "fme_clear_store pd parsed w =
     (case parsed of
        Inl _ \<Rightarrow> (Inl EINVAL, w)
      | Inr val \<Rightarrow>
          (case fme_clear_matching pd val (writeq FME_ERROR0_MASK (fme_err_reg pd ''fme_err_mask'') w) of
             (r, w1) \<Rightarrow> (r, writeq FME_ERROR0_MASK_DEFAULT (fme_err_reg pd ''fme_err_mask'') w1)))"

definition fme_err_revision_show :: "'p feature_platform_data \<Rightarrow> world \<Rightarrow> u64 \<times> world" where
  "fme_err_revision_show pd w =
     (case readq (fme_err_reg pd ''header'') w of
        (csr, w1) \<Rightarrow> (get_field feature_header ''revision'' csr, w1))"

definition pcie0_errors_show :: "'p feature_platform_data \<Rightarrow> world \<Rightarrow> u64 \<times> world" where
  "pcie0_errors_show pd w = readq (fme_err_reg pd ''pcie0_err'') w"

definition pcie0_errors_store :: "'p feature_platform_data \<Rightarrow> u64 res \<Rightarrow> world \<Rightarrow> unit res \<times> world" where
  "pcie0_errors_store pd parsed w =
     (case parsed of
        Inl _ \<Rightarrow> (Inl EINVAL, w)
      | Inr val \<Rightarrow>
          (case readq (fme_err_reg pd ''pcie0_err'')
                  (writeq FME_PCIE0_ERROR_MASK (fme_err_reg pd ''pcie0_err_mask'') w) of
             (csr, w1) \<Rightarrow>
               if val \<noteq> csr then (Inl EBUSY, writeq 0 (fme_err_reg pd ''pcie0_err_mask'') w1)
               else (Inr (), writeq 0 (fme_err_reg pd ''pcie0_err_mask'')
                 (writeq (csr AND FME_PCIE0_ERROR_MASK) (fme_err_reg pd ''pcie0_err'') w1))))"

definition pcie1_errors_show :: "'p feature_platform_data \<Rightarrow> world \<Rightarrow> u64 \<times> world" where
  "pcie1_errors_show pd w = readq (fme_err_reg pd ''pcie1_err'') w"

definition pcie1_errors_store :: "'p feature_platform_data \<Rightarrow> u64 res \<Rightarrow> world \<Rightarrow> unit res \<times> world" where
  "pcie1_errors_store pd parsed w =
     (case parsed of
        Inl _ \<Rightarrow> (Inl EINVAL, w)
      | Inr val \<Rightarrow>
          (case readq (fme_err_reg pd ''pcie1_err'')
                  (writeq FME_PCIE1_ERROR_MASK (fme_err_reg pd ''pcie1_err_mask'') w) of
             (csr, w1) \<Rightarrow>
               if val \<noteq> csr then (Inl EBUSY, writeq 0 (fme_err_reg pd ''pcie1_err_mask'') w1)
               else (Inr (), writeq 0 (fme_err_reg pd ''pcie1_err_mask'')
                 (writeq (csr AND FME_PCIE1_ERROR_MASK) (fme_err_reg pd ''pcie1_err'') w1))))"

definition nonfatal_errors_show :: "'p feature_platform_data \<Rightarrow> world \<Rightarrow> u64 \<times> world" where
  "nonfatal_errors_show pd w = readq (fme_err_reg pd ''ras_nonfaterr'') w"

definition catfatal_errors_show :: "'p feature_platform_data \<Rightarrow> world \<Rightarrow> u64 \<times> world" where
  "catfatal_errors_show pd w = readq (fme_err_reg pd ''ras_catfaterr'') w"

definition inject_error_show :: "'p feature_platform_data \<Rightarrow> world \<Rightarrow> u64 \<times> world" where
  "inject_error_show pd w =
     (case readq (fme_err_reg pd ''ras_error_inj'') w of (csr, w1) \<Rightarrow> (csr AND FME_RAS_ERROR_INJ_MASK, w1))"

definition inject_error_store :: "'p feature_platform_data \<Rightarrow> u8 res \<Rightarrow> world \<Rightarrow> unit res \<times> world" where
  "inject_error_store pd parsed w =
     (case readq (fme_err_reg pd ''ras_error_inj'') w of
        (csr, w1) \<Rightarrow>
          (case parsed of
             Inl e \<Rightarrow> (Inl e, w1)
           | Inr val \<Rightarrow>
               if ucast val \<le> FME_RAS_ERROR_INJ_MASK
               then (Inr (), writeq (ucast val) (fme_err_reg pd ''ras_error_inj'') w1)
               else (Inl EINVAL, w1)))"

subsection \<open>The sub-feature\<close>

definition fme_error_enable :: "'p feature_platform_data \<Rightarrow> world \<Rightarrow> world" where
  "fme_error_enable pd w =
     writeq 0 (fme_err_reg pd ''ras_catfat_mask'')
       (writeq 0 (fme_err_reg pd ''ras_nonfat_mask'')
         (writeq 0 (fme_err_reg pd ''pcie1_err_mask'')
           (writeq 0 (fme_err_reg pd ''pcie0_err_mask'')
             (writeq FME_ERROR0_MASK_DEFAULT (fme_err_reg pd ''fme_err_mask'') w))))"

text \<open>Giving up the last reference to the device, whose release function is \<^verbatim>\<open>kfree\<close>.\<close>

definition put_err_dev :: "kfun \<Rightarrow> int \<Rightarrow> world \<Rightarrow> world" where
  "put_err_dev f dev w = kvoid Kfree [dev] (kvoid f [dev] w)"

definition global_error_init :: "nat \<Rightarrow> fme_pdata \<Rightarrow> world \<Rightarrow> unit res \<times> fme_pdata \<times> world" where
  "global_error_init i pd w =
     (case kvalue Kzalloc [] w of
        (Inl _, w1) \<Rightarrow> (Inl ENOMEM, pd, w1)
      | (Inr dev, w1) \<Rightarrow>
          (case kstatus Device_register [dev]
                  (kvoid Device_initialize [dev] (fme_error_enable pd (kvoid (Kfn ''dev_set_name'') [dev] w1))) of
             (Inl e, w2) \<Rightarrow> (Inl e, pd, put_err_dev Put_device dev w2)
           | (Inr _, w2) \<Rightarrow>
               (case kstatus Sysfs_create [dev] w2 of
                  (Inl e, w3) \<Rightarrow> (Inl e, pd, put_err_dev Device_unregister dev w3)
                | (Inr _, w3) \<Rightarrow>
                    (Inr (),
                     set_fme ((the_fme pd)\<lparr>fme_dev_err := Some dev,
                       fme_capability := (if f_ctx_num (pd_features pd ! i) \<noteq> 0
                         then fme_capability (the_fme pd) OR FPGA_FME_CAP_ERR_IRQ
                         else fme_capability (the_fme pd))\<rparr>) pd, w3))))"

definition global_error_uinit :: "nat \<Rightarrow> fme_pdata \<Rightarrow> world \<Rightarrow> fme_pdata \<times> world" where
  "global_error_uinit i pd w =
     (let dev = the (fme_dev_err (the_fme pd)) in
      (set_fme ((the_fme pd)\<lparr>fme_dev_err := None\<rparr>) pd,
       put_err_dev Device_unregister dev (kvoid Sysfs_remove [dev] w)))"

record fpga_fme_err_irq_set =
  feirq_argsz :: u32
  feirq_flags :: u32
  feirq_evtfd :: int

definition fme_err_set_irq ::
  "nat \<Rightarrow> fpga_fme_err_irq_set option \<Rightarrow> fme_pdata \<Rightarrow> world \<Rightarrow> unit res \<times> fme_pdata \<times> world" where
  "fme_err_set_irq i arg pd w =
     (case arg of
        None \<Rightarrow> (Inl EFAULT, pd, w)
      | Some hdr \<Rightarrow>
          if feirq_argsz hdr < 12 \<or> feirq_flags hdr \<noteq> 0 then (Inl EINVAL, pd, w)
          else if fme_capability (the_fme pd) AND FPGA_FME_CAP_ERR_IRQ = 0 then (Inl ENODEV, pd, w)
          else msix_set_block_at i 0 1 (Some [feirq_evtfd hdr]) pd w)"

subsection \<open>Clearing errors\<close>

lemma clear_masks:
  "FME_ERROR0_MASK = 0xFF" "FME_ERROR0_MASK_DEFAULT = 0x40"
  "x AND FME_ERROR0_MASK = take_bit 8 x" "x AND FME_FIRST_ERROR_MASK = take_bit 60 x"
  "x AND FME_NEXT_ERROR_MASK = take_bit 60 x" "x AND (0xFF :: u64) = take_bit 8 x"
  by (simp_all add: FME_ERROR0_MASK_def FME_ERROR0_MASK_DEFAULT_def FME_FIRST_ERROR_MASK_def FME_NEXT_ERROR_MASK_def
      take_bit_eq_mask mask_eq_exp_minus_1)

lemma readq_trace: "readq a w = (v, w') \<Longrightarrow> w_trace w' = RdQ a v # w_trace w"
  by (auto simp: readq_def Let_def)

text \<open>
  C39. Clearing the errors of an FME by a value: all errors the mask names are masked first, then the
  error register is read, and the default mask comes last. If the value read is not the one given,
  nothing else is written and the answer is \<^verbatim>\<open>-EBUSY\<close>; if it is, the first and the next error are read and
  the error, the first and the next error are written back. But of the error only its low 8 bits are: the
  parity errors of the upper 12 bits stay, and the answer is success all the same.
\<close>

theorem fme_clear_writes:
  assumes "fme_clear_store pd (Inr val) w = (r, w')"
  shows "\<exists>err first next.
    if val = err
    then r = Inr () \<and> events_between w w' =
      [WrQ (fme_err_reg pd ''fme_err_mask'') 0xFF, RdQ (fme_err_reg pd ''fme_err'') err,
       RdQ (fme_err_reg pd ''fme_first_err'') first, RdQ (fme_err_reg pd ''fme_next_err'') next,
       WrQ (fme_err_reg pd ''fme_err'') (take_bit 8 err), WrQ (fme_err_reg pd ''fme_first_err'') (take_bit 60 first),
       WrQ (fme_err_reg pd ''fme_next_err'') (take_bit 60 next), WrQ (fme_err_reg pd ''fme_err_mask'') 0x40]
    else r = Inl EBUSY \<and> events_between w w' =
      [WrQ (fme_err_reg pd ''fme_err_mask'') 0xFF, RdQ (fme_err_reg pd ''fme_err'') err,
       WrQ (fme_err_reg pd ''fme_err_mask'') 0x40]"
proof -
  let ?w0 = "writeq FME_ERROR0_MASK (fme_err_reg pd ''fme_err_mask'') w"
  obtain err w1 where 1: "readq (fme_err_reg pd ''fme_err'') ?w0 = (err, w1)" by (metis surj_pair)
  obtain first w2 where 2: "readq (fme_err_reg pd ''fme_first_err'') w1 = (first, w2)" by (metis surj_pair)
  obtain nx w3 where 3: "readq (fme_err_reg pd ''fme_next_err'') w2 = (nx, w3)" by (metis surj_pair)
  have t0: "w_trace ?w0 = WrQ (fme_err_reg pd ''fme_err_mask'') FME_ERROR0_MASK # w_trace w" by (simp add: writeq_def)
  show ?thesis
    by (rule exI [of _ err], rule exI [of _ first], rule exI [of _ nx])
      (use assms 1 2 3 t0 readq_trace [OF 1] readq_trace [OF 2] readq_trace [OF 3] in
        \<open>auto simp: fme_clear_store_def fme_clear_matching_def events_between_def writeq_def clear_masks
          split: if_splits\<close>)
qed

text \<open>Errors 7 and 8 are pending: error 8 is not written back.\<close>

theorem fme_clear_writes_witness:
  "\<exists>r w'. fme_clear_store (empty_pdata\<lparr>pd_features := replicate 9 zero_feature\<rparr> :: unit feature_platform_data) (Inr 0x180)
      (quiet_world (\<lambda>a. if a = 0x10 then 0x180 else 0)) = (r, w') \<and> r = Inr () \<and>
    WrQ 0x10 0x80 \<in> set (events_between (quiet_world (\<lambda>a. if a = 0x10 then 0x180 else 0)) w')"
proof -
  let ?pd = "empty_pdata\<lparr>pd_features := replicate 9 zero_feature\<rparr> :: unit feature_platform_data"
  let ?w = "quiet_world (\<lambda>a. if a = 0x10 then 0x180 else 0)"
  have a: "fme_err_reg ?pd ''fme_err'' = 0x10" "fme_err_reg ?pd ''fme_err_mask'' = 8"
    by (simp_all add: fme_err_reg_def reg_addr_def feature_fme_err_def sizeof_csr_def layout_width_def layout_defs
        get_feature_ioaddr_by_index_def zero_feature_def)
  obtain r w' where run: "fme_clear_store ?pd (Inr 0x180) ?w = (r, w')" by (metis surj_pair)
  then have r: "r = Inr ()"
    by (auto simp: fme_clear_store_def fme_clear_matching_def a quiet_world_def readq_def writeq_def Let_def
        split: if_splits)
  have "take_bit 8 (0x180 :: u64) = 0x80" by (simp add: take_bit_eq_mask mask_eq_exp_minus_1)
  moreover from fme_clear_writes [OF run] r have "WrQ 0x10 (take_bit 8 0x180) \<in> set (events_between ?w w')"
    by (auto simp: a split: if_splits)
  ultimately show ?thesis using run r by auto
qed

subsection \<open>The account of the error device\<close>

definition err_dev_hold :: "resource \<Rightarrow> int option \<Rightarrow> int" where
  "err_dev_hold q d = (case d of None \<Rightarrow> 0 | Some dev \<Rightarrow> of_bool (q = RMem dev) + of_bool (q = RDevice dev))"

lemma put_err_dev_balance:
  "f = Put_device \<or> f = Device_unregister \<Longrightarrow>
   balance (w_trace (put_err_dev f dev w)) q = balance (w_trace w) q - err_dev_hold q (Some dev)"
  by (auto simp: put_err_dev_def kvoid_def ret_val_def err_dev_hold_def of_bool_def)

lemma error_enable_balance: "balance (w_trace (fme_error_enable pd w)) q = balance (w_trace w) q"
  by (simp add: fme_error_enable_def writeq_def)

lemma error_init_balance:
  assumes "global_error_init i pd w = (r, pd', w')"
  shows "case r of
      Inl _ \<Rightarrow> pd' = pd \<and> balance (w_trace w') q = balance (w_trace w) q
    | Inr _ \<Rightarrow> \<exists>dev cap. pd' = set_fme ((the_fme pd)\<lparr>fme_dev_err := Some dev, fme_capability := cap\<rparr>) pd \<and>
        balance (w_trace w') q = balance (w_trace w) q + err_dev_hold q (Some dev)"
proof -
  obtain v w1 where 1: "kvalue Kzalloc [] w = (v, w1)" by (metis surj_pair)
  have b1: "balance (w_trace w1) q = balance (w_trace w) q + (case v of Inl _ \<Rightarrow> 0 | Inr a \<Rightarrow> of_bool (q = RMem a))"
    using 1 by (auto simp: kvalue_def kcall_def Let_def split: sum.splits)
  show ?thesis
  proof (cases v)
    case (Inl e)
    with assms 1 b1 show ?thesis by (auto simp: global_error_init_def)
  next
    case (Inr dev)
    define w2 where "w2 = kvoid Device_initialize [dev] (fme_error_enable pd (kvoid (Kfn ''dev_set_name'') [dev] w1))"
    have b2: "balance (w_trace w2) q = balance (w_trace w) q + err_dev_hold q (Some dev)"
      using b1 Inr by (auto simp: w2_def kvoid_def ret_val_def error_enable_balance err_dev_hold_def named_pairs_def)
    obtain r3 w3 where 3: "kstatus Device_register [dev] w2 = (r3, w3)" by (metis surj_pair)
    have b3: "balance (w_trace w3) q = balance (w_trace w2) q"
      using 3 by (auto simp: kstatus_def kcall_def Let_def split: sum.splits)
    obtain r4 w4 where 4: "kstatus Sysfs_create [dev] w3 = (r4, w4)" by (metis surj_pair)
    have b4: "balance (w_trace w4) q = balance (w_trace w3) q"
      using 4 by (auto simp: kstatus_def kcall_def Let_def split: sum.splits)
    note put = put_err_dev_balance [of Put_device, simplified] put_err_dev_balance [of Device_unregister, simplified]
    from assms 1 3 4 b2 b3 b4 Inr show ?thesis
      by (auto simp: global_error_init_def put w2_def [symmetric] split: sum.splits intro: exI)
  qed
qed

lemma error_uinit_balance:
  assumes "global_error_uinit i pd w = (pd', w')" and "fme_dev_err (the_fme pd) = Some dev"
  shows "pd' = set_fme ((the_fme pd)\<lparr>fme_dev_err := None\<rparr>) pd \<and>
    balance (w_trace w') q = balance (w_trace w) q - err_dev_hold q (Some dev)"
  using assms put_err_dev_balance [of Device_unregister dev]
  by (auto simp: global_error_uinit_def Let_def) (simp add: kvoid_def)

end
