(* ===== verification/Fme_Perf.thy ===== *)
theory Fme_Perf
  imports Fme_Data Port_Reset
begin

text \<open>
  The performance counters of an FME (\<^verbatim>\<open>drivers/fpga/intel/fme-iperf.c\<close> and
  \<^verbatim>\<open>drivers/fpga/intel/fme-dperf.c\<close>): the trees of objects that carry the attributes, and the
  attributes that select an event, wait for the counter to report it and read it.

  The two files have the same functions for the fabric counters and the objects, on registers of
  their own. The functions are modelled once, for the registers in a \<open>perf_block\<close>, and then for
  either file. The macros that make one function per event become tables from attributes to events.
\<close>

subsection \<open>The registers\<close>

record perf_block =
  pb_index :: nat
  pb_regs :: regset
  pb_fab_ctl :: layout
  pb_fab_ctr :: layout

definition iperf_block :: perf_block where
  "iperf_block = \<lparr>pb_index = FME_FEATURE_ID_GLOBAL_IPERF, pb_regs = feature_fme_iperf,
     pb_fab_ctl = feature_fme_ifpmon_fab_ctl, pb_fab_ctr = feature_fme_ifpmon_fab_ctr\<rparr>"

definition dperf_block :: perf_block where
  "dperf_block = \<lparr>pb_index = FME_FEATURE_ID_GLOBAL_DPERF, pb_regs = feature_fme_dperf,
     pb_fab_ctl = feature_fme_dfpmon_fab_ctl, pb_fab_ctr = feature_fme_dfpmon_fab_ctr\<rparr>"

definition perf_reg :: "perf_block \<Rightarrow> 'p feature_platform_data \<Rightarrow> string \<Rightarrow> u64" where
  "perf_reg b pd n = reg_addr (pb_regs b) n (get_feature_ioaddr_by_index pd (pb_index b))"

definition FAB_DISABLE_FILTER :: u64 where "FAB_DISABLE_FILTER = 0"
definition FAB_ENABLE_FILTER :: u64 where "FAB_ENABLE_FILTER = 1"
definition CACHE_CHANNEL_RD :: u64 where "CACHE_CHANNEL_RD = 0"
definition CACHE_CHANNEL_WR :: u64 where "CACHE_CHANNEL_WR = 1"
definition IPERF_TIMEOUT :: nat where "IPERF_TIMEOUT = 30"
definition DPERF_TIMEOUT :: nat where "DPERF_TIMEOUT = 30"

subsection \<open>The clock\<close>

definition perf_revision_show :: "perf_block \<Rightarrow> 'p feature_platform_data \<Rightarrow> world \<Rightarrow> u64 \<times> world" where
  "perf_revision_show b pd w =
     (case readq (perf_reg b pd ''header'') w of (csr, w1) \<Rightarrow> (get_field feature_header ''revision'' csr, w1))"

definition iperf_revision_show :: "'p feature_platform_data \<Rightarrow> world \<Rightarrow> u64 \<times> world" where
  "iperf_revision_show = perf_revision_show iperf_block"

definition dperf_revision_show :: "'p feature_platform_data \<Rightarrow> world \<Rightarrow> u64 \<times> world" where
  "dperf_revision_show = perf_revision_show dperf_block"

definition perf_clock_show :: "perf_block \<Rightarrow> 'p feature_platform_data \<Rightarrow> world \<Rightarrow> u64 \<times> world" where
  "perf_clock_show b pd w = readq (perf_reg b pd ''clk'') w"

definition iperf_clock_show :: "'p feature_platform_data \<Rightarrow> world \<Rightarrow> u64 \<times> world" where
  "iperf_clock_show = perf_clock_show iperf_block"

definition dperf_clock_show :: "'p feature_platform_data \<Rightarrow> world \<Rightarrow> u64 \<times> world" where
  "dperf_clock_show = perf_clock_show dperf_block"

subsection \<open>Freezing the counters\<close>

text \<open>Showing and setting the freeze bit of the control register \<open>n\<close> with layout \<open>l\<close>.\<close>

definition freeze_bit_show ::
  "perf_block \<Rightarrow> layout \<Rightarrow> string \<Rightarrow> 'p feature_platform_data \<Rightarrow> world \<Rightarrow> u64 \<times> world" where
  "freeze_bit_show b l n pd w =
     (case readq (perf_reg b pd n) w of (csr, w1) \<Rightarrow> (get_field l ''freeze'' csr, w1))"

definition freeze_bit_store ::
  "perf_block \<Rightarrow> layout \<Rightarrow> string \<Rightarrow> 'p feature_platform_data \<Rightarrow> bool res \<Rightarrow> world \<Rightarrow> unit res \<times> world" where
  "freeze_bit_store b l n pd parsed w =
     (case parsed of
        Inl _ \<Rightarrow> (Inl EINVAL, w)
      | Inr state \<Rightarrow>
          (case readq (perf_reg b pd n) w of
             (csr, w1) \<Rightarrow> (Inr (), writeq (set_field l ''freeze'' (of_bool state) csr) (perf_reg b pd n) w1)))"

definition cache_freeze_show :: "'p feature_platform_data \<Rightarrow> world \<Rightarrow> u64 \<times> world" where
  "cache_freeze_show = freeze_bit_show iperf_block feature_fme_ifpmon_ch_ctl ''ch_ctl''"

definition cache_freeze_store :: "'p feature_platform_data \<Rightarrow> bool res \<Rightarrow> world \<Rightarrow> unit res \<times> world" where
  "cache_freeze_store = freeze_bit_store iperf_block feature_fme_ifpmon_ch_ctl ''ch_ctl''"

definition vtd_freeze_show :: "'p feature_platform_data \<Rightarrow> world \<Rightarrow> u64 \<times> world" where
  "vtd_freeze_show = freeze_bit_show iperf_block feature_fme_ifpmon_vtd_ctl ''vtd_ctl''"

definition vtd_freeze_store :: "'p feature_platform_data \<Rightarrow> bool res \<Rightarrow> world \<Rightarrow> unit res \<times> world" where
  "vtd_freeze_store = freeze_bit_store iperf_block feature_fme_ifpmon_vtd_ctl ''vtd_ctl''"

definition iperf_fab_freeze_show :: "'p feature_platform_data \<Rightarrow> world \<Rightarrow> u64 \<times> world" where
  "iperf_fab_freeze_show = freeze_bit_show iperf_block feature_fme_ifpmon_fab_ctl ''fab_ctl''"

definition iperf_fab_freeze_store :: "'p feature_platform_data \<Rightarrow> bool res \<Rightarrow> world \<Rightarrow> unit res \<times> world" where
  "iperf_fab_freeze_store = freeze_bit_store iperf_block feature_fme_ifpmon_fab_ctl ''fab_ctl''"

definition dperf_fab_freeze_show :: "'p feature_platform_data \<Rightarrow> world \<Rightarrow> u64 \<times> world" where
  "dperf_fab_freeze_show = freeze_bit_show dperf_block feature_fme_dfpmon_fab_ctl ''fab_ctl''"

definition dperf_fab_freeze_store :: "'p feature_platform_data \<Rightarrow> bool res \<Rightarrow> world \<Rightarrow> unit res \<times> world" where
  "dperf_fab_freeze_store = freeze_bit_store dperf_block feature_fme_dfpmon_fab_ctl ''fab_ctl''"

subsection \<open>The counters\<close>

text \<open>
  The two counters are bit-fields of 48 bits: their sum has this width too, as the compiler adds bit-fields
  that are wider than an \<^verbatim>\<open>int\<close> at their own width, before it becomes a \<^verbatim>\<open>u64\<close>.
\<close>

definition read_cache_counter ::
  "'p feature_platform_data \<Rightarrow> u64 \<Rightarrow> u64 \<Rightarrow> world \<Rightarrow> u64 res \<times> world" where
  "read_cache_counter pd channel event w =
     (case readq (perf_reg iperf_block pd ''ch_ctl'') w of
        (csr, w1) \<Rightarrow>
          let ctl = set_field feature_fme_ifpmon_ch_ctl ''cache_event'' event
                (set_field feature_fme_ifpmon_ch_ctl ''cci_chsel'' channel csr)
          in (case fpga_wait_register_field feature_fme_ifpmon_ch_ctr ''event_code''
                     (set_field feature_fme_ifpmon_ch_ctr ''event_code'' event 0)
                     (perf_reg iperf_block pd ''ch_ctr0'') IPERF_TIMEOUT 1
                     (writeq ctl (perf_reg iperf_block pd ''ch_ctl'') w1) of
                (Inl _, w2) \<Rightarrow> (Inl ETIMEDOUT, w2)
              | (Inr _, w2) \<Rightarrow>
                  (case readq (perf_reg iperf_block pd ''ch_ctr0'') w2 of
                     (ctr0, w3) \<Rightarrow>
                       (case readq (perf_reg iperf_block pd ''ch_ctr1'') w3 of
                          (ctr1, w4) \<Rightarrow>
                            (Inr (take_bit 48 (get_field feature_fme_ifpmon_ch_ctr ''cache_counter'' ctr0 +
                               get_field feature_fme_ifpmon_ch_ctr ''cache_counter'' ctr1)), w4)))))"

text \<open>The events of the cache, with their numbers.\<close>

datatype iperf_cache_event =
  IPERF_CACHE_RD_HIT | IPERF_CACHE_WR_HIT | IPERF_CACHE_RD_MISS | IPERF_CACHE_WR_MISS
  | IPERF_CACHE_RSVD | IPERF_CACHE_HOLD_REQ | IPERF_CACHE_DATA_WR_PORT_CONTEN
  | IPERF_CACHE_TAG_WR_PORT_CONTEN | IPERF_CACHE_TX_REQ_STALL | IPERF_CACHE_RX_REQ_STALL
  | IPERF_CACHE_EVICTIONS

fun cache_event_code :: "iperf_cache_event \<Rightarrow> u64" where
  "cache_event_code IPERF_CACHE_RD_HIT = 0"
| "cache_event_code IPERF_CACHE_WR_HIT = 1"
| "cache_event_code IPERF_CACHE_RD_MISS = 2"
| "cache_event_code IPERF_CACHE_WR_MISS = 3"
| "cache_event_code IPERF_CACHE_RSVD = 4"
| "cache_event_code IPERF_CACHE_HOLD_REQ = 5"
| "cache_event_code IPERF_CACHE_DATA_WR_PORT_CONTEN = 6"
| "cache_event_code IPERF_CACHE_TAG_WR_PORT_CONTEN = 7"
| "cache_event_code IPERF_CACHE_TX_REQ_STALL = 8"
| "cache_event_code IPERF_CACHE_RX_REQ_STALL = 9"
| "cache_event_code IPERF_CACHE_EVICTIONS = 10"

text \<open>The attributes with their channel and event.\<close>

definition cache_events :: "(string \<times> u64 \<times> u64) list" where
  "cache_events =
     [(''read_hit'', CACHE_CHANNEL_RD, cache_event_code IPERF_CACHE_RD_HIT),
      (''read_miss'', CACHE_CHANNEL_RD, cache_event_code IPERF_CACHE_RD_MISS),
      (''write_hit'', CACHE_CHANNEL_WR, cache_event_code IPERF_CACHE_WR_HIT),
      (''write_miss'', CACHE_CHANNEL_WR, cache_event_code IPERF_CACHE_WR_MISS),
      (''hold_request'', CACHE_CHANNEL_RD, cache_event_code IPERF_CACHE_HOLD_REQ),
      (''tx_req_stall'', CACHE_CHANNEL_RD, cache_event_code IPERF_CACHE_TX_REQ_STALL),
      (''rx_req_stall'', CACHE_CHANNEL_RD, cache_event_code IPERF_CACHE_RX_REQ_STALL),
      (''rx_eviction'', CACHE_CHANNEL_RD, cache_event_code IPERF_CACHE_EVICTIONS),
      (''data_write_port_contention'', CACHE_CHANNEL_WR, cache_event_code IPERF_CACHE_DATA_WR_PORT_CONTEN),
      (''tag_write_port_contention'', CACHE_CHANNEL_WR, cache_event_code IPERF_CACHE_TAG_WR_PORT_CONTEN)]"

text \<open>Selecting an event in the control register \<open>ctl\<close> and reading the counter \<open>ctr\<close>.\<close>

definition read_vtd_counter ::
  "layout \<Rightarrow> string \<Rightarrow> layout \<Rightarrow> string \<Rightarrow> 'p feature_platform_data \<Rightarrow> u64 \<Rightarrow> world \<Rightarrow> u64 res \<times> world" where
  "read_vtd_counter lctl ctl lctr ctr pd event w =
     (case readq (perf_reg iperf_block pd ctl) w of
        (csr, w1) \<Rightarrow>
          (case fpga_wait_register_field lctr ''event_code'' (set_field lctr ''event_code'' event 0)
                  (perf_reg iperf_block pd ctr) IPERF_TIMEOUT 1
                  (writeq (set_field lctl ''vtd_evtcode'' event csr) (perf_reg iperf_block pd ctl) w1) of
             (Inl _, w2) \<Rightarrow> (Inl ETIMEDOUT, w2)
           | (Inr _, w2) \<Rightarrow>
               (case readq (perf_reg iperf_block pd ctr) w2 of
                  (v, w3) \<Rightarrow> (Inr (get_field lctr ''vtd_counter'' v), w3))))"

definition read_iommu_sip_counter :: "'p feature_platform_data \<Rightarrow> u64 \<Rightarrow> world \<Rightarrow> u64 res \<times> world" where
  "read_iommu_sip_counter = read_vtd_counter feature_fme_ifpmon_vtd_sip_ctl ''vtd_sip_ctl''
     feature_fme_ifpmon_vtd_sip_ctr ''vtd_sip_ctr''"

text \<open>The events of the translation caches of the IOMMU.\<close>

datatype iperf_vtd_sip_event =
  IPERF_VTD_SIP_IOTLB_4K_HIT | IPERF_VTD_SIP_IOTLB_2M_HIT | IPERF_VTD_SIP_IOTLB_1G_HIT
  | IPERF_VTD_SIP_SLPWC_L3_HIT | IPERF_VTD_SIP_SLPWC_L4_HIT | IPERF_VTD_SIP_RCC_HIT
  | IPERF_VTD_SIP_IOTLB_4K_MISS | IPERF_VTD_SIP_IOTLB_2M_MISS | IPERF_VTD_SIP_IOTLB_1G_MISS
  | IPERF_VTD_SIP_SLPWC_L3_MISS | IPERF_VTD_SIP_SLPWC_L4_MISS | IPERF_VTD_SIP_RCC_MISS

fun vtd_sip_event_code :: "iperf_vtd_sip_event \<Rightarrow> u64" where
  "vtd_sip_event_code IPERF_VTD_SIP_IOTLB_4K_HIT = 0"
| "vtd_sip_event_code IPERF_VTD_SIP_IOTLB_2M_HIT = 1"
| "vtd_sip_event_code IPERF_VTD_SIP_IOTLB_1G_HIT = 2"
| "vtd_sip_event_code IPERF_VTD_SIP_SLPWC_L3_HIT = 3"
| "vtd_sip_event_code IPERF_VTD_SIP_SLPWC_L4_HIT = 4"
| "vtd_sip_event_code IPERF_VTD_SIP_RCC_HIT = 5"
| "vtd_sip_event_code IPERF_VTD_SIP_IOTLB_4K_MISS = 6"
| "vtd_sip_event_code IPERF_VTD_SIP_IOTLB_2M_MISS = 7"
| "vtd_sip_event_code IPERF_VTD_SIP_IOTLB_1G_MISS = 8"
| "vtd_sip_event_code IPERF_VTD_SIP_SLPWC_L3_MISS = 9"
| "vtd_sip_event_code IPERF_VTD_SIP_SLPWC_L4_MISS = 10"
| "vtd_sip_event_code IPERF_VTD_SIP_RCC_MISS = 11"

definition vtd_sip_events :: "(string \<times> u64) list" where
  "vtd_sip_events =
     [(''iotlb_4k_hit'', vtd_sip_event_code IPERF_VTD_SIP_IOTLB_4K_HIT),
      (''iotlb_2m_hit'', vtd_sip_event_code IPERF_VTD_SIP_IOTLB_2M_HIT),
      (''iotlb_1g_hit'', vtd_sip_event_code IPERF_VTD_SIP_IOTLB_1G_HIT),
      (''slpwc_l3_hit'', vtd_sip_event_code IPERF_VTD_SIP_SLPWC_L3_HIT),
      (''slpwc_l4_hit'', vtd_sip_event_code IPERF_VTD_SIP_SLPWC_L4_HIT),
      (''rcc_hit'', vtd_sip_event_code IPERF_VTD_SIP_RCC_HIT),
      (''iotlb_4k_miss'', vtd_sip_event_code IPERF_VTD_SIP_IOTLB_4K_MISS),
      (''iotlb_2m_miss'', vtd_sip_event_code IPERF_VTD_SIP_IOTLB_2M_MISS),
      (''iotlb_1g_miss'', vtd_sip_event_code IPERF_VTD_SIP_IOTLB_1G_MISS),
      (''slpwc_l3_miss'', vtd_sip_event_code IPERF_VTD_SIP_SLPWC_L3_MISS),
      (''slpwc_l4_miss'', vtd_sip_event_code IPERF_VTD_SIP_SLPWC_L4_MISS),
      (''rcc_miss'', vtd_sip_event_code IPERF_VTD_SIP_RCC_MISS)]"

definition read_iommu_counter ::
  "'p feature_platform_data \<Rightarrow> perf_object \<Rightarrow> u64 \<Rightarrow> world \<Rightarrow> u64 res \<times> world" where
  "read_iommu_counter pd pobj base_event w =
     read_vtd_counter feature_fme_ifpmon_vtd_ctl ''vtd_ctl'' feature_fme_ifpmon_vtd_ctr ''vtd_ctr''
       pd (base_event + word_of_int (po_id pobj)) w"

text \<open>The events of a port at the IOMMU.\<close>

datatype iperf_vtd_event =
  IPERF_VTD_AFU_MEM_RD_TRANS | IPERF_VTD_AFU_MEM_WR_TRANS | IPERF_VTD_AFU_DEVTLB_RD_HIT
  | IPERF_VTD_AFU_DEVTLB_WR_HIT | IPERF_VTD_DEVTLB_4K_FILL | IPERF_VTD_DEVTLB_2M_FILL
  | IPERF_VTD_DEVTLB_1G_FILL

fun vtd_event_code :: "iperf_vtd_event \<Rightarrow> u64" where
  "vtd_event_code IPERF_VTD_AFU_MEM_RD_TRANS = 0"
| "vtd_event_code IPERF_VTD_AFU_MEM_WR_TRANS = 1"
| "vtd_event_code IPERF_VTD_AFU_DEVTLB_RD_HIT = 2"
| "vtd_event_code IPERF_VTD_AFU_DEVTLB_WR_HIT = 3"
| "vtd_event_code IPERF_VTD_DEVTLB_4K_FILL = 4"
| "vtd_event_code IPERF_VTD_DEVTLB_2M_FILL = 5"
| "vtd_event_code IPERF_VTD_DEVTLB_1G_FILL = 6"

definition vtd_events :: "(string \<times> u64) list" where
  "vtd_events =
     [(''read_transaction'', vtd_event_code IPERF_VTD_AFU_MEM_RD_TRANS),
      (''write_transaction'', vtd_event_code IPERF_VTD_AFU_MEM_WR_TRANS),
      (''devtlb_read_hit'', vtd_event_code IPERF_VTD_AFU_DEVTLB_RD_HIT),
      (''devtlb_write_hit'', vtd_event_code IPERF_VTD_AFU_DEVTLB_WR_HIT),
      (''devtlb_4k_fill'', vtd_event_code IPERF_VTD_DEVTLB_4K_FILL),
      (''devtlb_2m_fill'', vtd_event_code IPERF_VTD_DEVTLB_2M_FILL),
      (''devtlb_1g_fill'', vtd_event_code IPERF_VTD_DEVTLB_1G_FILL)]"

subsection \<open>The fabric counters\<close>

definition fabric_pobj_is_enabled ::
  "perf_block \<Rightarrow> 'p feature_platform_data \<Rightarrow> perf_object \<Rightarrow> world \<Rightarrow> bool \<times> world" where
  "fabric_pobj_is_enabled b pd pobj w =
     (case readq (perf_reg b pd ''fab_ctl'') w of
        (csr, w1) \<Rightarrow>
          (if get_field (pb_fab_ctl b) ''port_filter'' csr = FAB_DISABLE_FILTER
           then po_id pobj = PERF_OBJ_ROOT_ID
           else po_id pobj = uint (get_field (pb_fab_ctl b) ''port_id'' csr), w1))"

definition read_fabric_counter ::
  "perf_block \<Rightarrow> nat \<Rightarrow> 'p feature_platform_data \<Rightarrow> perf_object \<Rightarrow> u64 \<Rightarrow> world \<Rightarrow> u64 res \<times> world" where
  "read_fabric_counter b timeout pd pobj fab_event w =
     (case fabric_pobj_is_enabled b pd pobj w of
        (False, w1) \<Rightarrow> (Inr 0, w1)
      | (True, w1) \<Rightarrow>
          (case readq (perf_reg b pd ''fab_ctl'') w1 of
             (csr, w2) \<Rightarrow>
               (case fpga_wait_register_field (pb_fab_ctr b) ''event_code''
                       (set_field (pb_fab_ctr b) ''event_code'' fab_event 0)
                       (perf_reg b pd ''fab_ctr'') timeout 1
                       (writeq (set_field (pb_fab_ctl b) ''fab_evtcode'' fab_event csr)
                          (perf_reg b pd ''fab_ctl'') w2) of
                  (Inl _, w3) \<Rightarrow> (Inl ETIMEDOUT, w3)
                | (Inr _, w3) \<Rightarrow>
                    (case readq (perf_reg b pd ''fab_ctr'') w3 of
                       (ctr, w4) \<Rightarrow> (Inr (get_field (pb_fab_ctr b) ''fab_cnt'' ctr), w4)))))"

definition iperf_read_fabric_counter ::
  "'p feature_platform_data \<Rightarrow> perf_object \<Rightarrow> u64 \<Rightarrow> world \<Rightarrow> u64 res \<times> world" where
  "iperf_read_fabric_counter = read_fabric_counter iperf_block IPERF_TIMEOUT"

definition dperf_read_fabric_counter ::
  "'p feature_platform_data \<Rightarrow> perf_object \<Rightarrow> u64 \<Rightarrow> world \<Rightarrow> u64 res \<times> world" where
  "dperf_read_fabric_counter = read_fabric_counter dperf_block DPERF_TIMEOUT"

text \<open>The events of the fabric; a discrete card has some of them only.\<close>

datatype iperf_fab_event =
  IPERF_FAB_PCIE0_RD | IPERF_FAB_PCIE0_WR | IPERF_FAB_PCIE1_RD | IPERF_FAB_PCIE1_WR
  | IPERF_FAB_UPI_RD | IPERF_FAB_UPI_WR | IPERF_FAB_MMIO_RD | IPERF_FAB_MMIO_WR

fun iperf_fab_event_code :: "iperf_fab_event \<Rightarrow> u64" where
  "iperf_fab_event_code IPERF_FAB_PCIE0_RD = 0"
| "iperf_fab_event_code IPERF_FAB_PCIE0_WR = 1"
| "iperf_fab_event_code IPERF_FAB_PCIE1_RD = 2"
| "iperf_fab_event_code IPERF_FAB_PCIE1_WR = 3"
| "iperf_fab_event_code IPERF_FAB_UPI_RD = 4"
| "iperf_fab_event_code IPERF_FAB_UPI_WR = 5"
| "iperf_fab_event_code IPERF_FAB_MMIO_RD = 6"
| "iperf_fab_event_code IPERF_FAB_MMIO_WR = 7"

datatype dperf_fab_event =
  DPERF_FAB_PCIE0_RD | DPERF_FAB_PCIE0_WR | DPERF_FAB_MMIO_RD | DPERF_FAB_MMIO_WR

fun dperf_fab_event_code :: "dperf_fab_event \<Rightarrow> u64" where
  "dperf_fab_event_code DPERF_FAB_PCIE0_RD = 0"
| "dperf_fab_event_code DPERF_FAB_PCIE0_WR = 1"
| "dperf_fab_event_code DPERF_FAB_MMIO_RD = 6"
| "dperf_fab_event_code DPERF_FAB_MMIO_WR = 7"

definition iperf_fab_events :: "(string \<times> u64) list" where
  "iperf_fab_events =
     [(''pcie0_read'', iperf_fab_event_code IPERF_FAB_PCIE0_RD),
      (''pcie0_write'', iperf_fab_event_code IPERF_FAB_PCIE0_WR),
      (''pcie1_read'', iperf_fab_event_code IPERF_FAB_PCIE1_RD),
      (''pcie1_write'', iperf_fab_event_code IPERF_FAB_PCIE1_WR),
      (''upi_read'', iperf_fab_event_code IPERF_FAB_UPI_RD),
      (''upi_write'', iperf_fab_event_code IPERF_FAB_UPI_WR),
      (''mmio_read'', iperf_fab_event_code IPERF_FAB_MMIO_RD),
      (''mmio_write'', iperf_fab_event_code IPERF_FAB_MMIO_WR)]"

definition dperf_fab_events :: "(string \<times> u64) list" where
  "dperf_fab_events =
     [(''pcie0_read'', dperf_fab_event_code DPERF_FAB_PCIE0_RD),
      (''pcie0_write'', dperf_fab_event_code DPERF_FAB_PCIE0_WR),
      (''mmio_read'', dperf_fab_event_code DPERF_FAB_MMIO_RD),
      (''mmio_write'', dperf_fab_event_code DPERF_FAB_MMIO_WR)]"

definition fab_enable_show ::
  "perf_block \<Rightarrow> 'p feature_platform_data \<Rightarrow> perf_object \<Rightarrow> world \<Rightarrow> bool \<times> world" where
  "fab_enable_show b pd pobj w = fabric_pobj_is_enabled b pd pobj w"

definition fab_enable_store ::
  "perf_block \<Rightarrow> 'p feature_platform_data \<Rightarrow> perf_object \<Rightarrow> bool res \<Rightarrow> world \<Rightarrow> unit res \<times> world" where
  "fab_enable_store b pd pobj parsed w =
     (case parsed of
        Inl _ \<Rightarrow> (Inl EINVAL, w)
      | Inr state \<Rightarrow>
          if \<not> state then (Inl EINVAL, w)
          else
            (case fabric_pobj_is_enabled b pd pobj w of
               (True, w1) \<Rightarrow> (Inr (), w1)
             | (False, w1) \<Rightarrow>
                 (case readq (perf_reg b pd ''fab_ctl'') w1 of
                    (csr, w2) \<Rightarrow>
                      let ctl = (if po_id pobj = PERF_OBJ_ROOT_ID
                        then set_field (pb_fab_ctl b) ''port_filter'' FAB_DISABLE_FILTER csr
                        else set_field (pb_fab_ctl b) ''port_id'' (word_of_int (po_id pobj))
                          (set_field (pb_fab_ctl b) ''port_filter'' FAB_ENABLE_FILTER csr))
                      in (Inr (), writeq ctl (perf_reg b pd ''fab_ctl'') w2))))"

definition iperf_fab_enable_show :: "'p feature_platform_data \<Rightarrow> perf_object \<Rightarrow> world \<Rightarrow> bool \<times> world" where
  "iperf_fab_enable_show = fab_enable_show iperf_block"

definition dperf_fab_enable_show :: "'p feature_platform_data \<Rightarrow> perf_object \<Rightarrow> world \<Rightarrow> bool \<times> world" where
  "dperf_fab_enable_show = fab_enable_show dperf_block"

definition iperf_fab_enable_store ::
  "'p feature_platform_data \<Rightarrow> perf_object \<Rightarrow> bool res \<Rightarrow> world \<Rightarrow> unit res \<times> world" where
  "iperf_fab_enable_store = fab_enable_store iperf_block"

definition dperf_fab_enable_store ::
  "'p feature_platform_data \<Rightarrow> perf_object \<Rightarrow> bool res \<Rightarrow> world \<Rightarrow> unit res \<times> world" where
  "dperf_fab_enable_store = fab_enable_store dperf_block"

subsection \<open>The objects\<close>

text \<open>
  The last reference to an object is put: its release function frees it. An object's children, which
  hold references to it, are gone by then.
\<close>

definition perf_obj_release :: "int \<Rightarrow> world \<Rightarrow> world" where
  "perf_obj_release self w = kvoid Kfree [self] w"

definition kobject_put :: "int \<Rightarrow> world \<Rightarrow> world" where
  "kobject_put self w = perf_obj_release self (kvoid (Kfn ''kobject_put'') [self] w)"

definition create_perf_obj ::
  "int \<Rightarrow> int \<Rightarrow> string option \<Rightarrow> string \<Rightarrow> world \<Rightarrow> perf_object res \<times> world" where
  "create_perf_obj parent inst groups name w =
     (case kvalue Kzalloc [] w of
        (Inl _, w1) \<Rightarrow> (Inl ENOMEM, w1)
      | (Inr self, w1) \<Rightarrow>
          (case kstatus (Kfn ''kobject_init_and_add'') [self, parent, inst] w1 of
             (Inl e, w2) \<Rightarrow> (Inl e, kobject_put self w2)
           | (Inr _, w2) \<Rightarrow>
               if groups = None then (Inr (Perf_object self inst groups []), w2)
               else
                 (case kstatus Sysfs_create [self] w2 of
                    (Inl e, w3) \<Rightarrow> (Inl e, kobject_put self w3)
                  | (Inr _, w3) \<Rightarrow> (Inr (Perf_object self inst groups []), w3))))"

fun destroy_perf_obj :: "perf_object \<Rightarrow> world \<Rightarrow> world"
and destroy_perf_objs :: "perf_object list \<Rightarrow> world \<Rightarrow> world" where
  "destroy_perf_obj (Perf_object self inst groups children) w =
     (let w1 = destroy_perf_objs children w;
          w2 = (if groups = None then w1 else kvoid Sysfs_remove [self] w1)
      in kobject_put self w2)"
| "destroy_perf_objs [] w = w"
| "destroy_perf_objs (obj # objs) w = destroy_perf_objs objs (destroy_perf_obj obj w)"

text \<open>\<^verbatim>\<open>list_add(&obj->node, &pobj->children)\<close>.\<close>

fun add_child :: "perf_object \<Rightarrow> perf_object \<Rightarrow> perf_object" where
  "add_child obj (Perf_object self inst groups children) = Perf_object self inst groups (obj # children)"

definition PERF_MAX_PORT_NUM :: nat where "PERF_MAX_PORT_NUM = 1"
definition dperf_PERF_MAX_PORT_NUM :: nat where "dperf_PERF_MAX_PORT_NUM = 1"

fun add_port_objs ::
  "string option \<Rightarrow> string \<Rightarrow> nat list \<Rightarrow> perf_object \<Rightarrow> world \<Rightarrow> unit res \<times> perf_object \<times> world" where
  "add_port_objs groups name [] pobj w = (Inr (), pobj, w)"
| "add_port_objs groups name (i # is) pobj w =
     (case create_perf_obj (po_self pobj) (int i) groups name w of
        (Inl e, w1) \<Rightarrow> (Inl e, pobj, w1)
      | (Inr obj, w1) \<Rightarrow> add_port_objs groups name is (add_child obj pobj) w1)"

text \<open>An object below the root with one object per port below it.\<close>

definition create_perf_sub_obj ::
  "string \<Rightarrow> string \<Rightarrow> string \<Rightarrow> string \<Rightarrow> nat \<Rightarrow> perf_object \<Rightarrow> world \<Rightarrow> unit res \<times> perf_object \<times> world" where
  "create_perf_sub_obj top_groups name groups port_name n perf_dev w =
     (case create_perf_obj (po_self perf_dev) PERF_OBJ_ROOT_ID (Some top_groups) name w of
        (Inl e, w1) \<Rightarrow> (Inl e, perf_dev, w1)
      | (Inr pobj, w1) \<Rightarrow>
          (case add_port_objs (Some groups) port_name [0..<n] pobj w1 of
             (r, pobj1, w2) \<Rightarrow> (r, add_child pobj1 perf_dev, w2)))"

definition create_perf_iommu_obj ::
  "'p feature_platform_data \<Rightarrow> perf_object \<Rightarrow> world \<Rightarrow> unit res \<times> perf_object \<times> world" where
  "create_perf_iommu_obj pd perf_dev w =
     (case readq (reg_addr feature_fme_header ''capability''
              (get_feature_ioaddr_by_index pd FME_FEATURE_ID_HEADER)) w of
        (cap, w1) \<Rightarrow>
          if get_field feature_fme_capability ''iommu_support'' cap = 0 then (Inr (), perf_dev, w1)
          else create_perf_sub_obj ''iommu_top_attr_groups'' ''iommu'' ''iommu_attr_groups'' ''afu''
            PERF_MAX_PORT_NUM perf_dev w1)"

definition iperf_create_perf_fabric_obj :: "perf_object \<Rightarrow> world \<Rightarrow> unit res \<times> perf_object \<times> world" where
  "iperf_create_perf_fabric_obj perf_dev w =
     create_perf_sub_obj ''fabric_top_attr_groups'' ''fabric'' ''fabric_attr_groups'' ''port''
       PERF_MAX_PORT_NUM perf_dev w"

definition dperf_create_perf_fabric_obj :: "perf_object \<Rightarrow> world \<Rightarrow> unit res \<times> perf_object \<times> world" where
  "dperf_create_perf_fabric_obj perf_dev w =
     create_perf_sub_obj ''fabric_top_attr_groups'' ''fabric'' ''fabric_attr_groups'' ''port''
       dperf_PERF_MAX_PORT_NUM perf_dev w"

text \<open>The parent is the FME's own device.\<close>

definition iperf_create_perf_dev :: "int \<Rightarrow> world \<Rightarrow> perf_object res \<times> world" where
  "iperf_create_perf_dev dev w = create_perf_obj dev PERF_OBJ_ROOT_ID (Some ''perf_dev_attr_groups'') ''iperf'' w"

definition dperf_create_perf_dev :: "int \<Rightarrow> world \<Rightarrow> perf_object res \<times> world" where
  "dperf_create_perf_dev dev w = create_perf_obj dev PERF_OBJ_ROOT_ID (Some ''perf_dev_attr_groups'') ''dperf'' w"

definition fme_iperf_init :: "int \<Rightarrow> nat \<Rightarrow> fme_pdata \<Rightarrow> world \<Rightarrow> unit res \<times> fme_pdata \<times> world" where
  "fme_iperf_init dev i pd w =
     (case iperf_create_perf_dev dev w of
        (Inl e, w1) \<Rightarrow> (Inl e, pd, w1)
      | (Inr perf_dev, w1) \<Rightarrow>
          (case create_perf_iommu_obj pd perf_dev w1 of
             (Inl e, perf_dev1, w2) \<Rightarrow> (Inl e, pd, destroy_perf_obj perf_dev1 w2)
           | (Inr _, perf_dev1, w2) \<Rightarrow>
               (case iperf_create_perf_fabric_obj perf_dev1 w2 of
                  (Inl e, perf_dev2, w3) \<Rightarrow> (Inl e, pd, destroy_perf_obj perf_dev2 w3)
                | (Inr _, perf_dev2, w3) \<Rightarrow>
                    (Inr (), set_fme ((the_fme pd)\<lparr>fme_iperf_dev := Some perf_dev2\<rparr>) pd, w3))))"

definition fme_iperf_uinit :: "nat \<Rightarrow> fme_pdata \<Rightarrow> world \<Rightarrow> fme_pdata \<times> world" where
  "fme_iperf_uinit i pd w =
     (set_fme ((the_fme pd)\<lparr>fme_iperf_dev := None\<rparr>) pd,
      destroy_perf_obj (the (fme_iperf_dev (the_fme pd))) w)"

definition fme_dperf_init :: "int \<Rightarrow> nat \<Rightarrow> fme_pdata \<Rightarrow> world \<Rightarrow> unit res \<times> fme_pdata \<times> world" where
  "fme_dperf_init dev i pd w =
     (case dperf_create_perf_dev dev w of
        (Inl e, w1) \<Rightarrow> (Inl e, pd, w1)
      | (Inr perf_dev, w1) \<Rightarrow>
          (case dperf_create_perf_fabric_obj perf_dev w1 of
             (Inl e, perf_dev1, w2) \<Rightarrow> (Inl e, pd, destroy_perf_obj perf_dev1 w2)
           | (Inr _, perf_dev1, w2) \<Rightarrow>
               (Inr (), set_fme ((the_fme pd)\<lparr>fme_dperf_dev := Some perf_dev1\<rparr>) pd, w2)))"

definition fme_dperf_uinit :: "nat \<Rightarrow> fme_pdata \<Rightarrow> world \<Rightarrow> fme_pdata \<times> world" where
  "fme_dperf_uinit i pd w =
     (set_fme ((the_fme pd)\<lparr>fme_dperf_dev := None\<rparr>) pd,
      destroy_perf_obj (the (fme_dperf_dev (the_fme pd))) w)"

subsection \<open>The memory of the objects\<close>

text \<open>What a tree of objects holds.\<close>

fun perf_hold :: "resource \<Rightarrow> perf_object \<Rightarrow> int" where
  "perf_hold q (Perf_object self inst groups children) =
     of_bool (q = RMem self) + sum_list (map (perf_hold q) children)"

lemma kobject_put_balance:
  "balance (w_trace (kobject_put self w)) q = balance (w_trace w) q - of_bool (q = RMem self)"
  by (simp add: kobject_put_def perf_obj_release_def kvoid_def ret_val_def named_pairs_def)

lemma destroy_balance:
  "balance (w_trace (destroy_perf_obj obj w)) q = balance (w_trace w) q - perf_hold q obj"
  "balance (w_trace (destroy_perf_objs objs w)) q = balance (w_trace w) q - sum_list (map (perf_hold q) objs)"
  by (induction obj w and objs w rule: destroy_perf_obj_destroy_perf_objs.induct)
    (simp_all add: Let_def kobject_put_balance, simp add: kvoid_def)

lemma create_balance:
  assumes "create_perf_obj parent inst groups name w = (r, w')"
  shows "case r of
      Inl _ \<Rightarrow> balance (w_trace w') q = balance (w_trace w) q
    | Inr obj \<Rightarrow> balance (w_trace w') q = balance (w_trace w) q + perf_hold q obj \<and> po_children obj = []"
proof -
  obtain v w1 where 1: "kvalue Kzalloc [] w = (v, w1)" by (metis surj_pair)
  have b1: "balance (w_trace w1) q = balance (w_trace w) q + (case v of Inl _ \<Rightarrow> 0 | Inr a \<Rightarrow> of_bool (q = RMem a))"
    using 1 by (auto simp: kvalue_def kcall_def Let_def split: sum.splits)
  show ?thesis
  proof (cases v)
    case (Inl e)
    with assms 1 b1 show ?thesis by (auto simp: create_perf_obj_def)
  next
    case (Inr self)
    obtain r2 w2 where 2: "kstatus (Kfn ''kobject_init_and_add'') [self, parent, inst] w1 = (r2, w2)" by (metis surj_pair)
    have b2: "balance (w_trace w2) q = balance (w_trace w1) q"
      using 2 by (auto simp: kstatus_def kcall_def Let_def named_pairs_def split: sum.splits)
    obtain r3 w3 where 3: "kstatus Sysfs_create [self] w2 = (r3, w3)" by (metis surj_pair)
    have b3: "balance (w_trace w3) q = balance (w_trace w2) q"
      using 3 by (auto simp: kstatus_def kcall_def Let_def split: sum.splits)
    from assms 1 2 3 b1 b2 b3 Inr show ?thesis
      by (auto simp: create_perf_obj_def kobject_put_balance split: sum.splits if_splits)
  qed
qed

lemma perf_hold_add: "perf_hold q (add_child obj pobj) = perf_hold q obj + perf_hold q pobj"
  by (cases pobj) simp

lemma add_port_objs_balance:
  "add_port_objs groups name is pobj w = (r, pobj', w') \<Longrightarrow>
   balance (w_trace w') q = balance (w_trace w) q + perf_hold q pobj' - perf_hold q pobj"
proof (induction "is" arbitrary: pobj w)
  case (Cons i "is")
  obtain r1 w1 where c: "create_perf_obj (po_self pobj) (int i) groups name w = (r1, w1)" by (metis surj_pair)
  note b = create_balance [OF c, of q]
  show ?case
  proof (cases r1)
    case (Inl e)
    with Cons.prems c b show ?thesis by simp
  next
    case (Inr obj)
    with Cons.prems c have "add_port_objs groups name is (add_child obj pobj) w1 = (r, pobj', w')" by simp
    from Cons.IH [OF this] b Inr show ?thesis by (simp add: perf_hold_add)
  qed
qed simp

lemma create_sub_balance:
  assumes "create_perf_sub_obj tops name groups port_name n dev w = (r, dev', w')"
  shows "balance (w_trace w') q = balance (w_trace w) q + perf_hold q dev' - perf_hold q dev"
proof -
  obtain r1 w1 where c: "create_perf_obj (po_self dev) PERF_OBJ_ROOT_ID (Some tops) name w = (r1, w1)"
    by (metis surj_pair)
  note b = create_balance [OF c, of q]
  show ?thesis
  proof (cases r1)
    case (Inl e)
    with assms c b show ?thesis by (simp add: create_perf_sub_obj_def)
  next
    case (Inr pobj)
    obtain r2 pobj1 w2 where a: "add_port_objs (Some groups) port_name [0..<n] pobj w1 = (r2, pobj1, w2)"
      by (metis surj_pair)
    from assms c a b Inr add_port_objs_balance [OF a, of q] show ?thesis
      by (auto simp: create_perf_sub_obj_def perf_hold_add)
  qed
qed

lemma create_iommu_balance:
  assumes "create_perf_iommu_obj pd dev w = (r, dev', w')"
  shows "balance (w_trace w') q = balance (w_trace w) q + perf_hold q dev' - perf_hold q dev"
proof -
  obtain cap w1 where rd: "readq (reg_addr feature_fme_header ''capability''
      (get_feature_ioaddr_by_index pd FME_FEATURE_ID_HEADER)) w = (cap, w1)" by (metis surj_pair)
  have "balance (w_trace w1) q = balance (w_trace w) q" by (rule mmio_only_balance [OF mmio_only_readq [OF rd]])
  with assms rd create_sub_balance [of _ _ _ _ _ dev w1 r dev' w' q] show ?thesis
    by (auto simp: create_perf_iommu_obj_def split: if_splits)
qed

definition opt_hold :: "resource \<Rightarrow> perf_object option \<Rightarrow> int" where
  "opt_hold q p = (case p of None \<Rightarrow> 0 | Some obj \<Rightarrow> perf_hold q obj)"

text \<open>A failed initialisation gives everything back; otherwise the FME holds the tree.\<close>

lemma iperf_init_balance:
  assumes "fme_iperf_init dev i pd w = (r, pd', w')"
  shows "case r of
      Inl _ \<Rightarrow> pd' = pd \<and> balance (w_trace w') q = balance (w_trace w) q
    | Inr _ \<Rightarrow> \<exists>obj. pd' = set_fme ((the_fme pd)\<lparr>fme_iperf_dev := Some obj\<rparr>) pd \<and>
        balance (w_trace w') q = balance (w_trace w) q + perf_hold q obj"
proof -
  obtain r1 w1 where 1: "create_perf_obj dev PERF_OBJ_ROOT_ID (Some ''perf_dev_attr_groups'') ''iperf'' w = (r1, w1)"
    by (metis surj_pair)
  note b1 = create_balance [OF 1, of q]
  show ?thesis
  proof (cases r1)
    case (Inl e)
    with assms 1 b1 show ?thesis by (auto simp: fme_iperf_init_def iperf_create_perf_dev_def)
  next
    case (Inr root)
    obtain r2 d2 w2 where 2: "create_perf_iommu_obj pd root w1 = (r2, d2, w2)" by (metis surj_pair)
    note b2 = create_iommu_balance [OF 2, of q]
    obtain r3 d3 w3 where 3: "create_perf_sub_obj ''fabric_top_attr_groups'' ''fabric'' ''fabric_attr_groups'' ''port''
        PERF_MAX_PORT_NUM d2 w2 = (r3, d3, w3)" by (metis surj_pair)
    note b3 = create_sub_balance [OF 3, of q]
    from assms 1 2 3 b1 b2 b3 Inr show ?thesis
      by (auto simp: fme_iperf_init_def iperf_create_perf_dev_def iperf_create_perf_fabric_obj_def destroy_balance
          split: sum.splits)
  qed
qed

lemma dperf_init_balance:
  assumes "fme_dperf_init dev i pd w = (r, pd', w')"
  shows "case r of
      Inl _ \<Rightarrow> pd' = pd \<and> balance (w_trace w') q = balance (w_trace w) q
    | Inr _ \<Rightarrow> \<exists>obj. pd' = set_fme ((the_fme pd)\<lparr>fme_dperf_dev := Some obj\<rparr>) pd \<and>
        balance (w_trace w') q = balance (w_trace w) q + perf_hold q obj"
proof -
  obtain r1 w1 where 1: "create_perf_obj dev PERF_OBJ_ROOT_ID (Some ''perf_dev_attr_groups'') ''dperf'' w = (r1, w1)"
    by (metis surj_pair)
  note b1 = create_balance [OF 1, of q]
  show ?thesis
  proof (cases r1)
    case (Inl e)
    with assms 1 b1 show ?thesis by (auto simp: fme_dperf_init_def dperf_create_perf_dev_def)
  next
    case (Inr root)
    obtain r2 d2 w2 where 2: "create_perf_sub_obj ''fabric_top_attr_groups'' ''fabric'' ''fabric_attr_groups'' ''port''
        dperf_PERF_MAX_PORT_NUM root w1 = (r2, d2, w2)" by (metis surj_pair)
    note b2 = create_sub_balance [OF 2, of q]
    from assms 1 2 b1 b2 Inr show ?thesis
      by (auto simp: fme_dperf_init_def dperf_create_perf_dev_def dperf_create_perf_fabric_obj_def destroy_balance
          split: sum.splits)
  qed
qed


subsection \<open>Which fabric counters are enabled\<close>

definition perf_blocks :: "perf_block set" where
  "perf_blocks = {iperf_block, dperf_block}"

lemma fab_pos:
  assumes "b \<in> perf_blocks"
  shows "field_pos (pb_fab_ctl b) ''port_filter'' = Some (23, 1)" "field_pos (pb_fab_ctl b) ''port_id'' = Some (20, 2)"
    "layout_width (pb_fab_ctl b) = 64"
  using assms
  by (auto simp: perf_blocks_def iperf_block_def dperf_block_def feature_fme_ifpmon_fab_ctl_def
      feature_fme_dfpmon_fab_ctl_def layout_width_def)

text \<open>
  C40. Enabling the fabric counters of an object, of a port or of all of them, disables those of
  every other object: afterwards exactly the objects of that instance are enabled, and reading a
  counter of any other one yields zero and writes no register. The registers are plain memory.
\<close>

theorem fabric_enable_selects_one:
  assumes hw: "w_readq w = reg_file init" and b: "b \<in> perf_blocks"
    and inst: "po_id pobj = PERF_OBJ_ROOT_ID \<or> po_id pobj \<in> {0..3}"
    and run: "fab_enable_store b pd pobj (Inr True) w = (r, w')"
  shows "r = Inr () \<and> fst (fabric_pobj_is_enabled b pd other w') = (po_id other = po_id pobj) \<and>
    (po_id other \<noteq> po_id pobj \<longrightarrow> (\<exists>w''. read_fabric_counter b timeout pd other event w' = (Inr 0, w'') \<and>
       writes_of (events_between w' w'') = []))"
proof -
  let ?a = "perf_reg b pd ''fab_ctl''"
  note pos = fab_pos [OF b]
  have nonneg: "uint (x :: u64) \<noteq> - 1" for x using uint_ge_0 [of x] by linarith
  define old where "old = reg_file init (w_trace w) ?a"
  have id_field: "uint (take_bit 2 (word_of_int (po_id pobj) :: u64)) = po_id pobj" if "po_id pobj \<noteq> PERF_OBJ_ROOT_ID"
  proof -
    have "po_id pobj \<in> {0, 1, 2, 3}" using inst that by auto
    then show ?thesis by (auto simp: unsigned_take_bit_eq take_bit_eq_mod)
  qed
  have en: "r = Inr () \<and> w_readq w' = reg_file init \<and>
      (if get_field (pb_fab_ctl b) ''port_filter'' (reg_file init (w_trace w') ?a) = FAB_DISABLE_FILTER
       then po_id pobj = PERF_OBJ_ROOT_ID
       else po_id pobj = uint (get_field (pb_fab_ctl b) ''port_id'' (reg_file init (w_trace w') ?a)) \<and>
         po_id pobj \<noteq> PERF_OBJ_ROOT_ID)"
  proof (cases "fst (fabric_pobj_is_enabled b pd pobj w)")
    case True
    with run hw nonneg show ?thesis
      by (auto simp: fab_enable_store_def fabric_pobj_is_enabled_def readq_def Let_def PERF_OBJ_ROOT_ID_def
          split: if_splits)
  next
    case False
    let ?ctl = "if po_id pobj = PERF_OBJ_ROOT_ID
      then set_field (pb_fab_ctl b) ''port_filter'' FAB_DISABLE_FILTER old
      else set_field (pb_fab_ctl b) ''port_id'' (word_of_int (po_id pobj))
        (set_field (pb_fab_ctl b) ''port_filter'' FAB_ENABLE_FILTER old)"
    have "r = Inr () \<and> w_readq w' = reg_file init \<and> reg_file init (w_trace w') ?a = ?ctl"
      using run hw False
      by (auto simp: fab_enable_store_def fabric_pobj_is_enabled_def readq_def writeq_def Let_def old_def
          split: if_splits)
    then show ?thesis
      using id_field
      by (auto simp: get_set_field_same [OF pos(1)] get_set_field_same [OF pos(2)] get_set_field_other pos(3)
          FAB_DISABLE_FILTER_def FAB_ENABLE_FILTER_def)
  qed
  then have "fst (fabric_pobj_is_enabled b pd other w') = (po_id other = po_id pobj)"
    by (auto simp: fabric_pobj_is_enabled_def readq_def Let_def split: if_splits)
  with en show ?thesis
    by (auto simp: read_fabric_counter_def fabric_pobj_is_enabled_def readq_def Let_def events_between_def)
qed


text \<open>Port 1 is enabled on registers that are all zero; the counters of all ports then are not.\<close>

theorem fabric_enable_selects_one_witness:
  "\<exists>r w'. fab_enable_store iperf_block (empty_pdata\<lparr>pd_features := replicate 9 zero_feature\<rparr> :: unit feature_platform_data)
      (Perf_object 1 1 None []) (Inr True) (quiet_world (\<lambda>_. 0)) = (r, w') \<and>
    fst (fabric_pobj_is_enabled iperf_block (empty_pdata\<lparr>pd_features := replicate 9 zero_feature\<rparr> :: unit feature_platform_data)
      (Perf_object 1 1 None []) w') \<and>
    \<not> fst (fabric_pobj_is_enabled iperf_block (empty_pdata\<lparr>pd_features := replicate 9 zero_feature\<rparr> :: unit feature_platform_data)
      (Perf_object 2 (-1) None []) w')"
proof -
  let ?pd = "empty_pdata\<lparr>pd_features := replicate 9 zero_feature\<rparr> :: unit feature_platform_data"
  have hw: "w_readq (quiet_world (\<lambda>_. 0)) = reg_file (\<lambda>_. 0)" by (simp add: quiet_world_def)
  have b: "iperf_block \<in> perf_blocks" by (simp add: perf_blocks_def)
  have inst: "po_id (Perf_object 1 1 None []) = PERF_OBJ_ROOT_ID \<or> po_id (Perf_object 1 1 None []) \<in> {0..3}" by simp
  obtain r w' where run: "fab_enable_store iperf_block ?pd (Perf_object 1 1 None []) (Inr True) (quiet_world (\<lambda>_. 0)) = (r, w')"
    by (metis surj_pair)
  from fabric_enable_selects_one [OF hw b inst run, of "Perf_object 1 1 None []"]
    fabric_enable_selects_one [OF hw b inst run, of "Perf_object 2 (-1) None []"] run show ?thesis by auto
qed

end
