(* ===== verification/Fme_Main.thy ===== *)
theory Fme_Main
  imports Fme_Pr_Push Fme_Error Fme_Perf
begin

text \<open>
  The FME driver (\<^verbatim>\<open>drivers/fpga/intel/fme-main.c\<close>): the attributes of the header, the thermal and the
  power management, the flash device, the table of the sub-features, and the file operations.

  A show function returns the number it prints; a store function gets what the kernel's number
  parser made of the input. An ioctl command carries what \<^verbatim>\<open>copy_from_user\<close> made of its pointer.
  A request works on the FME's platform data and on the data of the PCIe device, whose ports it
  disables, releases and assigns; \<open>None\<close> is a null pointer that the code follows.
\<close>

subsection \<open>Attributes of the header\<close>

definition fme_hdr_reg :: "'p feature_platform_data \<Rightarrow> string \<Rightarrow> u64" where
  "fme_hdr_reg pd n = reg_addr feature_fme_header n (get_feature_ioaddr_by_index pd FME_FEATURE_ID_HEADER)"

definition fme_revision_show :: "'p feature_platform_data \<Rightarrow> world \<Rightarrow> u64 \<times> world" where
  "fme_revision_show pd w =
     (case readq (fme_hdr_reg pd ''header'') w of (csr, w1) \<Rightarrow> (get_field feature_header ''revision'' csr, w1))"

definition ports_num_show :: "'p feature_platform_data \<Rightarrow> world \<Rightarrow> u64 \<times> world" where
  "ports_num_show pd w =
     (case readq (fme_hdr_reg pd ''capability'') w of
        (csr, w1) \<Rightarrow> (get_field feature_fme_capability ''num_ports'' csr, w1))"

definition cache_size_show :: "'p feature_platform_data \<Rightarrow> world \<Rightarrow> u64 \<times> world" where
  "cache_size_show pd w =
     (case readq (fme_hdr_reg pd ''capability'') w of
        (csr, w1) \<Rightarrow> (get_field feature_fme_capability ''cache_size'' csr, w1))"

definition version_show :: "'p feature_platform_data \<Rightarrow> world \<Rightarrow> u64 \<times> world" where
  "version_show pd w =
     (case readq (fme_hdr_reg pd ''capability'') w of
        (csr, w1) \<Rightarrow> (get_field feature_fme_capability ''fabric_verid'' csr, w1))"

definition socket_id_show :: "'p feature_platform_data \<Rightarrow> world \<Rightarrow> u64 \<times> world" where
  "socket_id_show pd w =
     (case readq (fme_hdr_reg pd ''capability'') w of
        (csr, w1) \<Rightarrow> (get_field feature_fme_capability ''socket_id'' csr, w1))"

definition bitstream_id_show :: "'p feature_platform_data \<Rightarrow> world \<Rightarrow> u64 \<times> world" where
  "bitstream_id_show pd w = readq (fme_hdr_reg pd ''bitstream_id'') w"

definition bitstream_metadata_show :: "'p feature_platform_data \<Rightarrow> world \<Rightarrow> u64 \<times> world" where
  "bitstream_metadata_show pd w = readq (fme_hdr_reg pd ''bitstream_md'') w"

text \<open>The debug message reads the capability register through a plain pointer, which is not modelled.\<close>

definition fme_hdr_init :: "nat \<Rightarrow> fme_pdata \<Rightarrow> world \<Rightarrow> unit res \<times> fme_pdata \<times> world" where
  "fme_hdr_init i pd w = (case kstatus Sysfs_create [] w of (r, w1) \<Rightarrow> (r, pd, w1))"

definition fme_hdr_uinit :: "nat \<Rightarrow> fme_pdata \<Rightarrow> world \<Rightarrow> fme_pdata \<times> world" where
  "fme_hdr_uinit i pd w = (pd, kvoid Sysfs_remove [] w)"

subsection \<open>Thermal management\<close>

definition thermal_reg :: "'p feature_platform_data \<Rightarrow> string \<Rightarrow> u64" where
  "thermal_reg pd n = reg_addr feature_fme_thermal n (get_feature_ioaddr_by_index pd FME_FEATURE_ID_THERMAL_MGMT)"

definition thermal_revision_show :: "'p feature_platform_data \<Rightarrow> world \<Rightarrow> u64 \<times> world" where
  "thermal_revision_show pd w =
     (case readq (thermal_reg pd ''header'') w of (csr, w1) \<Rightarrow> (get_field feature_header ''revision'' csr, w1))"

definition tmp_threshold_show :: "string \<Rightarrow> 'p feature_platform_data \<Rightarrow> world \<Rightarrow> u64 \<times> world" where
  "tmp_threshold_show field pd w =
     (case readq (thermal_reg pd ''threshold'') w of
        (csr, w1) \<Rightarrow> (get_field feature_fme_tmp_threshold field csr, w1))"

definition thermal_threshold1_show :: "'p feature_platform_data \<Rightarrow> world \<Rightarrow> u64 \<times> world" where
  "thermal_threshold1_show = tmp_threshold_show ''tmp_thshold1''"

definition thermal_threshold2_show :: "'p feature_platform_data \<Rightarrow> world \<Rightarrow> u64 \<times> world" where
  "thermal_threshold2_show = tmp_threshold_show ''tmp_thshold2''"

definition thermal_threshold_trip_show :: "'p feature_platform_data \<Rightarrow> world \<Rightarrow> u64 \<times> world" where
  "thermal_threshold_trip_show = tmp_threshold_show ''therm_trip_thshold''"

definition thermal_threshold1_reached_show :: "'p feature_platform_data \<Rightarrow> world \<Rightarrow> u64 \<times> world" where
  "thermal_threshold1_reached_show = tmp_threshold_show ''thshold1_status''"

definition thermal_threshold2_reached_show :: "'p feature_platform_data \<Rightarrow> world \<Rightarrow> u64 \<times> world" where
  "thermal_threshold2_reached_show = tmp_threshold_show ''thshold2_status''"

definition thermal_threshold1_policy_show :: "'p feature_platform_data \<Rightarrow> world \<Rightarrow> u64 \<times> world" where
  "thermal_threshold1_policy_show = tmp_threshold_show ''thshold_policy''"

text \<open>The two thresholds differ in their fields only.\<close>

definition tmp_threshold_store ::
  "string \<Rightarrow> string \<Rightarrow> 'p feature_platform_data \<Rightarrow> u8 res \<Rightarrow> world \<Rightarrow> unit res \<times> world" where
  "tmp_threshold_store field enable pd parsed w =
     (case readq (thermal_reg pd ''threshold'') w of
        (csr, w1) \<Rightarrow>
          (case parsed of
             Inl e \<Rightarrow> (Inl e, w1)
           | Inr v \<Rightarrow>
               (case readq (fme_hdr_reg pd ''capability'') w1 of
                  (cap, w2) \<Rightarrow>
                    if get_field feature_fme_capability ''lock_bit'' cap = 1 then (Inl EBUSY, w2)
                    else if 100 < v then (Inl EINVAL, w2)
                    else
                      (let csr1 = set_field feature_fme_tmp_threshold enable (if v = 0 then 0 else 1) csr;
                           csr2 = set_field feature_fme_tmp_threshold field (ucast v) csr1
                       in (Inr (), writeq csr2 (thermal_reg pd ''threshold'') w2)))))"

definition thermal_threshold1_store :: "'p feature_platform_data \<Rightarrow> u8 res \<Rightarrow> world \<Rightarrow> unit res \<times> world" where
  "thermal_threshold1_store = tmp_threshold_store ''tmp_thshold1'' ''tmp_thshold1_enable''"

definition thermal_threshold2_store :: "'p feature_platform_data \<Rightarrow> u8 res \<Rightarrow> world \<Rightarrow> unit res \<times> world" where
  "thermal_threshold2_store = tmp_threshold_store ''tmp_thshold2'' ''tmp_thshold2_enable''"

definition thermal_threshold1_policy_store ::
  "'p feature_platform_data \<Rightarrow> u8 res \<Rightarrow> world \<Rightarrow> unit res \<times> world" where
  "thermal_threshold1_policy_store pd parsed w =
     (case readq (thermal_reg pd ''threshold'') w of
        (csr, w1) \<Rightarrow>
          (case parsed of
             Inl e \<Rightarrow> (Inl e, w1)
           | Inr v \<Rightarrow>
               if v = 0 then
                 (Inr (), writeq (set_field feature_fme_tmp_threshold ''thshold_policy'' 0 csr)
                    (thermal_reg pd ''threshold'') w1)
               else if v = 1 then
                 (Inr (), writeq (set_field feature_fme_tmp_threshold ''thshold_policy'' 1 csr)
                    (thermal_reg pd ''threshold'') w1)
               else (Inl EINVAL, w1)))"

definition thermal_temperature_show :: "'p feature_platform_data \<Rightarrow> world \<Rightarrow> u64 \<times> world" where
  "thermal_temperature_show pd w =
     (case readq (thermal_reg pd ''rdsensor_fm1'') w of
        (csr, w1) \<Rightarrow> (get_field feature_fme_temp_rdsensor_fmt1 ''fpga_temp'' csr, w1))"

definition thermal_mgmt_init :: "nat \<Rightarrow> fme_pdata \<Rightarrow> world \<Rightarrow> unit res \<times> fme_pdata \<times> world" where
  "thermal_mgmt_init i pd w = (case kstatus Sysfs_create [] w of (r, w1) \<Rightarrow> (r, pd, w1))"

definition thermal_mgmt_uinit :: "nat \<Rightarrow> fme_pdata \<Rightarrow> world \<Rightarrow> fme_pdata \<times> world" where
  "thermal_mgmt_uinit i pd w = (pd, kvoid Sysfs_remove [] w)"

subsection \<open>Power management\<close>

definition PWR_THRESHOLD_MAX :: u8 where "PWR_THRESHOLD_MAX = 0x7F"

definition power_reg :: "'p feature_platform_data \<Rightarrow> string \<Rightarrow> u64" where
  "power_reg pd n = reg_addr feature_fme_power n (get_feature_ioaddr_by_index pd FME_FEATURE_ID_POWER_MGMT)"

definition pwr_revision_show :: "'p feature_platform_data \<Rightarrow> world \<Rightarrow> u64 \<times> world" where
  "pwr_revision_show pd w =
     (case readq (power_reg pd ''header'') w of (csr, w1) \<Rightarrow> (get_field feature_header ''revision'' csr, w1))"

definition consumed_show :: "'p feature_platform_data \<Rightarrow> world \<Rightarrow> u64 \<times> world" where
  "consumed_show pd w =
     (case readq (power_reg pd ''status'') w of
        (csr, w1) \<Rightarrow> (get_field feature_fme_pm_status ''pwr_consumed'' csr, w1))"

definition pm_threshold_show :: "string \<Rightarrow> 'p feature_platform_data \<Rightarrow> world \<Rightarrow> u64 \<times> world" where
  "pm_threshold_show field pd w =
     (case readq (power_reg pd ''threshold'') w of
        (csr, w1) \<Rightarrow> (get_field feature_fme_pm_ap_threshold field csr, w1))"

definition pwr_threshold1_show :: "'p feature_platform_data \<Rightarrow> world \<Rightarrow> u64 \<times> world" where
  "pwr_threshold1_show = pm_threshold_show ''threshold1''"

definition pwr_threshold2_show :: "'p feature_platform_data \<Rightarrow> world \<Rightarrow> u64 \<times> world" where
  "pwr_threshold2_show = pm_threshold_show ''threshold2''"

definition threshold1_status_show :: "'p feature_platform_data \<Rightarrow> world \<Rightarrow> u64 \<times> world" where
  "threshold1_status_show = pm_threshold_show ''threshold1_status''"

definition threshold2_status_show :: "'p feature_platform_data \<Rightarrow> world \<Rightarrow> u64 \<times> world" where
  "threshold2_status_show = pm_threshold_show ''threshold2_status''"

definition pm_threshold_store ::
  "string \<Rightarrow> 'p feature_platform_data \<Rightarrow> u8 res \<Rightarrow> world \<Rightarrow> unit res \<times> world" where
  "pm_threshold_store field pd parsed w =
     (case readq (power_reg pd ''threshold'') w of
        (csr, w1) \<Rightarrow>
          (case parsed of
             Inl e \<Rightarrow> (Inl e, w1)
           | Inr v \<Rightarrow>
               if v \<le> PWR_THRESHOLD_MAX then
                 (Inr (), writeq (set_field feature_fme_pm_ap_threshold field (ucast v) csr)
                    (power_reg pd ''threshold'') w1)
               else (Inl EINVAL, w1)))"

definition pwr_threshold1_store :: "'p feature_platform_data \<Rightarrow> u8 res \<Rightarrow> world \<Rightarrow> unit res \<times> world" where
  "pwr_threshold1_store = pm_threshold_store ''threshold1''"

definition pwr_threshold2_store :: "'p feature_platform_data \<Rightarrow> u8 res \<Rightarrow> world \<Rightarrow> unit res \<times> world" where
  "pwr_threshold2_store = pm_threshold_store ''threshold2''"

definition rtl_show :: "'p feature_platform_data \<Rightarrow> world \<Rightarrow> u64 \<times> world" where
  "rtl_show pd w =
     (case readq (power_reg pd ''status'') w of
        (csr, w1) \<Rightarrow> (get_field feature_fme_pm_status ''fpga_latency_report'' csr, w1))"

definition xeon_limit_show :: "'p feature_platform_data \<Rightarrow> world \<Rightarrow> u64 \<times> world" where
  "xeon_limit_show pd w =
     (case readq (power_reg pd ''xeon_limit'') w of
        (csr, w1) \<Rightarrow>
          (if get_field feature_fme_pm_xeon_limit ''enable'' csr = 0 then 0
           else get_field feature_fme_pm_xeon_limit ''pwr_limit'' csr, w1))"

definition fpga_limit_show :: "'p feature_platform_data \<Rightarrow> world \<Rightarrow> u64 \<times> world" where
  "fpga_limit_show pd w =
     (case readq (power_reg pd ''fpga_limit'') w of
        (csr, w1) \<Rightarrow>
          (if get_field feature_fme_pm_fpga_limit ''enable'' csr = 0 then 0
           else get_field feature_fme_pm_fpga_limit ''pwr_limit'' csr, w1))"

definition power_mgmt_init :: "nat \<Rightarrow> fme_pdata \<Rightarrow> world \<Rightarrow> unit res \<times> fme_pdata \<times> world" where
  "power_mgmt_init i pd w = (case kstatus Sysfs_create [] w of (r, w1) \<Rightarrow> (r, pd, w1))"

definition power_mgmt_uinit :: "nat \<Rightarrow> fme_pdata \<Rightarrow> world \<Rightarrow> fme_pdata \<times> world" where
  "power_mgmt_uinit i pd w = (pd, kvoid Sysfs_remove [] w)"

definition hssi_mgmt_init :: "nat \<Rightarrow> fme_pdata \<Rightarrow> world \<Rightarrow> unit res \<times> fme_pdata \<times> world" where
  "hssi_mgmt_init i pd w = (Inr (), pd, w)"

definition hssi_mgmt_uinit :: "nat \<Rightarrow> fme_pdata \<Rightarrow> world \<Rightarrow> fme_pdata \<times> world" where
  "hssi_mgmt_uinit i pd w = (pd, w)"

subsection \<open>The flash device\<close>

definition FLASH_CAPABILITY_OFT :: u64 where "FLASH_CAPABILITY_OFT = 8"

definition qspi_flash_init :: "nat \<Rightarrow> fme_pdata \<Rightarrow> world \<Rightarrow> unit res \<times> fme_pdata \<times> world" where
  "qspi_flash_init i pd w =
     (let base = f_ioaddr (pd_features pd ! i) + FLASH_CAPABILITY_OFT;
          w1 = snd (readl (base + 4) (snd (readl base (snd (readq base w)))))
      in case kvalue Platform_device_alloc [] w1 of
           (Inl _, w2) \<Rightarrow> (Inl ENOMEM, pd, w2)
         | (Inr cdev, w2) \<Rightarrow>
             (case kstatus (Kfn ''platform_device_add_data'') [cdev, uint base, 1] w2 of
                (Inl e, w3) \<Rightarrow> (Inl e, pd, kvoid Platform_device_put [cdev] w3)
              | (Inr _, w3) \<Rightarrow>
                  (case kstatus Platform_device_add [cdev] w3 of
                     (Inl e, w4) \<Rightarrow> (Inl e, pd, kvoid Platform_device_put [cdev] w4)
                   | (Inr _, w4) \<Rightarrow> (Inr (), pd, w4))))"

text \<open>The test on a child of the FME: its name, and the base address in its platform data, if any.\<close>

definition ALTERA_ASMIP2_DRV_NAME :: string where "ALTERA_ASMIP2_DRV_NAME = ''altr-asmip2''"

definition qspi_match :: "string \<Rightarrow> u64 option \<Rightarrow> u64 \<Rightarrow> bool" where
  "qspi_match name csr_base ioaddr \<longleftrightarrow>
     take (length ALTERA_ASMIP2_DRV_NAME) name = ALTERA_ASMIP2_DRV_NAME \<and>
     csr_base = Some (ioaddr + FLASH_CAPABILITY_OFT)"

text \<open>\<^verbatim>\<open>device_find_child\<close> takes a reference to the child it finds, the device that \<open>qspi_match\<close> accepts.\<close>

definition qspi_flash_uinit :: "nat \<Rightarrow> fme_pdata \<Rightarrow> world \<Rightarrow> fme_pdata \<times> world" where
  "qspi_flash_uinit i pd w =
     (case kvalue Device_find_child [uint (f_ioaddr (pd_features pd ! i) + FLASH_CAPABILITY_OFT)] w of
        (Inl _, w1) \<Rightarrow> (pd, w1)
      | (Inr dev, w1) \<Rightarrow> (pd, kvoid Platform_device_unregister [dev] w1))"

subsection \<open>The table of the sub-features\<close>

text \<open>
  The ioctl functions of the sub-features need the ports; they have a table of their own below. The
  device of the FME is the parent of the objects with the performance counters.
\<close>

definition fme_ops :: "int \<Rightarrow> string \<Rightarrow> (fpga_fme, unit) feature_ops" where
  "fme_ops dev n =
     (if n = ''fme_hdr_ops'' then \<lparr>op_init = fme_hdr_init, op_uinit = fme_hdr_uinit, op_ioctl = None, op_test = None\<rparr>
      else if n = ''thermal_mgmt_ops'' then
        \<lparr>op_init = thermal_mgmt_init, op_uinit = thermal_mgmt_uinit, op_ioctl = None, op_test = None\<rparr>
      else if n = ''power_mgmt_ops'' then
        \<lparr>op_init = power_mgmt_init, op_uinit = power_mgmt_uinit, op_ioctl = None, op_test = None\<rparr>
      else if n = ''global_error_ops'' then
        \<lparr>op_init = global_error_init, op_uinit = global_error_uinit, op_ioctl = None, op_test = None\<rparr>
      else if n = ''pr_mgmt_ops'' then
        \<lparr>op_init = pr_mgmt_init, op_uinit = pr_mgmt_uinit, op_ioctl = None, op_test = None\<rparr>
      else if n = ''global_iperf_ops'' then
        \<lparr>op_init = fme_iperf_init dev, op_uinit = fme_iperf_uinit, op_ioctl = None, op_test = None\<rparr>
      else if n = ''hssi_mgmt_ops'' then
        \<lparr>op_init = hssi_mgmt_init, op_uinit = hssi_mgmt_uinit, op_ioctl = None, op_test = None\<rparr>
      else if n = ''global_dperf_ops'' then
        \<lparr>op_init = fme_dperf_init dev, op_uinit = fme_dperf_uinit, op_ioctl = None, op_test = None\<rparr>
      else \<lparr>op_init = qspi_flash_init, op_uinit = qspi_flash_uinit, op_ioctl = None, op_test = None\<rparr>)"

definition fme_feature_drvs :: "feature_driver list" where
  "fme_feature_drvs =
     [(''fme_hdr'', ''fme_hdr_ops''), (''fme_thermal'', ''thermal_mgmt_ops''),
      (''fme_power'', ''power_mgmt_ops''), (''fme_error'', ''global_error_ops''),
      (''fme_pr'', ''pr_mgmt_ops''), (''fme_iperf'', ''global_iperf_ops''),
      (''fme_hssi'', ''hssi_mgmt_ops''), (''fme_dperf'', ''global_dperf_ops''),
      (''fme_qspi_flash'', ''qspi_flash_ops'')]"

subsection \<open>The ioctls\<close>

record fpga_fme_port_config =
  pc_argsz :: u32
  pc_flags :: u32
  pc_port_id :: u32

datatype fme_cmd =
  FME_GET_API_VERSION
| FME_CHECK_EXTENSION
| FPGA_FME_GET_INFO "u32 option"               \<comment> \<open>the user's \<^verbatim>\<open>argsz\<close>\<close>
| FPGA_FME_PORT_RELEASE "fpga_fme_port_config option"
| FPGA_FME_PORT_ASSIGN "fpga_fme_port_config option"
| FPGA_FME_PORT_PR "fpga_fme_port_pr option"
| FPGA_FME_ERR_SET_IRQ "fpga_fme_err_irq_set option"
| FPGA_FME_OTHER

type_synonym 'p fme_result = "(unit res \<times> fme_pdata \<times> 'p cci_drvdata \<times> world) option"

definition fme_ioctl_check_extension :: "unit res" where
  "fme_ioctl_check_extension = Inr ()"

definition fme_ioctl_get_info :: "u32 option \<Rightarrow> fme_pdata \<Rightarrow> world \<Rightarrow> (unit res \<times> world) option" where
  "fme_ioctl_get_info arg pd w =
     (case arg of
        None \<Rightarrow> Some (Inl EFAULT, w)
      | Some argsz \<Rightarrow>
          if argsz < 12 then Some (Inl EINVAL, w)
          else
            (case fpga_pdata_get_private pd of
               None \<Rightarrow> None
             | Some fme \<Rightarrow> Some (copy_to_user [uint argsz, 0, uint (fme_capability fme)] w)))"

definition fme_ioctl_config_port ::
  "fme_pdata \<Rightarrow> u32 \<Rightarrow> u32 \<Rightarrow> bool \<Rightarrow> 'p cci_drvdata \<Rightarrow> world \<Rightarrow> unit res \<times> 'p cci_drvdata \<times> world" where
  "fme_ioctl_config_port pd port_id flags is_release drv w =
     (if flags \<noteq> 0 then (Inl EINVAL, drv, w)
      else
        (case readq (fme_hdr_reg pd ''capability'') w of
           (cap, w1) \<Rightarrow>
             if get_field feature_fme_capability ''num_ports'' cap \<le> ucast port_id then (Inl EINVAL, drv, w1)
             else config_port pd (uint port_id) is_release drv w1))"

definition fme_ioctl_release_port ::
  "fme_pdata \<Rightarrow> fpga_fme_port_config option \<Rightarrow> 'p cci_drvdata \<Rightarrow> world \<Rightarrow> unit res \<times> 'p cci_drvdata \<times> world" where
  "fme_ioctl_release_port pd arg drv w =
     (case arg of
        None \<Rightarrow> (Inl EFAULT, drv, w)
      | Some release \<Rightarrow>
          if pc_argsz release < 12 then (Inl EINVAL, drv, w)
          else fme_ioctl_config_port pd (pc_port_id release) (pc_flags release) True drv w)"

definition fme_ioctl_assign_port ::
  "fme_pdata \<Rightarrow> fpga_fme_port_config option \<Rightarrow> 'p cci_drvdata \<Rightarrow> world \<Rightarrow> unit res \<times> 'p cci_drvdata \<times> world" where
  "fme_ioctl_assign_port pd arg drv w =
     (case arg of
        None \<Rightarrow> (Inl EFAULT, drv, w)
      | Some assign \<Rightarrow>
          if pc_argsz assign < 12 then (Inl EINVAL, drv, w)
          else fme_ioctl_config_port pd (pc_port_id assign) (pc_flags assign) False drv w)"

text \<open>The ioctl functions of the sub-features; \<^verbatim>\<open>-ENODEV\<close> stands for a request of another one.\<close>

type_synonym 'p fme_sub_ioctl = "fme_cmd \<Rightarrow> nat \<Rightarrow> fme_pdata \<Rightarrow> 'p cci_drvdata \<Rightarrow> world \<Rightarrow> 'p fme_result"

definition fme_pr_ioctl :: "mgr_kernel \<Rightarrow> int \<Rightarrow> 'p fme_sub_ioctl" where
  "fme_pr_ioctl k dev cmd i pd drv w =
     (case cmd of
        FPGA_FME_PORT_PR arg \<Rightarrow>
          (case fme_pr k dev arg pd drv w of
             None \<Rightarrow> None
           | Some (r, _, pd1, drv1, w1) \<Rightarrow> Some (r, pd1, drv1, w1))
      | _ \<Rightarrow> Some (Inl ENODEV, pd, drv, w))"

definition global_error_ioctl :: "'p fme_sub_ioctl" where
  "global_error_ioctl cmd i pd drv w =
     (case cmd of
        FPGA_FME_ERR_SET_IRQ arg \<Rightarrow>
          (case fme_err_set_irq i arg pd w of (r, pd1, w1) \<Rightarrow> Some (r, pd1, drv, w1))
      | _ \<Rightarrow> Some (Inl ENODEV, pd, drv, w))"

definition fme_sub_ioctls :: "mgr_kernel \<Rightarrow> int \<Rightarrow> string \<Rightarrow> 'p fme_sub_ioctl option" where
  "fme_sub_ioctls k dev n =
     (if n = ''pr_mgmt_ops'' then Some (fme_pr_ioctl k dev)
      else if n = ''global_error_ops'' then Some global_error_ioctl
      else None)"

text \<open>The loop over the sub-features.\<close>

fun fme_dispatch ::
  "(string \<Rightarrow> 'p fme_sub_ioctl option) \<Rightarrow> fme_cmd \<Rightarrow> nat list \<Rightarrow> fme_pdata \<Rightarrow> 'p cci_drvdata \<Rightarrow> world \<Rightarrow>
   'p fme_result" where
  "fme_dispatch tab cmd [] pd drv w = Some (Inl EINVAL, pd, drv, w)"
| "fme_dispatch tab cmd (i # is) pd drv w =
     (case f_ops (pd_features pd ! i) of
        None \<Rightarrow> fme_dispatch tab cmd is pd drv w
      | Some ops \<Rightarrow>
          (case tab ops of
             None \<Rightarrow> fme_dispatch tab cmd is pd drv w
           | Some ioctl \<Rightarrow>
               (case ioctl cmd i pd drv w of
                  None \<Rightarrow> None
                | Some (r, pd1, drv1, w1) \<Rightarrow>
                    if r = Inl ENODEV then fme_dispatch tab cmd is pd1 drv1 w1
                    else Some (r, pd1, drv1, w1))))"

text \<open>\<^verbatim>\<open>FPGA_API_VERSION\<close> is 0, the value of success.\<close>

definition fme_ioctl ::
  "mgr_kernel \<Rightarrow> int \<Rightarrow> fme_cmd \<Rightarrow> fme_pdata \<Rightarrow> 'p cci_drvdata \<Rightarrow> world \<Rightarrow> 'p fme_result" where
  "fme_ioctl k dev cmd pd drv w =
     (case cmd of
        FME_GET_API_VERSION \<Rightarrow> Some (Inr (), pd, drv, w)
      | FME_CHECK_EXTENSION \<Rightarrow> Some (fme_ioctl_check_extension, pd, drv, w)
      | FPGA_FME_GET_INFO arg \<Rightarrow>
          (case fme_ioctl_get_info arg pd w of None \<Rightarrow> None | Some (r, w1) \<Rightarrow> Some (r, pd, drv, w1))
      | FPGA_FME_PORT_RELEASE arg \<Rightarrow>
          (case fme_ioctl_release_port pd arg drv w of (r, drv1, w1) \<Rightarrow> Some (r, pd, drv1, w1))
      | FPGA_FME_PORT_ASSIGN arg \<Rightarrow>
          (case fme_ioctl_assign_port pd arg drv w of (r, drv1, w1) \<Rightarrow> Some (r, pd, drv1, w1))
      | _ \<Rightarrow> fme_dispatch (fme_sub_ioctls k dev) cmd [0..<pd_num pd] pd drv w)"

subsection \<open>Open, release, probe and remove\<close>

text \<open>The argument is whether the file is opened with \<^verbatim>\<open>O_EXCL\<close>.\<close>

definition fme_open :: "bool \<Rightarrow> fme_pdata \<Rightarrow> unit res \<times> fme_pdata" where
  "fme_open excl pd = (if excl then feature_dev_use_excl_begin pd else feature_dev_use_begin pd)"

definition fme_release :: "fme_pdata \<Rightarrow> world \<Rightarrow> fme_pdata \<times> world" where
  "fme_release pd w =
     (let pd1 = feature_dev_use_end pd in
      if pd_open_count pd1 = 0 then
        (case msix_set_block_at FME_FEATURE_ID_GLOBAL_ERR 0
                (word_of_int (f_ctx_num (pd_features pd1 ! FME_FEATURE_ID_GLOBAL_ERR))) None pd1 w of
           (_, pd2, w1) \<Rightarrow> (pd2, w1))
      else (pd1, w))"

definition fme_dev_init :: "fme_pdata \<Rightarrow> world \<Rightarrow> unit res \<times> fme_pdata \<times> world" where
  "fme_dev_init pd w =
     (case kvalue Kzalloc [] w of
        (Inl _, w1) \<Rightarrow> (Inl ENOMEM, pd, w1)
      | (Inr self, w1) \<Rightarrow> (Inr (), fpga_pdata_set_private pd (Some (zero_fme\<lparr>fme_self := self\<rparr>)), w1))"

definition fme_dev_destroy :: "fme_pdata \<Rightarrow> world \<Rightarrow> fme_pdata \<times> world" where
  "fme_dev_destroy pd w = (fpga_pdata_set_private pd None, kvoid Devm_kfree [fme_self (the_fme pd)] w)"

definition fme_probe :: "int \<Rightarrow> u32 \<Rightarrow> fme_pdata \<Rightarrow> world \<Rightarrow> unit res \<times> fme_pdata \<times> world" where
  "fme_probe dev devt pd w =
     (case fme_dev_init pd w of
        (Inl e, pd1, w1) \<Rightarrow> (Inl e, pd1, w1)
      | (Inr _, pd1, w1) \<Rightarrow>
          (case fpga_dev_feature_init (fme_ops dev) fme_feature_drvs pd1 w1 of
             (Inl e, pd2, w2) \<Rightarrow> (case fme_dev_destroy pd2 w2 of (pd3, w3) \<Rightarrow> (Inl e, pd3, w3))
           | (Inr _, pd2, w2) \<Rightarrow>
               (case fpga_register_dev_ops devt w2 of
                  (Inl e, w3) \<Rightarrow>
                    (case fpga_dev_feature_uinit (fme_ops dev) pd2 w3 of
                       (pd3, w4) \<Rightarrow> (case fme_dev_destroy pd3 w4 of (pd4, w5) \<Rightarrow> (Inl e, pd4, w5)))
                | (Inr _, w3) \<Rightarrow> (Inr (), pd2, w3))))"

definition fme_remove :: "int \<Rightarrow> u32 \<Rightarrow> fme_pdata \<Rightarrow> world \<Rightarrow> fme_pdata \<times> world" where
  "fme_remove dev devt pd w =
     (case fpga_dev_feature_uinit (fme_ops dev) pd w of
        (pd1, w1) \<Rightarrow> fme_dev_destroy pd1 (fpga_unregister_dev_ops devt w1))"

end
