(* ===== verification/Feature_Account.thy ===== *)
theory Feature_Account
  imports Feature_Dev
begin

text \<open>
  The account of the sub-features of a device: what the initialisation of a table of sub-features
  (\<^verbatim>\<open>fpga_dev_feature_init\<close> and \<^verbatim>\<open>fpga_dev_feature_uinit\<close> of \<^verbatim>\<open>feature-dev.c\<close>) takes and gives back,
  when each sub-feature keeps its own account. The interface is a locale; a driver interprets it on
  its table of operations.
\<close>

subsection \<open>Tables of features\<close>

text \<open>The features of a device have names of their own.\<close>

definition names_apart :: "'p feature_platform_data \<Rightarrow> bool" where
  "names_apart pd \<longleftrightarrow> pd_num pd = length (pd_features pd) \<and>
     (\<forall>i < pd_num pd. \<forall>j < pd_num pd. name_of pd i \<noteq> None \<longrightarrow> name_of pd i = name_of pd j \<longrightarrow> i = j)"

lemma names_apartD:
  "names_apart pd \<Longrightarrow> i < pd_num pd \<Longrightarrow> j < pd_num pd \<Longrightarrow> name_of pd i = Some n \<Longrightarrow> name_of pd j = Some n \<Longrightarrow> i = j"
  unfolding names_apart_def by (metis option.distinct(1))

lemma names_apart_num: "names_apart pd \<Longrightarrow> pd_num pd = length (pd_features pd)"
  by (simp add: names_apart_def)

lemma names_apart_same: "same_names pd pd' \<Longrightarrow> names_apart pd \<Longrightarrow> names_apart pd'"
  unfolding same_names_def names_apart_def by (metis (no_types, lifting))

text \<open>
  \<open>free ops pd\<close>: the sub-feature with the operations \<open>ops\<close> holds nothing; \<open>ready ops pd\<close>: it can be
  uninitialised. \<open>acct\<close> is the account, and \<open>good ops\<close> says that the operations keep it.
\<close>

locale feature_ops_account = feature_ops_frame tab
  for tab :: "string \<Rightarrow> ('p, 'c) feature_ops" +
  fixes acct :: "'p feature_platform_data \<Rightarrow> world \<Rightarrow> int"
    and free ready :: "string \<Rightarrow> 'p feature_platform_data \<Rightarrow> bool"
    and good :: "string \<Rightarrow> bool"
  assumes init_free: "op_init (tab ops) i pd w = (r, pd', w') \<Longrightarrow> free ops pd \<Longrightarrow>
      (case r of Inl _ \<Rightarrow> free ops pd' | Inr _ \<Rightarrow> ready ops pd')"
    and init_account: "op_init (tab ops) i pd w = (r, pd', w') \<Longrightarrow> free ops pd \<Longrightarrow> good ops \<Longrightarrow>
      acct pd' w' = acct pd w"
    and init_others: "op_init (tab ops) i pd w = (r, pd', w') \<Longrightarrow> free ops pd \<Longrightarrow> o' \<noteq> ops \<Longrightarrow>
      free o' pd' = free o' pd \<and> ready o' pd' = ready o' pd"
    and uinit_free: "op_uinit (tab ops) i pd w = (pd', w') \<Longrightarrow> ready ops pd \<Longrightarrow> free ops pd'"
    and uinit_account: "op_uinit (tab ops) i pd w = (pd', w') \<Longrightarrow> ready ops pd \<Longrightarrow> good ops \<Longrightarrow>
      acct pd' w' = acct pd w"
    and uinit_others: "op_uinit (tab ops) i pd w = (pd', w') \<Longrightarrow> ready ops pd \<Longrightarrow> o' \<noteq> ops \<Longrightarrow>
      free o' pd' = free o' pd \<and> ready o' pd' = ready o' pd"
    and test_account: "op_test (tab ops) = Some t \<Longrightarrow> t i pd w = (r, pd', w') \<Longrightarrow>
      acct pd' w' = acct pd w \<and> free o' pd' = free o' pd \<and> ready o' pd' = ready o' pd"
    and set_ops_account: "acct (set_feature_ops i a pd) w = acct pd w"
      "free o' (set_feature_ops i a pd) = free o' pd" "ready o' (set_feature_ops i a pd) = ready o' pd"
begin

text \<open>
  The invariant, for the table \<open>T\<close>: the features with operations have those of their driver, which
  are ready; a driver none of whose features has operations is free.
\<close>

definition bound :: "feature_driver list \<Rightarrow> 'p feature_platform_data \<Rightarrow> bool" where
  "bound T pd \<longleftrightarrow>
     (\<forall>j < pd_num pd. \<forall>a. ops_of pd j = Some a \<longrightarrow> (\<exists>n. name_of pd j = Some n \<and> (n, a) \<in> set T) \<and> ready a pd) \<and>
     (\<forall>(n, a) \<in> set T. (\<forall>j < pd_num pd. name_of pd j = Some n \<longrightarrow> ops_of pd j = None) \<longrightarrow> free a pd)"

text \<open>The features whose drivers the account is about.\<close>

definition covered :: "feature_driver list \<Rightarrow> 'p feature_platform_data \<Rightarrow> bool" where
  "covered T pd \<longleftrightarrow> names_apart pd \<and> distinct (map fst T) \<and> distinct (map snd T) \<and>
     (\<forall>j < pd_num pd. \<forall>n a. name_of pd j = Some n \<longrightarrow> (n, a) \<in> set T \<longrightarrow> good a)"

lemma covered_same: "same_names pd pd' \<Longrightarrow> covered T pd \<Longrightarrow> covered T pd'"
  using names_apart_same [of pd pd'] names_apart_num [of pd] unfolding covered_def same_names_def by metis

lemma driver_unique:
  assumes "covered T pd" and "(n, a) \<in> set T" and "(n', a') \<in> set T"
  shows "n = n' \<longleftrightarrow> a = a'"
  using assms unfolding covered_def
  by (metis eq_key_imp_eq_value inj_on_eq_iff distinct_map fst_conv prod.inject snd_conv)

lemma boundD:
  assumes "bound T pd"
  shows "j < pd_num pd \<Longrightarrow> ops_of pd j = Some a \<Longrightarrow> (\<exists>n. name_of pd j = Some n \<and> (n, a) \<in> set T) \<and> ready a pd"
    and "(n, a) \<in> set T \<Longrightarrow> \<forall>j < pd_num pd. name_of pd j = Some n \<longrightarrow> ops_of pd j = None \<Longrightarrow> free a pd"
  using assms by (auto simp: bound_def)

lemma uinit_one:
  assumes u: "op_uinit (tab a) i pd w = (pd1, w1)" and o: "ops_of pd i = Some a" and i: "i < pd_num pd"
    and c: "covered T pd" and b: "bound T pd"
  shows "bound T (set_feature_ops i None pd1)"
    and "acct (set_feature_ops i None pd1) w1 = acct pd w"
    and "same_names pd (set_feature_ops i None pd1)"
proof -
  let ?pd2 = "set_feature_ops i None pd1"
  have t: "same_table pd pd1" by (rule uinit_frame [OF u])
  have num: "pd_num pd = length (pd_features pd)" using c by (simp add: covered_def names_apart_num)
  have len: "length (pd_features pd1) = pd_num pd" using same_table_length [OF t] num by simp
  show names: "same_names pd ?pd2"
    using same_table_names [OF t] same_names_set_ops same_names_trans by blast
  have nm: "name_of ?pd2 j = name_of pd j" "pd_num ?pd2 = pd_num pd" if "j < pd_num pd" for j
    using names that num by (auto simp: same_names_def)
  have ops: "ops_of ?pd2 j = (if j = i then None else ops_of pd j)" if "j < pd_num pd" for j
    using that i len same_table_ops [OF t] num by (simp add: ops_of_set_ops)
  from boundD(1) [OF b i o] obtain n where n: "name_of pd i = Some n" "(n, a) \<in> set T" and rdy: "ready a pd" by blast
  have g: "good a" using c n i by (auto simp: covered_def)
  show "acct ?pd2 w1 = acct pd w" by (simp add: set_ops_account uinit_account [OF u rdy g])
  note fr = uinit_free [OF u rdy] and ot = uinit_others [OF u rdy]
  have apart: "names_apart pd" using c by (simp add: covered_def)
  show "bound T ?pd2"
    unfolding bound_def
  proof (intro conjI allI impI ballI; (clarify)?)
    fix j a' assume j: "j < pd_num ?pd2" and o': "ops_of ?pd2 j = Some a'"
    then have j: "j < pd_num pd" using nm(2) [OF i] by simp
    with o' ops have ne: "j \<noteq> i" and o'': "ops_of pd j = Some a'" by (auto split: if_splits)
    from boundD(1) [OF b j o''] obtain n' where n': "name_of pd j = Some n'" "(n', a') \<in> set T" "ready a' pd" by blast
    have "a' \<noteq> a" using driver_unique [OF c n(2) n'(2)] names_apartD [OF apart i j n(1)] n'(1) ne by auto
    then show "(\<exists>n. name_of ?pd2 j = Some n \<and> (n, a') \<in> set T)" "ready a' ?pd2"
      using n' nm(1) [OF j] ot by (auto simp: set_ops_account)
  next
    fix n' a' assume d: "(n', a') \<in> set T"
      and un: "\<forall>j < pd_num ?pd2. name_of ?pd2 j = Some n' \<longrightarrow> ops_of ?pd2 j = None"
    show "free a' ?pd2"
    proof (cases "a' = a")
      case True
      then show ?thesis using fr by (simp add: set_ops_account)
    next
      case False
      then have "n' \<noteq> n" using driver_unique [OF c d n(2)] by simp
      then have "\<forall>j < pd_num pd. name_of pd j = Some n' \<longrightarrow> ops_of pd j = None"
        using un nm ops n(1) i by (metis option.inject)
      from boundD(2) [OF b d this] show ?thesis using False ot by (simp add: set_ops_account)
    qed
  qed
qed

lemma uinit_features_account:
  "uinit_features tab is pd w = (pd', w') \<Longrightarrow> set is \<subseteq> {..<pd_num pd} \<Longrightarrow> covered T pd \<Longrightarrow> bound T pd \<Longrightarrow>
   acct pd' w' = acct pd w \<and> covered T pd' \<and> bound T pd'"
proof (induction "is" arbitrary: pd w)
  case (Cons i "is")
  then have i: "i < pd_num pd" by simp
  show ?case
  proof (cases "ops_of pd i")
    case None
    with Cons show ?thesis by (simp add: ops_of_def)
  next
    case (Some a)
    obtain pd1 w1 where u: "op_uinit (tab a) i pd w = (pd1, w1)" by (metis surj_pair)
    note one = uinit_one [OF u Some i Cons.prems(3,4)]
    have rest: "uinit_features tab is (set_feature_ops i None pd1) w1 = (pd', w')"
      using Cons.prems(1) Some u by (simp add: ops_of_def)
    have "pd_num (set_feature_ops i None pd1) = pd_num pd" using one(3) by (simp add: same_names_def)
    with Cons.IH [OF rest _ covered_same [OF one(3) Cons.prems(3)] one(1)] Cons.prems(2) one(2)
    show ?thesis by simp
  qed
qed simp

lemma feature_uinit_account:
  assumes "fpga_dev_feature_uinit tab pd w = (pd', w')" and "covered T pd" and "bound T pd"
  shows "acct pd' w' = acct pd w \<and> covered T pd' \<and> bound T pd' \<and> (\<forall>j < pd_num pd. ops_of pd' j = None) \<and>
    same_names pd pd'"
proof -
  have num: "pd_num pd = length (pd_features pd)" using assms(2) by (simp add: covered_def names_apart_num)
  have u: "uinit_features tab [0..<pd_num pd] pd w = (pd', w')" using assms(1) by (simp add: fpga_dev_feature_uinit_def)
  have "set [0..<pd_num pd] \<subseteq> {..<pd_num pd}" by auto
  from uinit_features_account [OF u this assms(2,3)] feature_uinit_all [OF assms(1) num] show ?thesis by simp
qed

lemma instance_init_one:
  assumes s: "feature_instance_init tab a i pd w = (r, pd', w')" and i: "i < pd_num pd"
    and n: "name_of pd i = Some n" and d: "(n, a) \<in> set T" and o: "ops_of pd i = None"
    and c: "covered T pd" and b: "bound T pd"
  shows "acct pd' w' = acct pd w" and "bound T pd'"
proof -
  have apart: "names_apart pd" and num: "pd_num pd = length (pd_features pd)"
    using c by (simp_all add: covered_def names_apart_num)
  have fr: "same_names pd pd' \<and> (\<forall>j < pd_num pd. ops_of pd' j = (if r = Inr () \<and> j = i then Some a else ops_of pd j))"
    using instance_init_frame [OF s] i num by simp
  have nm: "name_of pd' j = name_of pd j" "pd_num pd' = pd_num pd" if "j < pd_num pd" for j
    using fr that num by (auto simp: same_names_def)
  have free: "free a pd"
    using boundD(2) [OF b d] o names_apartD [OF apart i _ n] by blast
  have g: "good a" using c n i d by (auto simp: covered_def)
  obtain r1 pd1 w1 where t: "(case op_test (tab a) of None \<Rightarrow> (Inr (), pd, w)
      | Some test \<Rightarrow> test i pd w) = (r1, pd1, w1)"
    by (metis surj_pair)
  have t1: "acct pd1 w1 = acct pd w" "\<And>o'. free o' pd1 = free o' pd" "\<And>o'. ready o' pd1 = ready o' pd"
    using t test_account by (auto split: option.splits)
  have res: "acct pd' w' = acct pd w \<and> (if r = Inr () then ready a pd' else free a pd') \<and>
    (\<forall>o'. o' \<noteq> a \<longrightarrow> free o' pd' = free o' pd \<and> ready o' pd' = ready o' pd)"
  proof (cases r1)
    case (Inl e)
    with s t t1 free show ?thesis by (auto simp: feature_instance_init_def)
  next
    case (Inr u)
    obtain r2 pd2 w2 where i2: "op_init (tab a) i pd1 w1 = (r2, pd2, w2)" by (metis surj_pair)
    have f1: "free a pd1" using free t1 by simp
    from s t Inr i2 init_free [OF i2 f1] init_account [OF i2 f1 g] init_others [OF i2 f1] t1
    show ?thesis by (cases r2) (auto simp: feature_instance_init_def set_ops_account)
  qed
  then show "acct pd' w' = acct pd w" by blast
  show "bound T pd'"
    unfolding bound_def
  proof (intro conjI allI impI ballI; (clarify)?)
    fix j a' assume j': "j < pd_num pd'" and o': "ops_of pd' j = Some a'"
    then have j: "j < pd_num pd" using nm(2) [OF i] by simp
    show "\<exists>n. name_of pd' j = Some n \<and> (n, a') \<in> set T" "ready a' pd'"
    proof -
      have "(\<exists>n. name_of pd' j = Some n \<and> (n, a') \<in> set T) \<and> ready a' pd'"
      proof (cases "j = i")
        case True
        with o' fr j o have "a' = a" "r = Inr ()" by (auto split: if_splits)
        with True res n d nm(1) [OF i] show ?thesis by auto
      next
        case False
        with o' fr j have o'': "ops_of pd j = Some a'" by simp
        from boundD(1) [OF b j this] obtain n' where n': "name_of pd j = Some n'" "(n', a') \<in> set T" "ready a' pd" by blast
        have "a' \<noteq> a" using driver_unique [OF c d n'(2)] names_apartD [OF apart i j n] n'(1) False by auto
        with res n' nm(1) [OF j] show ?thesis by auto
      qed
      then show "\<exists>n. name_of pd' j = Some n \<and> (n, a') \<in> set T" "ready a' pd'" by auto
    qed
  next
    fix n' a' assume d': "(n', a') \<in> set T"
      and un: "\<forall>j < pd_num pd'. name_of pd' j = Some n' \<longrightarrow> ops_of pd' j = None"
    show "free a' pd'"
    proof (cases "a' = a")
      case True
      then have "n' = n" using driver_unique [OF c d' d] by simp
      with un i nm [OF i] n fr have "r \<noteq> Inr ()" by auto
      with res True show ?thesis by auto
    next
      case False
      then have "n' \<noteq> n" using driver_unique [OF c d' d] by simp
      then have "\<forall>j < pd_num pd. name_of pd j = Some n' \<longrightarrow> ops_of pd j = None"
        using un nm fr n by (metis option.inject)
      from boundD(2) [OF b d' this] show ?thesis using False res by simp
    qed
  qed
qed

text \<open>The driver is one of the table and none of its features has operations yet.\<close>

lemma init_features_account:
  "init_features tab drv is pd w = (r, pd', w') \<Longrightarrow> set is \<subseteq> {..<pd_num pd} \<Longrightarrow> distinct is \<Longrightarrow> drv \<in> set T \<Longrightarrow>
   \<forall>j \<in> set is. name_of pd j = Some (fst drv) \<longrightarrow> ops_of pd j = None \<Longrightarrow> covered T pd \<Longrightarrow> bound T pd \<Longrightarrow>
   acct pd' w' = acct pd w \<and> bound T pd'"
proof (induction "is" arbitrary: pd w)
  case (Cons i "is")
  then have i: "i < pd_num pd" by simp
  show ?case
  proof (cases "name_of pd i = Some (fst drv)")
    case False
    then have "init_features tab drv is pd w = (r, pd', w')"
      using Cons.prems(1) by (auto simp: name_of_def split: option.splits if_splits)
    from Cons.IH [OF this] Cons.prems show ?thesis by simp
  next
    case True
    have num: "pd_num pd = length (pd_features pd)" using Cons.prems(6) by (simp add: covered_def names_apart_num)
    obtain r1 pd1 w1 where s: "feature_instance_init tab (snd drv) i pd w = (r1, pd1, w1)"
      by (metis surj_pair)
    have d: "(fst drv, snd drv) \<in> set T" using Cons.prems(4) by simp
    have o: "ops_of pd i = None" using Cons.prems(5) True by simp
    note one = instance_init_one [OF s i True d o Cons.prems(6,7)]
    have f: "same_names pd pd1 \<and> (\<forall>j < pd_num pd. ops_of pd1 j =
        (if r1 = Inr () \<and> j = i then Some (snd drv) else ops_of pd j))"
      using instance_init_frame [OF s] i num by simp
    show ?thesis
    proof (cases r1)
      case (Inl e)
      then have "pd' = pd1" "w' = w1"
        using Cons.prems(1) True s by (auto simp: name_of_def)
      with one show ?thesis by simp
    next
      case (Inr u)
      then have rest: "init_features tab drv is pd1 w1 = (r, pd', w')"
        using Cons.prems(1) True s by (auto simp: name_of_def)
      have nums: "pd_num pd1 = pd_num pd" "\<And>j. j < pd_num pd \<Longrightarrow> name_of pd1 j = name_of pd j"
        using f num by (auto simp: same_names_def)
      have "\<forall>j \<in> set is. name_of pd1 j = Some (fst drv) \<longrightarrow> ops_of pd1 j = None"
        using Cons.prems(2,3,5) f nums by auto
      with Cons.IH [OF rest _ _ Cons.prems(4) _ covered_same [OF conjunct1 [OF f] Cons.prems(6)] one(2)]
        Cons.prems(2,3) nums one(1)
      show ?thesis by simp
    qed
  qed
qed simp

lemma init_drivers_account:
  "init_drivers tab drvs pd w = (r, pd', w') \<Longrightarrow> set drvs \<subseteq> set T \<Longrightarrow> distinct (map fst drvs) \<Longrightarrow>
   \<forall>j < pd_num pd. \<forall>d \<in> set drvs. name_of pd j = Some (fst d) \<longrightarrow> ops_of pd j = None \<Longrightarrow>
   covered T pd \<Longrightarrow> bound T pd \<Longrightarrow>
   acct pd' w' = acct pd w \<and> covered T pd' \<and> bound T pd' \<and> same_names pd pd'"
proof (induction drvs arbitrary: pd w)
  case (Cons drv drvs)
  have num: "pd_num pd = length (pd_features pd)" using Cons.prems(5) by (simp add: covered_def names_apart_num)
  obtain r1 pd1 w1 where s: "init_features tab drv [0..<pd_num pd] pd w = (r1, pd1, w1)"
    by (metis surj_pair)
  have a1: "acct pd1 w1 = acct pd w \<and> bound T pd1"
    by (rule init_features_account [OF s]) (use Cons.prems in auto)
  have f: "same_names pd pd1 \<and> (\<forall>j < pd_num pd. ops_of pd1 j = ops_of pd j \<or> name_of pd j = Some (fst drv))"
  proof -
    have "set [0..<pd_num pd] \<subseteq> {..<length (pd_features pd)}" using num by auto
    from init_features_frame [OF s this] num show ?thesis by metis
  qed
  note c1 = covered_same [OF conjunct1 [OF f] Cons.prems(5)]
  show ?case
  proof (cases r1)
    case (Inl e)
    then have "pd' = pd1" "w' = w1" using Cons.prems(1) s by auto
    with a1 c1 f show ?thesis by simp
  next
    case (Inr u)
    then have rest: "init_drivers tab drvs pd1 w1 = (r, pd', w')" using Cons.prems(1) s by auto
    have nums: "pd_num pd1 = pd_num pd" "\<And>j. j < pd_num pd \<Longrightarrow> name_of pd1 j = name_of pd j"
      using f num by (auto simp: same_names_def)
    have "\<forall>j < pd_num pd1. \<forall>d \<in> set drvs. name_of pd1 j = Some (fst d) \<longrightarrow> ops_of pd1 j = None"
    proof (intro allI impI ballI)
      fix j d assume j: "j < pd_num pd1" and d: "d \<in> set drvs" and nd: "name_of pd1 j = Some (fst d)"
      have "fst d \<noteq> fst drv"
        using imageI [OF d, of fst] Cons.prems(3) by (metis distinct.simps(2) list.set_map list.simps(9))
      with j nd nums f Cons.prems(4) d show "ops_of pd1 j = None" by fastforce
    qed
    with Cons.IH [OF rest _ _ _ c1] Cons.prems(2,3) a1 f show ?thesis
      using same_names_trans [of pd pd1 pd'] by auto
  qed
qed simp

text \<open>The whole of it, from a device with no operations set.\<close>

lemma bound_start: "\<forall>j < pd_num pd. ops_of pd j = None \<Longrightarrow> \<forall>a. free a pd \<Longrightarrow> bound T pd"
  by (auto simp: bound_def)

lemma feature_init_account:
  assumes "fpga_dev_feature_init tab T pd w = (r, pd', w')" and "covered T pd" and "\<forall>a. free a pd"
    and "\<forall>j < pd_num pd. ops_of pd j = None"
  shows "acct pd' w' = acct pd w \<and> covered T pd' \<and> bound T pd' \<and> same_names pd pd' \<and>
    (r \<noteq> Inr () \<longrightarrow> (\<forall>j < pd_num pd. ops_of pd' j = None))"
proof -
  obtain r1 pd1 w1 where s: "init_drivers tab T pd w = (r1, pd1, w1)" by (metis surj_pair)
  have a: "acct pd1 w1 = acct pd w \<and> covered T pd1 \<and> bound T pd1 \<and> same_names pd pd1"
    by (rule init_drivers_account [OF s])
      (use assms(2,4) bound_start [OF assms(4,3)] in \<open>auto simp: covered_def\<close>)
  show ?thesis
  proof (cases r1)
    case (Inl e)
    obtain pd2 w2 where u: "fpga_dev_feature_uinit tab pd1 w1 = (pd2, w2)" by (metis surj_pair)
    have "acct pd2 w2 = acct pd1 w1 \<and> covered T pd2 \<and> bound T pd2 \<and> (\<forall>j < pd_num pd1. ops_of pd2 j = None) \<and>
        same_names pd1 pd2"
      by (rule feature_uinit_account [OF u]) (use a in auto)
    moreover have "r = Inl e" "pd' = pd2" "w' = w2" using assms(1) s Inl u by (auto simp: fpga_dev_feature_init_def)
    ultimately show ?thesis using a same_names_trans [of pd pd1 pd2] by (auto simp: same_names_def)
  next
    case (Inr u)
    then have "r = Inr ()" "pd' = pd1" "w' = w1" using assms(1) s by (auto simp: fpga_dev_feature_init_def)
    with a show ?thesis by simp
  qed
qed

end

end
