(* ===== verification/Fme_Account.thy ===== *)
theory Fme_Account
  imports Fme_Main Feature_Account
begin

text \<open>
  What an FME holds from its probe to its removal: the sub-features of \<^verbatim>\<open>fme-main.c\<close> keep the account
  that \<open>Feature_Account\<close> asks of them, so the FME gives back what it takes on every path, but for one
  reference per flash device it adds: \<^verbatim>\<open>qspi_flash_uinit\<close> takes one with \<^verbatim>\<open>device_find_child\<close>
  and gives back one with \<^verbatim>\<open>platform_device_unregister\<close>, so the one that \<^verbatim>\<open>qspi_flash_init\<close> got
  with \<^verbatim>\<open>platform_device_alloc\<close> stays. The account counts these references in the trace.
\<close>

subsection \<open>What the FME holds\<close>

definition fme_hold :: "resource \<Rightarrow> fme_pdata \<Rightarrow> int" where
  "fme_hold q pd = (if pd_private pd = None then 0 else
     of_bool (q = RMem (fme_self (the_fme pd))) + err_dev_hold q (fme_dev_err (the_fme pd)) +
     opt_hold q (fme_iperf_dev (the_fme pd)) + opt_hold q (fme_dperf_dev (the_fme pd)) +
     (case fme_mgr (the_fme pd) of None \<Rightarrow> 0
      | Some (s, i, st) \<Rightarrow> of_bool (q = RMem s) + of_bool (q = RId (-1) i) + of_bool (q = RDevice s)))"

text \<open>
  The flash devices that \<^verbatim>\<open>platform_device_add\<close> made, one reference to each of which is never given
  back.
\<close>

definition adds_device :: "event \<Rightarrow> resource \<Rightarrow> int" where
  "adds_device e q =
     (case e of
        Call f xs (Inr _) \<Rightarrow> of_bool (f = Platform_device_add \<and> q = RDevice (ret_val xs))
      | _ \<Rightarrow> 0)"

definition added_devices :: "event list \<Rightarrow> resource \<Rightarrow> int" where
  "added_devices tr q = (\<Sum>e\<leftarrow>tr. adds_device e q)"

lemma added_devices_simps [simp]:
  "added_devices [] q = 0"
  "added_devices (e # tr) q = adds_device e q + added_devices tr q"
  "f \<noteq> Platform_device_add \<Longrightarrow> adds_device (Call f xs r) q = 0"
  "adds_device (Call f xs (Inl err)) q = 0"
  "adds_device (RdQ a v) q = 0" "adds_device (WrQ a v) q = 0" "adds_device (RdL a v') q = 0"
  by (simp_all add: added_devices_def adds_device_def split: sum.split)

definition fme_acct :: "resource \<Rightarrow> fme_pdata \<Rightarrow> world \<Rightarrow> int" where
  "fme_acct q pd w = balance (w_trace w) q - added_devices (w_trace w) q - fme_hold q pd"

definition fme_free :: "string \<Rightarrow> fme_pdata \<Rightarrow> bool" where
  "fme_free a pd \<longleftrightarrow> pd_private pd \<noteq> None \<and>
     (a = ''global_error_ops'' \<longrightarrow> fme_dev_err (the_fme pd) = None) \<and>
     (a = ''pr_mgmt_ops'' \<longrightarrow> fme_mgr (the_fme pd) = None) \<and>
     (a = ''global_iperf_ops'' \<longrightarrow> fme_iperf_dev (the_fme pd) = None) \<and>
     (a = ''global_dperf_ops'' \<longrightarrow> fme_dperf_dev (the_fme pd) = None)"

definition fme_ready :: "string \<Rightarrow> fme_pdata \<Rightarrow> bool" where
  "fme_ready a pd \<longleftrightarrow> pd_private pd \<noteq> None \<and>
     (a = ''global_error_ops'' \<longrightarrow> fme_dev_err (the_fme pd) \<noteq> None) \<and>
     (a = ''pr_mgmt_ops'' \<longrightarrow> fme_mgr (the_fme pd) \<noteq> None) \<and>
     (a = ''global_iperf_ops'' \<longrightarrow> fme_iperf_dev (the_fme pd) \<noteq> None) \<and>
     (a = ''global_dperf_ops'' \<longrightarrow> fme_dperf_dev (the_fme pd) \<noteq> None)"

text \<open>The operations of the flash device are the last of the table.\<close>

definition flash_ops :: "string \<Rightarrow> bool" where
  "flash_ops a \<longleftrightarrow> a \<notin> {''fme_hdr_ops'', ''thermal_mgmt_ops'', ''power_mgmt_ops'', ''global_error_ops'',
     ''pr_mgmt_ops'', ''global_iperf_ops'', ''hssi_mgmt_ops'', ''global_dperf_ops''}"

lemma private_set [simp]: "pd_private (set_fme fme pd) = Some fme"
  by (simp add: set_fme_def fpga_pdata_set_private_def)

lemma same_table_fme [simp]: "same_table pd (set_fme fme pd)"
  by (simp add: same_table_def set_fme_def fpga_pdata_set_private_def)

subsection \<open>No sub-feature but the flash device adds a device\<close>

definition adds_none :: "world \<Rightarrow> world \<Rightarrow> bool" where
  "adds_none w w' \<longleftrightarrow> (\<forall>q. added_devices (w_trace w') q = added_devices (w_trace w) q)"

lemma adds_noneD: "adds_none w w' \<Longrightarrow> added_devices (w_trace w') q = added_devices (w_trace w) q"
  by (simp add: adds_none_def)

lemma adds_none_refl [simp]: "adds_none w w"
  by (simp add: adds_none_def)

lemma adds_none_trans [trans]: "adds_none w w' \<Longrightarrow> adds_none w' w'' \<Longrightarrow> adds_none w w''"
  by (simp add: adds_none_def)

lemma adds_none_calls [simp]:
  "f \<noteq> Platform_device_add \<Longrightarrow> adds_none w (kvoid f xs w') \<longleftrightarrow> adds_none w w'"
  "adds_none w (writeq v a w') \<longleftrightarrow> adds_none w w'"
  by (simp_all add: adds_none_def kvoid_def writeq_def)

lemma adds_none_results:
  "kvalue f xs w' = (r, w'') \<Longrightarrow> f \<noteq> Platform_device_add \<Longrightarrow> adds_none w w'' \<longleftrightarrow> adds_none w w'"
  "kstatus f xs w' = (r', w'') \<Longrightarrow> f \<noteq> Platform_device_add \<Longrightarrow> adds_none w w'' \<longleftrightarrow> adds_none w w'"
  "readq a w' = (v, w'') \<Longrightarrow> adds_none w w'' \<longleftrightarrow> adds_none w w'"
  by (auto simp: adds_none_def kvalue_def kstatus_def kcall_def readq_def Let_def split: sum.splits)

lemma error_adds_none:
  "global_error_init i pd w = (r, pd', w') \<Longrightarrow> adds_none w w'"
  "global_error_uinit i pd w = (pd', w'') \<Longrightarrow> adds_none w w''"
  by (auto simp: global_error_init_def global_error_uinit_def put_err_dev_def fme_error_enable_def Let_def adds_none_results
      split: prod.splits sum.splits)

lemma destroy_adds_none [simp]:
  "adds_none w0 (destroy_perf_obj obj w) \<longleftrightarrow> adds_none w0 w" "adds_none w0 (destroy_perf_objs objs w) \<longleftrightarrow> adds_none w0 w"
  by (induction obj w and objs w rule: destroy_perf_obj_destroy_perf_objs.induct)
    (simp_all add: Let_def kobject_put_def perf_obj_release_def)

lemma create_adds_none: "create_perf_obj parent inst groups name w = (r, w') \<Longrightarrow> adds_none w0 w' \<longleftrightarrow> adds_none w0 w"
  by (auto simp: create_perf_obj_def kobject_put_def perf_obj_release_def adds_none_results
      split: prod.splits sum.splits if_splits)

lemma add_ports_adds_none:
  "add_port_objs groups name is pobj w = (r, pobj', w') \<Longrightarrow> adds_none w0 w' \<longleftrightarrow> adds_none w0 w"
  by (induction "is" arbitrary: pobj w) (auto simp: create_adds_none split: prod.splits sum.splits)

lemma create_sub_adds_none:
  "create_perf_sub_obj tops name groups port_name n dev w = (r, dev', w') \<Longrightarrow> adds_none w0 w' \<longleftrightarrow> adds_none w0 w"
  by (auto simp: create_perf_sub_obj_def create_adds_none add_ports_adds_none split: prod.splits sum.splits)

lemma perf_adds_none:
  "fme_iperf_init dev i pd w = (r, pd', w') \<Longrightarrow> adds_none w w'"
  "fme_dperf_init dev i pd w = (r, pd', w') \<Longrightarrow> adds_none w w'"
  by (auto simp: fme_iperf_init_def fme_dperf_init_def iperf_create_perf_dev_def dperf_create_perf_dev_def
      create_perf_iommu_obj_def iperf_create_perf_fabric_obj_def dperf_create_perf_fabric_obj_def
      adds_none_results create_adds_none create_sub_adds_none split: prod.splits sum.splits if_splits)

lemma register_adds_none:
  "fpga_mgr_register name mops priv w = (r, w') \<Longrightarrow> adds_none w0 w' \<longleftrightarrow> adds_none w0 w"
  by (auto simp: fpga_mgr_register_def adds_none_results split: prod.splits sum.splits if_splits)

lemma pr_remove_adds_none: "fpga_fme_pr_remove pd w = (pd', w') \<Longrightarrow> adds_none w0 w' \<longleftrightarrow> adds_none w0 w"
  by (auto simp: fpga_fme_pr_remove_def fpga_mgr_unregister_def fpga_mgr_dev_release_def the_mgr_def fme_pr_ops_def
      split: prod.splits)

lemma pr_adds_none:
  "pr_mgmt_init i pd w = (r, pd', w') \<Longrightarrow> adds_none w w'"
  "pr_mgmt_uinit i pd w = (pd', w'') \<Longrightarrow> adds_none w w''"
  by (auto simp: pr_mgmt_init_def pr_mgmt_uinit_def fpga_fme_pr_probe_def Let_def pr_remove_adds_none register_adds_none
      adds_none_results split: prod.splits sum.splits)

subsection \<open>The sub-features\<close>

lemma sysfs_adds_none:
  "adds_none w (snd (kstatus Sysfs_create xs w))"
  by (cases "kstatus Sysfs_create xs w") (simp add: adds_none_results)

lemma sysfs_balance:
  "balance (w_trace (snd (kstatus Sysfs_create xs w))) q = balance (w_trace w) q"
  "balance (w_trace (kvoid Sysfs_remove xs w)) q = balance (w_trace w) q"
  by (simp_all add: kstatus_def kcall_def kvoid_def Let_def split: sum.splits prod.splits)

lemma pr_probe_balance:
  assumes "fpga_fme_pr_probe pd w = (r, pd', w')"
  shows "\<exists>fme. fme_self fme = fme_self (the_fme pd) \<and> fme_dev_err fme = fme_dev_err (the_fme pd) \<and>
    fme_iperf_dev fme = fme_iperf_dev (the_fme pd) \<and> fme_dperf_dev fme = fme_dperf_dev (the_fme pd) \<and>
    fme_mgr fme = fme_mgr (the_fme pd) \<and>
    (case r of
       Inl _ \<Rightarrow> pd' = set_fme fme pd \<and> balance (w_trace w') q = balance (w_trace w) q
     | Inr _ \<Rightarrow> \<exists>s i st. pd' = set_fme (fme\<lparr>fme_mgr := Some (s, i, st)\<rparr>) pd \<and>
         balance (w_trace w') q = balance (w_trace w) q + of_bool (q = RMem s) + of_bool (q = RId (-1) i) +
           of_bool (q = RDevice s))"
proof -
  obtain csr w1 where rd: "readq (pr_reg pd ''header'') w = (csr, w1)" by (metis surj_pair)
  have b1: "balance (w_trace w1) q = balance (w_trace w) q" by (rule mmio_only_balance [OF mmio_only_readq [OF rd]])
  define fme where "fme = (if get_field feature_header ''revision'' csr = 2
    then (the_fme pd)\<lparr>fme_pr_bandwidth := 64, fme_pr_avx512 := True\<rparr>
    else (the_fme pd)\<lparr>fme_pr_bandwidth := 4\<rparr>)"
  obtain r2 w2 where reg: "fpga_mgr_register mgr_name fme_pr_ops (set_fme fme pd) w1 = (r2, w2)" by (metis surj_pair)
  have run: "(r, pd', w') = (case r2 of Inl e \<Rightarrow> (Inl e, set_fme fme pd, w2) | Inr mgr \<Rightarrow> (Inr (), set_mgr mgr, w2))"
    using assms rd reg unfolding fme_def by (cases r2) (simp_all add: fpga_fme_pr_probe_def Let_def)
  have same: "fme_self fme = fme_self (the_fme pd)" "fme_dev_err fme = fme_dev_err (the_fme pd)"
    "fme_iperf_dev fme = fme_iperf_dev (the_fme pd)" "fme_dperf_dev fme = fme_dperf_dev (the_fme pd)"
    "fme_mgr fme = fme_mgr (the_fme pd)"
    by (simp_all add: fme_def)
  show ?thesis
  proof (intro exI [of _ fme] conjI same)
    show "case r of
       Inl _ \<Rightarrow> pd' = set_fme fme pd \<and> balance (w_trace w') q = balance (w_trace w) q
     | Inr _ \<Rightarrow> \<exists>s i st. pd' = set_fme (fme\<lparr>fme_mgr := Some (s, i, st)\<rparr>) pd \<and>
         balance (w_trace w') q = balance (w_trace w) q + of_bool (q = RMem s) + of_bool (q = RId (-1) i) +
           of_bool (q = RDevice s)"
      using run register_balance [OF reg, of q] b1
      by (cases r2) (auto simp: set_mgr_def mgr_hold_def intro!: exI)
  qed
qed

lemma pr_remove_balance:
  assumes "fpga_fme_pr_remove pd w = (pd', w')" and "fme_mgr (the_fme pd) = Some (s, i, st)"
  shows "pd' = set_fme ((the_fme pd)\<lparr>fme_mgr := None\<rparr>) pd \<and>
    balance (w_trace w') q = balance (w_trace w) q - of_bool (q = RMem s) - of_bool (q = RId (-1) i) -
      of_bool (q = RDevice s)"
proof -
  obtain mgr w1 where u: "fpga_mgr_unregister (the_mgr pd) w = (mgr, w1)" by (metis surj_pair)
  have "mo_fpga_remove (fm_mops (the_mgr pd)) = None" by (simp add: the_mgr_def fme_pr_ops_def split: prod.split)
  from unregister_balance [OF this u, of q] assms u show ?thesis
    by (auto simp: fpga_fme_pr_remove_def mgr_hold_def the_mgr_def)
qed

lemma pr_init_balance:
  assumes "pr_mgmt_init i pd w = (r, pd', w')" and "fme_mgr (the_fme pd) = None"
  shows "\<exists>fme. fme_self fme = fme_self (the_fme pd) \<and> fme_dev_err fme = fme_dev_err (the_fme pd) \<and>
    fme_iperf_dev fme = fme_iperf_dev (the_fme pd) \<and> fme_dperf_dev fme = fme_dperf_dev (the_fme pd) \<and>
    pd' = set_fme fme pd \<and>
    (case r of
       Inl _ \<Rightarrow> fme_mgr fme = None \<and> balance (w_trace w') q = balance (w_trace w) q
     | Inr _ \<Rightarrow> \<exists>s i st. fme_mgr fme = Some (s, i, st) \<and>
         balance (w_trace w') q = balance (w_trace w) q + of_bool (q = RMem s) + of_bool (q = RId (-1) i) +
           of_bool (q = RDevice s))"
proof -
  obtain r1 pd1 w1 where p: "fpga_fme_pr_probe pd w = (r1, pd1, w1)" by (metis surj_pair)
  obtain r2 w2 where s: "kstatus Sysfs_create [] w1 = (r2, w2)" by (metis surj_pair)
  have b2: "balance (w_trace w2) q = balance (w_trace w1) q" using sysfs_balance(1) [of "[]" w1 q] s by simp
  obtain fme where f: "fme_self fme = fme_self (the_fme pd)"
    "fme_dev_err fme = fme_dev_err (the_fme pd)" "fme_iperf_dev fme = fme_iperf_dev (the_fme pd)"
    "fme_dperf_dev fme = fme_dperf_dev (the_fme pd)" "fme_mgr fme = fme_mgr (the_fme pd)"
    and c: "case r1 of
       Inl _ \<Rightarrow> pd1 = set_fme fme pd \<and> balance (w_trace w1) q = balance (w_trace w) q
     | Inr _ \<Rightarrow> \<exists>s i st. pd1 = set_fme (fme\<lparr>fme_mgr := Some (s, i, st)\<rparr>) pd \<and>
         balance (w_trace w1) q = balance (w_trace w) q + of_bool (q = RMem s) + of_bool (q = RId (-1) i) +
           of_bool (q = RDevice s)"
    using pr_probe_balance [OF p, of q] by (elim exE conjE) (rule that; assumption)
  show ?thesis
  proof (cases r1)
    case (Inl e)
    then have run: "r = Inl e" "pd' = pd1" "w' = w1" using assms(1) p by (simp_all add: pr_mgmt_init_def)
    show ?thesis unfolding run using c Inl f assms(2) by (intro exI [of _ fme]) simp
  next
    case (Inr u)
    with c obtain s i st where pd1: "pd1 = set_fme (fme\<lparr>fme_mgr := Some (s, i, st)\<rparr>) pd"
      and b1: "balance (w_trace w1) q = balance (w_trace w) q + of_bool (q = RMem s) + of_bool (q = RId (-1) i) +
           of_bool (q = RDevice s)" by auto
    show ?thesis
    proof (cases r2)
      case (Inl e)
      obtain pd3 w3 where m: "fpga_fme_pr_remove pd1 w2 = (pd3, w3)" by (metis surj_pair)
      have mg: "fme_mgr (the_fme pd1) = Some (s, i, st)" using pd1 by simp
      have run: "r = Inl e" "pd' = pd3" "w' = w3"
        using assms(1) p s \<open>r1 = Inr u\<close> Inl m by (simp_all add: pr_mgmt_init_def)
      have pd3: "pd3 = set_fme (fme\<lparr>fme_mgr := None\<rparr>) pd" and "balance (w_trace w3) q = balance (w_trace w) q"
        using pr_remove_balance [OF m mg, of q] pd1 b1 b2 by simp_all
      then show ?thesis unfolding run using f by (intro exI [of _ "fme\<lparr>fme_mgr := None\<rparr>"]) simp
    next
      case (Inr v)
      have run: "r = Inr ()" "pd' = pd1" "w' = w2"
        using assms(1) p s \<open>r1 = Inr u\<close> Inr by (simp_all add: pr_mgmt_init_def)
      show ?thesis unfolding run using f pd1 b1 b2 by (intro exI [of _ "fme\<lparr>fme_mgr := Some (s, i, st)\<rparr>"]) simp
    qed
  qed
qed

lemma flash_init_account:
  assumes "qspi_flash_init i pd w = (r, pd', w')"
  shows "pd' = pd \<and> balance (w_trace w') q - added_devices (w_trace w') q =
    balance (w_trace w) q - added_devices (w_trace w) q"
  using assms
  by (auto simp: qspi_flash_init_def Let_def kvalue_def kstatus_def kcall_def kvoid_def readq_def readl_def
      named_pairs_def adds_device_def ret_val_def split: sum.splits prod.splits)

lemma flash_uinit_account:
  assumes "qspi_flash_uinit i pd w = (pd', w')"
  shows "pd' = pd \<and> balance (w_trace w') q = balance (w_trace w) q" "adds_none w w'"
proof -
  show "pd' = pd \<and> balance (w_trace w') q = balance (w_trace w) q"
    using assms
    by (auto simp: qspi_flash_uinit_def Let_def kvalue_def kcall_def kvoid_def ret_val_def split: sum.splits prod.splits)
  show "adds_none w w'"
    using assms by (auto simp: qspi_flash_uinit_def adds_none_results split: sum.splits prod.splits)
qed

lemma flash_same:
  "qspi_flash_init i pd w = (r, pd', w') \<Longrightarrow> pd' = pd"
  "qspi_flash_uinit i pd w = (pd', w'') \<Longrightarrow> pd' = pd"
  by (auto simp: qspi_flash_init_def qspi_flash_uinit_def Let_def split: sum.splits prod.splits)

text \<open>The sub-features change the private data only, and each of them its own part.\<close>

lemma fme_ops_init:
  "op_init (fme_ops dev a) = (if a = ''fme_hdr_ops'' then fme_hdr_init else if a = ''thermal_mgmt_ops'' then thermal_mgmt_init
     else if a = ''power_mgmt_ops'' then power_mgmt_init else if a = ''global_error_ops'' then global_error_init
     else if a = ''pr_mgmt_ops'' then pr_mgmt_init else if a = ''global_iperf_ops'' then fme_iperf_init dev
     else if a = ''hssi_mgmt_ops'' then hssi_mgmt_init else if a = ''global_dperf_ops'' then fme_dperf_init dev
     else qspi_flash_init)"
  "op_uinit (fme_ops dev a) = (if a = ''fme_hdr_ops'' then fme_hdr_uinit else if a = ''thermal_mgmt_ops'' then thermal_mgmt_uinit
     else if a = ''power_mgmt_ops'' then power_mgmt_uinit else if a = ''global_error_ops'' then global_error_uinit
     else if a = ''pr_mgmt_ops'' then pr_mgmt_uinit else if a = ''global_iperf_ops'' then fme_iperf_uinit
     else if a = ''hssi_mgmt_ops'' then hssi_mgmt_uinit else if a = ''global_dperf_ops'' then fme_dperf_uinit
     else qspi_flash_uinit)"
  "op_test (fme_ops dev a) = None"
  by (simp_all add: fme_ops_def)

lemma simple_features:
  assumes "op_init (fme_ops dev a) i pd w = (r, pd', w')"
    and "a \<in> {''fme_hdr_ops'', ''thermal_mgmt_ops'', ''power_mgmt_ops'', ''hssi_mgmt_ops''}"
  shows "pd' = pd \<and> adds_none w w' \<and> balance (w_trace w') q = balance (w_trace w) q"
proof -
  have "(r, pd', w') = (case kstatus Sysfs_create [] w of (r, w1) \<Rightarrow> (r, pd, w1)) \<or> (pd' = pd \<and> w' = w)"
    using assms(2)
  proof (elim insertE)
    assume a: "a = ''fme_hdr_ops''" show ?thesis using assms(1) unfolding a by (simp add: fme_ops_init fme_hdr_init_def)
  next
    assume a: "a = ''thermal_mgmt_ops''"
    show ?thesis using assms(1) unfolding a by (simp add: fme_ops_init thermal_mgmt_init_def)
  next
    assume a: "a = ''power_mgmt_ops''" show ?thesis using assms(1) unfolding a by (simp add: fme_ops_init power_mgmt_init_def)
  next
    assume a: "a = ''hssi_mgmt_ops''" show ?thesis using assms(1) unfolding a by (simp add: fme_ops_init hssi_mgmt_init_def)
  qed simp
  then show ?thesis using sysfs_balance(1) [of "[]" w q] sysfs_adds_none [of w "[]"] by (auto split: prod.splits)
qed

lemma simple_uinit:
  assumes "op_uinit (fme_ops dev a) i pd w = (pd', w')"
    and "a \<in> {''fme_hdr_ops'', ''thermal_mgmt_ops'', ''power_mgmt_ops'', ''hssi_mgmt_ops''}"
  shows "pd' = pd \<and> adds_none w w' \<and> balance (w_trace w') q = balance (w_trace w) q"
proof -
  have "pd' = pd \<and> (w' = kvoid Sysfs_remove [] w \<or> w' = w)"
    using assms(2)
  proof (elim insertE)
    assume a: "a = ''fme_hdr_ops''" show ?thesis using assms(1) unfolding a by (simp add: fme_ops_init fme_hdr_uinit_def)
  next
    assume a: "a = ''thermal_mgmt_ops''"
    show ?thesis using assms(1) unfolding a by (simp add: fme_ops_init thermal_mgmt_uinit_def)
  next
    assume a: "a = ''power_mgmt_ops''" show ?thesis using assms(1) unfolding a by (simp add: fme_ops_init power_mgmt_uinit_def)
  next
    assume a: "a = ''hssi_mgmt_ops''" show ?thesis using assms(1) unfolding a by (simp add: fme_ops_init hssi_mgmt_uinit_def)
  qed simp
  then show ?thesis using sysfs_balance(2) [of "[]" w q] by auto
qed

text \<open>What one initialisation does to the account, to its own part and to the others.\<close>

definition init_step :: "string \<Rightarrow> unit res \<Rightarrow> fme_pdata \<Rightarrow> fme_pdata \<Rightarrow> bool" where
  "init_step a r pd pd' \<longleftrightarrow> (case r of Inl _ \<Rightarrow> fme_free a pd' | Inr _ \<Rightarrow> fme_ready a pd') \<and>
     (\<forall>b. b \<noteq> a \<longrightarrow> fme_free b pd' = fme_free b pd \<and> fme_ready b pd' = fme_ready b pd)"

lemma init_simple:
  assumes "a \<notin> {''global_error_ops'', ''pr_mgmt_ops'', ''global_iperf_ops'', ''global_dperf_ops''}" and "fme_free a pd"
  shows "init_step a r pd pd"
  using assms by (auto simp: init_step_def fme_free_def fme_ready_def split: sum.split)

text \<open>Private data that differs in the part of one sub-feature only.\<close>

definition agree :: "string \<Rightarrow> fpga_fme \<Rightarrow> fpga_fme \<Rightarrow> bool" where
  "agree a fme fme' \<longleftrightarrow> fme_self fme' = fme_self fme \<and>
     (a \<noteq> ''global_error_ops'' \<longrightarrow> fme_dev_err fme' = fme_dev_err fme) \<and>
     (a \<noteq> ''pr_mgmt_ops'' \<longrightarrow> fme_mgr fme' = fme_mgr fme) \<and>
     (a \<noteq> ''global_iperf_ops'' \<longrightarrow> fme_iperf_dev fme' = fme_iperf_dev fme) \<and>
     (a \<noteq> ''global_dperf_ops'' \<longrightarrow> fme_dperf_dev fme' = fme_dperf_dev fme)"

lemma agree_others:
  assumes "agree a (the_fme pd) fme" and "pd_private pd \<noteq> None" and "b \<noteq> a"
  shows "fme_free b (set_fme fme pd) = fme_free b pd \<and> fme_ready b (set_fme fme pd) = fme_ready b pd"
proof -
  have "b = ''global_error_ops'' \<Longrightarrow> fme_dev_err fme = fme_dev_err (the_fme pd)"
    "b = ''pr_mgmt_ops'' \<Longrightarrow> fme_mgr fme = fme_mgr (the_fme pd)"
    "b = ''global_iperf_ops'' \<Longrightarrow> fme_iperf_dev fme = fme_iperf_dev (the_fme pd)"
    "b = ''global_dperf_ops'' \<Longrightarrow> fme_dperf_dev fme = fme_dperf_dev (the_fme pd)"
    using assms(1,3) unfolding agree_def by blast+
  then show ?thesis unfolding fme_free_def fme_ready_def the_fme_set private_set using assms(2) by (simp cong: conj_cong imp_cong)
qed

lemma alive: "fme_free a pd \<Longrightarrow> pd_private pd \<noteq> None" "fme_ready a pd \<Longrightarrow> pd_private pd \<noteq> None"
  by (simp_all add: fme_free_def fme_ready_def)

lemma hold_alive:
  "pd_private pd \<noteq> None \<Longrightarrow> fme_hold q pd =
     of_bool (q = RMem (fme_self (the_fme pd))) + err_dev_hold q (fme_dev_err (the_fme pd)) +
     opt_hold q (fme_iperf_dev (the_fme pd)) + opt_hold q (fme_dperf_dev (the_fme pd)) +
     (case fme_mgr (the_fme pd) of None \<Rightarrow> 0
      | Some (s, i, st) \<Rightarrow> of_bool (q = RMem s) + of_bool (q = RId (-1) i) + of_bool (q = RDevice s))"
  unfolding fme_hold_def by (simp del: not_None_eq)

lemma init_step_set:
  assumes "agree a (the_fme pd) fme" and "pd_private pd \<noteq> None"
    and "case r of Inl _ \<Rightarrow> fme_free a (set_fme fme pd) | Inr _ \<Rightarrow> fme_ready a (set_fme fme pd)"
  shows "init_step a r pd (set_fme fme pd)"
  using assms agree_others by (simp add: init_step_def)

lemma init_step_fail: "fme_free a pd \<Longrightarrow> init_step a (Inl e) pd pd"
  by (simp add: init_step_def)

lemma own_part:
  "fme_free ''global_error_ops'' pd \<longleftrightarrow> pd_private pd \<noteq> None \<and> fme_dev_err (the_fme pd) = None"
  "fme_free ''pr_mgmt_ops'' pd \<longleftrightarrow> pd_private pd \<noteq> None \<and> fme_mgr (the_fme pd) = None"
  "fme_free ''global_iperf_ops'' pd \<longleftrightarrow> pd_private pd \<noteq> None \<and> fme_iperf_dev (the_fme pd) = None"
  "fme_free ''global_dperf_ops'' pd \<longleftrightarrow> pd_private pd \<noteq> None \<and> fme_dperf_dev (the_fme pd) = None"
  "fme_ready ''global_error_ops'' pd \<longleftrightarrow> pd_private pd \<noteq> None \<and> fme_dev_err (the_fme pd) \<noteq> None"
  "fme_ready ''pr_mgmt_ops'' pd \<longleftrightarrow> pd_private pd \<noteq> None \<and> fme_mgr (the_fme pd) \<noteq> None"
  "fme_ready ''global_iperf_ops'' pd \<longleftrightarrow> pd_private pd \<noteq> None \<and> fme_iperf_dev (the_fme pd) \<noteq> None"
  "fme_ready ''global_dperf_ops'' pd \<longleftrightarrow> pd_private pd \<noteq> None \<and> fme_dperf_dev (the_fme pd) \<noteq> None"
  by (simp_all add: fme_free_def fme_ready_def)

lemma init_error_step:
  assumes i: "global_error_init i pd w = (r, pd', w')" and f: "fme_free ''global_error_ops'' pd"
  shows "init_step ''global_error_ops'' r pd pd' \<and> fme_acct q pd' w' = fme_acct q pd w"
proof (cases r)
  case (Inl e)
  with adds_noneD [OF error_adds_none(1) [OF i], of q] error_init_balance [OF i, of q] f show ?thesis by (simp add: init_step_fail fme_acct_def)
next
  case (Inr u)
  with error_init_balance [OF i, of q] obtain dev cap
    where pd': "pd' = set_fme ((the_fme pd)\<lparr>fme_dev_err := Some dev, fme_capability := cap\<rparr>) pd"
      and b: "balance (w_trace w') q = balance (w_trace w) q + err_dev_hold q (Some dev)" by auto
  have "init_step ''global_error_ops'' r pd pd'"
    unfolding pd' by (rule init_step_set) (use f Inr in \<open>simp_all add: agree_def own_part\<close>)
  moreover have "fme_acct q pd' w' = fme_acct q pd w"
    unfolding pd' using f b adds_noneD [OF error_adds_none(1) [OF i], of q] by (simp add: own_part fme_acct_def hold_alive err_dev_hold_def del: not_None_eq)
  ultimately show ?thesis ..
qed

lemma init_iperf_step:
  assumes i: "fme_iperf_init dev i pd w = (r, pd', w')" and f: "fme_free ''global_iperf_ops'' pd"
  shows "init_step ''global_iperf_ops'' r pd pd' \<and> fme_acct q pd' w' = fme_acct q pd w"
proof (cases r)
  case (Inl e)
  with adds_noneD [OF perf_adds_none(1) [OF i], of q] iperf_init_balance [OF i, of q] f show ?thesis by (simp add: init_step_fail fme_acct_def)
next
  case (Inr u)
  with iperf_init_balance [OF i, of q] obtain obj
    where pd': "pd' = set_fme ((the_fme pd)\<lparr>fme_iperf_dev := Some obj\<rparr>) pd"
      and b: "balance (w_trace w') q = balance (w_trace w) q + perf_hold q obj" by auto
  have "init_step ''global_iperf_ops'' r pd pd'"
    unfolding pd' by (rule init_step_set) (use f Inr in \<open>simp_all add: agree_def own_part\<close>)
  moreover have "fme_acct q pd' w' = fme_acct q pd w"
    unfolding pd' using f b adds_noneD [OF perf_adds_none(1) [OF i], of q] by (simp add: own_part fme_acct_def hold_alive opt_hold_def del: not_None_eq)
  ultimately show ?thesis ..
qed

lemma init_dperf_step:
  assumes i: "fme_dperf_init dev i pd w = (r, pd', w')" and f: "fme_free ''global_dperf_ops'' pd"
  shows "init_step ''global_dperf_ops'' r pd pd' \<and> fme_acct q pd' w' = fme_acct q pd w"
proof (cases r)
  case (Inl e)
  with adds_noneD [OF perf_adds_none(2) [OF i], of q] dperf_init_balance [OF i, of q] f show ?thesis by (simp add: init_step_fail fme_acct_def)
next
  case (Inr u)
  with dperf_init_balance [OF i, of q] obtain obj
    where pd': "pd' = set_fme ((the_fme pd)\<lparr>fme_dperf_dev := Some obj\<rparr>) pd"
      and b: "balance (w_trace w') q = balance (w_trace w) q + perf_hold q obj" by auto
  have "init_step ''global_dperf_ops'' r pd pd'"
    unfolding pd' by (rule init_step_set) (use f Inr in \<open>simp_all add: agree_def own_part\<close>)
  moreover have "fme_acct q pd' w' = fme_acct q pd w"
    unfolding pd' using f b adds_noneD [OF perf_adds_none(2) [OF i], of q] by (simp add: own_part fme_acct_def hold_alive opt_hold_def del: not_None_eq)
  ultimately show ?thesis ..
qed

lemma init_pr_step:
  assumes i: "pr_mgmt_init i pd w = (r, pd', w')" and f: "fme_free ''pr_mgmt_ops'' pd"
  shows "init_step ''pr_mgmt_ops'' r pd pd' \<and> fme_acct q pd' w' = fme_acct q pd w"
proof -
  have m: "fme_mgr (the_fme pd) = None" using f by (simp add: own_part)
  obtain fme where same: "fme_self fme = fme_self (the_fme pd)" "fme_dev_err fme = fme_dev_err (the_fme pd)"
    "fme_iperf_dev fme = fme_iperf_dev (the_fme pd)" "fme_dperf_dev fme = fme_dperf_dev (the_fme pd)"
    and pd': "pd' = set_fme fme pd"
    and c: "case r of
       Inl _ \<Rightarrow> fme_mgr fme = None \<and> balance (w_trace w') q = balance (w_trace w) q
     | Inr _ \<Rightarrow> \<exists>s i st. fme_mgr fme = Some (s, i, st) \<and>
         balance (w_trace w') q = balance (w_trace w) q + of_bool (q = RMem s) + of_bool (q = RId (-1) i) +
           of_bool (q = RDevice s)"
    using pr_init_balance [OF i m, of q] by (elim exE conjE) (rule that; assumption)
  have "init_step ''pr_mgmt_ops'' r pd pd'"
    unfolding pd' by (rule init_step_set) (use f c same in \<open>auto simp: agree_def own_part split: sum.splits\<close>)
  moreover have "fme_acct q pd' w' = fme_acct q pd w"
    unfolding pd' using f c same adds_noneD [OF pr_adds_none(1) [OF i], of q] by (auto simp: own_part fme_acct_def hold_alive split: sum.splits del: not_None_eq)
  ultimately show ?thesis ..
qed

lemma fme_init_account:
  assumes i: "op_init (fme_ops dev a) i pd w = (r, pd', w')" and f: "fme_free a pd"
  shows "init_step a r pd pd'" "fme_acct q pd' w' = fme_acct q pd w"
proof -
  have "init_step a r pd pd' \<and> fme_acct q pd' w' = fme_acct q pd w"
  proof (cases "a \<in> {''global_error_ops'', ''pr_mgmt_ops'', ''global_iperf_ops'', ''global_dperf_ops''}")
    case True
    then consider "a = ''global_error_ops''" | "a = ''pr_mgmt_ops''" | "a = ''global_iperf_ops''" | "a = ''global_dperf_ops''"
      by blast
    then show ?thesis
    proof cases
      case 1 with i f init_error_step [of i pd w r pd' w' q] show ?thesis by (simp add: fme_ops_init)
    next
      case 2 with i f init_pr_step [of i pd w r pd' w' q] show ?thesis by (simp add: fme_ops_init)
    next
      case 3 with i f init_iperf_step [of dev i pd w r pd' w' q] show ?thesis by (simp add: fme_ops_init)
    next
      case 4 with i f init_dperf_step [of dev i pd w r pd' w' q] show ?thesis by (simp add: fme_ops_init)
    qed
  next
    case False
    show ?thesis
    proof (cases "flash_ops a")
      case True
      then have i': "qspi_flash_init i pd w = (r, pd', w')" using i by (auto simp: fme_ops_init flash_ops_def)
      with flash_same(1) [OF i'] flash_init_account [OF i', of q] init_simple [OF False f] True show ?thesis
        by (auto simp: fme_acct_def)
    next
      case nf: False
      then have "a \<in> {''fme_hdr_ops'', ''thermal_mgmt_ops'', ''power_mgmt_ops'', ''hssi_mgmt_ops''}"
        using False unfolding flash_ops_def insert_iff empty_iff by argo
      from simple_features [OF i this, of q] init_simple [OF False f] show ?thesis by (simp add: fme_acct_def adds_none_def)
    qed
  qed
  then show "init_step a r pd pd'" "fme_acct q pd' w' = fme_acct q pd w" by auto
qed

definition uinit_step :: "string \<Rightarrow> fme_pdata \<Rightarrow> fme_pdata \<Rightarrow> bool" where
  "uinit_step a pd pd' \<longleftrightarrow> fme_free a pd' \<and>
     (\<forall>b. b \<noteq> a \<longrightarrow> fme_free b pd' = fme_free b pd \<and> fme_ready b pd' = fme_ready b pd)"

lemma uinit_simple:
  assumes "a \<notin> {''global_error_ops'', ''pr_mgmt_ops'', ''global_iperf_ops'', ''global_dperf_ops''}" and "fme_ready a pd"
  shows "uinit_step a pd pd"
  using assms by (auto simp: uinit_step_def fme_free_def fme_ready_def)

lemma uinit_step_set:
  assumes "agree a (the_fme pd) fme" and "pd_private pd \<noteq> None" and "fme_free a (set_fme fme pd)"
  shows "uinit_step a pd (set_fme fme pd)"
  using assms agree_others by (simp add: uinit_step_def)

lemma uinit_error_step:
  assumes i: "global_error_uinit i pd w = (pd', w')" and f: "fme_ready ''global_error_ops'' pd"
  shows "uinit_step ''global_error_ops'' pd pd' \<and> fme_acct q pd' w' = fme_acct q pd w"
proof -
  obtain d where d: "fme_dev_err (the_fme pd) = Some d" using f by (auto simp: own_part)
  from error_uinit_balance [OF i d, of q]
  have pd': "pd' = set_fme ((the_fme pd)\<lparr>fme_dev_err := None\<rparr>) pd"
    and b: "balance (w_trace w') q = balance (w_trace w) q - err_dev_hold q (Some d)" by simp_all
  have "uinit_step ''global_error_ops'' pd pd'"
    unfolding pd' by (rule uinit_step_set) (use f in \<open>simp_all add: agree_def own_part\<close>)
  moreover have "fme_acct q pd' w' = fme_acct q pd w"
    unfolding pd' using f b d adds_noneD [OF error_adds_none(2) [OF i], of q] by (simp add: own_part fme_acct_def hold_alive err_dev_hold_def del: not_None_eq)
  ultimately show ?thesis ..
qed

lemma uinit_iperf_step:
  assumes i: "fme_iperf_uinit i pd w = (pd', w')" and f: "fme_ready ''global_iperf_ops'' pd"
  shows "uinit_step ''global_iperf_ops'' pd pd' \<and> fme_acct q pd' w' = fme_acct q pd w"
proof -
  have pd': "pd' = set_fme ((the_fme pd)\<lparr>fme_iperf_dev := None\<rparr>) pd"
    and w': "w' = destroy_perf_obj (the (fme_iperf_dev (the_fme pd))) w"
    using i by (simp_all add: fme_iperf_uinit_def)
  have "uinit_step ''global_iperf_ops'' pd pd'"
    unfolding pd' by (rule uinit_step_set) (use f in \<open>simp_all add: agree_def own_part\<close>)
  moreover have "fme_acct q pd' w' = fme_acct q pd w"
    unfolding pd' w' using f by (auto simp: own_part fme_acct_def hold_alive opt_hold_def destroy_balance adds_noneD [OF destroy_adds_none(1) [THEN iffD2, OF adds_none_refl]] del: not_None_eq)
  ultimately show ?thesis ..
qed

lemma uinit_dperf_step:
  assumes i: "fme_dperf_uinit i pd w = (pd', w')" and f: "fme_ready ''global_dperf_ops'' pd"
  shows "uinit_step ''global_dperf_ops'' pd pd' \<and> fme_acct q pd' w' = fme_acct q pd w"
proof -
  have pd': "pd' = set_fme ((the_fme pd)\<lparr>fme_dperf_dev := None\<rparr>) pd"
    and w': "w' = destroy_perf_obj (the (fme_dperf_dev (the_fme pd))) w"
    using i by (simp_all add: fme_dperf_uinit_def)
  have "uinit_step ''global_dperf_ops'' pd pd'"
    unfolding pd' by (rule uinit_step_set) (use f in \<open>simp_all add: agree_def own_part\<close>)
  moreover have "fme_acct q pd' w' = fme_acct q pd w"
    unfolding pd' w' using f by (auto simp: own_part fme_acct_def hold_alive opt_hold_def destroy_balance adds_noneD [OF destroy_adds_none(1) [THEN iffD2, OF adds_none_refl]] del: not_None_eq)
  ultimately show ?thesis ..
qed

lemma uinit_pr_step:
  assumes i: "pr_mgmt_uinit i pd w = (pd', w')" and f: "fme_ready ''pr_mgmt_ops'' pd"
  shows "uinit_step ''pr_mgmt_ops'' pd pd' \<and> fme_acct q pd' w' = fme_acct q pd w"
proof -
  obtain s n st where m: "fme_mgr (the_fme pd) = Some (s, n, st)" using f by (auto simp: own_part)
  have u: "fpga_fme_pr_remove pd (kvoid Sysfs_remove [] w) = (pd', w')" using i by (simp add: pr_mgmt_uinit_def)
  from pr_remove_balance [OF u m, of q] sysfs_balance(2) [of "[]" w q]
  have pd': "pd' = set_fme ((the_fme pd)\<lparr>fme_mgr := None\<rparr>) pd"
    and b: "balance (w_trace w') q = balance (w_trace w) q - of_bool (q = RMem s) - of_bool (q = RId (-1) n) -
      of_bool (q = RDevice s)" by simp_all
  have "uinit_step ''pr_mgmt_ops'' pd pd'"
    unfolding pd' by (rule uinit_step_set) (use f in \<open>simp_all add: agree_def own_part\<close>)
  moreover have "fme_acct q pd' w' = fme_acct q pd w"
    unfolding pd' using f b m adds_noneD [OF pr_adds_none(2) [OF i], of q] by (simp add: own_part fme_acct_def hold_alive del: not_None_eq)
  ultimately show ?thesis ..
qed

lemma fme_uinit_account:
  assumes i: "op_uinit (fme_ops dev a) i pd w = (pd', w')" and f: "fme_ready a pd"
  shows "uinit_step a pd pd'" "fme_acct q pd' w' = fme_acct q pd w"
proof -
  have "uinit_step a pd pd' \<and> fme_acct q pd' w' = fme_acct q pd w"
  proof (cases "a \<in> {''global_error_ops'', ''pr_mgmt_ops'', ''global_iperf_ops'', ''global_dperf_ops''}")
    case True
    then consider "a = ''global_error_ops''" | "a = ''pr_mgmt_ops''" | "a = ''global_iperf_ops''" | "a = ''global_dperf_ops''"
      by blast
    then show ?thesis
    proof cases
      case 1 with i f uinit_error_step [of i pd w pd' w' q] show ?thesis by (simp add: fme_ops_init)
    next
      case 2 with i f uinit_pr_step [of i pd w pd' w' q] show ?thesis by (simp add: fme_ops_init)
    next
      case 3 with i f uinit_iperf_step [of i pd w pd' w' q] show ?thesis by (simp add: fme_ops_init)
    next
      case 4 with i f uinit_dperf_step [of i pd w pd' w' q] show ?thesis by (simp add: fme_ops_init)
    qed
  next
    case False
    show ?thesis
    proof (cases "flash_ops a")
      case True
      then have i': "qspi_flash_uinit i pd w = (pd', w')" using i by (auto simp: fme_ops_init flash_ops_def)
      with flash_same(2) [OF i'] flash_uinit_account(1) [OF i', of q]
        adds_noneD [OF flash_uinit_account(2) [OF i'], of q] uinit_simple [OF False f] True show ?thesis
        by (auto simp: fme_acct_def)
    next
      case nf: False
      then have "a \<in> {''fme_hdr_ops'', ''thermal_mgmt_ops'', ''power_mgmt_ops'', ''hssi_mgmt_ops''}"
        using False unfolding flash_ops_def insert_iff empty_iff by argo
      from simple_uinit [OF i this, of q] uinit_simple [OF False f] show ?thesis by (simp add: fme_acct_def adds_none_def)
    qed
  qed
  then show "uinit_step a pd pd'" "fme_acct q pd' w' = fme_acct q pd w" by auto
qed

lemma fme_tables:
  "op_init (fme_ops dev a) i pd w = (r, pd', w') \<Longrightarrow> same_table pd pd'"
  "op_uinit (fme_ops dev a) i pd w = (pd', w') \<Longrightarrow> same_table pd pd'"
proof -
  have e: "global_error_init i pd w = (r, pd', w') \<Longrightarrow> same_table pd pd'"
    using error_init_balance [of i pd w r pd' w' RModule] by (auto split: sum.splits)
  have p1: "fpga_fme_pr_probe pd w = (r, pd', w') \<Longrightarrow> same_table pd pd'" for pd w r pd' w'
    using pr_probe_balance [of pd w r pd' w' RModule] by (cases r) auto
  have p2: "fpga_fme_pr_remove pd w = (pd', w') \<Longrightarrow> same_table pd pd'" for pd w pd' w'
    by (auto simp: fpga_fme_pr_remove_def split: prod.splits)
  have p: "pr_mgmt_init i pd w = (r, pd', w') \<Longrightarrow> same_table pd pd'"
    by (auto simp: pr_mgmt_init_def split: prod.splits sum.splits dest!: p1 p2 intro: same_table_trans)
  have f: "fme_iperf_init dev i pd w = (r, pd', w') \<Longrightarrow> same_table pd pd'"
    "fme_dperf_init dev i pd w = (r, pd', w') \<Longrightarrow> same_table pd pd'"
    using iperf_init_balance [of dev i pd w r pd' w' RModule] dperf_init_balance [of dev i pd w r pd' w' RModule]
    by (auto split: sum.splits)
  assume "op_init (fme_ops dev a) i pd w = (r, pd', w')"
  with e p f flash_same(1) [of i pd w r pd' w'] show "same_table pd pd'"
    by (auto simp: fme_ops_init fme_hdr_init_def thermal_mgmt_init_def power_mgmt_init_def hssi_mgmt_init_def
        split: if_splits prod.splits)
next
  have p2: "fpga_fme_pr_remove pd w = (pd', w') \<Longrightarrow> same_table pd pd'" for pd w pd' w'
    by (auto simp: fpga_fme_pr_remove_def split: prod.splits)
  assume "op_uinit (fme_ops dev a) i pd w = (pd', w')"
  with p2 flash_same(2) [of i pd w pd' w'] show "same_table pd pd'"
    by (auto simp: fme_ops_init fme_hdr_uinit_def thermal_mgmt_uinit_def power_mgmt_uinit_def hssi_mgmt_uinit_def
        pr_mgmt_uinit_def global_error_uinit_def fme_iperf_uinit_def fme_dperf_uinit_def Let_def
        split: if_splits prod.splits option.splits)
qed

lemma set_ops_fme:
  "fme_acct q (set_feature_ops i a pd) w = fme_acct q pd w"
  "fme_free b (set_feature_ops i a pd) = fme_free b pd" "fme_ready b (set_feature_ops i a pd) = fme_ready b pd"
  by (simp_all add: fme_acct_def fme_hold_def fme_free_def fme_ready_def set_feature_ops_def the_fme_def fpga_pdata_get_private_def)

interpretation fme_features: feature_ops_account "fme_ops dev" "fme_acct q" fme_free fme_ready "\<lambda>_. True" for dev q
proof unfold_locales
  show "same_table pd pd'" if "op_init (fme_ops dev ops) i pd w = (r, pd', w')" for ops i pd w r pd' w'
    by (rule fme_tables(1) [OF that])
  show "same_table pd pd'" if "op_uinit (fme_ops dev ops) i pd w = (pd', w')" for ops i pd w pd' w'
    by (rule fme_tables(2) [OF that])
qed (use fme_init_account fme_uinit_account in
    \<open>auto simp: fme_ops_init(3) init_step_def uinit_step_def set_ops_fme split: sum.splits\<close>)


text \<open>The account is about all sub-features of the FME.\<close>

lemma fme_covered:
  assumes "names_apart pd"
  shows "fme_features.covered fme_feature_drvs pd"
  using assms by (simp add: fme_features.covered_def fme_feature_drvs_def)

text \<open>Removing the sub-features adds no device.\<close>

lemma uinit_adds_none:
  assumes "op_uinit (fme_ops dev a) i pd w = (pd', w')"
  shows "adds_none w w'"
proof -
  have "fme_hdr_uinit i pd w = (pd', w') \<Longrightarrow> adds_none w w'" "thermal_mgmt_uinit i pd w = (pd', w') \<Longrightarrow> adds_none w w'"
    "power_mgmt_uinit i pd w = (pd', w') \<Longrightarrow> adds_none w w'" "hssi_mgmt_uinit i pd w = (pd', w') \<Longrightarrow> adds_none w w'"
    "fme_iperf_uinit i pd w = (pd', w') \<Longrightarrow> adds_none w w'" "fme_dperf_uinit i pd w = (pd', w') \<Longrightarrow> adds_none w w'"
    by (auto simp: fme_hdr_uinit_def thermal_mgmt_uinit_def power_mgmt_uinit_def hssi_mgmt_uinit_def
        fme_iperf_uinit_def fme_dperf_uinit_def)
  note this error_adds_none(2) [of i pd w pd' w'] pr_adds_none(2) [of i pd w pd' w'] flash_uinit_account(2) [of i pd w pd' w']
  then show ?thesis using assms unfolding fme_ops_init by (simp split: if_splits)
qed

lemma uinits_add_none: "uinit_features (fme_ops dev) is pd w = (pd', w') \<Longrightarrow> adds_none w0 w \<Longrightarrow> adds_none w0 w'"
  by (induction "is" arbitrary: pd w)
    (auto split: option.splits prod.splits dest!: uinit_adds_none intro: adds_none_trans)

text \<open>Initialisation and destruction of the private data.\<close>

lemma fme_dev_init_account:
  assumes "fme_dev_init pd w = (r, pd1, w1)" and "pd_private pd = None"
  shows "same_table pd pd1 \<and>
    (case r of
       Inl _ \<Rightarrow> pd1 = pd \<and> balance (w_trace w1) q = balance (w_trace w) q \<and> adds_none w w1
     | Inr _ \<Rightarrow> (\<forall>a. fme_free a pd1) \<and> fme_acct q pd1 w1 = balance (w_trace w) q - added_devices (w_trace w) q)"
proof -
  obtain v w2 where k: "kvalue Kzalloc [] w = (v, w2)" by (metis surj_pair)
  have b: "balance (w_trace w2) q = balance (w_trace w) q + (case v of Inl _ \<Rightarrow> 0 | Inr a \<Rightarrow> of_bool (q = RMem a))"
    using k by (auto simp: kvalue_def kcall_def Let_def split: sum.splits)
  show ?thesis
  proof (cases v)
    case (Inl e)
    with assms k b adds_none_results(1) [OF k, of w] show ?thesis by (auto simp: fme_dev_init_def)
  next
    case (Inr self)
    then have "r = Inr ()" "pd1 = set_fme (zero_fme\<lparr>fme_self := self\<rparr>) pd" "w1 = w2"
      using assms(1) k by (auto simp: fme_dev_init_def set_fme_def)
    with b Inr adds_none_results(1) [OF k, of w] show ?thesis
      by (simp add: fme_free_def fme_acct_def hold_alive zero_fme_def err_dev_hold_def opt_hold_def adds_none_def)
  qed
qed

lemma bound_all_free:
  assumes "fme_features.bound fme_feature_drvs pd" and "\<forall>j < pd_num pd. ops_of pd j = None"
  shows "fme_hold q pd = of_bool (q = RMem (fme_self (the_fme pd))) \<and> pd_private pd \<noteq> None"
proof -
  have free: "fme_free a pd" if "(n, a) \<in> set fme_feature_drvs" for n a
    using fme_features.boundD(2) [OF assms(1) that] assms(2) by blast
  have "fme_free ''global_error_ops'' pd" "fme_free ''pr_mgmt_ops'' pd" "fme_free ''global_iperf_ops'' pd"
    "fme_free ''global_dperf_ops'' pd"
    using free [of "''fme_error''" "''global_error_ops''"] free [of "''fme_pr''" "''pr_mgmt_ops''"]
      free [of "''fme_iperf''" "''global_iperf_ops''"] free [of "''fme_dperf''" "''global_dperf_ops''"]
    by (simp_all add: fme_feature_drvs_def)
  then show ?thesis by (simp add: own_part hold_alive err_dev_hold_def opt_hold_def del: not_None_eq)
qed

lemma fme_dev_destroy_account:
  assumes d: "fme_dev_destroy pd w = (pd', w')" and b: "fme_features.bound fme_feature_drvs pd"
    and o: "\<forall>j < pd_num pd. ops_of pd j = None"
  shows "balance (w_trace w') q = fme_acct q pd w + added_devices (w_trace w) q \<and>
    added_devices (w_trace w') q = added_devices (w_trace w) q \<and> pd_private pd' = None \<and> (\<forall>j < pd_num pd. ops_of pd' j = None)"
  using d bound_all_free [OF b o, of q] o
  by (auto simp: fme_dev_destroy_def fpga_pdata_set_private_def ops_of_def kvoid_def ret_val_def fme_acct_def)

text \<open>What ends the life of an FME, on the error path and on removal: its sub-features and its data go.\<close>

lemma fme_undo_account:
  assumes u: "fpga_dev_feature_uinit (fme_ops dev) pd w = (pd', w')"
    and d: "fme_dev_destroy pd' w1 = (pd2, w2)"
    and same: "balance (w_trace w1) q = balance (w_trace w') q" "adds_none w' w1"
    and held: "fme_features.covered fme_feature_drvs pd" "fme_features.bound fme_feature_drvs pd"
  shows "balance (w_trace w2) q = balance (w_trace w) q - fme_hold q pd \<and> pd_private pd2 = None \<and>
    (\<forall>j < pd_num pd. ops_of pd2 j = None)"
proof -
  note ua = fme_features.feature_uinit_account [OF u held]
  then have "pd_num pd' = pd_num pd" using held by (auto simp: same_names_def)
  moreover have "fme_acct q pd' w1 = fme_acct q pd' w'" using same by (simp add: fme_acct_def adds_none_def)
  moreover have "added_devices (w_trace w1) q = added_devices (w_trace w) q"
    using adds_none_trans [OF _ same(2), of w] uinits_add_none [OF u [unfolded fpga_dev_feature_uinit_def]]
    by (simp add: adds_none_def)
  ultimately show ?thesis
    using fme_dev_destroy_account [OF d, of q] ua by (simp add: fme_acct_def)
qed

lemma fme_remove_account:
  assumes "fme_remove dev devt pd w = (pd', w')"
    and "fme_features.covered fme_feature_drvs pd" "fme_features.bound fme_feature_drvs pd"
  shows "balance (w_trace w') q = balance (w_trace w) q - fme_hold q pd \<and> pd_private pd' = None \<and>
    (\<forall>j < pd_num pd. ops_of pd' j = None)"
proof -
  obtain pd3 w3 where u: "fpga_dev_feature_uinit (fme_ops dev) pd w = (pd3, w3)" by (metis surj_pair)
  with assms(1) have "fme_dev_destroy pd3 (fpga_unregister_dev_ops devt w3) = (pd', w')"
    by (simp add: fme_remove_def)
  then show ?thesis
    by (rule fme_undo_account [OF u _ _ _ assms(2,3)]) (simp_all add: fpga_unregister_dev_ops_def, simp add: kvoid_def)
qed

text \<open>Initialising the sub-features after the data of the FME.\<close>

lemma fme_features_account:
  assumes i: "fme_dev_init pd w = (Inr u, pda, wa)"
    and f: "fpga_dev_feature_init (fme_ops dev) fme_feature_drvs pda wa = (r, pdb, wb)"
    and fresh: "pd_private pd = None" "\<forall>j < pd_num pd. ops_of pd j = None" and apart: "names_apart pd"
  shows "fme_acct q pdb wb = balance (w_trace w) q - added_devices (w_trace w) q" "fme_features.covered fme_feature_drvs pdb"
    "fme_features.bound fme_feature_drvs pdb" "pd_num pdb = pd_num pd"
    "\<forall>j < pd_num pd. ops_of pdb j =
       (case r of Inl _ \<Rightarrow> None | Inr _ \<Rightarrow> Option.bind (name_of pd j) (map_of fme_feature_drvs))"
proof -
  note ia = fme_dev_init_account [OF i fresh(1), of q]
  have names: "same_names pd pda" and num: "pd_num pd = length (pd_features pd)"
    using ia apart by (auto simp: same_table_names names_apart_num)
  then have numa: "pd_num pda = pd_num pd" "pd_num pda = length (pd_features pda)"
    and opsa: "\<forall>j < pd_num pda. ops_of pda j = None"
    using fresh(2) ia same_table_ops [of pd pda] by (auto simp: same_names_def)
  have cova: "fme_features.covered fme_feature_drvs pda"
    by (rule fme_features.covered_same [OF names fme_covered [OF apart]])
  have fa: "fme_acct q pdb wb = fme_acct q pda wa \<and> fme_features.covered fme_feature_drvs pdb \<and>
      fme_features.bound fme_feature_drvs pdb \<and> same_names pda pdb \<and>
      (r \<noteq> Inr () \<longrightarrow> (\<forall>j < pd_num pda. ops_of pdb j = None))"
    by (rule fme_features.feature_init_account [OF f cova _ opsa]) (use ia in simp)
  then show "fme_acct q pdb wb = balance (w_trace w) q - added_devices (w_trace w) q" "fme_features.covered fme_feature_drvs pdb"
    "fme_features.bound fme_feature_drvs pdb" "pd_num pdb = pd_num pd"
    using ia numa by (simp_all add: same_names_def)
  show "\<forall>j < pd_num pd. ops_of pdb j =
       (case r of Inl _ \<Rightarrow> None | Inr _ \<Rightarrow> Option.bind (name_of pd j) (map_of fme_feature_drvs))"
  proof (cases r)
    case (Inl e)
    with fa numa show ?thesis by simp
  next
    case (Inr v)
    have "\<forall>j < pd_num pda. ops_of pdb j = (case name_of pda j of None \<Rightarrow> ops_of pda j
       | Some n \<Rightarrow> (case map_of fme_feature_drvs n of None \<Rightarrow> ops_of pda j | Some ops \<Rightarrow> Some ops))"
      using fme_features.feature_init_contract [OF f numa(2)] Inr cova by (simp add: fme_features.covered_def)
    with names num opsa numa Inr show ?thesis by (auto simp: same_names_def split: option.splits)
  qed
qed

text \<open>
  C4. The life of an FME. A probe that fails leaves no sub-feature bound and gives back everything it
  took: memory, ids, the error device, the FPGA manager, the trees of performance counters, and all
  references to devices but one for each flash device it added. After a probe that succeeds,
  exactly the sub-features with a driver are bound, and the FME holds what its private data says, and
  these references. A removal gives back exactly what the private data says: the reference
  to a flash device is never given back. The names of the sub-features of a device differ, as they do in
  the driver's tables, and the device is a new one.
\<close>

theorem fme_probe_remove_account:
  assumes run: "fme_probe dev devt pd w = (r, pd1, w1)"
    and fresh: "pd_private pd = None" "\<forall>j < pd_num pd. ops_of pd j = None" and apart: "names_apart pd"
  shows "case r of
      Inl _ \<Rightarrow> balance (w_trace w1) q - balance (w_trace w) q =
          added_devices (w_trace w1) q - added_devices (w_trace w) q \<and> pd_private pd1 = None \<and>
        (\<forall>j < pd_num pd. ops_of pd1 j = None)
    | Inr _ \<Rightarrow> balance (w_trace w1) q - balance (w_trace w) q =
          fme_hold q pd1 + (added_devices (w_trace w1) q - added_devices (w_trace w) q) \<and>
        (\<forall>j < pd_num pd. ops_of pd1 j = Option.bind (name_of pd j) (map_of fme_feature_drvs)) \<and>
        (\<forall>w2. case fme_remove dev devt pd1 w2 of (pd3, w3) \<Rightarrow>
           balance (w_trace w3) q = balance (w_trace w2) q - fme_hold q pd1 \<and> pd_private pd3 = None \<and>
           (\<forall>j < pd_num pd. ops_of pd3 j = None))"
proof -
  obtain r1 pda wa where i: "fme_dev_init pd w = (r1, pda, wa)" by (metis surj_pair)
  show ?thesis
  proof (cases r1)
    case (Inl e)
    with run i fme_dev_init_account [OF i fresh(1), of q] fresh show ?thesis by (auto simp: fme_probe_def adds_none_def)
  next
    case r1: (Inr u)
    obtain r2 pdb wb where f: "fpga_dev_feature_init (fme_ops dev) fme_feature_drvs pda wa = (r2, pdb, wb)"
      by (metis surj_pair)
    note fa = fme_features_account [OF i [unfolded r1] f fresh apart]
    show ?thesis
    proof (cases r2)
      case (Inl e)
      obtain pdc wc where d: "fme_dev_destroy pdb wb = (pdc, wc)" by (metis surj_pair)
      have "r = Inl e" "pd1 = pdc" "w1 = wc" using run i r1 f Inl d by (auto simp: fme_probe_def)
      with fme_dev_destroy_account [OF d fa(3), of q] fa Inl show ?thesis by simp
    next
      case r2: (Inr v)
      obtain r3 wc where g: "fpga_register_dev_ops devt wb = (r3, wc)" by (metis surj_pair)
      have ac: "added_devices (w_trace wc) q = added_devices (w_trace wb) q"
        using adds_none_results(2) [OF g [unfolded fpga_register_dev_ops_def], of wb] by (simp add: adds_none_def)
      have bc: "balance (w_trace wc) q - balance (w_trace w) q =
          fme_hold q pdb + (added_devices (w_trace wc) q - added_devices (w_trace w) q)"
        using g fa(1) [of q] ac by (auto simp: fpga_register_dev_ops_def kstatus_def kcall_def fme_acct_def Let_def split: sum.splits)
      show ?thesis
      proof (cases r3)
        case (Inl e)
        obtain pd3 w3 where u: "fpga_dev_feature_uinit (fme_ops dev) pdb wc = (pd3, w3)" by (metis surj_pair)
        obtain pd4 w4 where d: "fme_dev_destroy pd3 w3 = (pd4, w4)" by (metis surj_pair)
        have "r = Inl e" "pd1 = pd4" "w1 = w4" using run i r1 f r2 g Inl u d by (auto simp: fme_probe_def)
        moreover have "added_devices (w_trace w4) q = added_devices (w_trace wc) q"
          using uinits_add_none [OF u [unfolded fpga_dev_feature_uinit_def] adds_none_refl] d
          by (auto simp: fme_dev_destroy_def adds_none_def kvoid_def)
        ultimately show ?thesis using fme_undo_account [OF u d refl _ fa(2,3), of q] bc fa(4) by simp
      next
        case (Inr v')
        have out: "r = Inr ()" "pd1 = pdb" "w1 = wc" using run i r1 f r2 g Inr by (auto simp: fme_probe_def)
        have "case fme_remove dev devt pdb w2 of (pd3, w3) \<Rightarrow>
           balance (w_trace w3) q = balance (w_trace w2) q - fme_hold q pdb \<and> pd_private pd3 = None \<and>
           (\<forall>j < pd_num pd. ops_of pd3 j = None)" for w2
          using fme_remove_account [OF _ fa(2,3), of dev devt w2] fa(4) by (cases "fme_remove dev devt pdb w2") simp
        then show ?thesis using bc fa(5) r2 by (simp add: out)
      qed
    qed
  qed
qed

text \<open>An FME with its header, the error, the reconfiguration and the flash sub-feature enumerated.\<close>

definition enumerated_fme :: fme_pdata where
  "enumerated_fme = empty_pdata
     \<lparr>pd_num := 7, pd_features := map (\<lambda>n. zero_feature\<lparr>f_name := n\<rparr>)
        [Some ''fme_hdr'', None, None, None, Some ''fme_error'', Some ''fme_pr'', Some ''fme_qspi_flash'']\<rparr>"

lemma enumerated_fresh:
  "pd_private enumerated_fme = None" "\<forall>j < pd_num enumerated_fme. ops_of enumerated_fme j = None"
  "names_apart enumerated_fme"
  by (simp_all add: enumerated_fme_def empty_pdata_def ops_of_def zero_feature_def names_apart_def name_of_def
      less_Suc_eq numeral_eq_Suc)

lemma enumerated_probe:
  "case fme_probe 1 0 enumerated_fme (quiet_world (\<lambda>_. 0)) of (r, pd1, w1) \<Rightarrow>
     r = Inr () \<and> added_devices (w_trace w1) (RDevice 0) = 1"
  by (simp add: fme_probe_def fme_dev_init_def fpga_dev_feature_init_def fme_feature_drvs_def enumerated_fme_def
   empty_pdata_def zero_feature_def kvalue_def kcall_def kstatus_def quiet_world_def Let_def fpga_pdata_set_private_def
   feature_instance_init_def fme_ops_def fme_hdr_init_def global_error_init_def fme_error_enable_def
   kvoid_def writeq_def readq_def readl_def pr_mgmt_init_def fpga_fme_pr_probe_def fpga_mgr_register_def mops_complete_def
   fme_pr_ops_def mgr_name_def set_feature_ops_def fpga_register_dev_ops_def upt_rec numeral_eq_Suc set_fme_def the_fme_def
   fpga_pdata_get_private_def name_of_def set_mgr_def ret_val_def qspi_flash_init_def adds_device_def)

text \<open>One reference to the flash device is left after the removal.\<close>

theorem fme_probe_remove_account_witness:
  "case fme_probe 1 0 enumerated_fme (quiet_world (\<lambda>_. 0)) of (r, pd1, w1) \<Rightarrow>
     r = Inr () \<and> ops_of pd1 5 = Some ''pr_mgmt_ops'' \<and> ops_of pd1 6 = Some ''qspi_flash_ops'' \<and>
     balance (w_trace (snd (fme_remove 1 0 pd1 w1))) (RDevice 0) = 1"
proof -
  obtain r pd1 w1 where run: "fme_probe 1 0 enumerated_fme (quiet_world (\<lambda>_. 0)) = (r, pd1, w1)" by (metis surj_pair)
  obtain pd3 w3 where rm: "fme_remove 1 0 pd1 w1 = (pd3, w3)" by (metis surj_pair)
  have r: "r = Inr ()" and one: "added_devices (w_trace w1) (RDevice 0) = 1" using enumerated_probe run by simp_all
  have num: "6 < pd_num enumerated_fme" "5 < pd_num enumerated_fme" "name_of enumerated_fme 5 = Some ''fme_pr''"
    "name_of enumerated_fme 6 = Some ''fme_qspi_flash''"
    by (simp_all add: enumerated_fme_def name_of_def)
  have "balance (w_trace w1) (RDevice 0) = fme_hold (RDevice 0) pd1 + 1"
    "ops_of pd1 5 = Option.bind (name_of enumerated_fme 5) (map_of fme_feature_drvs)"
    "ops_of pd1 6 = Option.bind (name_of enumerated_fme 6) (map_of fme_feature_drvs)"
    "balance (w_trace w3) (RDevice 0) = balance (w_trace w1) (RDevice 0) - fme_hold (RDevice 0) pd1"
    using fme_probe_remove_account [OF run enumerated_fresh, of "RDevice 0"] num(1,2) rm one unfolding r
    by (simp_all add: quiet_world_def split: prod.splits)
  then show ?thesis using run rm r num by (simp add: fme_feature_drvs_def)
qed

end
