(* ===== verification/Spi_Nor.thy ===== *)
theory Spi_Nor
  imports Driver_Prelude
begin

text \<open>
  The data of the SPI NOR framework (\<^verbatim>\<open>include/linux/mtd/spi-nor-mod.h\<close>) and the basic operations of
  \<^verbatim>\<open>drivers/mtd/spi-nor/spi-nor.c\<close>: the registers of a chip, waiting for it, erasing, reading and
  writing.

  A controller driver gives the framework a table of functions on its state \<open>'s\<close>. Each of them, and
  each operation built on them, may fail, and may not return at all: its result is \<open>None\<close> then. The
  operations are chained the way the code goes on: \<open>nor_chain\<close> stops at an error, \<open>nor_catch\<close> goes on
  with the result whatever it is. A buffer that a function fills is part of its result, and the byte
  count that goes with a buffer is its length.
\<close>

subsection \<open>Steps that may fail or not return\<close>

type_synonym ('a, 's) nor_m = "'s \<Rightarrow> ('a res \<times> 's) option"

definition nor_ok :: "'a \<Rightarrow> ('a, 's) nor_m" where
  "nor_ok a s = Some (Inr a, s)"

definition nor_fail :: "errno \<Rightarrow> ('a, 's) nor_m" where
  "nor_fail e s = Some (Inl e, s)"

definition nor_catch :: "('a, 's) nor_m \<Rightarrow> ('a res \<Rightarrow> ('b, 's) nor_m) \<Rightarrow> ('b, 's) nor_m" where
  "nor_catch m f s = (case m s of None \<Rightarrow> None | Some (r, s1) \<Rightarrow> f r s1)"

definition nor_chain :: "('a, 's) nor_m \<Rightarrow> ('a \<Rightarrow> ('b, 's) nor_m) \<Rightarrow> ('b, 's) nor_m" where
  "nor_chain m f = nor_catch m (\<lambda>r. case r of Inl e \<Rightarrow> nor_fail e | Inr a \<Rightarrow> f a)"

lemma nor_okD [simp]: "nor_ok a s = Some (r, s') \<longleftrightarrow> r = Inr a \<and> s' = s"
  by (auto simp: nor_ok_def)

lemma nor_failD [simp]: "nor_fail e s = Some (r, s') \<longleftrightarrow> r = Inl e \<and> s' = s"
  by (auto simp: nor_fail_def)

lemma nor_catchE:
  assumes "nor_catch m f s = Some (r, s')"
  obtains r1 s1 where "m s = Some (r1, s1)" and "f r1 s1 = Some (r, s')"
  using assms by (auto simp: nor_catch_def split: option.splits)

lemma nor_chainE:
  assumes "nor_chain m f s = Some (r, s')"
  obtains (err) e where "m s = Some (Inl e, s')" and "r = Inl e"
    | (go) a s1 where "m s = Some (Inr a, s1)" and "f a s1 = Some (r, s')"
  using assms by (auto simp: nor_chain_def nor_catch_def split: option.splits sum.splits)

subsection \<open>Data\<close>

datatype read_mode = SPI_NOR_NORMAL | SPI_NOR_FAST | SPI_NOR_DUAL | SPI_NOR_QUAD

datatype spi_nor_ops = SPI_NOR_OPS_READ | SPI_NOR_OPS_WRITE | SPI_NOR_OPS_ERASE | SPI_NOR_OPS_LOCK | SPI_NOR_OPS_UNLOCK

definition SNOR_F_USE_FSR :: u32 where "SNOR_F_USE_FSR = 1"
definition SNOR_F_HAS_SR_TB :: u32 where "SNOR_F_HAS_SR_TB = 2"
definition SNOR_F_NO_OP_CHIP_ERASE :: u32 where "SNOR_F_NO_OP_CHIP_ERASE = 4"
definition SNOR_F_S3AN_ADDR_DEFAULT :: u32 where "SNOR_F_S3AN_ADDR_DEFAULT = 8"
definition SNOR_F_READY_XSR_RDY :: u32 where "SNOR_F_READY_XSR_RDY = 16"

definition SPINOR_OP_WREN :: u8 where "SPINOR_OP_WREN = 0x06"
definition SPINOR_OP_RDSR :: u8 where "SPINOR_OP_RDSR = 0x05"
definition SPINOR_OP_WRSR :: u8 where "SPINOR_OP_WRSR = 0x01"
definition SPINOR_OP_READ :: u8 where "SPINOR_OP_READ = 0x03"
definition SPINOR_OP_READ_FAST :: u8 where "SPINOR_OP_READ_FAST = 0x0b"
definition SPINOR_OP_READ_1_1_2 :: u8 where "SPINOR_OP_READ_1_1_2 = 0x3b"
definition SPINOR_OP_READ_1_2_2 :: u8 where "SPINOR_OP_READ_1_2_2 = 0xbb"
definition SPINOR_OP_READ_1_1_4 :: u8 where "SPINOR_OP_READ_1_1_4 = 0x6b"
definition SPINOR_OP_READ_1_4_4 :: u8 where "SPINOR_OP_READ_1_4_4 = 0xeb"
definition SPINOR_OP_PP :: u8 where "SPINOR_OP_PP = 0x02"
definition SPINOR_OP_PP_1_1_4 :: u8 where "SPINOR_OP_PP_1_1_4 = 0x32"
definition SPINOR_OP_PP_1_4_4 :: u8 where "SPINOR_OP_PP_1_4_4 = 0x38"
definition SPINOR_OP_BE_4K :: u8 where "SPINOR_OP_BE_4K = 0x20"
definition SPINOR_OP_BE_4K_PMC :: u8 where "SPINOR_OP_BE_4K_PMC = 0xd7"
definition SPINOR_OP_BE_32K :: u8 where "SPINOR_OP_BE_32K = 0x52"
definition SPINOR_OP_CHIP_ERASE :: u8 where "SPINOR_OP_CHIP_ERASE = 0xc7"
definition SPINOR_OP_SE :: u8 where "SPINOR_OP_SE = 0xd8"
definition SPINOR_OP_RDID :: u8 where "SPINOR_OP_RDID = 0x9f"
definition SPINOR_OP_RDCR :: u8 where "SPINOR_OP_RDCR = 0x35"
definition SPINOR_OP_RDFSR :: u8 where "SPINOR_OP_RDFSR = 0x70"
definition SPINOR_OP_READ_4B :: u8 where "SPINOR_OP_READ_4B = 0x13"
definition SPINOR_OP_READ_FAST_4B :: u8 where "SPINOR_OP_READ_FAST_4B = 0x0c"
definition SPINOR_OP_READ_1_1_2_4B :: u8 where "SPINOR_OP_READ_1_1_2_4B = 0x3c"
definition SPINOR_OP_READ_1_2_2_4B :: u8 where "SPINOR_OP_READ_1_2_2_4B = 0xbc"
definition SPINOR_OP_READ_1_1_4_4B :: u8 where "SPINOR_OP_READ_1_1_4_4B = 0x6c"
definition SPINOR_OP_READ_1_4_4_4B :: u8 where "SPINOR_OP_READ_1_4_4_4B = 0xec"
definition SPINOR_OP_PP_4B :: u8 where "SPINOR_OP_PP_4B = 0x12"
definition SPINOR_OP_PP_1_1_4_4B :: u8 where "SPINOR_OP_PP_1_1_4_4B = 0x34"
definition SPINOR_OP_PP_1_4_4_4B :: u8 where "SPINOR_OP_PP_1_4_4_4B = 0x3e"
definition SPINOR_OP_BE_4K_4B :: u8 where "SPINOR_OP_BE_4K_4B = 0x21"
definition SPINOR_OP_BE_32K_4B :: u8 where "SPINOR_OP_BE_32K_4B = 0x5c"
definition SPINOR_OP_SE_4B :: u8 where "SPINOR_OP_SE_4B = 0xdc"
definition SPINOR_OP_BP :: u8 where "SPINOR_OP_BP = 0x02"
definition SPINOR_OP_WRDI :: u8 where "SPINOR_OP_WRDI = 0x04"
definition SPINOR_OP_AAI_WP :: u8 where "SPINOR_OP_AAI_WP = 0xad"
definition SPINOR_OP_XSE :: u8 where "SPINOR_OP_XSE = 0x50"
definition SPINOR_OP_XPP :: u8 where "SPINOR_OP_XPP = 0x82"
definition SPINOR_OP_XRDSR :: u8 where "SPINOR_OP_XRDSR = 0xd7"
definition XSR_PAGESIZE :: u8 where "XSR_PAGESIZE = 1"
definition XSR_RDY :: u8 where "XSR_RDY = 0x80"
definition SPINOR_OP_EN4B :: u8 where "SPINOR_OP_EN4B = 0xb7"
definition SPINOR_OP_EX4B :: u8 where "SPINOR_OP_EX4B = 0xe9"
definition SPINOR_OP_BRWR :: u8 where "SPINOR_OP_BRWR = 0x17"
definition SR_WIP :: u8 where "SR_WIP = 1"
definition SR_BP0 :: u8 where "SR_BP0 = 4"
definition SR_BP1 :: u8 where "SR_BP1 = 8"
definition SR_BP2 :: u8 where "SR_BP2 = 0x10"
definition SR_TB :: u8 where "SR_TB = 0x20"
definition SR_SRWD :: u8 where "SR_SRWD = 0x80"
definition SR_QUAD_EN_MX :: u8 where "SR_QUAD_EN_MX = 0x40"
definition FSR_READY :: u8 where "FSR_READY = 0x80"
definition CR_QUAD_EN_SPAN :: u8 where "CR_QUAD_EN_SPAN = 2"

text \<open>
  \<^verbatim>\<open>struct spi_nor\<close> with the fields of its \<^verbatim>\<open>struct mtd_info\<close> that the code sets. The write function
  and the lock functions of the MTD are one of those of this file, or absent; the controller driver's
  functions are in a record of their own. The command buffer is an argument of the command.
\<close>

datatype mtd_write_fn = Mtd_sst_write | Mtd_spi_nor_write

record spi_nor =
  mtd_size :: u64
  mtd_erasesize :: u32
  mtd_writebufsize :: u32
  mtd_no_erase :: bool
  mtd_write :: "mtd_write_fn option"
  mtd_lock :: bool
  nor_page_size :: u32
  nor_addr_width :: u8
  nor_erase_opcode :: u8
  nor_read_opcode :: u8
  nor_read_dummy :: u8
  nor_program_opcode :: u8
  nor_flash_read :: read_mode
  nor_sst_write_second :: bool
  nor_flags :: u32
  nor_stm_lock :: bool

record 's nor_driver =
  nd_prepare :: "(spi_nor_ops \<Rightarrow> (unit, 's) nor_m) option"
  nd_unprepare :: "(spi_nor_ops \<Rightarrow> 's \<Rightarrow> 's) option"
  nd_read_reg :: "(u8 \<Rightarrow> nat \<Rightarrow> (u8 list, 's) nor_m) option"
  nd_write_reg :: "(u8 \<Rightarrow> u8 list \<Rightarrow> (unit, 's) nor_m) option"
  nd_read :: "(spi_nor \<Rightarrow> u64 \<Rightarrow> nat \<Rightarrow> (u8 list, 's) nor_m) option"
  nd_write :: "(spi_nor \<Rightarrow> u64 \<Rightarrow> u8 list \<Rightarrow> (nat, 's) nor_m) option"
  nd_erase :: "(spi_nor \<Rightarrow> u64 \<Rightarrow> (unit, 's) nor_m) option"
  nd_jiffies :: "'s \<Rightarrow> u64 \<times> 's"

text \<open>
  What the code takes from the kernel: the rate of its clock, the functions \<^verbatim>\<open>ilog2\<close>,
  \<^verbatim>\<open>order_base_2\<close> and \<^verbatim>\<open>hweight32\<close>, \<^verbatim>\<open>CONFIG_MTD_SPI_NOR_USE_4K_SECTORS\<close>, and the manufacturer ids
  that the header takes from the kernel's list.
\<close>

record nor_kernel =
  nk_HZ :: u64
  nk_ilog2 :: "u64 \<Rightarrow> int"
  nk_order_base_2 :: "u64 \<Rightarrow> int"
  nk_hweight32 :: "u32 \<Rightarrow> nat"
  nk_use_4k_sectors :: bool
  SNOR_MFR_ATMEL :: u8
  SNOR_MFR_INTEL :: u8
  SNOR_MFR_MICRON :: u8
  SNOR_MFR_MACRONIX :: u8
  SNOR_MFR_SPANSION :: u8
  SNOR_MFR_SST :: u8

definition DEFAULT_READY_WAIT_JIFFIES :: "nor_kernel \<Rightarrow> u64" where
  "DEFAULT_READY_WAIT_JIFFIES k = 40 * nk_HZ k"

definition CHIP_ERASE_2MB_READY_WAIT_JIFFIES :: "nor_kernel \<Rightarrow> u64" where
  "CHIP_ERASE_2MB_READY_WAIT_JIFFIES k = 40 * nk_HZ k"

definition SNOR_MFR_WINBOND :: u8 where "SNOR_MFR_WINBOND = 0xef"

definition SPI_NOR_MAX_ID_LEN :: nat where "SPI_NOR_MAX_ID_LEN = 6"
definition SPI_NOR_MAX_ADDR_WIDTH :: u8 where "SPI_NOR_MAX_ADDR_WIDTH = 4"

definition has_flag :: "spi_nor \<Rightarrow> u32 \<Rightarrow> bool" where
  "has_flag nor f \<longleftrightarrow> nor_flags nor AND f \<noteq> 0"

subsection \<open>Registers of the chip\<close>

definition rd_reg :: "'s nor_driver \<Rightarrow> u8 \<Rightarrow> (u8, 's) nor_m" where
  "rd_reg D op = nor_chain (the (nd_read_reg D) op 1) (\<lambda>vs. nor_ok (vs ! 0))"

definition read_sr :: "'s nor_driver \<Rightarrow> (u8, 's) nor_m" where
  "read_sr D = rd_reg D SPINOR_OP_RDSR"

definition read_fsr :: "'s nor_driver \<Rightarrow> (u8, 's) nor_m" where
  "read_fsr D = rd_reg D SPINOR_OP_RDFSR"

definition read_cr :: "'s nor_driver \<Rightarrow> (u8, 's) nor_m" where
  "read_cr D = rd_reg D SPINOR_OP_RDCR"

definition spi_nor_read_dummy_cycles :: "spi_nor \<Rightarrow> u8" where
  "spi_nor_read_dummy_cycles nor = (if nor_flash_read nor = SPI_NOR_NORMAL then 0 else 8)"

definition write_sr :: "'s nor_driver \<Rightarrow> u8 \<Rightarrow> (unit, 's) nor_m" where
  "write_sr D val = the (nd_write_reg D) SPINOR_OP_WRSR [val]"

definition write_enable :: "'s nor_driver \<Rightarrow> (unit, 's) nor_m" where
  "write_enable D = the (nd_write_reg D) SPINOR_OP_WREN []"

definition write_disable :: "'s nor_driver \<Rightarrow> (unit, 's) nor_m" where
  "write_disable D = the (nd_write_reg D) SPINOR_OP_WRDI []"

subsection \<open>Waiting for the chip\<close>

definition s3an_sr_ready :: "'s nor_driver \<Rightarrow> (bool, 's) nor_m" where
  "s3an_sr_ready D = nor_chain (rd_reg D SPINOR_OP_XRDSR) (\<lambda>val. nor_ok (val AND XSR_RDY \<noteq> 0))"

definition spi_nor_sr_ready :: "'s nor_driver \<Rightarrow> (bool, 's) nor_m" where
  "spi_nor_sr_ready D = nor_chain (read_sr D) (\<lambda>sr. nor_ok (sr AND SR_WIP = 0))"

definition spi_nor_fsr_ready :: "'s nor_driver \<Rightarrow> (bool, 's) nor_m" where
  "spi_nor_fsr_ready D = nor_chain (read_fsr D) (\<lambda>fsr. nor_ok (fsr AND FSR_READY \<noteq> 0))"

definition spi_nor_ready :: "'s nor_driver \<Rightarrow> spi_nor \<Rightarrow> (bool, 's) nor_m" where
  "spi_nor_ready D nor =
     nor_chain (if has_flag nor SNOR_F_READY_XSR_RDY then s3an_sr_ready D else spi_nor_sr_ready D) (\<lambda>sr.
     nor_chain (if has_flag nor SNOR_F_USE_FSR then spi_nor_fsr_ready D else nor_ok True) (\<lambda>fsr.
     nor_ok (sr \<and> fsr)))"

text \<open>\<^verbatim>\<open>time_after_eq\<close>: the comparison is one of differences.\<close>

definition time_after_eq :: "u64 \<Rightarrow> u64 \<Rightarrow> bool" where
  "time_after_eq a b \<longleftrightarrow> 0 \<le> sint (a - b)"

partial_function (option) wait_ready_loop :: "'s nor_driver \<Rightarrow> spi_nor \<Rightarrow> u64 \<Rightarrow> 's \<Rightarrow> (unit res \<times> 's) option" where
  "wait_ready_loop D nor deadline s =
     (case nd_jiffies D s of
        (now, s1) \<Rightarrow>
          (case spi_nor_ready D nor s1 of
             None \<Rightarrow> None
           | Some (Inl e, s2) \<Rightarrow> Some (Inl e, s2)
           | Some (Inr ready, s2) \<Rightarrow>
               if ready then Some (Inr (), s2)
               else if time_after_eq now deadline then Some (Inl ETIMEDOUT, s2)
               else wait_ready_loop D nor deadline s2))"

definition spi_nor_wait_till_ready_with_timeout :: "'s nor_driver \<Rightarrow> spi_nor \<Rightarrow> u64 \<Rightarrow> (unit, 's) nor_m" where
  "spi_nor_wait_till_ready_with_timeout D nor timeout_jiffies s =
     (case nd_jiffies D s of (now, s1) \<Rightarrow> wait_ready_loop D nor (now + timeout_jiffies) s1)"

definition spi_nor_wait_till_ready :: "nor_kernel \<Rightarrow> 's nor_driver \<Rightarrow> spi_nor \<Rightarrow> (unit, 's) nor_m" where
  "spi_nor_wait_till_ready k D nor = spi_nor_wait_till_ready_with_timeout D nor (DEFAULT_READY_WAIT_JIFFIES k)"

text \<open>The mutex makes the operations atomic; what is left is the driver's own preparation.\<close>

definition spi_nor_lock_and_prep :: "'s nor_driver \<Rightarrow> spi_nor_ops \<Rightarrow> (unit, 's) nor_m" where
  "spi_nor_lock_and_prep D ops = (case nd_prepare D of None \<Rightarrow> nor_ok () | Some prepare \<Rightarrow> prepare ops)"

definition spi_nor_unlock_and_unprep :: "'s nor_driver \<Rightarrow> spi_nor_ops \<Rightarrow> 's \<Rightarrow> 's" where
  "spi_nor_unlock_and_unprep D ops s = (case nd_unprepare D of None \<Rightarrow> s | Some unprepare \<Rightarrow> unprepare ops s)"

subsection \<open>Erasing\<close>

definition erase_chip :: "'s nor_driver \<Rightarrow> (unit, 's) nor_m" where
  "erase_chip D = the (nd_write_reg D) SPINOR_OP_CHIP_ERASE []"

definition spi_nor_s3an_addr_convert :: "spi_nor \<Rightarrow> u32 \<Rightarrow> u64" where
  "spi_nor_s3an_addr_convert nor addr =
     (let offset = addr mod nor_page_size nor; page = addr div nor_page_size nor
      in ucast (push_bit (if 512 < nor_page_size nor then 10 else 9) page OR offset))"

text \<open>The lowest \<open>n\<close> bytes of an address, the highest of them first.\<close>

definition addr_bytes :: "nat \<Rightarrow> u64 \<Rightarrow> u8 list" where
  "addr_bytes n addr = map (\<lambda>i. ucast (drop_bit (8 * (n - 1 - i)) addr)) [0..<n]"

definition spi_nor_erase_sector :: "'s nor_driver \<Rightarrow> spi_nor \<Rightarrow> u32 \<Rightarrow> (unit, 's) nor_m" where
  "spi_nor_erase_sector D nor addr =
     (let addr1 = (if has_flag nor SNOR_F_S3AN_ADDR_DEFAULT then ucast (spi_nor_s3an_addr_convert nor addr) else addr)
      in case nd_erase D of
           Some erase \<Rightarrow> erase nor (ucast addr1)
         | None \<Rightarrow> the (nd_write_reg D) (nor_erase_opcode nor) (addr_bytes (unat (nor_addr_width nor)) (ucast addr1)))"

datatype erase_state = MTD_ERASE_FAILED | MTD_ERASE_DONE

text \<open>The loop over the sectors.\<close>

partial_function (option) erase_sectors ::
  "nor_kernel \<Rightarrow> 's nor_driver \<Rightarrow> spi_nor \<Rightarrow> u32 \<Rightarrow> u32 \<Rightarrow> 's \<Rightarrow> (unit res \<times> 's) option" where
  "erase_sectors k D nor addr len s =
     (if len = 0 then Some (Inr (), s)
      else
        (case nor_catch (write_enable D) (\<lambda>_. nor_chain (spi_nor_erase_sector D nor addr)
                (\<lambda>_. spi_nor_wait_till_ready k D nor)) s of
           None \<Rightarrow> None
         | Some (Inl e, s1) \<Rightarrow> Some (Inl e, s1)
         | Some (Inr _, s1) \<Rightarrow> erase_sectors k D nor (addr + mtd_erasesize nor) (len - mtd_erasesize nor) s1))"

definition erase_timeout :: "nor_kernel \<Rightarrow> spi_nor \<Rightarrow> u64" where
  "erase_timeout k nor =
     max (CHIP_ERASE_2MB_READY_WAIT_JIFFIES k) (CHIP_ERASE_2MB_READY_WAIT_JIFFIES k * (mtd_size nor div 0x200000))"

definition erase_range :: "nor_kernel \<Rightarrow> 's nor_driver \<Rightarrow> spi_nor \<Rightarrow> u32 \<Rightarrow> u32 \<Rightarrow> (unit, 's) nor_m" where
  "erase_range k D nor addr len =
     nor_chain
       (if ucast len = mtd_size nor \<and> \<not> has_flag nor SNOR_F_NO_OP_CHIP_ERASE
        then nor_catch (write_enable D) (\<lambda>_. nor_catch (erase_chip D)
          (\<lambda>r. case r of Inl _ \<Rightarrow> nor_fail EIO
               | Inr _ \<Rightarrow> spi_nor_wait_till_ready_with_timeout D nor (erase_timeout k nor)))
        else erase_sectors k D nor addr len)
       (\<lambda>_. nor_catch (write_disable D) (\<lambda>_. nor_ok ()))"

text \<open>
  The result comes with the state that the erase callback reports, if it is called. The range is
  given in 64 bits and erased in 32.
\<close>

definition spi_nor_erase ::
  "nor_kernel \<Rightarrow> 's nor_driver \<Rightarrow> spi_nor \<Rightarrow> u64 \<Rightarrow> u64 \<Rightarrow> 's \<Rightarrow> ((unit res \<times> erase_state option) \<times> 's) option" where
  "spi_nor_erase k D nor addr len s =
     (if len mod ucast (mtd_erasesize nor) \<noteq> 0 then Some ((Inl EINVAL, None), s)
      else
        (case spi_nor_lock_and_prep D SPI_NOR_OPS_ERASE s of
           None \<Rightarrow> None
         | Some (Inl e, s1) \<Rightarrow> Some ((Inl e, None), s1)
         | Some (Inr _, s1) \<Rightarrow>
             (case erase_range k D nor (ucast addr) (ucast len) s1 of
                None \<Rightarrow> None
              | Some (r, s2) \<Rightarrow>
                  Some ((r, Some (case r of Inl _ \<Rightarrow> MTD_ERASE_FAILED | Inr _ \<Rightarrow> MTD_ERASE_DONE)),
                    spi_nor_unlock_and_unprep D SPI_NOR_OPS_ERASE s2))))"

subsection \<open>Reading and writing\<close>

definition chip_addr :: "spi_nor \<Rightarrow> u64 \<Rightarrow> u64" where
  "chip_addr nor addr =
     (if has_flag nor SNOR_F_S3AN_ADDR_DEFAULT then spi_nor_s3an_addr_convert nor (ucast addr) else addr)"

text \<open>The loop of a read; \<open>acc\<close> is what was read so far, and its length what \<^verbatim>\<open>*retlen\<close> counts.\<close>

partial_function (option) read_loop ::
  "'s nor_driver \<Rightarrow> spi_nor \<Rightarrow> u64 \<Rightarrow> u64 \<Rightarrow> u8 list \<Rightarrow> 's \<Rightarrow> ((unit res \<times> u8 list) \<times> 's) option" where
  "read_loop D nor from len acc s =
     (if len = 0 then Some ((Inr (), acc), s)
      else
        (case the (nd_read D) nor (chip_addr nor from) (unat len) s of
           None \<Rightarrow> None
         | Some (Inl e, s1) \<Rightarrow> Some ((Inl e, acc), s1)
         | Some (Inr bs, s1) \<Rightarrow>
             if bs = [] then Some ((Inl EIO, acc), s1)
             else read_loop D nor (from + of_nat (length bs)) (len - of_nat (length bs)) (acc @ bs) s1))"

text \<open>
  The count that the driver returns is kept in an \<^verbatim>\<open>int\<close> there. The model keeps it as it is: the controller
  of the repository returns no more than 512 bytes at a time.
\<close>

definition spi_nor_read ::
  "'s nor_driver \<Rightarrow> spi_nor \<Rightarrow> u64 \<Rightarrow> u64 \<Rightarrow> 's \<Rightarrow> ((unit res \<times> u8 list) \<times> 's) option" where
  "spi_nor_read D nor from len s =
     (case spi_nor_lock_and_prep D SPI_NOR_OPS_READ s of
        None \<Rightarrow> None
      | Some (Inl e, s1) \<Rightarrow> Some ((Inl e, []), s1)
      | Some (Inr _, s1) \<Rightarrow>
          (case read_loop D nor from len [] s1 of
             None \<Rightarrow> None
           | Some (r, s2) \<Rightarrow> Some (r, spi_nor_unlock_and_unprep D SPI_NOR_OPS_READ s2)))"

text \<open>
  A write to chips that take two bytes at a time. The result is also what \<^verbatim>\<open>*retlen\<close> counts, and the
  data of the chip.
\<close>

definition sst_write_byte :: "nor_kernel \<Rightarrow> 's nor_driver \<Rightarrow> spi_nor \<Rightarrow> u64 \<Rightarrow> u8 \<Rightarrow> (unit, 's) nor_m" where
  "sst_write_byte k D nor to b =
     nor_chain (the (nd_write D) nor to [b]) (\<lambda>_. spi_nor_wait_till_ready k D nor)"

partial_function (option) sst_loop ::
  "nor_kernel \<Rightarrow> 's nor_driver \<Rightarrow> u8 list \<Rightarrow> spi_nor \<Rightarrow> u64 \<Rightarrow> u64 \<Rightarrow> 's \<Rightarrow>
   ((unit res \<times> u64 \<times> u64 \<times> spi_nor) \<times> 's) option" where
  "sst_loop k D buf nor to actual s =
     (if actual < of_nat (length buf) - 1 then
        (case nor_chain
                (the (nd_write D) (nor\<lparr>nor_program_opcode := SPINOR_OP_AAI_WP\<rparr>) to
                   [buf ! unat actual, buf ! (unat actual + 1)])
                (\<lambda>_. spi_nor_wait_till_ready k D (nor\<lparr>nor_program_opcode := SPINOR_OP_AAI_WP\<rparr>)) s of
           None \<Rightarrow> None
         | Some (Inl e, s1) \<Rightarrow> Some ((Inl e, to, actual, nor\<lparr>nor_program_opcode := SPINOR_OP_AAI_WP\<rparr>), s1)
         | Some (Inr _, s1) \<Rightarrow>
             sst_loop k D buf (nor\<lparr>nor_program_opcode := SPINOR_OP_AAI_WP, nor_sst_write_second := True\<rparr>)
               (to + 2) (actual + 2) s1)
      else Some ((Inr (), to, actual, nor), s))"

text \<open>The end of the write, from the second \<^verbatim>\<open>write_disable\<close> on.\<close>

definition sst_finish ::
  "nor_kernel \<Rightarrow> 's nor_driver \<Rightarrow> u8 list \<Rightarrow> spi_nor \<Rightarrow> u64 \<Rightarrow> u64 \<Rightarrow> 's \<Rightarrow> ((unit res \<times> u64 \<times> spi_nor) \<times> 's) option" where
  "sst_finish k D buf nor to actual s =
     (case nor_catch (write_disable D) (\<lambda>_. spi_nor_wait_till_ready k D nor) s of
        None \<Rightarrow> None
      | Some (Inl e, s1) \<Rightarrow> Some ((Inl e, actual, nor), s1)
      | Some (Inr _, s1) \<Rightarrow>
          if actual = of_nat (length buf) then Some ((Inr (), actual, nor), s1)
          else
            (let nor1 = nor\<lparr>nor_program_opcode := SPINOR_OP_BP\<rparr> in
             case nor_catch (write_enable D) (\<lambda>_. sst_write_byte k D nor1 to (buf ! unat actual)) s1 of
               None \<Rightarrow> None
             | Some (Inl e, s2) \<Rightarrow> Some ((Inl e, actual, nor1), s2)
             | Some (Inr _, s2) \<Rightarrow>
                 (case write_disable D s2 of
                    None \<Rightarrow> None
                  | Some (_, s3) \<Rightarrow> Some ((Inr (), actual + 1, nor1), s3))))"

definition sst_body ::
  "nor_kernel \<Rightarrow> 's nor_driver \<Rightarrow> spi_nor \<Rightarrow> u64 \<Rightarrow> u8 list \<Rightarrow> 's \<Rightarrow> ((unit res \<times> u64 \<times> spi_nor) \<times> 's) option" where
  "sst_body k D nor to buf s =
     (let actual = to mod 2;
          nor1 = (if actual = 0 then nor\<lparr>nor_sst_write_second := False\<rparr>
                  else nor\<lparr>nor_sst_write_second := False, nor_program_opcode := SPINOR_OP_BP\<rparr>)
      in case nor_catch (write_enable D)
                (\<lambda>_. if actual = 0 then nor_ok () else sst_write_byte k D nor1 to (buf ! 0)) s of
           None \<Rightarrow> None
         | Some (Inl e, s1) \<Rightarrow> Some ((Inl e, actual, nor1), s1)
         | Some (Inr _, s1) \<Rightarrow>
             (case sst_loop k D buf nor1 (to + actual) actual s1 of
                None \<Rightarrow> None
              | Some ((Inl e, _, actual2, nor2), s2) \<Rightarrow> Some ((Inl e, actual2, nor2), s2)
              | Some ((Inr _, to2, actual2, nor2), s2) \<Rightarrow>
                  sst_finish k D buf (nor2\<lparr>nor_sst_write_second := False\<rparr>) to2 actual2 s2))"

definition sst_write ::
  "nor_kernel \<Rightarrow> 's nor_driver \<Rightarrow> spi_nor \<Rightarrow> u64 \<Rightarrow> u8 list \<Rightarrow> 's \<Rightarrow> ((unit res \<times> u64 \<times> spi_nor) \<times> 's) option" where
  "sst_write k D nor to buf s =
     (case spi_nor_lock_and_prep D SPI_NOR_OPS_WRITE s of
        None \<Rightarrow> None
      | Some (Inl e, s1) \<Rightarrow> Some ((Inl e, 0, nor), s1)
      | Some (Inr _, s1) \<Rightarrow>
          (case sst_body k D nor to buf s1 of
             None \<Rightarrow> None
           | Some (r, s2) \<Rightarrow> Some (r, spi_nor_unlock_and_unprep D SPI_NOR_OPS_WRITE s2)))"

text \<open>How much of the rest of the data fits into the page of an address.\<close>

definition page_offset :: "nor_kernel \<Rightarrow> spi_nor \<Rightarrow> u64 \<Rightarrow> u64" where
  "page_offset k nor addr =
     (if nk_hweight32 k (nor_page_size nor) = 1 then addr AND ucast (nor_page_size nor - 1)
      else addr mod ucast (nor_page_size nor))"

definition page_remain :: "nor_kernel \<Rightarrow> spi_nor \<Rightarrow> u64 \<Rightarrow> nat \<Rightarrow> nat" where
  "page_remain k nor addr n = min (unat (ucast (nor_page_size nor) - page_offset k nor addr)) n"

text \<open>The loop of a write; \<open>i\<close> is also what \<^verbatim>\<open>*retlen\<close> counts.\<close>

partial_function (option) write_loop ::
  "nor_kernel \<Rightarrow> 's nor_driver \<Rightarrow> spi_nor \<Rightarrow> u64 \<Rightarrow> u8 list \<Rightarrow> nat \<Rightarrow> 's \<Rightarrow> ((unit res \<times> nat) \<times> 's) option" where
  "write_loop k D nor to buf i s =
     (if length buf \<le> i then Some ((Inr (), i), s)
      else
        (case nor_catch (write_enable D)
                (\<lambda>_. the (nd_write D) nor (chip_addr nor (to + of_nat i))
                   (take (page_remain k nor (to + of_nat i) (length buf - i)) (drop i buf))) s of
           None \<Rightarrow> None
         | Some (Inl e, s1) \<Rightarrow> Some ((Inl e, i), s1)
         | Some (Inr written, s1) \<Rightarrow>
             (case spi_nor_wait_till_ready k D nor s1 of
                None \<Rightarrow> None
              | Some (Inl e, s2) \<Rightarrow> Some ((Inl e, i), s2)
              | Some (Inr _, s2) \<Rightarrow>
                  if written \<noteq> page_remain k nor (to + of_nat i) (length buf - i)
                  then Some ((Inl EIO, i + written), s2)
                  else write_loop k D nor to buf (i + written) s2)))"

definition spi_nor_write ::
  "nor_kernel \<Rightarrow> 's nor_driver \<Rightarrow> spi_nor \<Rightarrow> u64 \<Rightarrow> u8 list \<Rightarrow> 's \<Rightarrow> ((unit res \<times> nat) \<times> 's) option" where
  "spi_nor_write k D nor to buf s =
     (case spi_nor_lock_and_prep D SPI_NOR_OPS_WRITE s of
        None \<Rightarrow> None
      | Some (Inl e, s1) \<Rightarrow> Some ((Inl e, 0), s1)
      | Some (Inr _, s1) \<Rightarrow>
          (case write_loop k D nor to buf 0 s1 of
             None \<Rightarrow> None
           | Some (r, s2) \<Rightarrow> Some (r, spi_nor_unlock_and_unprep D SPI_NOR_OPS_WRITE s2)))"

end
