(* ===== verification/Spi_Nor_Ids.thy ===== *)
theory Spi_Nor_Ids
  imports Spi_Nor
begin

text \<open>
  The table of known chips of \<^verbatim>\<open>drivers/mtd/spi-nor/spi-nor.c\<close>, entry by entry, and the two ways of
  finding a chip in it: by its name and by the bytes it answers to a read of its id. The entry that
  ends the table is not part of the list.
\<close>

record flash_info =
  fi_name :: string
  fi_id :: "u8 list"
  fi_id_len :: u8
  fi_sector_size :: u32
  fi_n_sectors :: u16
  fi_page_size :: u16
  fi_addr_width :: u16
  fi_flags :: u16

definition SECT_4K :: u16 where "SECT_4K = 1"
definition SPI_NOR_NO_ERASE :: u16 where "SPI_NOR_NO_ERASE = 2"
definition SST_WRITE :: u16 where "SST_WRITE = 4"
definition SPI_NOR_NO_FR :: u16 where "SPI_NOR_NO_FR = 8"
definition SECT_4K_PMC :: u16 where "SECT_4K_PMC = 0x10"
definition SPI_NOR_DUAL_READ :: u16 where "SPI_NOR_DUAL_READ = 0x20"
definition SPI_NOR_QUAD_READ :: u16 where "SPI_NOR_QUAD_READ = 0x40"
definition USE_FSR :: u16 where "USE_FSR = 0x80"
definition SPI_NOR_HAS_LOCK :: u16 where "SPI_NOR_HAS_LOCK = 0x100"
definition SPI_NOR_HAS_TB :: u16 where "SPI_NOR_HAS_TB = 0x200"
definition SPI_S3AN :: u16 where "SPI_S3AN = 0x400"
definition SPI_NOR_4B_OPCODES :: u16 where "SPI_NOR_4B_OPCODES = 0x800"
definition NO_CHIP_ERASE :: u16 where "NO_CHIP_ERASE = 0x1000"

definition fi_has :: "flash_info \<Rightarrow> u16 \<Rightarrow> bool" where
  "fi_has info f \<longleftrightarrow> fi_flags info AND f \<noteq> 0"

definition JEDEC_MFR :: "flash_info \<Rightarrow> u8" where
  "JEDEC_MFR info = fi_id info ! 0"

subsection \<open>Entries\<close>

definition id_byte :: "u32 \<Rightarrow> nat \<Rightarrow> u8" where
  "id_byte x n = ucast (drop_bit n x AND 0xff)"

definition INFO :: "string \<Rightarrow> u32 \<Rightarrow> u32 \<Rightarrow> u32 \<Rightarrow> u16 \<Rightarrow> u16 \<Rightarrow> flash_info" where
  "INFO name jedec_id ext_id sector_size n_sectors flags =
     \<lparr>fi_name = name,
      fi_id = [id_byte jedec_id 16, id_byte jedec_id 8, id_byte jedec_id 0,
               id_byte ext_id 8, id_byte ext_id 0, 0],
      fi_id_len = (if jedec_id = 0 then 0 else 3 + (if ext_id \<noteq> 0 then 2 else 0)),
      fi_sector_size = sector_size, fi_n_sectors = n_sectors, fi_page_size = 256,
      fi_addr_width = 0, fi_flags = flags\<rparr>"

definition INFO6 :: "string \<Rightarrow> u32 \<Rightarrow> u32 \<Rightarrow> u32 \<Rightarrow> u16 \<Rightarrow> u16 \<Rightarrow> flash_info" where
  "INFO6 name jedec_id ext_id sector_size n_sectors flags =
     \<lparr>fi_name = name,
      fi_id = [id_byte jedec_id 16, id_byte jedec_id 8, id_byte jedec_id 0,
               id_byte ext_id 16, id_byte ext_id 8, id_byte ext_id 0],
      fi_id_len = 6,
      fi_sector_size = sector_size, fi_n_sectors = n_sectors, fi_page_size = 256,
      fi_addr_width = 0, fi_flags = flags\<rparr>"

definition CAT25_INFO :: "string \<Rightarrow> u32 \<Rightarrow> u16 \<Rightarrow> u16 \<Rightarrow> u16 \<Rightarrow> u16 \<Rightarrow> flash_info" where
  "CAT25_INFO name sector_size n_sectors page_size addr_width flags =
     \<lparr>fi_name = name, fi_id = [0, 0, 0, 0, 0, 0], fi_id_len = 0,
      fi_sector_size = sector_size, fi_n_sectors = n_sectors, fi_page_size = page_size,
      fi_addr_width = addr_width, fi_flags = flags\<rparr>"

definition S3AN_INFO :: "string \<Rightarrow> u32 \<Rightarrow> u16 \<Rightarrow> u16 \<Rightarrow> flash_info" where
  "S3AN_INFO name jedec_id n_sectors page_size =
     \<lparr>fi_name = name,
      fi_id = [id_byte jedec_id 16, id_byte jedec_id 8, id_byte jedec_id 0, 0, 0, 0],
      fi_id_len = 3,
      fi_sector_size = 8 * ucast page_size, fi_n_sectors = n_sectors, fi_page_size = page_size,
      fi_addr_width = 3, fi_flags = SPI_NOR_NO_FR OR SPI_S3AN\<rparr>"

subsection \<open>The table\<close>

definition ids_atmel :: "flash_info list" where
  "ids_atmel =
   [INFO ''at25fs010'' 0x1f6601 0 (32 * 1024) 4 SECT_4K,
    INFO ''at25fs040'' 0x1f6604 0 (64 * 1024) 8 SECT_4K,
    INFO ''at25df041a'' 0x1f4401 0 (64 * 1024) 8 SECT_4K,
    INFO ''at25df321'' 0x1f4700 0 (64 * 1024) 64 SECT_4K,
    INFO ''at25df321a'' 0x1f4701 0 (64 * 1024) 64 SECT_4K,
    INFO ''at25df641'' 0x1f4800 0 (64 * 1024) 128 SECT_4K,
    INFO ''at26f004'' 0x1f0400 0 (64 * 1024) 8 SECT_4K,
    INFO ''at26df081a'' 0x1f4501 0 (64 * 1024) 16 SECT_4K,
    INFO ''at26df161a'' 0x1f4601 0 (64 * 1024) 32 SECT_4K,
    INFO ''at26df321'' 0x1f4700 0 (64 * 1024) 64 SECT_4K,
    INFO ''at45db081d'' 0x1f2500 0 (64 * 1024) 16 SECT_4K]"

definition ids_eon :: "flash_info list" where
  "ids_eon =
   [INFO ''en25f32'' 0x1c3116 0 (64 * 1024) 64 SECT_4K,
    INFO ''en25p32'' 0x1c2016 0 (64 * 1024) 64 0,
    INFO ''en25q32b'' 0x1c3016 0 (64 * 1024) 64 0,
    INFO ''en25p64'' 0x1c2017 0 (64 * 1024) 128 0,
    INFO ''en25q64'' 0x1c3017 0 (64 * 1024) 128 SECT_4K,
    INFO ''en25qh128'' 0x1c7018 0 (64 * 1024) 256 0,
    INFO ''en25qh256'' 0x1c7019 0 (64 * 1024) 512 0,
    INFO ''en25s64'' 0x1c3817 0 (64 * 1024) 128 SECT_4K]"

definition ids_esmt :: "flash_info list" where
  "ids_esmt =
   [INFO ''f25l32pa'' 0x8c2016 0 (64 * 1024) 64 (SECT_4K OR SPI_NOR_HAS_LOCK),
    INFO ''f25l32qa'' 0x8c4116 0 (64 * 1024) 64 (SECT_4K OR SPI_NOR_HAS_LOCK),
    INFO ''f25l64qa'' 0x8c4117 0 (64 * 1024) 128 (SECT_4K OR SPI_NOR_HAS_LOCK)]"

definition ids_everspin :: "flash_info list" where
  "ids_everspin =
   [CAT25_INFO ''mr25h256'' (32 * 1024) 1 256 2 (SPI_NOR_NO_ERASE OR SPI_NOR_NO_FR),
    CAT25_INFO ''mr25h10'' (128 * 1024) 1 256 3 (SPI_NOR_NO_ERASE OR SPI_NOR_NO_FR),
    CAT25_INFO ''mr25h40'' (512 * 1024) 1 256 3 (SPI_NOR_NO_ERASE OR SPI_NOR_NO_FR)]"

definition ids_fujitsu :: "flash_info list" where
  "ids_fujitsu =
   [INFO ''mb85rs1mt'' 0x047f27 0 (128 * 1024) 1 SPI_NOR_NO_ERASE]"

definition ids_gigadevice :: "flash_info list" where
  "ids_gigadevice =
   [INFO ''gd25q16'' 0xc84015 0 (64 * 1024) 32 (SECT_4K OR SPI_NOR_DUAL_READ OR SPI_NOR_QUAD_READ OR SPI_NOR_HAS_LOCK OR SPI_NOR_HAS_TB),
    INFO ''gd25q32'' 0xc84016 0 (64 * 1024) 64 (SECT_4K OR SPI_NOR_DUAL_READ OR SPI_NOR_QUAD_READ OR SPI_NOR_HAS_LOCK OR SPI_NOR_HAS_TB),
    INFO ''gd25q64'' 0xc84017 0 (64 * 1024) 128 (SECT_4K OR SPI_NOR_DUAL_READ OR SPI_NOR_QUAD_READ OR SPI_NOR_HAS_LOCK OR SPI_NOR_HAS_TB),
    INFO ''gd25lq64c'' 0xc86017 0 (64 * 1024) 128 (SECT_4K OR SPI_NOR_DUAL_READ OR SPI_NOR_QUAD_READ OR SPI_NOR_HAS_LOCK OR SPI_NOR_HAS_TB),
    INFO ''gd25q128'' 0xc84018 0 (64 * 1024) 256 (SECT_4K OR SPI_NOR_DUAL_READ OR SPI_NOR_QUAD_READ OR SPI_NOR_HAS_LOCK OR SPI_NOR_HAS_TB)]"

definition ids_intel_numonyx :: "flash_info list" where
  "ids_intel_numonyx =
   [INFO ''160s33b'' 0x898911 0 (64 * 1024) 32 0,
    INFO ''320s33b'' 0x898912 0 (64 * 1024) 64 0,
    INFO ''640s33b'' 0x898913 0 (64 * 1024) 128 0]"

definition ids_issi :: "flash_info list" where
  "ids_issi =
   [INFO ''is25cd512'' 0x7f9d20 0 (32 * 1024) 2 SECT_4K]"

definition ids_macronix :: "flash_info list" where
  "ids_macronix =
   [INFO ''mx25l512e'' 0xc22010 0 (64 * 1024) 1 SECT_4K,
    INFO ''mx25l2005a'' 0xc22012 0 (64 * 1024) 4 SECT_4K,
    INFO ''mx25l4005a'' 0xc22013 0 (64 * 1024) 8 SECT_4K,
    INFO ''mx25l8005'' 0xc22014 0 (64 * 1024) 16 0,
    INFO ''mx25l1606e'' 0xc22015 0 (64 * 1024) 32 SECT_4K,
    INFO ''mx25l3205d'' 0xc22016 0 (64 * 1024) 64 SECT_4K,
    INFO ''mx25l3255e'' 0xc29e16 0 (64 * 1024) 64 SECT_4K,
    INFO ''mx25l6405d'' 0xc22017 0 (64 * 1024) 128 SECT_4K,
    INFO ''mx25u2033e'' 0xc22532 0 (64 * 1024) 4 SECT_4K,
    INFO ''mx25u4035'' 0xc22533 0 (64 * 1024) 8 SECT_4K,
    INFO ''mx25u8035'' 0xc22534 0 (64 * 1024) 16 SECT_4K,
    INFO ''mx25u6435f'' 0xc22537 0 (64 * 1024) 128 SECT_4K,
    INFO ''mx25l12805d'' 0xc22018 0 (64 * 1024) 256 0,
    INFO ''mx25l12855e'' 0xc22618 0 (64 * 1024) 256 0,
    INFO ''mx25l25635e'' 0xc22019 0 (64 * 1024) 512 0,
    INFO ''mx25u25635f'' 0xc22539 0 (64 * 1024) 512 (SECT_4K OR SPI_NOR_4B_OPCODES),
    INFO ''mx25l25655e'' 0xc22619 0 (64 * 1024) 512 0,
    INFO ''mx66l51235l'' 0xc2201a 0 (64 * 1024) 1024 SPI_NOR_QUAD_READ,
    INFO ''mx66l1g55g'' 0xc2261b 0 (64 * 1024) 2048 SPI_NOR_QUAD_READ]"

definition ids_micron :: "flash_info list" where
  "ids_micron =
   [INFO ''n25q016a'' 0x20bb15 0 (64 * 1024) 32 (SECT_4K OR SPI_NOR_QUAD_READ),
    INFO ''n25q032'' 0x20ba16 0 (64 * 1024) 64 SPI_NOR_QUAD_READ,
    INFO ''n25q032a'' 0x20bb16 0 (64 * 1024) 64 SPI_NOR_QUAD_READ,
    INFO ''n25q064'' 0x20ba17 0 (64 * 1024) 128 (SECT_4K OR SPI_NOR_QUAD_READ),
    INFO ''n25q064a'' 0x20bb17 0 (64 * 1024) 128 (SECT_4K OR SPI_NOR_QUAD_READ),
    INFO ''n25q128a11'' 0x20bb18 0 (64 * 1024) 256 (SECT_4K OR SPI_NOR_QUAD_READ),
    INFO ''n25q128a13'' 0x20ba18 0 (64 * 1024) 256 (SECT_4K OR SPI_NOR_QUAD_READ),
    INFO ''n25q256a'' 0x20ba19 0 (64 * 1024) 512 (SECT_4K OR SPI_NOR_QUAD_READ),
    INFO ''n25q256ax1'' 0x20bb19 0 (64 * 1024) 512 (SECT_4K OR SPI_NOR_QUAD_READ),
    INFO ''n25q512a'' 0x20bb20 0 (64 * 1024) 1024 (SECT_4K OR USE_FSR OR SPI_NOR_QUAD_READ),
    INFO ''n25q512ax3'' 0x20ba20 0 (64 * 1024) 1024 (SECT_4K OR USE_FSR OR SPI_NOR_QUAD_READ),
    INFO ''n25q00'' 0x20ba21 0 (64 * 1024) 2048 (SECT_4K OR USE_FSR OR SPI_NOR_QUAD_READ OR NO_CHIP_ERASE),
    INFO ''n25q00a'' 0x20bb21 0 (64 * 1024) 2048 (SECT_4K OR USE_FSR OR SPI_NOR_QUAD_READ OR NO_CHIP_ERASE)]"

definition ids_pmc :: "flash_info list" where
  "ids_pmc =
   [INFO ''pm25lv512'' 0 0 (32 * 1024) 2 SECT_4K_PMC,
    INFO ''pm25lv010'' 0 0 (32 * 1024) 4 SECT_4K_PMC,
    INFO ''pm25lq032'' 0x7f9d46 0 (64 * 1024) 64 SECT_4K]"

definition ids_spansion :: "flash_info list" where
  "ids_spansion =
   [INFO ''s25sl032p'' 0x010215 0x4d00 (64 * 1024) 64 (SPI_NOR_DUAL_READ OR SPI_NOR_QUAD_READ),
    INFO ''s25sl064p'' 0x010216 0x4d00 (64 * 1024) 128 (SPI_NOR_DUAL_READ OR SPI_NOR_QUAD_READ),
    INFO ''s25fl256s0'' 0x010219 0x4d00 (256 * 1024) 128 0,
    INFO ''s25fl256s1'' 0x010219 0x4d01 (64 * 1024) 512 (SPI_NOR_DUAL_READ OR SPI_NOR_QUAD_READ),
    INFO ''s25fl512s'' 0x010220 0x4d00 (256 * 1024) 256 (SPI_NOR_DUAL_READ OR SPI_NOR_QUAD_READ),
    INFO ''s70fl01gs'' 0x010221 0x4d00 (256 * 1024) 256 0,
    INFO ''s25sl12800'' 0x012018 0x0300 (256 * 1024) 64 0,
    INFO ''s25sl12801'' 0x012018 0x0301 (64 * 1024) 256 0,
    INFO6 ''s25fl128s'' 0x012018 0x4d0180 (64 * 1024) 256 (SPI_NOR_DUAL_READ OR SPI_NOR_QUAD_READ),
    INFO ''s25fl129p0'' 0x012018 0x4d00 (256 * 1024) 64 (SPI_NOR_DUAL_READ OR SPI_NOR_QUAD_READ),
    INFO ''s25fl129p1'' 0x012018 0x4d01 (64 * 1024) 256 (SPI_NOR_DUAL_READ OR SPI_NOR_QUAD_READ),
    INFO ''s25sl004a'' 0x010212 0 (64 * 1024) 8 0,
    INFO ''s25sl008a'' 0x010213 0 (64 * 1024) 16 0,
    INFO ''s25sl016a'' 0x010214 0 (64 * 1024) 32 0,
    INFO ''s25sl032a'' 0x010215 0 (64 * 1024) 64 0,
    INFO ''s25sl064a'' 0x010216 0 (64 * 1024) 128 0,
    INFO ''s25fl004k'' 0xef4013 0 (64 * 1024) 8 (SECT_4K OR SPI_NOR_DUAL_READ OR SPI_NOR_QUAD_READ),
    INFO ''s25fl008k'' 0xef4014 0 (64 * 1024) 16 (SECT_4K OR SPI_NOR_DUAL_READ OR SPI_NOR_QUAD_READ),
    INFO ''s25fl016k'' 0xef4015 0 (64 * 1024) 32 (SECT_4K OR SPI_NOR_DUAL_READ OR SPI_NOR_QUAD_READ),
    INFO ''s25fl064k'' 0xef4017 0 (64 * 1024) 128 SECT_4K,
    INFO ''s25fl116k'' 0x014015 0 (64 * 1024) 32 (SECT_4K OR SPI_NOR_DUAL_READ OR SPI_NOR_QUAD_READ),
    INFO ''s25fl132k'' 0x014016 0 (64 * 1024) 64 SECT_4K,
    INFO ''s25fl164k'' 0x014017 0 (64 * 1024) 128 SECT_4K,
    INFO ''s25fl204k'' 0x014013 0 (64 * 1024) 8 (SECT_4K OR SPI_NOR_DUAL_READ),
    INFO ''s25fl208k'' 0x014014 0 (64 * 1024) 16 (SECT_4K OR SPI_NOR_DUAL_READ)]"

definition ids_sst :: "flash_info list" where
  "ids_sst =
   [INFO ''sst25vf040b'' 0xbf258d 0 (64 * 1024) 8 (SECT_4K OR SST_WRITE),
    INFO ''sst25vf080b'' 0xbf258e 0 (64 * 1024) 16 (SECT_4K OR SST_WRITE),
    INFO ''sst25vf016b'' 0xbf2541 0 (64 * 1024) 32 (SECT_4K OR SST_WRITE),
    INFO ''sst25vf032b'' 0xbf254a 0 (64 * 1024) 64 (SECT_4K OR SST_WRITE),
    INFO ''sst25vf064c'' 0xbf254b 0 (64 * 1024) 128 SECT_4K,
    INFO ''sst25wf512'' 0xbf2501 0 (64 * 1024) 1 (SECT_4K OR SST_WRITE),
    INFO ''sst25wf010'' 0xbf2502 0 (64 * 1024) 2 (SECT_4K OR SST_WRITE),
    INFO ''sst25wf020'' 0xbf2503 0 (64 * 1024) 4 (SECT_4K OR SST_WRITE),
    INFO ''sst25wf020a'' 0x621612 0 (64 * 1024) 4 SECT_4K,
    INFO ''sst25wf040b'' 0x621613 0 (64 * 1024) 8 SECT_4K,
    INFO ''sst25wf040'' 0xbf2504 0 (64 * 1024) 8 (SECT_4K OR SST_WRITE),
    INFO ''sst25wf080'' 0xbf2505 0 (64 * 1024) 16 (SECT_4K OR SST_WRITE)]"

definition ids_st :: "flash_info list" where
  "ids_st =
   [INFO ''m25p05'' 0x202010 0 (32 * 1024) 2 0,
    INFO ''m25p10'' 0x202011 0 (32 * 1024) 4 0,
    INFO ''m25p20'' 0x202012 0 (64 * 1024) 4 0,
    INFO ''m25p40'' 0x202013 0 (64 * 1024) 8 0,
    INFO ''m25p80'' 0x202014 0 (64 * 1024) 16 0,
    INFO ''m25p16'' 0x202015 0 (64 * 1024) 32 0,
    INFO ''m25p32'' 0x202016 0 (64 * 1024) 64 0,
    INFO ''m25p64'' 0x202017 0 (64 * 1024) 128 0,
    INFO ''m25p128'' 0x202018 0 (256 * 1024) 64 0,
    INFO ''m25p05-nonjedec'' 0 0 (32 * 1024) 2 0,
    INFO ''m25p10-nonjedec'' 0 0 (32 * 1024) 4 0,
    INFO ''m25p20-nonjedec'' 0 0 (64 * 1024) 4 0,
    INFO ''m25p40-nonjedec'' 0 0 (64 * 1024) 8 0,
    INFO ''m25p80-nonjedec'' 0 0 (64 * 1024) 16 0,
    INFO ''m25p16-nonjedec'' 0 0 (64 * 1024) 32 0,
    INFO ''m25p32-nonjedec'' 0 0 (64 * 1024) 64 0,
    INFO ''m25p64-nonjedec'' 0 0 (64 * 1024) 128 0,
    INFO ''m25p128-nonjedec'' 0 0 (256 * 1024) 64 0,
    INFO ''m45pe10'' 0x204011 0 (64 * 1024) 2 0,
    INFO ''m45pe80'' 0x204014 0 (64 * 1024) 16 0,
    INFO ''m45pe16'' 0x204015 0 (64 * 1024) 32 0,
    INFO ''m25pe20'' 0x208012 0 (64 * 1024) 4 0,
    INFO ''m25pe80'' 0x208014 0 (64 * 1024) 16 0,
    INFO ''m25pe16'' 0x208015 0 (64 * 1024) 32 SECT_4K,
    INFO ''m25px16'' 0x207115 0 (64 * 1024) 32 SECT_4K,
    INFO ''m25px32'' 0x207116 0 (64 * 1024) 64 SECT_4K,
    INFO ''m25px32-s0'' 0x207316 0 (64 * 1024) 64 SECT_4K,
    INFO ''m25px32-s1'' 0x206316 0 (64 * 1024) 64 SECT_4K,
    INFO ''m25px64'' 0x207117 0 (64 * 1024) 128 0,
    INFO ''m25px80'' 0x207114 0 (64 * 1024) 16 0]"

definition ids_winbond :: "flash_info list" where
  "ids_winbond =
   [INFO ''w25x05'' 0xef3010 0 (64 * 1024) 1 SECT_4K,
    INFO ''w25x10'' 0xef3011 0 (64 * 1024) 2 SECT_4K,
    INFO ''w25x20'' 0xef3012 0 (64 * 1024) 4 SECT_4K,
    INFO ''w25x40'' 0xef3013 0 (64 * 1024) 8 SECT_4K,
    INFO ''w25x80'' 0xef3014 0 (64 * 1024) 16 SECT_4K,
    INFO ''w25x16'' 0xef3015 0 (64 * 1024) 32 SECT_4K,
    INFO ''w25x32'' 0xef3016 0 (64 * 1024) 64 SECT_4K,
    INFO ''w25q20cl'' 0xef4012 0 (64 * 1024) 4 SECT_4K,
    INFO ''w25q20bw'' 0xef5012 0 (64 * 1024) 4 SECT_4K,
    INFO ''w25q20ew'' 0xef6012 0 (64 * 1024) 4 SECT_4K,
    INFO ''w25q32'' 0xef4016 0 (64 * 1024) 64 SECT_4K,
    INFO ''w25q32dw'' 0xef6016 0 (64 * 1024) 64 (SECT_4K OR SPI_NOR_DUAL_READ OR SPI_NOR_QUAD_READ OR SPI_NOR_HAS_LOCK OR SPI_NOR_HAS_TB),
    INFO ''w25x64'' 0xef3017 0 (64 * 1024) 128 SECT_4K,
    INFO ''w25q64'' 0xef4017 0 (64 * 1024) 128 SECT_4K,
    INFO ''w25q64dw'' 0xef6017 0 (64 * 1024) 128 (SECT_4K OR SPI_NOR_DUAL_READ OR SPI_NOR_QUAD_READ OR SPI_NOR_HAS_LOCK OR SPI_NOR_HAS_TB),
    INFO ''w25q128fw'' 0xef6018 0 (64 * 1024) 256 (SECT_4K OR SPI_NOR_DUAL_READ OR SPI_NOR_QUAD_READ OR SPI_NOR_HAS_LOCK OR SPI_NOR_HAS_TB),
    INFO ''w25q80'' 0xef5014 0 (64 * 1024) 16 SECT_4K,
    INFO ''w25q80bl'' 0xef4014 0 (64 * 1024) 16 SECT_4K,
    INFO ''w25q128'' 0xef4018 0 (64 * 1024) 256 SECT_4K,
    INFO ''w25q256'' 0xef4019 0 (64 * 1024) 512 SECT_4K]"

definition ids_catalyst :: "flash_info list" where
  "ids_catalyst =
   [CAT25_INFO ''cat25c11'' 16 8 16 1 (SPI_NOR_NO_ERASE OR SPI_NOR_NO_FR),
    CAT25_INFO ''cat25c03'' 32 8 16 2 (SPI_NOR_NO_ERASE OR SPI_NOR_NO_FR),
    CAT25_INFO ''cat25c09'' 128 8 32 2 (SPI_NOR_NO_ERASE OR SPI_NOR_NO_FR),
    CAT25_INFO ''cat25c17'' 256 8 32 2 (SPI_NOR_NO_ERASE OR SPI_NOR_NO_FR),
    CAT25_INFO ''cat25128'' 2048 8 64 2 (SPI_NOR_NO_ERASE OR SPI_NOR_NO_FR)]"

definition ids_xilinx :: "flash_info list" where
  "ids_xilinx =
   [S3AN_INFO ''3S50AN'' 0x1f2200 64 264,
    S3AN_INFO ''3S200AN'' 0x1f2400 256 264,
    S3AN_INFO ''3S400AN'' 0x1f2400 256 264,
    S3AN_INFO ''3S700AN'' 0x1f2500 512 264,
    S3AN_INFO ''3S1400AN'' 0x1f2600 512 528]"

definition spi_nor_ids :: "flash_info list" where
  "spi_nor_ids =
     ids_atmel @ ids_eon @ ids_esmt @ ids_everspin @ ids_fujitsu @ ids_gigadevice @ ids_intel_numonyx @ ids_issi @ ids_macronix @ ids_micron @ ids_pmc @ ids_spansion @ ids_sst @ ids_st @ ids_winbond @ ids_catalyst @ ids_xilinx"

subsection \<open>Finding a chip\<close>

definition spi_nor_match_id :: "string \<Rightarrow> flash_info option" where
  "spi_nor_match_id name = find (\<lambda>info. fi_name info = name) spi_nor_ids"

definition id_matches :: "u8 list \<Rightarrow> flash_info \<Rightarrow> bool" where
  "id_matches bs info \<longleftrightarrow>
     fi_id_len info \<noteq> 0 \<and> take (unat (fi_id_len info)) (fi_id info) = take (unat (fi_id_len info)) bs"

definition spi_nor_read_id :: "'s nor_driver \<Rightarrow> (flash_info, 's) nor_m" where
  "spi_nor_read_id D =
     nor_chain (the (nd_read_reg D) SPINOR_OP_RDID SPI_NOR_MAX_ID_LEN)
       (\<lambda>bs. case find (id_matches bs) spi_nor_ids of None \<Rightarrow> nor_fail ENODEV | Some info \<Rightarrow> nor_ok info)"

end
