(* ===== verification/Spi_Nor_Scan.thy ===== *)
theory Spi_Nor_Scan
  imports Spi_Nor_Ids
begin

text \<open>
  Identifying a chip and setting up its record: \<^verbatim>\<open>spi_nor_scan\<close> of
  \<^verbatim>\<open>drivers/mtd/spi-nor/spi-nor.c\<close> and what it calls.
\<close>

subsection \<open>Addresses of four bytes\<close>

definition spi_nor_convert_opcode :: "u8 \<Rightarrow> (u8 \<times> u8) list \<Rightarrow> u8" where
  "spi_nor_convert_opcode opcode table =
     (case find (\<lambda>e. fst e = opcode) table of None \<Rightarrow> opcode | Some e \<Rightarrow> snd e)"

definition spi_nor_3to4_read :: "(u8 \<times> u8) list" where
  "spi_nor_3to4_read =
     [(SPINOR_OP_READ, SPINOR_OP_READ_4B),
      (SPINOR_OP_READ_FAST, SPINOR_OP_READ_FAST_4B),
      (SPINOR_OP_READ_1_1_2, SPINOR_OP_READ_1_1_2_4B),
      (SPINOR_OP_READ_1_2_2, SPINOR_OP_READ_1_2_2_4B),
      (SPINOR_OP_READ_1_1_4, SPINOR_OP_READ_1_1_4_4B),
      (SPINOR_OP_READ_1_4_4, SPINOR_OP_READ_1_4_4_4B)]"

definition spi_nor_convert_3to4_read :: "u8 \<Rightarrow> u8" where
  "spi_nor_convert_3to4_read opcode = spi_nor_convert_opcode opcode spi_nor_3to4_read"

definition spi_nor_3to4_program :: "(u8 \<times> u8) list" where
  "spi_nor_3to4_program =
     [(SPINOR_OP_PP, SPINOR_OP_PP_4B),
      (SPINOR_OP_PP_1_1_4, SPINOR_OP_PP_1_1_4_4B),
      (SPINOR_OP_PP_1_4_4, SPINOR_OP_PP_1_4_4_4B)]"

definition spi_nor_convert_3to4_program :: "u8 \<Rightarrow> u8" where
  "spi_nor_convert_3to4_program opcode = spi_nor_convert_opcode opcode spi_nor_3to4_program"

definition spi_nor_3to4_erase :: "(u8 \<times> u8) list" where
  "spi_nor_3to4_erase =
     [(SPINOR_OP_BE_4K, SPINOR_OP_BE_4K_4B),
      (SPINOR_OP_BE_32K, SPINOR_OP_BE_32K_4B),
      (SPINOR_OP_SE, SPINOR_OP_SE_4B)]"

definition spi_nor_convert_3to4_erase :: "u8 \<Rightarrow> u8" where
  "spi_nor_convert_3to4_erase opcode = spi_nor_convert_opcode opcode spi_nor_3to4_erase"

definition spi_nor_set_4byte_opcodes :: "nor_kernel \<Rightarrow> flash_info \<Rightarrow> spi_nor \<Rightarrow> spi_nor" where
  "spi_nor_set_4byte_opcodes k info nor =
     (let nor1 = (if JEDEC_MFR info = SNOR_MFR_SPANSION k
                  then nor\<lparr>nor_erase_opcode := SPINOR_OP_SE, mtd_erasesize := fi_sector_size info\<rparr> else nor)
      in nor1\<lparr>nor_read_opcode := spi_nor_convert_3to4_read (nor_read_opcode nor1),
              nor_program_opcode := spi_nor_convert_3to4_program (nor_program_opcode nor1),
              nor_erase_opcode := spi_nor_convert_3to4_erase (nor_erase_opcode nor1)\<rparr>)"

definition set_4byte :: "nor_kernel \<Rightarrow> 's nor_driver \<Rightarrow> flash_info \<Rightarrow> bool \<Rightarrow> (unit, 's) nor_m" where
  "set_4byte k D info enable =
     (let need_wren = (JEDEC_MFR info = SNOR_MFR_MICRON k);
          cmd = (if enable then SPINOR_OP_EN4B else SPINOR_OP_EX4B)
      in if need_wren then
           nor_catch (write_enable D) (\<lambda>_.
           nor_catch (the (nd_write_reg D) cmd []) (\<lambda>status.
           nor_catch (write_disable D) (\<lambda>_ s. Some (status, s))))
         else if JEDEC_MFR info = SNOR_MFR_MACRONIX k \<or> JEDEC_MFR info = SNOR_MFR_WINBOND then
           the (nd_write_reg D) cmd []
         else the (nd_write_reg D) SPINOR_OP_BRWR [if enable then 0x80 else 0])"

subsection \<open>Reading over four lines\<close>

definition macronix_quad_enable :: "nor_kernel \<Rightarrow> 's nor_driver \<Rightarrow> spi_nor \<Rightarrow> (unit, 's) nor_m" where
  "macronix_quad_enable k D nor =
     nor_chain (read_sr D) (\<lambda>val.
       if val AND SR_QUAD_EN_MX \<noteq> 0 then nor_ok ()
       else nor_catch (write_enable D) (\<lambda>_. nor_catch (write_sr D (val OR SR_QUAD_EN_MX)) (\<lambda>_.
            nor_catch (spi_nor_wait_till_ready k D nor) (\<lambda>r.
              case r of
                Inl _ \<Rightarrow> nor_fail (EOTHER 1)
              | Inr _ \<Rightarrow>
                  nor_catch (read_sr D) (\<lambda>ret.
                    case ret of
                      Inl _ \<Rightarrow> nor_fail EINVAL
                    | Inr sr \<Rightarrow> if 0 < sr \<and> sr AND SR_QUAD_EN_MX \<noteq> 0 then nor_ok () else nor_fail EINVAL)))))"

definition write_sr_cr :: "'s nor_driver \<Rightarrow> u16 \<Rightarrow> (unit, 's) nor_m" where
  "write_sr_cr D val = the (nd_write_reg D) SPINOR_OP_WRSR [ucast (val AND 0xff), ucast (drop_bit 8 val)]"

definition spansion_quad_enable :: "nor_kernel \<Rightarrow> 's nor_driver \<Rightarrow> spi_nor \<Rightarrow> (unit, 's) nor_m" where
  "spansion_quad_enable k D nor =
     nor_catch (write_enable D) (\<lambda>_. nor_catch (write_sr_cr D (push_bit 8 (ucast CR_QUAD_EN_SPAN))) (\<lambda>r.
       case r of
         Inl _ \<Rightarrow> nor_fail EINVAL
       | Inr _ \<Rightarrow>
           nor_chain (spi_nor_wait_till_ready k D nor) (\<lambda>_.
             nor_catch (read_cr D) (\<lambda>ret.
               case ret of
                 Inl _ \<Rightarrow> nor_fail EINVAL
               | Inr cr \<Rightarrow> if 0 < cr \<and> cr AND CR_QUAD_EN_SPAN \<noteq> 0 then nor_ok () else nor_fail EINVAL))))"

definition set_quad_mode :: "nor_kernel \<Rightarrow> 's nor_driver \<Rightarrow> flash_info \<Rightarrow> spi_nor \<Rightarrow> (unit, 's) nor_m" where
  "set_quad_mode k D info nor =
     (if JEDEC_MFR info = SNOR_MFR_MACRONIX k then
        nor_catch (macronix_quad_enable k D nor) (\<lambda>r. case r of Inl _ \<Rightarrow> nor_fail EINVAL | Inr _ \<Rightarrow> nor_ok ())
      else if JEDEC_MFR info = SNOR_MFR_MICRON k then nor_ok ()
      else nor_catch (spansion_quad_enable k D nor) (\<lambda>r. case r of Inl _ \<Rightarrow> nor_fail EINVAL | Inr _ \<Rightarrow> nor_ok ()))"

subsection \<open>The scan\<close>

definition spi_nor_check :: "'s nor_driver \<Rightarrow> bool" where
  "spi_nor_check D \<longleftrightarrow>
     nd_read D \<noteq> None \<and> nd_write D \<noteq> None \<and> nd_read_reg D \<noteq> None \<and> nd_write_reg D \<noteq> None"

definition s3an_setup :: "flash_info \<Rightarrow> u8 \<Rightarrow> spi_nor \<Rightarrow> spi_nor" where
  "s3an_setup info val nor =
     (let nor1 = nor\<lparr>nor_erase_opcode := SPINOR_OP_XSE, nor_program_opcode := SPINOR_OP_XPP,
                     nor_read_opcode := SPINOR_OP_READ, nor_flags := nor_flags nor OR SNOR_F_NO_OP_CHIP_ERASE\<rparr>
      in if val AND XSR_PAGESIZE \<noteq> 0 then
           (let page = (if nor_page_size nor = 264 then 256 else 512)
            in nor1\<lparr>nor_page_size := page, mtd_writebufsize := page,
                    mtd_size := ucast (8 * page * ucast (fi_n_sectors info)), mtd_erasesize := 8 * page\<rparr>)
         else nor1\<lparr>nor_flags := nor_flags nor1 OR SNOR_F_S3AN_ADDR_DEFAULT\<rparr>)"

definition s3an_nor_scan :: "'s nor_driver \<Rightarrow> flash_info \<Rightarrow> spi_nor \<Rightarrow> (spi_nor, 's) nor_m" where
  "s3an_nor_scan D info nor =
     nor_chain (rd_reg D SPINOR_OP_XRDSR) (\<lambda>val. nor_ok (s3an_setup info val nor))"

text \<open>Which chip it is. A name that was given is checked against the id of the chip.\<close>

definition scan_identify :: "'s nor_driver \<Rightarrow> string option \<Rightarrow> (flash_info, 's) nor_m" where
  "scan_identify D name =
     nor_catch
       (case Option.bind name spi_nor_match_id of Some info \<Rightarrow> nor_ok info | None \<Rightarrow> spi_nor_read_id D)
       (\<lambda>r. case r of
          Inl _ \<Rightarrow> nor_fail ENOENT
        | Inr info \<Rightarrow> if name \<noteq> None \<and> fi_id_len info \<noteq> 0 then spi_nor_read_id D else nor_ok info)"

text \<open>Clearing the protection bits that some chips power up with; the results are ignored.\<close>

definition scan_unprotect :: "nor_kernel \<Rightarrow> 's nor_driver \<Rightarrow> flash_info \<Rightarrow> spi_nor \<Rightarrow> (unit, 's) nor_m" where
  "scan_unprotect k D info nor =
     (if JEDEC_MFR info = SNOR_MFR_ATMEL k \<or> JEDEC_MFR info = SNOR_MFR_INTEL k \<or>
         JEDEC_MFR info = SNOR_MFR_SST k \<or> fi_has info SPI_NOR_HAS_LOCK
      then nor_catch (write_enable D) (\<lambda>_. nor_catch (write_sr D 0) (\<lambda>_.
             nor_catch (spi_nor_wait_till_ready k D nor) (\<lambda>_. nor_ok ())))
      else nor_ok ())"

text \<open>The fields that follow from the entry; \<open>np\<close> is the fast-read property of the device-tree node, if any.\<close>

definition scan_setup :: "nor_kernel \<Rightarrow> flash_info \<Rightarrow> bool option \<Rightarrow> spi_nor \<Rightarrow> spi_nor" where
  "scan_setup k info np nor =
     (let lockable = (nor_stm_lock nor \<or> JEDEC_MFR info = SNOR_MFR_MICRON k \<or> fi_has info SPI_NOR_HAS_LOCK);
          flags = nor_flags nor
            OR (if fi_has info USE_FSR then SNOR_F_USE_FSR else 0)
            OR (if fi_has info SPI_NOR_HAS_TB then SNOR_F_HAS_SR_TB else 0)
            OR (if fi_has info NO_CHIP_ERASE then SNOR_F_NO_OP_CHIP_ERASE else 0);
          (erase_opcode, erasesize) =
            (if nk_use_4k_sectors k \<and> fi_has info SECT_4K then (SPINOR_OP_BE_4K, 4096)
             else if nk_use_4k_sectors k \<and> fi_has info SECT_4K_PMC then (SPINOR_OP_BE_4K_PMC, 4096)
             else (SPINOR_OP_SE, fi_sector_size info));
          flash_read = (case np of None \<Rightarrow> SPI_NOR_FAST
                        | Some fast_read \<Rightarrow> if fast_read then SPI_NOR_FAST else SPI_NOR_NORMAL)
      in nor\<lparr>mtd_size := ucast (fi_sector_size info * ucast (fi_n_sectors info)),
             nor_stm_lock := lockable,
             mtd_lock := mtd_lock nor \<or> lockable,
             mtd_write := Some (if fi_has info SST_WRITE then Mtd_sst_write else Mtd_spi_nor_write),
             nor_flags := flags,
             nor_erase_opcode := erase_opcode,
             mtd_erasesize := erasesize,
             mtd_no_erase := fi_has info SPI_NOR_NO_ERASE,
             nor_page_size := ucast (fi_page_size info),
             mtd_writebufsize := ucast (fi_page_size info),
             nor_flash_read := (if fi_has info SPI_NOR_NO_FR then SPI_NOR_NORMAL else flash_read)\<rparr>)"

text \<open>A mode that the chip has takes precedence.\<close>

definition scan_read_mode ::
  "nor_kernel \<Rightarrow> 's nor_driver \<Rightarrow> flash_info \<Rightarrow> read_mode \<Rightarrow> spi_nor \<Rightarrow> (spi_nor, 's) nor_m" where
  "scan_read_mode k D info mode nor =
     (if mode = SPI_NOR_QUAD \<and> fi_has info SPI_NOR_QUAD_READ then
        nor_chain (set_quad_mode k D info nor) (\<lambda>_. nor_ok (nor\<lparr>nor_flash_read := SPI_NOR_QUAD\<rparr>))
      else if mode = SPI_NOR_DUAL \<and> fi_has info SPI_NOR_DUAL_READ then
        nor_ok (nor\<lparr>nor_flash_read := SPI_NOR_DUAL\<rparr>)
      else nor_ok nor)"

definition scan_opcodes :: "spi_nor \<Rightarrow> spi_nor" where
  "scan_opcodes nor =
     nor\<lparr>nor_read_opcode :=
           (case nor_flash_read nor of
              SPI_NOR_QUAD \<Rightarrow> SPINOR_OP_READ_1_1_4
            | SPI_NOR_DUAL \<Rightarrow> SPINOR_OP_READ_1_1_2
            | SPI_NOR_FAST \<Rightarrow> SPINOR_OP_READ_FAST
            | SPI_NOR_NORMAL \<Rightarrow> SPINOR_OP_READ),
         nor_program_opcode := SPINOR_OP_PP\<rparr>"

definition scan_addr_width :: "nor_kernel \<Rightarrow> 's nor_driver \<Rightarrow> flash_info \<Rightarrow> spi_nor \<Rightarrow> (spi_nor, 's) nor_m" where
  "scan_addr_width k D info nor =
     (if fi_addr_width info \<noteq> 0 then nor_ok (nor\<lparr>nor_addr_width := ucast (fi_addr_width info)\<rparr>)
      else if 0x1000000 < mtd_size nor then
        (let nor1 = nor\<lparr>nor_addr_width := 4\<rparr> in
         if JEDEC_MFR info = SNOR_MFR_SPANSION k \<or> fi_has info SPI_NOR_4B_OPCODES
         then nor_ok (spi_nor_set_4byte_opcodes k info nor1)
         else nor_catch (set_4byte k D info True) (\<lambda>_. nor_ok nor1))
      else nor_ok (nor\<lparr>nor_addr_width := 3\<rparr>))"

definition scan_finish :: "'s nor_driver \<Rightarrow> flash_info \<Rightarrow> spi_nor \<Rightarrow> (spi_nor, 's) nor_m" where
  "scan_finish D info nor =
     (if SPI_NOR_MAX_ADDR_WIDTH < nor_addr_width nor then nor_fail EINVAL
      else let nor1 = nor\<lparr>nor_read_dummy := spi_nor_read_dummy_cycles nor\<rparr>
           in if fi_has info SPI_S3AN then s3an_nor_scan D info nor1 else nor_ok nor1)"

text \<open>The scan gives the record of a chip that it identified and set up.\<close>

definition spi_nor_scan ::
  "nor_kernel \<Rightarrow> 's nor_driver \<Rightarrow> string option \<Rightarrow> read_mode \<Rightarrow> bool option \<Rightarrow> spi_nor \<Rightarrow> (spi_nor, 's) nor_m" where
  "spi_nor_scan k D name mode np nor =
     (if \<not> spi_nor_check D then nor_fail EINVAL
      else
        nor_chain (scan_identify D name) (\<lambda>info.
          let nor1 = (if fi_has info SPI_S3AN then nor\<lparr>nor_flags := nor_flags nor OR SNOR_F_READY_XSR_RDY\<rparr> else nor)
          in nor_chain (scan_unprotect k D info nor1) (\<lambda>_.
             nor_chain (scan_read_mode k D info mode (scan_setup k info np nor1)) (\<lambda>nor2.
             nor_chain (scan_addr_width k D info (scan_opcodes nor2)) (\<lambda>nor3.
             scan_finish D info nor3)))))"

end
