(* ===== verification/Asmip2.thy ===== *)
theory Asmip2
  imports Spi_Nor_Scan
begin

text \<open>
  The ASMI Parallel II flash controller (\<^verbatim>\<open>drivers/mtd/spi-nor/altera-asmip2.c\<close>), with the polling
  loop of \<^verbatim>\<open>include/linux/iopoll-mod.h\<close>. A command of the framework is a frame of bytes pushed into a
  FIFO and one write to the action register; the driver then polls the fill count of the FIFO.

  The platform device keeps an \<open>asmip2\<close> as its driver data, with a slot per bank. The bus mutex is a
  pair of recorded calls.
\<close>

subsection \<open>Polling\<close>

text \<open>\<^verbatim>\<open>ktime_get\<close>, in nanoseconds.\<close>

definition ktime_get :: "world \<Rightarrow> int \<times> world" where
  "ktime_get w = (case kvalue (Kfn ''ktime_get'') [] w of (Inl _, w1) \<Rightarrow> (0, w1) | (Inr t, w1) \<Rightarrow> (t, w1))"

partial_function (option) poll_loop ::
  "u64 \<Rightarrow> (u32 \<Rightarrow> bool) \<Rightarrow> nat \<Rightarrow> nat \<Rightarrow> int \<Rightarrow> world \<Rightarrow> (u32 \<times> world) option" where
  "poll_loop addr cond sleep_us timeout_us timeout w =
     (case readl addr w of
        (v, w1) \<Rightarrow>
          if cond v then Some (v, w1)
          else if timeout_us = 0 then
            poll_loop addr cond sleep_us timeout_us timeout
              (if sleep_us = 0 then w1 else kvoid (Kfn ''usleep_range'') [int (sleep_us div 4 + 1), int sleep_us] w1)
          else
            (case ktime_get w1 of
               (now, w2) \<Rightarrow>
                 if timeout < now then Some (readl addr w2)
                 else poll_loop addr cond sleep_us timeout_us timeout
                   (if sleep_us = 0 then w2
                    else kvoid (Kfn ''usleep_range'') [int (sleep_us div 4 + 1), int sleep_us] w2)))"

definition readl_poll_timeout ::
  "u64 \<Rightarrow> (u32 \<Rightarrow> bool) \<Rightarrow> nat \<Rightarrow> nat \<Rightarrow> (unit, world) nor_m" where
  "readl_poll_timeout addr cond sleep_us timeout_us w =
     (case ktime_get w of
        (t, w1) \<Rightarrow>
          (case poll_loop addr cond sleep_us timeout_us (t + 1000 * int timeout_us) w1 of
             None \<Rightarrow> None
           | Some (v, w2) \<Rightarrow> Some (if cond v then Inr () else Inl ETIMEDOUT, w2)))"

subsection \<open>Registers\<close>

definition QSPI_ACTION_REG :: u64 where "QSPI_ACTION_REG = 0"
definition QSPI_ACTION_RST :: u32 where "QSPI_ACTION_RST = 1"
definition QSPI_ACTION_EN :: u32 where "QSPI_ACTION_EN = 2"
definition QSPI_ACTION_SC :: u32 where "QSPI_ACTION_SC = 4"
definition QSPI_ACTION_DUMMY_SFT :: nat where "QSPI_ACTION_DUMMY_SFT = 8"
definition QSPI_ACTION_READ_BACK_SFT :: nat where "QSPI_ACTION_READ_BACK_SFT = 16"
definition QSPI_FIFO_CNT_REG :: u64 where "QSPI_FIFO_CNT_REG = 4"
definition QSPI_FIFO_DEPTH :: nat where "QSPI_FIFO_DEPTH = 0x200"
definition QSPI_FIFO_CNT_MSK :: u32 where "QSPI_FIFO_CNT_MSK = 0x3ff"
definition QSPI_FIFO_CNT_TX_SFT :: nat where "QSPI_FIFO_CNT_TX_SFT = 12"
definition QSPI_DATA_REG :: u64 where "QSPI_DATA_REG = 8"
definition QSPI_POLL_TIMEOUT_US :: nat where "QSPI_POLL_TIMEOUT_US = 10000000"
definition QSPI_POLL_INTERVAL_US :: nat where "QSPI_POLL_INTERVAL_US = 5"

definition ALTERA_ASMIP2_MAX_NUM_FLASH_CHIP :: u32 where "ALTERA_ASMIP2_MAX_NUM_FLASH_CHIP = 3"

text \<open>The kernel's repeated accesses of one byte-wide register.\<close>

definition iowrite8_rep :: "u64 \<Rightarrow> u8 list \<Rightarrow> world \<Rightarrow> world" where
  "iowrite8_rep addr bs w = fold (\<lambda>b. writeb b addr) bs w"

fun ioread8_rep :: "u64 \<Rightarrow> nat \<Rightarrow> world \<Rightarrow> u8 list \<times> world" where
  "ioread8_rep addr 0 w = ([], w)"
| "ioread8_rep addr (Suc n) w =
     (case readb addr w of (b, w1) \<Rightarrow> case ioread8_rep addr n w1 of (bs, w2) \<Rightarrow> (b # bs, w2))"

subsection \<open>Commands\<close>

text \<open>The transmit side of the FIFO is empty; the receive side holds \<open>n\<close> bytes.\<close>

definition tx_empty :: "u32 \<Rightarrow> bool" where
  "tx_empty reg \<longleftrightarrow> drop_bit QSPI_FIFO_CNT_TX_SFT reg AND QSPI_FIFO_CNT_MSK = 0"

definition rx_holds :: "nat \<Rightarrow> u32 \<Rightarrow> bool" where
  "rx_holds n reg \<longleftrightarrow> unat (reg AND QSPI_FIFO_CNT_MSK) = n"

definition qspi_poll :: "u64 \<Rightarrow> (u32 \<Rightarrow> bool) \<Rightarrow> (unit, world) nor_m" where
  "qspi_poll csr cond =
     readl_poll_timeout (csr + QSPI_FIFO_CNT_REG) cond QSPI_POLL_INTERVAL_US QSPI_POLL_TIMEOUT_US"

definition altera_asmip2_write_reg :: "u64 \<Rightarrow> u8 \<Rightarrow> u8 list \<Rightarrow> (unit, world) nor_m" where
  "altera_asmip2_write_reg csr opcode val w =
     (if QSPI_FIFO_DEPTH < length val + 1 then nor_fail EINVAL w
      else
        let w1 = writeb opcode (csr + QSPI_DATA_REG) w;
            w2 = iowrite8_rep (csr + QSPI_DATA_REG) val w1;
            w3 = writel (QSPI_ACTION_EN OR QSPI_ACTION_SC) (csr + QSPI_ACTION_REG) w2
        in nor_catch (qspi_poll csr tx_empty)
             (\<lambda>ret s. Some (ret, writel QSPI_ACTION_EN (csr + QSPI_ACTION_REG) s)) w3)"

definition altera_asmip2_read_reg :: "u64 \<Rightarrow> u8 \<Rightarrow> nat \<Rightarrow> (u8 list, world) nor_m" where
  "altera_asmip2_read_reg csr opcode len w =
     (if QSPI_FIFO_DEPTH < len then nor_fail EINVAL w
      else
        let w1 = writeb opcode (csr + QSPI_DATA_REG) w;
            w2 = writel (QSPI_ACTION_EN OR QSPI_ACTION_SC OR push_bit QSPI_ACTION_READ_BACK_SFT (of_nat len))
                   (csr + QSPI_ACTION_REG) w1
        in nor_catch (qspi_poll csr (rx_holds len))
             (\<lambda>ret s. case ret of
                Inl e \<Rightarrow> Some (Inl e, writel QSPI_ACTION_EN (csr + QSPI_ACTION_REG) s)
              | Inr _ \<Rightarrow>
                  (case ioread8_rep (csr + QSPI_DATA_REG) len s of
                     (bs, s1) \<Rightarrow> Some (Inr bs, writel QSPI_ACTION_EN (csr + QSPI_ACTION_REG) s1))) w2)"

text \<open>
  One byte of an address: a mask of 32 bits, sign-extended to 64, and a shift of a signed number.
\<close>

definition offset_byte :: "u64 \<Rightarrow> nat \<Rightarrow> u8" where
  "offset_byte offset i =
     ucast (ucast (signed_drop_bit i (offset AND scast (push_bit i (0xff :: u32)))) :: u32)"

definition altera_asmip2_push_offset :: "u64 \<Rightarrow> spi_nor \<Rightarrow> u64 \<Rightarrow> world \<Rightarrow> world" where
  "altera_asmip2_push_offset csr nor offset w =
     fold (\<lambda>i. writeb (offset_byte offset (8 * i)) (csr + QSPI_DATA_REG)) (rev [0..<unat (nor_addr_width nor)]) w"

definition altera_asmip2_read :: "u64 \<Rightarrow> spi_nor \<Rightarrow> u64 \<Rightarrow> nat \<Rightarrow> (u8 list, world) nor_m" where
  "altera_asmip2_read csr nor from len w =
     (let bytes_to_read = min len QSPI_FIFO_DEPTH;
          w1 = writeb (nor_read_opcode nor) (csr + QSPI_DATA_REG) w;
          w2 = altera_asmip2_push_offset csr nor from w1;
          w3 = writel (QSPI_ACTION_EN OR QSPI_ACTION_SC OR push_bit QSPI_ACTION_DUMMY_SFT 10
                 OR push_bit QSPI_ACTION_READ_BACK_SFT (of_nat bytes_to_read)) (csr + QSPI_ACTION_REG) w2
      in nor_catch (qspi_poll csr (rx_holds bytes_to_read))
           (\<lambda>ret s. case ret of
              Inl _ \<Rightarrow> Some (Inr [], writel QSPI_ACTION_EN (csr + QSPI_ACTION_REG) s)
            | Inr _ \<Rightarrow>
                (case ioread8_rep (csr + QSPI_DATA_REG) bytes_to_read s of
                   (bs, s1) \<Rightarrow> Some (Inr bs, writel QSPI_ACTION_EN (csr + QSPI_ACTION_REG) s1))) w3)"

definition altera_asmip2_write :: "u64 \<Rightarrow> spi_nor \<Rightarrow> u64 \<Rightarrow> u8 list \<Rightarrow> (nat, world) nor_m" where
  "altera_asmip2_write csr nor to buf w =
     (let bytes_to_write = min (length buf) (QSPI_FIFO_DEPTH - (unat (nor_addr_width nor) + 1));
          w1 = writeb (nor_program_opcode nor) (csr + QSPI_DATA_REG) w;
          w2 = altera_asmip2_push_offset csr nor to w1;
          w3 = iowrite8_rep (csr + QSPI_DATA_REG) (take bytes_to_write buf) w2;
          w4 = writel (QSPI_ACTION_EN OR QSPI_ACTION_SC) (csr + QSPI_ACTION_REG) w3
      in nor_catch (qspi_poll csr tx_empty)
           (\<lambda>ret s. Some (Inr (case ret of Inl _ \<Rightarrow> 0 | Inr _ \<Rightarrow> bytes_to_write),
              writel QSPI_ACTION_EN (csr + QSPI_ACTION_REG) s)) w4)"

definition altera_asmip2_prep :: "spi_nor_ops \<Rightarrow> (unit, world) nor_m" where
  "altera_asmip2_prep ops w = nor_ok () (kvoid (Kfn ''mutex_lock'') [] w)"

definition altera_asmip2_unprep :: "spi_nor_ops \<Rightarrow> world \<Rightarrow> world" where
  "altera_asmip2_unprep ops w = kvoid (Kfn ''mutex_unlock'') [] w"

text \<open>The kernel's tick counter.\<close>

definition read_jiffies :: "world \<Rightarrow> u64 \<times> world" where
  "read_jiffies w =
     (case kvalue (Kfn ''jiffies'') [] w of (Inl _, w1) \<Rightarrow> (0, w1) | (Inr t, w1) \<Rightarrow> (of_int t, w1))"

text \<open>What \<^verbatim>\<open>altera_asmip2_setup_banks\<close> gives to the framework.\<close>

definition asmip2_driver :: "u64 \<Rightarrow> world nor_driver" where
  "asmip2_driver csr =
     \<lparr>nd_prepare = Some altera_asmip2_prep,
      nd_unprepare = Some altera_asmip2_unprep,
      nd_read_reg = Some (altera_asmip2_read_reg csr),
      nd_write_reg = Some (altera_asmip2_write_reg csr),
      nd_read = Some (altera_asmip2_read csr),
      nd_write = Some (altera_asmip2_write csr),
      nd_erase = None,
      nd_jiffies = read_jiffies\<rparr>"

subsection \<open>Banks\<close>

record asmip2 =
  csr_base :: u64
  num_flashes :: u32
  asmip2_flash :: "spi_nor option list"

definition zeroed_nor :: spi_nor where
  "zeroed_nor =
     \<lparr>mtd_size = 0, mtd_erasesize = 0, mtd_writebufsize = 0, mtd_no_erase = False, mtd_write = None,
      mtd_lock = False, nor_page_size = 0, nor_addr_width = 0, nor_erase_opcode = 0,
      nor_read_opcode = 0, nor_read_dummy = 0, nor_program_opcode = 0, nor_flash_read = SPI_NOR_NORMAL,
      nor_sst_write_second = False, nor_flags = 0, nor_stm_lock = False\<rparr>"

text \<open>
  The slot of a bank is taken before the scan, and stays taken if the scan or the registration fails;
  what a failed scan leaves in the record is not looked at again.
\<close>

definition altera_asmip2_setup_banks ::
  "nor_kernel \<Rightarrow> u32 \<Rightarrow> bool option \<Rightarrow> asmip2 \<Rightarrow> world \<Rightarrow> ((unit res \<times> asmip2) \<times> world) option" where
  "altera_asmip2_setup_banks k bank np q w =
     (if num_flashes q - 1 < bank then Some ((Inl EINVAL, q), w)
      else
        (case kcall (Kfn ''devm_kzalloc'') [] w of
           (Inl _, w1) \<Rightarrow> Some ((Inl ENOMEM, q), w1)
         | (Inr _, w1) \<Rightarrow>
             (let q1 = q\<lparr>asmip2_flash := (asmip2_flash q)[unat bank := Some zeroed_nor]\<rparr> in
              case spi_nor_scan k (asmip2_driver (csr_base q)) None SPI_NOR_FAST np zeroed_nor w1 of
                None \<Rightarrow> None
              | Some (Inl e, w2) \<Rightarrow> Some ((Inl e, q1), w2)
              | Some (Inr nor, w2) \<Rightarrow>
                  (case kstatus (Kfn ''mtd_device_register'') [uint bank] w2 of
                     (ret, w3) \<Rightarrow>
                       Some ((ret, q\<lparr>asmip2_flash := (asmip2_flash q)[unat bank := Some nor]\<rparr>), w3)))))"

definition altera_asmip2_create :: "u64 \<Rightarrow> world \<Rightarrow> asmip2 res \<times> world" where
  "altera_asmip2_create csr w =
     (case kcall (Kfn ''devm_kzalloc'') [] w of
        (Inl _, w1) \<Rightarrow> (Inl ENOMEM, w1)
      | (Inr _, w1) \<Rightarrow>
          (let (reg, w2) = readl (csr + QSPI_ACTION_REG) w1;
               w3 = (if reg AND QSPI_ACTION_RST = 0
                     then udelay 10 (writel (reg OR QSPI_ACTION_RST) (csr + QSPI_ACTION_REG) w2) else w2);
               w4 = udelay 10 (writel (reg AND NOT QSPI_ACTION_RST) (csr + QSPI_ACTION_REG) w3)
           in (Inr \<lparr>csr_base = csr, num_flashes = 0, asmip2_flash = replicate 3 None\<rparr>, w4)))"

definition altera_asmip2_add_bank ::
  "nor_kernel \<Rightarrow> u32 \<Rightarrow> bool option \<Rightarrow> asmip2 \<Rightarrow> world \<Rightarrow> ((unit res \<times> asmip2) \<times> world) option" where
  "altera_asmip2_add_bank k bank np q w =
     (if ALTERA_ASMIP2_MAX_NUM_FLASH_CHIP \<le> num_flashes q then Some ((Inl ENOMEM, q), w)
      else altera_asmip2_setup_banks k bank np (q\<lparr>num_flashes := num_flashes q + 1\<rparr>) w)"

text \<open>The loop over the banks, from bank \<open>i\<close> on; the driver data may be absent.\<close>

fun remove_banks_from :: "nat \<Rightarrow> spi_nor option list \<Rightarrow> world \<Rightarrow> unit res \<times> world" where
  "remove_banks_from i [] w = (Inr (), w)"
| "remove_banks_from i (None # fs) w = remove_banks_from (Suc i) fs w"
| "remove_banks_from i (Some nor # fs) w =
     (case kstatus (Kfn ''mtd_device_unregister'') [int i] w of
        (Inl e, w1) \<Rightarrow> (Inl e, w1)
      | (Inr _, w1) \<Rightarrow> remove_banks_from (Suc i) fs w1)"

definition altera_asmip2_remove_banks :: "asmip2 option \<Rightarrow> world \<Rightarrow> unit res \<times> world" where
  "altera_asmip2_remove_banks drvdata w =
     (case drvdata of
        None \<Rightarrow> (Inl EINVAL, w)
      | Some q \<Rightarrow> remove_banks_from 0 (take (unat (num_flashes q)) (asmip2_flash q)) w)"

subsection \<open>Probe and remove\<close>

record altera_asmip2_plat_data =
  plat_csr_base :: u64
  num_chip_sel :: u32

text \<open>The loop over the chip selects; \<open>n\<close> of them are left.\<close>

fun add_banks ::
  "nor_kernel \<Rightarrow> nat \<Rightarrow> u32 \<Rightarrow> asmip2 \<Rightarrow> world \<Rightarrow> ((unit res \<times> asmip2) \<times> world) option" where
  "add_banks k 0 i q w = Some ((Inr (), q), w)"
| "add_banks k (Suc n) i q w =
     (case altera_asmip2_add_bank k i None q w of
        None \<Rightarrow> None
      | Some ((Inl e, q1), w1) \<Rightarrow> Some ((Inl e, q1), w1)
      | Some ((Inr _, q1), w1) \<Rightarrow> add_banks k n (i + 1) q1 w1)"

text \<open>The result comes with the driver data that the device is left with.\<close>

definition altera_asmip2_probe_with_pdata ::
  "nor_kernel \<Rightarrow> altera_asmip2_plat_data \<Rightarrow> asmip2 option \<Rightarrow> world \<Rightarrow>
   ((unit res \<times> asmip2 option) \<times> world) option" where
  "altera_asmip2_probe_with_pdata k qdata drvdata w =
     (case altera_asmip2_create (plat_csr_base qdata) w of
        (Inl e, w1) \<Rightarrow> Some ((Inl e, drvdata), w1)
      | (Inr q, w1) \<Rightarrow>
          (case add_banks k (unat (num_chip_sel qdata)) 0 q w1 of
             None \<Rightarrow> None
           | Some ((r, q1), w2) \<Rightarrow> Some ((r, Some q1), w2)))"

text \<open>
  A child node is its \<^verbatim>\<open>reg\<close> property, if it has one, and its fast-read property. The bank number is
  a variable of the function: a node without a \<^verbatim>\<open>reg\<close> has the number of the node before it.
\<close>

fun add_nodes ::
  "nor_kernel \<Rightarrow> (u32 option \<times> bool) list \<Rightarrow> u32 \<Rightarrow> asmip2 \<Rightarrow> world \<Rightarrow> ((unit res \<times> asmip2) \<times> world) option" where
  "add_nodes k [] bank q w = Some ((Inr (), q), w)"
| "add_nodes k ((reg, fast_read) # ns) bank q w =
     (let bank1 = (case reg of None \<Rightarrow> bank | Some r \<Rightarrow> r);
          failed = (\<lambda>q1 w1. case altera_asmip2_remove_banks (Some q1) w1 of
                              (_, w2) \<Rightarrow> Some ((Inl EIO, q1), w2))
      in if ALTERA_ASMIP2_MAX_NUM_FLASH_CHIP \<le> bank1 then failed q w
         else
           (case altera_asmip2_add_bank k bank1 (Some fast_read) q w of
              None \<Rightarrow> None
            | Some ((Inl _, q1), w1) \<Rightarrow> failed q1 w1
            | Some ((Inr _, q1), w1) \<Rightarrow> add_nodes k ns bank1 q1 w1))"

text \<open>
  The probe: with platform data, or with the device tree, whose children are \<open>nodes\<close>, if the kernel
  has one. \<open>bank0\<close> is what the bank variable holds before it is set.
\<close>

definition altera_asmip2_probe ::
  "nor_kernel \<Rightarrow> altera_asmip2_plat_data option \<Rightarrow> bool \<Rightarrow> (u32 option \<times> bool) list option \<Rightarrow> u32 \<Rightarrow>
   asmip2 option \<Rightarrow> world \<Rightarrow> ((unit res \<times> asmip2 option) \<times> world) option" where
  "altera_asmip2_probe k platdata config_of np bank0 drvdata w =
     (case platdata of
        Some qdata \<Rightarrow> altera_asmip2_probe_with_pdata k qdata drvdata w
      | None \<Rightarrow>
          if \<not> config_of then Some ((Inl EINVAL, drvdata), w)
          else
            (case np of
               None \<Rightarrow> Some ((Inl ENODEV, drvdata), w)
             | Some nodes \<Rightarrow>
                 (case kvalue (Kfn ''devm_ioremap_resource'') [] w of
                    (Inl e, w1) \<Rightarrow> Some ((Inl e, drvdata), w1)
                  | (Inr csr, w1) \<Rightarrow>
                      (case altera_asmip2_create (of_int csr) w1 of
                         (Inl e, w2) \<Rightarrow> Some ((Inl e, drvdata), w2)
                       | (Inr q, w2) \<Rightarrow>
                           (case add_nodes k nodes bank0 q w2 of
                              None \<Rightarrow> None
                            | Some ((r, q1), w3) \<Rightarrow> Some ((r, Some q1), w3))))))"

definition altera_asmip2_remove :: "asmip2 option \<Rightarrow> world \<Rightarrow> unit res \<times> world" where
  "altera_asmip2_remove drvdata w = altera_asmip2_remove_banks drvdata (kvoid (Kfn ''mutex_destroy'') [] w)"

end
