(* ===== verification/Spi_Nor_Commands.thy ===== *)
theory Spi_Nor_Commands
  imports Spi_Nor "HOL-Library.Sublist"
begin

text \<open>
  What the framework makes of its operations: the commands that reach the chip. The interface
  \<open>flash_driver\<close> says of a controller driver that each of its functions hands the chip one frame of
  bytes, an opcode with its operands. The lemmas of the interface give the frames of an erase, a read
  and a write, whatever the driver.
\<close>

subsection \<open>Frames\<close>

text \<open>The frames that only ask whether the chip is ready.\<close>

definition is_poll :: "u8 list \<Rightarrow> bool" where
  "is_poll f \<longleftrightarrow> f = [SPINOR_OP_RDSR] \<or> f = [SPINOR_OP_RDFSR] \<or> f = [SPINOR_OP_XRDSR]"

definition commands :: "u8 list list \<Rightarrow> u8 list list" where
  "commands fs = filter (\<lambda>f. \<not> is_poll f) fs"

lemma commands_append [simp]: "commands (fs @ gs) = commands fs @ commands gs"
  by (simp add: commands_def)

lemma commands_poll [simp]:
  "commands [[SPINOR_OP_RDSR]] = []" "commands [[SPINOR_OP_RDFSR]] = []" "commands [[SPINOR_OP_XRDSR]] = []"
  "commands [] = []"
  by (simp_all add: commands_def is_poll_def)

lemma commands_write_enable [simp]:
  "commands [[SPINOR_OP_WREN]] = [[SPINOR_OP_WREN]]" "commands [[SPINOR_OP_WRDI]] = [[SPINOR_OP_WRDI]]"
  "commands [[SPINOR_OP_CHIP_ERASE]] = [[SPINOR_OP_CHIP_ERASE]]"
  by (simp_all add: commands_def is_poll_def SPINOR_OP_WREN_def SPINOR_OP_WRDI_def SPINOR_OP_CHIP_ERASE_def
      SPINOR_OP_RDSR_def SPINOR_OP_RDFSR_def SPINOR_OP_XRDSR_def)

lemma commands_long [simp]: "bs \<noteq> [] \<Longrightarrow> commands [op # bs] = [op # bs]"
  by (simp add: commands_def is_poll_def)

lemma length_addr_bytes [simp]: "length (addr_bytes n a) = n"
  by (simp add: addr_bytes_def)

lemma addr_bytes_ne: "addr_bytes n a = [] \<longleftrightarrow> n = 0"
  by (metis length_0_conv length_addr_bytes)

text \<open>From one state to another: what the driver keeps holds, and these commands were sent.\<close>

definition did :: "('s \<Rightarrow> bool) \<Rightarrow> ('s \<Rightarrow> u8 list list) \<Rightarrow> 's \<Rightarrow> u8 list list \<Rightarrow> 's \<Rightarrow> bool" where
  "did ok sent s cs s' \<longleftrightarrow> ok s' \<and> commands (sent s') = commands (sent s) @ cs"

lemma did_refl [simp]: "ok s \<Longrightarrow> did ok sent s [] s"
  by (simp add: did_def)

lemma did_trans: "did ok sent s cs s1 \<Longrightarrow> did ok sent s1 ds s2 \<Longrightarrow> did ok sent s (cs @ ds) s2"
  by (simp add: did_def)

lemma did_ok: "did ok sent s cs s' \<Longrightarrow> ok s'"
  by (simp add: did_def)

lemma did_same: "ok s' \<and> sent s' = sent s \<Longrightarrow> did ok sent s [] s'"
  by (simp add: did_def)

subsection \<open>What the commands of an operation are\<close>

definition erase_addr :: "spi_nor \<Rightarrow> u32 \<Rightarrow> u32" where
  "erase_addr nor addr =
     (if has_flag nor SNOR_F_S3AN_ADDR_DEFAULT then ucast (spi_nor_s3an_addr_convert nor addr) else addr)"

text \<open>The erase of \<open>n\<close> sectors: each is enabled and named by its address.\<close>

fun erase_commands :: "spi_nor \<Rightarrow> nat \<Rightarrow> u32 \<Rightarrow> u8 list list" where
  "erase_commands nor 0 addr = []"
| "erase_commands nor (Suc n) addr =
     [SPINOR_OP_WREN]
     # (nor_erase_opcode nor # addr_bytes (unat (nor_addr_width nor)) (ucast (erase_addr nor addr)))
     # erase_commands nor n (addr + mtd_erasesize nor)"

text \<open>The commands of an erase that succeeds.\<close>

definition range_commands :: "spi_nor \<Rightarrow> u32 \<Rightarrow> u64 \<Rightarrow> u8 list list" where
  "range_commands nor addr len =
     (if len = mtd_size nor \<and> \<not> has_flag nor SNOR_F_NO_OP_CHIP_ERASE
      then [[SPINOR_OP_WREN], [SPINOR_OP_CHIP_ERASE]]
      else erase_commands nor (unat len div unat (mtd_erasesize nor)) addr) @ [[SPINOR_OP_WRDI]]"

text \<open>Pieces of data with their addresses, each where the one before it ends.\<close>

fun consecutive :: "u64 \<Rightarrow> (u64 \<times> u8 list) list \<Rightarrow> bool" where
  "consecutive a [] \<longleftrightarrow> True"
| "consecutive a ((b, bs) # cs) \<longleftrightarrow> b = a \<and> consecutive (a + of_nat (length bs)) cs"

definition write_commands :: "spi_nor \<Rightarrow> (u64 \<times> u8 list) list \<Rightarrow> u8 list list" where
  "write_commands nor cs =
     concat (map (\<lambda>(a, bs). [[SPINOR_OP_WREN],
       nor_program_opcode nor # addr_bytes (unat (nor_addr_width nor)) (chip_addr nor a) @ bs]) cs)"

definition read_commands :: "spi_nor \<Rightarrow> (u64 \<times> u8 list) list \<Rightarrow> u8 list list" where
  "read_commands nor cs =
     map (\<lambda>(a, bs). nor_read_opcode nor # addr_bytes (unat (nor_addr_width nor)) (chip_addr nor a)) cs"

text \<open>The read commands with the bytes that answer them.\<close>

definition read_replies :: "spi_nor \<Rightarrow> (u64 \<times> u8 list) list \<Rightarrow> (u8 list \<times> u8 list) list" where
  "read_replies nor cs =
     map (\<lambda>(a, bs). (nor_read_opcode nor # addr_bytes (unat (nor_addr_width nor)) (chip_addr nor a), bs)) cs"

text \<open>No piece crosses the end of a page.\<close>

definition within_page :: "spi_nor \<Rightarrow> u64 \<times> u8 list \<Rightarrow> bool" where
  "within_page nor c \<longleftrightarrow>
     unat (fst c) mod unat (nor_page_size nor) + length (snd c) \<le> unat (nor_page_size nor)"

text \<open>\<^verbatim>\<open>hweight32\<close> counts the ones, so it is 1 for powers of two only.\<close>

definition hweight_ok :: "nor_kernel \<Rightarrow> bool" where
  "hweight_ok k \<longleftrightarrow> (\<forall>x. nk_hweight32 k x = 1 \<longrightarrow> (\<exists>n. unat x = 2 ^ n))"

lemma unat_ucast32: "unat (ucast (x :: u32) :: u64) = unat x"
  using unat_u32_less [of x]
  by (simp add: unsigned_ucast_eq take_bit_nat_eq_self_iff order.strict_trans2 [OF unat_u32_less])

lemma page_offset_mod:
  assumes "hweight_ok k" and "nor_page_size nor \<noteq> 0"
  shows "unat (page_offset k nor a) = unat a mod unat (nor_page_size nor)"
proof (cases "nk_hweight32 k (nor_page_size nor) = 1")
  case True
  then obtain n where n: "unat (nor_page_size nor) = 2 ^ n"
    using assms by (auto simp: hweight_ok_def)
  have "(2::nat) ^ n < 2 ^ 32"
    using unat_u32_less [of "nor_page_size nor"] n by simp
  then have "n < 32"
    by (rule power_less_imp_less_exp [rotated]) simp
  have "unat (nor_page_size nor - 1) = 2 ^ n - 1"
    using n assms(2) by (simp add: unat_minus_one)
  then have "(ucast (nor_page_size nor - 1) :: u64) = of_nat (2 ^ n - 1)"
    by (metis of_nat_unat)
  also have "\<dots> = mask n"
    by (simp add: mask_eq_exp_minus_1 of_nat_diff)
  finally have "(ucast (nor_page_size nor - 1) :: u64) = mask n" .
  then have "page_offset k nor a = take_bit n a"
    using True by (simp add: page_offset_def take_bit_eq_mask)
  then have "unat (page_offset k nor a) = take_bit n (unat a)"
    by (simp only: unsigned_take_bit_eq)
  then show ?thesis
    using n by (simp add: take_bit_eq_mod)
next
  case False
  then show ?thesis
    by (simp add: page_offset_def unat_mod_distrib unat_ucast32)
qed

lemma page_remain_le: "page_remain k nor a n \<le> n"
  by (simp add: page_remain_def)

lemma page_remain_fits:
  assumes "hweight_ok k" and "nor_page_size nor \<noteq> 0"
  shows "unat a mod unat (nor_page_size nor) + page_remain k nor a n \<le> unat (nor_page_size nor)"
proof -
  have pos: "0 < unat (nor_page_size nor)"
    using assms(2) by (simp add: unat_gt_0)
  have off: "unat (page_offset k nor a) < unat (nor_page_size nor)"
    using page_offset_mod [OF assms] pos by simp
  have "unat ((ucast (nor_page_size nor) :: u64) - page_offset k nor a)
      = unat (nor_page_size nor) - unat (page_offset k nor a)"
    using off by (subst unat_sub) (simp_all add: word_le_nat_alt unat_ucast32)
  then show ?thesis
    using page_offset_mod [OF assms, of a] off by (simp add: page_remain_def)
qed

subsection \<open>Controller drivers\<close>

text \<open>
  \<open>ok\<close> is what the driver keeps between its calls, \<open>sent\<close> the frames that the chip got so far,
  \<open>talk\<close> these frames, each with the bytes that came from the chip before the next one, and \<open>room\<close> the
  length of the longest frame.
\<close>

locale flash_driver =
  fixes D :: "'s nor_driver"
    and ok :: "'s \<Rightarrow> bool"
    and sent :: "'s \<Rightarrow> u8 list list"
    and talk :: "'s \<Rightarrow> (u8 list \<times> u8 list) list"
    and room :: nat
  assumes room_law: "5 < room"
    and prep_law: "ok s \<Longrightarrow> spi_nor_lock_and_prep D ops s = Some (r, s') \<Longrightarrow> ok s' \<and> sent s' = sent s"
    and prep_talk: "ok s \<Longrightarrow> spi_nor_lock_and_prep D ops s = Some (r, s') \<Longrightarrow> talk s' = talk s"
    and unprep_law: "ok s \<Longrightarrow> ok (spi_nor_unlock_and_unprep D ops s) \<and> sent (spi_nor_unlock_and_unprep D ops s) = sent s"
    and unprep_talk: "ok s \<Longrightarrow> talk (spi_nor_unlock_and_unprep D ops s) = talk s"
    and jiffies_law: "ok s \<Longrightarrow> nd_jiffies D s = (t, s') \<Longrightarrow> ok s' \<and> sent s' = sent s"
    and write_reg_law: "ok s \<Longrightarrow> length bs < room \<Longrightarrow> the (nd_write_reg D) op bs s = Some (ru, s') \<Longrightarrow>
          ok s' \<and> sent s' = sent s @ [op # bs]"
    and read_reg_law: "ok s \<Longrightarrow> n \<le> room \<Longrightarrow> the (nd_read_reg D) op n s = Some (rb, s') \<Longrightarrow>
          ok s' \<and> sent s' = sent s @ [[op]]"
    and read_law: "ok s \<Longrightarrow> nor_addr_width nor \<le> 4 \<Longrightarrow> the (nd_read D) nor a len s = Some (rb, s') \<Longrightarrow>
          ok s' \<and> sent s' = sent s @ [nor_read_opcode nor # addr_bytes (unat (nor_addr_width nor)) a]
          \<and> (\<forall>bs. rb = Inr bs \<longrightarrow> length bs \<le> len)"
    and read_talk: "ok s \<Longrightarrow> nor_addr_width nor \<le> 4 \<Longrightarrow> the (nd_read D) nor a len s = Some (rb, s') \<Longrightarrow>
          talk s' = talk s @ [(nor_read_opcode nor # addr_bytes (unat (nor_addr_width nor)) a,
            case rb of Inl _ \<Rightarrow> [] | Inr bs \<Rightarrow> bs)]"
    and write_law: "ok s \<Longrightarrow> nor_addr_width nor \<le> 4 \<Longrightarrow> the (nd_write D) nor a buf s = Some (rn, s') \<Longrightarrow>
          ok s' \<and> (\<exists>m \<le> length buf. (\<forall>n. rn = Inr n \<longrightarrow> n = m \<or> n = 0)
            \<and> sent s' = sent s @ [nor_program_opcode nor # addr_bytes (unat (nor_addr_width nor)) a @ take m buf])"
    and erase_law: "nd_erase D = None"
begin

lemma write_reg_did:
  assumes "ok s" and "length bs < room" and "the (nd_write_reg D) op bs s = Some (r, s')"
  shows "did ok sent s (commands [op # bs]) s'"
  using write_reg_law [OF assms] by (simp add: did_def)

lemma write_enable_did:
  "ok s \<Longrightarrow> write_enable D s = Some (r, s') \<Longrightarrow> did ok sent s [[SPINOR_OP_WREN]] s'"
  using write_reg_did [of s "[]" SPINOR_OP_WREN r s'] room_law by (simp add: write_enable_def)

lemma write_disable_did:
  "ok s \<Longrightarrow> write_disable D s = Some (r, s') \<Longrightarrow> did ok sent s [[SPINOR_OP_WRDI]] s'"
  using write_reg_did [of s "[]" SPINOR_OP_WRDI r s'] room_law by (simp add: write_disable_def)

lemma rd_reg_did:
  assumes "ok s" and "rd_reg D op s = Some (r, s')"
  shows "did ok sent s (commands [[op]]) s'"
  using assms(2) unfolding rd_reg_def
proof (cases rule: nor_chainE)
  case (err e)
  then show ?thesis
    using read_reg_law [OF assms(1) _ err(1)] room_law by (simp add: did_def)
next
  case (go a s1)
  then show ?thesis
    using read_reg_law [OF assms(1) _ go(1)] room_law by (simp add: did_def)
qed

lemma ready_did:
  assumes "ok s" and "spi_nor_ready D nor s = Some (r, s')"
  shows "did ok sent s [] s'"
proof -
  have reg: "did ok sent t [] t'"
    if "ok t" "rd_reg D op t = Some (q, t')" "commands [[op]] = []" for t op q t'
    using rd_reg_did [OF that(1,2)] that(3) by simp
  have one: "did ok sent t [] t'"
    if "ok t" "(if b then s3an_sr_ready D else spi_nor_sr_ready D) t = Some (q, t')" for t b q t'
    using that unfolding s3an_sr_ready_def spi_nor_sr_ready_def read_sr_def
    by (auto split: if_splits elim!: nor_chainE dest!: reg)
  have two: "did ok sent t [] t'"
    if "ok t" "(if b then spi_nor_fsr_ready D else nor_ok True) t = Some (q, t')" for t b q t'
    using that unfolding spi_nor_fsr_ready_def read_fsr_def
    by (auto split: if_splits elim!: nor_chainE dest!: reg)
  from assms(2) show ?thesis
    unfolding spi_nor_ready_def
  proof (cases rule: nor_chainE)
    case (err e)
    then show ?thesis
      using one [OF assms(1)] by blast
  next
    case (go a s1)
    have s1: "did ok sent s [] s1"
      using one [OF assms(1) go(1)] .
    from go(2) show ?thesis
    proof (cases rule: nor_chainE)
      case (err e)
      then show ?thesis
        using did_trans [OF s1 two [OF did_ok [OF s1]]] by simp
    next
      case (go b s2)
      then show ?thesis
        using did_trans [OF s1 two [OF did_ok [OF s1] go(1)]] by simp
    qed
  qed
qed

lemma jiffies_did: "ok s \<Longrightarrow> nd_jiffies D s = (t, s') \<Longrightarrow> did ok sent s [] s'"
  by (rule did_same) (rule jiffies_law)

lemma wait_loop_did:
  assumes "wait_ready_loop D' nor deadline s = Some y" and "D' = D" and "ok s"
  shows "did ok sent s [] (snd y)"
  using assms
proof (induction D' nor deadline s y rule: wait_ready_loop.raw_induct [rotated, consumes 1])
  case (1 loop D' nor deadline s y)
  obtain now s1 where j: "nd_jiffies D s = (now, s1)"
    by fastforce
  have s1: "did ok sent s [] s1"
    using jiffies_did [OF 1(4) j] .
  obtain r s2 where r: "spi_nor_ready D nor s1 = Some (r, s2)"
    using 1(2,3) j by (auto split: option.splits)
  have s2: "did ok sent s [] s2"
    using did_trans [OF s1 ready_did [OF did_ok [OF s1] r]] by simp
  show ?case
  proof (cases "\<exists>b. r = Inr b \<and> \<not> b \<and> \<not> time_after_eq now deadline")
    case True
    then have "loop D nor deadline s2 = Some y"
      using 1(2,3) j r by auto
    then show ?thesis
      using did_trans [OF s2 1(1) [OF _ refl did_ok [OF s2]]] 1(3) by simp
  next
    case False
    then have "snd y = s2"
      using 1(2,3) j r by (auto split: sum.splits if_splits)
    then show ?thesis
      using s2 by simp
  qed
qed

lemma wait_timeout_did:
  assumes "ok s" and "spi_nor_wait_till_ready_with_timeout D nor t s = Some (r, s')"
  shows "did ok sent s [] s'"
proof -
  obtain now s1 where j: "nd_jiffies D s = (now, s1)"
    by fastforce
  have s1: "did ok sent s [] s1"
    using jiffies_did [OF assms(1) j] .
  have "wait_ready_loop D nor (now + t) s1 = Some (r, s')"
    using assms(2) j by (simp add: spi_nor_wait_till_ready_with_timeout_def)
  then show ?thesis
    using did_trans [OF s1 wait_loop_did [OF _ refl did_ok [OF s1]]] by fastforce
qed

lemma wait_did:
  "ok s \<Longrightarrow> spi_nor_wait_till_ready k D nor s = Some (r, s') \<Longrightarrow> did ok sent s [] s'"
  unfolding spi_nor_wait_till_ready_def by (rule wait_timeout_did)

lemma prep_did: "ok s \<Longrightarrow> spi_nor_lock_and_prep D ops s = Some (r, s') \<Longrightarrow> did ok sent s [] s'"
  by (rule did_same) (rule prep_law)

lemma unprep_did: "ok s \<Longrightarrow> did ok sent s [] (spi_nor_unlock_and_unprep D ops s)"
  by (rule did_same) (rule unprep_law)

text \<open>An operation between the driver's prepare and unprepare.\<close>

lemma prepared_did:
  assumes "spi_nor_lock_and_prep D ops s = Some (r, s1)" and "ok s"
    and "did ok sent s1 cs s2" and "s' = spi_nor_unlock_and_unprep D ops s2"
  shows "did ok sent s cs s'"
  using did_trans [OF did_trans [OF prep_did [OF assms(2,1)] assms(3)] unprep_did [OF did_ok [OF assms(3)]]]
    assms(4) by simp

text \<open>Erasing.\<close>

lemma erase_sector_did:
  assumes "ok s" and "0 < nor_addr_width nor" and "nor_addr_width nor \<le> 4"
    and "spi_nor_erase_sector D nor addr s = Some (r, s')"
  shows "did ok sent s
    [nor_erase_opcode nor # addr_bytes (unat (nor_addr_width nor)) (ucast (erase_addr nor addr))] s'"
proof -
  have w: "0 < unat (nor_addr_width nor)" "unat (nor_addr_width nor) \<le> 4"
    using assms(2,3) by (simp_all add: word_less_nat_alt word_le_nat_alt)
  then have "addr_bytes (unat (nor_addr_width nor)) (ucast (erase_addr nor addr)) \<noteq> []"
    by (simp add: addr_bytes_ne)
  moreover have "the (nd_write_reg D) (nor_erase_opcode nor)
      (addr_bytes (unat (nor_addr_width nor)) (ucast (erase_addr nor addr))) s = Some (r, s')"
    using assms(4) by (simp add: spi_nor_erase_sector_def erase_law erase_addr_def Let_def)
  ultimately show ?thesis
    using write_reg_did [OF assms(1), of "addr_bytes (unat (nor_addr_width nor)) (ucast (erase_addr nor addr))"]
      w room_law by simp
qed

text \<open>One round of the loop: the commands of a sector, whether it ends well or not.\<close>

lemma erase_round_did:
  assumes "ok s" and "0 < nor_addr_width nor" and "nor_addr_width nor \<le> 4"
    and "nor_catch (write_enable D) (\<lambda>_. nor_chain (spi_nor_erase_sector D nor addr)
           (\<lambda>_. spi_nor_wait_till_ready k D nor)) s = Some (r, s')"
  shows "did ok sent s (erase_commands nor 1 addr) s'"
  using assms(4)
proof (cases rule: nor_catchE)
  case (1 r1 s1)
  have s1: "did ok sent s [[SPINOR_OP_WREN]] s1"
    using write_enable_did [OF assms(1) 1(1)] .
  from 1(2) show ?thesis
  proof (cases rule: nor_chainE)
    case (err e)
    then show ?thesis
      using did_trans [OF s1 erase_sector_did [OF did_ok [OF s1] assms(2,3)]] by simp
  next
    case (go a s2)
    have s2: "did ok sent s (erase_commands nor 1 addr) s2"
      using did_trans [OF s1 erase_sector_did [OF did_ok [OF s1] assms(2,3) go(1)]] by simp
    show ?thesis
      using did_trans [OF s2 wait_did [OF did_ok [OF s2] go(2)]] by simp
  qed
qed

lemma erase_commands_Suc:
  "erase_commands nor (Suc n) addr = erase_commands nor 1 addr @ erase_commands nor n (addr + mtd_erasesize nor)"
  by simp

lemma erase_sectors_did:
  assumes "erase_sectors k D' nor addr len s = Some y" and "D' = D" and "ok s"
    and "0 < nor_addr_width nor" and "nor_addr_width nor \<le> 4"
  shows "\<exists>n. did ok sent s (erase_commands nor n addr) (snd y)
    \<and> (fst y = Inr () \<longrightarrow> unat (mtd_erasesize nor) dvd unat len \<longrightarrow> n = unat len div unat (mtd_erasesize nor))"
  using assms
proof (induction k D' nor addr len s y rule: erase_sectors.raw_induct [rotated, consumes 1])
  case (1 loop k D' nor addr len s y)
  show ?case
  proof (cases "len = 0")
    case True
    then have "y = (Inr (), s)"
      using 1(2) by simp
    then show ?thesis
      using True 1(4) by (intro exI [of _ 0]) simp
  next
    case False
    then obtain r s1 where r: "nor_catch (write_enable D) (\<lambda>_. nor_chain (spi_nor_erase_sector D nor addr)
           (\<lambda>_. spi_nor_wait_till_ready k D nor)) s = Some (r, s1)"
      using 1(2,3) by (auto split: option.splits)
    note s1 = erase_round_did [OF 1(4-6) r]
    show ?thesis
    proof (cases r)
      case (Inl e)
      then have "y = (Inl e, s1)"
        using 1(2,3) r False by simp
      then show ?thesis
        using s1 by (intro exI [of _ 1]) simp
    next
      case (Inr u)
      then have go: "loop k D nor (addr + mtd_erasesize nor) (len - mtd_erasesize nor) s1 = Some y"
        using 1(2,3) r False by simp
      obtain n where n: "did ok sent s1 (erase_commands nor n (addr + mtd_erasesize nor)) (snd y)"
        "fst y = Inr () \<longrightarrow> unat (mtd_erasesize nor) dvd unat (len - mtd_erasesize nor)
          \<longrightarrow> n = unat (len - mtd_erasesize nor) div unat (mtd_erasesize nor)"
        using 1(1) [OF go refl did_ok [OF s1] 1(5,6)] by blast
      have "Suc n = unat len div unat (mtd_erasesize nor)"
        if "fst y = Inr ()" "unat (mtd_erasesize nor) dvd unat len"
      proof -
        have pos: "0 < unat len"
          using False by (simp add: unat_gt_0)
        have le: "unat (mtd_erasesize nor) \<le> unat len"
          using that(2) pos by (rule dvd_imp_le)
        have es: "0 < unat (mtd_erasesize nor)"
          using that(2) pos by (metis dvd_0_left_iff gr0I less_numeral_extra(3))
        have sub: "unat (len - mtd_erasesize nor) = unat len - unat (mtd_erasesize nor)"
          using le by (simp add: unat_sub word_le_nat_alt)
        have "n = (unat len - unat (mtd_erasesize nor)) div unat (mtd_erasesize nor)"
          using n(2) that le by (simp add: sub dvd_diff_nat)
        then show ?thesis
          using le es by (simp add: le_div_geq)
      qed
      moreover have "did ok sent s (erase_commands nor (Suc n) addr) (snd y)"
        using did_trans [OF s1 n(1)] by simp
      ultimately show ?thesis
        by blast
    qed
  qed
qed

lemma erase_range_did:
  assumes "ok s" and "0 < nor_addr_width nor" and "nor_addr_width nor \<le> 4"
    and "erase_range k D nor addr len s = Some (r, s')"
  shows "ok s' \<and> (r = Inr () \<longrightarrow> unat (mtd_erasesize nor) dvd unat len \<longrightarrow>
    did ok sent s (range_commands nor addr (ucast len)) s')"
proof -
  let ?whole = "ucast len = mtd_size nor \<and> \<not> has_flag nor SNOR_F_NO_OP_CHIP_ERASE"
  let ?cs = "if ?whole then [[SPINOR_OP_WREN], [SPINOR_OP_CHIP_ERASE]]
        else erase_commands nor (unat len div unat (mtd_erasesize nor)) addr"
  let ?chip = "nor_catch (write_enable D) (\<lambda>_. nor_catch (erase_chip D)
          (\<lambda>r. case r of Inl _ \<Rightarrow> nor_fail EIO
               | Inr _ \<Rightarrow> spi_nor_wait_till_ready_with_timeout D nor (erase_timeout k nor)))"
  have chip: "did ok sent s [[SPINOR_OP_WREN], [SPINOR_OP_CHIP_ERASE]] t"
    if "?chip s = Some (q, t)" for q t
    using that
  proof (cases rule: nor_catchE)
    case (1 r1 s1)
    have s1: "did ok sent s [[SPINOR_OP_WREN]] s1"
      using write_enable_did [OF assms(1) 1(1)] .
    from 1(2) show ?thesis
    proof (cases rule: nor_catchE)
      case (1 r2 s2)
      have s2: "did ok sent s [[SPINOR_OP_WREN], [SPINOR_OP_CHIP_ERASE]] s2"
        using did_trans [OF s1 write_reg_did [OF did_ok [OF s1], of "[]"]] 1(1) room_law
        by (fastforce simp: erase_chip_def)
      show ?thesis
        using 1(2) s2 did_trans [OF s2 wait_timeout_did [OF did_ok [OF s2]]]
        by (cases r2) auto
    qed
  qed
  have body: "ok t \<and> (q = Inr () \<longrightarrow> unat (mtd_erasesize nor) dvd unat len \<longrightarrow> did ok sent s ?cs t)"
    if "(if ?whole then ?chip else erase_sectors k D nor addr len) s = Some (q, t)" for q t
  proof (cases ?whole)
    case True
    have c: "did ok sent s [[SPINOR_OP_WREN], [SPINOR_OP_CHIP_ERASE]] t"
      using that unfolding if_P [OF True] by (rule chip)
    show ?thesis
      unfolding if_P [OF True] using c did_ok [OF c] by blast
  next
    case False
    then have "erase_sectors k D nor addr len s = Some (q, t)"
      using that by (simp only: if_False)
    from erase_sectors_did [OF this refl assms(1-3)] show ?thesis
      using False did_ok [of ok sent s _ t] by auto
  qed
  have "ok s' \<and> (r = Inr () \<longrightarrow> unat (mtd_erasesize nor) dvd unat len \<longrightarrow>
      did ok sent s (?cs @ [[SPINOR_OP_WRDI]]) s')"
    using assms(4) unfolding erase_range_def
  proof (cases rule: nor_chainE)
    case (err e)
    then show ?thesis
      using body [OF err(1)] by simp
  next
    case (go u s1)
    have s1: "ok s1" "unat (mtd_erasesize nor) dvd unat len \<longrightarrow> did ok sent s ?cs s1"
      using body [OF go(1)] by simp_all
    obtain q where q: "write_disable D s1 = Some (q, s')"
      using go(2) by (auto elim!: nor_catchE)
    show ?thesis
      using write_disable_did [OF s1(1) q] s1(2) did_trans [of ok sent s] did_ok [of ok sent s1] by blast
  qed
  then show ?thesis
    unfolding range_commands_def unat_ucast32 .
qed

text \<open>Writing: what was sent is a beginning of the data in consecutive pieces.\<close>

lemma write_loop_did:
  assumes "write_loop k D' nor to buf i s = Some y" and "D' = D" and "ok s"
    and "0 < nor_addr_width nor" and "nor_addr_width nor \<le> 4" and "hweight_ok k" and "nor_page_size nor \<noteq> 0" and "i \<le> length buf"
  shows "\<exists>cs. did ok sent s (write_commands nor cs) (snd y) \<and> consecutive (to + of_nat i) cs
    \<and> (\<forall>c \<in> set cs. within_page nor c)
    \<and> prefix (concat (map snd cs)) (drop i buf)
    \<and> i \<le> snd (fst y) \<and> snd (fst y) \<le> i + length (concat (map snd cs))
    \<and> (fst (fst y) = Inr () \<longrightarrow> concat (map snd cs) = drop i buf \<and> snd (fst y) = length buf)"
  using assms
proof (induction k D' nor to buf i s y rule: write_loop.raw_induct [rotated, consumes 1])
  case (1 loop k D' nor to buf i s y)
  show ?case
  proof (cases "length buf \<le> i")
    case True
    then have "y = ((Inr (), i), s)"
      using 1(2) by simp
    then show ?thesis
      using True 1(4,9) by (intro exI [of _ "[]"]) (simp add: write_commands_def)
  next
    case False
    let ?a = "to + of_nat i" and ?n = "page_remain k nor (to + of_nat i) (length buf - i)"
    let ?step = "nor_catch (write_enable D)
      (\<lambda>_. the (nd_write D) nor (chip_addr nor ?a) (take ?n (drop i buf)))"
    have n: "?n \<le> length buf - i" "unat ?a mod unat (nor_page_size nor) + ?n \<le> unat (nor_page_size nor)"
      using page_remain_le page_remain_fits [OF 1(7,8)] by blast+
    obtain r s1 where r: "?step s = Some (r, s1)"
      using 1(2,3) False by (auto split: option.splits)
    obtain m where m: "m \<le> ?n" "\<forall>w. r = Inr w \<longrightarrow> w = m \<or> w = 0"
      "did ok sent s (write_commands nor [(?a, take m (drop i buf))]) s1"
      using r
    proof (cases rule: nor_catchE)
      case (1 r1 t)
      have t: "did ok sent s [[SPINOR_OP_WREN]] t"
        using write_enable_did [OF \<open>ok s\<close> 1(1)] .
      obtain m where m: "ok s1" "m \<le> ?n" "\<forall>w. r = Inr w \<longrightarrow> w = m \<or> w = 0"
        "sent s1 = sent t @ [nor_program_opcode nor
           # addr_bytes (unat (nor_addr_width nor)) (chip_addr nor ?a) @ take m (take ?n (drop i buf))]"
        using write_law [OF did_ok [OF t] \<open>nor_addr_width nor \<le> 4\<close> 1(2)] n(1) by auto
      show ?thesis
      proof (rule that [OF m(2,3)])
        have "addr_bytes (unat (nor_addr_width nor)) (chip_addr nor ?a) \<noteq> []"
          using \<open>0 < nor_addr_width nor\<close> by (simp add: addr_bytes_ne word_greater_zero_iff unat_eq_0)
        then have "did ok sent t [nor_program_opcode nor
           # addr_bytes (unat (nor_addr_width nor)) (chip_addr nor ?a) @ take m (drop i buf)] s1"
          using m by (simp add: did_def min_absorb1)
        then show "did ok sent s (write_commands nor [(?a, take m (drop i buf))]) s1"
          using did_trans [OF t] by (simp add: write_commands_def)
      qed
    qed
    have fits: "within_page nor (?a, take m (drop i buf))"
      using n(2) m(1) by (simp add: within_page_def)
    have len: "length (take m (drop i buf)) = m"
      using m(1) n(1) by simp
    show ?thesis
    proof (cases r)
      case (Inl e)
      then have "y = ((Inl e, i), s1)"
        using 1(2,3) r False by simp
      then show ?thesis
        using m(3) fits len take_is_prefix by (intro exI [of _ "[(?a, take m (drop i buf))]"]) simp
    next
      case (Inr w)
      obtain q s2 where q: "spi_nor_wait_till_ready k D nor s1 = Some (q, s2)"
        using 1(2,3) r False Inr by (auto split: option.splits)
      have s2: "did ok sent s (write_commands nor [(?a, take m (drop i buf))]) s2"
        using did_trans [OF m(3) wait_did [OF did_ok [OF m(3)] q]] by simp
      show ?thesis
      proof (cases "q = Inr () \<and> w = ?n")
        case True
        then have w: "w = m"
          using m(1,2) Inr by auto
        have go: "loop k D nor to buf (i + m) s2 = Some y"
          using 1(2,3) r False Inr q True w by auto
        obtain cs where cs: "did ok sent s2 (write_commands nor cs) (snd y)" "consecutive (to + of_nat (i + m)) cs"
          "\<forall>c \<in> set cs. within_page nor c"
          "prefix (concat (map snd cs)) (drop (i + m) buf)"
          "i + m \<le> snd (fst y)" "snd (fst y) \<le> i + m + length (concat (map snd cs))"
          "fst (fst y) = Inr () \<longrightarrow> concat (map snd cs) = drop (i + m) buf \<and> snd (fst y) = length buf"
          using 1(1) [OF go refl did_ok [OF s2] 1(5-8)] m(1) n(1) 1(9) by fastforce
        have split: "take m (drop i buf) @ drop (i + m) buf = drop i buf"
          by (metis append_take_drop_id drop_drop add.commute)
        have "prefix (take m (drop i buf) @ concat (map snd cs)) (drop i buf)"
          using cs(4) by (subst split [symmetric]) simp
        then show ?thesis
          using did_trans [OF s2 cs(1)] cs(2,3,5-7) split fits len
          by (intro exI [of _ "(?a, take m (drop i buf)) # cs"])
            (auto simp: write_commands_def add.assoc)
      next
        case False
        have "fst (fst y) \<noteq> Inr () \<and> snd (fst y) = (if q = Inr () then i + w else i) \<and> snd y = s2"
          using 1(2,3) r \<open>\<not> length buf \<le> i\<close> Inr q False by (auto split: sum.splits)
        then show ?thesis
          using m(2) Inr s2 fits len take_is_prefix
          by (intro exI [of _ "[(?a, take m (drop i buf))]"]) auto
      qed
    qed
  qed
qed

text \<open>Reading: the data are the replies to reads of consecutive addresses.\<close>

lemma read_loop_did:
  assumes "read_loop D' nor from len acc s = Some y" and "D' = D" and "ok s"
    and "0 < nor_addr_width nor" and "nor_addr_width nor \<le> 4"
  shows "\<exists>cs. did ok sent s (read_commands nor cs) (snd y) \<and> talk (snd y) = talk s @ read_replies nor cs
    \<and> consecutive from cs
    \<and> snd (fst y) = acc @ concat (map snd cs) \<and> length (concat (map snd cs)) \<le> unat len
    \<and> (fst (fst y) = Inr () \<longrightarrow> length (concat (map snd cs)) = unat len)"
  using assms
proof (induction D' nor "from" len acc s y rule: read_loop.raw_induct [rotated, consumes 1])
  case (1 loop D' nor "from" len acc s y)
  show ?case
  proof (cases "len = 0")
    case True
    then have "y = ((Inr (), acc), s)"
      using 1(2) by simp
    then show ?thesis
      using True 1(4) by (intro exI [of _ "[]"]) (simp add: read_commands_def read_replies_def)
  next
    case False
    obtain r s1 where r: "the (nd_read D) nor (chip_addr nor from) (unat len) s = Some (r, s1)"
      using 1(2,3) False by (auto split: option.splits)
    note law = read_law [OF 1(4,6) r] and talk = read_talk [OF 1(4,6) r]
    have s1: "did ok sent s (read_commands nor [(from, bs)]) s1" for bs
      using law 1(5) by (simp add: did_def read_commands_def addr_bytes_ne word_greater_zero_iff unat_eq_0)
    show ?thesis
    proof (cases "\<exists>bs. r = Inr bs \<and> bs \<noteq> []")
      case True
      then obtain bs where bs: "r = Inr bs" "bs \<noteq> []"
        by blast
      then have le: "length bs \<le> unat len"
        using law by simp
      then have "length bs < 2 ^ 64"
        using unat_u64_less [of len] by linarith
      then have "unat (of_nat (length bs) :: u64) = length bs"
        by (simp add: unsigned_of_nat take_bit_nat_eq_self_iff)
      then have sub: "unat (len - of_nat (length bs)) = unat len - length bs"
        using le by (subst unat_sub) (simp_all add: word_le_nat_alt)
      have go: "loop D nor (from + of_nat (length bs)) (len - of_nat (length bs)) (acc @ bs) s1 = Some y"
        using 1(2,3) False r bs by auto
      obtain cs where cs: "did ok sent s1 (read_commands nor cs) (snd y)" "talk (snd y) = talk s1 @ read_replies nor cs"
        "consecutive (from + of_nat (length bs)) cs" "snd (fst y) = (acc @ bs) @ concat (map snd cs)"
        "length (concat (map snd cs)) \<le> unat len - length bs"
        "fst (fst y) = Inr () \<longrightarrow> length (concat (map snd cs)) = unat len - length bs"
        using 1(1) [OF go refl did_ok [OF s1] 1(5,6)] sub by metis
      have "did ok sent s (read_commands nor ((from, bs) # cs)) (snd y)"
        using did_trans [OF s1 [of bs] cs(1)] by (simp add: read_commands_def)
      moreover have "talk (snd y) = talk s @ read_replies nor ((from, bs) # cs)"
        using cs(2) talk bs by (simp add: read_replies_def)
      ultimately show ?thesis
        using cs(3-6) le by (intro exI [of _ "(from, bs) # cs"]) auto
    next
      case none: False
      then have "y = ((Inl (case r of Inl e \<Rightarrow> e | Inr _ \<Rightarrow> EIO), acc), s1)"
        using 1(2,3) False r by (auto split: sum.splits)
      then show ?thesis
        using s1 [of "[]"] talk none
        by (intro exI [of _ "[(from, [])]"]) (auto simp: read_replies_def split: sum.splits)
    qed
  qed
qed

subsubsection \<open>The operations of the MTD\<close>

lemma spi_nor_erase_did:
  assumes "ok s" and "0 < nor_addr_width nor" and "nor_addr_width nor \<le> 4"
    and "spi_nor_erase k D nor addr len s = Some ((r, st), s')"
  shows "ok s' \<and> (r = Inr () \<longrightarrow> len < 2 ^ 32 \<longrightarrow>
    st = Some MTD_ERASE_DONE \<and> did ok sent s (range_commands nor (ucast addr) len) s')"
proof (cases "len mod ucast (mtd_erasesize nor) = 0")
  case False
  then show ?thesis
    using assms(1,4) by (auto simp: spi_nor_erase_def)
next
  case div: True
  then obtain p s1 where p: "spi_nor_lock_and_prep D SPI_NOR_OPS_ERASE s = Some (p, s1)"
    using assms(4) by (auto simp: spi_nor_erase_def split: option.splits)
  note s1 = prep_did [OF assms(1) p]
  show ?thesis
  proof (cases p)
    case (Inl e)
    then show ?thesis
      using assms(4) div p did_ok [OF s1] by (auto simp: spi_nor_erase_def)
  next
    case (Inr u)
    then obtain s2 where s2: "erase_range k D nor (ucast addr) (ucast len) s1 = Some (r, s2)"
      "s' = spi_nor_unlock_and_unprep D SPI_NOR_OPS_ERASE s2"
      "st = Some (case r of Inl _ \<Rightarrow> MTD_ERASE_FAILED | Inr _ \<Rightarrow> MTD_ERASE_DONE)"
      using assms(4) div p by (auto simp: spi_nor_erase_def split: option.splits)
    note range = erase_range_did [OF did_ok [OF s1] assms(2,3) s2(1)]
    have all: "did ok sent s (range_commands nor (ucast addr) len) s'" if "r = Inr ()" "len < 2 ^ 32"
    proof -
      have len: "unat (ucast len :: u32) = unat len"
        using that(2) by (simp add: word_less_nat_alt unsigned_ucast_eq take_bit_nat_eq_self_iff)
      have up: "(ucast (ucast len :: u32) :: u64) = len"
        using len by (simp add: word_unat_eq_iff unat_ucast32)
      have "unat len mod unat (mtd_erasesize nor) = 0"
        using div by (metis unat_mod_distrib unat_ucast32 unsigned_0)
      then have "did ok sent s1 (range_commands nor (ucast addr) len) s2"
        using range that(1) by (simp add: len up mod_0_imp_dvd)
      then show ?thesis
        by (rule prepared_did [OF p assms(1) _ s2(2)])
    qed
    then show ?thesis
      using range unprep_law s2(2,3) by simp
  qed
qed

lemma spi_nor_write_did:
  assumes "ok s" and "0 < nor_addr_width nor" and "nor_addr_width nor \<le> 4" and "hweight_ok k"
    and "nor_page_size nor \<noteq> 0" and "spi_nor_write k D nor to buf s = Some ((r, n), s')"
  obtains cs where "did ok sent s (write_commands nor cs) s'" and "consecutive to cs"
    and "\<forall>c \<in> set cs. within_page nor c" and "prefix (concat (map snd cs)) buf"
    and "n \<le> length (concat (map snd cs))" and "r = Inr () \<longrightarrow> concat (map snd cs) = buf \<and> n = length buf"
proof -
  obtain p s1 where p: "spi_nor_lock_and_prep D SPI_NOR_OPS_WRITE s = Some (p, s1)"
    using assms(6) by (auto simp: spi_nor_write_def split: option.splits)
  note s1 = prep_did [OF assms(1) p]
  show ?thesis
  proof (cases p)
    case (Inl e)
    then have "r = Inl e" "n = 0" "s' = s1"
      using assms(6) p by (auto simp: spi_nor_write_def)
    then show ?thesis
      using s1 by (intro that [of "[]"]) (simp_all add: write_commands_def)
  next
    case (Inr u)
    then obtain s2 where s2: "write_loop k D nor to buf 0 s1 = Some ((r, n), s2)"
      "s' = spi_nor_unlock_and_unprep D SPI_NOR_OPS_WRITE s2"
      using assms(6) p by (auto simp: spi_nor_write_def split: option.splits)
    from write_loop_did [OF s2(1) refl did_ok [OF s1] assms(2-5)]
    obtain cs where cs: "did ok sent s1 (write_commands nor cs) s2" "consecutive to cs"
      "\<forall>c \<in> set cs. within_page nor c" "prefix (concat (map snd cs)) buf"
      "n \<le> length (concat (map snd cs))" "r = Inr () \<longrightarrow> concat (map snd cs) = buf \<and> n = length buf"
      by fastforce
    show ?thesis
      by (rule that [OF prepared_did [OF p assms(1) cs(1) s2(2)] cs(2-6)])
  qed
qed

lemma spi_nor_read_did:
  assumes "ok s" and "0 < nor_addr_width nor" and "nor_addr_width nor \<le> 4"
    and "spi_nor_read D nor from len s = Some ((r, bs), s')"
  obtains cs where "did ok sent s (read_commands nor cs) s'" and "talk s' = talk s @ read_replies nor cs"
    and "consecutive from cs" and "bs = concat (map snd cs)" and "length bs \<le> unat len" and "r = Inr () \<longrightarrow> length bs = unat len"
proof -
  obtain p s1 where p: "spi_nor_lock_and_prep D SPI_NOR_OPS_READ s = Some (p, s1)"
    using assms(4) by (auto simp: spi_nor_read_def split: option.splits)
  note s1 = prep_did [OF assms(1) p]
  show ?thesis
  proof (cases p)
    case (Inl e)
    then have "r = Inl e" "bs = []" "s' = s1"
      using assms(4) p by (auto simp: spi_nor_read_def)
    then show ?thesis
      using s1 prep_talk [OF assms(1) p] by (intro that [of "[]"]) (simp_all add: read_commands_def read_replies_def)
  next
    case (Inr u)
    then obtain s2 where s2: "read_loop D nor from len [] s1 = Some ((r, bs), s2)"
      "s' = spi_nor_unlock_and_unprep D SPI_NOR_OPS_READ s2"
      using assms(4) p by (auto simp: spi_nor_read_def split: option.splits)
    from read_loop_did [OF s2(1) refl did_ok [OF s1] assms(2,3)]
    obtain cs where cs: "did ok sent s1 (read_commands nor cs) s2" "talk s2 = talk s1 @ read_replies nor cs"
      "consecutive from cs"
      "bs = concat (map snd cs)" "length bs \<le> unat len" "r = Inr () \<longrightarrow> length bs = unat len"
      by fastforce
    have "talk s' = talk s @ read_replies nor cs"
      using cs(2) prep_talk [OF assms(1) p] unprep_talk [OF did_ok [OF cs(1)]] s2(2) by simp
    then show ?thesis
      by (rule that [OF prepared_did [OF p assms(1) cs(1) s2(2)] _ cs(3-6)])
  qed
qed

text \<open>The writes of two bytes at a time.\<close>

lemma program_ok:
  assumes "ok s" and "nor_addr_width nor \<le> 4" and "the (nd_write D) nor a bs s = Some (rn, s')"
  shows "ok s'"
  using write_law [OF assms] by blast

lemma program_wait_ok:
  assumes "ok s" and "nor_addr_width nor \<le> 4"
    and "nor_chain (the (nd_write D) nor to bs) (\<lambda>_. spi_nor_wait_till_ready k D nor) s = Some (r, s')"
  shows "ok s'"
  using assms(3)
proof (cases rule: nor_chainE)
  case (err e)
  then show ?thesis
    using program_ok [OF assms(1,2)] by blast
next
  case (go n s1)
  then show ?thesis
    using did_ok [OF wait_did] program_ok [OF assms(1,2)] by blast
qed

lemma sst_loop_ok:
  assumes "sst_loop k D' buf nor to actual s = Some y" and "D' = D" and "ok s" and "nor_addr_width nor \<le> 4"
  shows "ok (snd y) \<and> nor_addr_width (snd (snd (snd (fst y)))) \<le> 4"
  using assms
proof (induction k D' buf nor to actual s y rule: sst_loop.raw_induct [rotated, consumes 1])
  case (1 loop k D' buf nor to actual s y)
  show ?case
  proof (cases "actual < of_nat (length buf) - 1")
    case True
    obtain r s1 where r: "nor_chain
        (the (nd_write D) (nor\<lparr>nor_program_opcode := SPINOR_OP_AAI_WP\<rparr>) to [buf ! unat actual, buf ! (unat actual + 1)])
        (\<lambda>_. spi_nor_wait_till_ready k D (nor\<lparr>nor_program_opcode := SPINOR_OP_AAI_WP\<rparr>)) s = Some (r, s1)"
      using 1(2,3) True by (auto split: option.splits)
    have s1: "ok s1"
      by (rule program_wait_ok [OF 1(4) _ r]) (simp add: 1(5))
    show ?thesis
    proof (cases r)
      case (Inl e)
      then show ?thesis
        using 1(2,3,5) True r s1 by auto
    next
      case (Inr u)
      let ?nor = "nor\<lparr>nor_program_opcode := SPINOR_OP_AAI_WP, nor_sst_write_second := True\<rparr>"
      have go: "loop k D buf ?nor (to + 2) (actual + 2) s1 = Some y"
        using 1(2,3) True r Inr by auto
      show ?thesis
        using 1(1) [OF go refl s1] 1(5) by simp
    qed
  next
    case False
    then show ?thesis
      using 1(2,4,5) by auto
  qed
qed

lemma sst_finish_ok:
  assumes "ok s" and "nor_addr_width nor \<le> 4" and "sst_finish k D buf nor to actual s = Some (r, s')"
  shows "ok s'"
proof -
  obtain q s1 where q: "nor_catch (write_disable D) (\<lambda>_. spi_nor_wait_till_ready k D nor) s = Some (q, s1)"
    using assms(3) by (auto simp: sst_finish_def split: option.splits)
  then have s1: "ok s1"
    using did_ok [OF write_disable_did [OF assms(1)]] did_ok [OF wait_did] by (blast elim: nor_catchE)
  let ?nor = "nor\<lparr>nor_program_opcode := SPINOR_OP_BP\<rparr>"
  have step: "ok s2" if "nor_catch (write_enable D) (\<lambda>_. sst_write_byte k D ?nor to b) s1 = Some (q', s2)" for b q' s2
    using that unfolding sst_write_byte_def
    by (rule nor_catchE) (rule program_wait_ok [OF did_ok [OF write_enable_did [OF s1]]], auto simp: assms(2))
  show ?thesis
    using assms(3) q s1
    by (auto simp: sst_finish_def Let_def split: option.splits sum.splits if_splits
        dest!: step dest: did_ok [OF write_disable_did])
qed

lemma sst_body_ok:
  assumes "ok s" and "nor_addr_width nor \<le> 4" and "sst_body k D nor to buf s = Some (r, s')"
  shows "ok s'"
proof -
  define nor1 where "nor1 = (if to mod 2 = 0 then nor\<lparr>nor_sst_write_second := False\<rparr>
      else nor\<lparr>nor_sst_write_second := False, nor_program_opcode := SPINOR_OP_BP\<rparr>)"
  have w1: "nor_addr_width nor1 \<le> 4"
    using assms(2) by (simp add: nor1_def)
  obtain q s1 where q: "nor_catch (write_enable D)
      (\<lambda>_. if to mod 2 = 0 then nor_ok () else sst_write_byte k D nor1 to (buf ! 0)) s = Some (q, s1)"
    using assms(3) unfolding sst_body_def Let_def nor1_def [symmetric] by (auto split: option.splits)
  have s1: "ok s1"
    using q
  proof (rule nor_catchE)
    fix a t assume "write_enable D s = Some (a, t)"
      and t: "(if to mod 2 = 0 then nor_ok () else sst_write_byte k D nor1 to (buf ! 0)) t = Some (q, s1)"
    then have "ok t"
      using did_ok [OF write_enable_did [OF assms(1)]] by blast
    then show "ok s1"
      using t program_wait_ok [OF _ w1] by (auto simp: nor_ok_def sst_write_byte_def split: if_splits)
  qed
  show ?thesis
  proof (cases q)
    case (Inl e)
    then show ?thesis
      using assms(3) q s1 unfolding sst_body_def Let_def nor1_def [symmetric] by simp
  next
    case (Inr u)
    then obtain y where y: "sst_loop k D buf nor1 (to + to mod 2) (to mod 2) s1 = Some y"
      using assms(3) q unfolding sst_body_def Let_def nor1_def [symmetric] by (auto split: option.splits)
    note loop = sst_loop_ok [OF y refl s1 w1]
    then show ?thesis
      using assms(3) q Inr y unfolding sst_body_def Let_def nor1_def [symmetric]
      by (auto split: sum.splits prod.splits elim!: sst_finish_ok [rotated 2])
  qed
qed

lemma sst_write_ok:
  assumes "ok s" and "nor_addr_width nor \<le> 4" and "sst_write k D nor to buf s = Some (r, s')"
  shows "ok s'"
proof -
  obtain p s1 where p: "spi_nor_lock_and_prep D SPI_NOR_OPS_WRITE s = Some (p, s1)"
    using assms(3) by (auto simp: sst_write_def split: option.splits)
  note s1 = did_ok [OF prep_did [OF assms(1) p]]
  show ?thesis
    using assms(3) p s1 sst_body_ok [OF s1 assms(2)] unprep_law
    by (auto simp: sst_write_def split: option.splits sum.splits)
qed

text \<open>After any of them, whatever its result, the driver is ready for the next.\<close>

lemma spi_nor_ops_ok:
  assumes "ok s" and "0 < nor_addr_width nor" and "nor_addr_width nor \<le> 4"
  shows "hweight_ok k \<Longrightarrow> nor_page_size nor \<noteq> 0 \<Longrightarrow> spi_nor_write k D nor a buf s = Some (rw, s') \<Longrightarrow> ok s'"
    and "spi_nor_read D nor a len s = Some (rd, s') \<Longrightarrow> ok s'"
    and "spi_nor_erase k D nor a len s = Some (re, s') \<Longrightarrow> ok s'"
proof -
  show "ok s'" if "hweight_ok k" "nor_page_size nor \<noteq> 0" "spi_nor_write k D nor a buf s = Some (rw, s')"
  proof -
    have "spi_nor_write k D nor a buf s = Some ((fst rw, snd rw), s')"
      using that(3) by simp
    then show ?thesis
      by (rule spi_nor_write_did [OF assms that(1,2)]) (rule did_ok)
  qed
  show "ok s'" if "spi_nor_read D nor a len s = Some (rd, s')"
  proof -
    have "spi_nor_read D nor a len s = Some ((fst rd, snd rd), s')"
      using that by simp
    then show ?thesis
      by (rule spi_nor_read_did [OF assms]) (rule did_ok)
  qed
  show "ok s'" if "spi_nor_erase k D nor a len s = Some (re, s')"
    using spi_nor_erase_did [OF assms, of k a len "fst re" "snd re" s'] that by simp
qed

end

end
