(* ===== verification/Spi_Nor_Lock.thy ===== *)
theory Spi_Nor_Lock
  imports Spi_Nor_Commands
begin

text \<open>
  Block protection of \<^verbatim>\<open>drivers/mtd/spi-nor/spi-nor.c\<close>: three bits of the status register give the
  length of the locked part of the chip, and one more the end that it is at. Offsets are \<^verbatim>\<open>loff_t\<close>,
  lengths \<^verbatim>\<open>uint64_t\<close>: sums and most comparisons are unsigned, one comparison is signed.
\<close>

definition BP_MASK :: u8 where "BP_MASK = SR_BP2 OR SR_BP1 OR SR_BP0"
definition BP_SHIFT :: nat where "BP_SHIFT = 2"

definition stm_get_locked_range :: "spi_nor \<Rightarrow> u8 \<Rightarrow> u64 \<times> u64" where
  "stm_get_locked_range nor sr =
     (if sr AND BP_MASK = 0 then (0, 0)
      else let pow = drop_bit BP_SHIFT (sr AND BP_MASK XOR BP_MASK);
               len = drop_bit (unat pow) (mtd_size nor)
           in (if has_flag nor SNOR_F_HAS_SR_TB \<and> sr AND SR_TB \<noteq> 0 then 0 else mtd_size nor - len, len))"

definition stm_check_lock_status_sr :: "spi_nor \<Rightarrow> u64 \<Rightarrow> u64 \<Rightarrow> u8 \<Rightarrow> bool \<Rightarrow> bool" where
  "stm_check_lock_status_sr nor ofs len sr locked \<longleftrightarrow>
     len = 0 \<or>
     (case stm_get_locked_range nor sr of
        (lock_offs, lock_len) \<Rightarrow>
          if locked then ofs + len \<le> lock_offs + lock_len \<and> sint lock_offs \<le> sint ofs
          else lock_offs + lock_len \<le> ofs \<or> ofs + len \<le> lock_offs)"

definition stm_is_locked_sr :: "spi_nor \<Rightarrow> u64 \<Rightarrow> u64 \<Rightarrow> u8 \<Rightarrow> bool" where
  "stm_is_locked_sr nor ofs len sr = stm_check_lock_status_sr nor ofs len sr True"

definition stm_is_unlocked_sr :: "spi_nor \<Rightarrow> u64 \<Rightarrow> u64 \<Rightarrow> u8 \<Rightarrow> bool" where
  "stm_is_unlocked_sr nor ofs len sr = stm_check_lock_status_sr nor ofs len sr False"

text \<open>
  The decision of a lock or an unlock: the status to write, or none when there is nothing to do.
\<close>

definition stm_lock_status :: "nor_kernel \<Rightarrow> spi_nor \<Rightarrow> u8 \<Rightarrow> u64 \<Rightarrow> u64 \<Rightarrow> u8 option res" where
  "stm_lock_status k nor status_old ofs len =
     (if stm_is_locked_sr nor ofs len status_old then Inr None
      else
        let can_be_bottom = has_flag nor SNOR_F_HAS_SR_TB \<and> stm_is_locked_sr nor 0 ofs status_old;
            can_be_top = stm_is_locked_sr nor (ofs + len) (mtd_size nor - (ofs + len)) status_old;
            use_top = can_be_top;
            lock_len = (if use_top then mtd_size nor - ofs else ofs + len);
            pow = of_int (nk_ilog2 k (mtd_size nor) - nk_ilog2 k lock_len) :: u8;
            val = BP_MASK - push_bit BP_SHIFT pow;
            status_new = (status_old AND NOT BP_MASK AND NOT SR_TB) OR val OR SR_SRWD
              OR (if use_top then 0 else SR_TB)
        in if \<not> can_be_bottom \<and> \<not> can_be_top then Inl EINVAL
           else if val AND NOT BP_MASK \<noteq> 0 then Inl EINVAL
           else if val AND BP_MASK = 0 then Inl EINVAL
           else if status_new = status_old then Inr None
           else if status_new AND BP_MASK < status_old AND BP_MASK then Inl EINVAL
           else Inr (Some status_new))"

definition stm_unlock_status :: "nor_kernel \<Rightarrow> spi_nor \<Rightarrow> u8 \<Rightarrow> u64 \<Rightarrow> u64 \<Rightarrow> u8 option res" where
  "stm_unlock_status k nor status_old ofs len =
     (if stm_is_unlocked_sr nor ofs len status_old then Inr None
      else
        let can_be_top = stm_is_unlocked_sr nor 0 ofs status_old;
            can_be_bottom = has_flag nor SNOR_F_HAS_SR_TB
              \<and> stm_is_unlocked_sr nor (ofs + len) (mtd_size nor - (ofs + len)) status_old;
            use_top = can_be_top;
            lock_len = (if use_top then mtd_size nor - (ofs + len) else ofs);
            pow = of_int (nk_ilog2 k (mtd_size nor) - nk_order_base_2 k lock_len) :: u8;
            val = (if lock_len = 0 then 0 else BP_MASK - push_bit BP_SHIFT pow);
            status_mid = (status_old AND NOT BP_MASK AND NOT SR_TB) OR val;
            status_new = (if lock_len = 0 then status_mid AND NOT SR_SRWD else status_mid)
              OR (if use_top then 0 else SR_TB)
        in if \<not> can_be_bottom \<and> \<not> can_be_top then Inl EINVAL
           else if lock_len \<noteq> 0 \<and> val AND NOT BP_MASK \<noteq> 0 then Inl EINVAL
           else if status_new = status_old then Inr None
           else if status_old AND BP_MASK < status_new AND BP_MASK then Inl EINVAL
           else Inr (Some status_new))"

text \<open>Writing the decided status.\<close>

definition stm_write_status :: "nor_kernel \<Rightarrow> 's nor_driver \<Rightarrow> spi_nor \<Rightarrow> u8 option res \<Rightarrow> (unit, 's) nor_m" where
  "stm_write_status k D nor r =
     (case r of
        Inl e \<Rightarrow> nor_fail e
      | Inr None \<Rightarrow> nor_ok ()
      | Inr (Some status_new) \<Rightarrow>
          nor_catch (write_enable D) (\<lambda>_. nor_chain (write_sr D status_new)
            (\<lambda>_. spi_nor_wait_till_ready k D nor)))"

definition stm_lock :: "nor_kernel \<Rightarrow> 's nor_driver \<Rightarrow> spi_nor \<Rightarrow> u64 \<Rightarrow> u64 \<Rightarrow> (unit, 's) nor_m" where
  "stm_lock k D nor ofs len =
     nor_chain (read_sr D) (\<lambda>status_old. stm_write_status k D nor (stm_lock_status k nor status_old ofs len))"

definition stm_unlock :: "nor_kernel \<Rightarrow> 's nor_driver \<Rightarrow> spi_nor \<Rightarrow> u64 \<Rightarrow> u64 \<Rightarrow> (unit, 's) nor_m" where
  "stm_unlock k D nor ofs len =
     nor_chain (read_sr D) (\<lambda>status_old. stm_write_status k D nor (stm_unlock_status k nor status_old ofs len))"

definition stm_is_locked :: "'s nor_driver \<Rightarrow> spi_nor \<Rightarrow> u64 \<Rightarrow> u64 \<Rightarrow> (bool, 's) nor_m" where
  "stm_is_locked D nor ofs len =
     nor_chain (read_sr D) (\<lambda>status. nor_ok (stm_is_locked_sr nor ofs len status))"

text \<open>The operations of the MTD. Each ends with the unprepare of another operation than it began with.\<close>

definition nor_prepared :: "'s nor_driver \<Rightarrow> spi_nor_ops \<Rightarrow> spi_nor_ops \<Rightarrow> ('a, 's) nor_m \<Rightarrow> ('a, 's) nor_m" where
  "nor_prepared D ops ops_end m =
     nor_chain (spi_nor_lock_and_prep D ops)
       (\<lambda>_. nor_catch m (\<lambda>r s. Some (r, spi_nor_unlock_and_unprep D ops_end s)))"

definition spi_nor_lock :: "nor_kernel \<Rightarrow> 's nor_driver \<Rightarrow> spi_nor \<Rightarrow> u64 \<Rightarrow> u64 \<Rightarrow> (unit, 's) nor_m" where
  "spi_nor_lock k D nor ofs len =
     nor_prepared D SPI_NOR_OPS_LOCK SPI_NOR_OPS_UNLOCK (stm_lock k D nor ofs len)"

definition spi_nor_unlock :: "nor_kernel \<Rightarrow> 's nor_driver \<Rightarrow> spi_nor \<Rightarrow> u64 \<Rightarrow> u64 \<Rightarrow> (unit, 's) nor_m" where
  "spi_nor_unlock k D nor ofs len =
     nor_prepared D SPI_NOR_OPS_UNLOCK SPI_NOR_OPS_LOCK (stm_unlock k D nor ofs len)"

definition spi_nor_is_locked :: "'s nor_driver \<Rightarrow> spi_nor \<Rightarrow> u64 \<Rightarrow> u64 \<Rightarrow> (bool, 's) nor_m" where
  "spi_nor_is_locked D nor ofs len =
     nor_prepared D SPI_NOR_OPS_UNLOCK SPI_NOR_OPS_LOCK (stm_is_locked D nor ofs len)"

subsection \<open>What is locked\<close>

definition byte_locked :: "spi_nor \<Rightarrow> u8 \<Rightarrow> nat \<Rightarrow> bool" where
  "byte_locked nor sr b \<longleftrightarrow>
     (case stm_get_locked_range nor sr of (ofs, len) \<Rightarrow> unat ofs \<le> b \<and> b < unat ofs + unat len)"

text \<open>\<^verbatim>\<open>ilog2\<close> is the integer part of the logarithm.\<close>

definition ilog2_ok :: "nor_kernel \<Rightarrow> bool" where
  "ilog2_ok k \<longleftrightarrow> (\<forall>x n. 2 ^ n \<le> unat x \<and> unat x < 2 ^ Suc n \<longrightarrow> nk_ilog2 k x = int n)"

text \<open>The number that the three bits hold.\<close>

definition bp_value :: "u8 \<Rightarrow> nat" where
  "bp_value sr = unat (drop_bit BP_SHIFT (sr AND BP_MASK))"

lemma BP_MASK_eq: "BP_MASK = 0x1c"
  by (simp add: BP_MASK_def SR_BP0_def SR_BP1_def SR_BP2_def)

text \<open>Facts of eight bits, by trying them all.\<close>

lemma all_bytes:
  assumes "list_all (\<lambda>n. P (of_nat n :: u8)) [0..<256]"
  shows "P x"
proof -
  have "unat x \<in> set [0..<256]"
    using unsigned_less [of x] by simp
  then have "P (of_nat (unat x))"
    using assms unfolding list_all_iff by (rule bspec [rotated])
  then show ?thesis
    by simp
qed

lemma bp_bits:
  "bp_value x < 8 \<and> (x AND BP_MASK = 0 \<longleftrightarrow> bp_value x = 0)
   \<and> unat (drop_bit BP_SHIFT (x AND BP_MASK XOR BP_MASK)) = 7 - bp_value x
   \<and> unat (x AND BP_MASK) = 4 * bp_value x"
  by (rule all_bytes [of "\<lambda>x. bp_value x < 8 \<and> (x AND BP_MASK = 0 \<longleftrightarrow> bp_value x = 0)
   \<and> unat (drop_bit BP_SHIFT (x AND BP_MASK XOR BP_MASK)) = 7 - bp_value x
   \<and> unat (x AND BP_MASK) = 4 * bp_value x"]) code_simp

lemma bp_of_pow:
  assumes "n < 64" and "BP_MASK - push_bit BP_SHIFT (of_nat n) AND NOT BP_MASK = (0 :: u8)"
    and "(BP_MASK - push_bit BP_SHIFT (of_nat n)) AND BP_MASK \<noteq> (0 :: u8)"
  shows "n < 7 \<and> bp_value (BP_MASK - push_bit BP_SHIFT (of_nat n)) = 7 - n"
proof -
  have "list_all (\<lambda>n. (BP_MASK - push_bit BP_SHIFT (of_nat n)) AND NOT BP_MASK = (0 :: u8) \<longrightarrow>
      (BP_MASK - push_bit BP_SHIFT (of_nat n)) AND BP_MASK \<noteq> (0 :: u8) \<longrightarrow>
      n < 7 \<and> bp_value (BP_MASK - push_bit BP_SHIFT (of_nat n)) = 7 - n) [0..<64]"
    by code_simp
  then show ?thesis
    using assms by (simp only: list_all_iff set_upt) auto
qed

lemma locked_len:
  "snd (stm_get_locked_range nor sr) =
     (if bp_value sr = 0 then 0 else drop_bit (7 - bp_value sr) (mtd_size nor))"
  using bp_bits [of sr] by (simp add: stm_get_locked_range_def Let_def)

lemma bp_of_status:
  "bp_value ((old AND NOT BP_MASK AND NOT SR_TB) OR val OR SR_SRWD OR 0) = bp_value val"
proof -
  have srwd: "SR_SRWD AND BP_MASK = 0"
    by (simp add: SR_SRWD_def BP_MASK_eq)
  have "old AND NOT BP_MASK AND NOT SR_TB AND BP_MASK = (0 :: u8)"
    by (simp add: bit_eq_iff bit_simps) blast
  then have "((old AND NOT BP_MASK AND NOT SR_TB) OR val OR SR_SRWD OR 0) AND BP_MASK = val AND BP_MASK"
    by (simp add: srwd bit.conj_disj_distrib2 and.assoc)
  then show ?thesis
    by (simp add: bp_value_def)
qed

subsection \<open>Locking without the top/bottom bit\<close>

text \<open>A chip whose size is a power of two; its locked part is at the end.\<close>

lemma unat_drop_bit64: "unat (drop_bit q (x :: u64)) = unat x div 2 ^ q"
proof -
  have "take_bit 64 (unat x) = unat x"
    using unat_u64_less [of x] by (simp add: take_bit_nat_eq_self_iff)
  then show ?thesis
    by (subst unsigned_drop_bit_eq) (simp add: drop_bit_eq_div)
qed

lemma range_at_top:
  assumes "\<not> has_flag nor SNOR_F_HAS_SR_TB" and "bp_value sr \<noteq> 0"
  shows "stm_get_locked_range nor sr =
    (mtd_size nor - drop_bit (7 - bp_value sr) (mtd_size nor), drop_bit (7 - bp_value sr) (mtd_size nor))"
  using bp_bits [of sr] assms by (simp add: stm_get_locked_range_def Let_def)

lemma locked_at_top:
  assumes "\<not> has_flag nor SNOR_F_HAS_SR_TB" and "unat (mtd_size nor) = 2 ^ m" and "bp_value sr \<noteq> 0"
  shows "byte_locked nor sr b \<longleftrightarrow> 2 ^ m - 2 ^ m div 2 ^ (7 - bp_value sr) \<le> b \<and> b < 2 ^ m"
proof -
  let ?l = "drop_bit (7 - bp_value sr) (mtd_size nor)"
  have l: "unat ?l = 2 ^ m div 2 ^ (7 - bp_value sr)"
    by (simp only: unat_drop_bit64 assms(2))
  have le: "unat ?l \<le> 2 ^ m"
    unfolding l by (rule div_le_dividend)
  then have "unat (mtd_size nor - ?l) = 2 ^ m - unat ?l"
    using assms(2) by (subst unat_sub) (simp_all add: word_le_nat_alt)
  then show ?thesis
    using range_at_top [OF assms(1,3)] l le by (auto simp: byte_locked_def)
qed

lemma none_locked: "bp_value sr = 0 \<Longrightarrow> \<not> byte_locked nor sr b"
  using bp_bits [of sr] by (simp add: byte_locked_def stm_get_locked_range_def)

text \<open>What the code decides to write when it locks the end of the chip from an offset on.\<close>

lemma stm_lock_statusD:
  assumes "stm_lock_status k nor old ofs len = Inr (Some new)" and "\<not> has_flag nor SNOR_F_HAS_SR_TB"
    and "ilog2_ok k" and "unat (mtd_size nor) = 2 ^ m" and "m \<le> 62"
    and "0 < len" and "unat ofs + unat len \<le> 2 ^ m"
  obtains l where "2 ^ l \<le> 2 ^ m - unat ofs" and "2 ^ m - unat ofs < 2 ^ Suc l" and "l \<le> m" and "m - l < 7"
    and "bp_value new = 7 - (m - l)"
    and "stm_is_locked_sr nor (ofs + len) (mtd_size nor - (ofs + len)) old" and "\<not> stm_is_locked_sr nor ofs len old"
proof -
  let ?ll = "mtd_size nor - ofs"
  have len: "0 < unat len"
    using assms(6) by (simp add: unat_gt_0)
  have ll: "unat ?ll = 2 ^ m - unat ofs"
    using assms(4,7) by (subst unat_sub) (simp_all add: word_le_nat_alt)
  then have pos: "0 < unat ?ll"
    using assms(7) len by linarith
  obtain l where l: "2 ^ l \<le> unat ?ll" "unat ?ll < 2 ^ Suc l"
    using ex_power_ivl1 [of 2 "unat ?ll"] pos by auto
  have "(2::nat) ^ l \<le> 2 ^ m"
    using l(1) ll by linarith
  then have lm: "l \<le> m"
    by simp
  have logs: "nk_ilog2 k (mtd_size nor) = int m" "nk_ilog2 k ?ll = int l"
    using assms(3,4) l unfolding ilog2_ok_def by simp_all
  let ?pow = "of_nat (m - l) :: u8"
  have pow: "(of_int (nk_ilog2 k (mtd_size nor)) - of_int (nk_ilog2 k ?ll) :: u8) = ?pow"
    using lm by (simp add: logs of_nat_diff)
  let ?val = "BP_MASK - push_bit BP_SHIFT ?pow"
  have dec: "\<not> stm_is_locked_sr nor ofs len old"
    "stm_is_locked_sr nor (ofs + len) (mtd_size nor - (ofs + len)) old"
    "?val AND NOT BP_MASK = 0" "?val AND BP_MASK \<noteq> 0"
    "new = (old AND NOT BP_MASK AND NOT SR_TB) OR ?val OR SR_SRWD OR 0"
    using assms(1,2) unfolding stm_lock_status_def Let_def
    by (auto split: if_splits simp: pow)
  have "m - l < 64"
    using assms(5) by simp
  note bp = bp_of_pow [OF this dec(3,4)]
  have new: "bp_value new = 7 - (m - l)"
    unfolding dec(5) bp_of_status by (rule conjunct2 [OF bp])
  show ?thesis
    by (rule that [OF l(1) [unfolded ll] l(2) [unfolded ll] lm conjunct1 [OF bp] new dec(2,1)])
qed

lemma sint_le_small:
  assumes "unat (x :: u64) < 2 ^ 63" and "unat (y :: u64) < 2 ^ 63"
  shows "sint x \<le> sint y \<longleftrightarrow> unat x \<le> unat y"
proof -
  have "sint z = uint z" if "unat z < 2 ^ 63" for z :: u64
  proof -
    have "int (unat z) < 2 ^ 63"
      using that by (simp only: of_nat_less_numeral_power_cancel_iff)
    moreover have "- (2 ^ 63) \<le> uint z"
      by (rule order_trans [of _ 0]) simp_all
    ultimately show ?thesis
      using signed_take_bit_int_eq_self [of 63 "uint z"] by (simp add: sint_uint)
  qed
  then show ?thesis
    using assms by (simp add: word_le_def [symmetric] word_le_nat_alt)
qed

text \<open>The part above the request is locked already.\<close>

lemma locked_above:
  assumes "stm_is_locked_sr nor (ofs + len) (mtd_size nor - (ofs + len)) old"
    and "\<not> has_flag nor SNOR_F_HAS_SR_TB" and "unat (mtd_size nor) = 2 ^ m" and "m \<le> 62"
    and "unat ofs + unat len \<le> b" and "b < 2 ^ m"
  shows "byte_locked nor old b"
proof -
  have m: "(2::nat) ^ m \<le> 2 ^ 62"
    using assms(4) by (rule power_increasing) simp
  have sum: "unat (ofs + len) = unat ofs + unat len"
    using assms(5,6) m by (intro unat_add64) simp
  have ne: "mtd_size nor - (ofs + len) \<noteq> 0"
    using assms(3,5,6) sum by auto
  obtain o1 l1 where range: "stm_get_locked_range nor old = (o1, l1)"
    by fastforce
  have chk: "mtd_size nor \<le> o1 + l1" "sint o1 \<le> sint (ofs + len)"
    using assms(1) ne range by (simp_all add: stm_is_locked_sr_def stm_check_lock_status_sr_def)
  show ?thesis
  proof (cases "bp_value old = 0")
    case True
    then have "(o1, l1) = (0, 0)"
      using bp_bits [of old] range by (simp add: stm_get_locked_range_def)
    then show ?thesis
      using chk(1) assms(3) by (simp add: word_le_nat_alt)
  next
    case False
    have o1: "o1 = mtd_size nor - drop_bit (7 - bp_value old) (mtd_size nor)"
      using range_at_top [OF assms(2) False] range by simp
    have l: "unat (drop_bit (7 - bp_value old) (mtd_size nor)) = 2 ^ m div 2 ^ (7 - bp_value old)"
      by (simp only: unat_drop_bit64 assms(3))
    have u: "unat o1 = 2 ^ m - 2 ^ m div 2 ^ (7 - bp_value old)"
      unfolding o1 using assms(3) by (subst unat_sub) (simp_all add: word_le_nat_alt l)
    have "unat o1 < 2 ^ 63" "unat (ofs + len) < 2 ^ 63"
      using u m sum assms(5,6) by simp_all
    then have "unat o1 \<le> unat ofs + unat len"
      using chk(2) sum by (simp only: sint_le_small)
    then show ?thesis
      using locked_at_top [OF assms(2,3) False] u assms(5,6) by simp
  qed
qed

lemma old_within_new:
  assumes "\<not> stm_is_locked_sr nor ofs len old" and "stm_is_locked_sr nor (ofs + len) (mtd_size nor - (ofs + len)) old"
    and "\<not> has_flag nor SNOR_F_HAS_SR_TB" and "unat (mtd_size nor) = 2 ^ m" and "m \<le> 62"
    and "unat ofs + unat len \<le> 2 ^ m" and "2 ^ m - unat ofs < 2 ^ Suc l" and "l \<le> m"
    and "byte_locked nor old b"
  shows "2 ^ m - 2 ^ l \<le> b \<and> b < 2 ^ m"
proof -
  have m: "(2::nat) ^ m \<le> 2 ^ 62"
    using assms(5) by (rule power_increasing) simp
  have sum: "unat (ofs + len) = unat ofs + unat len"
    using assms(6) m by (intro unat_add64) simp
  have bp: "bp_value old \<noteq> 0"
    using assms(9) none_locked by blast
  let ?q = "7 - bp_value old"
  have b: "2 ^ m - 2 ^ m div 2 ^ ?q \<le> b" "b < 2 ^ m"
    using locked_at_top [OF assms(3,4) bp] assms(9) by simp_all
  have l: "unat (drop_bit ?q (mtd_size nor)) = 2 ^ m div 2 ^ ?q"
    by (simp only: unat_drop_bit64 assms(4))
  note range = range_at_top [OF assms(3) bp]
  have off: "unat (mtd_size nor - drop_bit ?q (mtd_size nor)) = 2 ^ m - 2 ^ m div 2 ^ ?q"
    using assms(4) by (subst unat_sub) (simp_all add: word_le_nat_alt l)
  have "ofs + len \<le> mtd_size nor"
    using sum assms(4,6) by (simp add: word_le_nat_alt)
  then have "\<not> sint (mtd_size nor - drop_bit ?q (mtd_size nor)) \<le> sint ofs"
    using assms(1) range by (auto simp: stm_is_locked_sr_def stm_check_lock_status_sr_def)
  moreover have "unat ofs < 2 ^ 63" "unat (mtd_size nor - drop_bit ?q (mtd_size nor)) < 2 ^ 63"
    using assms(6) m off by simp_all
  ultimately have "unat ofs < 2 ^ m - 2 ^ m div 2 ^ ?q"
    using off by (simp only: sint_le_small not_le)
  then have "(2::nat) ^ m div 2 ^ ?q < 2 ^ Suc l"
    using assms(7) by linarith
  moreover have "(2::nat) ^ m div 2 ^ ?q \<le> 2 ^ l"
  proof (cases "?q \<le> m")
    case True
    then have eq: "(2::nat) ^ m div 2 ^ ?q = 2 ^ (m - ?q)"
      by (simp add: power_diff)
    then have "m - ?q < Suc l"
      using calculation by (metis one_less_numeral_iff power_less_imp_less_exp semiring_norm(76))
    then show ?thesis
      unfolding eq by (intro power_increasing) simp_all
  next
    case False
    then have "(2::nat) ^ m < 2 ^ ?q"
      by simp
    then show ?thesis
      by simp
  qed
  ultimately show ?thesis
    using b by linarith
qed

text \<open>
  C12. On a chip without the top/bottom bit, the status that a lock writes unlocks nothing, locks
  nothing beyond the request, and locks all of the request when the rest of the chip from its
  start on is a power of two long.
\<close>

theorem stm_lock_keeps_locked:
  assumes "stm_lock_status k nor old ofs len = Inr (Some new)" and "\<not> has_flag nor SNOR_F_HAS_SR_TB"
    and "ilog2_ok k" and "unat (mtd_size nor) = 2 ^ m" and "m \<le> 62"
    and "0 < len" and "unat ofs + unat len \<le> 2 ^ m"
  shows "(byte_locked nor old b \<longrightarrow> byte_locked nor new b)
    \<and> (byte_locked nor new b \<longrightarrow> byte_locked nor old b \<or> (unat ofs \<le> b \<and> b < unat ofs + unat len))
    \<and> (2 ^ m - unat ofs = 2 ^ j \<longrightarrow> unat ofs \<le> b \<longrightarrow> b < 2 ^ m \<longrightarrow> byte_locked nor new b)"
proof -
  obtain l where l: "2 ^ l \<le> 2 ^ m - unat ofs" "2 ^ m - unat ofs < 2 ^ Suc l" "l \<le> m" "m - l < 7"
    "bp_value new = 7 - (m - l)" "stm_is_locked_sr nor (ofs + len) (mtd_size nor - (ofs + len)) old"
    "\<not> stm_is_locked_sr nor ofs len old"
    using stm_lock_statusD [OF assms] by metis
  have "(2::nat) ^ m div 2 ^ (m - l) = 2 ^ l"
    using l(3) by (simp add: power_diff [symmetric])
  then have new: "byte_locked nor new b \<longleftrightarrow> 2 ^ m - 2 ^ l \<le> b \<and> b < 2 ^ m"
    using locked_at_top [OF assms(2,4), of new b] l(4,5) by simp
  show ?thesis
  proof (intro conjI impI)
    show "byte_locked nor new b" if "byte_locked nor old b"
      using old_within_new [OF l(7,6) assms(2,4,5,7) l(2,3) that] new by blast
    show "byte_locked nor old b \<or> (unat ofs \<le> b \<and> b < unat ofs + unat len)" if "byte_locked nor new b"
    proof -
      have "unat ofs \<le> b" "b < 2 ^ m"
        using that new l(1) by linarith+
      then show ?thesis
        using locked_above [OF l(6) assms(2,4,5)] by (meson not_le)
    qed
    show "byte_locked nor new b" if j: "2 ^ m - unat ofs = 2 ^ j" and b: "unat ofs \<le> b" "b < 2 ^ m"
    proof -
      have "l \<le> j" "j < Suc l"
        using l(1,2) unfolding j by (simp_all only: power_le_imp_le_exp one_less_numeral_iff semiring_norm
            power_strict_increasing_iff power_increasing_iff)
      then have "2 ^ m - 2 ^ l = unat ofs"
        using j assms(7) by (metis diff_diff_cancel le_antisym less_Suc_eq_le add_leD1)
      then show ?thesis
        using b new by simp
    qed
  qed
qed

subsection \<open>Concrete chips\<close>

text \<open>A chip of a given size, and a kernel that computes its logarithms by halving.\<close>

fun log2_nat :: "nat \<Rightarrow> nat" where
  "log2_nat n = (if n < 2 then 0 else Suc (log2_nat (n div 2)))"

declare log2_nat.simps [simp del]

lemma log2_nat_eq: "2 ^ n \<le> x \<Longrightarrow> x < 2 ^ Suc n \<Longrightarrow> log2_nat x = n"
proof (induction n arbitrary: x)
  case (Suc n)
  then have "2 ^ n \<le> x div 2" "x div 2 < 2 ^ Suc n"
    by simp_all
  moreover have "\<not> x < 2"
    using Suc.prems(1) by (metis One_nat_def Suc_1 le_less_trans linorder_not_less n_not_Suc_n
        nat_less_le power_increasing_iff power_one_right zero_less_Suc Suc_leI lessI)
  ultimately show ?case
    using Suc.IH log2_nat.simps [of x] by simp
qed (simp add: log2_nat.simps)

definition sample_kernel :: nor_kernel where
  "sample_kernel =
     \<lparr>nk_HZ = 250, nk_ilog2 = (\<lambda>x. int (log2_nat (unat x))),
      nk_order_base_2 = (\<lambda>x. if unat x < 2 then 0 else int (Suc (log2_nat (unat x - 1)))),
      nk_hweight32 = (\<lambda>x. length (filter (bit x) [0..<32])), nk_use_4k_sectors = False,
      SNOR_MFR_ATMEL = 0x1f, SNOR_MFR_INTEL = 0x89, SNOR_MFR_MICRON = 0x20, SNOR_MFR_MACRONIX = 0xc2,
      SNOR_MFR_SPANSION = 1, SNOR_MFR_SST = 0xbf\<rparr>"

definition sample_chip :: "u64 \<Rightarrow> u32 \<Rightarrow> spi_nor" where
  "sample_chip sz flags =
     \<lparr>mtd_size = sz, mtd_erasesize = 0x10000, mtd_writebufsize = 256, mtd_no_erase = False,
      mtd_write = Some Mtd_spi_nor_write, mtd_lock = True, nor_page_size = 256, nor_addr_width = 3,
      nor_erase_opcode = SPINOR_OP_SE, nor_read_opcode = SPINOR_OP_READ_FAST, nor_read_dummy = 8,
      nor_program_opcode = SPINOR_OP_PP, nor_flash_read = SPI_NOR_FAST, nor_sst_write_second = False,
      nor_flags = flags, nor_stm_lock = True\<rparr>"

lemma one_bit_power:
  assumes "length (filter (bit (x :: u32)) [0..<32]) = 1"
  shows "\<exists>n. unat x = 2 ^ n"
proof -
  obtain n where n: "filter (bit x) [0..<32] = [n]"
    using assms by (auto simp: length_Suc_conv)
  then have "set (filter (bit x) [0..<32]) = {n}"
    by simp
  then have bits: "i < 32 \<and> bit x i \<longleftrightarrow> i = n" for i
    by auto
  then have "n < 32"
    by blast
  have "x = push_bit n 1"
    by (rule bit_word_eqI) (use bits in \<open>auto simp: bit_simps\<close>)
  then have "x = of_nat (2 ^ n)"
    by (simp add: push_bit_eq_mult)
  then have "unat x = take_bit 32 (2 ^ n)"
    by (simp only: unsigned_of_nat) simp
  then have "unat x = 2 ^ n"
    using \<open>n < 32\<close> by (simp add: take_bit_nat_eq_self_iff)
  then show ?thesis ..
qed

lemma sample_kernel_ok: "ilog2_ok sample_kernel" "hweight_ok sample_kernel"
  by (simp_all add: ilog2_ok_def hweight_ok_def sample_kernel_def log2_nat_eq one_bit_power)

text \<open>The last quarter of a chip of 8 MB, of which the last 1/64 is locked.\<close>

theorem stm_lock_keeps_locked_witness:
  "stm_lock_status sample_kernel (sample_chip 0x800000 0) 4 0x600000 0x200000 = Inr (Some 0x94)
   \<and> byte_locked (sample_chip 0x800000 0) 0x94 0x600000"
proof -
  have st: "stm_lock_status sample_kernel (sample_chip 0x800000 0) 4 0x600000 0x200000 = Inr (Some 0x94)"
    by (simp add: stm_lock_status_def stm_is_locked_sr_def stm_check_lock_status_sr_def stm_get_locked_range_def
        Let_def BP_MASK_eq BP_SHIFT_def sample_chip_def sample_kernel_def has_flag_def log2_nat.simps
        SR_TB_def SR_SRWD_def)
  have no_tb: "\<not> has_flag (sample_chip 0x800000 0) SNOR_F_HAS_SR_TB"
    by (simp add: has_flag_def sample_chip_def)
  have size: "unat (mtd_size (sample_chip 0x800000 0)) = 2 ^ 23"
    by (simp add: sample_chip_def)
  show ?thesis
    using stm_lock_keeps_locked [OF st no_tb sample_kernel_ok(1) size, of "0x600000" 21] st by simp
qed

text \<open>
  With the top/bottom bit, a lock can unlock: on a chip of 8 MB whose first 1/64 is locked,
  locking the last half is accepted, and writes a status that no longer protects the beginning.
\<close>

lemma stm_lock_top_unlocks_bottom:
  assumes "ilog2_ok k" and "mtd_size nor = 0x800000" and "has_flag nor SNOR_F_HAS_SR_TB"
  shows "stm_lock_status k nor 0x24 0x400000 0x400000 = Inr (Some 0x98)
    \<and> byte_locked nor 0x24 0 \<and> \<not> byte_locked nor 0x98 0"
proof -
  have logs: "nk_ilog2 k 0x800000 = 23" "nk_ilog2 k 0x400000 = 22"
    using assms(1) [unfolded ilog2_ok_def, rule_format, of 23 "0x800000"]
      assms(1) [unfolded ilog2_ok_def, rule_format, of 22 "0x400000"] by simp_all
  then show ?thesis
    using assms(2,3)
    by (simp add: stm_lock_status_def stm_is_locked_sr_def stm_check_lock_status_sr_def stm_get_locked_range_def
        Let_def BP_MASK_eq BP_SHIFT_def SR_TB_def SR_SRWD_def byte_locked_def)
qed

lemma stm_lock_top_unlocks_bottom_example:
  "stm_lock_status sample_kernel (sample_chip 0x800000 SNOR_F_HAS_SR_TB) 0x24 0x400000 0x400000 = Inr (Some 0x98)"
  using stm_lock_top_unlocks_bottom [OF sample_kernel_ok(1), of "sample_chip 0x800000 SNOR_F_HAS_SR_TB"]
  by (simp add: sample_chip_def has_flag_def SNOR_F_HAS_SR_TB_def)

subsection \<open>Commands\<close>

context flash_driver
begin

lemma nor_chain_did:
  assumes "nor_chain m f s = Some (r, s')"
    and "\<And>q s1. m s = Some (q, s1) \<Longrightarrow> did ok sent s cs s1"
    and "\<And>a s1. did ok sent s cs s1 \<Longrightarrow> f a s1 = Some (r, s') \<Longrightarrow> ok s'"
  shows "ok s'"
  using assms(1)
proof (cases rule: nor_chainE)
  case (err e)
  then show ?thesis
    using did_ok [OF assms(2)] by blast
next
  case (go a s1)
  then show ?thesis
    using assms(2,3) by blast
qed

lemma write_status_did:
  assumes "ok s" and "stm_write_status k D nor (Inr (Some st)) s = Some (r, s')"
  shows "did ok sent s [[SPINOR_OP_WREN], [SPINOR_OP_WRSR, st]] s'"
proof -
  obtain r1 s1 where s1: "write_enable D s = Some (r1, s1)"
    "nor_chain (write_sr D st) (\<lambda>_. spi_nor_wait_till_ready k D nor) s1 = Some (r, s')"
    using assms(2) by (auto simp: stm_write_status_def elim: nor_catchE)
  note en = write_enable_did [OF assms(1) s1(1)]
  have wr: "did ok sent s [[SPINOR_OP_WREN], [SPINOR_OP_WRSR, st]] s2"
    if "write_sr D st s1 = Some (q, s2)" for q s2
    using did_trans [OF en write_reg_did [OF did_ok [OF en], of "[st]"]] that room_law
    by (fastforce simp: write_sr_def)
  from s1(2) show ?thesis
  proof (cases rule: nor_chainE)
    case (err e)
    then show ?thesis
      using wr by blast
  next
    case (go a s2)
    then show ?thesis
      using did_trans [OF wr [OF go(1)] wait_did [OF did_ok [OF wr [OF go(1)]]]] by simp
  qed
qed

lemma write_status_ok:
  assumes "ok s" and "stm_write_status k D nor st s = Some (r, s')"
  shows "ok s'"
proof (cases "\<exists>v. st = Inr (Some v)")
  case True
  then obtain v where "stm_write_status k D nor (Inr (Some v)) s = Some (r, s')"
    using assms(2) by blast
  then show ?thesis
    by (rule did_ok [OF write_status_did [OF assms(1)]])
next
  case False
  then show ?thesis
    using assms by (auto simp: stm_write_status_def split: sum.splits option.splits)
qed

lemma lock_ops_ok:
  assumes "ok s"
  shows "stm_lock k D nor ofs len s = Some (r, s') \<Longrightarrow> ok s'"
    and "stm_unlock k D nor ofs len s = Some (r, s') \<Longrightarrow> ok s'"
    and "stm_is_locked D nor ofs len s = Some (rb, s') \<Longrightarrow> ok s'"
proof -
  have sr: "did ok sent s [] s1" if "read_sr D s = Some (q, s1)" for q s1
    using rd_reg_did [OF assms] that by (fastforce simp: read_sr_def)
  show "stm_lock k D nor ofs len s = Some (r, s') \<Longrightarrow> ok s'"
    unfolding stm_lock_def by (erule nor_chain_did [OF _ sr]) (auto dest: did_ok intro: write_status_ok)
  show "stm_unlock k D nor ofs len s = Some (r, s') \<Longrightarrow> ok s'"
    unfolding stm_unlock_def by (erule nor_chain_did [OF _ sr]) (auto dest: did_ok intro: write_status_ok)
  show "stm_is_locked D nor ofs len s = Some (rb, s') \<Longrightarrow> ok s'"
    unfolding stm_is_locked_def by (erule nor_chain_did [OF _ sr]) (auto dest: did_ok)
qed

lemma nor_prepared_ok:
  assumes "ok s" and "nor_prepared D ops ops1 m s = Some (r, s')"
    and "\<And>s1 q s2. ok s1 \<Longrightarrow> m s1 = Some (q, s2) \<Longrightarrow> ok s2"
  shows "ok s'"
  using assms(2) unfolding nor_prepared_def
proof (rule nor_chain_did)
  show "did ok sent s [] s1" if "spi_nor_lock_and_prep D ops s = Some (q, s1)" for q s1
    using prep_did [OF assms(1) that] .
  show "ok s'" if "did ok sent s [] s1"
    "nor_catch m (\<lambda>r s. Some (r, spi_nor_unlock_and_unprep D ops1 s)) s1 = Some (r, s')" for s1
    using that(2) assms(3) [OF did_ok [OF that(1)]] unprep_law by (auto elim!: nor_catchE)
qed

lemma spi_nor_lock_ops_ok:
  assumes "ok s"
  shows "spi_nor_lock k D nor ofs len s = Some (r, s') \<Longrightarrow> ok s'"
    and "spi_nor_unlock k D nor ofs len s = Some (r, s') \<Longrightarrow> ok s'"
    and "spi_nor_is_locked D nor ofs len s = Some (rb, s') \<Longrightarrow> ok s'"
  unfolding spi_nor_lock_def spi_nor_unlock_def spi_nor_is_locked_def
  by (erule nor_prepared_ok [OF assms]; rule lock_ops_ok; assumption)+

end

end
