(* ===== verification/Asmip2_Commands.thy ===== *)
theory Asmip2_Commands
  imports Asmip2 Spi_Nor_Lock
begin

text \<open>
  The ASMI Parallel II controller as a controller driver of the framework: the frames that it hands
  the chip, read off the trace of register writes, and the interpretation of the interface
  \<open>flash_driver\<close> on it.
\<close>

subsection \<open>Frames\<close>

text \<open>
  Bytes written to the data register are collected until a write to the action register starts the
  transfer: the frames that were started, and the bytes pushed since. This is what the driver does,
  read off its register accesses; it says nothing of what the hardware still has in its FIFO, which
  the driver polls for after each start, and which may not be empty when that poll times out.
\<close>

fun frames_of :: "u64 \<Rightarrow> event list \<Rightarrow> u8 list list \<times> u8 list" where
  "frames_of csr [] = ([], [])"
| "frames_of csr (e # es) =
     (case frames_of csr es of
        (fs, p) \<Rightarrow>
          (case e of
             WrB a b \<Rightarrow> if a = csr + QSPI_DATA_REG then (fs, p @ [b]) else (fs, p)
           | WrL a v \<Rightarrow> if a = csr + QSPI_ACTION_REG \<and> v AND QSPI_ACTION_SC \<noteq> 0 then (fs @ [p], []) else (fs, p)
           | _ \<Rightarrow> (fs, p)))"

definition qspi_frames :: "u64 \<Rightarrow> world \<Rightarrow> u8 list list \<times> u8 list" where
  "qspi_frames csr w = frames_of csr (w_trace w)"

definition qspi_sent :: "u64 \<Rightarrow> world \<Rightarrow> u8 list list" where
  "qspi_sent csr w = fst (qspi_frames csr w)"

text \<open>Between two commands: every byte that was pushed was started, and no frame is longer than the FIFO.\<close>

definition qspi_idle :: "u64 \<Rightarrow> world \<Rightarrow> bool" where
  "qspi_idle csr w \<longleftrightarrow>
     snd (qspi_frames csr w) = [] \<and> (\<forall>f \<in> set (qspi_sent csr w). length f \<le> QSPI_FIFO_DEPTH)"

text \<open>
  The frames with their replies: the bytes read from the data register after the frame was started and
  before the next one is.
\<close>

definition add_reply :: "u8 \<Rightarrow> (u8 list \<times> u8 list) list \<Rightarrow> (u8 list \<times> u8 list) list" where
  "add_reply b xs = (if xs = [] then [] else butlast xs @ [(fst (last xs), snd (last xs) @ [b])])"

fun exchanges :: "u64 \<Rightarrow> event list \<Rightarrow> (u8 list \<times> u8 list) list" where
  "exchanges csr [] = []"
| "exchanges csr (e # es) =
     (case e of
        WrL a v \<Rightarrow>
          if a = csr + QSPI_ACTION_REG \<and> v AND QSPI_ACTION_SC \<noteq> 0
          then exchanges csr es @ [(snd (frames_of csr es), [])] else exchanges csr es
      | RdB a b \<Rightarrow> if a = csr + QSPI_DATA_REG then add_reply b (exchanges csr es) else exchanges csr es
      | _ \<Rightarrow> exchanges csr es)"

definition qspi_talk :: "u64 \<Rightarrow> world \<Rightarrow> (u8 list \<times> u8 list) list" where
  "qspi_talk csr w = exchanges csr (w_trace w)"

text \<open>Every frame that was sent is in the exchange.\<close>

lemma exchanges_frames: "map fst (exchanges csr es) = fst (frames_of csr es)"
proof (induction es)
  case (Cons e es)
  have "map fst (add_reply b xs) = map fst xs" for b xs
    by (cases xs rule: rev_cases) (simp_all add: add_reply_def)
  with Cons show ?case
    by (cases e) (simp_all split: prod.splits)
qed simp

lemma qspi_talk_sent: "map fst (qspi_talk csr w) = qspi_sent csr w"
  by (simp add: qspi_talk_def qspi_sent_def qspi_frames_def exchanges_frames)

lemma qspi_frames_emit:
  "qspi_frames csr (emit (RdL a v) w) = qspi_frames csr w"
  "qspi_frames csr (emit (RdB a b) w) = qspi_frames csr w"
  "qspi_frames csr (emit (Call f xs r) w) = qspi_frames csr w"
  by (simp_all add: qspi_frames_def split: prod.split)

lemma qspi_frames_calls [simp]:
  "qspi_frames csr (snd (readl a w)) = qspi_frames csr w"
  "qspi_frames csr (snd (readb a w)) = qspi_frames csr w"
  "qspi_frames csr (kvoid f xs w) = qspi_frames csr w"
  "qspi_frames csr (snd (kcall f xs w)) = qspi_frames csr w"
  "qspi_frames csr (snd (kvalue f xs w)) = qspi_frames csr w"
  by (simp_all add: readl_def readb_def kvoid_def kcall_def kvalue_def Let_def qspi_frames_emit split: sum.split)

lemma qspi_frames_eqs:
  "readl a w = (v, w') \<Longrightarrow> qspi_frames csr w' = qspi_frames csr w"
  "readb a w = (b, w') \<Longrightarrow> qspi_frames csr w' = qspi_frames csr w"
  "kvalue f xs w = (r, w') \<Longrightarrow> qspi_frames csr w' = qspi_frames csr w"
  using qspi_frames_calls(1) [of csr a w] qspi_frames_calls(2) [of csr a w] qspi_frames_calls(5) [of csr f xs w]
  by simp_all

lemma qspi_frames_clock:
  "ktime_get w = (t, w') \<Longrightarrow> qspi_frames csr w' = qspi_frames csr w"
  "read_jiffies w = (j, w') \<Longrightarrow> qspi_frames csr w' = qspi_frames csr w"
  unfolding ktime_get_def read_jiffies_def
  by (auto split: prod.splits sum.splits dest!: qspi_frames_eqs(3) [where csr = csr])

lemma qspi_frames_poll:
  "poll_loop addr cond sleep_us timeout_us timeout w = Some y \<Longrightarrow> qspi_frames csr (snd y) = qspi_frames csr w"
proof (induction addr cond sleep_us timeout_us timeout w y rule: poll_loop.raw_induct [rotated, consumes 1])
  case (1 loop addr cond sleep_us timeout_us timeout w y)
  obtain v w1 where v: "readl addr w = (v, w1)"
    by fastforce
  obtain now w2 where now: "ktime_get w1 = (now, w2)"
    by fastforce
  have w1: "qspi_frames csr w1 = qspi_frames csr w"
    using qspi_frames_eqs(1) [OF v] .
  have w2: "qspi_frames csr w2 = qspi_frames csr w"
    using qspi_frames_clock(1) [OF now] w1 by simp
  show ?case
    using 1(2) v now w1 w2 by (auto split: if_splits dest!: 1(1))
qed

lemma qspi_poll_frames:
  assumes "qspi_poll csr cond w = Some (r, w')"
  shows "qspi_frames csr' w' = qspi_frames csr' w"
  using assms unfolding qspi_poll_def readl_poll_timeout_def
  by (auto split: prod.splits option.splits dest!: qspi_frames_clock(1) [where csr = csr'] qspi_frames_poll [where csr = csr'])

text \<open>The same of the replies.\<close>

lemma qspi_talk_eqs:
  "readl a w = (v, w') \<Longrightarrow> qspi_talk csr w' = qspi_talk csr w"
  "kvalue f xs w = (r, w') \<Longrightarrow> qspi_talk csr w' = qspi_talk csr w"
  "ktime_get w = (t, w') \<Longrightarrow> qspi_talk csr w' = qspi_talk csr w"
  by (auto simp: readl_def kvalue_def kcall_def ktime_get_def Let_def qspi_talk_def split: sum.splits prod.splits)

lemma qspi_talk_steps [simp]:
  "qspi_talk csr (snd (readl a w)) = qspi_talk csr w"
  "qspi_talk csr (kvoid f xs w) = qspi_talk csr w" "qspi_talk csr (writeb b a w) = qspi_talk csr w"
  "qspi_talk csr (writel QSPI_ACTION_EN a w) = qspi_talk csr w"
  by (simp_all add: qspi_talk_def kvoid_def readl_def writeb_def writel_def Let_def QSPI_ACTION_EN_def QSPI_ACTION_SC_def)

lemma qspi_talk_iowrite8_rep [simp]: "qspi_talk csr (iowrite8_rep a bs w) = qspi_talk csr w"
  unfolding iowrite8_rep_def by (induction bs arbitrary: w) simp_all

lemma qspi_talk_start:
  "v AND QSPI_ACTION_SC \<noteq> 0 \<Longrightarrow>
   qspi_talk csr (writel v (csr + QSPI_ACTION_REG) w) = qspi_talk csr w @ [(snd (qspi_frames csr w), [])]"
  by (simp add: writel_def qspi_talk_def qspi_frames_def)

lemma qspi_talk_poll_loop:
  "poll_loop addr cond sleep_us timeout_us timeout w = Some y \<Longrightarrow> qspi_talk csr (snd y) = qspi_talk csr w"
proof (induction addr cond sleep_us timeout_us timeout w y rule: poll_loop.raw_induct [rotated, consumes 1])
  case (1 loop addr cond sleep_us timeout_us timeout w y)
  obtain v w1 where v: "readl addr w = (v, w1)"
    by fastforce
  obtain now w2 where now: "ktime_get w1 = (now, w2)"
    by fastforce
  have "qspi_talk csr w1 = qspi_talk csr w" "qspi_talk csr w2 = qspi_talk csr w"
    using qspi_talk_eqs(1) [OF v] qspi_talk_eqs(3) [OF now] by simp_all
  then show ?case
    using 1(2) v now by (auto split: if_splits dest!: 1(1))
qed

lemma qspi_poll_talk:
  assumes "qspi_poll csr cond w = Some (r, w')"
  shows "qspi_talk csr' w' = qspi_talk csr' w"
  using assms unfolding qspi_poll_def readl_poll_timeout_def
  by (auto split: prod.splits option.splits dest!: qspi_talk_eqs(3) [where csr = csr'] qspi_talk_poll_loop [where csr = csr'])

lemma qspi_talk_reply:
  "ioread8_rep (csr + QSPI_DATA_REG) n w = (bs, w') \<Longrightarrow> qspi_talk csr w = xs @ [(f, r)] \<Longrightarrow>
   qspi_talk csr w' = xs @ [(f, r @ bs)]"
proof (induction n arbitrary: w bs r w')
  case (Suc n)
  obtain b w1 where b: "readb (csr + QSPI_DATA_REG) w = (b, w1)"
    by fastforce
  obtain bs1 w2 where rest: "ioread8_rep (csr + QSPI_DATA_REG) n w1 = (bs1, w2)"
    by fastforce
  have "qspi_talk csr w1 = xs @ [(f, r @ [b])]"
    using b Suc.prems(2) by (auto simp: readb_def Let_def qspi_talk_def add_reply_def)
  from Suc.IH [OF rest this] show ?case
    using Suc.prems(1) b rest by auto
qed simp

lemma qspi_frames_writeb:
  "qspi_frames csr (writeb b (csr + QSPI_DATA_REG) w) = (qspi_sent csr w, snd (qspi_frames csr w) @ [b])"
  by (simp add: writeb_def qspi_frames_def qspi_sent_def split: prod.split)

lemma qspi_frames_iowrite8_rep:
  "qspi_frames csr (iowrite8_rep (csr + QSPI_DATA_REG) bs w) = (qspi_sent csr w, snd (qspi_frames csr w) @ bs)"
  unfolding iowrite8_rep_def
  by (induction bs arbitrary: w) (simp_all add: qspi_frames_writeb qspi_sent_def)

lemma ioread8_rep_frames:
  "ioread8_rep a n w = (bs, w') \<Longrightarrow> qspi_frames csr w' = qspi_frames csr w \<and> length bs = n"
proof (induction n arbitrary: w bs w')
  case (Suc n)
  obtain b w1 where b: "readb a w = (b, w1)"
    by fastforce
  obtain bs1 w2 where r: "ioread8_rep a n w1 = (bs1, w2)"
    by fastforce
  then show ?case
    using Suc.prems b Suc.IH [OF r] qspi_frames_eqs(2) [OF b, of csr] by auto
qed simp

lemma qspi_frames_start:
  "v AND QSPI_ACTION_SC \<noteq> 0 \<Longrightarrow>
   qspi_frames csr (writel v (csr + QSPI_ACTION_REG) w) = (qspi_sent csr w @ [snd (qspi_frames csr w)], [])"
  by (simp add: writel_def qspi_frames_def qspi_sent_def split: prod.split)

lemma qspi_frames_end:
  "qspi_frames csr (writel QSPI_ACTION_EN (csr + QSPI_ACTION_REG) w) = qspi_frames csr w"
  by (simp add: writel_def qspi_frames_def QSPI_ACTION_EN_def QSPI_ACTION_SC_def split: prod.split)

text \<open>Every action value that starts a transfer has the bit that does so.\<close>

lemma action_starts:
  "(QSPI_ACTION_EN OR QSPI_ACTION_SC) AND QSPI_ACTION_SC \<noteq> 0"
  "(QSPI_ACTION_EN OR QSPI_ACTION_SC OR x) AND QSPI_ACTION_SC \<noteq> 0"
  "(QSPI_ACTION_EN OR QSPI_ACTION_SC OR x OR y) AND QSPI_ACTION_SC \<noteq> 0"
proof -
  have sc: "(z OR QSPI_ACTION_SC) AND QSPI_ACTION_SC = QSPI_ACTION_SC" for z
    by (simp add: bit_eq_iff bit_simps)
  have ne: "QSPI_ACTION_SC \<noteq> 0"
    by (simp add: QSPI_ACTION_SC_def)
  have eqs: "QSPI_ACTION_EN OR QSPI_ACTION_SC OR x = (QSPI_ACTION_EN OR x) OR QSPI_ACTION_SC"
    "QSPI_ACTION_EN OR QSPI_ACTION_SC OR x OR y = (QSPI_ACTION_EN OR x OR y) OR QSPI_ACTION_SC"
    by (simp_all only: or.assoc or.left_commute or.commute)
  show "(QSPI_ACTION_EN OR QSPI_ACTION_SC) AND QSPI_ACTION_SC \<noteq> 0"
    unfolding sc by (rule ne)
  show "(QSPI_ACTION_EN OR QSPI_ACTION_SC OR x) AND QSPI_ACTION_SC \<noteq> 0"
    unfolding eqs(1) sc by (rule ne)
  show "(QSPI_ACTION_EN OR QSPI_ACTION_SC OR x OR y) AND QSPI_ACTION_SC \<noteq> 0"
    unfolding eqs(2) sc by (rule ne)
qed

subsection \<open>Addresses\<close>

lemma offset_byte_eq:
  assumes "i \<le> 3"
  shows "offset_byte offset (8 * i) = ucast (drop_bit (8 * i) offset)"
proof (rule bit_word_eqI)
  fix j assume "j < LENGTH(8)"
  then have j: "j < 8" by simp
  define m :: u32 where "m = 255"
  have "m = mask 8"
    by (simp add: m_def mask_eq_exp_minus_1)
  then have ones: "bit m j"
    using j by (simp only: bit_mask_iff) simp
  from assms consider "i = 0" | "i = 1" | "i = 2" | "i = 3" by linarith
  then show "bit (offset_byte offset (8 * i)) j = bit (ucast (drop_bit (8 * i) offset) :: u8) j"
    using j ones unfolding offset_byte_def m_def [symmetric]
    by cases (auto simp: bit_simps)
qed

lemma push_offset_eq:
  assumes "nor_addr_width nor \<le> 4"
  shows "altera_asmip2_push_offset csr nor offset w
    = iowrite8_rep (csr + QSPI_DATA_REG) (addr_bytes (unat (nor_addr_width nor)) offset) w"
proof -
  let ?n = "unat (nor_addr_width nor)"
  have n: "?n \<le> 4"
    using assms by (simp add: word_le_nat_alt)
  have "addr_bytes ?n offset = map (\<lambda>i. offset_byte offset (8 * i)) (rev [0..<?n])"
    using n by (intro nth_equalityI) (auto simp: addr_bytes_def rev_nth offset_byte_eq)
  then show ?thesis
    by (simp add: altera_asmip2_push_offset_def iowrite8_rep_def fold_map comp_def)
qed

subsection \<open>The interface\<close>

lemma qspi_idle_sent:
  assumes "qspi_idle csr w" and "qspi_frames csr w' = (qspi_sent csr w @ [f], [])" and "length f \<le> QSPI_FIFO_DEPTH"
  shows "qspi_idle csr w' \<and> qspi_sent csr w' = qspi_sent csr w @ [f]"
  using assms by (auto simp: qspi_idle_def qspi_sent_def)

lemma qspi_idle_same:
  assumes "qspi_idle csr w" and "qspi_frames csr w' = qspi_frames csr w"
  shows "qspi_idle csr w' \<and> qspi_sent csr w' = qspi_sent csr w"
  using assms by (auto simp: qspi_idle_def qspi_sent_def)

text \<open>A frame pushed byte by byte and started.\<close>

lemma qspi_push_start:
  assumes "qspi_idle csr w" and "v AND QSPI_ACTION_SC \<noteq> 0"
  shows "qspi_frames csr (writel v (csr + QSPI_ACTION_REG)
      (iowrite8_rep (csr + QSPI_DATA_REG) bs (writeb op (csr + QSPI_DATA_REG) w))) = (qspi_sent csr w @ [op # bs], [])"
  using assms
  by (simp add: qspi_frames_start qspi_sent_def qspi_frames_iowrite8_rep qspi_frames_writeb qspi_idle_def)

lemma iowrite8_rep_append: "iowrite8_rep a bs (iowrite8_rep a as w) = iowrite8_rep a (as @ bs) w"
  by (simp add: iowrite8_rep_def)

lemma asmip2_write_reg_law:
  assumes "qspi_idle csr w" and "length bs < QSPI_FIFO_DEPTH"
    and "altera_asmip2_write_reg csr op bs w = Some (r, w')"
  shows "qspi_idle csr w' \<and> qspi_sent csr w' = qspi_sent csr w @ [op # bs]"
proof -
  let ?w3 = "writel (QSPI_ACTION_EN OR QSPI_ACTION_SC) (csr + QSPI_ACTION_REG)
      (iowrite8_rep (csr + QSPI_DATA_REG) bs (writeb op (csr + QSPI_DATA_REG) w))"
  obtain w4 where w4: "qspi_poll csr tx_empty ?w3 = Some (r, w4)" "w' = writel QSPI_ACTION_EN (csr + QSPI_ACTION_REG) w4"
    using assms(2,3) by (auto simp: altera_asmip2_write_reg_def Let_def elim!: nor_catchE)
  have "qspi_frames csr w' = (qspi_sent csr w @ [op # bs], [])"
    using qspi_poll_frames [OF w4(1)] qspi_push_start [OF assms(1) action_starts(1)] w4(2)
    by (simp add: qspi_frames_end)
  then show ?thesis
    using qspi_idle_sent [OF assms(1)] assms(2) by simp
qed

lemma asmip2_read_reg_law:
  assumes "qspi_idle csr w" and "n \<le> QSPI_FIFO_DEPTH" and "altera_asmip2_read_reg csr op n w = Some (r, w')"
  shows "qspi_idle csr w' \<and> qspi_sent csr w' = qspi_sent csr w @ [[op]]"
proof -
  let ?w3 = "writel (QSPI_ACTION_EN OR QSPI_ACTION_SC OR push_bit QSPI_ACTION_READ_BACK_SFT (of_nat n))
      (csr + QSPI_ACTION_REG) (writeb op (csr + QSPI_DATA_REG) w)"
  obtain q w4 where w4: "qspi_poll csr (rx_holds n) ?w3 = Some (q, w4)"
    "w' = writel QSPI_ACTION_EN (csr + QSPI_ACTION_REG) w4
      \<or> w' = writel QSPI_ACTION_EN (csr + QSPI_ACTION_REG) (snd (ioread8_rep (csr + QSPI_DATA_REG) n w4))"
    using assms(2,3)
    by (auto simp: altera_asmip2_read_reg_def Let_def elim!: nor_catchE split: sum.splits prod.splits)
  have "qspi_frames csr w' = qspi_frames csr w4"
    using w4(2) ioread8_rep_frames [of "csr + QSPI_DATA_REG" n w4 _ _ csr, OF surjective_pairing]
    by (auto simp: qspi_frames_end)
  also have "\<dots> = (qspi_sent csr w @ [[op]], [])"
    using qspi_poll_frames [OF w4(1)] qspi_push_start [OF assms(1) action_starts(2), of _ "[]"]
    by (simp add: iowrite8_rep_def)
  finally show ?thesis
    using qspi_idle_sent [OF assms(1)] by (simp add: QSPI_FIFO_DEPTH_def)
qed

lemma addr_width_small: "nor_addr_width nor \<le> 4 \<Longrightarrow> unat (nor_addr_width nor) \<le> 4"
  by (simp add: word_le_nat_alt)

lemma asmip2_read_law:
  assumes "qspi_idle csr w" and "nor_addr_width nor \<le> 4" and "altera_asmip2_read csr nor a len w = Some (r, w')"
  shows "qspi_idle csr w'
    \<and> qspi_sent csr w' = qspi_sent csr w @ [nor_read_opcode nor # addr_bytes (unat (nor_addr_width nor)) a]
    \<and> (\<forall>bs. r = Inr bs \<longrightarrow> length bs \<le> len)"
proof -
  let ?n = "min len QSPI_FIFO_DEPTH" and ?as = "addr_bytes (unat (nor_addr_width nor)) a"
  let ?w3 = "writel (QSPI_ACTION_EN OR QSPI_ACTION_SC OR push_bit QSPI_ACTION_DUMMY_SFT 10
                 OR push_bit QSPI_ACTION_READ_BACK_SFT (of_nat ?n)) (csr + QSPI_ACTION_REG)
      (iowrite8_rep (csr + QSPI_DATA_REG) ?as (writeb (nor_read_opcode nor) (csr + QSPI_DATA_REG) w))"
  obtain q w4 where w4: "qspi_poll csr (rx_holds ?n) ?w3 = Some (q, w4)"
    "w' = writel QSPI_ACTION_EN (csr + QSPI_ACTION_REG) w4 \<and> r = Inr []
      \<or> w' = writel QSPI_ACTION_EN (csr + QSPI_ACTION_REG) (snd (ioread8_rep (csr + QSPI_DATA_REG) ?n w4))
        \<and> r = Inr (fst (ioread8_rep (csr + QSPI_DATA_REG) ?n w4))"
    using assms(3) unfolding altera_asmip2_read_def Let_def push_offset_eq [OF assms(2)]
    by (auto elim!: nor_catchE split: sum.splits prod.splits)
  note rep = ioread8_rep_frames [of "csr + QSPI_DATA_REG" ?n w4 _ _ csr, OF surjective_pairing]
  have "qspi_frames csr w' = qspi_frames csr w4"
    using w4(2) rep by (auto simp: qspi_frames_end)
  also have "\<dots> = (qspi_sent csr w @ [nor_read_opcode nor # ?as], [])"
    using qspi_poll_frames [OF w4(1)] qspi_push_start [OF assms(1) action_starts(3)] by simp
  finally have "qspi_frames csr w' = (qspi_sent csr w @ [nor_read_opcode nor # ?as], [])" .
  moreover have "length (nor_read_opcode nor # ?as) \<le> QSPI_FIFO_DEPTH"
    using addr_width_small [OF assms(2)] by (simp add: QSPI_FIFO_DEPTH_def)
  moreover have "\<forall>bs. r = Inr bs \<longrightarrow> length bs \<le> len"
    using w4(2) rep by auto
  ultimately show ?thesis
    using qspi_idle_sent [OF assms(1)] by blast
qed

text \<open>The reply to a read is the bytes that the driver returns, all of them read from the data register.\<close>

lemma asmip2_read_talk:
  assumes "qspi_idle csr w" and "nor_addr_width nor \<le> 4" and "altera_asmip2_read csr nor a len w = Some (r, w')"
  shows "qspi_talk csr w' = qspi_talk csr w @ [(nor_read_opcode nor # addr_bytes (unat (nor_addr_width nor)) a,
    case r of Inl _ \<Rightarrow> [] | Inr bs \<Rightarrow> bs)]"
proof -
  let ?n = "min len QSPI_FIFO_DEPTH" and ?as = "addr_bytes (unat (nor_addr_width nor)) a"
  let ?w2 = "iowrite8_rep (csr + QSPI_DATA_REG) ?as (writeb (nor_read_opcode nor) (csr + QSPI_DATA_REG) w)"
  let ?w3 = "writel (QSPI_ACTION_EN OR QSPI_ACTION_SC OR push_bit QSPI_ACTION_DUMMY_SFT 10
                 OR push_bit QSPI_ACTION_READ_BACK_SFT (of_nat ?n)) (csr + QSPI_ACTION_REG) ?w2"
  obtain q w4 where w4: "qspi_poll csr (rx_holds ?n) ?w3 = Some (q, w4)"
    "w' = writel QSPI_ACTION_EN (csr + QSPI_ACTION_REG) w4 \<and> r = Inr []
      \<or> w' = writel QSPI_ACTION_EN (csr + QSPI_ACTION_REG) (snd (ioread8_rep (csr + QSPI_DATA_REG) ?n w4))
        \<and> r = Inr (fst (ioread8_rep (csr + QSPI_DATA_REG) ?n w4))"
    using assms(3) unfolding altera_asmip2_read_def Let_def push_offset_eq [OF assms(2)]
    by (auto elim!: nor_catchE split: sum.splits prod.splits)
  have "snd (qspi_frames csr ?w2) = nor_read_opcode nor # ?as"
    using assms(1) by (simp add: qspi_frames_iowrite8_rep qspi_frames_writeb qspi_idle_def)
  then have "qspi_talk csr w4 = qspi_talk csr w @ [(nor_read_opcode nor # ?as, [])]"
    using qspi_poll_talk [OF w4(1)] by (simp add: qspi_talk_start [OF action_starts(3)])
  from qspi_talk_reply [OF surjective_pairing this] this show ?thesis
    using w4(2) by auto
qed

lemma asmip2_write_law:
  assumes "qspi_idle csr w" and "nor_addr_width nor \<le> 4" and "altera_asmip2_write csr nor a buf w = Some (r, w')"
  shows "qspi_idle csr w' \<and> (\<exists>m \<le> length buf. (\<forall>n. r = Inr n \<longrightarrow> n = m \<or> n = 0)
    \<and> qspi_sent csr w' = qspi_sent csr w
        @ [nor_program_opcode nor # addr_bytes (unat (nor_addr_width nor)) a @ take m buf])"
proof -
  let ?m = "min (length buf) (QSPI_FIFO_DEPTH - (unat (nor_addr_width nor) + 1))"
    and ?as = "addr_bytes (unat (nor_addr_width nor)) a"
  let ?w3 = "writel (QSPI_ACTION_EN OR QSPI_ACTION_SC) (csr + QSPI_ACTION_REG)
      (iowrite8_rep (csr + QSPI_DATA_REG) (?as @ take ?m buf)
        (writeb (nor_program_opcode nor) (csr + QSPI_DATA_REG) w))"
  obtain q w4 where w4: "qspi_poll csr tx_empty ?w3 = Some (q, w4)"
    "w' = writel QSPI_ACTION_EN (csr + QSPI_ACTION_REG) w4" "r = Inr ?m \<or> r = Inr 0"
    using assms(3) unfolding altera_asmip2_write_def Let_def push_offset_eq [OF assms(2)] iowrite8_rep_append
    by (auto elim!: nor_catchE split: sum.splits)
  have "qspi_frames csr w' = (qspi_sent csr w @ [nor_program_opcode nor # ?as @ take ?m buf], [])"
    using qspi_poll_frames [OF w4(1)] qspi_push_start [OF assms(1) action_starts(1)] w4(2)
    by (simp add: qspi_frames_end)
  moreover have "length (nor_program_opcode nor # ?as @ take ?m buf) \<le> QSPI_FIFO_DEPTH"
    using addr_width_small [OF assms(2)] by (simp add: QSPI_FIFO_DEPTH_def)
  ultimately have "qspi_idle csr w' \<and> qspi_sent csr w' = qspi_sent csr w
      @ [nor_program_opcode nor # ?as @ take ?m buf]"
    by (rule qspi_idle_sent [OF assms(1)])
  moreover have "?m \<le> length buf \<and> (\<forall>n. r = Inr n \<longrightarrow> n = ?m \<or> n = 0)"
    using w4(3) by auto
  ultimately show ?thesis
    by blast
qed

interpretation asmip2: flash_driver "asmip2_driver csr" "qspi_idle csr" "qspi_sent csr" "qspi_talk csr" QSPI_FIFO_DEPTH
  for csr
proof
  show "5 < QSPI_FIFO_DEPTH"
    by (simp add: QSPI_FIFO_DEPTH_def)
  show "qspi_idle csr s' \<and> qspi_sent csr s' = qspi_sent csr s"
    if "qspi_idle csr s" "spi_nor_lock_and_prep (asmip2_driver csr) ops s = Some (r, s')" for s ops r s'
    using that qspi_idle_same [OF that(1), of s']
    by (auto simp: spi_nor_lock_and_prep_def asmip2_driver_def altera_asmip2_prep_def)
  show "qspi_talk csr s' = qspi_talk csr s"
    if "qspi_idle csr s" "spi_nor_lock_and_prep (asmip2_driver csr) ops s = Some (r, s')" for s ops r s'
    using that by (auto simp: spi_nor_lock_and_prep_def asmip2_driver_def altera_asmip2_prep_def nor_ok_def)
  show "qspi_talk csr (spi_nor_unlock_and_unprep (asmip2_driver csr) ops s) = qspi_talk csr s" for s ops
    by (simp add: spi_nor_unlock_and_unprep_def asmip2_driver_def altera_asmip2_unprep_def)
  show "qspi_talk csr s' = qspi_talk csr s @ [(nor_read_opcode nor # addr_bytes (unat (nor_addr_width nor)) a,
      case r of Inl _ \<Rightarrow> [] | Inr bs \<Rightarrow> bs)]"
    if "qspi_idle csr s" "nor_addr_width nor \<le> 4"
      "the (nd_read (asmip2_driver csr)) nor a len s = Some (r, s')" for s nor a len r s'
    using asmip2_read_talk [OF that(1,2)] that(3) by (simp add: asmip2_driver_def)
  show "qspi_idle csr (spi_nor_unlock_and_unprep (asmip2_driver csr) ops s)
      \<and> qspi_sent csr (spi_nor_unlock_and_unprep (asmip2_driver csr) ops s) = qspi_sent csr s"
    if "qspi_idle csr s" for s ops
    by (rule qspi_idle_same [OF that])
      (simp add: spi_nor_unlock_and_unprep_def asmip2_driver_def altera_asmip2_unprep_def)
  show "qspi_idle csr s' \<and> qspi_sent csr s' = qspi_sent csr s"
    if "qspi_idle csr s" "nd_jiffies (asmip2_driver csr) s = (t, s')" for s t s'
    using that qspi_idle_same [OF that(1) qspi_frames_clock(2)] by (simp add: asmip2_driver_def)
  show "qspi_idle csr s' \<and> qspi_sent csr s' = qspi_sent csr s @ [op # bs]"
    if "qspi_idle csr s" "length bs < QSPI_FIFO_DEPTH"
      "the (nd_write_reg (asmip2_driver csr)) op bs s = Some (r, s')" for s bs op r s'
    using asmip2_write_reg_law [OF that(1,2)] that(3) by (simp add: asmip2_driver_def)
  show "qspi_idle csr s' \<and> qspi_sent csr s' = qspi_sent csr s @ [[op]]"
    if "qspi_idle csr s" "n \<le> QSPI_FIFO_DEPTH"
      "the (nd_read_reg (asmip2_driver csr)) op n s = Some (r, s')" for s n op r s'
    using asmip2_read_reg_law [OF that(1,2)] that(3) by (simp add: asmip2_driver_def)
  show "qspi_idle csr s' \<and> qspi_sent csr s' = qspi_sent csr s
        @ [nor_read_opcode nor # addr_bytes (unat (nor_addr_width nor)) a] \<and> (\<forall>bs. r = Inr bs \<longrightarrow> length bs \<le> len)"
    if "qspi_idle csr s" "nor_addr_width nor \<le> 4"
      "the (nd_read (asmip2_driver csr)) nor a len s = Some (r, s')" for s nor a len r s'
    using asmip2_read_law [OF that(1,2)] that(3) by (simp add: asmip2_driver_def)
  show "qspi_idle csr s' \<and> (\<exists>m \<le> length buf. (\<forall>n. r = Inr n \<longrightarrow> n = m \<or> n = 0)
      \<and> qspi_sent csr s' = qspi_sent csr s
          @ [nor_program_opcode nor # addr_bytes (unat (nor_addr_width nor)) a @ take m buf])"
    if "qspi_idle csr s" "nor_addr_width nor \<le> 4"
      "the (nd_write (asmip2_driver csr)) nor a buf s = Some (r, s')" for s nor a buf r s'
    using asmip2_write_law [OF that(1,2)] that(3) by (simp add: asmip2_driver_def)
  show "nd_erase (asmip2_driver csr) = None"
    by (simp add: asmip2_driver_def)
qed

end
