(* ===== verification/Asmip2_Flash.thy ===== *)
theory Asmip2_Flash
  imports Asmip2_Commands
begin

text \<open>
  The flash framework on the ASMI Parallel II controller: what reaches the chip when its MTD is
  erased, read and written.
\<close>

text \<open>
  A world in which the controller is always done: the fill count is one byte received and none to
  send, the data register reads 0, and the clocks stand still.
\<close>

definition flash_world :: world where
  "flash_world =
     \<lparr>w_readq = (\<lambda>_ _. 0), w_readl = (\<lambda>_ _. 1), w_readb = (\<lambda>_ _. 0),
      w_kcall = (\<lambda>_ _ _. Inr [0]), w_trace = []\<rparr>"

lemma flash_world_idle: "qspi_idle csr flash_world"
  by (simp add: qspi_idle_def qspi_frames_def qspi_sent_def flash_world_def)

text \<open>
  C7. A write through the controller sends the data in consecutive pieces none of which crosses a
  page, each after a write enable: a beginning of the data in any case, of which no more than what was
  sent is counted as written, and all of it when the write succeeds.
\<close>

theorem flash_write_pages:
  assumes "qspi_idle csr w" and "0 < nor_addr_width nor" and "nor_addr_width nor \<le> 4" and "hweight_ok k"
    and "nor_page_size nor \<noteq> 0" and "spi_nor_write k (asmip2_driver csr) nor to buf w = Some ((r, n), w')"
  shows "\<exists>cs. commands (qspi_sent csr w') = commands (qspi_sent csr w) @ write_commands nor cs
    \<and> consecutive to cs \<and> (\<forall>c \<in> set cs. within_page nor c) \<and> prefix (concat (map snd cs)) buf
    \<and> n \<le> length (concat (map snd cs)) \<and> (r = Inr () \<longrightarrow> concat (map snd cs) = buf \<and> n = length buf)"
  using asmip2.spi_nor_write_did [OF assms] unfolding did_def by metis

text \<open>
  C8. An erase through the controller that succeeds sends the erase of the whole chip, or one erase
  command for each sector of the range in order, each after a write enable, and a write disable at
  the end.
\<close>

theorem flash_erase_commands:
  assumes "qspi_idle csr w" and "0 < nor_addr_width nor" and "nor_addr_width nor \<le> 4" and "len < 2 ^ 32"
    and "spi_nor_erase k (asmip2_driver csr) nor addr len w = Some ((Inr (), st), w')"
  shows "st = Some MTD_ERASE_DONE
    \<and> commands (qspi_sent csr w') = commands (qspi_sent csr w) @ range_commands nor (ucast addr) len"
  using asmip2.spi_nor_erase_did [OF assms(1-3,5)] assms(4) by (simp add: did_def)

text \<open>
  C19. A read through the controller only sends read commands, of consecutive addresses, and what it
  returns is their replies: the bytes that it read from the data register after each command, in
  order and none left out. It returns as many as were asked for when it succeeds.
\<close>

theorem flash_read_pieces:
  assumes "qspi_idle csr w" and "0 < nor_addr_width nor" and "nor_addr_width nor \<le> 4"
    and "spi_nor_read (asmip2_driver csr) nor from len w = Some ((r, bs), w')"
  shows "\<exists>cs. qspi_talk csr w' = qspi_talk csr w @ read_replies nor cs
    \<and> consecutive from cs \<and> bs = concat (map snd cs) \<and> length bs \<le> unat len
    \<and> (r = Inr () \<longrightarrow> length bs = unat len)"
  using asmip2.spi_nor_read_did [OF assms] by metis

text \<open>
  C17. Whatever an operation of the MTD comes to, the driver pushes no more bytes into the FIFO between
  two starts of a transfer than it holds, and starts every byte that it pushes. The operations are the two
  ways to write, read, erase, lock, unlock and the question whether a range is locked.
\<close>

theorem flash_fifo_bound:
  assumes "qspi_idle csr w" and "0 < nor_addr_width nor" and "nor_addr_width nor \<le> 4" and "hweight_ok k"
    and "nor_page_size nor \<noteq> 0"
    and "(\<exists>r. spi_nor_write k (asmip2_driver csr) nor a buf w = Some (r, w'))
      \<or> (\<exists>r. sst_write k (asmip2_driver csr) nor a buf w = Some (r, w'))
      \<or> (\<exists>r. spi_nor_read (asmip2_driver csr) nor a len w = Some (r, w'))
      \<or> (\<exists>r. spi_nor_erase k (asmip2_driver csr) nor a len w = Some (r, w'))
      \<or> (\<exists>r. spi_nor_lock k (asmip2_driver csr) nor a len w = Some (r, w'))
      \<or> (\<exists>r. spi_nor_unlock k (asmip2_driver csr) nor a len w = Some (r, w'))
      \<or> (\<exists>r. spi_nor_is_locked (asmip2_driver csr) nor a len w = Some (r, w'))"
  shows "(\<forall>f \<in> set (qspi_sent csr w'). length f \<le> QSPI_FIFO_DEPTH) \<and> snd (qspi_frames csr w') = []"
proof -
  have "qspi_idle csr w'"
    using assms(6)
    by (elim disjE exE)
      (erule asmip2.spi_nor_ops_ok [OF assms(1-3)] asmip2.spi_nor_ops_ok(1) [OF assms(1-3) assms(4,5)]
        asmip2.sst_write_ok [OF assms(1,3)]
        asmip2.spi_nor_lock_ops_ok [OF assms(1)])+
  then show ?thesis
    by (simp add: qspi_idle_def)
qed


subsection \<open>Concrete operations\<close>

text \<open>The environment of \<open>flash_world\<close>, whatever was done to it.\<close>

definition calm :: "world \<Rightarrow> bool" where
  "calm w \<longleftrightarrow> w_readl w = (\<lambda>_ _. 1) \<and> w_readb w = (\<lambda>_ _. 0) \<and> w_kcall w = (\<lambda>_ _ _. Inr [0])"

lemma calm_flash_world: "calm flash_world"
  by (simp add: calm_def flash_world_def)

lemma calm_emit [simp]: "calm (emit e w) = calm w"
  by (simp add: calm_def)

lemma calm_steps [simp]:
  "calm (writeb b a w) = calm w" "calm (writel v a w) = calm w" "calm (kvoid f xs w) = calm w"
  "calm (iowrite8_rep a bs w) = calm w" "calm (altera_asmip2_push_offset csr nor off w) = calm w"
proof -
  have fold: "calm (fold (\<lambda>x. writeb (h x) a) xs w) = calm w" for h :: "'x \<Rightarrow> u8" and a xs w
    by (induction xs arbitrary: w) (simp_all add: writeb_def)
  show "calm (writeb b a w) = calm w" "calm (writel v a w) = calm w" "calm (kvoid f xs w) = calm w"
    by (simp_all add: writeb_def writel_def kvoid_def)
  show "calm (iowrite8_rep a bs w) = calm w" "calm (altera_asmip2_push_offset csr nor off w) = calm w"
    by (simp_all add: iowrite8_rep_def altera_asmip2_push_offset_def fold)
qed

lemma calm_reads:
  assumes "calm w"
  shows "\<exists>w'. readl a w = (1, w') \<and> calm w'" and "\<exists>w'. readb a w = (0, w') \<and> calm w'"
    and "\<exists>w'. ktime_get w = (0, w') \<and> calm w'" and "\<exists>w'. read_jiffies w = (0, w') \<and> calm w'"
proof -
  show "\<exists>w'. readl a w = (1, w') \<and> calm w'" "\<exists>w'. readb a w = (0, w') \<and> calm w'"
    using assms by (simp_all add: readl_def readb_def Let_def) (simp_all add: calm_def)
  have "kvalue f xs w = (Inr 0, emit (Call f xs (Inr [0])) w)" for f xs
    using assms by (simp add: kvalue_def kcall_def Let_def calm_def ret_val_def)
  then show "\<exists>w'. ktime_get w = (0, w') \<and> calm w'" "\<exists>w'. read_jiffies w = (0, w') \<and> calm w'"
    using assms by (simp_all add: ktime_get_def read_jiffies_def)
qed

lemma calm_poll:
  assumes "calm w" and "cond 1"
  shows "\<exists>w'. qspi_poll csr cond w = Some (Inr (), w') \<and> calm w'"
proof -
  obtain w1 where w1: "ktime_get w = (0, w1)" "calm w1"
    using calm_reads(3) [OF assms(1)] by blast
  obtain w2 where w2: "readl (csr + QSPI_FIFO_CNT_REG) w1 = (1, w2)" "calm w2"
    using calm_reads(1) [OF w1(2)] by blast
  have "poll_loop (csr + QSPI_FIFO_CNT_REG) cond i t u w1 = Some (1, w2)" for i t u
    by (subst poll_loop.simps) (simp add: w2 assms(2))
  then show ?thesis
    using w1 w2 assms(2) by (simp add: qspi_poll_def readl_poll_timeout_def)
qed

lemma tx_rx_one: "tx_empty 1" "rx_holds 1 1"
  by (simp_all add: tx_empty_def rx_holds_def QSPI_FIFO_CNT_MSK_def QSPI_FIFO_CNT_TX_SFT_def)

lemma calm_tx: "calm w \<Longrightarrow> \<exists>w'. qspi_poll csr tx_empty w = Some (Inr (), w') \<and> calm w'"
  by (rule calm_poll) (simp_all add: tx_rx_one)

lemma calm_rx: "calm w \<Longrightarrow> \<exists>w'. qspi_poll csr (rx_holds 1) w = Some (Inr (), w') \<and> calm w'"
  by (rule calm_poll, assumption, rule tx_rx_one)

lemma calm_write_reg:
  assumes "calm w" and "length bs < QSPI_FIFO_DEPTH"
  shows "\<exists>w'. altera_asmip2_write_reg csr op bs w = Some (Inr (), w') \<and> calm w'"
  using calm_tx [of "writel (QSPI_ACTION_EN OR QSPI_ACTION_SC) (csr + QSPI_ACTION_REG)
      (iowrite8_rep (csr + QSPI_DATA_REG) bs (writeb op (csr + QSPI_DATA_REG) w))" csr] assms
  by (auto simp: altera_asmip2_write_reg_def nor_catch_def Let_def)

lemma calm_read_one:
  assumes "calm w"
  shows "\<exists>w'. ioread8_rep a 1 w = ([0], w') \<and> calm w'"
  using calm_reads(2) [OF assms, of a] by auto

lemma calm_read_reg:
  assumes "calm w"
  shows "\<exists>w'. altera_asmip2_read_reg csr op 1 w = Some (Inr [0], w') \<and> calm w'"
proof -
  let ?w2 = "writel (QSPI_ACTION_EN OR QSPI_ACTION_SC OR push_bit QSPI_ACTION_READ_BACK_SFT (of_nat 1))
      (csr + QSPI_ACTION_REG) (writeb op (csr + QSPI_DATA_REG) w)"
  obtain w3 where w3: "qspi_poll csr (rx_holds 1) ?w2 = Some (Inr (), w3)" "calm w3"
    using calm_rx [of ?w2] assms by auto
  obtain w4 where "ioread8_rep (csr + QSPI_DATA_REG) 1 w3 = ([0], w4)" "calm w4"
    using calm_read_one [OF w3(2)] by blast
  then show ?thesis
    using w3 by (simp add: altera_asmip2_read_reg_def nor_catch_def Let_def QSPI_FIFO_DEPTH_def)
qed

lemma calm_write:
  assumes "calm w"
  shows "\<exists>w'. altera_asmip2_write csr nor a buf w
    = Some (Inr (min (length buf) (QSPI_FIFO_DEPTH - (unat (nor_addr_width nor) + 1))), w') \<and> calm w'"
  using calm_tx [of "writel (QSPI_ACTION_EN OR QSPI_ACTION_SC) (csr + QSPI_ACTION_REG)
      (iowrite8_rep (csr + QSPI_DATA_REG) (take (min (length buf) (QSPI_FIFO_DEPTH - (unat (nor_addr_width nor) + 1))) buf)
        (altera_asmip2_push_offset csr nor a (writeb (nor_program_opcode nor) (csr + QSPI_DATA_REG) w)))" csr] assms
  by (auto simp: altera_asmip2_write_def nor_catch_def Let_def)

lemma calm_wait:
  assumes "calm w" and "nor_flags nor = 0"
  shows "\<exists>w'. spi_nor_wait_till_ready k (asmip2_driver csr) nor w = Some (Inr (), w') \<and> calm w'"
proof -
  obtain w1 where w1: "read_jiffies w = (0, w1)" "calm w1"
    using calm_reads(4) [OF assms(1)] by blast
  obtain w2 where w2: "read_jiffies w1 = (0, w2)" "calm w2"
    using calm_reads(4) [OF w1(2)] by blast
  obtain w3 where w3: "altera_asmip2_read_reg csr SPINOR_OP_RDSR 1 w2 = Some (Inr [0], w3)" "calm w3"
    using calm_read_reg [OF w2(2)] by blast
  have "spi_nor_ready (asmip2_driver csr) nor w2 = Some (Inr True, w3)"
    using w3(1) assms(2)
    by (simp add: spi_nor_ready_def has_flag_def spi_nor_sr_ready_def read_sr_def rd_reg_def asmip2_driver_def
        nor_chain_def nor_catch_def nor_ok_def)
  moreover have "nd_jiffies (asmip2_driver csr) = read_jiffies"
    by (simp add: asmip2_driver_def)
  ultimately have "wait_ready_loop (asmip2_driver csr) nor deadline w1 = Some (Inr (), w3)" for deadline
    by (subst wait_ready_loop.simps) (simp add: w2)
  then show ?thesis
    using w1 w3(2) \<open>nd_jiffies (asmip2_driver csr) = read_jiffies\<close>
    by (simp add: spi_nor_wait_till_ready_def spi_nor_wait_till_ready_with_timeout_def)
qed

lemma calm_prep:
  "spi_nor_lock_and_prep (asmip2_driver csr) ops w = Some (Inr (), kvoid (Kfn ''mutex_lock'') [] w)"
  by (simp add: spi_nor_lock_and_prep_def asmip2_driver_def altera_asmip2_prep_def nor_ok_def)

text \<open>Two bytes, within a page.\<close>

lemma sample_write:
  "\<exists>w'. spi_nor_write sample_kernel (asmip2_driver csr) (sample_chip 0x800000 0) 0x100 [1, 2] flash_world
    = Some ((Inr (), 2), w')"
proof -
  let ?D = "asmip2_driver csr" and ?nor = "sample_chip 0x800000 0"
  let ?w = "kvoid (Kfn ''mutex_lock'') [] flash_world"
  obtain w1 where w1: "altera_asmip2_write_reg csr SPINOR_OP_WREN [] ?w = Some (Inr (), w1)" "calm w1"
    using calm_write_reg [of ?w "[]"] calm_flash_world by (auto simp: QSPI_FIFO_DEPTH_def)
  obtain w2 where w2: "altera_asmip2_write csr ?nor 0x100 [1, 2] w1 = Some (Inr 2, w2)" "calm w2"
    using calm_write [OF w1(2), of csr ?nor "0x100" "[1, 2]"] by (auto simp: QSPI_FIFO_DEPTH_def sample_chip_def)
  obtain w3 where w3: "spi_nor_wait_till_ready sample_kernel ?D ?nor w2 = Some (Inr (), w3)"
    using calm_wait [OF w2(2), of ?nor sample_kernel csr] by (auto simp: sample_chip_def)
  have remain: "page_remain sample_kernel ?nor 0x100 2 = 2"
    by (simp add: page_remain_def page_offset_def sample_chip_def)
  have fields: "the (nd_write ?D) = altera_asmip2_write csr" "the (nd_write_reg ?D) = altera_asmip2_write_reg csr"
    "chip_addr ?nor 0x100 = 0x100"
    by (simp_all add: asmip2_driver_def chip_addr_def has_flag_def sample_chip_def)
  have tail: "write_loop sample_kernel ?D ?nor 0x100 [1, 2] (Suc (Suc 0)) w3 = Some ((Inr (), 2), w3)"
    by (subst write_loop.simps) (simp add: numeral_2_eq_2)
  have "write_loop sample_kernel ?D ?nor 0x100 [1, 2] 0 ?w = Some ((Inr (), 2), w3)"
    by (subst write_loop.simps)
      (simp add: nor_catch_def write_enable_def fields w1(1) w2(1) w3 remain remain [unfolded numeral_2_eq_2] tail)
  then show ?thesis
    by (simp add: spi_nor_write_def calm_prep)
qed

lemma sample_erase:
  "\<exists>w'. spi_nor_erase sample_kernel (asmip2_driver csr) (sample_chip 0x800000 0) 0x20000 0x10000 flash_world
    = Some ((Inr (), Some MTD_ERASE_DONE), w')"
proof -
  let ?D = "asmip2_driver csr" and ?nor = "sample_chip 0x800000 0"
  let ?w = "kvoid (Kfn ''mutex_lock'') [] flash_world"
  obtain w1 where w1: "altera_asmip2_write_reg csr SPINOR_OP_WREN [] ?w = Some (Inr (), w1)" "calm w1"
    using calm_write_reg [of ?w "[]"] calm_flash_world by (auto simp: QSPI_FIFO_DEPTH_def)
  obtain w2 where w2: "altera_asmip2_write_reg csr SPINOR_OP_SE (addr_bytes 3 0x20000) w1 = Some (Inr (), w2)" "calm w2"
    using calm_write_reg [OF w1(2), of "addr_bytes 3 0x20000"] by (auto simp: QSPI_FIFO_DEPTH_def)
  obtain w3 where w3: "spi_nor_wait_till_ready sample_kernel ?D ?nor w2 = Some (Inr (), w3)" "calm w3"
    using calm_wait [OF w2(2), of ?nor sample_kernel csr] by (auto simp: sample_chip_def)
  obtain w4 where w4: "altera_asmip2_write_reg csr SPINOR_OP_WRDI [] w3 = Some (Inr (), w4)"
    using calm_write_reg [OF w3(2), of "[]"] by (auto simp: QSPI_FIFO_DEPTH_def)
  have fields: "the (nd_write_reg ?D) = altera_asmip2_write_reg csr" "nd_erase ?D = None"
    by (simp_all add: asmip2_driver_def)
  have sector: "spi_nor_erase_sector ?D ?nor 0x20000 w1 = Some (Inr (), w2)"
    using w2(1) by (simp add: spi_nor_erase_sector_def fields has_flag_def sample_chip_def)
  have es: "mtd_erasesize ?nor = 0x10000" "mtd_size ?nor = 0x800000"
    by (simp_all add: sample_chip_def)
  have tail: "erase_sectors sample_kernel ?D ?nor a 0 w3 = Some (Inr (), w3)" for a
    by (subst erase_sectors.simps) simp
  have "erase_sectors sample_kernel ?D ?nor 0x20000 0x10000 ?w = Some (Inr (), w3)"
    by (subst erase_sectors.simps)
      (simp add: nor_catch_def nor_chain_def write_enable_def fields w1(1) sector w3(1) es tail)
  then show ?thesis
    by (simp add: spi_nor_erase_def erase_range_def calm_prep es nor_catch_def nor_chain_def nor_ok_def
        write_disable_def fields w4)
qed

lemma sample_read:
  "\<exists>w'. spi_nor_read (asmip2_driver csr) (sample_chip 0x800000 0) 0x20000 1 flash_world = Some ((Inr (), [0]), w')"
proof -
  let ?D = "asmip2_driver csr" and ?nor = "sample_chip 0x800000 0"
  let ?w = "kvoid (Kfn ''mutex_lock'') [] flash_world"
  let ?w3 = "writel (QSPI_ACTION_EN OR QSPI_ACTION_SC OR push_bit QSPI_ACTION_DUMMY_SFT 10
                 OR push_bit QSPI_ACTION_READ_BACK_SFT (of_nat 1)) (csr + QSPI_ACTION_REG)
      (altera_asmip2_push_offset csr ?nor 0x20000 (writeb (nor_read_opcode ?nor) (csr + QSPI_DATA_REG) ?w))"
  obtain w4 where w4: "qspi_poll csr (rx_holds 1) ?w3 = Some (Inr (), w4)" "calm w4"
    using calm_rx [of ?w3] calm_flash_world by auto
  obtain w5 where w5: "ioread8_rep (csr + QSPI_DATA_REG) 1 w4 = ([0], w5)"
    using calm_read_one [OF w4(2)] by blast
  let ?w6 = "writel QSPI_ACTION_EN (csr + QSPI_ACTION_REG) w5"
  have "altera_asmip2_read csr ?nor 0x20000 1 ?w = Some (Inr [0], ?w6)"
    using w4(1) w5 by (simp add: altera_asmip2_read_def nor_catch_def Let_def QSPI_FIFO_DEPTH_def)
  then have rd: "the (nd_read ?D) ?nor (chip_addr ?nor 0x20000) 1 ?w = Some (Inr [0], ?w6)"
    by (simp add: asmip2_driver_def chip_addr_def has_flag_def sample_chip_def)
  have tail: "read_loop ?D ?nor a 0 acc v = Some ((Inr (), acc), v)" for a acc v
    by (subst read_loop.simps) simp
  have "read_loop ?D ?nor 0x20000 1 [] ?w = Some ((Inr (), [0]), ?w6)"
    by (subst read_loop.simps) (simp add: rd rd [unfolded One_nat_def] tail)
  then show ?thesis
    by (simp add: spi_nor_read_def calm_prep)
qed

lemma sample_chip_widths: "0 < nor_addr_width (sample_chip 0x800000 0)" "nor_addr_width (sample_chip 0x800000 0) \<le> 4"
  "nor_page_size (sample_chip 0x800000 0) \<noteq> 0"
  by (simp_all add: sample_chip_def)

theorem flash_write_pages_witness:
  "\<exists>w' cs. commands (qspi_sent 0 w') = write_commands (sample_chip 0x800000 0) cs
    \<and> consecutive 0x100 cs \<and> concat (map snd cs) = [1, 2]"
proof -
  obtain w' where "spi_nor_write sample_kernel (asmip2_driver 0) (sample_chip 0x800000 0) 0x100 [1, 2] flash_world
    = Some ((Inr (), 2), w')"
    using sample_write by blast
  from flash_write_pages [OF flash_world_idle sample_chip_widths(1,2) sample_kernel_ok(2) sample_chip_widths(3) this]
  show ?thesis
    by (auto simp: qspi_sent_def qspi_frames_def flash_world_def)
qed

theorem flash_erase_commands_witness:
  "\<exists>w'. commands (qspi_sent 0 w') = [[SPINOR_OP_WREN], SPINOR_OP_SE # addr_bytes 3 0x20000, [SPINOR_OP_WRDI]]"
proof -
  obtain w' where "spi_nor_erase sample_kernel (asmip2_driver 0) (sample_chip 0x800000 0) 0x20000 0x10000 flash_world
    = Some ((Inr (), Some MTD_ERASE_DONE), w')"
    using sample_erase by blast
  from flash_erase_commands [OF flash_world_idle sample_chip_widths(1,2) _ this] show ?thesis
    by (auto simp: qspi_sent_def qspi_frames_def flash_world_def range_commands_def sample_chip_def erase_addr_def
        has_flag_def)
qed

theorem flash_read_pieces_witness:
  "\<exists>w' cs. qspi_talk 0 w' = read_replies (sample_chip 0x800000 0) cs
    \<and> consecutive 0x20000 cs \<and> concat (map snd cs) = [0]"
proof -
  obtain w' where "spi_nor_read (asmip2_driver 0) (sample_chip 0x800000 0) 0x20000 1 flash_world
    = Some ((Inr (), [0]), w')"
    using sample_read by blast
  from flash_read_pieces [OF flash_world_idle sample_chip_widths(1,2) this]
  obtain cs where "qspi_talk 0 w' = qspi_talk 0 flash_world @ read_replies (sample_chip 0x800000 0) cs"
    "consecutive 0x20000 cs" "concat (map snd cs) = [0]"
    by auto
  moreover have "qspi_talk 0 flash_world = []"
    by (simp add: qspi_talk_def flash_world_def)
  ultimately show ?thesis
    by (intro exI [of _ w'] exI [of _ cs]) simp
qed

theorem flash_fifo_bound_witness:
  "\<exists>w'. spi_nor_write sample_kernel (asmip2_driver 0) (sample_chip 0x800000 0) 0x100 [1, 2] flash_world
      = Some ((Inr (), 2), w') \<and> list_all (\<lambda>f. length f \<le> QSPI_FIFO_DEPTH) (qspi_sent 0 w')"
proof -
  obtain w' where w: "spi_nor_write sample_kernel (asmip2_driver 0) (sample_chip 0x800000 0) 0x100 [1, 2] flash_world
    = Some ((Inr (), 2), w')"
    using sample_write by blast
  have "list_all (\<lambda>f. length f \<le> QSPI_FIFO_DEPTH) (qspi_sent 0 w')"
    using flash_fifo_bound [OF flash_world_idle sample_chip_widths(1,2) sample_kernel_ok(2) sample_chip_widths(3)] w
    unfolding list_all_iff by blast
  then show ?thesis
    using w by blast
qed

end
