(* ===== verification/Asmip2_Live.thy ===== *)
theory Asmip2_Live
  imports Asmip2_Flash
begin

text \<open>
  The commands of the ASMI Parallel II driver return, whatever the hardware answers, as long as the
  kernel's clock runs: the polling loop ends at its timeout.
\<close>

subsection \<open>The clock\<close>

text \<open>The time that was slept, in microseconds: \<^verbatim>\<open>usleep_range\<close> sleeps for its lower bound at least.\<close>

fun slept :: "event list \<Rightarrow> int" where
  "slept [] = 0"
| "slept (Call f xs r # es) = (if f = Kfn ''usleep_range'' then ret_val xs else 0) + slept es"
| "slept (RdQ a b # es) = slept es"
| "slept (WrQ a b # es) = slept es"
| "slept (RdL a c # es) = slept es"
| "slept (WrL a c # es) = slept es"
| "slept (RdB a d # es) = slept es"
| "slept (WrB a d # es) = slept es"
| "slept (Wr512 a ds # es) = slept es"
| "slept (Udelay n # es) = slept es"

text \<open>The clock is a number of nanoseconds that grows at least by the time slept.\<close>

definition clock_runs :: "world \<Rightarrow> (event list \<Rightarrow> int) \<Rightarrow> bool" where
  "clock_runs w T \<longleftrightarrow>
     (\<forall>tr xs. w_kcall w tr (Kfn ''ktime_get'') xs = Inr [T tr]) \<and>
     (\<forall>e tr. T tr + 1000 * slept [e] \<le> T (e # tr))"

lemma clock_runs_emit [simp]: "clock_runs (emit e w) T = clock_runs w T"
  by (simp add: clock_runs_def)

lemma clock_runs_steps [simp]:
  "clock_runs (writeb b a w) T = clock_runs w T" "clock_runs (writel v a w) T = clock_runs w T"
  "clock_runs (kvoid f xs w) T = clock_runs w T"
  "clock_runs (iowrite8_rep a bs w) T = clock_runs w T"
  "clock_runs (altera_asmip2_push_offset csr nor off w) T = clock_runs w T"
proof -
  have fold: "clock_runs (fold (\<lambda>x. writeb (h x) a) xs w) T = clock_runs w T" for h :: "'x \<Rightarrow> u8" and a xs w
    by (induction xs arbitrary: w) (simp_all add: writeb_def)
  show "clock_runs (writeb b a w) T = clock_runs w T" "clock_runs (writel v a w) T = clock_runs w T"
    "clock_runs (kvoid f xs w) T = clock_runs w T"
    by (simp_all add: writeb_def writel_def kvoid_def)
  show "clock_runs (iowrite8_rep a bs w) T = clock_runs w T"
    "clock_runs (altera_asmip2_push_offset csr nor off w) T = clock_runs w T"
    by (simp_all add: iowrite8_rep_def altera_asmip2_push_offset_def fold)
qed

lemma ktime_get_clock:
  assumes "clock_runs w T"
  shows "ktime_get w = (T (w_trace w), emit (Call (Kfn ''ktime_get'') [] (Inr [T (w_trace w)])) w)"
  using assms by (simp add: ktime_get_def kvalue_def kcall_def Let_def clock_runs_def ret_val_def)

lemma clock_step:
  assumes "clock_runs w T"
  shows "T (w_trace w) + 1000 * slept [e] \<le> T (w_trace (emit e w))"
  using assms by (simp add: clock_runs_def)

subsection \<open>Polling\<close>

text \<open>The reads of a register of 32 bits.\<close>

fun is_rdl :: "event \<Rightarrow> bool" where
  "is_rdl (RdL a v) \<longleftrightarrow> True"
| "is_rdl e \<longleftrightarrow> False"

definition rdls :: "world \<Rightarrow> nat" where
  "rdls w = length (filter is_rdl (w_trace w))"

lemma rdls_emit [simp]: "rdls (emit e w) = (if is_rdl e then Suc (rdls w) else rdls w)"
  by (simp add: rdls_def)

text \<open>One round: it ends the loop, or time passes and the loop goes on.\<close>

lemma poll_round:
  assumes "clock_runs w T"
  shows "(\<exists>v w'. poll_loop addr cond 5 10000000 timeout w = Some (v, w') \<and> rdls w' \<le> rdls w + 2)
    \<or> (T (w_trace w) \<le> timeout \<and> (\<exists>w3. poll_loop addr cond 5 10000000 timeout w = poll_loop addr cond 5 10000000 timeout w3
        \<and> clock_runs w3 T \<and> rdls w3 = rdls w + 1 \<and> T (w_trace w) + 2000 \<le> T (w_trace w3)))"
proof -
  define v where "v = w_readl w (w_trace w) addr"
  define w1 where "w1 = emit (RdL addr v) w"
  have rd: "readl addr w = (v, w1)"
    by (simp add: readl_def Let_def v_def w1_def)
  have c1: "clock_runs w1 T"
    using assms by (simp add: w1_def)
  have t1: "T (w_trace w) \<le> T (w_trace w1)"
    using clock_step [OF assms, of "RdL addr v"] by (simp add: w1_def)
  define w2 where "w2 = emit (Call (Kfn ''ktime_get'') [] (Inr [T (w_trace w1)])) w1"
  have now: "ktime_get w1 = (T (w_trace w1), w2)"
    using ktime_get_clock [OF c1] by (simp add: w2_def)
  define w3 where "w3 = kvoid (Kfn ''usleep_range'') [2, 5] w2"
  have w3: "clock_runs w3 T" "rdls w3 = rdls w + 1"
    using c1 by (simp_all add: w3_def w2_def w1_def kvoid_def)
  have "T (w_trace w1) \<le> T (w_trace w2)"
    using clock_step [OF c1, of "Call (Kfn ''ktime_get'') [] (Inr [T (w_trace w1)])"] by (simp add: w2_def)
  moreover have "T (w_trace w2) + 2000 \<le> T (w_trace w3)"
    using clock_step [of w2 T "Call (Kfn ''usleep_range'') [2, 5] (Inr [])"] c1
    by (simp add: w3_def w2_def kvoid_def ret_val_def)
  ultimately have t3: "T (w_trace w) + 2000 \<le> T (w_trace w3)"
    using t1 by linarith
  consider "cond v" | "\<not> cond v" "timeout < T (w_trace w1)" | "\<not> cond v" "\<not> timeout < T (w_trace w1)"
    by blast
  then show ?thesis
  proof cases
    case 1
    have "poll_loop addr cond 5 10000000 timeout w = Some (v, w1)"
      by (subst poll_loop.simps) (simp add: rd 1)
    then show ?thesis
      by (simp add: w1_def)
  next
    case 2
    have "poll_loop addr cond 5 10000000 timeout w = Some (readl addr w2)"
      by (subst poll_loop.simps) (simp add: rd now 2)
    then show ?thesis
      by (simp add: readl_def Let_def w2_def w1_def)
  next
    case 3
    have "poll_loop addr cond 5 10000000 timeout w = poll_loop addr cond 5 10000000 timeout w3"
      by (subst poll_loop.simps) (simp add: rd now 3 w3_def)
    then show ?thesis
      using w3 t3 t1 3(2) by force
  qed
qed

text \<open>With less than the time of \<open>n\<close> sleeps left, the loop ends after \<open>n + 2\<close> reads at most.\<close>

lemma poll_loop_returns:
  assumes "clock_runs w T" and "timeout < T (w_trace w) + 2000 * int n"
  shows "\<exists>v w'. poll_loop addr cond 5 10000000 timeout w = Some (v, w') \<and> rdls w' \<le> rdls w + n + 2"
  using assms
proof (induction n arbitrary: w)
  case 0
  then show ?case
    using poll_round [OF 0(1), of addr cond timeout] by auto
next
  case (Suc n)
  from poll_round [OF Suc.prems(1), of addr cond timeout] show ?case
  proof (elim disjE exE conjE)
    fix v w' assume "poll_loop addr cond 5 10000000 timeout w = Some (v, w')" "rdls w' \<le> rdls w + 2"
    then show ?thesis
      by auto
  next
    fix w3 assume eq: "poll_loop addr cond 5 10000000 timeout w = poll_loop addr cond 5 10000000 timeout w3"
      and w3: "clock_runs w3 T" "rdls w3 = rdls w + 1" "T (w_trace w) + 2000 \<le> T (w_trace w3)"
    have "timeout < T (w_trace w3) + 2000 * int n"
      using Suc.prems(2) w3(3) by simp
    from Suc.IH [OF w3(1) this] show ?thesis
      unfolding eq w3(2) by auto
  qed
qed

lemma qspi_poll_returns:
  assumes "clock_runs w T"
  shows "\<exists>r w'. qspi_poll csr cond w = Some (r, w') \<and> rdls w' \<le> rdls w + 5000003"
proof -
  let ?w1 = "emit (Call (Kfn ''ktime_get'') [] (Inr [T (w_trace w)])) w"
  have "T (w_trace w) \<le> T (w_trace ?w1)"
    using clock_step [OF assms, of "Call (Kfn ''ktime_get'') [] (Inr [T (w_trace w)])"] by simp
  then have "T (w_trace w) + 1000 * int 10000000 < T (w_trace ?w1) + 2000 * int 5000001"
    by simp
  from poll_loop_returns [of ?w1 T, OF _ this, of "csr + QSPI_FIFO_CNT_REG" cond]
  obtain v w' where "poll_loop (csr + QSPI_FIFO_CNT_REG) cond 5 10000000 (T (w_trace w) + 1000 * int 10000000) ?w1
      = Some (v, w')" "rdls w' \<le> rdls w + 5000003"
    using assms by auto
  then show ?thesis
    by (simp add: qspi_poll_def readl_poll_timeout_def ktime_get_clock [OF assms] QSPI_POLL_INTERVAL_US_def
        QSPI_POLL_TIMEOUT_US_def)
qed

subsection \<open>Commands\<close>

lemma rdls_steps [simp]:
  "rdls (writeb b a w) = rdls w" "rdls (writel v a w) = rdls w"
  "rdls (iowrite8_rep a bs w) = rdls w" "rdls (altera_asmip2_push_offset csr nor off w) = rdls w"
proof -
  have fold: "rdls (fold (\<lambda>x. writeb (h x) a) xs w) = rdls w" for h :: "'x \<Rightarrow> u8" and a xs w
    by (induction xs arbitrary: w) (simp_all add: writeb_def)
  show "rdls (writeb b a w) = rdls w" "rdls (writel v a w) = rdls w"
    by (simp_all add: writeb_def writel_def)
  show "rdls (iowrite8_rep a bs w) = rdls w" "rdls (altera_asmip2_push_offset csr nor off w) = rdls w"
    by (simp_all add: iowrite8_rep_def altera_asmip2_push_offset_def fold)
qed

lemma rdls_ioread8_rep [simp]: "ioread8_rep a n w = (bs, w') \<Longrightarrow> rdls w' = rdls w"
proof (induction n arbitrary: w bs w')
  case (Suc n)
  then show ?case
    by (auto simp: readb_def Let_def split: prod.splits)
qed simp

text \<open>
  C13. If the clock runs, every command of the controller returns, whatever the hardware answers, after
  at most 5000003 reads of the fill count.
\<close>

theorem asmip2_commands_return:
  assumes "clock_runs w T"
  shows "(\<exists>r w'. altera_asmip2_write_reg csr op bs w = Some (r, w') \<and> rdls w' \<le> rdls w + 5000003)
    \<and> (\<exists>r w'. altera_asmip2_read_reg csr op n w = Some (r, w') \<and> rdls w' \<le> rdls w + 5000003)
    \<and> (\<exists>r w'. altera_asmip2_read csr nor a len w = Some (r, w') \<and> rdls w' \<le> rdls w + 5000003)
    \<and> (\<exists>r w'. altera_asmip2_write csr nor a buf w = Some (r, w') \<and> rdls w' \<le> rdls w + 5000003)"
proof (intro conjI)
  have poll: "\<exists>r v. qspi_poll csr cond w1 = Some (r, v) \<and> rdls v \<le> rdls w + 5000003"
    if "clock_runs w1 T" "rdls w1 = rdls w" for cond w1
    using qspi_poll_returns [OF that(1)] that(2) by simp
  show "\<exists>r w'. altera_asmip2_write_reg csr op bs w = Some (r, w') \<and> rdls w' \<le> rdls w + 5000003"
  proof -
    let ?w3 = "writel (QSPI_ACTION_EN OR QSPI_ACTION_SC) (csr + QSPI_ACTION_REG)
      (iowrite8_rep (csr + QSPI_DATA_REG) bs (writeb op (csr + QSPI_DATA_REG) w))"
    show ?thesis
      using poll [of ?w3 tx_empty] assms by (auto simp: altera_asmip2_write_reg_def nor_fail_def nor_catch_def Let_def)
  qed
  show "\<exists>r w'. altera_asmip2_read_reg csr op n w = Some (r, w') \<and> rdls w' \<le> rdls w + 5000003"
  proof -
    let ?w2 = "writel (QSPI_ACTION_EN OR QSPI_ACTION_SC OR push_bit QSPI_ACTION_READ_BACK_SFT (of_nat n))
      (csr + QSPI_ACTION_REG) (writeb op (csr + QSPI_DATA_REG) w)"
    show ?thesis
      using poll [of ?w2 "rx_holds n"] assms
      by (auto simp: altera_asmip2_read_reg_def nor_fail_def nor_catch_def Let_def split: sum.split prod.split)
  qed
  show "\<exists>r w'. altera_asmip2_read csr nor a len w = Some (r, w') \<and> rdls w' \<le> rdls w + 5000003"
  proof -
    let ?n = "min len QSPI_FIFO_DEPTH"
    let ?w3 = "writel (QSPI_ACTION_EN OR QSPI_ACTION_SC OR push_bit QSPI_ACTION_DUMMY_SFT 10
                 OR push_bit QSPI_ACTION_READ_BACK_SFT (of_nat ?n)) (csr + QSPI_ACTION_REG)
      (altera_asmip2_push_offset csr nor a (writeb (nor_read_opcode nor) (csr + QSPI_DATA_REG) w))"
    show ?thesis
      using poll [of ?w3 "rx_holds ?n"] assms
      by (auto simp: altera_asmip2_read_def nor_catch_def Let_def split: sum.split prod.split)
  qed
  show "\<exists>r w'. altera_asmip2_write csr nor a buf w = Some (r, w') \<and> rdls w' \<le> rdls w + 5000003"
  proof -
    let ?m = "min (length buf) (QSPI_FIFO_DEPTH - (unat (nor_addr_width nor) + 1))"
    let ?w4 = "writel (QSPI_ACTION_EN OR QSPI_ACTION_SC) (csr + QSPI_ACTION_REG)
      (iowrite8_rep (csr + QSPI_DATA_REG) (take ?m buf)
        (altera_asmip2_push_offset csr nor a (writeb (nor_program_opcode nor) (csr + QSPI_DATA_REG) w)))"
    show ?thesis
      using poll [of ?w4 tx_empty] assms by (auto simp: altera_asmip2_write_def nor_catch_def Let_def)
  qed
qed

text \<open>Hardware that never answers, and a clock that advances by what is slept.\<close>

definition silent_world :: world where
  "silent_world =
     \<lparr>w_readq = (\<lambda>_ _. 0), w_readl = (\<lambda>_ _. 0xffffffff), w_readb = (\<lambda>_ _. 0),
      w_kcall = (\<lambda>tr f xs. Inr [1000 * slept tr]), w_trace = []\<rparr>"

lemma slept_Cons: "slept (e # es) = slept [e] + slept es"
  by (cases e) simp_all

theorem asmip2_commands_return_witness:
  "\<exists>r w'. altera_asmip2_write_reg 0 SPINOR_OP_WREN [] silent_world = Some (r, w') \<and> rdls w' \<le> 5000003"
proof -
  have "1000 * slept tr + 1000 * slept [e] \<le> 1000 * slept (e # tr)" for e tr
    using slept_Cons [of e tr] by linarith
  then have "clock_runs silent_world (\<lambda>tr. 1000 * slept tr)"
    unfolding clock_runs_def by (simp add: silent_world_def)
  from asmip2_commands_return [OF this, of 0 SPINOR_OP_WREN "[]"] show ?thesis
    by (simp add: rdls_def silent_world_def)
qed

end
