(* ===== verification/Asmip2_Banks.thy ===== *)
theory Asmip2_Banks
  imports Asmip2_Flash
begin

text \<open>
  The banks of the ASMI Parallel II controller from probe to remove: which slots are taken, and which
  MTDs a remove unregisters.
\<close>

subsection \<open>The slots\<close>

definition banks_ok :: "asmip2 \<Rightarrow> bool" where
  "banks_ok q \<longleftrightarrow> length (asmip2_flash q) = 3 \<and> unat (num_flashes q) \<le> 3
     \<and> (\<forall>i < 3. unat (num_flashes q) \<le> i \<longrightarrow> asmip2_flash q ! i = None)"

lemma create_banks_ok: "altera_asmip2_create csr w = (Inr q, w') \<Longrightarrow> banks_ok q"
  by (auto simp: altera_asmip2_create_def banks_ok_def Let_def split: sum.splits prod.splits if_splits)

text \<open>A bank that is set up has a number below the count.\<close>

lemma setup_banks_ok:
  assumes "altera_asmip2_setup_banks k bank np q w = Some ((r, q'), w')" and "banks_ok q" and "0 < num_flashes q"
  shows "banks_ok q'"
proof (cases "num_flashes q - 1 < bank")
  case True
  then show ?thesis
    using assms(1,2) by (simp add: altera_asmip2_setup_banks_def)
next
  case False
  have "unat bank \<le> unat (num_flashes q - 1)"
    using False by (simp add: word_le_nat_alt [symmetric] not_less)
  moreover have "unat (num_flashes q - 1) = unat (num_flashes q) - 1" "0 < unat (num_flashes q)"
    using assms(3) by (simp_all add: unat_minus_one word_greater_zero_iff unat_gt_0)
  ultimately have lt: "unat bank < unat (num_flashes q)"
    by linarith
  have "q' = q \<or> (\<exists>x. q' = q\<lparr>asmip2_flash := (asmip2_flash q)[unat bank := x]\<rparr>)"
    using assms(1) False by (auto simp: altera_asmip2_setup_banks_def Let_def split: sum.splits prod.splits option.splits)
  then show ?thesis
    using assms(2) lt by (auto simp: banks_ok_def)
qed

lemma add_bank_ok:
  assumes "altera_asmip2_add_bank k bank np q w = Some ((r, q'), w')" and "banks_ok q"
  shows "banks_ok q'"
proof (cases "ALTERA_ASMIP2_MAX_NUM_FLASH_CHIP \<le> num_flashes q")
  case True
  then show ?thesis
    using assms by (simp add: altera_asmip2_add_bank_def)
next
  case False
  let ?q = "q\<lparr>num_flashes := num_flashes q + 1\<rparr>"
  have "unat (num_flashes q) < 3"
    using False by (simp add: ALTERA_ASMIP2_MAX_NUM_FLASH_CHIP_def word_le_nat_alt)
  then have n: "unat (num_flashes q + 1) = unat (num_flashes q) + 1"
    by (simp add: unat_word_ariths)
  have "banks_ok ?q"
    using assms(2) n \<open>unat (num_flashes q) < 3\<close> by (auto simp: banks_ok_def)
  moreover have "0 < num_flashes ?q"
    using n by (simp add: word_less_nat_alt)
  ultimately show ?thesis
    using setup_banks_ok [of k bank np ?q w r q' w'] assms(1) False by (simp add: altera_asmip2_add_bank_def)
qed

lemma add_banks_ok:
  "add_banks k n i q w = Some ((r, q'), w') \<Longrightarrow> banks_ok q \<Longrightarrow> banks_ok q'"
proof (induction n arbitrary: i q w)
  case (Suc n)
  obtain r1 q1 w1 where 1: "altera_asmip2_add_bank k i None q w = Some ((r1, q1), w1)"
    using Suc.prems(1) by (auto split: option.splits)
  have ok: "banks_ok q1"
    by (rule add_bank_ok [OF 1 Suc.prems(2)])
  show ?case
    using Suc.prems(1) 1 ok Suc.IH [of "i + 1" q1 w1] by (auto split: sum.splits)
qed simp

lemma add_nodes_ok:
  "add_nodes k ns bank q w = Some ((r, q'), w') \<Longrightarrow> banks_ok q \<Longrightarrow> banks_ok q'"
proof (induction ns arbitrary: bank q w)
  case (Cons node ns)
  obtain reg fast_read where node: "node = (reg, fast_read)"
    by fastforce
  let ?bank = "case reg of None \<Rightarrow> bank | Some b \<Rightarrow> b"
  show ?case
  proof (cases "ALTERA_ASMIP2_MAX_NUM_FLASH_CHIP \<le> ?bank")
    case True
    then show ?thesis
      using Cons.prems by (auto simp: node Let_def split: prod.splits)
  next
    case False
    obtain r1 q1 w1 where 1: "altera_asmip2_add_bank k ?bank (Some fast_read) q w = Some ((r1, q1), w1)"
      using Cons.prems(1) False by (auto simp: node Let_def split: option.splits)
    have ok: "banks_ok q1"
      by (rule add_bank_ok [OF 1 Cons.prems(2)])
    show ?thesis
      using Cons.prems(1) False 1 ok Cons.IH [of ?bank q1 w1]
      by (cases r1) (auto simp: node Let_def split: prod.splits)
  qed
qed simp

lemma probe_banks_ok:
  assumes "altera_asmip2_probe k platdata config_of np bank0 None w = Some ((r, Some q), w')"
  shows "banks_ok q"
  using assms
  by (auto simp: altera_asmip2_probe_def altera_asmip2_probe_with_pdata_def
      split: option.splits sum.splits prod.splits if_splits
      intro: add_banks_ok add_nodes_ok create_banks_ok)

subsection \<open>Removing\<close>

text \<open>The banks that were unregistered, the last one first.\<close>

fun unregistered :: "event list \<Rightarrow> int list" where
  "unregistered [] = []"
| "unregistered (e # es) =
     (case e of
        Call f xs r \<Rightarrow> if f = Kfn ''mtd_device_unregister'' then ret_val xs # unregistered es else unregistered es
      | _ \<Rightarrow> unregistered es)"

text \<open>The slots that are taken, from number \<open>i\<close> on.\<close>

fun taken :: "nat \<Rightarrow> spi_nor option list \<Rightarrow> int list" where
  "taken i [] = []"
| "taken i (f # fs) = (if f = None then taken (Suc i) fs else int i # taken (Suc i) fs)"

lemma taken_append: "taken i (fs @ gs) = taken i fs @ taken (i + length fs) gs"
  by (induction fs arbitrary: i) simp_all

lemma taken_none: "\<forall>f \<in> set fs. f = None \<Longrightarrow> taken i fs = []"
  by (induction fs arbitrary: i) simp_all

lemma remove_banks_unregister:
  "remove_banks_from i fs w = (Inr (), w') \<Longrightarrow>
   unregistered (w_trace w') = rev (taken i fs) @ unregistered (w_trace w)"
proof (induction i fs w rule: remove_banks_from.induct)
  case (3 i nor fs w)
  obtain r w1 where k: "kstatus (Kfn ''mtd_device_unregister'') [int i] w = (r, w1)"
    by fastforce
  then have r: "r = Inr ()"
    using 3(2) by (cases r) auto
  have "unregistered (w_trace w1) = int i # unregistered (w_trace w)"
    using k by (auto simp: kstatus_def kcall_def Let_def ret_val_def split: sum.splits)
  moreover have "unregistered (w_trace w') = rev (taken (Suc i) fs) @ unregistered (w_trace w1)"
    using 3 k r by simp
  ultimately show ?case
    by simp
qed simp_all

lemma taken_all:
  assumes "banks_ok q"
  shows "taken 0 (take (unat (num_flashes q)) (asmip2_flash q)) = taken 0 (asmip2_flash q)"
proof -
  let ?n = "unat (num_flashes q)"
  have "\<forall>f \<in> set (drop ?n (asmip2_flash q)). f = None"
    using assms by (auto simp: banks_ok_def in_set_conv_nth)
  then have "taken (length (take ?n (asmip2_flash q))) (drop ?n (asmip2_flash q)) = []"
    by (rule taken_none)
  then show ?thesis
    using taken_append [of 0 "take ?n (asmip2_flash q)" "drop ?n (asmip2_flash q)"] by simp
qed

text \<open>
  C18. Whatever the probe's result, a remove that succeeds unregisters each bank that the probe has
  taken a slot for exactly once, in order, and there are at most three.
\<close>

theorem asmip2_probe_remove:
  assumes "altera_asmip2_probe k platdata config_of np bank0 None w = Some ((r, Some q), w1)"
    and "altera_asmip2_remove (Some q) w2 = (Inr (), w3)"
  shows "unregistered (w_trace w3) = rev (taken 0 (asmip2_flash q)) @ unregistered (w_trace w2)
    \<and> length (asmip2_flash q) = 3"
proof -
  have ok: "banks_ok q"
    by (rule probe_banks_ok [OF assms(1)])
  have "unregistered (w_trace w3) =
      rev (taken 0 (take (unat (num_flashes q)) (asmip2_flash q)))
      @ unregistered (w_trace (kvoid (Kfn ''mutex_destroy'') [] w2))"
    using assms(2) unfolding altera_asmip2_remove_def altera_asmip2_remove_banks_def
    by (intro remove_banks_unregister) simp
  then show ?thesis
    using ok unfolding taken_all [OF ok] by (simp add: kvoid_def banks_ok_def)
qed

subsection \<open>A chip that does not answer\<close>

text \<open>Hardware that never has an answer, and a clock that is past the timeout at each look.\<close>

definition late :: "world \<Rightarrow> bool" where
  "late w \<longleftrightarrow> w_readl w = (\<lambda>_ _. 0) \<and> w_kcall w = (\<lambda>tr f xs. Inr [100000000000 * int (length tr)])"

definition late_world :: world where
  "late_world =
     \<lparr>w_readq = (\<lambda>_ _. 0), w_readl = (\<lambda>_ _. 0), w_readb = (\<lambda>_ _. 0),
      w_kcall = (\<lambda>tr f xs. Inr [100000000000 * int (length tr)]), w_trace = []\<rparr>"

lemma late_emit [simp]: "late (emit e w) = late w"
  by (simp add: late_def)

lemma late_steps:
  assumes "late w"
  shows "readl a w = (0, emit (RdL a 0) w)"
    and "kcall f xs w = (Inr [100000000000 * int (length (w_trace w))],
      emit (Call f xs (Inr [100000000000 * int (length (w_trace w))])) w)"
  using assms by (simp_all add: late_def readl_def kcall_def Let_def)

lemma late_ktime:
  assumes "late w"
  shows "ktime_get w = (100000000000 * int (length (w_trace w)),
    emit (Call (Kfn ''ktime_get'') [] (Inr [100000000000 * int (length (w_trace w))])) w)"
  by (simp add: ktime_get_def kvalue_def late_steps [OF assms] ret_val_def)

lemma late_poll:
  assumes "late w" and "\<not> cond 0"
  shows "\<exists>w'. qspi_poll csr cond w = Some (Inl ETIMEDOUT, w') \<and> late w'"
proof -
  let ?t = "100000000000 * int (length (w_trace w))"
  let ?w1 = "emit (Call (Kfn ''ktime_get'') [] (Inr [?t])) w"
  let ?a = "csr + QSPI_FIFO_CNT_REG"
  have w1: "late ?w1"
    using assms(1) by simp
  have "\<exists>w'. poll_loop ?a cond 5 10000000 (?t + 1000 * int 10000000) ?w1 = Some (0, w') \<and> late w'"
    by (subst poll_loop.simps) (simp add: late_steps late_ktime w1 assms)
  then show ?thesis
    using assms(2) by (auto simp: qspi_poll_def readl_poll_timeout_def late_ktime [OF assms(1)]
        QSPI_POLL_INTERVAL_US_def QSPI_POLL_TIMEOUT_US_def)
qed

lemma late_read_id:
  assumes "late w"
  shows "\<exists>w'. spi_nor_scan k (asmip2_driver csr) None mode np nor w = Some (Inl ENOENT, w') \<and> late w'"
proof -
  let ?w2 = "writel (QSPI_ACTION_EN OR QSPI_ACTION_SC OR push_bit QSPI_ACTION_READ_BACK_SFT (of_nat SPI_NOR_MAX_ID_LEN))
      (csr + QSPI_ACTION_REG) (writeb SPINOR_OP_RDID (csr + QSPI_DATA_REG) w)"
  have "late ?w2"
    using assms by (simp add: writel_def writeb_def)
  moreover have "\<not> rx_holds SPI_NOR_MAX_ID_LEN 0"
    by (simp add: rx_holds_def SPI_NOR_MAX_ID_LEN_def)
  ultimately obtain w3 where w3: "qspi_poll csr (rx_holds SPI_NOR_MAX_ID_LEN) ?w2 = Some (Inl ETIMEDOUT, w3)" "late w3"
    using late_poll by blast
  let ?w4 = "writel QSPI_ACTION_EN (csr + QSPI_ACTION_REG) w3"
  have "altera_asmip2_read_reg csr SPINOR_OP_RDID SPI_NOR_MAX_ID_LEN w = Some (Inl ETIMEDOUT, ?w4)"
    using w3(1) by (simp add: altera_asmip2_read_reg_def nor_catch_def Let_def QSPI_FIFO_DEPTH_def SPI_NOR_MAX_ID_LEN_def)
  then have "scan_identify (asmip2_driver csr) None w = Some (Inl ENOENT, ?w4)"
    by (simp add: scan_identify_def spi_nor_read_id_def asmip2_driver_def nor_chain_def nor_catch_def nor_fail_def)
  moreover have "spi_nor_check (asmip2_driver csr)"
    by (simp add: spi_nor_check_def asmip2_driver_def)
  moreover have "late ?w4"
    using w3(2) by (simp add: writel_def)
  ultimately show ?thesis
    by (simp add: spi_nor_scan_def nor_chain_def nor_catch_def nor_fail_def)
qed

text \<open>The probe fails, with the slot of the bank taken.\<close>

lemma late_probe:
  "\<exists>w1. altera_asmip2_probe sample_kernel (Some \<lparr>plat_csr_base = 0, num_chip_sel = 1\<rparr>) False None 0 None late_world
    = Some ((Inl ENOENT, Some \<lparr>csr_base = 0, num_flashes = 1, asmip2_flash = [Some zeroed_nor, None, None]\<rparr>), w1)
    \<and> late w1"
proof -
  let ?q = "\<lparr>csr_base = 0, num_flashes = 0, asmip2_flash = [None, None, None]\<rparr>"
  have "late late_world"
    by (simp add: late_def late_world_def)
  then obtain w1 where w1: "altera_asmip2_create 0 late_world = (Inr ?q, w1)" "late w1"
    by (simp add: altera_asmip2_create_def late_steps Let_def udelay_def writel_def numeral_3_eq_3)
  let ?w2 = "emit (Call (Kfn ''devm_kzalloc'') [] (Inr [100000000000 * int (length (w_trace w1))])) w1"
  have "late ?w2"
    using w1(2) by simp
  then obtain w3 where w3: "spi_nor_scan sample_kernel (asmip2_driver 0) None SPI_NOR_FAST None zeroed_nor ?w2
      = Some (Inl ENOENT, w3)" "late w3"
    using late_read_id by blast
  have "altera_asmip2_add_bank sample_kernel 0 None ?q w1
    = Some ((Inl ENOENT, \<lparr>csr_base = 0, num_flashes = 1, asmip2_flash = [Some zeroed_nor, None, None]\<rparr>), w3)"
    by (simp add: altera_asmip2_add_bank_def altera_asmip2_setup_banks_def late_steps [OF w1(2)] w3(1)
        ALTERA_ASMIP2_MAX_NUM_FLASH_CHIP_def)
  then show ?thesis
    using w1 w3(2) by (simp add: altera_asmip2_probe_def altera_asmip2_probe_with_pdata_def)
qed

theorem asmip2_probe_remove_witness:
  "\<exists>w2 w3. altera_asmip2_remove (Some \<lparr>csr_base = 0, num_flashes = 1, asmip2_flash = [Some zeroed_nor, None, None]\<rparr>) w2
      = (Inr (), w3) \<and> unregistered (w_trace w3) = 0 # unregistered (w_trace w2)"
proof -
  let ?q = "\<lparr>csr_base = 0, num_flashes = 1, asmip2_flash = [Some zeroed_nor, None, None]\<rparr>"
  obtain w2 where w2: "altera_asmip2_probe sample_kernel (Some \<lparr>plat_csr_base = 0, num_chip_sel = 1\<rparr>) False None 0 None
      late_world = Some ((Inl ENOENT, Some ?q), w2)" "late w2"
    using late_probe by blast
  have "late (kvoid (Kfn ''mutex_destroy'') [] w2)"
    using w2(2) by (simp add: kvoid_def)
  then obtain w3 where w3: "altera_asmip2_remove (Some ?q) w2 = (Inr (), w3)"
    by (simp add: altera_asmip2_remove_def altera_asmip2_remove_banks_def kstatus_def late_steps)
  show ?thesis
    using asmip2_probe_remove [OF w2(1) w3] w3 by (intro exI [of _ w2] exI [of _ w3]) simp
qed

end
