(* ===== verification/Spi_Nor_Geometry.thy ===== *)
theory Spi_Nor_Geometry
  imports Spi_Nor_Scan Spi_Nor_Lock
begin

text \<open>
  What a scan guarantees of the record that it sets up, for every chip of the table: the geometry that
  the erase, read and write operations rely on.
\<close>

subsection \<open>The entries of the table\<close>

definition entry_ok :: "flash_info \<Rightarrow> bool" where
  "entry_ok info \<longleftrightarrow>
     0 < unat (fi_sector_size info) \<and> 0 < unat (fi_n_sectors info) \<and> 0 < unat (fi_page_size info)
     \<and> unat (fi_sector_size info) * unat (fi_n_sectors info) < 2 ^ 32
     \<and> (fi_has info SECT_4K \<or> fi_has info SECT_4K_PMC \<longrightarrow> 4096 dvd unat (fi_sector_size info))
     \<and> unat (fi_addr_width info) \<le> 3
     \<and> (fi_addr_width info \<noteq> 0 \<longrightarrow>
          unat (fi_sector_size info) * unat (fi_n_sectors info) \<le> 2 ^ (8 * unat (fi_addr_width info)))
     \<and> (fi_has info SPI_S3AN \<longrightarrow> fi_addr_width info = 3 \<and> unat (fi_n_sectors info) \<le> 4096)"

named_theorems entry_defs \<open>definitions that an entry unfolds to\<close>

lemmas entry_flags [entry_defs] =
  SECT_4K_def SPI_NOR_NO_ERASE_def SST_WRITE_def SPI_NOR_NO_FR_def SECT_4K_PMC_def SPI_NOR_DUAL_READ_def
  SPI_NOR_QUAD_READ_def USE_FSR_def SPI_NOR_HAS_LOCK_def SPI_NOR_HAS_TB_def SPI_S3AN_def
  SPI_NOR_4B_OPCODES_def NO_CHIP_ERASE_def

lemmas entry_macros [entry_defs] =
  INFO_def INFO6_def CAT25_INFO_def S3AN_INFO_def fi_has_def entry_ok_def

lemma ids_ok_1: "list_all entry_ok ids_atmel" "list_all entry_ok ids_eon" "list_all entry_ok ids_esmt"
  "list_all entry_ok ids_everspin" "list_all entry_ok ids_fujitsu" "list_all entry_ok ids_gigadevice"
  by (simp_all add: ids_atmel_def ids_eon_def ids_esmt_def ids_everspin_def ids_fujitsu_def ids_gigadevice_def entry_defs)

lemma ids_ok_2: "list_all entry_ok ids_intel_numonyx" "list_all entry_ok ids_issi" "list_all entry_ok ids_macronix"
  "list_all entry_ok ids_micron" "list_all entry_ok ids_pmc"
  by (simp_all add: ids_intel_numonyx_def ids_issi_def ids_macronix_def ids_micron_def ids_pmc_def entry_defs)

lemma ids_ok_3: "list_all entry_ok ids_spansion" "list_all entry_ok ids_sst" "list_all entry_ok ids_st"
  by (simp_all add: ids_spansion_def ids_sst_def ids_st_def entry_defs)

lemma ids_ok_4: "list_all entry_ok ids_winbond" "list_all entry_ok ids_catalyst" "list_all entry_ok ids_xilinx"
  by (simp_all add: ids_winbond_def ids_catalyst_def ids_xilinx_def entry_defs)

lemma ids_ok: "info \<in> set spi_nor_ids \<Longrightarrow> entry_ok info"
  using ids_ok_1 ids_ok_2 ids_ok_3 ids_ok_4 unfolding spi_nor_ids_def list_all_iff by auto

subsection \<open>Geometry\<close>

definition sized :: "spi_nor \<Rightarrow> bool" where
  "sized nor \<longleftrightarrow> 0 < unat (mtd_erasesize nor) \<and> unat (mtd_erasesize nor) dvd unat (mtd_size nor)
     \<and> 0 < unat (mtd_size nor) \<and> unat (mtd_size nor) < 2 ^ 32 \<and> nor_page_size nor \<noteq> 0 \<and> mtd_write nor \<noteq> None"

definition addressed :: "spi_nor \<Rightarrow> bool" where
  "addressed nor \<longleftrightarrow> 0 < nor_addr_width nor \<and> nor_addr_width nor \<le> 4
     \<and> unat (mtd_size nor) \<le> 2 ^ (8 * unat (nor_addr_width nor))"

lemma unat_ucast16: "unat (ucast (x :: u16) :: u32) = unat x"
proof -
  have "unat x < 2 ^ 32"
    by (rule order.strict_trans2 [OF unsigned_less]) simp
  then show ?thesis
    by (simp add: unsigned_ucast_eq take_bit_nat_eq_self_iff)
qed

lemma unat_mult32: "unat (x :: u32) * unat y < 2 ^ 32 \<Longrightarrow> unat (x * y) = unat x * unat y"
  by (simp add: unat_word_ariths)

lemma setup_size:
  assumes "entry_ok info"
  shows "unat (mtd_size (scan_setup k info np nor)) = unat (fi_sector_size info) * unat (fi_n_sectors info)"
  using assms unat_mult32 [of "fi_sector_size info" "ucast (fi_n_sectors info)"]
  by (simp add: scan_setup_def Let_def entry_ok_def unat_ucast32 unat_ucast16 split: prod.split)

lemma setup_sized:
  assumes "entry_ok info"
  shows "sized (scan_setup k info np nor)"
proof -
  note e = assms [unfolded entry_ok_def]
  have "unat (mtd_erasesize (scan_setup k info np nor)) = unat (fi_sector_size info)
      \<or> unat (mtd_erasesize (scan_setup k info np nor)) = 4096 \<and> 4096 dvd unat (fi_sector_size info)"
    using e by (auto simp: scan_setup_def Let_def)
  then have "0 < unat (mtd_erasesize (scan_setup k info np nor))"
    "unat (mtd_erasesize (scan_setup k info np nor)) dvd unat (fi_sector_size info) * unat (fi_n_sectors info)"
    using e by auto
  moreover have "unat (nor_page_size (scan_setup k info np nor)) = unat (fi_page_size info)"
    by (simp add: scan_setup_def Let_def unat_ucast16 split: prod.split)
  moreover have "mtd_write (scan_setup k info np nor) \<noteq> None"
    by (simp add: scan_setup_def Let_def split: prod.split)
  ultimately show ?thesis
    using e unfolding sized_def setup_size [OF assms] by auto
qed

subsection \<open>The steps of a scan\<close>

lemma read_mode_sized:
  assumes "sized nor" and "scan_read_mode k D info mode nor s = Some (Inr nor', s')"
  shows "sized (scan_opcodes nor') \<and> mtd_size nor' = mtd_size nor \<and> nor_page_size nor' = nor_page_size nor"
proof -
  have "nor' = nor \<or> (\<exists>r. nor' = nor\<lparr>nor_flash_read := r\<rparr>)"
    using assms(2) by (auto simp: scan_read_mode_def nor_fail_def split: if_splits elim!: nor_chainE)
  then show ?thesis
    using assms(1) by (auto simp: sized_def scan_opcodes_def)
qed

lemma set_4byte_fields [simp]:
  "mtd_size (spi_nor_set_4byte_opcodes k info nor) = mtd_size nor"
  "nor_page_size (spi_nor_set_4byte_opcodes k info nor) = nor_page_size nor"
  "mtd_write (spi_nor_set_4byte_opcodes k info nor) = mtd_write nor"
  "nor_addr_width (spi_nor_set_4byte_opcodes k info nor) = nor_addr_width nor"
  "mtd_erasesize (spi_nor_set_4byte_opcodes k info nor) =
    (if JEDEC_MFR info = SNOR_MFR_SPANSION k then fi_sector_size info else mtd_erasesize nor)"
  by (simp_all add: spi_nor_set_4byte_opcodes_def Let_def)

text \<open>The width of an address holds the size, from the entry or by the size itself.\<close>

lemma addr_width_addressed:
  assumes "entry_ok info" and "sized nor"
    and "unat (mtd_size nor) = unat (fi_sector_size info) * unat (fi_n_sectors info)"
    and "scan_addr_width k D info nor s = Some (Inr nor', s')"
  shows "sized nor' \<and> addressed nor' \<and> nor_page_size nor' = nor_page_size nor
    \<and> (fi_addr_width info \<noteq> 0 \<longrightarrow> nor_addr_width nor' = ucast (fi_addr_width info))"
proof (cases "fi_addr_width info = 0")
  case False
  let ?a = "unat (fi_addr_width info)"
  have nor': "nor' = nor\<lparr>nor_addr_width := ucast (fi_addr_width info)\<rparr>"
    using assms(4) False by (simp add: scan_addr_width_def)
  have a: "0 < ?a" "?a \<le> 3" "unat (mtd_size nor) \<le> 2 ^ (8 * ?a)"
    using assms(1,3) False by (simp_all add: entry_ok_def unat_gt_0)
  have "unat (ucast (fi_addr_width info) :: u8) = ?a"
    using a(2) by (simp add: unsigned_ucast_eq take_bit_nat_eq_self_iff)
  then show ?thesis
    using a assms(2) False by (simp add: nor' sized_def addressed_def word_less_nat_alt word_le_nat_alt)
next
  case True
  show ?thesis
  proof (cases "0x1000000 < mtd_size nor")
    case big: True
    then have "nor' = spi_nor_set_4byte_opcodes k info (nor\<lparr>nor_addr_width := 4\<rparr>) \<or> nor' = nor\<lparr>nor_addr_width := 4\<rparr>"
      using assms(4) True by (auto simp: scan_addr_width_def Let_def split: if_splits elim!: nor_catchE)
    moreover have "unat (fi_sector_size info) dvd unat (mtd_size nor)" "0 < unat (fi_sector_size info)"
      using assms(1,3) by (simp_all add: entry_ok_def)
    ultimately show ?thesis
      using assms(2) True by (auto simp: sized_def addressed_def)
  next
    case small: False
    then have "nor' = nor\<lparr>nor_addr_width := 3\<rparr>"
      using assms(4) True by (simp add: scan_addr_width_def)
    then show ?thesis
      using assms(2) True small by (simp add: sized_def addressed_def word_less_nat_alt)
  qed
qed

lemma s3an_sized:
  assumes "entry_ok info" and "fi_has info SPI_S3AN" and "sized nor" and "addressed nor" and "nor_addr_width nor = 3"
  shows "sized (s3an_setup info val nor) \<and> addressed (s3an_setup info val nor)"
proof (cases "val AND XSR_PAGESIZE = 0")
  case True
  then show ?thesis
    using assms(3,4) by (simp add: s3an_setup_def Let_def sized_def addressed_def)
next
  case False
  define p :: u32 where "p = (if nor_page_size nor = 264 then 256 else 512)"
  let ?n = "unat (fi_n_sectors info)"
  have n: "0 < ?n" "?n \<le> 4096"
    using assms(1,2) by (simp_all add: entry_ok_def)
  have p: "unat p = 256 \<or> unat p = 512" "unat (8 * p) = 8 * unat p"
    by (simp_all add: p_def)
  have le: "8 * unat p * ?n \<le> 4096 * 4096"
    using p(1) n(2) by (intro mult_le_mono) auto
  then have "unat (8 * p * ucast (fi_n_sectors info)) = 8 * unat p * ?n"
    using unat_mult32 [of "8 * p" "ucast (fi_n_sectors info)"] p(2) by (simp add: unat_ucast16)
  moreover have "mtd_size (s3an_setup info val nor) = ucast (8 * p * ucast (fi_n_sectors info))"
    "mtd_erasesize (s3an_setup info val nor) = 8 * p" "nor_page_size (s3an_setup info val nor) = p"
    "mtd_write (s3an_setup info val nor) = mtd_write nor" "nor_addr_width (s3an_setup info val nor) = nor_addr_width nor"
    using False by (simp_all add: s3an_setup_def Let_def p_def)
  ultimately show ?thesis
    using p n le assms(3,5) by (auto simp: sized_def addressed_def unat_ucast32)
qed

lemma finish_sized:
  assumes "entry_ok info" and "sized nor" and "addressed nor"
    and "fi_addr_width info \<noteq> 0 \<longrightarrow> nor_addr_width nor = ucast (fi_addr_width info)"
    and "scan_finish D info nor s = Some (Inr nor', s')"
  shows "sized nor' \<and> addressed nor'"
proof -
  let ?nor1 = "nor\<lparr>nor_read_dummy := spi_nor_read_dummy_cycles nor\<rparr>"
  have nor1: "sized ?nor1" "addressed ?nor1"
    using assms(2,3) by (simp_all add: sized_def addressed_def)
  show ?thesis
  proof (cases "fi_has info SPI_S3AN")
    case True
    then obtain val where "nor' = s3an_setup info val ?nor1"
      using assms(5) by (auto simp: scan_finish_def s3an_nor_scan_def Let_def split: if_splits elim!: nor_chainE)
    moreover have "nor_addr_width ?nor1 = 3"
      using True assms(1,4) by (simp add: entry_ok_def)
    ultimately show ?thesis
      using s3an_sized [OF assms(1) True nor1] by simp
  next
    case False
    then show ?thesis
      using assms(5) nor1 by (auto simp: scan_finish_def Let_def split: if_splits)
  qed
qed

text \<open>The chip is one of the table.\<close>

lemma read_id_known: "spi_nor_read_id D s = Some (Inr info, s') \<Longrightarrow> info \<in> set spi_nor_ids"
  by (auto simp: spi_nor_read_id_def find_Some_iff split: option.splits elim!: nor_chainE)

lemma identify_known: "scan_identify D name s = Some (Inr info, s') \<Longrightarrow> info \<in> set spi_nor_ids"
  by (auto simp: scan_identify_def spi_nor_match_id_def find_Some_iff Option.bind_eq_Some_conv split: option.splits sum.splits
      if_splits elim!: nor_catchE dest!: read_id_known)

text \<open>
  C14. A scan that succeeds leaves a record whose erase size divides its size, whose size fits the
  width of its addresses, at most four bytes, and that has a page size and a write function.
\<close>

theorem spi_nor_scan_geometry:
  assumes "spi_nor_scan k D name mode np nor0 s = Some (Inr nor, s')"
  shows "0 < unat (mtd_erasesize nor) \<and> unat (mtd_erasesize nor) dvd unat (mtd_size nor)
    \<and> 0 < unat (mtd_size nor) \<and> unat (mtd_size nor) < 2 ^ 32
    \<and> 0 < nor_addr_width nor \<and> nor_addr_width nor \<le> 4
    \<and> unat (mtd_size nor) \<le> 2 ^ (8 * unat (nor_addr_width nor))
    \<and> nor_page_size nor \<noteq> 0 \<and> mtd_write nor \<noteq> None"
proof -
  obtain info s1 s2 s3 s4 nor1 nor2 nor3 where
    info: "scan_identify D name s = Some (Inr info, s1)"
    and mode: "scan_read_mode k D info mode (scan_setup k info np nor1) s2 = Some (Inr nor2, s3)"
    and width: "scan_addr_width k D info (scan_opcodes nor2) s3 = Some (Inr nor3, s4)"
    and fin: "scan_finish D info nor3 s4 = Some (Inr nor, s')"
    using assms unfolding spi_nor_scan_def Let_def by (auto split: if_splits elim!: nor_chainE)
  have ok: "entry_ok info"
    using ids_ok [OF identify_known [OF info]] .
  note m = read_mode_sized [OF setup_sized [OF ok] mode]
  have sz: "unat (mtd_size (scan_opcodes nor2)) = unat (fi_sector_size info) * unat (fi_n_sectors info)"
    using m setup_size [OF ok] by (simp add: scan_opcodes_def)
  note w = addr_width_addressed [OF ok conjunct1 [OF m] sz width]
  have "sized nor \<and> addressed nor"
    by (rule finish_sized [OF ok _ _ _ fin]) (use w in blast)+
  then show ?thesis
    by (simp add: sized_def addressed_def)
qed

text \<open>A controller driver whose chip answers the id of the first entry, and 0 to anything else.\<close>

definition sample_driver :: "unit nor_driver" where
  "sample_driver =
     \<lparr>nd_prepare = None, nd_unprepare = None,
      nd_read_reg = Some (\<lambda>op n s. Some (Inr (if op = SPINOR_OP_RDID then [0x1f, 0x66, 0x01, 0, 0, 0] else [0]), s)),
      nd_write_reg = Some (\<lambda>op bs s. Some (Inr (), s)),
      nd_read = Some (\<lambda>nor a n s. Some (Inr (replicate n 0), s)),
      nd_write = Some (\<lambda>nor a bs s. Some (Inr (length bs), s)),
      nd_erase = None, nd_jiffies = (\<lambda>s. (0, s))\<rparr>"

lemma sample_id: "find (id_matches [0x1f, 0x66, 0x01, 0, 0, 0]) spi_nor_ids
    = Some (INFO ''at25fs010'' 0x1f6601 0 0x8000 4 SECT_4K)"
  by (simp add: spi_nor_ids_def ids_atmel_def id_matches_def INFO_def id_byte_def numeral_3_eq_3)

lemma sample_scan:
  "\<exists>nor. spi_nor_scan sample_kernel sample_driver None SPI_NOR_FAST None zero () = Some (Inr nor, ())
    \<and> mtd_size nor = 0x20000"
  if "nor_flags zero = 0"
proof -
  let ?info = "INFO ''at25fs010'' 0x1f6601 0 0x8000 4 SECT_4K"
  have id: "scan_identify sample_driver None () = Some (Inr ?info, ())"
    by (simp add: scan_identify_def spi_nor_read_id_def sample_driver_def sample_id nor_chain_def nor_catch_def nor_ok_def)
  have flags: "\<not> fi_has ?info f" if "f \<in> {SPI_S3AN, USE_FSR, SPI_NOR_HAS_TB, NO_CHIP_ERASE, SPI_NOR_HAS_LOCK}" for f
    using that by (auto simp: fi_has_def INFO_def entry_flags)
  have fields: "fi_sector_size ?info = 0x8000" "fi_n_sectors ?info = 4" "fi_addr_width ?info = 0"
    by (simp_all add: INFO_def)
  have wait: "spi_nor_wait_till_ready sample_kernel sample_driver nor () = Some (Inr (), ())"
    if "nor_flags nor = 0" for nor
  proof -
    have "wait_ready_loop sample_driver nor d () = Some (Inr (), ())" for d
      by (subst wait_ready_loop.simps)
        (simp add: sample_driver_def spi_nor_ready_def has_flag_def that spi_nor_sr_ready_def read_sr_def rd_reg_def
          nor_chain_def nor_catch_def nor_ok_def SPINOR_OP_RDSR_def SPINOR_OP_RDID_def)
    moreover have "nd_jiffies sample_driver () = (0, ())"
      by (simp add: sample_driver_def)
    ultimately show ?thesis
      by (simp add: spi_nor_wait_till_ready_def spi_nor_wait_till_ready_with_timeout_def)
  qed
  have wr: "the (nd_write_reg sample_driver) op bs () = Some (Inr (), ())" for op bs
    by (simp add: sample_driver_def)
  have unprotect: "scan_unprotect sample_kernel sample_driver ?info nor () = Some (Inr (), ())"
    if "nor_flags nor = 0" for nor
    using wait [OF that]
    by (simp add: scan_unprotect_def nor_catch_def nor_ok_def write_enable_def write_sr_def wr)
  have check: "spi_nor_check sample_driver"
    by (simp add: spi_nor_check_def sample_driver_def)
  have size: "mtd_size (scan_setup sample_kernel ?info None zero) = 0x20000"
    by (simp add: scan_setup_def Let_def fields split: prod.split)
  show ?thesis
    using that size
    by (simp add: spi_nor_scan_def check nor_chain_def nor_catch_def nor_ok_def id flags unprotect scan_read_mode_def
        scan_addr_width_def fields scan_finish_def Let_def scan_opcodes_def SPI_NOR_MAX_ADDR_WIDTH_def)
qed

theorem spi_nor_scan_geometry_witness:
  "\<exists>nor. spi_nor_scan sample_kernel sample_driver None SPI_NOR_FAST None (sample_chip 0 0) () = Some (Inr nor, ())
    \<and> mtd_size nor = 0x20000 \<and> unat (mtd_erasesize nor) dvd 0x20000"
proof -
  have "nor_flags (sample_chip 0 0) = 0"
    by (simp add: sample_chip_def)
  then obtain nor where nor: "spi_nor_scan sample_kernel sample_driver None SPI_NOR_FAST None (sample_chip 0 0) ()
      = Some (Inr nor, ())" "mtd_size nor = 0x20000"
    using sample_scan by blast
  show ?thesis
    using spi_nor_scan_geometry [OF nor(1)] nor by (intro exI [of _ nor]) simp
qed

end
