(* ===== verification/Spec2Isabelle.thy ===== *)
theory Spec2Isabelle
  imports Driver_Prelude Feature_Regs Feature_Dev Port_Reset Msix Afu_Region Dma_Region
    Afu_Umsg Afu_Error Afu Afu_File Pcie_Ports Uuid Pcie_Enum Pcie Pcie_Account Pcie_Probe Pcie_Walk Fpga_Mgr Fme_Data
    Fme_Pr Fme_Pr_Push Fme_Error Fme_Perf Fme_Main Feature_Account Fme_Account
    Asmip2_Live Asmip2_Banks Spi_Nor_Geometry
begin

text \<open>
  \<^bold>\<open>The Intel FPGA drivers.\<close>

  This development models the kernel drivers of the repository: the PCIe, management engine and port
  drivers of \<^verbatim>\<open>drivers/fpga/intel\<close>, the FPGA manager core \<^verbatim>\<open>drivers/fpga/fpga-mgr.c\<close>, and the flash
  drivers \<^verbatim>\<open>drivers/mtd/spi-nor\<close>, with the headers under \<^verbatim>\<open>include\<close> that they share. All paths below
  are relative to the root of the repository.

  \<^bold>\<open>The program.\<close> An FPGA card shows itself as a PCIe device whose BARs hold linked lists of feature
  headers. The PCIe driver (\<^verbatim>\<open>pcie.c\<close>) walks these lists and creates one platform device for the
  management engine (FME) and one for each port, each with a table of the sub-features found. The
  FME driver (\<^verbatim>\<open>fme-main.c\<close>, \<^verbatim>\<open>fme-pr.c\<close>, \<^verbatim>\<open>fme-error.c\<close>, \<^verbatim>\<open>fme-iperf.c\<close>, \<^verbatim>\<open>fme-dperf.c\<close>) and the port
  driver (\<^verbatim>\<open>afu.c\<close>, \<^verbatim>\<open>afu-error.c\<close>, \<^verbatim>\<open>afu-check.c\<close>, \<^verbatim>\<open>region.c\<close>, \<^verbatim>\<open>dma-region.c\<close>) bind to them through
  the framework of \<^verbatim>\<open>feature-dev.c\<close>: a table from the names of sub-features to operations, called in
  turn to initialise, to remove and to answer an ioctl. User space opens the devices, maps the
  registers of an accelerator, pins memory for DMA, binds interrupts to eventfds, takes ports away
  from and gives them to virtual functions, and loads a new image through the FPGA manager. The FME
  has a flash device as well, driven by \<^verbatim>\<open>altera-asmip2.c\<close> below the SPI NOR framework
  \<^verbatim>\<open>spi-nor.c\<close>.

  \<^bold>\<open>The environment.\<close> Hardware registers and kernel functions are not part of the repository. A
  \<open>world\<close> (theory \<open>Driver_Prelude\<close>) holds the answers of both as functions of the trace of everything
  done so far, and that trace. So every theorem holds for every behaviour of the hardware and of the
  kernel, failures of any call at any point included, and a property may speak of what was written,
  in which order, and of what was taken and given back. \<open>balance\<close> is the account of a kind of
  resource (pages, mappings, memory, references, ids, interrupt lines) that the calls of a trace
  leave. State is passed explicitly; an operation that can fail returns the left side of a sum; a
  loop that need not end is a \<^theory_text>\<open>partial_function\<close> whose value \<open>None\<close> is a run that does not return;
  where the walk of the feature lists can follow a null pointer, its result is an \<open>outcome\<close> with \<open>Fault\<close> for it;
  integers have the width they have in C.

  \<^bold>\<open>Theories.\<close> In the order in which they build on each other:

  \<^item> \<open>Driver_Prelude\<close>: words, error codes, the world and its primitives, accounts of resources, and
    the lemmas on traces that all components use.
  \<^item> \<open>Feature_Regs\<close>: every register union and register block of \<^verbatim>\<open>include/intel/feature-dev.h\<close> as a
    list of named bit fields; \<open>get_field\<close> and \<open>set_field\<close> are the member accesses.
  \<^item> \<open>Feature_Dev\<close>: platform data (\<open>feature_platform_data\<close>), exclusive and shared use of a device,
    initialisation of sub-features with rollback, character devices (\<^verbatim>\<open>feature-dev.c\<close>).
  \<^item> \<open>Port_Reset\<close>: the register polling macro, nested disable and enable of a port, reset. \<open>Msix\<close>:
    the binding of interrupt vectors. Both are from \<^verbatim>\<open>feature-dev.c\<close>.
  \<^item> \<open>Afu_Region\<close> (\<^verbatim>\<open>region.c\<close>), \<open>Dma_Region\<close> (\<^verbatim>\<open>dma-region.c\<close>), \<open>Afu_Umsg\<close> (the message engine of
    \<^verbatim>\<open>afu.c\<close>), \<open>Afu_Error\<close> (\<^verbatim>\<open>afu-error.c\<close>, \<^verbatim>\<open>afu-check.c\<close>), \<open>Afu\<close> (the rest of \<^verbatim>\<open>afu.c\<close>) and \<open>Afu_File\<close>
    (what the port's device file promises).
  \<^item> \<open>Pcie_Ports\<close>, \<open>Uuid\<close> (\<^verbatim>\<open>uuid_mod.c\<close>), \<open>Pcie_Enum\<close> (with \<^verbatim>\<open>pcie_check.c\<close>) and \<open>Pcie\<close>: the port list,
    the parsing of the feature lists, probe and remove of \<^verbatim>\<open>pcie.c\<close>. \<open>Pcie_Account\<close> and \<open>Pcie_Probe\<close>
    prove the account of a device, \<open>Pcie_Walk\<close> that the walk ends.
  \<^item> \<open>Fpga_Mgr\<close> (\<^verbatim>\<open>fpga-mgr.c\<close>), \<open>Fme_Data\<close> (\<^verbatim>\<open>include/intel/fme.h\<close>), \<open>Fme_Pr\<close> and \<open>Fme_Pr_Push\<close>
    (\<^verbatim>\<open>fme-pr.c\<close> and what it pushes), \<open>Fme_Error\<close>, \<open>Fme_Perf\<close> (\<^verbatim>\<open>fme-iperf.c\<close> and \<^verbatim>\<open>fme-dperf.c\<close>),
    \<open>Fme_Main\<close>; \<open>Feature_Account\<close> and \<open>Fme_Account\<close> prove the account of an FME from probe to remove.
  \<^item> \<open>Spi_Nor\<close> (the data of \<^verbatim>\<open>spi-nor-mod.h\<close> and the operations), \<open>Spi_Nor_Ids\<close> (all entries of the chip
    table), \<open>Spi_Nor_Scan\<close>, \<open>Spi_Nor_Lock\<close> (block protection), all from \<^verbatim>\<open>spi-nor.c\<close>; \<open>Spi_Nor_Commands\<close>
    (the commands that reach the chip) and \<open>Spi_Nor_Geometry\<close> (what a scan leaves).
  \<^item> \<open>Asmip2\<close> (\<^verbatim>\<open>altera-asmip2.c\<close> and the polling macro of \<^verbatim>\<open>iopoll-mod.h\<close>), \<open>Asmip2_Commands\<close>,
    \<open>Asmip2_Flash\<close> (the framework on this controller), \<open>Asmip2_Live\<close>, \<open>Asmip2_Banks\<close>.
\<close>

text \<open>
  \<^bold>\<open>Interfaces.\<close> Where a component relies on another through a contract, the contract is a locale,
  interpreted on the model of the code that provides it:

  \<^item> \<open>device_use\<close> (\<open>Feature_Dev\<close>): exclusive or shared use of a device, provided by the platform data.
  \<^item> \<open>feature_ops_frame\<close> (\<open>Feature_Dev\<close>): operations of sub-features leave the table of sub-features
    alone; provided by the port's operations (\<open>Afu\<close>). \<open>feature_ops_account\<close> (\<open>Feature_Account\<close>) extends
    it by what initialising takes; provided by the FME's operations (\<open>Fme_Account\<close>).
  \<^item> \<open>pushing_ops\<close>, \<open>keeping_ops\<close> and \<open>balanced_ops\<close> (\<open>Fpga_Mgr\<close>): the low level operations of a manager
    push what they are given, keep what they do not own and give back what they take; provided by
    \<^verbatim>\<open>fme-pr.c\<close> (\<open>Fme_Pr_Push\<close>).
  \<^item> \<open>flash_driver\<close> (\<open>Spi_Nor_Commands\<close>): each function of a flash controller sends the chip exactly one
    command, and a read returns the bytes that answer it; provided by the ASMI controller
    (\<open>Asmip2_Commands\<close>). Frames and replies are read off the register accesses of the driver: they say
    nothing of what the controller does with them.

  \<^bold>\<open>What is shown.\<close>

  \<^item> Accounts: a failed probe of the PCIe device or of an FME, on every path, gives back what it took,
    and a remove gives back what its probe took, whatever was done in between; mapping and destroying
    DMA regions, binding vectors, partial reconfiguration, loading an image and the last close of a
    port keep theirs. Where the code loses something, the account says exactly what: the pages of a
    short pin, the mapping of a region at bus address 0, a reference to each flash device of an FME.
  \<^item> State: the nesting of port resets, exclusive use of a device, the list of released ports and
    SR-IOV, tiling of the region space, order of the DMA tree, the geometry that a scan leaves, the
    slots of the banks.
  \<^item> Refinement: partial reconfiguration pushes exactly the user's image, and never more words than
    the hardware gave credit for; a flash write reaches the chip as consecutive pieces none of which
    crosses a page, and a flash read returns what came from the data register; the tree search and the
    dispatch loop equal their specification.
  \<^item> Errors and ends: probing ends whatever is in device memory and whichever kernel calls fail, with a
    null pointer under exact conditions only; polling loops end at their bound, commands of the
    flash controller return when the clock runs; the results on the error paths. Where the code does not do what it means to, the theorem states what it does.

  \<^bold>\<open>Bounds and partiality.\<close> \<open>parse_features\<close> and \<open>parse_afus\<close> follow links in device memory. They return
  when the mapping of the BAR does not wrap and its end is not within \<open>2 ^ 24\<close> of the end of the address
  space, since a link is a 24-bit offset forward (\<open>Pcie_Walk\<close>). A port whose device or header feature could not be
  created is reset through a null pointer: the run is a \<open>Fault\<close>, not a result, and gives nothing back. \<open>fpga_wait_register_field\<close> reads at most timeout / interval + 1 times. The polling of
  \<open>Asmip2\<close> ends at a time, so it returns only if the clock moves on, which \<open>clock_runs\<close> states: a sleep of
  at least a microsecond is one on the clock; 5000003 reads bound its five-second timeout. The loops of
  \<open>Spi_Nor\<close> over lengths, and the wait for the chip over jiffies, are partial as they are in C, where
  an empty write does not end; their properties speak of a run that returns, and their witnesses
  of runs that do.

  \<^bold>\<open>Hypotheses on code elsewhere.\<close> \<open>hex_to_bin_ok\<close>, \<open>hweight_ok\<close> and \<open>ilog2_ok\<close> state the documented
  results of these kernel functions. The rebalancing of the kernel's red-black tree is a parameter of
  \<open>Dma_Region\<close> that keeps the order of the nodes. \<open>stable_caps\<close> says that the capability register of a
  port does not change while it is configured, and \<open>maps_low\<close> where the kernel maps the BARs. That the
  kernel can allocate what an enumeration creates (\<open>kernel_creates\<close>) is no hypothesis of the end of a probe, only
  of its not following a null pointer. Each is met by a concrete function in a witness.

  \<^bold>\<open>Not modelled.\<close>

  \<^item> \<^verbatim>\<open>fme-perf.c\<close>: no Makefile builds it and it includes a header that does not exist.
  \<^item> \<^verbatim>\<open>backport.c\<close> and \<^verbatim>\<open>backport.h\<close>: kernel library functions for old kernels; the model takes the kernel's
    functions as calls. Code compiled for old kernels only, as \<^verbatim>\<open>state_store\<close> of \<^verbatim>\<open>fpga-mgr.c\<close> and the
    interrupt code before 4.8, is left out for the same reason.
  \<^item> The tables of sysfs attributes, of file operations and of drivers, and the dispatch of sysfs:
    the functions in them are modelled. Values printed and parsed stand for the text.
  \<^item> Messages and \<^verbatim>\<open>WARN_ON\<close>, other than the reports of the self tests; reads that only serve a message.
  \<^item> Locking: an operation runs under its mutex from beginning to end, and the steps of a history
    are whole operations.
  \<^item> The atomic variant of the polling macro, which has no caller, and what is left in the record of
    a chip by a scan that failed.
\<close>

end
